(* ===== verification/Prelude.thy ===== *)
theory Prelude
  imports Main "HOL-Library.Sublist" "HOL-Library.AList" "HOL-Library.Multiset" "HOL-Library.Code_Target_Nat"
begin

text \<open>
  The shared layer of the development: results (a throw is \<open>Inl\<close>), the loops of the
  source as folds over results, strings as JavaScript sees them, database tables as lists of
  rows with a key, and the generic lemmas the component theories share.

  A HOL \<open>string\<close> stands for the UTF-8 encoding of a well-formed JavaScript string, so
  equality, concatenation, prefixes and splitting at ASCII characters are those of the source;
  \<open>js_length\<close> counts UTF-16 code units and \<open>js_trim\<close> removes the ECMAScript white space.
\<close>

named_theorems res_simps \<comment> \<open>inversion of computations that return a result\<close>
named_theorems tbl_simps \<comment> \<open>lookup after an update of a table\<close>

text \<open>A condition on an optional value that an absent value meets.\<close>

primrec opt_all :: "('a \<Rightarrow> bool) \<Rightarrow> 'a option \<Rightarrow> bool" where
  "opt_all P None = True"
| "opt_all P (Some x) = P x"

lemma opt_all_iff: "opt_all P x \<longleftrightarrow> (\<forall>y. x = Some y \<longrightarrow> P y)"
  by (cases x) auto

section \<open>Results\<close>

text \<open>
  What the modelled code throws: a \<open>WorkError\<close> or a \<open>ProblemError\<close> with its message, status
  and code, a plain \<open>Error\<close>, a \<open>TypeError\<close>, a failed schema parse, and the two errors of the
  database client the handlers can meet.
\<close>

datatype failure =
    WorkError string nat string
  | ProblemError nat string string
  | PlainError string
  | TypeError string
  | SchemaError
  | RecordNotFound
  | UniqueViolation

type_synonym 'a res = "failure + 'a"

definition res_bind :: "'e + 'a \<Rightarrow> ('a \<Rightarrow> 'e + 'b) \<Rightarrow> 'e + 'b" where
  "res_bind m f = (case m of Inl e \<Rightarrow> Inl e | Inr x \<Rightarrow> f x)"

declare res_bind_def [code_unfold]

text \<open>\<open>ensure\<close> is the source's \<open>if (!c) throw e\<close>.\<close>

definition ensure :: "bool \<Rightarrow> 'e \<Rightarrow> 'e + unit" where
  "ensure c e = (if c then Inr () else Inl e)"

definition of_option :: "'e \<Rightarrow> 'a option \<Rightarrow> 'e + 'a" where
  "of_option e x = (case x of None \<Rightarrow> Inl e | Some y \<Rightarrow> Inr y)"

lemma res_bind_Inr [simp]: "res_bind (Inr x) f = f x"
  by (simp add: res_bind_def)

lemma res_bind_Inl [simp]: "res_bind (Inl e) f = Inl e"
  by (simp add: res_bind_def)

lemma res_bind_eq_Inr [res_simps]: "res_bind m f = Inr y \<longleftrightarrow> (\<exists>x. m = Inr x \<and> f x = Inr y)"
  by (cases m) auto

lemma res_bind_eq_Inl [res_simps]:
  "res_bind m f = Inl e \<longleftrightarrow> m = Inl e \<or> (\<exists>x. m = Inr x \<and> f x = Inl e)"
  by (cases m) auto

lemma ensure_eq_Inr [simp]: "ensure c e = Inr u \<longleftrightarrow> c"
  by (simp add: ensure_def)

lemma ensure_eq_Inl [simp]: "ensure c e = Inl e' \<longleftrightarrow> \<not> c \<and> e = e'"
  by (auto simp: ensure_def)

lemma ensure_True [simp]: "ensure True e = Inr ()"
  by (simp add: ensure_def)

lemma ensure_False [simp]: "ensure False e = Inl e"
  by (simp add: ensure_def)

lemma of_option_eq_Inr [simp]: "of_option e x = Inr y \<longleftrightarrow> x = Some y"
  by (simp add: of_option_def split: option.splits)

lemma of_option_eq_Inl [simp]: "of_option e x = Inl e' \<longleftrightarrow> x = None \<and> e = e'"
  by (auto simp: of_option_def split: option.splits)

lemma of_option_Some [simp]: "of_option e (Some y) = Inr y"
  by (simp add: of_option_def)

lemma of_option_None [simp]: "of_option e None = Inl e"
  by (simp add: of_option_def)

section \<open>Loops that may throw\<close>

fun fold_res :: "('a \<Rightarrow> 's \<Rightarrow> 'e + 's) \<Rightarrow> 'a list \<Rightarrow> 's \<Rightarrow> 'e + 's" where
  "fold_res f [] s = Inr s"
| "fold_res f (x # xs) s = res_bind (f x s) (fold_res f xs)"

fun map_res :: "('a \<Rightarrow> 'e + 'b) \<Rightarrow> 'a list \<Rightarrow> 'e + 'b list" where
  "map_res f [] = Inr []"
| "map_res f (x # xs) = res_bind (f x) (\<lambda>y. res_bind (map_res f xs) (\<lambda>ys. Inr (y # ys)))"

lemma fold_res_append:
  "fold_res f (xs @ ys) s = res_bind (fold_res f xs s) (fold_res f ys)"
proof (induction xs arbitrary: s)
  case (Cons x xs)
  then show ?case by (cases "f x s") auto
qed simp

lemma fold_res_each: "fold_res (\<lambda>x _. f x) xs () = Inr () \<longleftrightarrow> (\<forall>x\<in>set xs. f x = Inr ())"
  by (induction xs) (auto simp: res_simps)

text \<open>An invariant of the body is an invariant of the loop.\<close>

lemma fold_res_inv:
  assumes "fold_res f xs s = Inr s'" and "P s"
    and "\<And>x s s'. x \<in> set xs \<Longrightarrow> P s \<Longrightarrow> f x s = Inr s' \<Longrightarrow> P s'"
  shows "P s'"
  using assms
proof (induction xs arbitrary: s)
  case (Cons x xs)
  then obtain t where "f x s = Inr t" and "fold_res f xs t = Inr s'"
    by (auto simp: res_simps)
  with Cons show ?case by (meson list.set_intros)
qed simp

lemma map_res_length: "map_res f xs = Inr ys \<Longrightarrow> length ys = length xs"
  by (induction xs arbitrary: ys) (auto simp: res_simps)

lemma map_res_fixed:
  assumes "map_res f xs = Inr ys" and "\<And>x y. x \<in> set xs \<Longrightarrow> f x = Inr y \<Longrightarrow> f y = Inr y"
  shows "map_res f ys = Inr ys"
  using assms
proof (induction xs arbitrary: ys)
  case (Cons x xs)
  then obtain y zs where "f x = Inr y" and "map_res f xs = Inr zs" and "ys = y # zs"
    by (auto simp: res_simps)
  moreover have "f y = Inr y" and "map_res f zs = Inr zs"
    using Cons \<open>f x = Inr y\<close> \<open>map_res f xs = Inr zs\<close> by auto
  ultimately show ?case by simp
qed simp

lemma map_res_all: "map_res f xs = Inr ys \<Longrightarrow> y \<in> set ys \<Longrightarrow> \<exists>x\<in>set xs. f x = Inr y"
  by (induction xs arbitrary: ys) (auto simp: res_simps)

lemma map_res_same:
  assumes "\<And>x. x \<in> set xs \<Longrightarrow> f x = Inr x"
  shows "map_res f xs = Inr xs"
  using assms by (induction xs) auto

text \<open>A truthy optional string.\<close>

definition given :: "string option \<Rightarrow> bool" where
  "given x \<longleftrightarrow> (case x of None \<Rightarrow> False | Some s \<Rightarrow> s \<noteq> [])"

text \<open>\<open>Array.from(new Set(xs))\<close>: the first occurrences, in order.\<close>

fun js_unique :: "'a list \<Rightarrow> 'a list" where
  "js_unique [] = []"
| "js_unique (x # xs) = x # filter (\<lambda>y. y \<noteq> x) (js_unique xs)"

lemma set_js_unique [simp]: "set (js_unique xs) = set xs"
  by (induction xs) auto

lemma distinct_js_unique [simp]: "distinct (js_unique xs)"
  by (induction xs) auto

text \<open>
  Distinctness of a list whose elements carry a number, comparing only elements of one number.
\<close>

function spread :: "(nat \<times> 'a) list \<Rightarrow> bool" where
  "spread [] = True"
| "spread ((n, s) # xs) = (
     distinct (s # map snd (filter (\<lambda>(m, t). m = n) xs))
     \<and> spread (filter (\<lambda>(m, t). m < n) xs) \<and> spread (filter (\<lambda>(m, t). n < m) xs))"
  by pat_completeness auto
termination
  by (relation "measure length") (auto simp: less_Suc_eq_le)

lemma spread_distinct: "spread xs \<Longrightarrow> distinct xs"
proof (induction xs rule: spread.induct)
  case (2 n s xs)
  have "distinct (filter (\<lambda>(m, t). m = n) xs)"
    using 2(3) by (simp add: distinct_map)
  moreover have "distinct (filter (\<lambda>(m, t). m < n) xs)" "distinct (filter (\<lambda>(m, t). n < m) xs)"
    using 2 by auto
  ultimately have "distinct (filter (\<lambda>(m, t). m < n) xs @ filter (\<lambda>(m, t). m = n) xs
      @ filter (\<lambda>(m, t). n < m) xs)"
    by auto
  moreover have "mset (filter (\<lambda>(m, t). m < n) xs @ filter (\<lambda>(m, t). m = n) xs
      @ filter (\<lambda>(m, t). n < m) xs) = mset xs"
    by (induction xs) auto
  ultimately have "distinct xs"
    by (metis mset_eq_imp_distinct_iff)
  moreover have "(n, s) \<notin> set xs"
    using 2(3) by force
  ultimately show ?case by simp
qed simp

lemma distinct_by_key: "spread (map (\<lambda>s. (f s, s)) xs) \<Longrightarrow> distinct xs"
  using spread_distinct [of "map (\<lambda>s. (f s, s)) xs"] by (simp add: distinct_map)

text \<open>An assignment to the element that \<open>find\<close> returned.\<close>

fun update_first :: "('a \<Rightarrow> bool) \<Rightarrow> ('a \<Rightarrow> 'a) \<Rightarrow> 'a list \<Rightarrow> 'a list" where
  "update_first p f [] = []"
| "update_first p f (x # xs) = (if p x then f x # xs else x # update_first p f xs)"

lemma map_update_first: "(\<And>x. p x \<Longrightarrow> g (f x) = g x) \<Longrightarrow> map g (update_first p f xs) = map g xs"
  by (induction xs) auto

lemma update_first_None: "find p xs = None \<Longrightarrow> update_first p f xs = xs"
  by (induction xs) (auto split: if_splits)

lemma length_update_first [simp]: "length (update_first p f xs) = length xs"
  by (induction xs) auto

lemma update_first_distinct:
  assumes "distinct (map g xs)" and "find (\<lambda>x. g x = k) xs = Some y"
  shows "set (update_first (\<lambda>x. g x = k) f xs) = insert (f y) (set xs - {y})"
  using assms
proof (induction xs)
  case (Cons x xs)
  show ?case
  proof (cases "g x = k")
    case True
    with Cons.prems have "y = x" and "x \<notin> set xs" by (auto simp: image_iff)
    with True show ?thesis by auto
  next
    case False
    with Cons.prems have "find (\<lambda>x. g x = k) xs = Some y" "distinct (map g xs)" "x \<notin> set xs" by auto
    moreover have "g y = k"
      using calculation(1) by (auto simp: find_Some_iff)
    ultimately show ?thesis
      using Cons.IH False by auto
  qed
qed simp

section \<open>JavaScript strings\<close>

text \<open>
  The number of UTF-16 code units of a UTF-8 string: a continuation byte counts nothing, the
  lead byte of a four-byte sequence counts two, every other byte one.
\<close>

definition utf16_units :: "char \<Rightarrow> nat" where
  "utf16_units c = (let n = of_char c in
     if (128::nat) \<le> n \<and> n < 192 then 0 else if 240 \<le> n then 2 else 1)"

definition js_length :: "string \<Rightarrow> nat" where
  "js_length s = sum_list (map utf16_units s)"

text \<open>The UTF-8 encoding of a code point, used to write the messages of the source.\<close>

definition utf8_char :: "nat \<Rightarrow> string" where
  "utf8_char n =
     (if n < 128 then [char_of n]
      else if n < 2048 then [char_of (192 + n div 64), char_of (128 + n mod 64)]
      else if n < 65536 then
        [char_of (224 + n div 4096), char_of (128 + n div 64 mod 64), char_of (128 + n mod 64)]
      else [char_of (240 + n div 262144), char_of (128 + n div 4096 mod 64),
            char_of (128 + n div 64 mod 64), char_of (128 + n mod 64)])"

definition utf8 :: "nat list \<Rightarrow> string" where
  "utf8 ns = concat (map utf8_char ns)"

text \<open>White space and line terminators of ECMAScript.\<close>

definition js_white_space :: "string list" where
  "js_white_space =
     [[CHR 0x09], [CHR 0x0A], [CHR 0x0B], [CHR 0x0C], [CHR 0x0D], [CHR 0x20],
      [CHR 0xC2, CHR 0xA0], [CHR 0xE1, CHR 0x9A, CHR 0x80], [CHR 0xE2, CHR 0x80, CHR 0x80],
      [CHR 0xE2, CHR 0x80, CHR 0x81], [CHR 0xE2, CHR 0x80, CHR 0x82],
      [CHR 0xE2, CHR 0x80, CHR 0x83], [CHR 0xE2, CHR 0x80, CHR 0x84],
      [CHR 0xE2, CHR 0x80, CHR 0x85], [CHR 0xE2, CHR 0x80, CHR 0x86],
      [CHR 0xE2, CHR 0x80, CHR 0x87], [CHR 0xE2, CHR 0x80, CHR 0x88],
      [CHR 0xE2, CHR 0x80, CHR 0x89], [CHR 0xE2, CHR 0x80, CHR 0x8A],
      [CHR 0xE2, CHR 0x80, CHR 0xA8], [CHR 0xE2, CHR 0x80, CHR 0xA9],
      [CHR 0xE2, CHR 0x80, CHR 0xAF], [CHR 0xE2, CHR 0x81, CHR 0x9F],
      [CHR 0xE3, CHR 0x80, CHR 0x80], [CHR 0xEF, CHR 0xBB, CHR 0xBF]]"

definition strip_prefix :: "string list \<Rightarrow> string \<Rightarrow> string option" where
  "strip_prefix ps s =
     (case find (\<lambda>p. p \<noteq> [] \<and> prefix p s) ps of
        None \<Rightarrow> None | Some p \<Rightarrow> Some (drop (length p) s))"

lemma strip_prefix_shorter: "strip_prefix ps s = Some t \<Longrightarrow> length t < length s"
  by (auto simp: strip_prefix_def find_Some_iff prefix_def split: option.splits)

function trim_start :: "string list \<Rightarrow> string \<Rightarrow> string" where
  "trim_start ps s = (case strip_prefix ps s of None \<Rightarrow> s | Some t \<Rightarrow> trim_start ps t)"
  by pat_completeness auto
termination
  by (relation "measure (\<lambda>(ps, s). length s)") (auto dest: strip_prefix_shorter)

declare trim_start.simps [simp del]

definition js_trim :: "string \<Rightarrow> string" where
  "js_trim s = rev (trim_start (map rev js_white_space) (rev (trim_start js_white_space s)))"

lemma trim_start_fixed: "strip_prefix ps (trim_start ps s) = None"
proof (induction ps s rule: trim_start.induct)
  case (1 ps s)
  then show ?case
    by (cases "strip_prefix ps s") (simp_all add: trim_start.simps [of ps s])
qed

lemma trim_start_None: "strip_prefix ps s = None \<Longrightarrow> trim_start ps s = s"
  by (simp add: trim_start.simps)

lemma trim_start_suffix: "suffix (trim_start ps s) s"
proof (induction ps s rule: trim_start.induct)
  case (1 ps s)
  show ?case
  proof (cases "strip_prefix ps s")
    case None
    then show ?thesis by (simp add: trim_start.simps [of ps s])
  next
    case (Some t)
    then have "suffix t s"
      by (auto simp: strip_prefix_def suffix_drop split: option.splits)
    with 1 Some show ?thesis
      by (auto simp: trim_start.simps [of ps s] intro: suffix_order.trans)
  qed
qed

lemma strip_prefix_None_prefix:
  assumes "strip_prefix ps s = None" and "prefix t s"
  shows "strip_prefix ps t = None"
  using assms by (auto simp: strip_prefix_def find_None_iff split: option.splits)

lemma js_trim_idem [simp]: "js_trim (js_trim s) = js_trim s"
proof -
  define a where "a = trim_start js_white_space s"
  define b where "b = rev (trim_start (map rev js_white_space) (rev a))"
  have "suffix (rev b) (rev a)"
    by (simp add: b_def trim_start_suffix)
  then have "prefix b a"
    by (simp add: suffix_to_prefix)
  moreover have "strip_prefix js_white_space a = None"
    by (simp add: a_def trim_start_fixed)
  ultimately have "strip_prefix js_white_space b = None"
    by (metis strip_prefix_None_prefix)
  then have "trim_start js_white_space b = b"
    by (rule trim_start_None)
  moreover have "trim_start (map rev js_white_space) (rev b) = rev b"
    by (simp add: b_def trim_start_None trim_start_fixed)
  ultimately have "js_trim b = b"
    by (simp add: js_trim_def)
  then show ?thesis by (simp add: js_trim_def a_def b_def)
qed

text \<open>Decimal digits, as \<open>String(n)\<close> prints a non-negative integer.\<close>

fun show_nat :: "nat \<Rightarrow> string" where
  "show_nat n = (if n < 10 then [char_of (48 + n)] else show_nat (n div 10) @ [char_of (48 + n mod 10)])"

declare show_nat.simps [simp del]

definition show_int :: "int \<Rightarrow> string" where
  "show_int i = (if i < 0 then CHR ''-'' # show_nat (nat (- i)) else show_nat (nat i))"

text \<open>The order of identifiers in the database: byte by byte.\<close>

fun text_le :: "string \<Rightarrow> string \<Rightarrow> bool" where
  "text_le [] t = True"
| "text_le (a # s) [] = False"
| "text_le (a # s) (b # t) = ((of_char a :: nat) < of_char b \<or> a = b \<and> text_le s t)"

section \<open>Tables\<close>

text \<open>
  A database table is the list of its rows in insertion order; \<open>key\<close> reads the columns of a
  unique index. \<open>find_unique\<close>, \<open>update_rows\<close>, \<open>delete_rows\<close> and \<open>count_rows\<close> are the calls
  of the database client the source makes, \<open>insert_row\<close> fails on a duplicate key as the index
  does.
\<close>

definition find_unique :: "('r \<Rightarrow> 'k) \<Rightarrow> 'k \<Rightarrow> 'r list \<Rightarrow> 'r option" where
  "find_unique key k t = find (\<lambda>r. key r = k) t"

definition update_rows :: "('r \<Rightarrow> bool) \<Rightarrow> ('r \<Rightarrow> 'r) \<Rightarrow> 'r list \<Rightarrow> 'r list" where
  "update_rows p f t = map (\<lambda>r. if p r then f r else r) t"

definition delete_rows :: "('r \<Rightarrow> bool) \<Rightarrow> 'r list \<Rightarrow> 'r list" where
  "delete_rows p t = filter (\<lambda>r. \<not> p r) t"

definition count_rows :: "('r \<Rightarrow> bool) \<Rightarrow> 'r list \<Rightarrow> nat" where
  "count_rows p t = length (filter p t)"

definition insert_row :: "('r \<Rightarrow> 'k) \<Rightarrow> 'r \<Rightarrow> 'r list \<Rightarrow> 'r list option" where
  "insert_row key r t = (if find_unique key (key r) t = None then Some (t @ [r]) else None)"

definition upsert_row :: "('r \<Rightarrow> 'k) \<Rightarrow> 'r \<Rightarrow> ('r \<Rightarrow> 'r) \<Rightarrow> 'r list \<Rightarrow> 'r list" where
  "upsert_row key r f t =
     (if find_unique key (key r) t = None then t @ [r]
      else update_rows (\<lambda>x. key x = key r) f t)"

lemma find_unique_Nil [simp]: "find_unique key k [] = None"
  by (simp add: find_unique_def)

lemma find_unique_Cons [tbl_simps]:
  "find_unique key k (r # t) = (if key r = k then Some r else find_unique key k t)"
  by (simp add: find_unique_def)

lemma find_unique_append [tbl_simps]:
  "find_unique key k (t @ u) =
     (case find_unique key k t of None \<Rightarrow> find_unique key k u | Some r \<Rightarrow> Some r)"
  by (induction t) (auto simp: find_unique_def)

lemma find_unique_key: "find_unique key k t = Some r \<Longrightarrow> key r = k"
  by (auto simp: find_unique_def find_Some_iff)

lemma find_unique_in: "find_unique key k t = Some r \<Longrightarrow> r \<in> set t"
  by (auto simp: find_unique_def find_Some_iff)

lemma find_unique_None_iff: "find_unique key k t = None \<longleftrightarrow> k \<notin> key ` set t"
  by (auto simp: find_unique_def find_None_iff)

lemma find_unique_distinct:
  "distinct (map key t) \<Longrightarrow> r \<in> set t \<Longrightarrow> find_unique key (key r) t = Some r"
  by (induction t) (auto simp: tbl_simps rev_image_eqI)

lemma find_unique_update [tbl_simps]:
  assumes "\<And>r. key (f r) = key r"
  shows "find_unique key k (update_rows p f t) =
     map_option (\<lambda>r. if p r then f r else r) (find_unique key k t)"
  using assms by (induction t) (auto simp: find_unique_def update_rows_def)

lemma find_unique_map:
  assumes "\<And>x. key (f x) = g x"
  shows "find_unique key k (map f xs) = map_option f (find_unique g k xs)"
  using assms by (induction xs) (auto simp: find_unique_def)

lemma map_key_update:
  "(\<And>r. p r \<Longrightarrow> g (f r) = g r) \<Longrightarrow> map g (update_rows p f t) = map g t"
  by (simp add: update_rows_def)

lemma set_update_rows: "set (update_rows p f t) = (\<lambda>r. if p r then f r else r) ` set t"
  by (simp add: update_rows_def)

lemma length_update_rows [simp]: "length (update_rows p f t) = length t"
  by (simp add: update_rows_def)

lemma count_rows_Nil [simp]: "count_rows p [] = 0"
  by (simp add: count_rows_def)

lemma count_rows_append [tbl_simps]: "count_rows p (t @ u) = count_rows p t + count_rows p u"
  by (simp add: count_rows_def)

lemma count_rows_Cons [tbl_simps]:
  "count_rows p (r # t) = (if p r then Suc (count_rows p t) else count_rows p t)"
  by (simp add: count_rows_def)

lemma count_rows_0 [simp]: "count_rows p t = 0 \<longleftrightarrow> (\<forall>r\<in>set t. \<not> p r)"
  by (simp add: count_rows_def filter_empty_conv)

lemma insert_row_Some [simp]:
  "insert_row key r t = Some u \<longleftrightarrow> find_unique key (key r) t = None \<and> u = t @ [r]"
  by (auto simp: insert_row_def)

lemma insert_row_distinct:
  "distinct (map key t) \<Longrightarrow> insert_row key r t = Some u \<Longrightarrow> distinct (map key u)"
  by (auto simp: find_unique_None_iff image_iff)

lemma upsert_row_lookup:
  assumes "\<And>x. key (f x) = key x"
  shows "find_unique key k (upsert_row key r f t) =
     (if k = key r then Some (case find_unique key k t of None \<Rightarrow> r | Some x \<Rightarrow> f x)
      else find_unique key k t)"
proof (cases "find_unique key (key r) t")
  case None
  then show ?thesis
    by (cases "k = key r") (auto simp: upsert_row_def tbl_simps split: option.splits)
next
  case (Some y)
  have "find_unique key k (upsert_row key r f t) =
      map_option (\<lambda>x. if key x = key r then f x else x) (find_unique key k t)"
    using Some find_unique_update [of key f k "\<lambda>x. key x = key r" t] assms
    by (simp add: upsert_row_def)
  also have "\<dots> = (if k = key r then Some (case find_unique key k t of None \<Rightarrow> r | Some x \<Rightarrow> f x)
      else find_unique key k t)"
    using Some find_unique_key [of key k t] by (cases "find_unique key k t") auto
  finally show ?thesis .
qed

lemma upsert_row_distinct:
  assumes "\<And>x. key (f x) = key x" and "distinct (map key t)"
  shows "distinct (map key (upsert_row key r f t))"
  using assms
  by (auto simp: upsert_row_def map_key_update find_unique_None_iff image_iff)

end
