(* ===== verification/Canonical_Json.thy ===== *)
theory Canonical_Json
  imports Prelude "HOL-Library.Multiset"
begin

text \<open>
  The canonical JSON of \<open>expert-agents/expert-agent-domain.ts\<close>, over which the source takes its
  content, approval and scope digests. A value is what \<open>unknown\<close> can hold where the code
  inspects it; a finite number is given by the text ECMAScript prints for it. The collation of
  \<open>localeCompare\<close> and the SHA-256 of \<open>node:crypto\<close> are the parameters \<open>collate\<close> (not
  greater than) and \<open>digest\<close>.
\<close>

datatype js =
    JNull
  | JBool bool
  | JNum string
  | JNonFinite
  | JStr string
  | JArr "js list"
  | JObj "(string \<times> js) list"
  | JUndefined
  | JOther string

definition jnat :: "nat \<Rightarrow> js" where
  "jnat n = JNum (show_nat n)"

definition jopt :: "string option \<Rightarrow> js" where
  "jopt x = (case x of None \<Rightarrow> JNull | Some s \<Rightarrow> JStr s)"

definition jstrs :: "string list \<Rightarrow> js" where
  "jstrs xs = JArr (map JStr xs)"

section \<open>A stable sort for a comparator\<close>

fun insort_by :: "('a \<Rightarrow> 'a \<Rightarrow> bool) \<Rightarrow> 'a \<Rightarrow> 'a list \<Rightarrow> 'a list" where
  "insort_by le x [] = [x]"
| "insort_by le x (y # ys) = (if le x y then x # y # ys else y # insort_by le x ys)"

fun sort_by :: "('a \<Rightarrow> 'a \<Rightarrow> bool) \<Rightarrow> 'a list \<Rightarrow> 'a list" where
  "sort_by le [] = []"
| "sort_by le (x # xs) = insort_by le x (sort_by le xs)"

lemma set_insort_by [simp]: "set (insort_by le x xs) = insert x (set xs)"
  by (induction xs) auto

lemma set_sort_by [simp]: "set (sort_by le xs) = set xs"
  by (induction xs) auto

lemma length_insort_by [simp]: "length (insort_by le x xs) = Suc (length xs)"
  by (induction xs) auto

lemma length_sort_by [simp]: "length (sort_by le xs) = length xs"
  by (induction xs) auto

lemma distinct_insort_by [simp]: "distinct (insort_by le x xs) \<longleftrightarrow> x \<notin> set xs \<and> distinct xs"
  by (induction xs) auto

lemma distinct_sort_by [simp]: "distinct (sort_by le xs) \<longleftrightarrow> distinct xs"
  by (induction xs) auto

text \<open>A comparator that orders the elements totally, as \<open>localeCompare\<close> does on distinct keys.\<close>

definition orders :: "('a \<Rightarrow> 'a \<Rightarrow> bool) \<Rightarrow> 'a set \<Rightarrow> bool" where
  "orders le A \<longleftrightarrow>
     (\<forall>x\<in>A. \<forall>y\<in>A. le x y \<or> le y x)
   \<and> (\<forall>x\<in>A. \<forall>y\<in>A. le x y \<longrightarrow> le y x \<longrightarrow> x = y)
   \<and> (\<forall>x\<in>A. \<forall>y\<in>A. \<forall>z\<in>A. le x y \<longrightarrow> le y z \<longrightarrow> le x z)"

lemma orders_total: "orders le A \<Longrightarrow> x \<in> A \<Longrightarrow> y \<in> A \<Longrightarrow> \<not> le x y \<Longrightarrow> le y x"
  unfolding orders_def by blast

lemma orders_antisym: "orders le A \<Longrightarrow> x \<in> A \<Longrightarrow> y \<in> A \<Longrightarrow> le x y \<Longrightarrow> le y x \<Longrightarrow> x = y"
  unfolding orders_def by blast

lemma orders_trans:
  "orders le A \<Longrightarrow> x \<in> A \<Longrightarrow> y \<in> A \<Longrightarrow> z \<in> A \<Longrightarrow> le x y \<Longrightarrow> le y z \<Longrightarrow> le x z"
  unfolding orders_def by blast

lemma orders_subset: "orders le A \<Longrightarrow> B \<subseteq> A \<Longrightarrow> orders le B"
  unfolding orders_def by (meson subsetD)

lemma insort_by_sorted:
  assumes "orders le (insert x (set xs))" and "sorted_wrt le xs"
  shows "sorted_wrt le (insort_by le x xs)"
  using assms
proof (induction xs)
  case (Cons y ys)
  have o: "orders le (insert x (set ys))"
    using Cons.prems(1) by (rule orders_subset) auto
  show ?case
  proof (cases "le x y")
    case True
    have "le x z" if "z \<in> set ys" for z
      using orders_trans [OF Cons.prems(1), of x y z] True that Cons.prems(2) by simp
    then show ?thesis
      using True Cons.prems(2) by simp
  next
    case False
    then have "le y x"
      using orders_total [OF Cons.prems(1), of x y] by simp
    then show ?thesis
      using Cons.IH [OF o] Cons.prems(2) False by simp
  qed
qed simp

lemma sort_by_sorted: "orders le (set xs) \<Longrightarrow> sorted_wrt le (sort_by le xs)"
proof (induction xs)
  case (Cons x xs)
  have "orders le (set xs)"
    using Cons.prems by (rule orders_subset) auto
  then show ?case
    using Cons by (auto intro: insort_by_sorted)
qed simp

lemma sorted_wrt_unique:
  assumes "orders le (set xs)" and "sorted_wrt le xs" and "sorted_wrt le ys"
    and "distinct xs" and "distinct ys" and "set xs = set ys"
  shows "xs = ys"
  using assms
proof (induction xs arbitrary: ys)
  case (Cons x xs)
  then obtain y zs where ys: "ys = y # zs"
    by (cases ys) auto
  have mem: "y \<in> set (x # xs)" "x \<in> set (y # zs)"
    using Cons.prems(6) ys by auto
  have "x = y"
  proof (rule ccontr)
    assume "x \<noteq> y"
    then have "le x y" and "le y x"
      using mem Cons.prems(2,3) ys by auto
    with orders_antisym [OF Cons.prems(1), of x y] mem(1) \<open>x \<noteq> y\<close> show False by simp
  qed
  moreover have "xs = zs"
  proof (rule Cons.IH)
    show "orders le (set xs)"
      using Cons.prems(1) by (rule orders_subset) auto
    show "set xs = set zs"
      using Cons.prems(4,5,6) \<open>x = y\<close> unfolding ys by auto
  qed (use Cons.prems ys in auto)
  ultimately show ?case by (simp add: ys)
qed simp

lemma sort_by_unique:
  assumes "orders le (set xs)" and "set xs = set ys" and "distinct xs" and "distinct ys"
  shows "sort_by le xs = sort_by le ys"
  using assms
  by (intro sorted_wrt_unique [where le = le]) (auto intro: sort_by_sorted)

section \<open>Canonical values and their text\<close>

definition key_le :: "(string \<Rightarrow> string \<Rightarrow> bool) \<Rightarrow> string \<times> js \<Rightarrow> string \<times> js \<Rightarrow> bool" where
  "key_le collate p q = collate (fst p) (fst q)"

lemma map_res_cong [fundef_cong]:
  "xs = ys \<Longrightarrow> (\<And>x. x \<in> set ys \<Longrightarrow> f x = g x) \<Longrightarrow> map_res f xs = map_res g ys"
  by (induction ys arbitrary: xs) auto

lemma size_entry: "p \<in> set es \<Longrightarrow> size (snd p) < Suc (size_list (size_prod (\<lambda>_. 0) size) es)"
  by (rule le_imp_less_Suc, erule size_list_estimation') (simp add: size_prod_simp)

lemma size_element: "v \<in> set vs \<Longrightarrow> size v < Suc (size_list size vs)"
  by (rule le_imp_less_Suc, erule size_list_estimation') simp

function to_canonical :: "(string \<Rightarrow> string \<Rightarrow> bool) \<Rightarrow> js \<Rightarrow> js res" where
  "to_canonical collate JNull = Inr JNull"
| "to_canonical collate (JBool b) = Inr (JBool b)"
| "to_canonical collate (JStr s) = Inr (JStr s)"
| "to_canonical collate (JNum n) = Inr (JNum n)"
| "to_canonical collate JNonFinite =
     Inl (TypeError ''Agent content cannot contain a non-finite number.'')"
| "to_canonical collate (JArr vs) =
     res_bind (map_res (to_canonical collate) vs) (\<lambda>ws. Inr (JArr ws))"
| "to_canonical collate (JObj es) =
     res_bind
       (map_res (\<lambda>p. res_bind (to_canonical collate (snd p)) (\<lambda>w. Inr (fst p, w)))
         (sort_by (key_le collate) (filter (\<lambda>p. snd p \<noteq> JUndefined) es)))
       (\<lambda>fs. Inr (JObj fs))"
| "to_canonical collate JUndefined = Inl (TypeError ''Agent content contains unsupported undefined.'')"
| "to_canonical collate (JOther t) = Inl (TypeError (''Agent content contains unsupported '' @ t @ ''.''))"
  by pat_completeness auto
termination
proof (relation "measure (\<lambda>(c, v). size v)", simp)
  fix vs :: "js list" and v and collate :: "string \<Rightarrow> string \<Rightarrow> bool"
  assume "v \<in> set vs"
  then show "((collate, v), collate, JArr vs) \<in> measure (\<lambda>(c, v). size v)"
    using size_element [of v vs] by simp
next
  fix es :: "(string \<times> js) list" and p and collate :: "string \<Rightarrow> string \<Rightarrow> bool"
  assume "p \<in> set (sort_by (key_le collate) (filter (\<lambda>p. snd p \<noteq> JUndefined) es))"
  then have "size (snd p) < Suc (size_list (size_prod (\<lambda>_. 0) size) es)"
    by (intro size_entry) simp
  then show "((collate, snd p), collate, JObj es) \<in> measure (\<lambda>(c, v). size v)"
    by simp
qed

text \<open>
  \<open>JSON.stringify\<close>: strings with their escapes, objects in the property order of
  ECMAScript, where keys that are array indices come first in ascending order.
\<close>

definition hex_digit :: "nat \<Rightarrow> char" where
  "hex_digit n = ''0123456789abcdef'' ! (n mod 16)"

definition quote_char :: "char \<Rightarrow> string" where
  "quote_char c = (let n = of_char c :: nat in
     if n = 34 then [char_of (92::nat), char_of (34::nat)]
     else if n = 92 then [char_of (92::nat), char_of (92::nat)]
     else if n = 8 then char_of (92::nat) # ''b''
     else if n = 12 then char_of (92::nat) # ''f''
     else if n = 10 then char_of (92::nat) # ''n''
     else if n = 13 then char_of (92::nat) # ''r''
     else if n = 9 then char_of (92::nat) # ''t''
     else if n < 32 then char_of (92::nat) # ''u00'' @ [hex_digit (n div 16), hex_digit n]
     else [c])"

definition quote_string :: "string \<Rightarrow> string" where
  "quote_string s = char_of (34::nat) # concat (map quote_char s) @ [char_of (34::nat)]"

definition is_digit :: "char \<Rightarrow> bool" where
  "is_digit c \<longleftrightarrow> (48::nat) \<le> of_char c \<and> of_char c \<le> (57::nat)"

definition read_nat :: "string \<Rightarrow> nat" where
  "read_nat s = foldl (\<lambda>n c. 10 * n + (of_char c - 48)) 0 s"

definition is_array_index :: "string \<Rightarrow> bool" where
  "is_array_index k \<longleftrightarrow> k \<noteq> [] \<and> list_all is_digit k \<and> (length k = 1 \<or> hd k \<noteq> CHR ''0'')
     \<and> read_nat k < 4294967295"

definition own_order :: "(string \<times> 'a) list \<Rightarrow> (string \<times> 'a) list" where
  "own_order es =
     sort_by (\<lambda>p q. read_nat (fst p) \<le> read_nat (fst q)) (filter (\<lambda>p. is_array_index (fst p)) es)
     @ filter (\<lambda>p. \<not> is_array_index (fst p)) es"

definition join_with :: "string \<Rightarrow> string list \<Rightarrow> string" where
  "join_with sep xs = (case xs of [] \<Rightarrow> [] | y # ys \<Rightarrow> y @ concat (map (\<lambda>z. sep @ z) ys))"

lemma size_own_order [termination_simp]:
  "p \<in> set (own_order es) \<Longrightarrow> size (snd p) < Suc (size_list (size_prod (\<lambda>_. 0) size) es)"
proof -
  assume "p \<in> set (own_order es)"
  then have "p \<in> set es" by (auto simp: own_order_def)
  then show ?thesis by (rule size_entry)
qed

function stringify :: "js \<Rightarrow> string" where
  "stringify JNull = ''null''"
| "stringify (JBool b) = (if b then ''true'' else ''false'')"
| "stringify (JNum n) = n"
| "stringify JNonFinite = ''null''"
| "stringify (JStr s) = quote_string s"
| "stringify (JArr vs) = ''['' @ join_with '','' (map stringify vs) @ '']''"
| "stringify (JObj es) =
     ''{'' @ join_with '',''
       (map (\<lambda>p. quote_string (fst p) @ '':'' @ stringify (snd p)) (own_order es)) @ ''}''"
| "stringify JUndefined = ''null''"
| "stringify (JOther t) = ''null''"
  by pat_completeness auto
termination
proof (relation "measure size", simp)
  fix vs :: "js list" and v
  assume "v \<in> set vs"
  then show "(v, JArr vs) \<in> measure size" using size_element [of v vs] by simp
next
  fix es :: "(string \<times> js) list" and p
  assume "p \<in> set (own_order es)"
  then show "(snd p, JObj es) \<in> measure size" using size_own_order by simp
qed

definition canonical_json :: "(string \<Rightarrow> string \<Rightarrow> bool) \<Rightarrow> js \<Rightarrow> string res" where
  "canonical_json collate v = res_bind (to_canonical collate v) (\<lambda>w. Inr (stringify w))"

definition sha256 :: "(string \<Rightarrow> string \<Rightarrow> bool) \<Rightarrow> (string \<Rightarrow> string) \<Rightarrow> js \<Rightarrow> string res" where
  "sha256 collate digest v = res_bind (canonical_json collate v) (\<lambda>s. Inr (''sha256:'' @ digest s))"

section \<open>Digests do not depend on the order of object keys\<close>

lemma orders_key_le:
  assumes "orders collate (fst ` set es)" and "distinct (map fst es)"
  shows "orders (key_le collate) (set es)"
proof -
  have inj: "p = q" if "p \<in> set es" "q \<in> set es" "fst p = fst q" for p q
    using assms(2) that by (simp add: distinct_map inj_on_def)
  show ?thesis
    unfolding orders_def key_le_def
  proof (intro conjI ballI impI)
    fix p q r assume m: "p \<in> set es" "q \<in> set es"
    show "collate (fst p) (fst q) \<or> collate (fst q) (fst p)"
      using orders_total [OF assms(1), of "fst p" "fst q"] m by auto
    show "p = q" if "collate (fst p) (fst q)" "collate (fst q) (fst p)"
      using orders_antisym [OF assms(1), of "fst p" "fst q"] m that inj by auto
    show "collate (fst p) (fst r)"
      if "r \<in> set es" "collate (fst p) (fst q)" "collate (fst q) (fst r)"
      using orders_trans [OF assms(1), of "fst p" "fst q" "fst r"] m that by auto
  qed
qed

text \<open>
  Two objects with the same members have the same canonical text.
\<close>

lemma canonical_json_key_order:
  assumes "orders collate (fst ` set es)" and "distinct (map fst es)" and "mset es = mset fs"
  shows "canonical_json collate (JObj es) = canonical_json collate (JObj fs)"
proof -
  have "sort_by (key_le collate) (filter P es) = sort_by (key_le collate) (filter P fs)" for P
  proof (rule sort_by_unique)
    have "distinct (map fst fs)"
      using assms(2,3) by (metis distinct_map mset_eq_imp_distinct_iff mset_eq_setD)
    then show "distinct (filter P fs)" by (simp add: distinct_map)
    show "distinct (filter P es)" using assms(2) by (simp add: distinct_map)
    show "set (filter P es) = set (filter P fs)"
      using assms(3) by (metis mset_eq_setD mset_filter)
    show "orders (key_le collate) (set (filter P es))"
      using orders_key_le [OF assms(1,2)] by (rule orders_subset) auto
  qed
  then show ?thesis by (simp add: canonical_json_def)
qed

lemma canonical_json_key_order_witness:
  "canonical_json text_le (JObj [(''b'', JNull), (''a'', JBool True)]) =
   canonical_json text_le (JObj [(''a'', JBool True), (''b'', JNull)])"
  by (rule canonical_json_key_order) (code_simp | simp add: add_mset_commute)+

end
