(* ===== verification/Work_Contracts.thy ===== *)
theory Work_Contracts
  imports Canonical_Json
begin

text \<open>
  The Work contracts of \<open>packages/contracts/src/works.ts\<close>. Enumerations and object shapes are
  the HOL types; a schema is the function that trims and bounds the fields of a value of that
  shape, or fails. The \<open>_json\<close> functions give the JSON object of a value, which is what the
  digests are taken of.
\<close>

section \<open>Data\<close>

datatype task_status = Todo | Running | Decision | Done | Deferred | Cancelled

datatype agent_role = Coordinator | Expert

datatype artifact_status = Draft | Verified | Delivered

datatype work_view = Chat | Board | Artifacts

record work_draft =
  d_title :: string
  d_content :: string
  d_evidence :: string

record work_task =
  t_id :: string
  t_title :: string
  t_status :: task_status
  t_reason :: string
  t_ownerInstanceId :: "string option"
  t_dependencies :: "string list"
  t_acceptance :: string
  t_replaces :: "string option"
  t_sourceMessageId :: string

record work_plan =
  p_reply :: string
  p_changes :: "work_task list"

record work_artifact =
  a_id :: string
  a_taskId :: "string option"
  a_runId :: string
  a_sourceMessageId :: string
  a_instanceId :: string
  a_taskScopeHash :: string
  a_title :: string
  a_content :: string
  a_version :: nat
  a_previousId :: "string option"
  a_status :: artifact_status
  a_evidence :: string
  a_verifiedBy :: "string option"

record work_agent =
  g_instanceId :: string
  g_name :: string
  g_role :: agent_role
  g_versionId :: string
  g_capability :: string

record work_state =
  s_title :: string
  s_goal :: string
  s_ownerUserId :: string
  s_memberUserIds :: "string list"
  s_agents :: "work_agent list"
  s_tasks :: "work_task list"
  s_artifacts :: "work_artifact list"
  s_defaultView :: work_view
  s_modelCallLimit :: nat
  s_modelCallsUsed :: nat

record create_work =
  cw_title :: string
  cw_goal :: string
  cw_idempotencyKey :: string
  cw_startPlanning :: bool

datatype message_source = Text | FinalTranscript

datatype work_action =
    A_message string message_source
  | A_members "string list"
  | A_bind string agent_role
  | A_view work_view
  | A_plan string
  | A_execute string
  | A_cancel string
  | A_resolve_unknown string string
  | A_verify string string
  | A_deliver string

record work_command =
  c_idempotencyKey :: string
  c_expectedRevision :: nat
  c_action :: work_action

section \<open>Schemas\<close>

definition z_min_max :: "nat \<Rightarrow> nat \<Rightarrow> string \<Rightarrow> string res" where
  "z_min_max lo hi s = (if lo \<le> js_length s \<and> js_length s \<le> hi then Inr s else Inl SchemaError)"

definition z_trimmed :: "nat \<Rightarrow> string \<Rightarrow> string res" where
  "z_trimmed hi s = z_min_max 1 hi (js_trim s)"

definition z_nullable :: "('a \<Rightarrow> 'a res) \<Rightarrow> 'a option \<Rightarrow> 'a option res" where
  "z_nullable f x = (case x of None \<Rightarrow> Inr None | Some s \<Rightarrow> res_bind (f s) (\<lambda>y. Inr (Some y)))"

definition z_array :: "('a \<Rightarrow> 'a res) \<Rightarrow> nat \<Rightarrow> nat \<Rightarrow> 'a list \<Rightarrow> 'a list res" where
  "z_array f lo hi xs =
     (if lo \<le> length xs \<and> length xs \<le> hi then map_res f xs else Inl SchemaError)"

lemma z_array_same:
  assumes "z_array f lo hi xs = Inr ys" and "\<And>x y. x \<in> set xs \<Longrightarrow> f x = Inr y \<Longrightarrow> y = x"
  shows "ys = xs"
proof -
  have "map_res f xs = Inr ys" using assms(1) by (simp add: z_array_def split: if_splits)
  then show ?thesis using assms(2)
    by (induction xs arbitrary: ys) (auto simp: res_simps)
qed

definition z_id :: "string \<Rightarrow> string res" where
  "z_id s = z_min_max 1 160 s"

definition z_text :: "string \<Rightarrow> string res" where
  "z_text s = z_trimmed 8000 s"

definition is_hex :: "char \<Rightarrow> bool" where
  "is_hex c \<longleftrightarrow> c \<in> set ''0123456789abcdefABCDEF''"

text \<open>The text form of a UUID that \<open>z.string().uuid()\<close> accepts: 8-4-4-4-12 hexadecimal digits
  with the version and variant digits of RFC 9562, or the nil or max UUID.\<close>

definition uuid_shape :: "string \<Rightarrow> bool" where
  "uuid_shape s \<longleftrightarrow> length s = 36 \<and> (\<forall>i<36.
     if i \<in> {8, 13, 18, 23} then s ! i = CHR ''-'' else is_hex (s ! i))"

definition uuid_template :: "bool list" where
  "uuid_template = map (\<lambda>c. c = CHR ''-'') ''00000000-0000-0000-0000-000000000000''"

lemma uuid_shape_code [code]:
  "uuid_shape s \<longleftrightarrow> length s = 36
     \<and> list_all2 (\<lambda>dash c. if dash then c = CHR ''-'' else is_hex c) uuid_template s"
proof -
  have len: "length uuid_template = 36" by (simp add: uuid_template_def)
  have at: "uuid_template ! i \<longleftrightarrow> i \<in> {8, 13, 18, 23}" if "i < 36" for i
    using that by (simp add: uuid_template_def less_Suc_eq numeral_eq_Suc) (elim disjE; simp)
  show ?thesis
    unfolding uuid_shape_def list_all2_conv_all_nth len using at by auto
qed

definition is_uuid :: "string \<Rightarrow> bool" where
  "is_uuid s \<longleftrightarrow> uuid_shape s \<and>
     (s ! 14 \<in> set ''12345678'' \<and> s ! 19 \<in> set ''89abAB''
      \<or> s = ''00000000-0000-0000-0000-000000000000''
      \<or> s = ''ffffffff-ffff-ffff-ffff-ffffffffffff'')"

definition z_uuid :: "string \<Rightarrow> string res" where
  "z_uuid s = (if is_uuid s then Inr s else Inl SchemaError)"

definition work_draft_schema :: "work_draft \<Rightarrow> work_draft res" where
  "work_draft_schema d =
     res_bind (z_trimmed 200 (d_title d)) (\<lambda>ti.
     res_bind (z_text (d_content d)) (\<lambda>co.
     res_bind (z_min_max 0 4000 (d_evidence d)) (\<lambda>ev.
     Inr (d\<lparr>d_title := ti, d_content := co, d_evidence := ev\<rparr>))))"

definition work_task_schema :: "work_task \<Rightarrow> work_task res" where
  "work_task_schema t =
     res_bind (z_id (t_id t)) (\<lambda>i.
     res_bind (z_trimmed 200 (t_title t)) (\<lambda>ti.
     res_bind (z_min_max 0 2000 (t_reason t)) (\<lambda>re.
     res_bind (z_nullable z_id (t_ownerInstanceId t)) (\<lambda>ow.
     res_bind (z_array z_id 0 40 (t_dependencies t)) (\<lambda>de.
     res_bind (z_text (t_acceptance t)) (\<lambda>ac.
     res_bind (z_nullable z_id (t_replaces t)) (\<lambda>rp.
     res_bind (z_id (t_sourceMessageId t)) (\<lambda>so.
     Inr (t\<lparr>t_id := i, t_title := ti, t_reason := re, t_ownerInstanceId := ow,
            t_dependencies := de, t_acceptance := ac, t_replaces := rp,
            t_sourceMessageId := so\<rparr>)))))))))"

definition work_plan_schema :: "work_plan \<Rightarrow> work_plan res" where
  "work_plan_schema p =
     res_bind (z_text (p_reply p)) (\<lambda>re.
     res_bind (z_array work_task_schema 0 40 (p_changes p)) (\<lambda>ch.
     Inr (p\<lparr>p_reply := re, p_changes := ch\<rparr>)))"

definition work_artifact_schema :: "work_artifact \<Rightarrow> work_artifact res" where
  "work_artifact_schema a =
     res_bind (z_id (a_id a)) (\<lambda>i.
     res_bind (z_nullable z_id (a_taskId a)) (\<lambda>ta.
     res_bind (z_id (a_runId a)) (\<lambda>ru.
     res_bind (z_id (a_sourceMessageId a)) (\<lambda>so.
     res_bind (z_id (a_instanceId a)) (\<lambda>ins.
     res_bind (z_min_max 0 200 (a_title a)) (\<lambda>ti.
     res_bind (z_text (a_content a)) (\<lambda>co.
     res_bind (ensure (0 < a_version a) SchemaError) (\<lambda>_.
     res_bind (z_nullable z_id (a_previousId a)) (\<lambda>pr.
     res_bind (z_min_max 0 4000 (a_evidence a)) (\<lambda>ev.
     res_bind (z_nullable z_id (a_verifiedBy a)) (\<lambda>ve.
     Inr (a\<lparr>a_id := i, a_taskId := ta, a_runId := ru, a_sourceMessageId := so,
            a_instanceId := ins, a_title := ti, a_content := co, a_previousId := pr,
            a_evidence := ev, a_verifiedBy := ve\<rparr>))))))))))))"

definition work_agent_schema :: "work_agent \<Rightarrow> work_agent res" where
  "work_agent_schema g =
     res_bind (z_id (g_instanceId g)) (\<lambda>i.
     res_bind (z_id (g_versionId g)) (\<lambda>v.
     Inr (g\<lparr>g_instanceId := i, g_versionId := v\<rparr>)))"

definition work_state_schema :: "work_state \<Rightarrow> work_state res" where
  "work_state_schema s =
     res_bind (z_trimmed 160 (s_title s)) (\<lambda>ti.
     res_bind (z_text (s_goal s)) (\<lambda>go.
     res_bind (z_id (s_ownerUserId s)) (\<lambda>ow.
     res_bind (z_array z_id 1 100 (s_memberUserIds s)) (\<lambda>me.
     res_bind (z_array work_agent_schema 0 16 (s_agents s)) (\<lambda>ag.
     res_bind (z_array work_task_schema 0 200 (s_tasks s)) (\<lambda>ta.
     res_bind (z_array work_artifact_schema 0 200 (s_artifacts s)) (\<lambda>ar.
     res_bind (ensure (s_modelCallLimit s \<le> 1000) SchemaError) (\<lambda>_.
     Inr (s\<lparr>s_title := ti, s_goal := go, s_ownerUserId := ow, s_memberUserIds := me,
            s_agents := ag, s_tasks := ta, s_artifacts := ar\<rparr>)))))))))"

definition create_work_schema :: "create_work \<Rightarrow> create_work res" where
  "create_work_schema c =
     res_bind (z_trimmed 160 (cw_title c)) (\<lambda>ti.
     res_bind (z_text (cw_goal c)) (\<lambda>go.
     res_bind (z_uuid (cw_idempotencyKey c)) (\<lambda>ke.
     Inr (c\<lparr>cw_title := ti, cw_goal := go, cw_idempotencyKey := ke\<rparr>))))"

fun work_action_schema :: "work_action \<Rightarrow> work_action res" where
  "work_action_schema (A_message tx so) = res_bind (z_text tx) (\<lambda>t. Inr (A_message t so))"
| "work_action_schema (A_members us) = res_bind (z_array z_id 1 100 us) (\<lambda>vs. Inr (A_members vs))"
| "work_action_schema (A_bind i r) = res_bind (z_id i) (\<lambda>j. Inr (A_bind j r))"
| "work_action_schema (A_view v) = Inr (A_view v)"
| "work_action_schema (A_plan m) = res_bind (z_id m) (\<lambda>n. Inr (A_plan n))"
| "work_action_schema (A_execute t) = res_bind (z_id t) (\<lambda>u. Inr (A_execute u))"
| "work_action_schema (A_cancel r) = res_bind (z_id r) (\<lambda>q. Inr (A_cancel q))"
| "work_action_schema (A_resolve_unknown r e) =
     res_bind (z_id r) (\<lambda>q. res_bind (z_text e) (\<lambda>f. Inr (A_resolve_unknown q f)))"
| "work_action_schema (A_verify a e) =
     res_bind (z_id a) (\<lambda>b. res_bind (z_text e) (\<lambda>f. Inr (A_verify b f)))"
| "work_action_schema (A_deliver a) = res_bind (z_id a) (\<lambda>b. Inr (A_deliver b))"

definition work_command_schema :: "work_command \<Rightarrow> work_command res" where
  "work_command_schema c =
     res_bind (z_uuid (c_idempotencyKey c)) (\<lambda>ke.
     res_bind (work_action_schema (c_action c)) (\<lambda>ac.
     Inr (c\<lparr>c_idempotencyKey := ke, c_action := ac\<rparr>)))"

section \<open>What a schema lets through it lets through unchanged\<close>

lemma z_min_max_Inr [simp]: "z_min_max lo hi s = Inr t \<longleftrightarrow> t = s \<and> lo \<le> js_length s \<and> js_length s \<le> hi"
  by (auto simp: z_min_max_def)

lemma z_trimmed_Inr [simp]:
  "z_trimmed hi s = Inr t \<longleftrightarrow> t = js_trim s \<and> 1 \<le> js_length t \<and> js_length t \<le> hi"
  by (auto simp: z_trimmed_def)

lemma z_id_Inr [simp]: "z_id s = Inr t \<longleftrightarrow> t = s \<and> 1 \<le> js_length s \<and> js_length s \<le> 160"
  by (simp add: z_id_def)

lemma z_text_Inr [simp]:
  "z_text s = Inr t \<longleftrightarrow> t = js_trim s \<and> 1 \<le> js_length t \<and> js_length t \<le> 8000"
  by (simp add: z_text_def)

lemma z_uuid_Inr [simp]: "z_uuid s = Inr t \<longleftrightarrow> t = s \<and> is_uuid s"
  by (auto simp: z_uuid_def)

lemma z_nullable_id [simp]:
  "z_nullable z_id x = Inr y \<longleftrightarrow> y = x \<and> (\<forall>s. x = Some s \<longrightarrow> 1 \<le> js_length s \<and> js_length s \<le> 160)"
  by (cases x) (auto simp: z_nullable_def res_simps)

lemma map_res_id: "map_res z_id xs = Inr ys \<longleftrightarrow> ys = xs \<and> (\<forall>s\<in>set xs. 1 \<le> js_length s \<and> js_length s \<le> 160)"
  by (induction xs arbitrary: ys) (auto simp: res_simps)

lemma z_array_id [simp]:
  "z_array z_id lo hi xs = Inr ys \<longleftrightarrow> ys = xs \<and> lo \<le> length xs \<and> length xs \<le> hi
     \<and> (\<forall>s\<in>set xs. 1 \<le> js_length s \<and> js_length s \<le> 160)"
  by (auto simp: z_array_def map_res_id)

lemma z_array_fixed:
  assumes "z_array f lo hi xs = Inr ys" and "\<And>x y. f x = Inr y \<Longrightarrow> f y = Inr y"
  shows "z_array f lo hi ys = Inr ys"
  using assms map_res_fixed [of f xs ys] map_res_length [of f xs ys]
  by (auto simp: z_array_def split: if_splits)

lemma work_task_schema_fixed: "work_task_schema t = Inr u \<Longrightarrow> work_task_schema u = Inr u"
  by (auto simp: work_task_schema_def res_simps)

lemma work_artifact_schema_fixed: "work_artifact_schema a = Inr b \<Longrightarrow> work_artifact_schema b = Inr b"
  by (auto simp: work_artifact_schema_def res_simps)

lemma work_agent_schema_same: "work_agent_schema g = Inr h \<Longrightarrow> h = g"
  by (auto simp: work_agent_schema_def res_simps)

lemma work_state_schema_fixed:
  assumes "work_state_schema s = Inr u"
  shows "work_state_schema u = Inr u"
proof -
  from assms obtain ag ta ar where arr:
      "z_array work_agent_schema 0 16 (s_agents s) = Inr ag"
      "z_array work_task_schema 0 200 (s_tasks s) = Inr ta"
      "z_array work_artifact_schema 0 200 (s_artifacts s) = Inr ar"
    and u: "s_agents u = ag" "s_tasks u = ta" "s_artifacts u = ar"
    and rest: "z_trimmed 160 (s_title u) = Inr (s_title u)" "z_text (s_goal u) = Inr (s_goal u)"
      "z_id (s_ownerUserId u) = Inr (s_ownerUserId u)"
      "z_array z_id 1 100 (s_memberUserIds u) = Inr (s_memberUserIds u)"
      "s_modelCallLimit u \<le> 1000"
    by (auto simp: work_state_schema_def res_simps)
  have "z_array work_agent_schema 0 16 ag = Inr ag"
    using arr(1) by (rule z_array_fixed) (metis work_agent_schema_same)
  moreover have "z_array work_task_schema 0 200 ta = Inr ta"
    using arr(2) work_task_schema_fixed by (rule z_array_fixed)
  moreover have "z_array work_artifact_schema 0 200 ar = Inr ar"
    using arr(3) work_artifact_schema_fixed by (rule z_array_fixed)
  ultimately show ?thesis
    using u rest by (simp add: work_state_schema_def res_simps)
qed

text \<open>A schema keeps what the lifecycle reads: identities, statuses, dependencies, counters.\<close>

lemma work_task_schema_keeps:
  assumes "work_task_schema t = Inr u"
  shows "t_id u = t_id t" "t_status u = t_status t" "t_reason u = t_reason t"
    "t_ownerInstanceId u = t_ownerInstanceId t" "t_dependencies u = t_dependencies t"
    "t_sourceMessageId u = t_sourceMessageId t"
  using assms by (auto simp: work_task_schema_def res_simps)

section \<open>JSON of the contracts\<close>

fun status_text :: "task_status \<Rightarrow> string" where
  "status_text Todo = ''todo''"
| "status_text Running = ''running''"
| "status_text Decision = ''decision''"
| "status_text Done = ''done''"
| "status_text Deferred = ''deferred''"
| "status_text Cancelled = ''cancelled''"

fun role_text :: "agent_role \<Rightarrow> string" where
  "role_text Coordinator = ''coordinator''"
| "role_text Expert = ''expert''"

fun view_text :: "work_view \<Rightarrow> string" where
  "view_text Chat = ''chat''"
| "view_text Board = ''board''"
| "view_text Artifacts = ''artifacts''"

fun source_text :: "message_source \<Rightarrow> string" where
  "source_text Text = ''text''"
| "source_text FinalTranscript = ''final_transcript''"

definition task_json :: "work_task \<Rightarrow> js" where
  "task_json t = JObj
     [(''id'', JStr (t_id t)), (''title'', JStr (t_title t)),
      (''status'', JStr (status_text (t_status t))), (''reason'', JStr (t_reason t)),
      (''ownerInstanceId'', jopt (t_ownerInstanceId t)),
      (''dependencies'', jstrs (t_dependencies t)), (''acceptance'', JStr (t_acceptance t)),
      (''replaces'', jopt (t_replaces t)), (''sourceMessageId'', JStr (t_sourceMessageId t))]"

definition agent_json :: "work_agent \<Rightarrow> js" where
  "agent_json g = JObj
     [(''instanceId'', JStr (g_instanceId g)), (''name'', JStr (g_name g)),
      (''role'', JStr (role_text (g_role g))), (''versionId'', JStr (g_versionId g)),
      (''capability'', JStr (g_capability g))]"

definition plan_json :: "work_plan \<Rightarrow> js" where
  "plan_json p = JObj [(''reply'', JStr (p_reply p)), (''changes'', JArr (map task_json (p_changes p)))]"

definition draft_json :: "work_draft \<Rightarrow> js" where
  "draft_json d = JObj [(''title'', JStr (d_title d)), (''content'', JStr (d_content d)),
     (''evidence'', JStr (d_evidence d))]"

fun action_type :: "work_action \<Rightarrow> string" where
  "action_type (A_message _ _) = ''message''"
| "action_type (A_members _) = ''members''"
| "action_type (A_bind _ _) = ''bind''"
| "action_type (A_view _) = ''view''"
| "action_type (A_plan _) = ''plan''"
| "action_type (A_execute _) = ''execute''"
| "action_type (A_cancel _) = ''cancel''"
| "action_type (A_resolve_unknown _ _) = ''resolve_unknown''"
| "action_type (A_verify _ _) = ''verify''"
| "action_type (A_deliver _) = ''deliver''"

fun action_fields :: "work_action \<Rightarrow> (string \<times> js) list" where
  "action_fields (A_message tx so) = [(''text'', JStr tx), (''source'', JStr (source_text so))]"
| "action_fields (A_members us) = [(''userIds'', jstrs us)]"
| "action_fields (A_bind i r) = [(''instanceId'', JStr i), (''role'', JStr (role_text r))]"
| "action_fields (A_view v) = [(''view'', JStr (view_text v))]"
| "action_fields (A_plan m) = [(''sourceMessageId'', JStr m)]"
| "action_fields (A_execute t) = [(''taskId'', JStr t)]"
| "action_fields (A_cancel r) = [(''runId'', JStr r)]"
| "action_fields (A_resolve_unknown r e) = [(''runId'', JStr r), (''evidence'', JStr e)]"
| "action_fields (A_verify a e) = [(''artifactId'', JStr a), (''evidence'', JStr e)]"
| "action_fields (A_deliver a) = [(''artifactId'', JStr a)]"

definition action_json :: "work_action \<Rightarrow> js" where
  "action_json a = JObj ((''type'', JStr (action_type a)) # action_fields a)"

end
