(* ===== verification/Work_Texts.thy ===== *)
theory Work_Texts
  imports Prelude
begin

text \<open>
  The messages of \<open>works/work-domain.ts\<close>, \<open>works/work-service.ts\<close> and \<open>works/work-worker.ts\<close>.
  Error messages become run and task reasons, so they are data of the model: each constant is
  the UTF-8 text of the source's literal, given by its code points.
\<close>

definition txt_duplicate_task :: string where \<comment> \<open>repeated task id in the plan\<close>
  "txt_duplicate_task =
     utf8 [35745, 21010, 20013, 26377, 37325, 22797, 20219, 21153, 32, 73, 68, 12290]"

definition txt_task_final :: string where \<comment> \<open>done and cancelled tasks cannot be overwritten\<close>
  "txt_task_final =
     utf8 [24050, 23436, 25104, 25110, 24050, 21462, 28040, 20219, 21153, 19981, 21487, 35206,
     30422, 65307, 35831, 21019, 24314, 20851, 32852, 30340, 26032, 20219, 21153, 12290]"

definition txt_task_executing :: string where \<comment> \<open>a running task must be stopped first\<close>
  "txt_task_executing =
     utf8 [25191, 34892, 20013, 30340, 20219, 21153, 39035, 20808, 20572, 27490, 65292, 20877,
     35843, 25972, 33539, 22260, 12290]"

definition txt_plan_claims :: string where \<comment> \<open>a plan cannot claim execution or completion\<close>
  "txt_plan_claims =
     utf8 [35745, 21010, 19981, 33021, 22768, 31216, 20219, 21153, 24050, 32463, 25191, 34892,
     25110, 23436, 25104, 12290]"

definition txt_bad_owner :: string where \<comment> \<open>the owner must be a bound expert instance\<close>
  "txt_bad_owner =
     utf8 [20219, 21153, 36127, 36131, 20154, 24517, 39035, 26159, 26412, 24037, 20316, 32676,
     32465, 23450, 30340, 19987, 23478, 23454, 20363, 12290]"

definition txt_replaced_missing :: string where \<comment> \<open>the replaced task does not exist\<close>
  "txt_replaced_missing =
     utf8 [34987, 26367, 20195, 20219, 21153, 19981, 23384, 22312, 12290]"

definition txt_too_many_tasks :: string where \<comment> \<open>the task limit of the work is reached\<close>
  "txt_too_many_tasks =
     utf8 [24037, 20316, 32676, 20219, 21153, 24050, 36798, 19978, 38480, 65292, 35831, 25286,
     20998, 24037, 20316, 32676, 12290]"

definition txt_cycle :: string where \<comment> \<open>task dependencies must not form a cycle\<close>
  "txt_cycle =
     utf8 [20219, 21153, 20381, 36182, 19981, 33021, 24418, 25104, 24490, 29615, 12290]"

definition txt_dependency_missing :: string where \<comment> \<open>a dependency does not exist\<close>
  "txt_dependency_missing =
     utf8 [20219, 21153, 20381, 36182, 19981, 23384, 22312, 12290]"

definition txt_affects_running :: string where \<comment> \<open>the change affects the upstream of a running task\<close>
  "txt_affects_running =
     utf8 [35843, 25972, 20250, 24433, 21709, 27491, 22312, 25191, 34892, 30340, 19979, 28216,
     20219, 21153, 65292, 35831, 20808, 20572, 27490, 30456, 20851, 25191, 34892, 12290]"

definition txt_fenced :: string where \<comment> \<open>the lease has lapsed or a stop was requested\<close>
  "txt_fenced =
     utf8 [25191, 34892, 31199, 32422, 22833, 25928, 25110, 24050, 35831, 27714, 20572, 27490,
     12290]"

definition txt_approval_lapsed :: string where \<comment> \<open>the approval expired or the input changed\<close>
  "txt_approval_lapsed =
     utf8 [25480, 26435, 24050, 36807, 26399, 25110, 25191, 34892, 21442, 25968, 21457, 29983,
     21464, 21270, 12290]"

definition txt_no_project_access :: string where \<comment> \<open>no access to this Project\<close>
  "txt_no_project_access =
     utf8 [26080, 26435, 35775, 38382, 36825, 20010, 32, 80, 114, 111, 106, 101, 99, 116,
     12290]"

definition txt_no_work :: string where \<comment> \<open>the work does not exist or is not open to the user\<close>
  "txt_no_work =
     utf8 [24037, 20316, 32676, 19981, 23384, 22312, 25110, 26410, 21521, 20320, 24320, 25918,
     12290]"

definition txt_no_instance :: string where \<comment> \<open>instance unavailable or not authorized for the user\<close>
  "txt_no_instance =
     utf8 [23454, 20363, 19981, 21487, 29992, 25110, 26410, 25480, 26435, 32473, 24403, 21069,
     29992, 25143, 12290]"

definition txt_instance_not_ready :: string where \<comment> \<open>a ready, version-pinned Agent instance is needed\<close>
  "txt_instance_not_ready =
     utf8 [38656, 35201, 24050, 23601, 32490, 12289, 22266, 23450, 21457, 24067, 29256, 26412,
     30340, 32, 65, 103, 101, 110, 116, 32, 23454, 20363, 12290]"

definition txt_creation_key_reused :: string where \<comment> \<open>one request key for different works\<close>
  "txt_creation_key_reused =
     utf8 [21516, 19968, 35831, 27714, 32534, 21495, 19981, 33021, 29992, 20110, 19981, 21516,
     30340, 24037, 20316, 32676, 12290]"

definition txt_team_not_ready :: string where \<comment> \<open>the team is not ready\<close>
  "txt_team_not_ready =
     utf8 [22242, 38431, 23578, 26410, 23601, 32490, 65292, 21487, 20197, 20808, 21019, 24314,
     35752, 35770, 31354, 38388, 12290]"

definition txt_command_key_reused :: string where \<comment> \<open>the request key is used by another operation\<close>
  "txt_command_key_reused =
     utf8 [35831, 27714, 32534, 21495, 24050, 34987, 20854, 20182, 25805, 20316, 20351, 29992,
     12290]"

definition txt_revision_conflict :: string where \<comment> \<open>the work was updated meanwhile\<close>
  "txt_revision_conflict =
     utf8 [24037, 20316, 32676, 24050, 26377, 26356, 26032, 65292, 35831, 21047, 26032, 21518,
     37325, 26032, 25552, 20132, 12290, 36755, 20837, 20173, 20250, 20445, 30041, 12290]"

definition txt_s_message :: string where \<comment> \<open>summary: new discussion\<close>
  "txt_s_message =
     utf8 [26032, 22686, 35752, 35770]"

definition txt_members_owner_only :: string where \<comment> \<open>only the creator edits members and not away from himself\<close>
  "txt_members_owner_only =
     utf8 [21482, 26377, 21019, 24314, 32773, 33021, 35843, 25972, 25104, 21592, 65292, 19988,
     19981, 33021, 31227, 38500, 33258, 24049, 12290]"

definition txt_s_members :: string where \<comment> \<open>summary: members updated\<close>
  "txt_s_members =
     utf8 [24037, 20316, 32676, 25104, 21592, 24050, 26356, 26032]"

definition txt_bind_owner_only :: string where \<comment> \<open>only the creator assigns instances\<close>
  "txt_bind_owner_only =
     utf8 [21482, 26377, 21019, 24314, 32773, 33021, 20998, 37197, 23454, 20363, 12290]"

definition txt_role_fixed :: string where \<comment> \<open>the role of this default expert is fixed\<close>
  "txt_role_fixed =
     utf8 [36825, 20010, 40664, 35748, 19987, 23478, 30340, 32844, 36131, 24050, 22266, 23450,
     65292, 35831, 36873, 25321, 23545, 24212, 35282, 33394, 12290]"

definition txt_stop_runs_first :: string where \<comment> \<open>stop the executions before changing instances\<close>
  "txt_stop_runs_first =
     utf8 [35831, 20808, 20572, 27490, 29616, 26377, 25191, 34892, 65292, 20877, 35843, 25972,
     23454, 20363, 12290]"

definition txt_s_bind :: string where \<comment> \<open>summary: instance assigned\<close>
  "txt_s_bind =
     utf8 [25104, 21592, 23454, 20363, 24050, 20998, 37197]"

definition txt_s_view :: string where \<comment> \<open>summary: view saved\<close>
  "txt_s_view =
     utf8 [35270, 22270, 20559, 22909, 24050, 20445, 23384]"

definition txt_not_executable :: string where \<comment> \<open>the task cannot be executed now\<close>
  "txt_not_executable =
     utf8 [35813, 20219, 21153, 24403, 21069, 19981, 33021, 25191, 34892, 12290]"

definition txt_upstream_open :: string where \<comment> \<open>upstream delivery is not complete\<close>
  "txt_upstream_open =
     utf8 [19978, 28216, 20132, 20184, 23578, 26410, 23436, 25104, 12290]"

definition txt_no_binding :: string where \<comment> \<open>no usable instance is assigned\<close>
  "txt_no_binding =
     utf8 [23578, 26410, 20998, 37197, 21487, 29992, 23454, 20363, 65307, 23637, 24320, 32676,
     25104, 21592, 21518, 20998, 37197, 21327, 35843, 32773, 21644, 19987, 23478, 12290]"

definition txt_version_changed :: string where \<comment> \<open>the instance version changed\<close>
  "txt_version_changed =
     utf8 [23454, 20363, 29256, 26412, 24050, 25913, 21464, 65292, 35831, 37325, 26032, 20998,
     37197, 21518, 25480, 26435, 12290]"

definition txt_calls_used_up :: string where \<comment> \<open>the model call limit of this work is used up\<close>
  "txt_calls_used_up =
     utf8 [26412, 24037, 20316, 32676, 30340, 27169, 22411, 35843, 29992, 39069, 24230, 24050,
     29992, 23436, 12290]"

definition txt_already_dispatched :: string where \<comment> \<open>an execution exists or its outcome is not reviewed\<close>
  "txt_already_dispatched =
     utf8 [24050, 26377, 25191, 34892, 25110, 32467, 26524, 23578, 26410, 26680, 23454, 65292,
     19981, 33021, 37325, 22797, 27966, 21457, 12290]"

definition txt_needs_intent :: string where \<comment> \<open>a human intent message of this work is needed\<close>
  "txt_needs_intent =
     utf8 [38656, 35201, 26412, 24037, 20316, 32676, 30340, 20154, 31867, 24847, 22270, 28040,
     24687, 12290]"

definition txt_r_queued :: string where \<comment> \<open>reason: queued for a worker lease\<close>
  "txt_r_queued =
     utf8 [24050, 25490, 38431, 65292, 31561, 24453, 32, 87, 111, 114, 107, 101, 114, 32,
     21462, 24471, 25191, 34892, 31199, 32422]"

definition txt_s_plan :: string where \<comment> \<open>summary: planning authorized\<close>
  "txt_s_plan =
     utf8 [24050, 25480, 26435, 21327, 35843, 32773, 35268, 21010, 65288, 19968, 27425, 27169,
     22411, 35843, 29992, 65289]"

definition txt_s_execute_pre :: string where \<comment> \<open>summary: execution authorized, before and after the task id\<close>
  "txt_s_execute_pre =
     utf8 [24050, 25480, 26435, 25191, 34892, 32]"

definition txt_s_execute_post :: string where \<comment> \<open>summary: execution authorized, before and after the task id\<close>
  "txt_s_execute_post =
     utf8 [65288, 19968, 27425, 27169, 22411, 35843, 29992, 65289]"

definition txt_not_stoppable :: string where \<comment> \<open>the execution cannot be stopped or has ended\<close>
  "txt_not_stoppable =
     utf8 [25191, 34892, 19981, 21487, 20572, 27490, 25110, 24050, 32467, 26463, 12290]"

definition txt_r_cancel_run :: string where \<comment> \<open>reason: the user asked to stop\<close>
  "txt_r_cancel_run =
     utf8 [29992, 25143, 35831, 27714, 20572, 27490, 65307, 22312, 36884, 27169, 22411, 35745,
     36153, 21487, 33021, 20173, 21457, 29983]"

definition txt_r_cancel_task :: string where \<comment> \<open>reason: stop request submitted\<close>
  "txt_r_cancel_task =
     utf8 [20572, 27490, 35831, 27714, 24050, 25552, 20132, 65292, 31561, 24453, 36816, 34892,
     29366, 24577, 30830, 35748]"

definition txt_s_cancel :: string where \<comment> \<open>summary: stop request recorded\<close>
  "txt_s_cancel =
     utf8 [20572, 27490, 35831, 27714, 24050, 35760, 24405, 65292, 26032, 24037, 20855, 35843,
     29992, 24050, 31105, 27490]"

definition txt_review_denied :: string where \<comment> \<open>only the requester or the creator reviews this execution\<close>
  "txt_review_denied =
     utf8 [21482, 26377, 35831, 27714, 32773, 25110, 21019, 24314, 32773, 33021, 26680, 26597,
     36825, 27425, 25191, 34892, 12290]"

definition txt_s_review :: string where \<comment> \<open>summary: review recorded\<close>
  "txt_s_review =
     utf8 [24050, 35760, 24405, 25191, 34892, 19982, 35745, 36153, 26680, 26597, 65307, 33509,
     38656, 20877, 27425, 25191, 34892, 65292, 24517, 39035, 37325, 26032, 25480, 26435]"

definition txt_no_artifact :: string where \<comment> \<open>the artifact does not exist\<close>
  "txt_no_artifact =
     utf8 [20135, 29289, 19981, 23384, 22312, 12290]"

definition txt_artifact_final :: string where \<comment> \<open>a delivered artifact cannot change\<close>
  "txt_artifact_final =
     utf8 [24050, 20132, 20184, 20135, 29289, 19981, 21487, 20462, 25913, 12290]"

definition txt_artifact_stale :: string where \<comment> \<open>the task scope or the artifact version changed\<close>
  "txt_artifact_stale =
     utf8 [20219, 21153, 33539, 22260, 25110, 20135, 29289, 29256, 26412, 24050, 25913, 21464,
     65292, 26087, 33609, 31295, 19981, 33021, 30830, 35748, 20132, 20184, 12290]"

definition txt_s_verify :: string where \<comment> \<open>summary: verification recorded\<close>
  "txt_s_verify =
     utf8 [24050, 35760, 24405, 20154, 24037, 39564, 35777, 35777, 25454]"

definition txt_not_verified :: string where \<comment> \<open>the artifact must be verified first\<close>
  "txt_not_verified =
     utf8 [20135, 29289, 39035, 20808, 36890, 36807, 39564, 35777, 12290]"

definition txt_r_delivered :: string where \<comment> \<open>reason: verified and delivered\<close>
  "txt_r_delivered =
     utf8 [20135, 29289, 24050, 39564, 35777, 24182, 30830, 35748, 20132, 20184]"

definition txt_s_deliver :: string where \<comment> \<open>summary: artifact delivered\<close>
  "txt_s_deliver =
     utf8 [20135, 29289, 24050, 30830, 35748, 20132, 20184]"

definition txt_r_expired_unknown :: string where \<comment> \<open>reason: lease expired after dispatch\<close>
  "txt_r_expired_unknown =
     utf8 [25191, 34892, 31199, 32422, 24050, 36807, 26399, 65292, 32467, 26524, 19982, 35745,
     36153, 38656, 26680, 23454, 65307, 27809, 26377, 33258, 21160, 37325, 35797]"

definition txt_r_expired_stopped :: string where \<comment> \<open>reason: lease expired before dispatch\<close>
  "txt_r_expired_stopped =
     utf8 [25191, 34892, 31199, 32422, 24050, 36807, 26399, 65292, 35843, 29992, 23578, 26410,
     21457, 20986, 65307, 21487, 20197, 37325, 26032, 25480, 26435]"

definition txt_single_call :: string where \<comment> \<open>one authorization allows one model call\<close>
  "txt_single_call =
     utf8 [21333, 27425, 25480, 26435, 21482, 20801, 35768, 19968, 27425, 27169, 22411, 35843,
     29992, 12290]"

definition txt_r_runtime :: string where \<comment> \<open>reason: runtime unavailable or invalid result\<close>
  "txt_r_runtime =
     utf8 [36816, 34892, 26381, 21153, 19981, 21487, 29992, 25110, 36820, 22238, 26080, 25928,
     32467, 26524, 65307, 35831, 26816, 26597, 23454, 20363, 19982, 27169, 22411, 36830, 25509]"

definition txt_binding_changed :: string where \<comment> \<open>the bound instance changed\<close>
  "txt_binding_changed =
     utf8 [32465, 23450, 23454, 20363, 21457, 29983, 21464, 21270, 65292, 38656, 35201, 37325,
     26032, 25480, 26435, 12290]"

definition txt_guard_calls_used_up :: string where \<comment> \<open>the model call limit is used up\<close>
  "txt_guard_calls_used_up =
     utf8 [27169, 22411, 35843, 29992, 39069, 24230, 24050, 29992, 23436, 12290]"

definition txt_s_dispatch :: string where \<comment> \<open>summary: one model call reserved\<close>
  "txt_s_dispatch =
     utf8 [24050, 39044, 30041, 19968, 27425, 27169, 22411, 35843, 29992, 65307, 26410, 24320,
     25918, 22806, 37096, 24037, 20855]"

definition txt_intent_changed :: string where \<comment> \<open>intent or tasks changed, the old plan is not applied\<close>
  "txt_intent_changed =
     utf8 [24847, 22270, 25110, 20219, 21153, 24050, 26356, 26032, 65292, 26087, 35745, 21010,
     27809, 26377, 24212, 29992, 65292, 35831, 37325, 26032, 35268, 21010, 12290]"

definition txt_run_task_changed :: string where \<comment> \<open>the task changed, the old execution cannot publish\<close>
  "txt_run_task_changed =
     utf8 [20219, 21153, 29366, 24577, 24050, 25913, 21464, 65292, 26087, 25191, 34892, 19981,
     33021, 21457, 24067, 32467, 26524, 12290]"

definition txt_r_draft :: string where \<comment> \<open>reason: a draft awaits review\<close>
  "txt_r_draft =
     utf8 [33609, 31295, 24050, 29983, 25104, 65292, 31561, 24453, 26680, 23454, 35777, 25454,
     19982, 20132, 20184]"

definition txt_reply_draft_pre :: string where \<comment> \<open>reply: a draft was produced, before and after its title\<close>
  "txt_reply_draft_pre =
     utf8 [24050, 29983, 25104, 12300]"

definition txt_reply_draft_post :: string where \<comment> \<open>reply: a draft was produced, before and after its title\<close>
  "txt_reply_draft_post =
     utf8 [12301, 33609, 31295, 65292, 35831, 26680, 23454, 21518, 30830, 35748, 20132, 20184,
     12290]"

definition txt_s_result_plan :: string where \<comment> \<open>summary: plan applied, or draft submitted\<close>
  "txt_s_result_plan =
     utf8 [21327, 35843, 32773, 24050, 26356, 26032, 20219, 21153, 23433, 25490]"

definition txt_s_result_task :: string where \<comment> \<open>summary: plan applied, or draft submitted\<close>
  "txt_s_result_task =
     utf8 [19987, 23478, 24050, 25552, 20132, 33609, 31295]"

definition txt_r_cancel_unknown :: string where \<comment> \<open>reason: stopped after dispatch\<close>
  "txt_r_cancel_unknown =
     utf8 [24050, 38459, 27490, 26032, 35843, 29992, 24182, 20013, 27490, 31561, 24453, 65307,
     22312, 36884, 27169, 22411, 35831, 27714, 30340, 32467, 26524, 19982, 35745, 36153, 23578,
     26410, 26680, 23454]"

definition txt_r_cancel_stopped :: string where \<comment> \<open>reason: stopped before dispatch\<close>
  "txt_r_cancel_stopped =
     utf8 [24050, 20572, 27490, 65292, 27169, 22411, 35843, 29992, 23578, 26410, 21457, 20986]"

definition txt_s_late :: string where \<comment> \<open>summary: late execution ignored\<close>
  "txt_s_late =
     utf8 [36831, 21040, 25191, 34892, 24050, 24573, 30053, 65292, 20219, 21153, 19982, 20135,
     29289, 26410, 34987, 35206, 30422]"

end
