(* ===== verification/Work_Domain.thy ===== *)
theory Work_Domain
  imports Work_Contracts Work_Texts
begin

text \<open>
  \<open>works/work-domain.ts\<close>: the digests of Work values, the application of a plan to the task
  graph of a Work, and the gate every execution passes. A JavaScript \<open>Map\<close> is an association
  list under \<open>AList.update\<close>, which keeps the position of a known key and appends a new one.
\<close>

definition conflict :: "string \<Rightarrow> failure" where
  "conflict m = WorkError m 409 ''work_conflict''"

definition forbidden :: "string \<Rightarrow> failure" where
  "forbidden m = WorkError m 403 ''work_conflict''"

section \<open>Digests\<close>

text \<open>The collation of \<open>localeCompare\<close> and the hexadecimal SHA-256 of \<open>node:crypto\<close>.\<close>

record hash_env =
  collate :: "string \<Rightarrow> string \<Rightarrow> bool"
  digest :: "string \<Rightarrow> string"

definition work_hash :: "hash_env \<Rightarrow> js \<Rightarrow> string res" where
  "work_hash h v = res_bind (canonical_json (collate h) v) (\<lambda>s. Inr (digest h s))"

definition task_scope_json :: "work_task \<Rightarrow> js" where
  "task_scope_json t = JObj
     [(''id'', JStr (t_id t)), (''title'', JStr (t_title t)), (''acceptance'', JStr (t_acceptance t)),
      (''ownerInstanceId'', jopt (t_ownerInstanceId t)),
      (''dependencies'', jstrs (t_dependencies t)),
      (''sourceMessageId'', JStr (t_sourceMessageId t))]"

definition task_scope_hash :: "hash_env \<Rightarrow> work_task \<Rightarrow> string res" where
  "task_scope_hash h t = work_hash h (task_scope_json t)"

section \<open>Applying a plan\<close>

type_synonym task_map = "(string \<times> work_task) list"

definition task_map_of :: "work_task list \<Rightarrow> task_map" where
  "task_map_of ts = fold (\<lambda>t m. AList.update (t_id t) t m) ts []"

definition plan_change_ok :: "work_state \<Rightarrow> string list \<Rightarrow> task_map \<Rightarrow> work_task \<Rightarrow> unit res" where
  "plan_change_ok state ids next c =
     res_bind (ensure (t_id c \<notin> set ids) (conflict txt_duplicate_task)) (\<lambda>_.
     (let previous = map_of next (t_id c) in
     res_bind (ensure (opt_all (\<lambda>p. t_status p \<noteq> Done \<and> t_status p \<noteq> Cancelled) previous)
       (conflict txt_task_final)) (\<lambda>_.
     res_bind (ensure (opt_all (\<lambda>p. t_status p \<noteq> Running) previous)
       (conflict txt_task_executing)) (\<lambda>_.
     res_bind (ensure (t_status c \<noteq> Running \<and> t_status c \<noteq> Done) (conflict txt_plan_claims)) (\<lambda>_.
     res_bind (ensure (given (t_ownerInstanceId c) \<longrightarrow>
         (\<exists>a\<in>set (s_agents state). t_ownerInstanceId c = Some (g_instanceId a) \<and> g_role a = Expert))
       (conflict txt_bad_owner)) (\<lambda>_.
     ensure (given (t_replaces c) \<longrightarrow> (\<exists>t\<in>set (s_tasks state). t_replaces c = Some (t_id t)))
       (conflict txt_replaced_missing)))))))"

definition apply_change ::
  "work_state \<Rightarrow> string \<Rightarrow> work_task \<Rightarrow> string list \<times> task_map \<Rightarrow> (string list \<times> task_map) res" where
  "apply_change state src c acc =
     res_bind (plan_change_ok state (fst acc) (snd acc) c) (\<lambda>_.
     Inr (t_id c # fst acc,
          AList.update (t_id c) (c\<lparr>t_sourceMessageId := src\<rparr>) (snd acc)))"

text \<open>
  The depth-first search over dependencies. \<open>visiting\<close> is the path from the root of the
  search, \<open>visited\<close> the finished tasks, which the search returns extended.
\<close>

function visit :: "task_map \<Rightarrow> string list \<Rightarrow> string list \<Rightarrow> string \<Rightarrow> string list res"
  and visit_all :: "task_map \<Rightarrow> string list \<Rightarrow> string list \<Rightarrow> string list \<Rightarrow> string list res" where
  "visit next visiting visited i =
     (if i \<in> set visiting then Inl (conflict txt_cycle)
      else if i \<in> set visited then Inr visited
      else case map_of next i of
          None \<Rightarrow> Inl (conflict txt_dependency_missing)
        | Some task \<Rightarrow>
            res_bind (visit_all next (i # visiting) visited (t_dependencies task))
              (\<lambda>vs. Inr (i # vs)))"
| "visit_all next visiting visited [] = Inr visited"
| "visit_all next visiting visited (i # is) =
     res_bind (visit next visiting visited i) (\<lambda>vs. visit_all next visiting vs is)"
  by pat_completeness auto
termination
proof (relation "measures
    [\<lambda>x. case x of Inl (m, ving, _, _) \<Rightarrow> card (fst ` set m - set ving)
       | Inr (m, ving, _, _) \<Rightarrow> card (fst ` set m - set ving),
     \<lambda>x. case x of Inl _ \<Rightarrow> 0 | Inr (_, _, _, is) \<Rightarrow> Suc (length is)]",
    goal_cases)
  case (2 "next" visiting visited i task)
  then have "i \<in> fst ` set next" and "i \<notin> set visiting"
    by (auto dest: map_of_SomeD intro: rev_image_eqI)
  then have "fst ` set next - set (i # visiting) \<subset> fst ` set next - set visiting"
    by auto
  then show ?case
    by (simp add: psubset_card_mono)
qed auto

declare visit.simps [simp del]

text \<open>
  The search below a running task for a changed task. The list holds the calls still to be
  made, in the order the recursion of the source makes them.
\<close>

function check_upstream :: "task_map \<Rightarrow> string list \<Rightarrow> string list \<Rightarrow> string list \<Rightarrow> unit res" where
  "check_upstream next ids visited [] = Inr ()"
| "check_upstream next ids visited (i # is) =
     (if i \<in> set visited then check_upstream next ids visited is
      else if i \<in> set ids then Inl (conflict txt_affects_running)
      else check_upstream next ids (i # visited)
        ((case map_of next i of None \<Rightarrow> [] | Some t \<Rightarrow> t_dependencies t) @ is))"
  by pat_completeness auto
termination
proof (relation "measures
    [\<lambda>(m, _, vs, _). card (fst ` set m - set vs), \<lambda>(_, _, _, is). length is]", goal_cases)
  case (3 "next" ids visited i "is")
  show ?case
  proof (cases "map_of next i")
    case None
    then have "i \<notin> fst ` set next"
      by (simp add: map_of_eq_None_iff)
    then have "fst ` set next - set (i # visited) = fst ` set next - set visited"
      by auto
    with None show ?thesis by simp
  next
    case (Some t)
    then have "i \<in> fst ` set next"
      by (auto dest: map_of_SomeD intro: rev_image_eqI)
    with 3 have "fst ` set next - set (i # visited) \<subset> fst ` set next - set visited"
      by auto
    then show ?thesis by (simp add: psubset_card_mono)
  qed
qed auto

definition running_tasks :: "work_state \<Rightarrow> work_task list" where
  "running_tasks state = filter (\<lambda>t. t_status t = Running) (s_tasks state)"

definition apply_work_plan ::
  "work_state \<Rightarrow> work_plan \<Rightarrow> string \<Rightarrow> (work_state \<times> work_plan) res" where
  "apply_work_plan state raw src =
     res_bind (work_plan_schema raw) (\<lambda>plan.
     res_bind (fold_res (apply_change state src) (p_changes plan) ([], task_map_of (s_tasks state)))
       (\<lambda>(ids, next).
     res_bind (ensure (length next \<le> 200) (conflict txt_too_many_tasks)) (\<lambda>_.
     res_bind (visit_all next [] [] (map fst next)) (\<lambda>_.
     res_bind (fold_res (\<lambda>t _. check_upstream next ids [] (t_dependencies t)) (running_tasks state) ())
       (\<lambda>_.
     Inr (state\<lparr>s_tasks := map snd next\<rparr>, plan))))))"

section \<open>The execution gate\<close>

datatype run_status =
    Queued | InProgress | CancelRequested | Stopped | OutcomeUnknown | ReviewedUnknown | Blocked | Succeeded

datatype run_kind = PlanRun | ExecuteRun

record history_entry =
  h_id :: string
  h_kind :: string
  h_userId :: "string option"
  h_instanceId :: "string option"
  h_text :: string

record dependency_artifact =
  da_id :: string
  da_taskId :: "string option"
  da_version :: nat
  da_content :: string
  da_evidence :: string

record run_input =
  i_sourceMessageId :: string
  i_intent :: string
  i_history :: "history_entry list"
  i_dependencyArtifacts :: "dependency_artifact list"
  i_goal :: string
  i_task :: "work_task option"
  i_tasks :: "work_task list"
  i_agents :: "work_agent list"
  i_versionId :: string
  i_contextHash :: string

record work_run =
  r_id :: string
  r_projectId :: string
  r_workId :: string
  r_taskId :: "string option"
  r_instanceId :: string
  r_requestedBy :: string
  r_kind :: run_kind
  r_status :: run_status
  r_reason :: "string option"
  r_input :: run_input
  r_approvedHash :: string
  r_approvalExpiresAt :: nat
  r_planRevision :: nat
  r_fence :: nat
  r_leaseUntil :: "nat option"
  r_startedAt :: "nat option"
  r_finishedAt :: "nat option"
  r_createdAt :: nat

definition history_json :: "history_entry \<Rightarrow> js" where
  "history_json m = JObj
     [(''id'', JStr (h_id m)), (''kind'', JStr (h_kind m)), (''userId'', jopt (h_userId m)),
      (''instanceId'', jopt (h_instanceId m)), (''text'', JStr (h_text m))]"

definition dependency_json :: "dependency_artifact \<Rightarrow> js" where
  "dependency_json a = JObj
     [(''id'', JStr (da_id a)), (''taskId'', jopt (da_taskId a)), (''version'', jnat (da_version a)),
      (''content'', JStr (da_content a)), (''evidence'', JStr (da_evidence a))]"

definition run_input_json :: "run_input \<Rightarrow> js" where
  "run_input_json i = JObj
     [(''sourceMessageId'', JStr (i_sourceMessageId i)), (''intent'', JStr (i_intent i)),
      (''history'', JArr (map history_json (i_history i))),
      (''dependencyArtifacts'', JArr (map dependency_json (i_dependencyArtifacts i))),
      (''goal'', JStr (i_goal i)),
      (''task'', case i_task i of None \<Rightarrow> JNull | Some t \<Rightarrow> task_json t),
      (''tasks'', JArr (map task_json (i_tasks i))), (''agents'', JArr (map agent_json (i_agents i))),
      (''versionId'', JStr (i_versionId i)), (''contextHash'', JStr (i_contextHash i))]"

definition execution_gate :: "hash_env \<Rightarrow> work_run \<Rightarrow> nat \<Rightarrow> nat \<Rightarrow> unit res" where
  "execution_gate h r fence now =
     res_bind (ensure (r_status r = InProgress \<and> r_fence r = fence
         \<and> (case r_leaseUntil r of None \<Rightarrow> False | Some l \<Rightarrow> now < l))
       (WorkError txt_fenced 409 ''run_fenced'')) (\<lambda>_.
     res_bind (ensure (now < r_approvalExpiresAt r)
       (WorkError txt_approval_lapsed 403 ''approval_required'')) (\<lambda>_.
     res_bind (work_hash h (run_input_json (r_input r))) (\<lambda>d.
     ensure (r_approvedHash r = d) (WorkError txt_approval_lapsed 403 ''approval_required''))))"

section \<open>The task map\<close>

definition task_map_ok :: "task_map \<Rightarrow> bool" where
  "task_map_ok m \<longleftrightarrow> distinct (map fst m) \<and> (\<forall>p\<in>set m. t_id (snd p) = fst p)"

lemma task_map_ok_Nil [simp]: "task_map_ok []"
  by (simp add: task_map_ok_def)

lemma task_map_ok_update:
  assumes "task_map_ok m" and "t_id t = k"
  shows "task_map_ok (AList.update k t m)"
proof -
  have "t_id (snd p) = fst p" if "p \<in> set (AList.update k t m)" for p
    using that assms by (induction m) (auto simp: task_map_ok_def split: if_splits)
  then show ?thesis
    using assms by (auto simp: task_map_ok_def distinct_update)
qed

lemma task_map_of_ok: "task_map_ok (task_map_of ts)"
proof -
  have "task_map_ok m \<Longrightarrow> task_map_ok (fold (\<lambda>t m. AList.update (t_id t) t m) ts m)" for m
    by (induction ts arbitrary: m) (auto simp: task_map_ok_update)
  then show ?thesis by (simp add: task_map_of_def)
qed

lemma task_map_ids: "task_map_ok m \<Longrightarrow> map t_id (map snd m) = map fst m"
  by (auto simp: task_map_ok_def)

lemma task_map_lookup: "task_map_ok m \<Longrightarrow> map_of m i = Some t \<longleftrightarrow> t \<in> set (map snd m) \<and> t_id t = i"
  by (force simp: task_map_ok_def)

lemma task_map_of_lookup:
  assumes "distinct (map t_id ts)"
  shows "map_of (task_map_of ts) i = Some t \<longleftrightarrow> t \<in> set ts \<and> t_id t = i"
proof -
  have "map_of (fold (\<lambda>t m. AList.update (t_id t) t m) ts m) i = Some t \<longleftrightarrow>
      (t \<in> set ts \<and> t_id t = i) \<or> (i \<notin> t_id ` set ts \<and> map_of m i = Some t)" for m
    using assms
    by (induction ts arbitrary: m) (auto simp: update_conv' split: if_splits)
  from this [of "[]"] show ?thesis by (simp add: task_map_of_def)
qed

section \<open>The changes of a plan\<close>

text \<open>
  What the loop over the changes keeps: the map stays a task map, a task that is not changed is
  as it was, and a changed task was not final and not running before and is neither running
  nor done now.
\<close>

definition changes_inv ::
  "work_state \<Rightarrow> string \<Rightarrow> task_map \<Rightarrow> string list \<times> task_map \<Rightarrow> bool" where
  "changes_inv state src m0 acc \<longleftrightarrow>
     task_map_ok (snd acc)
   \<and> (\<forall>i. i \<notin> set (fst acc) \<longrightarrow> map_of (snd acc) i = map_of m0 i)
   \<and> (\<forall>i\<in>set (fst acc).
        opt_all (\<lambda>t. t_status t \<notin> {Done, Cancelled, Running}) (map_of m0 i)
      \<and> (\<exists>t. map_of (snd acc) i = Some t \<and> t_status t \<notin> {Running, Done}
          \<and> t_sourceMessageId t = src
          \<and> (given (t_ownerInstanceId t) \<longrightarrow>
               (\<exists>a\<in>set (s_agents state). t_ownerInstanceId t = Some (g_instanceId a)
                 \<and> g_role a = Expert))))"

lemma apply_change_inv:
  assumes "apply_change state src c acc = Inr acc'" and "changes_inv state src m0 acc"
  shows "changes_inv state src m0 acc'"
proof -
  from assms(1) have ok: "plan_change_ok state (fst acc) (snd acc) c = Inr ()"
    and acc': "acc' = (t_id c # fst acc,
        AList.update (t_id c) (c\<lparr>t_sourceMessageId := src\<rparr>) (snd acc))"
    by (auto simp: apply_change_def res_simps)
  from ok have fresh: "t_id c \<notin> set (fst acc)"
    and prev: "opt_all (\<lambda>t. t_status t \<notin> {Done, Cancelled, Running}) (map_of (snd acc) (t_id c))"
    and new: "t_status c \<notin> {Running, Done}"
    and owner: "given (t_ownerInstanceId c) \<longrightarrow>
      (\<exists>a\<in>set (s_agents state). t_ownerInstanceId c = Some (g_instanceId a) \<and> g_role a = Expert)"
    by (auto simp: plan_change_ok_def Let_def res_simps opt_all_iff)
  have "map_of (snd acc) (t_id c) = map_of m0 (t_id c)"
    using assms(2) fresh by (auto simp: changes_inv_def)
  with prev have prev0: "opt_all (\<lambda>t. t_status t \<notin> {Done, Cancelled, Running}) (map_of m0 (t_id c))"
    by simp
  have map': "task_map_ok (AList.update (t_id c) (c\<lparr>t_sourceMessageId := src\<rparr>) (snd acc))"
    using assms(2) by (intro task_map_ok_update) (auto simp: changes_inv_def)
  show ?thesis
    using assms(2) prev0 new owner map' unfolding changes_inv_def acc'
    by (auto simp: update_conv')
qed

lemma changes_inv_start: "changes_inv state src (task_map_of ts) ([], task_map_of ts)"
  by (simp add: changes_inv_def task_map_of_ok)

section \<open>The search for cycles\<close>

text \<open>
  A set of tasks is settled when it is closed under dependencies and the dependencies within
  it are well-founded. The search returns a settled set when it starts with one, and what it
  adds is not on the path that leads to it.
\<close>

definition dep_edges :: "task_map \<Rightarrow> string set \<Rightarrow> (string \<times> string) set" where
  "dep_edges m V = {(d, v). v \<in> V \<and> (\<exists>t. map_of m v = Some t \<and> d \<in> set (t_dependencies t))}"

definition settled :: "task_map \<Rightarrow> string set \<Rightarrow> bool" where
  "settled m V \<longleftrightarrow>
     (\<forall>v\<in>V. \<exists>t. map_of m v = Some t \<and> set (t_dependencies t) \<subseteq> V) \<and> wf (dep_edges m V)"

lemma settled_empty [simp]: "settled m {}"
  by (simp add: settled_def dep_edges_def)

lemma settled_insert:
  assumes V: "settled m V" and i: "i \<notin> V" and t: "map_of m i = Some t"
    and deps: "set (t_dependencies t) \<subseteq> V"
  shows "settled m (insert i V)"
proof -
  let ?new = "set (t_dependencies t) \<times> {i}"
  have "dep_edges m (insert i V) = dep_edges m V \<union> ?new"
    using t by (auto simp: dep_edges_def)
  moreover have "wf (dep_edges m V \<union> ?new)"
  proof (rule wf_Un)
    show "wf (dep_edges m V)" using V by (simp add: settled_def)
    have "?new \<subseteq> measure (\<lambda>x. if x = i then 1 else 0)"
      using deps i by auto
    then show "wf ?new"
      by (rule wf_subset [OF wf_measure])
    have "d \<noteq> i" if "(d, v) \<in> dep_edges m V" for d v
      using that V i by (fastforce simp: dep_edges_def settled_def)
    then show "Domain (dep_edges m V) \<inter> Range ?new = {}"
      by auto
  qed
  moreover have "\<exists>u. map_of m v = Some u \<and> set (t_dependencies u) \<subseteq> insert i V"
    if "v \<in> insert i V" for v
  proof (cases "v = i")
    case False
    with that have "v \<in> V" by simp
    with V show ?thesis unfolding settled_def by blast
  qed (use t deps in blast)
  ultimately show ?thesis
    by (simp only: settled_def) blast
qed

lemma visit_settles:
  "visit m ving vs i = Inr vs' \<Longrightarrow> settled m (set vs) \<Longrightarrow>
     settled m (set vs') \<and> set vs \<subseteq> set vs' \<and> i \<in> set vs' \<and> set vs' \<inter> set ving \<subseteq> set vs"
  "visit_all m ving vs is = Inr vs' \<Longrightarrow> settled m (set vs) \<Longrightarrow>
     settled m (set vs') \<and> set vs \<subseteq> set vs' \<and> set is \<subseteq> set vs' \<and> set vs' \<inter> set ving \<subseteq> set vs"
proof (induction m ving vs i and m ving vs "is" arbitrary: vs' and vs' rule: visit_visit_all.induct)
  case (1 m ving vs i)
  show ?case
  proof (cases "i \<in> set vs")
    case True
    with "1.prems" show ?thesis by (auto simp: visit.simps [of m ving vs i] split: if_splits)
  next
    case False
    with "1.prems"(1) obtain t ws where path: "i \<notin> set ving" and t: "map_of m i = Some t"
      and ws: "visit_all m (i # ving) vs (t_dependencies t) = Inr ws" and vs': "vs' = i # ws"
      by (auto simp: visit.simps [of m ving vs i] res_simps split: if_splits option.splits)
    have IH: "settled m (set ws)" "set vs \<subseteq> set ws" "set (t_dependencies t) \<subseteq> set ws"
        "set ws \<inter> set (i # ving) \<subseteq> set vs"
      using "1.IH" [OF path False t ws "1.prems"(2)] by auto
    from IH(4) False have "i \<notin> set ws" by auto
    with IH t have "settled m (insert i (set ws))"
      by (intro settled_insert)
    with IH path show ?thesis by (auto simp: vs')
  qed
next
  case (3 m ving vs i "is")
  then obtain ws where ws: "visit m ving vs i = Inr ws" and rest: "visit_all m ving ws is = Inr vs'"
    by (auto simp: res_simps)
  from "3.IH"(1) [OF ws "3.prems"(2)] have one:
      "settled m (set ws)" "set vs \<subseteq> set ws" "i \<in> set ws" "set ws \<inter> set ving \<subseteq> set vs"
    by auto
  from "3.IH"(2) [OF rest one(1)] one show ?case by auto
qed auto

lemma visit_all_settled: "visit_all m [] [] (map fst m) = Inr vs \<Longrightarrow> settled m (fst ` set m)"
proof -
  assume v: "visit_all m [] [] (map fst m) = Inr vs"
  then have "settled m (set vs)" and "fst ` set m \<subseteq> set vs"
    using visit_settles(2) [OF v] by auto
  moreover have "set vs \<subseteq> fst ` set m"
    using \<open>settled m (set vs)\<close>
    by (force simp: settled_def dest: map_of_SomeD)
  ultimately show ?thesis by (metis subset_antisym)
qed

section \<open>The upstream of a running task\<close>

inductive upstream :: "task_map \<Rightarrow> string \<Rightarrow> string \<Rightarrow> bool" for m where
  upstream_self: "upstream m i i"
| upstream_dep: "map_of m i = Some t \<Longrightarrow> d \<in> set (t_dependencies t) \<Longrightarrow> upstream m d j \<Longrightarrow> upstream m i j"

text \<open>
  The search leaves every task it has finished with unchanged and with all its dependencies
  either finished or still to be searched.
\<close>

lemma check_upstream_closed:
  assumes "check_upstream m ids vs is = Inr ()"
    and "\<forall>v\<in>set vs. v \<notin> set ids \<and>
      (\<forall>t. map_of m v = Some t \<longrightarrow> set (t_dependencies t) \<subseteq> set vs \<union> set is)"
  shows "\<exists>W. set vs \<union> set is \<subseteq> W \<and> W \<inter> set ids = {} \<and>
      (\<forall>v\<in>W. \<forall>t. map_of m v = Some t \<longrightarrow> set (t_dependencies t) \<subseteq> W)"
  using assms
proof (induction m ids vs "is" rule: check_upstream.induct)
  case (1 m ids vs)
  then show ?case by (intro exI [of _ "set vs"]) auto
next
  case (2 m ids vs i "is")
  show ?case
  proof (cases "i \<in> set vs")
    case True
    with "2.prems" have "check_upstream m ids vs is = Inr ()" by simp
    moreover from True have same: "set vs \<union> set (i # is) = set vs \<union> set is" by auto
    ultimately show ?thesis
      using "2.IH"(1) [OF True] "2.prems"(2) unfolding same by blast
  next
    case False
    let ?ds = "case map_of m i of None \<Rightarrow> [] | Some t \<Rightarrow> t_dependencies t"
    from False "2.prems"(1) have i: "i \<notin> set ids"
      and rest: "check_upstream m ids (i # vs) (?ds @ is) = Inr ()"
      by (auto split: if_splits)
    have "\<forall>v\<in>set (i # vs). v \<notin> set ids \<and>
        (\<forall>t. map_of m v = Some t \<longrightarrow> set (t_dependencies t) \<subseteq> set (i # vs) \<union> set (?ds @ is))"
      using "2.prems"(2) i by auto
    from "2.IH"(2) [OF False i rest this] show ?thesis by auto
  qed
qed

lemma check_upstream_unchanged:
  assumes "check_upstream m ids [] is = Inr ()" and "d \<in> set is" and "upstream m d j"
  shows "j \<notin> set ids"
proof -
  obtain W where W: "set is \<subseteq> W" "W \<inter> set ids = {}"
      "\<forall>v\<in>W. \<forall>t. map_of m v = Some t \<longrightarrow> set (t_dependencies t) \<subseteq> W"
    using check_upstream_closed [OF assms(1)] by auto
  have "j \<in> W" using assms(3) subsetD [OF W(1) assms(2)] W(3)
    by (induction rule: upstream.induct) auto
  with W(2) show ?thesis by auto
qed

section \<open>What a successful plan guarantees\<close>

lemma apply_work_plan_inv:
  assumes "apply_work_plan state raw src = Inr (state', plan)"
  obtains ids m where "work_plan_schema raw = Inr plan"
    and "changes_inv state src (task_map_of (s_tasks state)) (ids, m)"
    and "set ids = t_id ` set (p_changes plan)"
    and "length m \<le> 200" and "settled m (fst ` set m)"
    and "\<And>t. t \<in> set (s_tasks state) \<Longrightarrow> t_status t = Running \<Longrightarrow>
        check_upstream m ids [] (t_dependencies t) = Inr ()"
    and "state' = state\<lparr>s_tasks := map snd m\<rparr>"
proof -
  from assms obtain ids m vs where
    schema: "work_plan_schema raw = Inr plan" and
    loop: "fold_res (apply_change state src) (p_changes plan) ([], task_map_of (s_tasks state)) = Inr (ids, m)"
    and len: "length m \<le> 200" and dfs: "visit_all m [] [] (map fst m) = Inr vs"
    and up: "fold_res (\<lambda>t _. check_upstream m ids [] (t_dependencies t)) (running_tasks state) () = Inr ()"
    and st: "state' = state\<lparr>s_tasks := map snd m\<rparr>"
    by (auto simp: apply_work_plan_def res_simps split: prod.splits)
  have "changes_inv state src (task_map_of (s_tasks state)) (ids, m)"
    using loop changes_inv_start apply_change_inv by (rule fold_res_inv)
  moreover have "set ids = t_id ` set (p_changes plan)"
  proof -
    have "set (fst acc') = set (fst acc) \<union> t_id ` set cs"
      if "fold_res (apply_change state src) cs acc = Inr acc'" for cs acc acc'
      using that
      by (induction cs arbitrary: acc) (auto simp: res_simps apply_change_def)
    from this [OF loop] show ?thesis by simp
  qed
  ultimately show ?thesis
    using that schema len visit_all_settled [OF dfs] st up
    by (auto simp: fold_res_each running_tasks_def)
qed

definition task_index :: "work_task list \<Rightarrow> task_map" where
  "task_index ts = map (\<lambda>t. (t_id t, t)) ts"

lemma task_index_ok: "task_map_ok m \<Longrightarrow> task_index (map snd m) = m"
  by (auto simp: task_map_ok_def task_index_def intro!: map_idI)

definition task_edges :: "work_task list \<Rightarrow> (string \<times> string) set" where
  "task_edges ts = {(d, t_id t) | d t. t \<in> set ts \<and> d \<in> set (t_dependencies t)}"

lemma settled_edges:
  assumes "settled m (fst ` set m)" and "task_map_ok m"
  shows "wf (task_edges (map snd m))"
    and "\<And>t d. t \<in> set (map snd m) \<Longrightarrow> d \<in> set (t_dependencies t) \<Longrightarrow> d \<in> t_id ` set (map snd m)"
proof -
  have ids: "t_id ` set (map snd m) = fst ` set m"
    using task_map_ids [OF assms(2)] by (metis set_map)
  have lookup: "map_of m (t_id t) = Some t" if "t \<in> set (map snd m)" for t
    using that task_map_lookup [OF assms(2)] by blast
  have "task_edges (map snd m) \<subseteq> dep_edges m (fst ` set m)"
    using lookup ids unfolding task_edges_def dep_edges_def by blast
  moreover have "wf (dep_edges m (fst ` set m))"
    using assms(1) by (simp add: settled_def)
  ultimately show "wf (task_edges (map snd m))"
    by (rule wf_subset [rotated])
  fix t d assume t: "t \<in> set (map snd m)" and d: "d \<in> set (t_dependencies t)"
  have "t_id t \<in> fst ` set m"
    using t ids by blast
  then obtain u where u: "map_of m (t_id t) = Some u" and sub: "set (t_dependencies u) \<subseteq> fst ` set m"
    using assms(1) unfolding settled_def by blast
  have "u = t"
    using u lookup [OF t] by simp
  then show "d \<in> t_id ` set (map snd m)"
    using sub d unfolding ids by blast
qed

text \<open>
  C1. A plan that is applied leaves a sound task graph: identifiers are distinct, there are at
  most 200 tasks, every dependency is a task of the Work, and no chain of dependencies returns
  to its start.
\<close>

lemma plan_graph_sound:
  assumes "apply_work_plan state raw src = Inr (state', plan)"
  shows "distinct (map t_id (s_tasks state')) \<and> length (s_tasks state') \<le> 200
    \<and> (\<forall>t\<in>set (s_tasks state'). set (t_dependencies t) \<subseteq> t_id ` set (s_tasks state'))
    \<and> acyclic (task_edges (s_tasks state'))"
proof -
  from assms obtain ids m where
    inv: "changes_inv state src (task_map_of (s_tasks state)) (ids, m)" and
    len: "length m \<le> 200" and se: "settled m (fst ` set m)" and
    st: "state' = state\<lparr>s_tasks := map snd m\<rparr>"
    by (rule apply_work_plan_inv)
  have ok: "task_map_ok m"
    using inv by (simp add: changes_inv_def)
  then have "distinct (map t_id (map snd m))"
    unfolding task_map_ids [OF ok] by (simp only: task_map_ok_def)
  then show ?thesis
    using len settled_edges [OF se ok] st by (auto simp: wf_acyclic)
qed

text \<open>
  C2. A plan cannot rewrite history or work in progress: a task that is done, cancelled or
  running is in the new state exactly as it was.
\<close>

lemma plan_keeps_final_and_running:
  assumes "apply_work_plan state raw src = Inr (state', plan)"
    and "distinct (map t_id (s_tasks state))"
    and "t \<in> set (s_tasks state)" and "t_status t \<in> {Done, Cancelled, Running}"
  shows "t \<in> set (s_tasks state')"
proof -
  from assms(1) obtain ids m where
    inv: "changes_inv state src (task_map_of (s_tasks state)) (ids, m)" and
    st: "state' = state\<lparr>s_tasks := map snd m\<rparr>"
    by (rule apply_work_plan_inv)
  have old: "map_of (task_map_of (s_tasks state)) (t_id t) = Some t"
    using assms(2,3) by (simp add: task_map_of_lookup)
  then have "t_id t \<notin> set ids"
    using inv assms(4) by (fastforce simp: changes_inv_def)
  then have "map_of m (t_id t) = Some t"
    using inv old by (simp add: changes_inv_def)
  then show ?thesis
    using st by (force dest: map_of_SomeD)
qed

text \<open>
  C3. The context of a running execution is frozen: every task the new graph reaches from a
  running task through dependencies is a task of the old state, unchanged.
\<close>

lemma plan_keeps_running_upstream:
  assumes "apply_work_plan state raw src = Inr (state', plan)"
    and "distinct (map t_id (s_tasks state))"
    and "r \<in> set (s_tasks state)" and "t_status r = Running"
    and "d \<in> set (t_dependencies r)" and "upstream (task_index (s_tasks state')) d (t_id u)"
    and "u \<in> set (s_tasks state')"
  shows "u \<in> set (s_tasks state)"
proof -
  from assms(1) obtain ids m where
    inv: "changes_inv state src (task_map_of (s_tasks state)) (ids, m)" and
    up: "\<And>t. t \<in> set (s_tasks state) \<Longrightarrow> t_status t = Running \<Longrightarrow>
        check_upstream m ids [] (t_dependencies t) = Inr ()" and
    st: "state' = state\<lparr>s_tasks := map snd m\<rparr>"
    by (rule apply_work_plan_inv) blast
  have ok: "task_map_ok m"
    using inv by (simp add: changes_inv_def)
  have "upstream m d (t_id u)"
    using assms(6) st task_index_ok [OF ok] by simp
  then have "t_id u \<notin> set ids"
    using check_upstream_unchanged [OF up [OF assms(3,4)] assms(5)] by blast
  moreover have "map_of m (t_id u) = Some u"
    using assms(7) st task_map_lookup [OF ok] by auto
  ultimately have "map_of (task_map_of (s_tasks state)) (t_id u) = Some u"
    using inv by (simp add: changes_inv_def)
  then show ?thesis
    using task_map_of_lookup [OF assms(2)] by blast
qed

section \<open>A Work to evaluate\<close>

definition sample_task :: "string \<Rightarrow> task_status \<Rightarrow> string list \<Rightarrow> work_task" where
  "sample_task i st ds = \<lparr>t_id = i, t_title = ''T'', t_status = st, t_reason = ''r'',
     t_ownerInstanceId = Some ''x1'', t_dependencies = ds, t_acceptance = ''done when read'',
     t_replaces = None, t_sourceMessageId = ''m0''\<rparr>"

definition sample_state :: "work_task list \<Rightarrow> work_state" where
  "sample_state ts = \<lparr>s_title = ''Work'', s_goal = ''goal'', s_ownerUserId = ''u1'',
     s_memberUserIds = [''u1''],
     s_agents = [\<lparr>g_instanceId = ''c1'', g_name = ''C'', g_role = Coordinator, g_versionId = ''v1'',
        g_capability = ''plans''\<rparr>,
       \<lparr>g_instanceId = ''x1'', g_name = ''X'', g_role = Expert, g_versionId = ''v1'',
        g_capability = ''drafts''\<rparr>],
     s_tasks = ts, s_artifacts = [], s_defaultView = Chat, s_modelCallLimit = 20,
     s_modelCallsUsed = 0\<rparr>"

definition sample_tasks :: "work_task list" where
  "sample_tasks = [sample_task ''A'' Done [], sample_task ''B'' Running [''A''], sample_task ''C'' Todo [''B'']]"

definition sample_plan :: work_plan where
  "sample_plan = \<lparr>p_reply = '' ok '',
     p_changes = [sample_task ''C'' Deferred [''B''], sample_task ''D'' Todo [''C'', ''A'']]\<rparr>"

lemma sample_plan_applies:
  "apply_work_plan (sample_state sample_tasks) sample_plan ''m1'' =
     Inr ((sample_state sample_tasks)\<lparr>s_tasks :=
            [sample_task ''A'' Done [], sample_task ''B'' Running [''A''],
             (sample_task ''C'' Deferred [''B''])\<lparr>t_sourceMessageId := ''m1''\<rparr>,
             (sample_task ''D'' Todo [''C'', ''A''])\<lparr>t_sourceMessageId := ''m1''\<rparr>]\<rparr>,
          sample_plan\<lparr>p_reply := ''ok''\<rparr>)"
  by code_simp

section \<open>The guarantees on this plan\<close>

text \<open>The new task C depends on the running B; the plan keeps A and B and the graph stays sound.\<close>

lemma plan_graph_sound_witness:
  "acyclic (task_edges [sample_task ''A'' Done [], sample_task ''B'' Running [''A''],
     (sample_task ''C'' Deferred [''B''])\<lparr>t_sourceMessageId := ''m1''\<rparr>,
     (sample_task ''D'' Todo [''C'', ''A''])\<lparr>t_sourceMessageId := ''m1''\<rparr>])"
  using plan_graph_sound [OF sample_plan_applies] by simp

lemma sample_tasks_distinct: "distinct (map t_id (s_tasks (sample_state sample_tasks)))"
  by code_simp

lemma sample_running: "sample_task ''B'' Running [''A''] \<in> set (s_tasks (sample_state sample_tasks))"
  by (simp add: sample_state_def sample_tasks_def)

lemma plan_keeps_final_and_running_witness:
  "sample_task ''B'' Running [''A''] \<in> set [sample_task ''A'' Done [], sample_task ''B'' Running [''A''],
     (sample_task ''C'' Deferred [''B''])\<lparr>t_sourceMessageId := ''m1''\<rparr>,
     (sample_task ''D'' Todo [''C'', ''A''])\<lparr>t_sourceMessageId := ''m1''\<rparr>]"
  using plan_keeps_final_and_running
    [OF sample_plan_applies sample_tasks_distinct sample_running]
  by (simp add: sample_task_def)

lemma plan_keeps_running_upstream_witness:
  "sample_task ''A'' Done [] \<in> set (s_tasks (sample_state sample_tasks))"
proof (rule plan_keeps_running_upstream [OF sample_plan_applies sample_tasks_distinct sample_running])
  show "upstream m ''A'' (t_id (sample_task ''A'' Done []))" for m
    by (simp add: sample_task_def upstream.upstream_self)
qed (simp_all add: sample_task_def)

end
