(* ===== verification/Capabilities.thy ===== *)
theory Capabilities
  imports Prelude
begin

text \<open>
  The authorization primitives of \<open>packages/contracts/src/authorization.ts\<close>: the registered
  capabilities, scopes, roles and resource relations, the properties a capability has by its
  name, and the canonical path of an external role group. Identifiers that cross the database
  as text (capabilities, roles, relations) are strings; the closed unions the code switches on
  (scopes, membership roles, decisions) are datatypes.
\<close>

section \<open>Registered identifiers\<close>

definition projectCapabilities :: "string list" where
  "projectCapabilities =
     [''CAP_PROJECT_VIEW'', ''CAP_PROJECT_CREATE'', ''CAP_PROJECT_SETTINGS_UPDATE'',
      ''CAP_PROJECT_DELETE'', ''CAP_PROJECT_MEMBER_VIEW'', ''CAP_PROJECT_MEMBER_INVITE'',
      ''CAP_PROJECT_MEMBER_ROLE_ASSIGN'', ''CAP_PROJECT_MEMBER_REMOVE'',
      ''CAP_PROJECT_ROLE_VIEW'', ''CAP_PROJECT_ROLE_CREATE'', ''CAP_PROJECT_ROLE_UPDATE'',
      ''CAP_PROJECT_ROLE_DELETE'', ''CAP_PROJECT_QUOTA_VIEW'', ''CAP_PROJECT_QUOTA_UPDATE'',
      ''CAP_PROJECT_QUOTA_RECONCILE'', ''CAP_AGENT_REGISTRATION_VIEW'',
      ''CAP_AGENT_REGISTRATION_CREATE'', ''CAP_AGENT_REGISTRATION_DISCOVER'',
      ''CAP_AGENT_REGISTRATION_UPDATE'', ''CAP_AGENT_REGISTRATION_DELETE'',
      ''CAP_AGENT_INSTANCE_VIEW'', ''CAP_AGENT_INSTANCE_CONFIG_VIEW'',
      ''CAP_AGENT_INSTANCE_CREATE'', ''CAP_AGENT_INSTANCE_UPDATE'', ''CAP_AGENT_INSTANCE_START'',
      ''CAP_AGENT_INSTANCE_STOP'', ''CAP_AGENT_INSTANCE_RESTART'', ''CAP_AGENT_INSTANCE_DELETE'',
      ''CAP_AGENT_INSTANCE_OWNER_TRANSFER'', ''CAP_AGENT_INSTANCE_LOG_VIEW'',
      ''CAP_AGENT_INSTANCE_INTERACT'', ''CAP_AGENT_INSTANCE_TERMINAL_EXEC'',
      ''CAP_AGENT_INSTANCE_SKILL_ASSIGN'', ''CAP_AGENT_INSTANCE_MCP_SERVER_ASSIGN'',
      ''CAP_AGENT_INSTANCE_KNOWLEDGE_SOURCE_ASSIGN'',
      ''CAP_AGENT_INSTANCE_ACCESS_POLICY_ASSIGN'', ''CAP_AGENT_INSTANCE_RUNTIME_POLICY_ASSIGN'',
      ''CAP_AGENT_INSTANCE_MODEL_ROUTING_ASSIGN'', ''CAP_AGENT_INSTANCE_SECRET_BIND'',
      ''CAP_AGENT_ASSIGNMENT_VIEW'', ''CAP_AGENT_ASSIGNMENT_ASSIGN'',
      ''CAP_AGENT_ASSIGNMENT_UNASSIGN'', ''CAP_AGENT_SESSION_CREATE'',
      ''CAP_AGENT_SESSION_VIEW'', ''CAP_AGENT_SESSION_CONTENT_VIEW'',
      ''CAP_AGENT_SESSION_MESSAGE_SEND'', ''CAP_AGENT_SESSION_DELETE'',
      ''CAP_AGENT_SESSION_EXPORT'', ''CAP_AGENT_SESSION_SHARE'',
      ''CAP_AGENT_MEMORY_CONFIG_VIEW'', ''CAP_AGENT_MEMORY_CONFIG_UPDATE'',
      ''CAP_AGENT_MEMORY_EMBEDDING_ASSIGN'', ''CAP_AGENT_MEMORY_ITEM_VIEW'',
      ''CAP_AGENT_MEMORY_CONTENT_VIEW'', ''CAP_AGENT_MEMORY_CONTENT_WRITE'',
      ''CAP_AGENT_MEMORY_CONTENT_DELETE'', ''CAP_AGENT_MEMORY_CONTENT_PURGE'',
      ''CAP_AGENT_MEMORY_RECALL_USE'', ''CAP_AGENT_MEMORY_SEARCH'',
      ''CAP_AGENT_MEMORY_SESSION_INDEX_MANAGE'', ''CAP_AGENT_MEMORY_INDEX_STATUS_VIEW'',
      ''CAP_AGENT_MEMORY_INDEX_VALIDATE'', ''CAP_AGENT_MEMORY_INDEX_REBUILD'',
      ''CAP_AGENT_MEMORY_INDEX_PURGE'', ''CAP_AGENT_MEMORY_IMPORT'', ''CAP_AGENT_MEMORY_EXPORT'',
      ''CAP_AGENT_MEMORY_RETENTION_VIEW'', ''CAP_AGENT_MEMORY_RETENTION_UPDATE'',
      ''CAP_AGENT_MEMORY_LEGAL_HOLD_MANAGE'', ''CAP_SKILL_VIEW'', ''CAP_SKILL_CREATE'',
      ''CAP_SKILL_UPDATE'', ''CAP_SKILL_VERIFY'', ''CAP_SKILL_PUBLISH'', ''CAP_SKILL_SUSPEND'',
      ''CAP_SKILL_DELETE'', ''CAP_SKILL_ARTIFACT_METADATA_VIEW'',
      ''CAP_SKILL_ARTIFACT_DOWNLOAD'', ''CAP_SKILL_ARTIFACT_PUBLISH'', ''CAP_MCP_SERVER_VIEW'',
      ''CAP_MCP_SERVER_CREATE'', ''CAP_MCP_SERVER_UPDATE'', ''CAP_MCP_SERVER_DELETE'',
      ''CAP_MCP_SERVER_DISCOVER'', ''CAP_MCP_SERVER_TEST'', ''CAP_MCP_TOOL_VIEW'',
      ''CAP_MCP_TOOL_TEST_INVOKE'', ''CAP_VECTOR_DATABASE_VIEW'',
      ''CAP_VECTOR_DATABASE_CONTENT_VIEW'', ''CAP_VECTOR_DATABASE_CREATE'',
      ''CAP_VECTOR_DATABASE_UPDATE'', ''CAP_VECTOR_DATABASE_DELETE'',
      ''CAP_VECTOR_DATABASE_SYNC'', ''CAP_VECTOR_DATABASE_REINDEX'',
      ''CAP_AGENT_SPECIALIZATION_VIEW'', ''CAP_AGENT_SPECIALIZATION_CREATE'',
      ''CAP_AGENT_SPECIALIZATION_UPDATE'', ''CAP_AGENT_SPECIALIZATION_DELETE'',
      ''CAP_ACCESS_POLICY_VIEW'', ''CAP_ACCESS_POLICY_VERSION_VIEW'',
      ''CAP_ACCESS_POLICY_CREATE'', ''CAP_ACCESS_POLICY_UPDATE'', ''CAP_ACCESS_POLICY_DELETE'',
      ''CAP_RUNTIME_POLICY_VIEW'', ''CAP_RUNTIME_POLICY_CREATE'', ''CAP_RUNTIME_POLICY_UPDATE'',
      ''CAP_RUNTIME_POLICY_DELETE'', ''CAP_RUNTIME_POLICY_VALIDATE'', ''CAP_PROVIDER_VIEW'',
      ''CAP_PROVIDER_CREATE'', ''CAP_PROVIDER_UPDATE'', ''CAP_PROVIDER_DELETE'',
      ''CAP_PROVIDER_DISCOVER'', ''CAP_PROVIDER_VALIDATE'', ''CAP_PROVIDER_CREDENTIAL_ROTATE'',
      ''CAP_MODEL_VIEW'', ''CAP_MODEL_CREATE'', ''CAP_MODEL_UPDATE'', ''CAP_MODEL_DELETE'',
      ''CAP_MODEL_VALIDATE'', ''CAP_INFERENCE_GATEWAY_VIEW'', ''CAP_INFERENCE_GATEWAY_CREATE'',
      ''CAP_INFERENCE_GATEWAY_UPDATE'', ''CAP_INFERENCE_GATEWAY_DELETE'',
      ''CAP_INFERENCE_GATEWAY_VALIDATE'', ''CAP_MODEL_ROUTING_VIEW'',
      ''CAP_MODEL_ROUTING_CREATE'', ''CAP_MODEL_ROUTING_UPDATE'', ''CAP_MODEL_ROUTING_DELETE'',
      ''CAP_MODEL_ROUTING_VALIDATE'', ''CAP_MODEL_ROUTING_RECONCILE'',
      ''CAP_SECRET_METADATA_VIEW'', ''CAP_SECRET_CREATE'', ''CAP_SECRET_ROTATE'',
      ''CAP_SECRET_BIND'', ''CAP_SECRET_UNBIND'', ''CAP_SECRET_DELETE'',
      ''CAP_APPROVAL_REQUEST_VIEW'', ''CAP_APPROVAL_REQUEST_DRAFT_CREATE'',
      ''CAP_APPROVAL_REQUEST_DRAFT_UPDATE'', ''CAP_APPROVAL_REQUEST_SUBMIT'',
      ''CAP_APPROVAL_REQUEST_COMMENT'', ''CAP_APPROVAL_REQUEST_CANCEL'',
      ''CAP_APPROVAL_REQUEST_DECIDE'', ''CAP_APPROVAL_REQUEST_ASSIGN'',
      ''CAP_APPROVAL_POLICY_VIEW'', ''CAP_APPROVAL_POLICY_UPDATE'',
      ''CAP_APPROVED_CHANGE_APPLY'', ''CAP_APPROVAL_OVERRIDE'', ''CAP_AUDIT_VIEW'',
      ''CAP_AUDIT_DETAIL_VIEW'', ''CAP_AUDIT_SENSITIVE_CONTENT_VIEW'', ''CAP_AUDIT_EXPORT'',
      ''CAP_AUDIT_INTEGRITY_VERIFY'', ''CAP_AUDIT_RETENTION_UPDATE'',
      ''CAP_AUDIT_LEGAL_HOLD_MANAGE'', ''CAP_TRACE_VIEW'', ''CAP_TRACE_CONTENT_VIEW'',
      ''CAP_TRACE_EXPORT'', ''CAP_RUNTIME_LOG_VIEW'', ''CAP_RUNTIME_LOG_DOWNLOAD'',
      ''CAP_RUNTIME_OPERATION_VIEW'', ''CAP_RUNTIME_OPERATION_RECONCILE'',
      ''CAP_RUNTIME_OPERATION_CANCEL'', ''CAP_RUNTIME_OPERATION_ROLLBACK'', ''CAP_COST_VIEW'',
      ''CAP_COST_EXPORT'', ''CAP_USAGE_VIEW'', ''CAP_USAGE_EXPORT'',
      ''CAP_USAGE_DATA_QUALITY_VIEW'']"

definition platformCapabilities :: "string list" where
  "platformCapabilities =
     [''CAP_PLATFORM_VIEW'', ''CAP_PLATFORM_SETTINGS_VIEW'', ''CAP_PLATFORM_SETTINGS_UPDATE'',
      ''CAP_PLATFORM_DEPARTMENT_VIEW'', ''CAP_PLATFORM_DEPARTMENT_CREATE'',
      ''CAP_PLATFORM_PROJECT_CREATE'', ''CAP_PLATFORM_PEOPLE_VIEW'', ''CAP_PLATFORM_ROLE_VIEW'',
      ''CAP_PLATFORM_PROVIDER_VIEW'', ''CAP_PLATFORM_PROVIDER_UPDATE'',
      ''CAP_PLATFORM_RUNTIME_VIEW'', ''CAP_PLATFORM_RUNTIME_UPDATE'',
      ''CAP_PLATFORM_SANDBOX_VIEW'', ''CAP_PLATFORM_SANDBOX_UPDATE'',
      ''CAP_PLATFORM_SECURITY_VIEW'', ''CAP_PLATFORM_SECURITY_UPDATE'',
      ''CAP_PLATFORM_EMAIL_VIEW'', ''CAP_PLATFORM_EMAIL_UPDATE'']"

definition departmentCapabilities :: "string list" where
  "departmentCapabilities =
     [''CAP_DEPARTMENT_VIEW'', ''CAP_DEPARTMENT_SETTINGS_UPDATE'',
      ''CAP_DEPARTMENT_MEMBER_VIEW'', ''CAP_DEPARTMENT_MEMBER_INVITE'',
      ''CAP_DEPARTMENT_MEMBER_ROLE_ASSIGN'', ''CAP_DEPARTMENT_MEMBER_REMOVE'',
      ''CAP_DEPARTMENT_PROJECT_VIEW'', ''CAP_DEPARTMENT_PROJECT_CREATE'',
      ''CAP_DEPARTMENT_PROJECT_DELETE'', ''CAP_DEPARTMENT_QUOTA_VIEW'',
      ''CAP_DEPARTMENT_QUOTA_UPDATE'']"

definition authorizationCapabilities :: "string list" where
  "authorizationCapabilities = platformCapabilities @ departmentCapabilities @ projectCapabilities"

datatype authorization_scope = PLATFORM | DEPARTMENT | PROJECT

definition builtinRoleIds :: "string list" where
  "builtinRoleIds =
     [''ROLE_PLATFORM_ADMIN'', ''ROLE_DEPARTMENT_ADMIN'', ''ROLE_PROJECT_ADMIN'',
      ''ROLE_AGENT_DEVELOPER'', ''ROLE_USER'', ''ROLE_AUDITOR'', ''ROLE_REVIEWER'']"

definition builtinProjectRoleIds :: "string list" where
  "builtinProjectRoleIds =
     [''ROLE_PROJECT_ADMIN'', ''ROLE_AUDITOR'', ''ROLE_AGENT_DEVELOPER'', ''ROLE_USER'',
      ''ROLE_REVIEWER'']"

definition platformRoleIds :: "string list" where
  "platformRoleIds = [''ROLE_PLATFORM_ADMIN'']"

definition departmentRoleIds :: "string list" where
  "departmentRoleIds = [''ROLE_DEPARTMENT_ADMIN'', ''ROLE_DEPARTMENT_MEMBER'']"

definition externalRoleIds :: "string list" where
  "externalRoleIds = builtinRoleIds @ [''ROLE_DEPARTMENT_MEMBER'']"

datatype project_role = AdminRole | AuditorRole | DeveloperRole | UserRole | ReviewerRole

definition resourceRelations :: "string list" where
  "resourceRelations =
     [''OWNER'', ''MAINTAINER'', ''ASSIGNED'', ''SESSION_PARTICIPANT'', ''PROJECT_ANY'']"

definition builtinRoleFamilies :: "string list" where
  "builtinRoleFamilies = [''ADMINISTRATION'', ''PROJECT_BUSINESS'']"

datatype decision = ALLOW | DENY | APPROVAL_REQUIRED

section \<open>External role groups\<close>

definition canonicalExternalRoleGroupPath ::
  "authorization_scope \<Rightarrow> string option \<Rightarrow> string option \<Rightarrow> string \<Rightarrow> string option" where
  "canonicalExternalRoleGroupPath sc departmentId projectId roleId =
     (if sc = PLATFORM then Some (''/tali/r/'' @ roleId)
      else if sc = DEPARTMENT \<and> given departmentId then
        Some (''/tali/d/'' @ the departmentId @ ''/r/'' @ roleId)
      else if sc = PROJECT \<and> given departmentId \<and> given projectId then
        Some (''/tali/d/'' @ the departmentId @ ''/p/'' @ the projectId @ ''/r/'' @ roleId)
      else None)"

section \<open>The Project capability catalog\<close>

record capability_definition =
  cd_id :: string
  cd_sideEffect :: bool
  cd_sensitiveContent :: bool

definition readOnlySuffixes :: "string list" where
  "readOnlySuffixes =
     [''_VIEW'', ''_METADATA_VIEW'', ''_STATUS_VIEW'', ''_VERSION_VIEW'', ''_RETENTION_VIEW'']"

definition sensitiveCapabilities :: "string list" where
  "sensitiveCapabilities =
     [''CAP_AGENT_INSTANCE_TERMINAL_EXEC'', ''CAP_AGENT_SESSION_CONTENT_VIEW'',
      ''CAP_AGENT_SESSION_EXPORT'', ''CAP_AGENT_MEMORY_CONTENT_VIEW'',
      ''CAP_AGENT_MEMORY_CONTENT_WRITE'', ''CAP_AGENT_MEMORY_CONTENT_DELETE'',
      ''CAP_AGENT_MEMORY_CONTENT_PURGE'', ''CAP_AGENT_MEMORY_SEARCH'',
      ''CAP_AGENT_MEMORY_IMPORT'', ''CAP_AGENT_MEMORY_EXPORT'',
      ''CAP_VECTOR_DATABASE_CONTENT_VIEW'', ''CAP_AUDIT_SENSITIVE_CONTENT_VIEW'',
      ''CAP_AUDIT_EXPORT'', ''CAP_TRACE_CONTENT_VIEW'', ''CAP_TRACE_EXPORT'',
      ''CAP_RUNTIME_LOG_DOWNLOAD'']"

definition projectCapabilityCatalog :: "capability_definition list" where
  "projectCapabilityCatalog = map (\<lambda>i. \<lparr>cd_id = i,
     cd_sideEffect = (\<not> list_ex (\<lambda>s. suffix s i) readOnlySuffixes),
     cd_sensitiveContent = (i \<in> set sensitiveCapabilities)\<rparr>) projectCapabilities"

definition projectCapabilityDefinition :: "string \<Rightarrow> capability_definition option" where
  "projectCapabilityDefinition i = find_unique cd_id i (rev projectCapabilityCatalog)"

definition isProjectCapability :: "string \<Rightarrow> bool" where
  "isProjectCapability v \<longleftrightarrow> projectCapabilityDefinition v \<noteq> None"

lemma isProjectCapability_iff: "isProjectCapability v \<longleftrightarrow> v \<in> set projectCapabilities"
  by (auto simp: isProjectCapability_def projectCapabilityDefinition_def
      find_unique_None_iff projectCapabilityCatalog_def image_iff)

lemma project_capability_side_effect:
  assumes "projectCapabilityDefinition i = Some d"
  shows "cd_id d = i \<and> (cd_sideEffect d \<longleftrightarrow> \<not> suffix ''_VIEW'' i)"
proof -
  have i: "cd_id d = i" and d: "d \<in> set projectCapabilityCatalog"
    using assms unfolding projectCapabilityDefinition_def
    by (auto dest: find_unique_key find_unique_in)
  have "\<forall>s\<in>set readOnlySuffixes. suffix ''_VIEW'' s"
    by (simp add: readOnlySuffixes_def suffix_def)
  then have "list_ex (\<lambda>s. suffix s i) readOnlySuffixes \<longleftrightarrow> suffix ''_VIEW'' i"
    by (auto simp: list_ex_iff readOnlySuffixes_def intro: suffix_order.trans)
  with i d show ?thesis
    by (auto simp: projectCapabilityCatalog_def)
qed

lemma project_capabilities_distinct: "distinct projectCapabilities"
proof -
  have "spread (map (\<lambda>s. (length s, s)) projectCapabilities)"
    by code_simp
  then show ?thesis by (rule distinct_by_key)
qed

lemma scope_prefixes:
  "list_all (prefix ''CAP_PLATFORM_'') platformCapabilities"
  "list_all (prefix ''CAP_DEPARTMENT_'') departmentCapabilities"
  "list_all (\<lambda>c. \<not> prefix ''CAP_PLATFORM_'' c \<and> \<not> prefix ''CAP_DEPARTMENT_'' c) projectCapabilities"
  by code_simp+

lemma authorization_capabilities_distinct: "distinct authorizationCapabilities"
proof -
  have small: "distinct platformCapabilities" "distinct departmentCapabilities"
    by code_simp+
  have "prefix ''CAP_PLATFORM_'' c \<Longrightarrow> \<not> prefix ''CAP_DEPARTMENT_'' c" for c
    by (auto simp: prefix_def)
  with small project_capabilities_distinct scope_prefixes show ?thesis
    by (fastforce simp: authorizationCapabilities_def list_all_iff)
qed

section \<open>Group paths identify their assignment\<close>

text \<open>A path splits at its slashes in one way only, as identifiers contain none.\<close>

lemma slash_split:
  assumes "a @ CHR ''/'' # x = b @ CHR ''/'' # y"
    and "CHR ''/'' \<notin> set a" and "CHR ''/'' \<notin> set b"
  shows "a = b \<and> x = y"
  using assms
proof (induction a arbitrary: b)
  case Nil
  then show ?case by (cases b) auto
next
  case (Cons c a)
  then show ?case by (cases b) auto
qed

definition plain_id :: "string option \<Rightarrow> bool" where
  "plain_id x \<longleftrightarrow> (\<forall>s. x = Some s \<longrightarrow> CHR ''/'' \<notin> set s)"

text \<open>The identifiers a scope uses.\<close>

definition scope_key ::
  "authorization_scope \<Rightarrow> string option \<Rightarrow> string option \<Rightarrow> string \<Rightarrow> string option list" where
  "scope_key sc d p r =
     (case sc of PLATFORM \<Rightarrow> [Some r] | DEPARTMENT \<Rightarrow> [d, Some r] | PROJECT \<Rightarrow> [d, p, Some r])"

text \<open>
  C26. Assignments of external roles do not share a group: the group path determines the
  scope, the Department, the Project and the role, for identifiers without a slash.
\<close>

lemma group_path_injective:
  assumes "canonicalExternalRoleGroupPath sc d p r = Some path"
    and "canonicalExternalRoleGroupPath sc' d' p' r' = Some path"
    and "plain_id d" "plain_id p" "plain_id d'" "plain_id p'"
  shows "sc = sc' \<and> scope_key sc d p r = scope_key sc' d' p' r'"
proof -
  have part: "a = b \<and> x = y" if "a @ ''/'' @ x = b @ ''/'' @ y" "CHR ''/'' \<notin> set a" "CHR ''/'' \<notin> set b"
    for a b x y :: string
    using slash_split [of a x b y] that by simp
  show ?thesis
  proof (cases sc; cases sc')
    assume sc: "sc = DEPARTMENT" "sc' = DEPARTMENT"
    with assms show ?thesis
      using part [of "the d" "''r/'' @ r" "the d'" "''r/'' @ r'"]
      by (auto simp: canonicalExternalRoleGroupPath_def scope_key_def plain_id_def given_def
          split: if_splits option.splits)
  next
    assume sc: "sc = PROJECT" "sc' = PROJECT"
    with assms show ?thesis
      using part [of "the d" "''p/'' @ the p @ ''/r/'' @ r" "the d'" "''p/'' @ the p' @ ''/r/'' @ r'"]
        part [of "the p" "''r/'' @ r" "the p'" "''r/'' @ r'"]
      by (auto simp: canonicalExternalRoleGroupPath_def scope_key_def plain_id_def given_def
          split: if_splits option.splits)
  next
    assume sc: "sc = DEPARTMENT" "sc' = PROJECT"
    with assms show ?thesis
      using part [of "the d" "''r/'' @ r" "the d'" "''p/'' @ the p' @ ''/r/'' @ r'"]
      by (auto simp: canonicalExternalRoleGroupPath_def scope_key_def plain_id_def given_def
          split: if_splits option.splits)
  next
    assume sc: "sc = PROJECT" "sc' = DEPARTMENT"
    with assms show ?thesis
      using part [of "the d" "''p/'' @ the p @ ''/r/'' @ r" "the d'" "''r/'' @ r'"]
      by (auto simp: canonicalExternalRoleGroupPath_def scope_key_def plain_id_def given_def
          split: if_splits option.splits)
  qed (use assms in \<open>auto simp: canonicalExternalRoleGroupPath_def scope_key_def split: if_splits\<close>)
qed

lemma group_path_injective_witness:
  "scope_key PROJECT (Some ''d'') (Some ''p'') ''ROLE_USER'' = [Some ''d'', Some ''p'', Some ''ROLE_USER'']"
proof -
  have path: "canonicalExternalRoleGroupPath PROJECT (Some ''d'') (Some ''p'') ''ROLE_USER'' =
      Some ''/tali/d/d/p/p/r/ROLE_USER''"
    by code_simp
  have plain: "plain_id (Some ''d'')" "plain_id (Some ''p'')"
    by (simp_all add: plain_id_def)
  show ?thesis
    using group_path_injective [OF path path plain plain] by (simp add: scope_key_def)
qed

end
