(* ===== verification/Role_Catalog.thy ===== *)
theory Role_Catalog
  imports Capabilities
begin

text \<open>
  \<open>authorization/role-catalog.ts\<close> and \<open>authorization/builtin-roles.ts\<close>: the validation of the
  configured role catalog, its synchronization into the database, and the role views the
  access checks read. The configured catalog is an argument of the operations.
\<close>

section \<open>The configured catalog\<close>

record configured_grant =
  cg_capability :: string
  cg_relations :: "string list"

record configured_role =
  cr_id :: string
  cr_scope :: string
  cr_family :: string
  cr_name :: string
  cr_description :: string
  cr_assignable :: bool
  cr_sortOrder :: int
  cr_grants :: "configured_grant list"

text \<open>A revision that is not an integer is \<open>None\<close>.\<close>

record configured_catalog =
  cc_revision :: "int option"
  cc_roles :: "configured_role list"

definition capability_scope :: "string \<Rightarrow> string" where
  "capability_scope c =
     (if prefix ''CAP_PLATFORM_'' c then ''PLATFORM''
      else if prefix ''CAP_DEPARTMENT_'' c then ''DEPARTMENT''
      else ''PROJECT'')"

definition check_grant :: "configured_role \<Rightarrow> configured_grant \<Rightarrow> string list \<Rightarrow> string list res" where
  "check_grant role grant grantIds =
     res_bind (ensure (cg_capability grant \<in> set authorizationCapabilities
         \<and> cg_capability grant \<notin> set grantIds)
       (PlainError (''The builtin Role '' @ cr_id role
          @ '' has an invalid or duplicate Capability grant.''))) (\<lambda>_.
     res_bind (ensure (\<forall>r\<in>set (cg_relations grant). r \<in> set resourceRelations)
       (PlainError (''The builtin Role '' @ cr_id role @ '' has an invalid resource relation.''))) (\<lambda>_.
     res_bind (ensure (capability_scope (cg_capability grant) = cr_scope role)
       (PlainError (''The builtin Role '' @ cr_id role @ '' crosses authorization scopes.''))) (\<lambda>_.
     Inr (cg_capability grant # grantIds))))"

definition check_role :: "configured_role \<Rightarrow> unit res" where
  "check_role role =
     res_bind (ensure (cr_id role \<in> set builtinRoleIds \<and> cr_family role \<in> set builtinRoleFamilies)
       (PlainError (''The builtin Role '' @ cr_id role @ '' has an invalid identity or family.''))) (\<lambda>_.
     res_bind (fold_res (check_grant role) (cr_grants role) []) (\<lambda>_. Inr ()))"

definition configuredCatalog :: "configured_catalog \<Rightarrow> configured_catalog res" where
  "configuredCatalog candidate =
     res_bind (ensure (case cc_revision candidate of None \<Rightarrow> False | Some n \<Rightarrow> 1 \<le> n)
       (PlainError ''The builtin Role catalog revision is invalid.'')) (\<lambda>_.
     res_bind (ensure (length (cc_roles candidate) = length builtinRoleIds)
       (PlainError ''The builtin Role catalog must define exactly seven Roles.'')) (\<lambda>_.
     (let configuredRoleIds = js_unique (map cr_id (cc_roles candidate)) in
     res_bind (ensure (length configuredRoleIds = length builtinRoleIds
         \<and> (\<forall>i\<in>set builtinRoleIds. i \<in> set configuredRoleIds))
       (PlainError ''The builtin Role catalog does not match the registered Role IDs.'')) (\<lambda>_.
     res_bind (fold_res (\<lambda>role _. check_role role) (cc_roles candidate) ()) (\<lambda>_.
     Inr candidate)))))"

section \<open>The tables\<close>

record capability_row =
  k_id :: string
  k_scope :: string
  k_sideEffect :: bool
  k_sensitiveContent :: bool
  k_systemManaged :: bool
  k_sortOrder :: nat

record role_row =
  l_id :: string
  l_scope :: string
  l_family :: string
  l_name :: string
  l_description :: string
  l_builtin :: bool
  l_assignable :: bool
  l_systemManaged :: bool
  l_sortOrder :: int
  l_revision :: int

record grant_row =
  n_roleId :: string
  n_capabilityId :: string
  n_relations :: "string list"

record role_db =
  rb_capabilities :: "capability_row list"
  rb_roles :: "role_row list"
  rb_grants :: "grant_row list"
  rb_revision :: "int option"

definition grant_key :: "grant_row \<Rightarrow> string \<times> string" where
  "grant_key g = (n_roleId g, n_capabilityId g)"

text \<open>\<open>createMany\<close> stops at the first row whose key is taken.\<close>

definition create_many :: "('r \<Rightarrow> 'k) \<Rightarrow> 'r list \<Rightarrow> 'r list \<Rightarrow> 'r list res" where
  "create_many key rows t = fold_res (\<lambda>r u. of_option UniqueViolation (insert_row key r u)) rows t"

definition genericCapabilityDefinition :: "string \<Rightarrow> string \<Rightarrow> nat \<Rightarrow> capability_row" where
  "genericCapabilityDefinition i sc n =
     \<lparr>k_id = i, k_scope = sc, k_sideEffect = (\<not> suffix ''_VIEW'' i),
      k_sensitiveContent = (i = ''CAP_PLATFORM_SECURITY_UPDATE'' \<or> i = ''CAP_PLATFORM_EMAIL_UPDATE''),
      k_systemManaged = True, k_sortOrder = n\<rparr>"

definition capabilityDefinitions :: "capability_row list" where
  "capabilityDefinitions =
     map (\<lambda>(n, i). genericCapabilityDefinition i ''PLATFORM'' n) (enumerate 0 platformCapabilities)
   @ map (\<lambda>(n, i). genericCapabilityDefinition i ''DEPARTMENT'' n) (enumerate 0 departmentCapabilities)
   @ map (\<lambda>(n, d). \<lparr>k_id = cd_id d, k_scope = ''PROJECT'', k_sideEffect = cd_sideEffect d,
        k_sensitiveContent = cd_sensitiveContent d, k_systemManaged = True, k_sortOrder = n\<rparr>)
       (enumerate 0 projectCapabilityCatalog)"

fun membershipRoleToBuiltinRole :: "project_role \<Rightarrow> string" where
  "membershipRoleToBuiltinRole AdminRole = ''ROLE_PROJECT_ADMIN''"
| "membershipRoleToBuiltinRole AuditorRole = ''ROLE_AUDITOR''"
| "membershipRoleToBuiltinRole DeveloperRole = ''ROLE_AGENT_DEVELOPER''"
| "membershipRoleToBuiltinRole UserRole = ''ROLE_USER''"
| "membershipRoleToBuiltinRole ReviewerRole = ''ROLE_REVIEWER''"

text \<open>The restriction of the foreign key from a grant to its capability.\<close>

definition fk_restrict :: failure where
  "fk_restrict = PlainError ''Foreign key constraint violated''"

definition catalog_revision :: "configured_catalog \<Rightarrow> int" where
  "catalog_revision cat = the (cc_revision cat)"

definition role_row_of :: "configured_catalog \<Rightarrow> configured_role \<Rightarrow> role_row" where
  "role_row_of cat r = \<lparr>l_id = cr_id r, l_scope = cr_scope r, l_family = cr_family r,
     l_name = cr_name r, l_description = cr_description r, l_builtin = True,
     l_assignable = cr_assignable r, l_systemManaged = True, l_sortOrder = cr_sortOrder r,
     l_revision = catalog_revision cat\<rparr>"

definition grant_rows_of :: "configured_role \<Rightarrow> grant_row list" where
  "grant_rows_of r = map (\<lambda>g. \<lparr>n_roleId = cr_id r, n_capabilityId = cg_capability g,
     n_relations = cg_relations g\<rparr>) (cr_grants r)"

definition synchronizeBuiltinRoleCatalog :: "configured_catalog \<Rightarrow> role_db \<Rightarrow> role_db res" where
  "synchronizeBuiltinRoleCatalog cat db =
     (let db1 = db\<lparr>rb_grants := delete_rows (\<lambda>g. n_roleId g \<in> set builtinRoleIds) (rb_grants db)\<rparr>;
          db2 = db1\<lparr>rb_roles := delete_rows (\<lambda>r. l_id r \<in> set builtinRoleIds) (rb_roles db1)\<rparr>;
          managed = filter k_systemManaged (rb_capabilities db2)
      in
      res_bind (ensure (\<forall>g\<in>set (rb_grants db2). n_capabilityId g \<notin> k_id ` set managed) fk_restrict) (\<lambda>_.
      res_bind (create_many k_id capabilityDefinitions (delete_rows k_systemManaged (rb_capabilities db2)))
        (\<lambda>caps.
      res_bind (create_many l_id
          (map (role_row_of cat) (cc_roles cat)) (rb_roles db2)) (\<lambda>roles.
      res_bind (create_many grant_key
          (concat (map grant_rows_of (cc_roles cat))) (rb_grants db2)) (\<lambda>grants.
      Inr (db2\<lparr>rb_capabilities := caps, rb_roles := roles, rb_grants := grants,
             rb_revision := Some (catalog_revision cat)\<rparr>))))))"

text \<open>A transaction that fails leaves the database as it was.\<close>

definition ensureBuiltinRoleCatalog :: "configured_catalog \<Rightarrow> role_db \<Rightarrow> role_db res" where
  "ensureBuiltinRoleCatalog cat db =
     (if rb_revision db = Some (catalog_revision cat) then Inr db
      else synchronizeBuiltinRoleCatalog cat db)"

section \<open>Role views\<close>

record role_view =
  v_id :: string
  v_scope :: string
  v_family :: string
  v_name :: string
  v_description :: string
  v_revision :: int
  v_grants :: "configured_grant list"
  v_capabilities :: "string list"
  v_relations :: "string list"

record catalog_view =
  cv_revision :: int
  cv_capabilities :: "capability_row list"
  cv_roles :: "role_view list"

definition relations :: "string list \<Rightarrow> string list" where
  "relations value = filter (\<lambda>r. r \<in> set resourceRelations) value"

definition grant_order :: "role_db \<Rightarrow> grant_row \<Rightarrow> nat" where
  "grant_order db g = (case find_unique k_id (n_capabilityId g) (rb_capabilities db) of
     None \<Rightarrow> 0 | Some k \<Rightarrow> k_sortOrder k)"

definition roleView :: "role_db \<Rightarrow> role_row \<Rightarrow> role_view" where
  "roleView db role =
     (let grants = map (\<lambda>g. \<lparr>cg_capability = n_capabilityId g, cg_relations = relations (n_relations g)\<rparr>)
            (sort_key (grant_order db) (filter (\<lambda>g. n_roleId g = l_id role) (rb_grants db)))
      in \<lparr>v_id = l_id role, v_scope = l_scope role, v_family = l_family role, v_name = l_name role,
          v_description = l_description role, v_revision = l_revision role, v_grants = grants,
          v_capabilities = map cg_capability grants,
          v_relations = js_unique (concat (map cg_relations grants))\<rparr>)"

text \<open>The order of the scope column is that of its enumeration.\<close>

definition scope_rank :: "string \<Rightarrow> nat" where
  "scope_rank s = (if s = ''PLATFORM'' then 0 else if s = ''DEPARTMENT'' then 1 else 2)"

definition catalog :: "configured_catalog \<Rightarrow> role_db \<Rightarrow> (catalog_view \<times> role_db) res" where
  "catalog cat db =
     res_bind (ensureBuiltinRoleCatalog cat db) (\<lambda>db.
     res_bind (of_option RecordNotFound (rb_revision db)) (\<lambda>rev.
     Inr (\<lparr>cv_revision = rev,
            cv_capabilities = sort_key (\<lambda>k. scope_rank (k_scope k))
              (sort_key k_sortOrder (rb_capabilities db)),
            cv_roles = map (roleView db) (sort_key l_sortOrder (filter l_builtin (rb_roles db)))\<rparr>, db)))"

definition role :: "configured_catalog \<Rightarrow> string \<Rightarrow> role_db \<Rightarrow> (role_view \<times> role_db) res" where
  "role cat i db =
     res_bind (ensureBuiltinRoleCatalog cat db) (\<lambda>db.
     case find_unique l_id i (rb_roles db) of
       None \<Rightarrow> Inl (PlainError (''Builtin Role '' @ i @ '' is unavailable.''))
     | Some r \<Rightarrow> if l_builtin r then Inr (roleView db r, db)
         else Inl (PlainError (''Builtin Role '' @ i @ '' is unavailable.'')))"

definition roles :: "configured_catalog \<Rightarrow> string list \<Rightarrow> role_db \<Rightarrow> (role_view list \<times> role_db) res" where
  "roles cat ids db =
     res_bind (ensureBuiltinRoleCatalog cat db) (\<lambda>db.
     Inr (map (roleView db)
        (sort_key l_sortOrder (filter (\<lambda>r. l_id r \<in> set ids \<and> l_builtin r) (rb_roles db))), db))"

definition hasCapability :: "configured_catalog \<Rightarrow> string \<Rightarrow> string \<Rightarrow> role_db \<Rightarrow> (bool \<times> role_db) res" where
  "hasCapability cat r c db =
     res_bind (ensureBuiltinRoleCatalog cat db) (\<lambda>db.
     Inr (find_unique grant_key (r, c) (rb_grants db) \<noteq> None, db))"

definition builtinProjectRoles :: "configured_catalog \<Rightarrow> role_db \<Rightarrow> (role_view list \<times> role_db) res" where
  "builtinProjectRoles cat db =
     res_bind (catalog cat db) (\<lambda>(c, db). Inr (filter (\<lambda>r. v_scope r = ''PROJECT'') (cv_roles c), db))"

definition builtinRoleForMembership ::
  "configured_catalog \<Rightarrow> project_role \<Rightarrow> role_db \<Rightarrow> (role_view \<times> role_db) res" where
  "builtinRoleForMembership cat r db = role cat (membershipRoleToBuiltinRole r) db"

section \<open>The catalog is well formed\<close>

definition role_wf :: "configured_role \<Rightarrow> bool" where
  "role_wf r \<longleftrightarrow> cr_id r \<in> set builtinRoleIds \<and> cr_family r \<in> set builtinRoleFamilies
     \<and> distinct (map cg_capability (cr_grants r))
     \<and> (\<forall>g\<in>set (cr_grants r). cg_capability g \<in> set authorizationCapabilities
          \<and> set (cg_relations g) \<subseteq> set resourceRelations
          \<and> capability_scope (cg_capability g) = cr_scope r)"

lemma check_grants_wf:
  assumes "fold_res (check_grant r) gs ids = Inr ids'" and "distinct ids"
  shows "distinct (map cg_capability gs) \<and> set (map cg_capability gs) \<inter> set ids = {}
     \<and> (\<forall>g\<in>set gs. cg_capability g \<in> set authorizationCapabilities
          \<and> set (cg_relations g) \<subseteq> set resourceRelations
          \<and> capability_scope (cg_capability g) = cr_scope r)"
  using assms
proof (induction gs arbitrary: ids)
  case (Cons g gs)
  then obtain ids1 where step: "check_grant r g ids = Inr ids1"
    and rest: "fold_res (check_grant r) gs ids1 = Inr ids'"
    by (auto simp: res_simps)
  from step have ids1: "ids1 = cg_capability g # ids"
    and g: "cg_capability g \<in> set authorizationCapabilities" "cg_capability g \<notin> set ids"
      "set (cg_relations g) \<subseteq> set resourceRelations" "capability_scope (cg_capability g) = cr_scope r"
    by (auto simp: check_grant_def res_simps)
  from Cons.IH [OF rest] Cons.prems(2) g ids1 show ?case by auto
qed simp

lemma check_role_wf: "check_role r = Inr () \<Longrightarrow> role_wf r"
  using check_grants_wf [of r "cr_grants r" "[]"]
  by (auto simp: check_role_def role_wf_def res_simps)

lemma catalog_sound:
  assumes "configuredCatalog candidate = Inr cat"
  shows "cat = candidate \<and> distinct (map cr_id (cc_roles cat))
     \<and> cr_id ` set (cc_roles cat) = set builtinRoleIds \<and> (\<forall>r\<in>set (cc_roles cat). role_wf r)"
proof -
  from assms have cat: "cat = candidate"
    and len: "length (cc_roles candidate) = length builtinRoleIds"
    and uniq: "length (js_unique (map cr_id (cc_roles candidate))) = length builtinRoleIds"
    and sub: "set builtinRoleIds \<subseteq> cr_id ` set (cc_roles candidate)"
    and each: "\<forall>r\<in>set (cc_roles candidate). check_role r = Inr ()"
    by (auto simp: configuredCatalog_def res_simps fold_res_each Let_def)
  have "card (set (map cr_id (cc_roles candidate))) = length (map cr_id (cc_roles candidate))"
    using len uniq distinct_card [OF distinct_js_unique, of "map cr_id (cc_roles candidate)"] by simp
  then have dist: "distinct (map cr_id (cc_roles candidate))"
    by (rule card_distinct)
  have wf: "\<forall>r\<in>set (cc_roles candidate). role_wf r"
    using each by (blast intro: check_role_wf)
  then have "cr_id ` set (cc_roles candidate) \<subseteq> set builtinRoleIds"
    by (auto simp: role_wf_def)
  with sub have "cr_id ` set (cc_roles candidate) = set builtinRoleIds"
    by blast
  with cat dist wf show ?thesis by blast
qed

text \<open>
  C24. A catalog that passes the validation defines each registered role once, and a role
  grants registered capabilities of its own scope only, each at most once.
\<close>

lemma configured_catalog_sound:
  assumes "configuredCatalog candidate = Inr cat"
  shows "cat = candidate \<and> distinct (map cr_id (cc_roles cat))
     \<and> cr_id ` set (cc_roles cat) = set builtinRoleIds \<and> (\<forall>r\<in>set (cc_roles cat). role_wf r)"
  using assms by (rule catalog_sound)

section \<open>What a synchronization installs\<close>

lemma create_many_appends: "create_many key rows t = Inr u \<Longrightarrow> u = t @ rows"
  unfolding create_many_def
  by (induction rows arbitrary: t) (fastforce simp: res_simps)+

definition stale :: "configured_catalog \<Rightarrow> role_db \<Rightarrow> bool" where
  "stale cat db \<longleftrightarrow> rb_revision db \<noteq> Some (catalog_revision cat)"

lemma stale_installs:
  assumes "ensureBuiltinRoleCatalog cat db = Inr db'" and "stale cat db"
    and "i \<in> set builtinRoleIds"
  shows "filter (\<lambda>g. n_roleId g = i) (rb_grants db') =
      concat (map grant_rows_of (filter (\<lambda>r. cr_id r = i) (cc_roles cat)))"
    and "find_unique l_id i (rb_roles db') = map_option (role_row_of cat) (find_unique cr_id i (cc_roles cat))"
proof -
  have run: "synchronizeBuiltinRoleCatalog cat db = Inr db'"
    using assms(1,2) by (simp add: ensureBuiltinRoleCatalog_def stale_def split: if_splits)
  have grants: "rb_grants db' = delete_rows (\<lambda>g. n_roleId g \<in> set builtinRoleIds) (rb_grants db)
      @ concat (map grant_rows_of (cc_roles cat))"
    using run unfolding synchronizeBuiltinRoleCatalog_def
    by (auto simp: res_simps Let_def dest: create_many_appends)
  have mine: "filter (\<lambda>g. n_roleId g = i) (concat (map grant_rows_of rs)) =
      concat (map grant_rows_of (filter (\<lambda>r. cr_id r = i) rs))" for rs
    by (induction rs) (auto simp: grant_rows_of_def filter_map comp_def)
  have keep: "filter (\<lambda>g. n_roleId g = i) (delete_rows (\<lambda>g. n_roleId g \<in> set builtinRoleIds) (rb_grants db)) = []"
    using assms(3) by (auto simp: delete_rows_def filter_empty_conv)
  show "filter (\<lambda>g. n_roleId g = i) (rb_grants db') =
      concat (map grant_rows_of (filter (\<lambda>r. cr_id r = i) (cc_roles cat)))"
    unfolding grants filter_append keep mine by simp
  have roles: "rb_roles db' = delete_rows (\<lambda>r. l_id r \<in> set builtinRoleIds) (rb_roles db)
      @ map (role_row_of cat) (cc_roles cat)"
    using run unfolding synchronizeBuiltinRoleCatalog_def
    by (auto simp: res_simps Let_def dest: create_many_appends)
  have none: "find_unique l_id i (delete_rows (\<lambda>r. l_id r \<in> set builtinRoleIds) (rb_roles db)) = None"
    using assms(3) by (auto simp: find_unique_None_iff delete_rows_def)
  show "find_unique l_id i (rb_roles db') = map_option (role_row_of cat) (find_unique cr_id i (cc_roles cat))"
    unfolding roles find_unique_append none
    by (simp add: find_unique_map [of l_id "role_row_of cat" cr_id] role_row_of_def)
qed

lemma create_many_ok: "distinct (map key (t @ rows)) \<Longrightarrow> create_many key rows t = Inr (t @ rows)"
proof (induction rows arbitrary: t)
  case (Cons r rows)
  have "create_many key (r # rows) t = create_many key rows (t @ [r])"
    using Cons.prems by (auto simp: create_many_def insert_row_def find_unique_None_iff image_iff)
  with Cons show ?case by simp
qed (simp add: create_many_def)

lemma capability_ids: "map k_id capabilityDefinitions = authorizationCapabilities"
proof -
  have ids: "map (\<lambda>x. k_id (case x of (n, i) \<Rightarrow> genericCapabilityDefinition i sc n)) (enumerate m xs) = xs"
    for sc m xs
    by (induction xs arbitrary: m) (simp_all add: genericCapabilityDefinition_def)
  have proj: "map (\<lambda>x. k_id (case x of (n, d) \<Rightarrow> \<lparr>k_id = cd_id d, k_scope = ''PROJECT'',
      k_sideEffect = cd_sideEffect d, k_sensitiveContent = cd_sensitiveContent d,
      k_systemManaged = True, k_sortOrder = n\<rparr>)) (enumerate m ds) = map cd_id ds" for m ds
    by (induction ds arbitrary: m) simp_all
  have "map cd_id projectCapabilityCatalog = projectCapabilities"
    by (simp add: projectCapabilityCatalog_def comp_def)
  then show ?thesis
    by (simp add: capabilityDefinitions_def authorizationCapabilities_def comp_def ids proj)
qed

lemma grant_rows_distinct:
  assumes "distinct (map cr_id rs)" and "\<forall>r\<in>set rs. role_wf r"
  shows "distinct (map grant_key (concat (map grant_rows_of rs)))"
  using assms
proof (induction rs)
  case (Cons r rs)
  have "distinct (map grant_key (grant_rows_of r))"
    using Cons.prems by (auto simp: grant_rows_of_def grant_key_def role_wf_def comp_def distinct_map
        inj_on_def)
  moreover have "grant_key ` set (grant_rows_of r) \<inter> grant_key ` set (concat (map grant_rows_of rs)) = {}"
    using Cons.prems(1) by (auto simp: grant_rows_of_def grant_key_def image_iff)
  moreover have "distinct (map grant_key (concat (map grant_rows_of rs)))"
    using Cons by simp
  ultimately show ?case
    unfolding list.map concat.simps map_append distinct_append set_map by blast
qed simp

definition system_managed :: "role_db \<Rightarrow> bool" where
  "system_managed db \<longleftrightarrow> (\<forall>g\<in>set (rb_grants db). n_roleId g \<in> set builtinRoleIds)
     \<and> (\<forall>r\<in>set (rb_roles db). l_id r \<in> set builtinRoleIds)
     \<and> (\<forall>k\<in>set (rb_capabilities db). k_systemManaged k)"

lemma synchronize_total:
  assumes "configuredCatalog candidate = Inr cat" and "system_managed db"
  shows "\<exists>db'. ensureBuiltinRoleCatalog cat db = Inr db' \<and> rb_revision db' = Some (catalog_revision cat)"
proof (cases "stale cat db")
  case False
  then show ?thesis by (simp add: ensureBuiltinRoleCatalog_def stale_def)
next
  case True
  have sound: "distinct (map cr_id (cc_roles cat))" "\<forall>r\<in>set (cc_roles cat). role_wf r"
    using catalog_sound [OF assms(1)] by auto
  have empty: "delete_rows (\<lambda>g. n_roleId g \<in> set builtinRoleIds) (rb_grants db) = []"
    "delete_rows (\<lambda>r. l_id r \<in> set builtinRoleIds) (rb_roles db) = []"
    "delete_rows k_systemManaged (rb_capabilities db) = []"
    using assms(2) by (auto simp: system_managed_def delete_rows_def filter_empty_conv)
  have "create_many k_id capabilityDefinitions [] = Inr capabilityDefinitions"
    using create_many_ok [of k_id "[]" capabilityDefinitions] capability_ids
      authorization_capabilities_distinct by simp
  moreover have "create_many l_id (map (role_row_of cat) (cc_roles cat)) [] =
      Inr (map (role_row_of cat) (cc_roles cat))"
    using create_many_ok [of l_id "[]" "map (role_row_of cat) (cc_roles cat)"] sound(1)
    by (simp add: comp_def role_row_of_def)
  moreover have "create_many grant_key (concat (map grant_rows_of (cc_roles cat))) [] =
      Inr (concat (map grant_rows_of (cc_roles cat)))"
    using create_many_ok [of grant_key "[]"] grant_rows_distinct [OF sound] by simp
  ultimately show ?thesis
    using True by (simp add: ensureBuiltinRoleCatalog_def stale_def synchronizeBuiltinRoleCatalog_def
        Let_def empty)
qed

text \<open>
  A database that holds nothing but system-managed rows, of any earlier revision,
  is always brought to the revision of a valid catalog.
\<close>

lemma catalog_synchronizes:
  assumes "configuredCatalog candidate = Inr cat" and "system_managed db"
  shows "\<exists>db'. ensureBuiltinRoleCatalog cat db = Inr db'
    \<and> rb_revision db' = Some (catalog_revision cat)
    \<and> ensureBuiltinRoleCatalog cat db' = Inr db'"
  using synchronize_total [OF assms] by (auto simp: ensureBuiltinRoleCatalog_def)

lemma filter_unique:
  "distinct (map f xs) \<Longrightarrow> x \<in> set xs \<Longrightarrow> filter (\<lambda>y. f y = f x) xs = [x]"
  by (induction xs) (auto simp: image_iff filter_empty_conv)

text \<open>
  C25. After a synchronization a role is available, grants exactly what the catalog says,
  and no capability of another scope.
\<close>

lemma role_grants_match_catalog:
  assumes "configuredCatalog candidate = Inr cat" and "stale cat db"
    and "ensureBuiltinRoleCatalog cat db = Inr db'" and "i \<in> set builtinRoleIds"
  shows "\<exists>v r. role cat i db = Inr (v, db') \<and> r \<in> set (cc_roles cat) \<and> cr_id r = i \<and> v_id v = i
    \<and> set (v_grants v) = set (cr_grants r)
    \<and> (\<forall>c\<in>set (v_capabilities v). capability_scope c = v_scope v)"
proof -
  have sound: "distinct (map cr_id (cc_roles cat))" "cr_id ` set (cc_roles cat) = set builtinRoleIds"
      "\<forall>r\<in>set (cc_roles cat). role_wf r"
    using catalog_sound [OF assms(1)] by auto
  then obtain r where r: "r \<in> set (cc_roles cat)" "cr_id r = i"
    using assms(4) by (metis imageE)
  have wf: "role_wf r" using sound(3) r(1) by blast
  have row: "find_unique l_id i (rb_roles db') = Some (role_row_of cat r)"
    using stale_installs(2) [OF assms(3,2,4)] find_unique_distinct [OF sound(1) r(1)] r(2) by simp
  have "filter (\<lambda>g. n_roleId g = i) (rb_grants db') = grant_rows_of r"
    using stale_installs(1) [OF assms(3,2,4)] filter_unique [OF sound(1) r(1)] r(2) by simp
  moreover have "\<lparr>cg_capability = cg_capability g, cg_relations = relations (cg_relations g)\<rparr> = g"
    if "g \<in> set (cr_grants r)" for g
  proof -
    have "relations (cg_relations g) = cg_relations g"
      using wf that by (auto simp: role_wf_def relations_def intro!: filter_True)
    then show ?thesis by simp
  qed
  ultimately have grants: "set (v_grants (roleView db' (role_row_of cat r))) = set (cr_grants r)"
    using r(2) by (force simp: roleView_def Let_def role_row_of_def grant_rows_of_def image_iff)
  have view: "role cat i db = Inr (roleView db' (role_row_of cat r), db')"
    using assms(3) row by (simp add: role_def role_row_of_def)
  have "capability_scope c = cr_scope r" if "c \<in> set (v_capabilities (roleView db' (role_row_of cat r)))" for c
  proof -
    have "c \<in> cg_capability ` set (v_grants (roleView db' (role_row_of cat r)))"
      using that by (force simp: roleView_def Let_def)
    with grants wf show ?thesis by (auto simp: role_wf_def)
  qed
  with view grants r show ?thesis
    by (intro exI [of _ "roleView db' (role_row_of cat r)"] exI [of _ r])
      (simp add: roleView_def Let_def role_row_of_def)
qed

section \<open>A catalog to evaluate\<close>

definition sample_role :: "string \<Rightarrow> string \<Rightarrow> configured_grant list \<Rightarrow> configured_role" where
  "sample_role i sc gs = \<lparr>cr_id = i, cr_scope = sc, cr_family = ''ADMINISTRATION'', cr_name = i,
     cr_description = i, cr_assignable = True, cr_sortOrder = 10, cr_grants = gs\<rparr>"

definition sample_catalog :: configured_catalog where
  "sample_catalog = \<lparr>cc_revision = Some 5, cc_roles =
     [sample_role ''ROLE_PLATFORM_ADMIN'' ''PLATFORM'' [\<lparr>cg_capability = ''CAP_PLATFORM_VIEW'', cg_relations = []\<rparr>],
      sample_role ''ROLE_DEPARTMENT_ADMIN'' ''DEPARTMENT''
        [\<lparr>cg_capability = ''CAP_DEPARTMENT_VIEW'', cg_relations = []\<rparr>],
      sample_role ''ROLE_PROJECT_ADMIN'' ''PROJECT''
        [\<lparr>cg_capability = ''CAP_PROJECT_VIEW'', cg_relations = [''PROJECT_ANY'']\<rparr>],
      sample_role ''ROLE_AGENT_DEVELOPER'' ''PROJECT''
        [\<lparr>cg_capability = ''CAP_PROJECT_VIEW'', cg_relations = [''OWNER'', ''ASSIGNED'']\<rparr>],
      sample_role ''ROLE_USER'' ''PROJECT'' [], sample_role ''ROLE_AUDITOR'' ''PROJECT'' [],
      sample_role ''ROLE_REVIEWER'' ''PROJECT'' []]\<rparr>"

definition empty_role_db :: role_db where
  "empty_role_db = \<lparr>rb_capabilities = [], rb_roles = [], rb_grants = [], rb_revision = None\<rparr>"

lemma sample_catalog_valid: "configuredCatalog sample_catalog = Inr sample_catalog"
  by code_simp

lemma empty_role_db_ready: "system_managed empty_role_db \<and> stale sample_catalog empty_role_db"
  by (simp add: system_managed_def stale_def empty_role_db_def)

lemma catalog_synchronizes_witness:
  "\<exists>db'. ensureBuiltinRoleCatalog sample_catalog empty_role_db = Inr db'
    \<and> rb_revision db' = Some 5 \<and> ensureBuiltinRoleCatalog sample_catalog db' = Inr db'"
proof -
  have "catalog_revision sample_catalog = 5"
    by (simp add: catalog_revision_def sample_catalog_def)
  with catalog_synchronizes [OF sample_catalog_valid, of empty_role_db] empty_role_db_ready
  show ?thesis by simp
qed

lemma configured_catalog_sound_witness:
  "distinct (map cr_id (cc_roles sample_catalog))
     \<and> cr_id ` set (cc_roles sample_catalog) = set builtinRoleIds"
  using configured_catalog_sound [OF sample_catalog_valid] by (elim conjE) (intro conjI)

lemma role_grants_match_catalog_witness:
  "\<exists>db' v r. role sample_catalog ''ROLE_PROJECT_ADMIN'' empty_role_db = Inr (v, db')
    \<and> r \<in> set (cc_roles sample_catalog) \<and> cr_id r = ''ROLE_PROJECT_ADMIN''
    \<and> v_id v = ''ROLE_PROJECT_ADMIN'' \<and> set (v_grants v) = set (cr_grants r)"
proof -
  obtain db' where "ensureBuiltinRoleCatalog sample_catalog empty_role_db = Inr db'"
    using synchronize_total [OF sample_catalog_valid, of empty_role_db] empty_role_db_ready by blast
  moreover have "''ROLE_PROJECT_ADMIN'' \<in> set builtinRoleIds"
    by (simp add: builtinRoleIds_def)
  ultimately show ?thesis
    using role_grants_match_catalog [OF sample_catalog_valid, of empty_role_db db'] empty_role_db_ready
    by blast
qed

end
