(* ===== verification/Project_Access.thy ===== *)
theory Project_Access
  imports Role_Catalog
begin

text \<open>
  \<open>projects/project-access.ts\<close>, \<open>projects/personal-project-access.ts\<close> and
  \<open>departments/department-access.ts\<close>: from a membership to the role that is active and the
  capabilities it gives, the owner of a personal Project, and the administrator of a
  Department. A row read with its relations included is one nested record.
\<close>

section \<open>Memberships\<close>

text \<open>The flags are optional in the interface; an absent flag is \<open>None\<close>.\<close>

record role_assignment =
  ra_externalAssignmentActive :: "bool option"
  ra_manualAssignment :: "bool option"
  ra_role :: project_role

record membership =
  m_externalAccessActive :: "bool option"
  m_manualAccess :: "bool option"
  m_role :: project_role
  m_roleAssignments :: "role_assignment list"

record project_access_view =
  pav_assignedRoles :: "project_role list"
  pav_activeRole :: project_role
  pav_effectiveCapabilities :: "string list"

definition projectRoleFromBuiltinRole :: "string option \<Rightarrow> project_role option" where
  "projectRoleFromBuiltinRole r =
     (if r = Some ''ROLE_PROJECT_ADMIN'' then Some AdminRole
      else if r = Some ''ROLE_AUDITOR'' then Some AuditorRole
      else if r = Some ''ROLE_AGENT_DEVELOPER'' then Some DeveloperRole
      else if r = Some ''ROLE_USER'' then Some UserRole
      else if r = Some ''ROLE_REVIEWER'' then Some ReviewerRole
      else None)"

definition assigned_roles :: "membership \<Rightarrow> project_role list" where
  "assigned_roles m = js_unique
     (map ra_role (filter (\<lambda>a. ra_manualAssignment a \<noteq> Some False \<or> ra_externalAssignmentActive a = Some True)
        (m_roleAssignments m))
      @ (if m_manualAccess m \<noteq> Some False then [m_role m] else []))"

definition membershipRoleState :: "membership \<Rightarrow> project_role option \<Rightarrow> project_role list \<times> project_role" where
  "membershipRoleState m preferred =
     (let assigned = assigned_roles m;
          fallback = (if m_role m \<in> set assigned then m_role m
            else case assigned of [] \<Rightarrow> m_role m | r # _ \<Rightarrow> r)
      in (assigned, case preferred of None \<Rightarrow> fallback | Some p \<Rightarrow> if p \<in> set assigned then p else fallback))"

definition activeRoleForMembership :: "membership \<Rightarrow> project_role option \<Rightarrow> project_role" where
  "activeRoleForMembership m preferred = snd (membershipRoleState m preferred)"

definition accessForMembership ::
  "configured_catalog \<Rightarrow> membership \<Rightarrow> project_role option \<Rightarrow> role_db \<Rightarrow> (project_access_view \<times> role_db) res" where
  "accessForMembership cat m preferred db =
     (let (assigned, active) = membershipRoleState m preferred in
     res_bind (role cat (membershipRoleToBuiltinRole active) db) (\<lambda>(v, db).
     Inr (\<lparr>pav_assignedRoles = assigned, pav_activeRole = active,
            pav_effectiveCapabilities = filter (\<lambda>c. prefix ''CAP_'' c \<and> \<not> prefix ''CAP_PLATFORM_'' c
              \<and> \<not> prefix ''CAP_DEPARTMENT_'' c) (v_capabilities v)\<rparr>, db)))"

definition membershipHasAccess :: "membership \<Rightarrow> bool" where
  "membershipHasAccess m \<longleftrightarrow> m_manualAccess m \<noteq> Some False \<or> m_externalAccessActive m = Some True"

definition activeBuiltinRoleIds :: "membership \<Rightarrow> project_role option \<Rightarrow> string list" where
  "activeBuiltinRoleIds m preferred =
     (if \<not> membershipHasAccess m then []
      else [membershipRoleToBuiltinRole (snd (membershipRoleState m preferred))])"

section \<open>Rows read with their relations\<close>

record department_view =
  dv_id :: string
  dv_createdBy :: "string option"
  dv_status :: string

record project_view =
  pv_id :: string
  pv_createdBy :: "string option"
  pv_departmentId :: string
  pv_deleted :: bool
  pv_department :: department_view

record user_view =
  uv_id :: string
  uv_displayName :: string
  uv_status :: string

record member_row =
  mr_projectId :: string
  mr_userId :: string
  mr_membership :: membership
  mr_user :: user_view
  mr_project :: project_view

definition member_key :: "member_row \<Rightarrow> string \<times> string" where
  "member_key r = (mr_projectId r, mr_userId r)"

definition projectAccessForMember ::
  "configured_catalog \<Rightarrow> member_row list \<Rightarrow> string \<Rightarrow> string \<Rightarrow> role_db \<Rightarrow>
     (project_access_view option \<times> role_db) res" where
  "projectAccessForMember cat members projectId userId db =
     (case find_unique member_key (projectId, userId) members of
        None \<Rightarrow> Inr (None, db)
      | Some m \<Rightarrow> if membershipHasAccess (mr_membership m)
          then res_bind (accessForMembership cat (mr_membership m) None db) (\<lambda>(v, db). Inr (Some v, db))
          else Inr (None, db))"

definition personal_department_id :: "(string \<Rightarrow> string) \<Rightarrow> string \<Rightarrow> string" where
  "personal_department_id dig userId = ''personal-'' @ take 24 (dig userId)"

definition ownsPersonalProject :: "(string \<Rightarrow> string) \<Rightarrow> member_row list \<Rightarrow> string \<Rightarrow> string \<Rightarrow> bool" where
  "ownsPersonalProject dig members projectId userId =
     (case find_unique member_key (projectId, userId) members of
        None \<Rightarrow> False
      | Some m \<Rightarrow> membershipHasAccess (mr_membership m) \<and> uv_status (mr_user m) = ''active''
          \<and> \<not> pv_deleted (mr_project m) \<and> pv_createdBy (mr_project m) = Some userId
          \<and> pv_departmentId (mr_project m) = personal_department_id dig userId
          \<and> dv_createdBy (pv_department (mr_project m)) = Some userId
          \<and> dv_status (pv_department (mr_project m)) = ''active'')"

section \<open>Departments\<close>

record access_context =
  ac_level :: string
  ac_resourceId :: "string option"
  ac_roleId :: string

record principal =
  au_userId :: string
  au_sessionId :: "string option"
  au_accessContext :: "access_context option"

datatype department_role = DepartmentAdministrator | DepartmentMember

record department_member_row =
  dm_departmentId :: string
  dm_userId :: string
  dm_role :: department_role
  dm_status :: string
  dm_manualAccess :: bool
  dm_externalAccessActive :: bool
  dm_departmentStatus :: string

text \<open>An external grant with the columns of its binding.\<close>

record external_grant_view =
  eg_userId :: string
  eg_enabled :: bool
  eg_scope :: authorization_scope
  eg_departmentId :: "string option"
  eg_roleId :: string

definition department_member_key :: "department_member_row \<Rightarrow> string \<times> string" where
  "department_member_key r = (dm_departmentId r, dm_userId r)"

definition requireActiveDepartmentUser :: "user_view list \<Rightarrow> principal \<Rightarrow> string res" where
  "requireActiveDepartmentUser users auth =
     (case find_unique uv_id (au_userId auth) users of
        None \<Rightarrow> Inl (PlainError ''The authenticated TaskLattice Relay user is unavailable.'')
      | Some u \<Rightarrow> if uv_status u = ''active'' then Inr (uv_id u)
          else Inl (PlainError ''The authenticated TaskLattice Relay user is unavailable.''))"

record department_db =
  ddb_users :: "user_view list"
  ddb_members :: "department_member_row list"
  ddb_grants :: "external_grant_view list"

definition requireDepartmentAdministrator ::
  "configured_catalog \<Rightarrow> department_db \<Rightarrow> principal \<Rightarrow> string \<Rightarrow> string option \<Rightarrow> bool \<Rightarrow> role_db \<Rightarrow>
     (string \<times> role_db) res" where
  "requireDepartmentAdministrator cat d auth departmentId capability requireActive db =
     res_bind (ensure (\<not> given (au_sessionId auth)
         \<or> (case au_accessContext auth of None \<Rightarrow> False
            | Some c \<Rightarrow> ac_level c = ''department'' \<and> ac_resourceId c = Some departmentId
                \<and> ac_roleId c = ''ROLE_DEPARTMENT_ADMIN''))
       (PlainError ''Access denied: select this Department Administrator access for the session.'')) (\<lambda>_.
     res_bind (requireActiveDepartmentUser (ddb_users d) auth) (\<lambda>userId.
     (let membership = find_unique department_member_key (departmentId, userId) (ddb_members d);
          externalAdministrator = list_ex (\<lambda>g. eg_userId g = userId \<and> eg_enabled g \<and> eg_scope g = DEPARTMENT
            \<and> eg_departmentId g = Some departmentId \<and> eg_roleId g = ''ROLE_DEPARTMENT_ADMIN'') (ddb_grants d);
          wanted = (case capability of None \<Rightarrow> ''CAP_DEPARTMENT_VIEW'' | Some c \<Rightarrow> c)
      in
      res_bind (ensure (case membership of None \<Rightarrow> False
          | Some m \<Rightarrow> dm_status m = ''active'' \<and> (dm_manualAccess m \<or> dm_externalAccessActive m)
              \<and> (externalAdministrator \<or> dm_manualAccess m \<and> dm_role m = DepartmentAdministrator)
              \<and> (requireActive \<longrightarrow> dm_departmentStatus m = ''active''))
        (PlainError ''You do not have permission to administer this Department.'')) (\<lambda>_.
      res_bind (hasCapability cat ''ROLE_DEPARTMENT_ADMIN'' wanted db) (\<lambda>(ok, db).
      res_bind (ensure ok (PlainError (''Department Administrator does not grant '' @ wanted @ ''.''))) (\<lambda>_.
      Inr (userId, db)))))))"

section \<open>The active role\<close>

text \<open>The role names of the two vocabularies correspond.\<close>

lemma role_names_roundtrip:
  "projectRoleFromBuiltinRole (Some (membershipRoleToBuiltinRole r)) = Some r"
  by (cases r) (simp_all add: projectRoleFromBuiltinRole_def)

lemma role_names_onto:
  "projectRoleFromBuiltinRole (Some i) = Some r \<longleftrightarrow> i = membershipRoleToBuiltinRole r"
  by (cases r) (auto simp: projectRoleFromBuiltinRole_def)

lemma assigned_roles_iff:
  "r \<in> set (assigned_roles m) \<longleftrightarrow>
     (m_manualAccess m \<noteq> Some False \<and> r = m_role m)
     \<or> (\<exists>a\<in>set (m_roleAssignments m). ra_role a = r
          \<and> (ra_manualAssignment a \<noteq> Some False \<or> ra_externalAssignmentActive a = Some True))"
  by (auto simp: assigned_roles_def)

lemma active_role_assigned:
  "assigned_roles m \<noteq> [] \<Longrightarrow> activeRoleForMembership m p \<in> set (assigned_roles m)"
  by (auto simp: activeRoleForMembership_def membershipRoleState_def Let_def split: option.splits list.splits)

text \<open>
  A session acts in exactly one role: the preferred one when it is assigned, else the
  role of the membership when that is assigned; with manual access the role that acts is
  always an assigned one, and without access none acts.
\<close>

lemma one_active_role:
  "activeBuiltinRoleIds m p =
     (if membershipHasAccess m then [membershipRoleToBuiltinRole (activeRoleForMembership m p)] else [])
   \<and> (\<forall>r. p = Some r \<longrightarrow> r \<in> set (assigned_roles m) \<longrightarrow> activeRoleForMembership m p = r)
   \<and> (m_manualAccess m \<noteq> Some False \<longrightarrow> activeRoleForMembership m p \<in> set (assigned_roles m))
   \<and> (assigned_roles m \<noteq> [] \<longrightarrow> activeRoleForMembership m p \<in> set (assigned_roles m))"
proof -
  have "assigned_roles m \<noteq> []" if "m_manualAccess m \<noteq> Some False"
    using that assigned_roles_iff [of "m_role m" m] by auto
  then show ?thesis
    using active_role_assigned [of m p]
    by (auto simp: activeBuiltinRoleIds_def activeRoleForMembership_def membershipRoleState_def Let_def)
qed

lemma one_active_role_witness:
  "activeRoleForMembership \<lparr>m_externalAccessActive = None, m_manualAccess = Some True, m_role = UserRole,
     m_roleAssignments = [\<lparr>ra_externalAssignmentActive = Some True, ra_manualAssignment = Some False,
       ra_role = DeveloperRole\<rparr>]\<rparr> (Some DeveloperRole) = DeveloperRole"
  using one_active_role [of "\<lparr>m_externalAccessActive = None, m_manualAccess = Some True, m_role = UserRole,
     m_roleAssignments = [\<lparr>ra_externalAssignmentActive = Some True, ra_manualAssignment = Some False,
       ra_role = DeveloperRole\<rparr>]\<rparr>" "Some DeveloperRole"]
  by (simp add: assigned_roles_def)

text \<open>
  Access given by an external group without any assignment in force still acts in the
  role of the membership row, which is not among the assigned roles.
\<close>

lemma unassigned_role_can_act:
  "let m = \<lparr>m_externalAccessActive = Some True, m_manualAccess = Some False, m_role = AdminRole,
         m_roleAssignments = [\<lparr>ra_externalAssignmentActive = Some False,
           ra_manualAssignment = Some False, ra_role = AdminRole\<rparr>]\<rparr>
   in assigned_roles m = [] \<and> activeBuiltinRoleIds m None = [''ROLE_PROJECT_ADMIN'']"
  by (simp add: Let_def assigned_roles_def activeBuiltinRoleIds_def membershipHasAccess_def
      membershipRoleState_def)

section \<open>Capabilities of a Project role stay in the Project\<close>

lemma project_capability_scope:
  "capability_scope c = ''PROJECT'' \<longleftrightarrow> \<not> prefix ''CAP_PLATFORM_'' c \<and> \<not> prefix ''CAP_DEPARTMENT_'' c"
  by (simp add: capability_scope_def)

text \<open>
  C21. The capabilities a membership gives are those of its active role and never a
  platform or Department capability, whatever the database grants to that role.
\<close>

lemma effective_capabilities_in_scope:
  assumes "accessForMembership cat m p db = Inr (v, db')"
  shows "pav_activeRole v = activeRoleForMembership m p \<and> pav_assignedRoles v = assigned_roles m
    \<and> (\<forall>c\<in>set (pav_effectiveCapabilities v). capability_scope c = ''PROJECT''
         \<and> (\<exists>g\<in>set (rb_grants db'). n_roleId g = membershipRoleToBuiltinRole (pav_activeRole v)
              \<and> n_capabilityId g = c))"
proof -
  obtain assigned active where st: "membershipRoleState m p = (assigned, active)"
    by fastforce
  with assms obtain r where r: "role cat (membershipRoleToBuiltinRole active) db = Inr (r, db')"
    and v: "v = \<lparr>pav_assignedRoles = assigned, pav_activeRole = active,
            pav_effectiveCapabilities = filter (\<lambda>c. prefix ''CAP_'' c \<and> \<not> prefix ''CAP_PLATFORM_'' c
              \<and> \<not> prefix ''CAP_DEPARTMENT_'' c) (v_capabilities r)\<rparr>"
    by (auto simp: accessForMembership_def res_simps)
  from r obtain row where row: "find_unique l_id (membershipRoleToBuiltinRole active) (rb_roles db') = Some row"
    and view: "r = roleView db' row"
    by (auto simp: role_def res_simps split: option.splits if_splits)
  have "l_id row = membershipRoleToBuiltinRole active"
    using row by (rule find_unique_key)
  then have "\<exists>g\<in>set (rb_grants db'). n_roleId g = membershipRoleToBuiltinRole active \<and> n_capabilityId g = c"
    if "c \<in> set (v_capabilities r)" for c
    using that by (auto simp: view roleView_def Let_def)
  with st v show ?thesis
    by (auto simp: activeRoleForMembership_def membershipRoleState_def Let_def project_capability_scope)
qed

definition sample_role_db :: role_db where
  "sample_role_db = \<lparr>rb_capabilities = [], rb_roles = [role_row_of sample_catalog
       (sample_role ''ROLE_AGENT_DEVELOPER'' ''PROJECT'' []), role_row_of sample_catalog
       (sample_role ''ROLE_DEPARTMENT_ADMIN'' ''DEPARTMENT'' [])],
     rb_grants = [\<lparr>n_roleId = ''ROLE_AGENT_DEVELOPER'', n_capabilityId = ''CAP_SKILL_VIEW'',
         n_relations = [''OWNER'']\<rparr>,
       \<lparr>n_roleId = ''ROLE_AGENT_DEVELOPER'', n_capabilityId = ''CAP_DEPARTMENT_VIEW'', n_relations = []\<rparr>,
       \<lparr>n_roleId = ''ROLE_DEPARTMENT_ADMIN'', n_capabilityId = ''CAP_DEPARTMENT_VIEW'', n_relations = []\<rparr>],
     rb_revision = Some 5\<rparr>"

definition sample_membership :: "project_role \<Rightarrow> membership" where
  "sample_membership r = \<lparr>m_externalAccessActive = Some False, m_manualAccess = Some True, m_role = r,
     m_roleAssignments = []\<rparr>"

lemma sample_access:
  "accessForMembership sample_catalog (sample_membership DeveloperRole) None sample_role_db =
     Inr (\<lparr>pav_assignedRoles = [DeveloperRole], pav_activeRole = DeveloperRole,
       pav_effectiveCapabilities = [''CAP_SKILL_VIEW'']\<rparr>, sample_role_db)"
  by code_simp

lemma effective_capabilities_in_scope_witness:
  "capability_scope ''CAP_SKILL_VIEW'' = ''PROJECT''
     \<and> (\<exists>g\<in>set (rb_grants sample_role_db). n_roleId g = ''ROLE_AGENT_DEVELOPER''
          \<and> n_capabilityId g = ''CAP_SKILL_VIEW'')"
  using effective_capabilities_in_scope [OF sample_access] by simp

text \<open>
  Whoever passes as administrator of a Department is an active user with an active
  membership and access in that very Department, holds the administrator role manually or by
  an enabled external grant, and in a session has selected exactly this access; a manual
  access that is withdrawn is not enough for the role.
\<close>

lemma department_administrator_sound:
  assumes "requireDepartmentAdministrator cat d auth dep cap act db = Inr (u, db')"
  shows "u = au_userId auth
    \<and> (\<exists>usr\<in>set (ddb_users d). uv_id usr = u \<and> uv_status usr = ''active'')
    \<and> (given (au_sessionId auth) \<longrightarrow> (\<exists>c. au_accessContext auth = Some c \<and> ac_level c = ''department''
         \<and> ac_resourceId c = Some dep))
    \<and> (\<exists>m\<in>set (ddb_members d). dm_departmentId m = dep \<and> dm_userId m = u \<and> dm_status m = ''active''
         \<and> (dm_manualAccess m \<or> dm_externalAccessActive m)
         \<and> (act \<longrightarrow> dm_departmentStatus m = ''active'')
         \<and> (dm_manualAccess m \<and> dm_role m = DepartmentAdministrator
            \<or> (\<exists>g\<in>set (ddb_grants d). eg_userId g = u \<and> eg_enabled g \<and> eg_departmentId g = Some dep
                 \<and> eg_roleId g = ''ROLE_DEPARTMENT_ADMIN'')))
    \<and> (\<exists>g\<in>set (rb_grants db'). n_roleId g = ''ROLE_DEPARTMENT_ADMIN'')"
proof -
  from assms have sess: "given (au_sessionId auth) \<longrightarrow> (\<exists>c. au_accessContext auth = Some c
      \<and> ac_level c = ''department'' \<and> ac_resourceId c = Some dep)"
    and user: "requireActiveDepartmentUser (ddb_users d) auth = Inr u"
    and cap: "hasCapability cat ''ROLE_DEPARTMENT_ADMIN''
      (case cap of None \<Rightarrow> ''CAP_DEPARTMENT_VIEW'' | Some c \<Rightarrow> c) db = Inr (True, db')"
    by (auto simp: requireDepartmentAdministrator_def Let_def res_simps split: option.splits)
  from assms user obtain m where m: "find_unique department_member_key (dep, u) (ddb_members d) = Some m"
    and ok: "dm_status m = ''active''" "dm_manualAccess m \<or> dm_externalAccessActive m"
      "list_ex (\<lambda>g. eg_userId g = u \<and> eg_enabled g \<and> eg_scope g = DEPARTMENT
         \<and> eg_departmentId g = Some dep \<and> eg_roleId g = ''ROLE_DEPARTMENT_ADMIN'') (ddb_grants d)
       \<or> dm_manualAccess m \<and> dm_role m = DepartmentAdministrator"
      "act \<longrightarrow> dm_departmentStatus m = ''active''"
    by (auto simp: requireDepartmentAdministrator_def Let_def res_simps split: option.splits)
  have row: "m \<in> set (ddb_members d)" "dm_departmentId m = dep" "dm_userId m = u"
    using find_unique_in [OF m] find_unique_key [OF m] by (auto simp: department_member_key_def)
  obtain usr where usr: "find_unique uv_id (au_userId auth) (ddb_users d) = Some usr"
    "uv_status usr = ''active''" "u = uv_id usr"
    using user by (auto simp: requireActiveDepartmentUser_def split: option.splits if_splits)
  have "find_unique grant_key (''ROLE_DEPARTMENT_ADMIN'',
      (case cap of None \<Rightarrow> ''CAP_DEPARTMENT_VIEW'' | Some c \<Rightarrow> c)) (rb_grants db') \<noteq> None"
    using cap by (auto simp: hasCapability_def res_simps)
  then have grant: "\<exists>g\<in>set (rb_grants db'). n_roleId g = ''ROLE_DEPARTMENT_ADMIN''"
    by (auto simp: find_unique_None_iff grant_key_def)
  have "u = au_userId auth" "usr \<in> set (ddb_users d)"
    using usr find_unique_key find_unique_in by fastforce+
  moreover have "dm_manualAccess m \<and> dm_role m = DepartmentAdministrator
            \<or> (\<exists>g\<in>set (ddb_grants d). eg_userId g = u \<and> eg_enabled g \<and> eg_departmentId g = Some dep
                 \<and> eg_roleId g = ''ROLE_DEPARTMENT_ADMIN'')"
    using ok(3) unfolding list_ex_iff by blast
  ultimately show ?thesis
    using sess usr(2,3) row ok(1,2,4) grant
    by (intro conjI bexI [of _ usr] bexI [of _ m]) simp_all
qed

lemma sample_administrator:
  "requireDepartmentAdministrator sample_catalog
     \<lparr>ddb_users = [\<lparr>uv_id = ''u'', uv_displayName = ''U'', uv_status = ''active''\<rparr>],
      ddb_members = [\<lparr>dm_departmentId = ''d'', dm_userId = ''u'', dm_role = DepartmentAdministrator,
        dm_status = ''active'', dm_manualAccess = True, dm_externalAccessActive = False,
        dm_departmentStatus = ''active''\<rparr>], ddb_grants = []\<rparr>
     \<lparr>au_userId = ''u'', au_sessionId = None, au_accessContext = None\<rparr> ''d'' None True sample_role_db =
   Inr (''u'', sample_role_db)"
  by code_simp

lemma department_administrator_sound_witness:
  "\<exists>g\<in>set (rb_grants sample_role_db). n_roleId g = ''ROLE_DEPARTMENT_ADMIN''"
  using department_administrator_sound [OF sample_administrator] by blast

end
