(* ===== verification/Work_Store.thy ===== *)
theory Work_Store
  imports Work_Domain Project_Access
begin

text \<open>
  The rows the Work handlers read and write, and the shared helpers of
  \<open>works/work-service.ts\<close>: access to the Project, the locked row of a Work, the authorized
  Agent instance and the event that every change of a Work appends. The tables of members,
  Agents and onboarding records belong to other components and are only read here.
\<close>

section \<open>Rows\<close>

record work_row =
  w_projectId :: string
  w_id :: string
  w_createdBy :: string
  w_creationKey :: string
  w_revision :: nat
  w_state :: work_state
  w_updatedAt :: nat

datatype message_kind = Human | AgentMessage

record message_row =
  x_projectId :: string
  x_workId :: string
  x_id :: string
  x_kind :: message_kind
  x_userId :: "string option"
  x_instanceId :: "string option"
  x_name :: string
  x_text :: string
  x_source :: string
  x_createdAt :: nat

record event_row =
  e_projectId :: string
  e_workId :: string
  e_sequence :: nat
  e_commandKey :: string
  e_commandHash :: string
  e_type :: string
  e_summary :: string
  e_actorId :: string
  e_details :: js
  e_createdAt :: nat

text \<open>What the handlers read of a published version; a snapshot its schema refuses is \<open>None\<close>.\<close>

record agent_snapshot =
  sn_mode :: string
  sn_engineType :: string
  sn_workRole :: "string option"
  sn_productName :: string
  sn_productPurpose :: string

record agent_version =
  av_id :: string
  av_snapshot :: "agent_snapshot option"

record agent_row =
  ag_projectId :: string
  ag_id :: string
  ag_kind :: string
  ag_deleted :: bool
  ag_ownerUserId :: "string option"
  ag_developedAgentId :: "string option"
  ag_developedAgentDeleted :: bool
  ag_agentVersion :: "agent_version option"
  ag_status :: "string option"

record expert_member_row =
  em_projectId :: string
  em_agentId :: string
  em_userId :: string

text \<open>A setup state its schema refuses is \<open>None\<close>; else the two default instances.\<close>

record onboarding_row =
  ob_projectId :: string
  ob_status :: string
  ob_defaults :: "(string option \<times> string option) option"

record work_db =
  db_works :: "work_row list"
  db_messages :: "message_row list"
  db_events :: "event_row list"
  db_runs :: "work_run list"
  db_members :: "member_row list"
  db_agents :: "agent_row list"
  db_expertMembers :: "expert_member_row list"
  db_onboarding :: "onboarding_row list"

definition work_key :: "work_row \<Rightarrow> string \<times> string" where
  "work_key w = (w_projectId w, w_id w)"

definition creation_key :: "work_row \<Rightarrow> string \<times> string \<times> string" where
  "creation_key w = (w_projectId w, w_createdBy w, w_creationKey w)"

definition message_key :: "message_row \<Rightarrow> string \<times> string \<times> string" where
  "message_key x = (x_projectId x, x_workId x, x_id x)"

definition event_key :: "event_row \<Rightarrow> string \<times> string \<times> nat" where
  "event_key e = (e_projectId e, e_workId e, e_sequence e)"

definition command_key :: "event_row \<Rightarrow> string \<times> string \<times> string" where
  "command_key e = (e_projectId e, e_workId e, e_commandKey e)"

definition agent_key :: "agent_row \<Rightarrow> string \<times> string" where
  "agent_key a = (ag_projectId a, ag_id a)"

section \<open>Access\<close>

definition requireWorkProject :: "work_db \<Rightarrow> string \<Rightarrow> string \<Rightarrow> user_view res" where
  "requireWorkProject db projectId userId =
     (case find_unique member_key (projectId, userId) (db_members db) of
        None \<Rightarrow> Inl (WorkError txt_no_project_access 403 ''access_denied'')
      | Some m \<Rightarrow>
          if \<not> membershipHasAccess (mr_membership m) \<or> uv_status (mr_user m) \<noteq> ''active''
            \<or> pv_deleted (mr_project m) \<or> dv_status (pv_department (mr_project m)) \<noteq> ''active''
          then Inl (WorkError txt_no_project_access 403 ''access_denied'')
          else Inr (mr_user m))"

definition lockWork :: "work_db \<Rightarrow> string \<Rightarrow> string \<Rightarrow> work_row res" where
  "lockWork db projectId workId =
     of_option (WorkError txt_no_work 404 ''not_found'') (find_unique work_key (projectId, workId) (db_works db))"

definition workAccess :: "work_db \<Rightarrow> string \<Rightarrow> string \<Rightarrow> string \<Rightarrow> work_row res" where
  "workAccess db projectId workId userId =
     res_bind (requireWorkProject db projectId userId) (\<lambda>_.
     case find_unique work_key (projectId, workId) (db_works db) of
       None \<Rightarrow> Inl (WorkError txt_no_work 404 ''not_found'')
     | Some row \<Rightarrow>
         res_bind (work_state_schema (w_state row)) (\<lambda>st.
         res_bind (ensure (userId \<in> set (s_memberUserIds st)) (WorkError txt_no_work 404 ''not_found'')) (\<lambda>_.
         Inr row)))"

definition find_instance :: "work_db \<Rightarrow> string \<Rightarrow> string \<Rightarrow> agent_row option" where
  "find_instance db projectId instanceId = find (\<lambda>a. ag_projectId a = projectId \<and> ag_id a = instanceId
     \<and> \<not> ag_deleted a \<and> ag_kind a \<in> {''PROJECT_AGENT'', ''WORK_AGENT''}) (db_agents db)"

definition has_expert_member :: "work_db \<Rightarrow> string \<Rightarrow> string \<Rightarrow> string \<Rightarrow> bool" where
  "has_expert_member db projectId agentId userId \<longleftrightarrow>
     list_ex (\<lambda>m. em_projectId m = projectId \<and> em_agentId m = agentId \<and> em_userId m = userId) (db_expertMembers db)"

definition authorizedWorkInstance ::
  "work_db \<Rightarrow> string \<Rightarrow> string \<Rightarrow> string \<Rightarrow> (agent_snapshot \<times> agent_version) res" where
  "authorizedWorkInstance db projectId instanceId userId =
     (let inst = find_instance db projectId instanceId;
          access = (case inst of None \<Rightarrow> False
            | Some a \<Rightarrow> given (ag_developedAgentId a)
                \<and> has_expert_member db projectId (the (ag_developedAgentId a)) userId)
      in case inst of
           None \<Rightarrow> Inl (WorkError txt_no_instance 403 ''instance_access_denied'')
         | Some a \<Rightarrow>
             if \<not> access \<and> ag_ownerUserId a \<noteq> Some userId \<or> ag_developedAgentDeleted a
             then Inl (WorkError txt_no_instance 403 ''instance_access_denied'')
             else case ag_agentVersion a of
                 None \<Rightarrow> Inl (WorkError txt_no_instance 403 ''instance_access_denied'')
               | Some v \<Rightarrow>
                   res_bind (of_option SchemaError (av_snapshot v)) (\<lambda>sn.
                   res_bind (ensure (sn_mode sn = ''AGENTIC'' \<and> ag_status a = Some ''READY'')
                     (WorkError txt_instance_not_ready 409 ''runtime_unavailable'')) (\<lambda>_.
                   Inr (sn, v))))"

section \<open>Events\<close>

record event_input =
  in_key :: string
  in_hash :: string
  in_type :: string
  in_summary :: string
  in_actorId :: string
  in_details :: js

definition appendWorkEvent ::
  "nat \<Rightarrow> work_row \<Rightarrow> work_state \<Rightarrow> event_input \<Rightarrow> work_db \<Rightarrow> work_db res" where
  "appendWorkEvent now row st inp db =
     res_bind (work_state_schema st) (\<lambda>parsed.
     res_bind (ensure (find_unique work_key (work_key row) (db_works db) \<noteq> None) RecordNotFound) (\<lambda>_.
     (let works = update_rows (\<lambda>w. work_key w = work_key row)
            (\<lambda>w. w\<lparr>w_revision := w_revision row + 1, w_state := parsed, w_updatedAt := now\<rparr>) (db_works db);
          e = \<lparr>e_projectId = w_projectId row, e_workId = w_id row, e_sequence = w_revision row + 1,
            e_commandKey = in_key inp, e_commandHash = in_hash inp, e_type = in_type inp,
            e_summary = in_summary inp, e_actorId = in_actorId inp, e_details = in_details inp,
            e_createdAt = now\<rparr>
      in
      res_bind (of_option UniqueViolation (insert_row event_key e (db_events db))) (\<lambda>events.
      res_bind (ensure (find_unique command_key (command_key e) (db_events db) = None) UniqueViolation) (\<lambda>_.
      Inr (db\<lparr>db_works := works, db_events := events\<rparr>))))))"

section \<open>What an event changes\<close>

lemma appendWorkEvent_Inr:
  assumes "appendWorkEvent now row st inp db = Inr db'"
  obtains parsed where "work_state_schema st = Inr parsed"
    and "db' = db\<lparr>db_works := update_rows (\<lambda>w. work_key w = work_key row)
        (\<lambda>w. w\<lparr>w_revision := w_revision row + 1, w_state := parsed, w_updatedAt := now\<rparr>) (db_works db),
      db_events := db_events db @ [\<lparr>e_projectId = w_projectId row, e_workId = w_id row,
        e_sequence = w_revision row + 1, e_commandKey = in_key inp, e_commandHash = in_hash inp,
        e_type = in_type inp, e_summary = in_summary inp, e_actorId = in_actorId inp,
        e_details = in_details inp, e_createdAt = now\<rparr>]\<rparr>"
    and "(w_projectId row, w_id row, w_revision row + 1) \<notin> event_key ` set (db_events db)"
    and "(w_projectId row, w_id row, in_key inp) \<notin> command_key ` set (db_events db)"
    and "work_key row \<in> work_key ` set (db_works db)"
proof -
  from assms obtain parsed where p: "work_state_schema st = Inr parsed"
    by (auto simp: appendWorkEvent_def res_simps)
  from assms p show ?thesis
    by (intro that [OF p])
      (auto simp: appendWorkEvent_def Let_def res_simps find_unique_None_iff event_key_def command_key_def)
qed

lemma work_lookup_after_event:
  assumes "appendWorkEvent now row st inp db = Inr db'" and "work_state_schema st = Inr parsed"
  shows "find_unique work_key k (db_works db') =
    (case find_unique work_key k (db_works db) of None \<Rightarrow> None
     | Some w \<Rightarrow> Some (if k = work_key row
         then w\<lparr>w_revision := w_revision row + 1, w_state := parsed, w_updatedAt := now\<rparr> else w))"
proof -
  from assms have works: "db_works db' = update_rows (\<lambda>w. work_key w = work_key row)
        (\<lambda>w. w\<lparr>w_revision := w_revision row + 1, w_state := parsed, w_updatedAt := now\<rparr>) (db_works db)"
    by (elim appendWorkEvent_Inr) simp
  have "find_unique work_key k (db_works db') = map_option
      (\<lambda>w. if work_key w = work_key row
         then w\<lparr>w_revision := w_revision row + 1, w_state := parsed, w_updatedAt := now\<rparr> else w)
      (find_unique work_key k (db_works db))"
    unfolding works by (rule find_unique_update) (simp add: work_key_def)
  then show ?thesis
    using find_unique_key [of work_key k "db_works db"]
    by (cases "find_unique work_key k (db_works db)") auto
qed

lemma lockWork_Inr:
  "lockWork db p w = Inr row \<Longrightarrow> find_unique work_key (p, w) (db_works db) = Some row
     \<and> w_projectId row = p \<and> w_id row = w"
  by (auto simp: lockWork_def work_key_def dest: find_unique_key)

lemma requireWorkProject_Inr:
  assumes "requireWorkProject db p u = Inr usr"
  obtains m where "m \<in> set (db_members db)" "mr_projectId m = p" "mr_userId m = u"
    "membershipHasAccess (mr_membership m)" "uv_status (mr_user m) = ''active''"
    "\<not> pv_deleted (mr_project m)" "dv_status (pv_department (mr_project m)) = ''active''"
  using assms find_unique_in [of member_key "(p, u)" "db_members db"]
    find_unique_key [of member_key "(p, u)" "db_members db"]
  by (fastforce simp: requireWorkProject_def member_key_def split: option.splits if_splits)

end
