(* ===== verification/Work_Service.thy ===== *)
theory Work_Service
  imports Work_Store
begin

text \<open>
  \<open>works/work-service.ts\<close>: the operations of \<open>WorkService\<close>. The branches of \<open>command\<close> are one
  definition each; each gives the database after its own writes, the new state of the Work
  and the summary of the event, which \<open>command\<close> then appends in the same transaction. The
  clock (\<open>now\<close>, in milliseconds) and the fresh UUIDs are arguments.
\<close>

type_synonym branch = "work_db \<times> work_state \<times> string"

section \<open>The branches of a command\<close>

definition message_action ::
  "nat \<Rightarrow> work_db \<Rightarrow> string \<Rightarrow> string \<Rightarrow> string \<Rightarrow> user_view \<Rightarrow> string \<Rightarrow> work_state \<Rightarrow>
     string \<Rightarrow> message_source \<Rightarrow> branch res" where
  "message_action now db projectId workId userId user key st tx source =
     res_bind (of_option UniqueViolation (insert_row message_key
       \<lparr>x_projectId = projectId, x_workId = workId, x_id = key, x_kind = Human, x_userId = Some userId,
        x_instanceId = None, x_name = uv_displayName user, x_text = tx, x_source = source_text source,
        x_createdAt = now\<rparr> (db_messages db))) (\<lambda>ms.
     Inr (db\<lparr>db_messages := ms\<rparr>, st, txt_s_message))"

definition members_action ::
  "work_db \<Rightarrow> string \<Rightarrow> string \<Rightarrow> work_state \<Rightarrow> string list \<Rightarrow> branch res" where
  "members_action db projectId userId st userIds =
     res_bind (ensure (s_ownerUserId st = userId \<and> userId \<in> set userIds)
       (forbidden txt_members_owner_only)) (\<lambda>_.
     res_bind (fold_res (\<lambda>i _. res_bind (requireWorkProject db projectId i) (\<lambda>_. Inr ())) userIds ()) (\<lambda>_.
     Inr (db, st\<lparr>s_memberUserIds := js_unique userIds\<rparr>, txt_s_members)))"

definition active_runs :: "work_db \<Rightarrow> string \<Rightarrow> string \<Rightarrow> nat" where
  "active_runs db projectId workId = count_rows (\<lambda>r. r_projectId r = projectId \<and> r_workId r = workId
     \<and> r_status r \<in> {Queued, InProgress, CancelRequested}) (db_runs db)"

definition bind_action ::
  "work_db \<Rightarrow> string \<Rightarrow> string \<Rightarrow> string \<Rightarrow> work_state \<Rightarrow> string \<Rightarrow> agent_role \<Rightarrow> branch res" where
  "bind_action db projectId workId userId st instanceId r =
     res_bind (ensure (s_ownerUserId st = userId) (forbidden txt_bind_owner_only)) (\<lambda>_.
     res_bind (authorizedWorkInstance db projectId instanceId userId) (\<lambda>(sn, v).
     res_bind (ensure (sn_engineType sn = ''WORK_TEXT'' \<longrightarrow> sn_workRole sn = Some (role_text r))
       (conflict txt_role_fixed)) (\<lambda>_.
     res_bind (ensure (active_runs db projectId workId = 0) (conflict txt_stop_runs_first)) (\<lambda>_.
     Inr (db, st\<lparr>s_agents := filter (\<lambda>a. g_instanceId a \<noteq> instanceId
            \<and> \<not> (r = Coordinator \<and> g_role a = Coordinator)) (s_agents st)
          @ [\<lparr>g_instanceId = instanceId, g_name = sn_productName sn, g_role = r, g_versionId = av_id v,
              g_capability = sn_productPurpose sn\<rparr>]\<rparr>, txt_s_bind)))))"

definition view_action :: "work_db \<Rightarrow> work_state \<Rightarrow> work_view \<Rightarrow> branch res" where
  "view_action db st v = Inr (db, st\<lparr>s_defaultView := v\<rparr>, txt_s_view)"

definition find_task :: "work_state \<Rightarrow> string \<Rightarrow> work_task option" where
  "find_task st i = find (\<lambda>t. t_id t = i) (s_tasks st)"

definition find_task_opt :: "work_state \<Rightarrow> string option \<Rightarrow> work_task option" where
  "find_task_opt st i = (case i of None \<Rightarrow> None | Some s \<Rightarrow> find_task st s)"

definition set_task :: "string option \<Rightarrow> (work_task \<Rightarrow> work_task) \<Rightarrow> work_state \<Rightarrow> work_state" where
  "set_task i f st = (case i of None \<Rightarrow> st
     | Some s \<Rightarrow> st\<lparr>s_tasks := update_first (\<lambda>t. t_id t = s) f (s_tasks st)\<rparr>)"

definition context_hash :: "hash_env \<Rightarrow> work_state \<Rightarrow> string res" where
  "context_hash h st = work_hash h (JObj [(''tasks'', JArr (map task_json (s_tasks st))),
     (''agents'', JArr (map agent_json (s_agents st))), (''goal'', JStr (s_goal st))])"

definition message_before :: "message_row \<Rightarrow> message_row \<Rightarrow> bool" where
  "message_before a b \<longleftrightarrow> x_createdAt b < x_createdAt a
     \<or> x_createdAt a = x_createdAt b \<and> text_le (x_id b) (x_id a)"

definition plan_history :: "work_db \<Rightarrow> string \<Rightarrow> string \<Rightarrow> nat \<Rightarrow> history_entry list" where
  "plan_history db projectId workId latest =
     rev (map (\<lambda>m. \<lparr>h_id = x_id m, h_kind = (case x_kind m of Human \<Rightarrow> ''human'' | AgentMessage \<Rightarrow> ''agent''),
            h_userId = x_userId m, h_instanceId = x_instanceId m, h_text = x_text m\<rparr>)
       (take 12 (sort_by message_before (filter (\<lambda>m. x_projectId m = projectId \<and> x_workId m = workId
          \<and> x_createdAt m \<le> latest) (db_messages db)))))"

definition dependency_artifacts :: "work_state \<Rightarrow> work_task \<Rightarrow> dependency_artifact list" where
  "dependency_artifacts st task = map (\<lambda>a. \<lparr>da_id = a_id a, da_taskId = a_taskId a,
       da_version = a_version a, da_content = a_content a, da_evidence = a_evidence a\<rparr>)
     (filter (\<lambda>a. a_status a = Delivered \<and> given (a_taskId a)
        \<and> the (a_taskId a) \<in> set (t_dependencies task)) (s_artifacts st))"

text \<open>Both dispatching branches: \<open>task\<close> is the task to execute, or \<open>None\<close> for a plan.\<close>

definition task_to_run :: "work_state \<Rightarrow> work_action \<Rightarrow> work_task option res" where
  "task_to_run st action =
     (case action of
        A_execute i \<Rightarrow>
          (case find_task st i of
             None \<Rightarrow> Inl (conflict txt_not_executable)
           | Some t \<Rightarrow>
               res_bind (ensure (t_status t \<in> {Todo, Decision}) (conflict txt_not_executable)) (\<lambda>_.
               res_bind (ensure (\<forall>i\<in>set (t_dependencies t).
                   (case find_task st i of None \<Rightarrow> False | Some u \<Rightarrow> t_status u = Done))
                 (conflict txt_upstream_open)) (\<lambda>_. Inr (Some t))))
      | _ \<Rightarrow> Inr None)"

definition run_binding :: "work_state \<Rightarrow> work_task option \<Rightarrow> work_agent option" where
  "run_binding st task =
     (case task of
        None \<Rightarrow> find (\<lambda>a. g_role a = Coordinator) (s_agents st)
      | Some t \<Rightarrow> find (\<lambda>a. Some (g_instanceId a) = t_ownerInstanceId t \<and> g_role a = Expert) (s_agents st))"

definition unreviewed_runs :: "work_db \<Rightarrow> string \<Rightarrow> string \<Rightarrow> work_task option \<Rightarrow> nat" where
  "unreviewed_runs db projectId workId task =
     count_rows (\<lambda>r. r_projectId r = projectId \<and> r_workId r = workId
       \<and> (case task of None \<Rightarrow> r_kind r = PlanRun | Some t \<Rightarrow> r_taskId r = Some (t_id t))
       \<and> r_status r \<in> {Queued, InProgress, CancelRequested, OutcomeUnknown}) (db_runs db)"

definition dispatch_input ::
  "work_db \<Rightarrow> string \<Rightarrow> string \<Rightarrow> work_state \<Rightarrow> work_task option \<Rightarrow> work_agent \<Rightarrow> string \<Rightarrow>
     message_row \<Rightarrow> string \<Rightarrow> run_input" where
  "dispatch_input db projectId workId st task binding sourceId source ctx =
     \<lparr>i_sourceMessageId = sourceId, i_intent = x_text source,
      i_history = (case task of None \<Rightarrow> plan_history db projectId workId (x_createdAt source) | Some _ \<Rightarrow> []),
      i_dependencyArtifacts = (case task of None \<Rightarrow> [] | Some t \<Rightarrow> dependency_artifacts st t),
      i_goal = s_goal st, i_task = task,
      i_tasks = (case task of None \<Rightarrow> s_tasks st | Some _ \<Rightarrow> []),
      i_agents = s_agents st, i_versionId = g_versionId binding, i_contextHash = ctx\<rparr>"

definition queued_run ::
  "nat \<Rightarrow> string \<Rightarrow> string \<Rightarrow> string \<Rightarrow> string \<Rightarrow> work_row \<Rightarrow> work_task option \<Rightarrow> work_agent \<Rightarrow>
     run_input \<Rightarrow> string \<Rightarrow> work_run" where
  "queued_run now newId projectId workId userId row task binding inp approved =
     \<lparr>r_id = newId, r_projectId = projectId, r_workId = workId, r_taskId = map_option t_id task,
      r_instanceId = g_instanceId binding, r_requestedBy = userId,
      r_kind = (case task of None \<Rightarrow> PlanRun | Some _ \<Rightarrow> ExecuteRun), r_status = Queued,
      r_reason = None, r_input = inp, r_approvedHash = approved,
      r_approvalExpiresAt = now + 15 * 60000, r_planRevision = w_revision row + 1, r_fence = 0,
      r_leaseUntil = None, r_startedAt = None, r_finishedAt = None, r_createdAt = now\<rparr>"

definition dispatch_action ::
  "hash_env \<Rightarrow> nat \<Rightarrow> string \<Rightarrow> work_db \<Rightarrow> string \<Rightarrow> string \<Rightarrow> string \<Rightarrow> work_row \<Rightarrow> work_state \<Rightarrow>
     work_action \<Rightarrow> branch res" where
  "dispatch_action h now newId db projectId workId userId row st action =
     res_bind (task_to_run st action) (\<lambda>task.
     res_bind (of_option (WorkError txt_no_binding 409 ''runtime_unavailable'') (run_binding st task)) (\<lambda>binding.
     res_bind (authorizedWorkInstance db projectId (g_instanceId binding) userId) (\<lambda>(sn, v).
     res_bind (ensure (av_id v = g_versionId binding) (conflict txt_version_changed)) (\<lambda>_.
     res_bind (ensure (s_modelCallsUsed st < s_modelCallLimit st)
       (WorkError txt_calls_used_up 403 ''budget_exceeded'')) (\<lambda>_.
     res_bind (ensure (unreviewed_runs db projectId workId task = 0) (conflict txt_already_dispatched)) (\<lambda>_.
     (let sourceId = (case task of Some t \<Rightarrow> t_sourceMessageId t
            | None \<Rightarrow> (case action of A_plan s \<Rightarrow> s | _ \<Rightarrow> [])) in
     res_bind (of_option (conflict txt_needs_intent)
        (find_unique message_key (projectId, workId, sourceId) (db_messages db))) (\<lambda>source.
     res_bind (ensure (x_kind source = Human) (conflict txt_needs_intent)) (\<lambda>_.
     res_bind (context_hash h st) (\<lambda>ctx.
     (let inp = dispatch_input db projectId workId st task binding sourceId source ctx in
     res_bind (work_hash h (run_input_json inp)) (\<lambda>approved.
     res_bind (of_option UniqueViolation (insert_row r_id
       (queued_run now newId projectId workId userId row task binding inp approved) (db_runs db))) (\<lambda>runs.
     Inr (db\<lparr>db_runs := runs\<rparr>,
          set_task (map_option t_id task) (\<lambda>t. t\<lparr>t_status := Running, t_reason := txt_r_queued\<rparr>) st,
          (case task of None \<Rightarrow> txt_s_plan
           | Some t \<Rightarrow> txt_s_execute_pre @ t_id t @ txt_s_execute_post)))))))))))))))"

definition find_run :: "work_db \<Rightarrow> string \<Rightarrow> string \<Rightarrow> string \<Rightarrow> work_run option" where
  "find_run db projectId workId runId =
     find (\<lambda>r. r_id r = runId \<and> r_projectId r = projectId \<and> r_workId r = workId) (db_runs db)"

definition update_run :: "string \<Rightarrow> (work_run \<Rightarrow> work_run) \<Rightarrow> work_db \<Rightarrow> work_db" where
  "update_run i f db = db\<lparr>db_runs := update_rows (\<lambda>r. r_id r = i) f (db_runs db)\<rparr>"

definition cancel_action :: "work_db \<Rightarrow> string \<Rightarrow> string \<Rightarrow> work_state \<Rightarrow> string \<Rightarrow> branch res" where
  "cancel_action db projectId workId st runId =
     (case find_run db projectId workId runId of
        None \<Rightarrow> Inl (conflict txt_not_stoppable)
      | Some run \<Rightarrow>
          res_bind (ensure (r_status run \<in> {Queued, InProgress}) (conflict txt_not_stoppable)) (\<lambda>_.
          Inr (update_run (r_id run) (\<lambda>r. r\<lparr>r_status := (if r_status run = Queued then Stopped else CancelRequested),
                 r_fence := r_fence r + 1, r_reason := Some txt_r_cancel_run\<rparr>) db,
               set_task (r_taskId run) (\<lambda>t. t\<lparr>t_status := Todo, t_reason := txt_r_cancel_task\<rparr>) st,
               txt_s_cancel)))"

definition resolve_action ::
  "work_db \<Rightarrow> string \<Rightarrow> string \<Rightarrow> string \<Rightarrow> work_state \<Rightarrow> string \<Rightarrow> string \<Rightarrow> branch res" where
  "resolve_action db projectId workId userId st runId evidence =
     (case find_run db projectId workId runId of
        None \<Rightarrow> Inl (forbidden txt_review_denied)
      | Some run \<Rightarrow>
          res_bind (ensure (r_status run = OutcomeUnknown \<and> (r_requestedBy run = userId \<or> s_ownerUserId st = userId))
            (forbidden txt_review_denied)) (\<lambda>_.
          Inr (update_run (r_id run) (\<lambda>r. r\<lparr>r_status := ReviewedUnknown, r_reason := Some evidence\<rparr>) db,
               st, txt_s_review)))"

definition set_artifact :: "string \<Rightarrow> (work_artifact \<Rightarrow> work_artifact) \<Rightarrow> work_state \<Rightarrow> work_state" where
  "set_artifact i f st = st\<lparr>s_artifacts := update_first (\<lambda>a. a_id a = i) f (s_artifacts st)\<rparr>"

text \<open>The checks that verifying and delivering share.\<close>

definition reviewable :: "hash_env \<Rightarrow> work_state \<Rightarrow> string \<Rightarrow> work_artifact res" where
  "reviewable h st artifactId =
     (case find (\<lambda>a. a_id a = artifactId) (s_artifacts st) of
        None \<Rightarrow> Inl (WorkError txt_no_artifact 404 ''work_conflict'')
      | Some artifact \<Rightarrow>
          res_bind (ensure (a_status artifact \<noteq> Delivered) (conflict txt_artifact_final)) (\<lambda>_.
          case find_task_opt st (a_taskId artifact) of
            None \<Rightarrow> Inl (conflict txt_artifact_stale)
          | Some task \<Rightarrow>
              res_bind (ensure (t_status task \<notin> {Running, Done, Cancelled}) (conflict txt_artifact_stale)) (\<lambda>_.
              res_bind (task_scope_hash h task) (\<lambda>d.
              res_bind (ensure (d = a_taskScopeHash artifact
                  \<and> \<not> list_ex (\<lambda>a. a_taskId a = a_taskId artifact \<and> a_version artifact < a_version a)
                      (s_artifacts st)) (conflict txt_artifact_stale)) (\<lambda>_.
              Inr artifact)))))"

definition verify_action ::
  "hash_env \<Rightarrow> work_db \<Rightarrow> string \<Rightarrow> work_state \<Rightarrow> string \<Rightarrow> string \<Rightarrow> branch res" where
  "verify_action h db userId st artifactId evidence =
     res_bind (reviewable h st artifactId) (\<lambda>artifact.
     Inr (db, set_artifact (a_id artifact) (\<lambda>a. a\<lparr>a_status := Verified, a_evidence := evidence,
            a_verifiedBy := Some userId\<rparr>) st, txt_s_verify))"

definition deliver_action :: "hash_env \<Rightarrow> work_db \<Rightarrow> work_state \<Rightarrow> string \<Rightarrow> branch res" where
  "deliver_action h db st artifactId =
     res_bind (reviewable h st artifactId) (\<lambda>artifact.
     res_bind (ensure (a_status artifact = Verified) (conflict txt_not_verified)) (\<lambda>_.
     Inr (db, set_task (a_taskId artifact) (\<lambda>t. t\<lparr>t_status := Done, t_reason := txt_r_delivered\<rparr>)
            (set_artifact (a_id artifact) (\<lambda>a. a\<lparr>a_status := Delivered\<rparr>) st), txt_s_deliver)))"

section \<open>Command\<close>

record work_request =
  rq_now :: nat
  rq_newId :: string
  rq_projectId :: string
  rq_workId :: string
  rq_userId :: string

definition apply_action ::
  "hash_env \<Rightarrow> work_request \<Rightarrow> user_view \<Rightarrow> work_row \<Rightarrow> work_state \<Rightarrow> string \<Rightarrow> work_action \<Rightarrow> work_db \<Rightarrow> branch res" where
  "apply_action h q user row st key action db =
     (case action of
        A_message tx so \<Rightarrow>
          message_action (rq_now q) db (rq_projectId q) (rq_workId q) (rq_userId q) user key st tx so
      | A_members us \<Rightarrow> members_action db (rq_projectId q) (rq_userId q) st us
      | A_bind i r \<Rightarrow> bind_action db (rq_projectId q) (rq_workId q) (rq_userId q) st i r
      | A_view v \<Rightarrow> view_action db st v
      | A_plan _ \<Rightarrow> dispatch_action h (rq_now q) (rq_newId q) db (rq_projectId q) (rq_workId q)
          (rq_userId q) row st action
      | A_execute _ \<Rightarrow> dispatch_action h (rq_now q) (rq_newId q) db (rq_projectId q) (rq_workId q)
          (rq_userId q) row st action
      | A_cancel r \<Rightarrow> cancel_action db (rq_projectId q) (rq_workId q) st r
      | A_resolve_unknown r e \<Rightarrow> resolve_action db (rq_projectId q) (rq_workId q) (rq_userId q) st r e
      | A_verify a e \<Rightarrow> verify_action h db (rq_userId q) st a e
      | A_deliver a \<Rightarrow> deliver_action h db st a)"

definition command_digest :: "hash_env \<Rightarrow> string \<Rightarrow> work_action \<Rightarrow> string res" where
  "command_digest h userId action =
     work_hash h (JObj [(''userId'', JStr userId), (''action'', action_json action)])"

definition command_tx :: "hash_env \<Rightarrow> work_request \<Rightarrow> work_command \<Rightarrow> string \<Rightarrow> work_db \<Rightarrow> work_db res" where
  "command_tx h q cmd dig db =
     res_bind (requireWorkProject db (rq_projectId q) (rq_userId q)) (\<lambda>user.
     res_bind (lockWork db (rq_projectId q) (rq_workId q)) (\<lambda>row.
     res_bind (work_state_schema (w_state row)) (\<lambda>st.
     res_bind (ensure (rq_userId q \<in> set (s_memberUserIds st)) (WorkError txt_no_work 404 ''not_found'')) (\<lambda>_.
     case find_unique command_key (rq_projectId q, rq_workId q, c_idempotencyKey cmd) (db_events db) of
       Some previous \<Rightarrow>
         res_bind (ensure (e_commandHash previous = dig) (conflict txt_command_key_reused)) (\<lambda>_. Inr db)
     | None \<Rightarrow>
         res_bind (ensure (w_revision row = c_expectedRevision cmd)
           (WorkError txt_revision_conflict 409 ''revision_conflict'')) (\<lambda>_.
         res_bind (apply_action h q user row st (c_idempotencyKey cmd) (c_action cmd) db) (\<lambda>(db1, st1, summary).
         appendWorkEvent (rq_now q) row st1
           \<lparr>in_key = c_idempotencyKey cmd, in_hash = dig, in_type = action_type (c_action cmd),
            in_summary = summary, in_actorId = rq_userId q, in_details = action_json (c_action cmd)\<rparr> db1))))))"

section \<open>Reads\<close>


record work_snapshot =
  sp_id :: string
  sp_projectId :: string
  sp_revision :: nat
  sp_state :: work_state
  sp_messages :: "message_row list"
  sp_events :: "(nat \<times> string \<times> string \<times> nat) list"
  sp_runs :: "work_run list"

definition event_view :: "event_row \<Rightarrow> nat \<times> string \<times> string \<times> nat" where
  "event_view e = (e_sequence e, e_type e, e_summary e, e_createdAt e)"

definition work_events :: "work_db \<Rightarrow> string \<Rightarrow> string \<Rightarrow> event_row list" where
  "work_events db projectId workId =
     filter (\<lambda>e. e_projectId e = projectId \<and> e_workId e = workId) (db_events db)"

definition snapshot :: "work_db \<Rightarrow> string \<Rightarrow> string \<Rightarrow> string \<Rightarrow> work_snapshot res" where
  "snapshot db projectId workId userId =
     res_bind (workAccess db projectId workId userId) (\<lambda>row.
     res_bind (work_state_schema (w_state row)) (\<lambda>st.
     Inr \<lparr>sp_id = workId, sp_projectId = projectId, sp_revision = w_revision row, sp_state = st,
       sp_messages = sort_by (\<lambda>a b. message_before b a)
         (filter (\<lambda>m. x_projectId m = projectId \<and> x_workId m = workId) (db_messages db)),
       sp_events = map event_view (rev (take 50 (sort_by (\<lambda>a b. e_sequence b \<le> e_sequence a)
         (work_events db projectId workId)))),
       sp_runs = take 100 (sort_by (\<lambda>a b. r_createdAt b \<le> r_createdAt a)
         (filter (\<lambda>r. r_projectId r = projectId \<and> r_workId r = workId) (db_runs db)))\<rparr>))"

definition events :: "work_db \<Rightarrow> string \<Rightarrow> string \<Rightarrow> string \<Rightarrow> nat \<Rightarrow> (nat \<times> string \<times> string \<times> nat) list res" where
  "events db projectId workId userId after =
     res_bind (workAccess db projectId workId userId) (\<lambda>_.
     Inr (map event_view (take 200 (sort_by (\<lambda>a b. e_sequence a \<le> e_sequence b)
       (filter (\<lambda>e. after < e_sequence e) (work_events db projectId workId))))))"

record work_list_item =
  li_id :: string
  li_title :: string
  li_goal :: string
  li_revision :: nat
  li_decisions :: nat

definition list_works :: "work_db \<Rightarrow> string \<Rightarrow> string \<Rightarrow> work_list_item list res" where
  "list_works db projectId userId =
     res_bind (requireWorkProject db projectId userId) (\<lambda>_.
     map_res (\<lambda>row. res_bind (work_state_schema (w_state row)) (\<lambda>st.
         Inr \<lparr>li_id = w_id row, li_title = s_title st, li_goal = s_goal st, li_revision = w_revision row,
           li_decisions = count_rows (\<lambda>t. t_status t = Decision) (s_tasks st)\<rparr>))
       (take 100 (sort_by (\<lambda>a b. w_updatedAt b \<le> w_updatedAt a)
         (filter (\<lambda>w. w_projectId w = projectId \<and> userId \<in> set (s_memberUserIds (w_state w))) (db_works db)))))"

definition candidates :: "work_db \<Rightarrow> string \<Rightarrow> string \<Rightarrow> (string \<times> string \<times> string) list res" where
  "candidates db projectId userId =
     res_bind (requireWorkProject db projectId userId) (\<lambda>_.
     Inr (concat (map (\<lambda>a. case authorizedWorkInstance db projectId (ag_id a) userId of
            Inl _ \<Rightarrow> []
          | Inr (sn, _) \<Rightarrow> [(ag_id a, sn_productName sn, sn_productPurpose sn)])
        (take 100 (filter (\<lambda>a. ag_projectId a = projectId \<and> ag_kind a \<in> {''PROJECT_AGENT'', ''WORK_AGENT''}
           \<and> \<not> ag_deleted a \<and> (ag_ownerUserId a = Some userId
              \<or> (case ag_developedAgentId a of None \<Rightarrow> False
                 | Some g \<Rightarrow> has_expert_member db projectId g userId))) (db_agents db))))))"

definition command ::
  "hash_env \<Rightarrow> work_request \<Rightarrow> work_command \<Rightarrow> work_db \<Rightarrow> work_snapshot res \<times> work_db" where
  "command h q raw db =
     (case res_bind (work_command_schema raw) (\<lambda>cmd.
        res_bind (command_digest h (rq_userId q) (c_action cmd)) (\<lambda>dig. command_tx h q cmd dig db)) of
        Inl e \<Rightarrow> (Inl e, db)
      | Inr db' \<Rightarrow> (snapshot db' (rq_projectId q) (rq_workId q) (rq_userId q), db'))"

section \<open>Create\<close>

definition default_agent ::
  "work_db \<Rightarrow> string \<Rightarrow> string \<Rightarrow> agent_role \<times> string option \<Rightarrow> work_agent list \<Rightarrow> work_agent list res" where
  "default_agent db projectId userId p agents =
     (if given (snd p) then
        res_bind (authorizedWorkInstance db projectId (the (snd p)) userId) (\<lambda>(sn, v).
        Inr (agents @ [\<lparr>g_instanceId = the (snd p), g_name = sn_productName sn, g_role = fst p,
          g_versionId = av_id v, g_capability = sn_productPurpose sn\<rparr>]))
      else Inr agents)"

definition initial_agents :: "hash_env \<Rightarrow> work_db \<Rightarrow> string \<Rightarrow> string \<Rightarrow> work_agent list res" where
  "initial_agents h db projectId userId =
     (case find_unique ob_projectId projectId (db_onboarding db) of
        None \<Rightarrow> Inr []
      | Some setup \<Rightarrow>
          if ob_status setup = ''READY'' \<and> ownsPersonalProject (digest h) (db_members db) projectId userId
          then res_bind (of_option SchemaError (ob_defaults setup)) (\<lambda>(coordinator, expert).
            fold_res (default_agent db projectId userId) [(Coordinator, coordinator), (Expert, expert)] [])
          else Inr [])"

definition initial_state :: "create_work \<Rightarrow> string \<Rightarrow> work_agent list \<Rightarrow> work_state" where
  "initial_state inp userId agents =
     \<lparr>s_title = cw_title inp, s_goal = cw_goal inp, s_ownerUserId = userId, s_memberUserIds = [userId],
      s_agents = agents, s_tasks = [], s_artifacts = [], s_defaultView = Chat, s_modelCallLimit = 20,
      s_modelCallsUsed = 0\<rparr>"

text \<open>The upsert on the creation key; a clash on the other key is the error that is rethrown.\<close>

definition upsert_work :: "work_row \<Rightarrow> work_db \<Rightarrow> (work_row \<times> work_db) res" where
  "upsert_work w db =
     (case find_unique creation_key (creation_key w) (db_works db) of
        Some existing \<Rightarrow> Inr (existing, db)
      | None \<Rightarrow>
          res_bind (of_option UniqueViolation (insert_row work_key w (db_works db))) (\<lambda>ws.
          Inr (w, db\<lparr>db_works := ws\<rparr>)))"

definition substr :: "nat \<Rightarrow> nat \<Rightarrow> string \<Rightarrow> string" where
  "substr i j s = take (j - i) (drop i s)"

definition planning_key :: "hash_env \<Rightarrow> string \<Rightarrow> string \<Rightarrow> string \<Rightarrow> string res" where
  "planning_key h rowId idem action =
     res_bind (work_hash h (JArr [JStr rowId, JStr idem, JStr action])) (\<lambda>d.
     Inr (substr 0 8 d @ ''-'' @ substr 8 12 d @ ''-4'' @ substr 13 16 d @ ''-a'' @ substr 17 20 d
       @ ''-'' @ substr 20 32 d))"

text \<open>Planning after creation: two commands, each in a transaction of its own.\<close>

definition start_planning ::
  "hash_env \<Rightarrow> work_request \<Rightarrow> work_row \<Rightarrow> create_work \<Rightarrow> work_db \<Rightarrow> unit res \<times> work_db" where
  "start_planning h q row inp db =
     (case res_bind (planning_key h (w_id row) (cw_idempotencyKey inp) ''intent'') (\<lambda>k1.
        res_bind (planning_key h (w_id row) (cw_idempotencyKey inp) ''plan'') (\<lambda>k2. Inr (k1, k2))) of
        Inl e \<Rightarrow> (Inl e, db)
      | Inr (k1, k2) \<Rightarrow>
         (case command h (q\<lparr>rq_workId := w_id row\<rparr>) \<lparr>c_idempotencyKey = k1,
              c_expectedRevision = w_revision row, c_action = A_message (cw_goal inp) Text\<rparr> db of
            (Inl e, db1) \<Rightarrow> (Inl e, db1)
          | (Inr sp, db1) \<Rightarrow>
             (case find_unique message_key (rq_projectId q, w_id row, k1) (db_messages db1) of
                None \<Rightarrow> (Inl RecordNotFound, db1)
              | Some source \<Rightarrow>
                 (case command h (q\<lparr>rq_workId := w_id row\<rparr>) \<lparr>c_idempotencyKey = k2,
                     c_expectedRevision = sp_revision sp, c_action = A_plan (x_id source)\<rparr> db1 of
                    (Inl e, db2) \<Rightarrow> (Inl e, db2)
                  | (Inr _, db2) \<Rightarrow> (Inr (), db2)))))"

definition create ::
  "hash_env \<Rightarrow> work_request \<Rightarrow> string \<Rightarrow> create_work \<Rightarrow> work_db \<Rightarrow> string res \<times> work_db" where
  "create h q newWorkId raw db =
     (case res_bind (create_work_schema raw) (\<lambda>inp.
        res_bind (requireWorkProject db (rq_projectId q) (rq_userId q)) (\<lambda>_.
        res_bind (initial_agents h db (rq_projectId q) (rq_userId q)) (\<lambda>agents.
        res_bind (upsert_work \<lparr>w_projectId = rq_projectId q, w_id = newWorkId, w_createdBy = rq_userId q,
            w_creationKey = cw_idempotencyKey inp, w_revision = 0,
            w_state = initial_state inp (rq_userId q) agents, w_updatedAt = rq_now q\<rparr> db) (\<lambda>(row, db1).
        Inr (inp, row, db1))))) of
        Inl e \<Rightarrow> (Inl e, db)
      | Inr (inp, row, db1) \<Rightarrow>
         (case res_bind (work_state_schema (w_state row)) (\<lambda>prior.
            res_bind (ensure (s_title prior = cw_title inp \<and> s_goal prior = cw_goal inp)
              (conflict txt_creation_key_reused)) (\<lambda>_.
            ensure (cw_startPlanning inp \<longrightarrow> list_ex (\<lambda>a. g_role a = Coordinator) (s_agents prior))
              (conflict txt_team_not_ready))) of
            Inl e \<Rightarrow> (Inl e, db1)
          | Inr _ \<Rightarrow>
              if cw_startPlanning inp then
                (case start_planning h q row inp db1 of
                   (Inl e, db2) \<Rightarrow> (Inl e, db2)
                 | (Inr _, db2) \<Rightarrow> (Inr (w_id row), db2))
              else (Inr (w_id row), db1)))"

end
