(* ===== verification/Work_Worker.thy ===== *)
theory Work_Worker
  imports Work_Service
begin

text \<open>
  \<open>works/work-worker.ts\<close>: the transactions a worker runs for an execution: the expiry of a
  lapsed lease, the claim, the guard with its reservation of one model call, the publication
  of a result and the recording of a failure. The clock and fresh UUIDs are arguments.
\<close>

section \<open>Keys of the events\<close>

fun run_status_text :: "run_status \<Rightarrow> string" where
  "run_status_text Queued = ''queued''"
| "run_status_text InProgress = ''running''"
| "run_status_text CancelRequested = ''cancel_requested''"
| "run_status_text Stopped = ''stopped''"
| "run_status_text OutcomeUnknown = ''outcome_unknown''"
| "run_status_text ReviewedUnknown = ''reviewed_unknown''"
| "run_status_text Blocked = ''blocked''"
| "run_status_text Succeeded = ''succeeded''"

definition tool_prefix :: "string \<Rightarrow> string" where
  "tool_prefix i = ''tool:'' @ i @ '':''"

definition tool_key :: "string \<Rightarrow> nat \<Rightarrow> string" where
  "tool_key i fence = tool_prefix i @ show_nat fence"

definition run_event_key :: "string \<Rightarrow> string \<Rightarrow> nat \<Rightarrow> string" where
  "run_event_key kind i fence = kind @ '':'' @ i @ '':'' @ show_nat fence"

definition dispatched :: "work_db \<Rightarrow> work_run \<Rightarrow> nat" where
  "dispatched db run = count_rows (\<lambda>e. e_projectId e = r_projectId run \<and> e_workId e = r_workId run
     \<and> prefix (tool_prefix (r_id run)) (e_commandKey e)) (db_events db)"

definition run_row :: "work_db \<Rightarrow> string \<Rightarrow> work_run res" where
  "run_row db i = of_option RecordNotFound (find_unique r_id i (db_runs db))"

section \<open>Leases\<close>

definition expired_runs :: "nat \<Rightarrow> work_db \<Rightarrow> work_run list" where
  "expired_runs now db = take 25 (filter (\<lambda>r. r_status r \<in> {InProgress, CancelRequested}
     \<and> (case r_leaseUntil r of None \<Rightarrow> False | Some l \<Rightarrow> l < now)) (db_runs db))"

definition queued_runs :: "work_db \<Rightarrow> work_run list" where
  "queued_runs db = take 4 (sort_by (\<lambda>a b. r_createdAt a \<le> r_createdAt b)
     (filter (\<lambda>r. r_status r = Queued) (db_runs db)))"

text \<open>The status and the reason a run gets when it ends without a result.\<close>

definition expire :: "hash_env \<Rightarrow> nat \<Rightarrow> work_run \<Rightarrow> work_db \<Rightarrow> work_db res" where
  "expire h now run db =
     res_bind (lockWork db (r_projectId run) (r_workId run)) (\<lambda>row.
     res_bind (run_row db (r_id run)) (\<lambda>current.
     if r_status current \<notin> {InProgress, CancelRequested}
       \<or> (case r_leaseUntil current of None \<Rightarrow> True | Some l \<Rightarrow> now < l)
     then Inr db
     else (let sent = 0 < dispatched db run;
               status = (if sent then OutcomeUnknown else Stopped);
               reason = (if sent then txt_r_expired_unknown else txt_r_expired_stopped)
       in
       res_bind (work_state_schema (w_state row)) (\<lambda>st.
       (let st1 = (case find_task_opt st (r_taskId run) of
              None \<Rightarrow> st
            | Some t \<Rightarrow> if t_status t = Running
                then set_task (r_taskId run) (\<lambda>t. t\<lparr>t_status := Todo, t_reason := reason\<rparr>) st else st)
       in
       res_bind (work_hash h (JStr reason)) (\<lambda>hash.
       appendWorkEvent now row st1
         \<lparr>in_key = run_event_key ''expired'' (r_id run) (r_fence current), in_hash = hash,
          in_type = ''run_expired'', in_summary = reason, in_actorId = r_instanceId run,
          in_details = JObj [(''runId'', JStr (r_id run)), (''status'', JStr (run_status_text status))]\<rparr>
         (update_run (r_id run) (\<lambda>r. r\<lparr>r_status := status, r_reason := Some reason,
            r_fence := r_fence r + 1, r_leaseUntil := None, r_finishedAt := Some now\<rparr>) db)))))))"

definition claim :: "nat \<Rightarrow> work_run \<Rightarrow> work_db \<Rightarrow> work_run option \<times> work_db" where
  "claim now candidate db =
     (if list_ex (\<lambda>r. r_id r = r_id candidate \<and> r_status r = Queued \<and> r_fence r = r_fence candidate) (db_runs db)
      then (let db1 = db\<lparr>db_runs := update_rows
              (\<lambda>r. r_id r = r_id candidate \<and> r_status r = Queued \<and> r_fence r = r_fence candidate)
              (\<lambda>r. r\<lparr>r_status := InProgress, r_fence := r_fence r + 1, r_leaseUntil := Some (now + 90000),
                 r_startedAt := Some now\<rparr>) (db_runs db)\<rparr>
            in (find_unique r_id (r_id candidate) (db_runs db1), db1))
      else (None, db))"

section \<open>The guard\<close>

definition guard :: "hash_env \<Rightarrow> nat \<Rightarrow> work_run \<Rightarrow> bool \<Rightarrow> work_db \<Rightarrow> work_db res" where
  "guard h now run reserve db =
     res_bind (lockWork db (r_projectId run) (r_workId run)) (\<lambda>row.
     res_bind (workAccess db (r_projectId run) (r_workId run) (r_requestedBy run)) (\<lambda>_.
     res_bind (run_row db (r_id run)) (\<lambda>current.
     res_bind (execution_gate h current (r_fence run) now) (\<lambda>_.
     res_bind (work_state_schema (w_state row)) (\<lambda>st.
     res_bind (authorizedWorkInstance db (r_projectId run) (r_instanceId run) (r_requestedBy run)) (\<lambda>(sn, v).
     res_bind (ensure (\<exists>a\<in>set (s_agents st). g_instanceId a = r_instanceId run \<and> g_versionId a = av_id v)
       (forbidden txt_binding_changed)) (\<lambda>_.
     res_bind (ensure (s_modelCallsUsed st < s_modelCallLimit st)
       (WorkError txt_guard_calls_used_up 403 ''budget_exceeded'')) (\<lambda>_.
     if reserve then
       appendWorkEvent now row (st\<lparr>s_modelCallsUsed := s_modelCallsUsed st + 1\<rparr>)
         \<lparr>in_key = tool_key (r_id run) (r_fence run), in_hash = r_approvedHash current,
          in_type = ''model_dispatch'', in_summary = txt_s_dispatch, in_actorId = r_instanceId run,
          in_details = JObj [(''runId'', JStr (r_id run))]\<rparr> db
     else Inr db))))))))"

section \<open>Results\<close>

text \<open>What an execution returns: a plan, a draft, or a value of another shape.\<close>

datatype work_result = PlanResult work_plan | DraftResult work_draft | OtherResult js

fun result_json :: "work_result \<Rightarrow> js" where
  "result_json (PlanResult p) = plan_json p"
| "result_json (DraftResult d) = draft_json d"
| "result_json (OtherResult j) = j"

definition latest_human :: "work_db \<Rightarrow> string \<Rightarrow> string \<Rightarrow> string option" where
  "latest_human db projectId workId =
     (case sort_by (\<lambda>a b. x_createdAt b \<le> x_createdAt a)
        (filter (\<lambda>m. x_projectId m = projectId \<and> x_workId m = workId \<and> x_kind m = Human) (db_messages db)) of
        [] \<Rightarrow> None | m # _ \<Rightarrow> Some (x_id m))"

definition finish_plan :: "hash_env \<Rightarrow> work_db \<Rightarrow> work_run \<Rightarrow> work_state \<Rightarrow> work_result \<Rightarrow> (work_state \<times> string) res" where
  "finish_plan h db run st result =
     res_bind (context_hash h st) (\<lambda>ctx.
     res_bind (ensure (latest_human db (r_projectId run) (r_workId run) = Some (i_sourceMessageId (r_input run))
         \<and> ctx = i_contextHash (r_input run)) (conflict txt_intent_changed)) (\<lambda>_.
     case result of
       PlanResult p \<Rightarrow>
         res_bind (apply_work_plan st p (i_sourceMessageId (r_input run))) (\<lambda>(st1, plan).
         Inr (st1, p_reply plan))
     | _ \<Rightarrow> Inl SchemaError))"

definition finish_draft :: "hash_env \<Rightarrow> string \<Rightarrow> work_run \<Rightarrow> work_state \<Rightarrow> work_result \<Rightarrow> (work_state \<times> string) res" where
  "finish_draft h newArtifactId run st result =
     (case result of
        DraftResult d \<Rightarrow>
          res_bind (work_draft_schema d) (\<lambda>draft.
          case find_task_opt st (r_taskId run) of
            None \<Rightarrow> Inl (conflict txt_run_task_changed)
          | Some task \<Rightarrow>
              res_bind (ensure (t_status task = Running \<and> t_ownerInstanceId task = Some (r_instanceId run))
                (conflict txt_run_task_changed)) (\<lambda>_.
              res_bind (task_scope_hash h task) (\<lambda>scope.
              (let versions = filter (\<lambda>a. a_taskId a = Some (t_id task)) (s_artifacts st);
                   artifact = \<lparr>a_id = newArtifactId, a_taskId = Some (t_id task), a_runId = r_id run,
                     a_sourceMessageId = i_sourceMessageId (r_input run), a_instanceId = r_instanceId run,
                     a_taskScopeHash = scope, a_title = d_title draft, a_content = d_content draft,
                     a_version = length versions + 1,
                     a_previousId = (case rev versions of [] \<Rightarrow> None | a # _ \<Rightarrow> Some (a_id a)),
                     a_status = Draft, a_evidence = d_evidence draft, a_verifiedBy = None\<rparr>
               in Inr (set_task (Some (t_id task)) (\<lambda>t. t\<lparr>t_status := Decision, t_reason := txt_r_draft\<rparr>)
                    (st\<lparr>s_artifacts := s_artifacts st @ [artifact]\<rparr>),
                  txt_reply_draft_pre @ d_title draft @ txt_reply_draft_post)))))
      | _ \<Rightarrow> Inl SchemaError)"

definition agent_name :: "work_state \<Rightarrow> string \<Rightarrow> string" where
  "agent_name st i = (case find (\<lambda>a. g_instanceId a = i) (s_agents st) of None \<Rightarrow> i | Some a \<Rightarrow> g_name a)"

definition finish ::
  "hash_env \<Rightarrow> nat \<Rightarrow> string \<Rightarrow> string \<Rightarrow> work_run \<Rightarrow> work_result \<Rightarrow> work_db \<Rightarrow> work_db res" where
  "finish h now newArtifactId newMessageId run result db =
     res_bind (lockWork db (r_projectId run) (r_workId run)) (\<lambda>row.
     res_bind (run_row db (r_id run)) (\<lambda>current.
     res_bind (execution_gate h current (r_fence run) now) (\<lambda>_.
     res_bind (workAccess db (r_projectId run) (r_workId run) (r_requestedBy run)) (\<lambda>_.
     res_bind (work_state_schema (w_state row)) (\<lambda>st.
     res_bind (case r_kind run of PlanRun \<Rightarrow> finish_plan h db run st result
         | ExecuteRun \<Rightarrow> finish_draft h newArtifactId run st result) (\<lambda>(st1, reply).
     res_bind (of_option UniqueViolation (insert_row message_key
       \<lparr>x_projectId = r_projectId run, x_workId = r_workId run, x_id = newMessageId, x_kind = AgentMessage,
        x_userId = None, x_instanceId = Some (r_instanceId run), x_name = agent_name st1 (r_instanceId run),
        x_text = reply, x_source = ''runtime'', x_createdAt = now\<rparr> (db_messages db))) (\<lambda>ms.
     res_bind (work_hash h (result_json result)) (\<lambda>hash.
     appendWorkEvent now row st1
       \<lparr>in_key = run_event_key ''result'' (r_id run) (r_fence run), in_hash = hash,
        in_type = ''run_result'',
        in_summary = (case r_kind run of PlanRun \<Rightarrow> txt_s_result_plan | ExecuteRun \<Rightarrow> txt_s_result_task),
        in_actorId = r_instanceId run,
        in_details = JObj [(''runId'', JStr (r_id run)), (''result'', result_json result)]\<rparr>
       (update_run (r_id run) (\<lambda>r. r\<lparr>r_status := Succeeded, r_finishedAt := Some now, r_leaseUntil := None\<rparr>)
         (db\<lparr>db_messages := ms\<rparr>))))))))))"

section \<open>Failures\<close>

definition late_result :: "hash_env \<Rightarrow> nat \<Rightarrow> work_run \<Rightarrow> work_row \<Rightarrow> string \<Rightarrow> work_db \<Rightarrow> work_db res" where
  "late_result h now run row reason db =
     (let key = run_event_key ''late'' (r_id run) (r_fence run) in
     case find_unique command_key (r_projectId run, r_workId run, key) (db_events db) of
       Some _ \<Rightarrow> Inr db
     | None \<Rightarrow>
         res_bind (work_state_schema (w_state row)) (\<lambda>st.
         res_bind (work_hash h (JStr reason)) (\<lambda>hash.
         appendWorkEvent now row st
           \<lparr>in_key = key, in_hash = hash, in_type = ''late_result_discarded'', in_summary = txt_s_late,
            in_actorId = r_instanceId run,
            in_details = JObj [(''runId'', JStr (r_id run)), (''rejectedFence'', jnat (r_fence run)),
              (''reason'', JStr reason)]\<rparr> db)))"

definition record_failure ::
  "hash_env \<Rightarrow> nat \<Rightarrow> work_run \<Rightarrow> work_row \<Rightarrow> run_status \<Rightarrow> string \<Rightarrow> work_db \<Rightarrow> work_db res" where
  "record_failure h now run row status reason db =
     res_bind (work_state_schema (w_state row)) (\<lambda>st.
     (let st1 = (case find_task_opt st (r_taskId run) of
            None \<Rightarrow> st
          | Some t \<Rightarrow> if t_status t \<noteq> Done
              then set_task (r_taskId run) (\<lambda>t. t\<lparr>t_status := Todo, t_reason := reason\<rparr>) st else st) in
     res_bind (work_hash h (JStr reason)) (\<lambda>hash.
     appendWorkEvent now row st1
       \<lparr>in_key = run_event_key ''failure'' (r_id run) (r_fence run), in_hash = hash,
        in_type = ''run_blocked'', in_summary = reason, in_actorId = r_instanceId run,
        in_details = JObj [(''runId'', JStr (r_id run)), (''status'', JStr (run_status_text status))]\<rparr>
       (update_run (r_id run) (\<lambda>r. r\<lparr>r_status := status, r_reason := Some reason,
          r_finishedAt := Some now, r_leaseUntil := None\<rparr>) db))))"

definition fail :: "hash_env \<Rightarrow> nat \<Rightarrow> work_run \<Rightarrow> run_status \<Rightarrow> string \<Rightarrow> work_db \<Rightarrow> work_db res" where
  "fail h now run status reason db =
     res_bind (lockWork db (r_projectId run) (r_workId run)) (\<lambda>row.
     res_bind (run_row db (r_id run)) (\<lambda>current.
     if r_status current = CancelRequested then
       (if 0 < dispatched db run
        then record_failure h now run row OutcomeUnknown txt_r_cancel_unknown db
        else record_failure h now run row Stopped txt_r_cancel_stopped db)
     else if r_status current \<noteq> InProgress \<or> r_fence current \<noteq> r_fence run
     then late_result h now run row reason db
     else record_failure h now run row status reason db))"

text \<open>What the catch of \<open>process\<close> writes for an error.\<close>

definition failure_reason :: "failure \<Rightarrow> string" where
  "failure_reason e = (case e of WorkError m _ _ \<Rightarrow> m | _ \<Rightarrow> txt_r_runtime)"

section \<open>One execution\<close>

text \<open>
  A process that has claimed a run: the run as it read it, and whether it has reserved its
  model call. \<open>before_tool\<close> is the callback the execution makes right before inference.
\<close>

record worker =
  wk_run :: work_run
  wk_guarded :: bool
  wk_invoked :: bool

definition before_tool :: "hash_env \<Rightarrow> nat \<Rightarrow> worker \<Rightarrow> work_db \<Rightarrow> (worker \<times> work_db) res" where
  "before_tool h now k db =
     (if wk_invoked k then Inl (forbidden txt_single_call)
      else res_bind (guard h now (wk_run k) True db) (\<lambda>db1. Inr (k\<lparr>wk_invoked := True\<rparr>, db1)))"

definition catch_failure :: "hash_env \<Rightarrow> nat \<Rightarrow> worker \<Rightarrow> failure \<Rightarrow> work_db \<Rightarrow> work_db" where
  "catch_failure h now k e db =
     (case fail h now (wk_run k) (if wk_invoked k then OutcomeUnknown else Blocked) (failure_reason e) db of
        Inl _ \<Rightarrow> db | Inr db1 \<Rightarrow> db1)"

text \<open>
  \<open>process\<close> run without interference: the execution is an argument that may call
  \<open>before_tool\<close> and gives its outcome with the worker and the database it leaves.
\<close>

type_synonym execution = "worker \<Rightarrow> work_db \<Rightarrow> work_result res \<times> worker \<times> work_db"

definition process ::
  "hash_env \<Rightarrow> nat \<Rightarrow> string \<Rightarrow> string \<Rightarrow> execution \<Rightarrow> work_run \<Rightarrow> work_db \<Rightarrow> work_db" where
  "process h now newArtifactId newMessageId execute candidate db =
     (case claim now candidate db of
        (None, db1) \<Rightarrow> db1
      | (Some run, db1) \<Rightarrow>
          (let k = \<lparr>wk_run = run, wk_guarded = False, wk_invoked = False\<rparr> in
           case guard h now run False db1 of
             Inl e \<Rightarrow> catch_failure h now k e db1
           | Inr db2 \<Rightarrow>
               (case execute (k\<lparr>wk_guarded := True\<rparr>) db2 of
                  (Inl e, k1, db3) \<Rightarrow> catch_failure h now k1 e db3
                | (Inr result, k1, db3) \<Rightarrow>
                    (case finish h now newArtifactId newMessageId run result db3 of
                       Inl e \<Rightarrow> catch_failure h now k1 e db3
                     | Inr db4 \<Rightarrow> db4))))"

text \<open>The expired leases of one poll, then the queued runs, here one after the other.\<close>

definition tick ::
  "hash_env \<Rightarrow> nat \<Rightarrow> (work_run \<Rightarrow> string \<times> string) \<Rightarrow> execution \<Rightarrow> work_db \<Rightarrow> work_db res" where
  "tick h now fresh execute db =
     res_bind (fold_res (expire h now) (expired_runs now db) db) (\<lambda>db1.
     Inr (fold (\<lambda>run. process h now (fst (fresh run)) (snd (fresh run)) execute run) (queued_runs db1) db1))"

end
