(* ===== verification/Transition_Systems.thy ===== *)
theory Transition_Systems
  imports Prelude
begin

text \<open>
  The interface of the state machines of the development: a set of initial states and a step
  relation. An invariant that holds initially and that every step keeps holds in every
  reachable state; a simulation carries the invariants of an abstract system to a concrete
  one.
\<close>

locale transition_system =
  fixes init :: "'s \<Rightarrow> bool"
    and step :: "'s \<Rightarrow> 's \<Rightarrow> bool"
begin

inductive reachable :: "'s \<Rightarrow> bool" where
  reachable_init: "init s \<Longrightarrow> reachable s"
| reachable_step: "reachable s \<Longrightarrow> step s t \<Longrightarrow> reachable t"

lemma invariantI:
  assumes "reachable s" and "\<And>s. init s \<Longrightarrow> I s"
    and "\<And>s t. reachable s \<Longrightarrow> I s \<Longrightarrow> step s t \<Longrightarrow> I t"
  shows "I s"
  using assms(1) by (induction rule: reachable.induct) (auto intro: assms(2,3))

lemma reachable_steps: "reachable s \<Longrightarrow> step\<^sup>*\<^sup>* s t \<Longrightarrow> reachable t"
  by (rotate_tac, induction rule: rtranclp_induct) (auto intro: reachable_step)

lemma stableI:
  assumes "step\<^sup>*\<^sup>* s t" and "reachable s" and "P s"
    and "\<And>s t. reachable s \<Longrightarrow> step s t \<Longrightarrow> P s \<Longrightarrow> P t"
  shows "P t"
  using assms(1)
proof (induction rule: rtranclp_induct)
  case (step t u)
  then show ?case
    using assms(2,4) reachable_steps by blast
qed (rule assms(3))

end

text \<open>A concrete system whose steps are runs of an abstract one.\<close>

locale simulation =
  abs: transition_system ainit astep + con: transition_system cinit cstep
  for ainit :: "'a \<Rightarrow> bool" and astep :: "'a \<Rightarrow> 'a \<Rightarrow> bool"
    and cinit :: "'c \<Rightarrow> bool" and cstep :: "'c \<Rightarrow> 'c \<Rightarrow> bool" +
  fixes view :: "'c \<Rightarrow> 'a"
    and inv :: "'c \<Rightarrow> bool"
  assumes sim_init: "cinit c \<Longrightarrow> ainit (view c) \<and> inv c"
    and sim_step: "con.reachable c \<Longrightarrow> inv c \<Longrightarrow> cstep c d \<Longrightarrow> astep\<^sup>*\<^sup>* (view c) (view d) \<and> inv d"
begin

lemma sim_reachable: "con.reachable c \<Longrightarrow> abs.reachable (view c) \<and> inv c"
proof (induction rule: con.reachable.induct)
  case (reachable_step c d)
  then show ?case
    using sim_step abs.reachable_steps by blast
qed (use sim_init abs.reachable_init in blast)

lemma sim_invariant:
  assumes "con.reachable c" and "\<And>a. abs.reachable a \<Longrightarrow> I a"
  shows "I (view c)"
  using assms sim_reachable by blast

lemma sim_steps:
  assumes "con.reachable c" and "cstep\<^sup>*\<^sup>* c d"
  shows "astep\<^sup>*\<^sup>* (view c) (view d)"
  using assms(2)
proof (induction rule: rtranclp_induct)
  case (step d e)
  then have "con.reachable d"
    using assms(1) con.reachable_steps by blast
  with step sim_step sim_reachable show ?case
    by (meson rtranclp_trans)
qed simp

end

end
