(* ===== verification/Work_Lifecycle.thy ===== *)
theory Work_Lifecycle
  imports Work_Worker Transition_Systems
begin

text \<open>
  The lifecycle of one Work, as the abstract specification of the handlers: its tasks and
  artifacts, its executions, the log of its events and the processes that work for it. A
  step says what a handler may do to these; the invariant says what no interleaving of
  handlers and processes can break.
\<close>

section \<open>State\<close>

record life =
  lf_tasks :: "work_task list"
  lf_artifacts :: "work_artifact list"
  lf_calls :: nat
  lf_limit :: nat
  lf_runs :: "work_run list"
  lf_log :: "(string \<times> string) list"
  lf_workers :: "worker list"

definition log_keys :: "(string \<times> string) list \<Rightarrow> string set" where
  "log_keys es = fst ` set es"

definition sent :: "string set \<Rightarrow> string \<Rightarrow> bool" where
  "sent K i \<longleftrightarrow> (\<exists>k\<in>K. prefix (tool_prefix i) k)"

definition log_event :: "string \<Rightarrow> string \<Rightarrow> life \<Rightarrow> life" where
  "log_event k ty L = L\<lparr>lf_log := lf_log L @ [(k, ty)]\<rparr>"

definition put_run :: "string \<Rightarrow> (work_run \<Rightarrow> work_run) \<Rightarrow> life \<Rightarrow> life" where
  "put_run i f L = L\<lparr>lf_runs := update_rows (\<lambda>r. r_id r = i) f (lf_runs L)\<rparr>"

definition task_upd :: "string option \<Rightarrow> (work_task \<Rightarrow> work_task) \<Rightarrow> work_task list \<Rightarrow> work_task list" where
  "task_upd i f ts = (case i of None \<Rightarrow> ts | Some s \<Rightarrow> update_first (\<lambda>t. t_id t = s) f ts)"

definition mark :: "task_status \<Rightarrow> string \<Rightarrow> work_task \<Rightarrow> work_task" where
  "mark st x t = t\<lparr>t_status := st, t_reason := x\<rparr>"

definition put_task :: "string option \<Rightarrow> task_status \<Rightarrow> string \<Rightarrow> life \<Rightarrow> life" where
  "put_task i st x L = L\<lparr>lf_tasks := task_upd i (mark st x) (lf_tasks L)\<rparr>"

text \<open>The task of a run that ends goes back to the list when its status allows it.\<close>

definition release :: "(task_status \<Rightarrow> bool) \<Rightarrow> string option \<Rightarrow> string \<Rightarrow> life \<Rightarrow> life" where
  "release P i x L =
     (case i of None \<Rightarrow> L
      | Some s \<Rightarrow> (case find (\<lambda>t. t_id t = s) (lf_tasks L) of None \<Rightarrow> L
          | Some t \<Rightarrow> if P (t_status t) then put_task i Todo x L else L))"

definition plain_event :: "life \<Rightarrow> string \<Rightarrow> string \<Rightarrow> bool" where
  "plain_event L k ty \<longleftrightarrow> k \<notin> log_keys (lf_log L) \<and> \<not> prefix ''tool:'' k \<and> ty \<noteq> ''model_dispatch''"

definition active :: "work_run \<Rightarrow> bool" where
  "active r \<longleftrightarrow> r_status r \<in> {Queued, InProgress}"

definition unreviewed :: "work_run \<Rightarrow> bool" where
  "unreviewed r \<longleftrightarrow> r_status r \<in> {Queued, InProgress, CancelRequested, OutcomeUnknown}"

text \<open>The gate: the run is running under the fence its worker took.\<close>

definition gated :: "life \<Rightarrow> work_run \<Rightarrow> worker \<Rightarrow> bool" where
  "gated L r k \<longleftrightarrow> k \<in> set (lf_workers L) \<and> r \<in> set (lf_runs L) \<and> r_id r = r_id (wk_run k)
     \<and> r_status r = InProgress \<and> r_fence r = r_fence (wk_run k)"

text \<open>What a plan may do to the tasks.\<close>

definition plan_effect :: "work_task list \<Rightarrow> work_task list \<Rightarrow> bool" where
  "plan_effect ts us \<longleftrightarrow> distinct (map t_id us)
     \<and> (\<forall>t\<in>set ts. t_status t \<in> {Done, Cancelled, Running} \<longrightarrow> t \<in> set us)
     \<and> (\<forall>u\<in>set us. t_status u \<in> {Running, Done} \<longrightarrow> u \<in> set ts)"

definition same_run :: "work_run \<Rightarrow> work_run \<Rightarrow> bool" where
  "same_run a b \<longleftrightarrow> r_id a = r_id b \<and> r_projectId a = r_projectId b \<and> r_workId a = r_workId b
     \<and> r_taskId a = r_taskId b \<and> r_kind a = r_kind b \<and> r_instanceId a = r_instanceId b
     \<and> r_requestedBy a = r_requestedBy b \<and> r_input a = r_input b \<and> r_approvedHash a = r_approvedHash b"

lemma same_run_refl [simp]: "same_run r r"
  by (simp add: same_run_def)

lemma same_run_update [simp]:
  "same_run (q\<lparr>r_status := a\<rparr>) r = same_run q r" "same_run (q\<lparr>r_fence := b\<rparr>) r = same_run q r"
  "same_run (q\<lparr>r_reason := c\<rparr>) r = same_run q r" "same_run (q\<lparr>r_leaseUntil := d\<rparr>) r = same_run q r"
  "same_run (q\<lparr>r_startedAt := d\<rparr>) r = same_run q r" "same_run (q\<lparr>r_finishedAt := d\<rparr>) r = same_run q r"
  by (simp_all add: same_run_def)

lemma same_run_trans: "same_run a b \<Longrightarrow> same_run b c \<Longrightarrow> same_run a c"
  by (simp add: same_run_def)

definition runs_extend :: "work_run list \<Rightarrow> work_run list \<Rightarrow> bool" where
  "runs_extend rs rs1 \<longleftrightarrow> (\<forall>r\<in>set rs. \<exists>r'\<in>set rs1. same_run r' r)"

lemma runs_extend_refl [simp]: "runs_extend rs rs"
  unfolding runs_extend_def using same_run_refl by blast

lemma runs_extend_append [simp]: "runs_extend rs (rs @ ss)"
  unfolding runs_extend_def using same_run_refl by fastforce

lemma runs_extend_update:
  assumes "\<And>q. same_run (f q) q"
  shows "runs_extend rs (update_rows p f rs)"
  unfolding runs_extend_def set_update_rows
proof
  fix r assume "r \<in> set rs"
  then show "\<exists>r'\<in>(\<lambda>r. if p r then f r else r) ` set rs. same_run r' r"
    using assms by (intro bexI [of _ "if p r then f r else r"]) simp_all
qed

section \<open>Steps\<close>

definition may_dispatch :: "life \<Rightarrow> work_task option \<Rightarrow> work_run \<Rightarrow> bool" where
  "may_dispatch L task r \<longleftrightarrow>
     (case task of None \<Rightarrow> True
      | Some t \<Rightarrow> find (\<lambda>u. t_id u = t_id t) (lf_tasks L) = Some t \<and> t_status t \<in> {Todo, Decision}
          \<and> (\<forall>d\<in>set (t_dependencies t). \<exists>u\<in>set (lf_tasks L). t_id u = d \<and> t_status u = Done))
   \<and> (\<forall>q\<in>set (lf_runs L). unreviewed q \<longrightarrow>
        (case task of None \<Rightarrow> r_kind q \<noteq> PlanRun | Some t \<Rightarrow> r_taskId q \<noteq> Some (t_id t)))
   \<and> r_id r \<notin> r_id ` set (lf_runs L) \<and> CHR '':'' \<notin> set (r_id r)
   \<and> r_taskId r = map_option t_id task
   \<and> r_kind r = (case task of None \<Rightarrow> PlanRun | Some _ \<Rightarrow> ExecuteRun)
   \<and> r_status r = Queued \<and> r_fence r = 0 \<and> lf_calls L < lf_limit L"

inductive life_step :: "life \<Rightarrow> life \<Rightarrow> bool" where
  note_step: "plain_event L k ty \<Longrightarrow> life_step L (log_event k ty L)"
| dispatch_step: "plain_event L k ty \<Longrightarrow> may_dispatch L task r \<Longrightarrow>
    life_step L (log_event k ty (put_task (map_option t_id task) Running x
      (L\<lparr>lf_runs := lf_runs L @ [r]\<rparr>)))"
| cancel_step: "plain_event L k ty \<Longrightarrow> r \<in> set (lf_runs L) \<Longrightarrow> active r \<Longrightarrow>
    life_step L (log_event k ty (put_task (r_taskId r) Todo x (put_run (r_id r)
      (\<lambda>q. q\<lparr>r_status := (if r_status r = Queued then Stopped else CancelRequested),
        r_fence := r_fence q + 1, r_reason := y\<rparr>) L)))"
| resolve_step: "plain_event L k ty \<Longrightarrow> r \<in> set (lf_runs L) \<Longrightarrow> r_status r = OutcomeUnknown \<Longrightarrow>
    life_step L (log_event k ty (put_run (r_id r) (\<lambda>q. q\<lparr>r_status := ReviewedUnknown, r_reason := y\<rparr>) L))"
| verify_step: "plain_event L k ty \<Longrightarrow> find (\<lambda>a. a_id a = i) (lf_artifacts L) = Some a \<Longrightarrow>
    a_status a \<noteq> Delivered \<Longrightarrow>
    life_step L (log_event k ty (L\<lparr>lf_artifacts := update_first (\<lambda>a. a_id a = i)
      (\<lambda>a. a\<lparr>a_status := Verified, a_evidence := y, a_verifiedBy := z\<rparr>) (lf_artifacts L)\<rparr>))"
| deliver_step: "plain_event L k ty \<Longrightarrow> find (\<lambda>a. a_id a = i) (lf_artifacts L) = Some a \<Longrightarrow>
    a_status a = Verified \<Longrightarrow> a_taskId a = Some j \<Longrightarrow> find (\<lambda>t. t_id t = j) (lf_tasks L) = Some t \<Longrightarrow>
    t_status t \<notin> {Running, Done, Cancelled} \<Longrightarrow>
    life_step L (log_event k ty (put_task (Some j) Done x (L\<lparr>lf_artifacts := update_first (\<lambda>a. a_id a = i)
      (\<lambda>a. a\<lparr>a_status := Delivered\<rparr>) (lf_artifacts L)\<rparr>)))"
| claim_step: "r \<in> set (lf_runs L) \<Longrightarrow> r_status r = Queued \<Longrightarrow>
    f = (\<lambda>q. q\<lparr>r_status := InProgress, r_fence := r_fence q + 1, r_leaseUntil := y, r_startedAt := z\<rparr>) \<Longrightarrow>
    life_step L ((put_run (r_id r) f L)\<lparr>lf_workers := lf_workers L
      @ [\<lparr>wk_run = f r, wk_guarded = False, wk_invoked = False\<rparr>]\<rparr>)"
| guarded_step: "lf_workers L = ks @ k # ls \<Longrightarrow>
    life_step L (L\<lparr>lf_workers := ks @ k\<lparr>wk_guarded := True\<rparr> # ls\<rparr>)"
| reserve_step: "lf_workers L = ks @ k # ls \<Longrightarrow> gated L r k \<Longrightarrow> \<not> wk_invoked k \<Longrightarrow>
    lf_calls L < lf_limit L \<Longrightarrow> tool_key (r_id (wk_run k)) (r_fence (wk_run k)) \<notin> log_keys (lf_log L) \<Longrightarrow>
    life_step L (log_event (tool_key (r_id (wk_run k)) (r_fence (wk_run k))) ''model_dispatch''
      (L\<lparr>lf_calls := lf_calls L + 1, lf_workers := ks @ k\<lparr>wk_invoked := True\<rparr> # ls\<rparr>))"
| finish_plan_step: "plain_event L k ty \<Longrightarrow> gated L r w \<Longrightarrow> r_kind r = PlanRun \<Longrightarrow>
    plan_effect (lf_tasks L) us \<Longrightarrow>
    life_step L (log_event k ty ((put_run (r_id r) (\<lambda>q. q\<lparr>r_status := Succeeded, r_finishedAt := y,
      r_leaseUntil := None\<rparr>) L)\<lparr>lf_tasks := us\<rparr>))"
| finish_draft_step: "plain_event L k ty \<Longrightarrow> gated L r w \<Longrightarrow> r_taskId r = Some j \<Longrightarrow>
    find (\<lambda>t. t_id t = j) (lf_tasks L) = Some t \<Longrightarrow> t_status t = Running \<Longrightarrow> a_status a = Draft \<Longrightarrow>
    life_step L (log_event k ty (put_task (Some j) Decision x (put_run (r_id r)
      (\<lambda>q. q\<lparr>r_status := Succeeded, r_finishedAt := y, r_leaseUntil := None\<rparr>)
      (L\<lparr>lf_artifacts := lf_artifacts L @ [a]\<rparr>))))"
| expire_step: "plain_event L k ty \<Longrightarrow> r \<in> set (lf_runs L) \<Longrightarrow> r_status r \<in> {InProgress, CancelRequested} \<Longrightarrow>
    life_step L (log_event k ty (release (\<lambda>s. s = Running) (r_taskId r) x (put_run (r_id r)
      (\<lambda>q. q\<lparr>r_status := (if sent (log_keys (lf_log L)) (r_id r) then OutcomeUnknown else Stopped),
        r_reason := y, r_fence := r_fence q + 1, r_leaseUntil := None, r_finishedAt := z\<rparr>) L)))"
| fail_running_step: "plain_event L k ty \<Longrightarrow> gated L r w \<Longrightarrow>
    life_step L (log_event k ty (release (\<lambda>s. s \<noteq> Done) (r_taskId r) x (put_run (r_id r)
      (\<lambda>q. q\<lparr>r_status := (if wk_invoked w then OutcomeUnknown else Blocked), r_reason := y,
        r_finishedAt := z, r_leaseUntil := None\<rparr>) L)))"
| fail_cancelled_step: "plain_event L k ty \<Longrightarrow> r \<in> set (lf_runs L) \<Longrightarrow> r_status r = CancelRequested \<Longrightarrow>
    life_step L (log_event k ty (release (\<lambda>s. s \<noteq> Done) (r_taskId r) x (put_run (r_id r)
      (\<lambda>q. q\<lparr>r_status := (if sent (log_keys (lf_log L)) (r_id r) then OutcomeUnknown else Stopped),
        r_reason := y, r_finishedAt := z, r_leaseUntil := None\<rparr>) L)))"
| gone_step: "lf_workers L = ks @ k # ls \<Longrightarrow> life_step L (L\<lparr>lf_workers := ks @ ls\<rparr>)"

definition life_init :: "life \<Rightarrow> bool" where
  "life_init L \<longleftrightarrow> lf_tasks L = [] \<and> lf_artifacts L = [] \<and> lf_calls L = 0 \<and> lf_runs L = []
     \<and> lf_log L = [] \<and> lf_workers L = []"

interpretation lifecycle: transition_system life_init life_step .

section \<open>Invariant\<close>

definition running_ids :: "work_task list \<Rightarrow> string set" where
  "running_ids ts = t_id ` {t \<in> set ts. t_status t = Running}"

definition bound_ids :: "work_run set \<Rightarrow> string set" where
  "bound_ids R = {i. \<exists>r\<in>R. active r \<and> r_taskId r = Some i}"

definition runs_ok :: "work_run set \<Rightarrow> string set \<Rightarrow> bool" where
  "runs_ok R K \<longleftrightarrow> inj_on r_id R \<and> inj_on r_taskId {r \<in> R. unreviewed r}
     \<and> (\<forall>r\<in>R. CHR '':'' \<notin> set (r_id r) \<and> (r_status r = Queued \<longleftrightarrow> r_fence r = 0)
          \<and> (r_status r = InProgress \<longrightarrow> r_fence r = 1)
          \<and> (r_status r \<in> {Queued, Stopped, Blocked} \<longrightarrow> \<not> sent K (r_id r))
          \<and> (r_kind r = PlanRun \<longleftrightarrow> r_taskId r = None))"

definition log_ok :: "(string \<times> string) list \<Rightarrow> nat \<Rightarrow> nat \<Rightarrow> work_run set \<Rightarrow> bool" where
  "log_ok es calls limit R \<longleftrightarrow> distinct (map fst es)
     \<and> calls = count_rows (\<lambda>e. snd e = ''model_dispatch'') es \<and> calls \<le> limit
     \<and> (\<forall>(k, ty)\<in>set es. (prefix ''tool:'' k \<longleftrightarrow> ty = ''model_dispatch'')
          \<and> (prefix ''tool:'' k \<longrightarrow> (\<exists>r\<in>R. k = tool_key (r_id r) 1)))"

definition workers_ok :: "worker list \<Rightarrow> work_run set \<Rightarrow> string set \<Rightarrow> bool" where
  "workers_ok ks R K \<longleftrightarrow> distinct (map (\<lambda>k. r_id (wk_run k)) ks)
     \<and> (\<forall>k\<in>set ks. r_fence (wk_run k) = 1 \<and> (\<not> wk_invoked k \<longrightarrow> \<not> sent K (r_id (wk_run k)))
          \<and> (\<exists>r\<in>R. same_run r (wk_run k) \<and> r_status r \<noteq> Queued))"

definition life_inv :: "life \<Rightarrow> bool" where
  "life_inv L \<longleftrightarrow> distinct (map t_id (lf_tasks L)) \<and> distinct (map r_id (lf_runs L))
     \<and> running_ids (lf_tasks L) = bound_ids (set (lf_runs L))
     \<and> runs_ok (set (lf_runs L)) (log_keys (lf_log L))
     \<and> log_ok (lf_log L) (lf_calls L) (lf_limit L) (set (lf_runs L))
     \<and> workers_ok (lf_workers L) (set (lf_runs L)) (log_keys (lf_log L))"

lemma life_inv_init: "life_init L \<Longrightarrow> life_inv L"
  by (auto simp: life_init_def life_inv_def running_ids_def bound_ids_def runs_ok_def log_ok_def
      workers_ok_def log_keys_def)

section \<open>Tasks\<close>

lemma map_id_task_upd [simp]: "(\<And>t. t_id (f t) = t_id t) \<Longrightarrow> map t_id (task_upd i f ts) = map t_id ts"
  by (cases i) (simp_all add: task_upd_def map_update_first)

lemma t_id_mark [simp]: "t_id (mark st x t) = t_id t"
  and t_status_mark [simp]: "t_status (mark st x t) = st"
  by (simp_all add: mark_def)

lemma running_ids_mark:
  assumes "distinct (map t_id ts)"
  shows "running_ids (task_upd (Some i) (mark st x) ts) =
    (if st = Running \<and> i \<in> t_id ` set ts then insert i (running_ids ts) else running_ids ts - {i})"
proof (cases "find (\<lambda>t. t_id t = i) ts")
  case None
  then show ?thesis
    by (auto simp: task_upd_def update_first_None running_ids_def find_None_iff)
next
  case (Some t)
  then have t: "t \<in> set ts" "t_id t = i" by (auto simp: find_Some_iff)
  have "set (task_upd (Some i) (mark st x) ts) = insert (mark st x t) (set ts - {t})"
    using update_first_distinct [OF assms Some] by (simp add: task_upd_def)
  moreover have "t_id u \<noteq> i \<longleftrightarrow> u \<noteq> t" if "u \<in> set ts" for u
    using assms that t by (metis distinct_map inj_on_def)
  then have "{u \<in> set ts. t_status u = Running \<and> t_id u \<noteq> i} = {u \<in> set ts - {t}. t_status u = Running}"
    by blast
  ultimately have "{u \<in> set (task_upd (Some i) (mark st x) ts). t_status u = Running} =
      {u \<in> set ts. t_status u = Running \<and> t_id u \<noteq> i} \<union> (if st = Running then {mark st x t} else {})"
    using t_status_mark [of st x t] by (auto simp del: t_status_mark)
  then have "running_ids (task_upd (Some i) (mark st x) ts) =
      t_id ` {u \<in> set ts. t_status u = Running \<and> t_id u \<noteq> i} \<union> (if st = Running then {i} else {})"
    using t(2) by (simp add: running_ids_def image_Un)
  moreover have "t_id ` {u \<in> set ts. t_status u = Running \<and> t_id u \<noteq> i} = running_ids ts - {i}"
    by (auto simp: running_ids_def)
  ultimately show ?thesis
    using t by auto
qed

lemma running_ids_notin: "i \<notin> running_ids ts \<Longrightarrow> running_ids ts - {i} = running_ids ts"
  by auto

text \<open>Releasing the task of a run removes it from the running ones.\<close>

lemma release_simps [simp]:
  "lf_artifacts (release P i x L) = lf_artifacts L" "lf_calls (release P i x L) = lf_calls L"
  "lf_limit (release P i x L) = lf_limit L" "lf_runs (release P i x L) = lf_runs L"
  "lf_log (release P i x L) = lf_log L" "lf_workers (release P i x L) = lf_workers L"
  by (auto simp: release_def put_task_def split: option.splits)

lemma release_ids [simp]: "map t_id (lf_tasks (release P i x L)) = map t_id (lf_tasks L)"
  by (auto simp: release_def put_task_def split: option.splits)

lemma release_running:
  assumes "distinct (map t_id (lf_tasks L))" and "P Running"
  shows "running_ids (lf_tasks (release P i x L)) = running_ids (lf_tasks L) - set_option i"
proof (cases i)
  case (Some s)
  show ?thesis
  proof (cases "find (\<lambda>t. t_id t = s) (lf_tasks L)")
    case None
    then have "release P i x L = L" and "s \<notin> running_ids (lf_tasks L)"
      by (simp_all add: Some release_def) (auto simp: running_ids_def find_None_iff)
    then show ?thesis by (simp add: Some)
  next
    case f: (Some t)
    then have t: "t \<in> set (lf_tasks L)" "t_id t = s" by (auto simp: find_Some_iff)
    show ?thesis
    proof (cases "P (t_status t)")
      case True
      then show ?thesis
        using running_ids_mark [OF assms(1), of s Todo x] f
        by (simp add: Some release_def put_task_def)
    next
      case False
      have "s \<notin> running_ids (lf_tasks L)"
      proof
        assume "s \<in> running_ids (lf_tasks L)"
        then obtain u where "u \<in> set (lf_tasks L)" "t_id u = s" "t_status u = Running"
          by (auto simp: running_ids_def)
        with t assms(1) have "u = t" by (metis distinct_map inj_on_def)
        with \<open>t_status u = Running\<close> False assms(2) show False by simp
      qed
      with f False show ?thesis
        by (simp add: Some release_def)
    qed
  qed
qed (simp add: release_def)

lemma plan_effect_running:
  assumes "plan_effect ts us"
  shows "running_ids us = running_ids ts"
proof -
  have "{t \<in> set us. t_status t = Running} = {t \<in> set ts. t_status t = Running}"
    using assms unfolding plan_effect_def by blast
  then show ?thesis by (simp add: running_ids_def)
qed

section \<open>Keys\<close>

lemma colon_split:
  assumes "a @ CHR '':'' # x = b @ CHR '':'' # y"
    and "CHR '':'' \<notin> set a" and "CHR '':'' \<notin> set b"
  shows "a = b \<and> x = y"
  using assms
proof (induction a arbitrary: b)
  case Nil
  then show ?case by (cases b) auto
next
  case (Cons c a)
  then show ?case by (cases b) auto
qed

lemma tool_key_prefix:
  assumes "CHR '':'' \<notin> set i" and "CHR '':'' \<notin> set j"
  shows "prefix (tool_prefix i) (tool_key j n) \<longleftrightarrow> i = j"
proof
  assume "prefix (tool_prefix i) (tool_key j n)"
  then obtain z where "i @ CHR '':'' # z = j @ CHR '':'' # show_nat n"
    by (auto simp: prefix_def tool_prefix_def tool_key_def)
  with colon_split assms show "i = j" by blast
qed (simp add: tool_key_def)

lemma tool_prefix_tool: "prefix (tool_prefix i) k \<Longrightarrow> prefix ''tool:'' k"
  by (auto simp: tool_prefix_def prefix_def)

lemma sent_insert: "sent (insert k K) i \<longleftrightarrow> sent K i \<or> prefix (tool_prefix i) k"
  by (auto simp: sent_def)

lemma sent_insert_plain: "\<not> prefix ''tool:'' k \<Longrightarrow> sent (insert k K) i \<longleftrightarrow> sent K i"
  using tool_prefix_tool by (auto simp: sent_insert)

lemma log_keys_append [simp]: "log_keys (es @ [(k, ty)]) = insert k (log_keys es)"
  by (simp add: log_keys_def)

section \<open>Runs, log and workers under the steps\<close>

lemma runs_replaced:
  assumes "distinct (map r_id rs)" and "r \<in> set rs"
  shows "set (update_rows (\<lambda>q. r_id q = r_id r) f rs) = insert (f r) (set rs - {r})"
proof -
  have "r_id q = r_id r \<longleftrightarrow> q = r" if "q \<in> set rs" for q
    using assms that by (metis distinct_map inj_on_def)
  then show ?thesis
    using assms(2) by (auto simp: set_update_rows)
qed

lemma runs_ok_keys: "\<not> prefix ''tool:'' k \<Longrightarrow> runs_ok R (insert k K) \<longleftrightarrow> runs_ok R K"
  by (simp add: runs_ok_def sent_insert_plain)

lemma workers_ok_keys: "\<not> prefix ''tool:'' k \<Longrightarrow> workers_ok ks R (insert k K) \<longleftrightarrow> workers_ok ks R K"
  by (simp add: workers_ok_def sent_insert_plain)

lemma log_ok_plain:
  assumes "log_ok es c l R" and "k \<notin> log_keys es" "\<not> prefix ''tool:'' k" "ty \<noteq> ''model_dispatch''"
  shows "log_ok (es @ [(k, ty)]) c l R"
  using assms by (auto simp: log_ok_def log_keys_def tbl_simps)

lemma log_event_inv: "life_inv L \<Longrightarrow> plain_event L k ty \<Longrightarrow> life_inv (log_event k ty L)"
  by (simp add: life_inv_def log_event_def plain_event_def runs_ok_keys workers_ok_keys log_ok_plain)

lemma log_ok_runs: "log_ok es c l R \<Longrightarrow> r_id ` R \<subseteq> r_id ` R' \<Longrightarrow> log_ok es c l R'"
  unfolding log_ok_def by (fastforce simp: image_subset_iff)

text \<open>The identity of a run does not change, and no review is taken back.\<close>

definition evolves :: "string set \<Rightarrow> work_run \<Rightarrow> work_run \<Rightarrow> bool" where
  "evolves K r r' \<longleftrightarrow> same_run r' r \<and> (unreviewed r' \<longrightarrow> unreviewed r) \<and> r_status r' \<noteq> Queued
     \<and> r_fence r' \<noteq> 0 \<and> (r_status r' = InProgress \<longrightarrow> r_fence r' = 1)
     \<and> (r_status r' \<in> {Stopped, Blocked} \<longrightarrow> \<not> sent K (r_id r))"

lemma runs_ok_replace:
  assumes "runs_ok R K" and "r \<in> R" and "evolves K r r'"
  shows "runs_ok (insert r' (R - {r})) K"
proof -
  have ids: "r_id r' = r_id r" "r_taskId r' = r_taskId r" "r_kind r' = r_kind r"
    using assms(3) by (auto simp: evolves_def same_run_def)
  have "inj_on r_id (insert r' (R - {r}))"
    using assms(1,2) ids(1) by (auto simp: runs_ok_def inj_on_def)
  moreover have "inj_on r_taskId {q \<in> insert r' (R - {r}). unreviewed q}"
    using assms ids(2) by (auto simp: runs_ok_def inj_on_def evolves_def)
  ultimately show ?thesis
    using assms ids unfolding runs_ok_def evolves_def by auto
qed

lemma workers_ok_replace:
  assumes "workers_ok ks R K" and "evolves K r r'"
  shows "workers_ok ks (insert r' (R - {r})) K"
proof -
  have "\<exists>q\<in>insert r' (R - {r}). same_run q (wk_run k) \<and> r_status q \<noteq> Queued" if "k \<in> set ks" for k
  proof -
    from assms(1) that obtain q where q: "q \<in> R" "same_run q (wk_run k)" "r_status q \<noteq> Queued"
      by (auto simp: workers_ok_def)
    show ?thesis
    proof (cases "q = r")
      case True
      then have "same_run r' (wk_run k)"
        using assms(2) q by (simp add: evolves_def same_run_def)
      then show ?thesis
        using assms(2) by (auto simp: evolves_def)
    qed (use q in auto)
  qed
  with assms(1) show ?thesis by (simp add: workers_ok_def)
qed

lemma workers_ok_append:
  "workers_ok (ks @ [k]) R K \<longleftrightarrow> workers_ok ks R K \<and> r_id (wk_run k) \<notin> (\<lambda>k. r_id (wk_run k)) ` set ks
     \<and> r_fence (wk_run k) = 1 \<and> (\<not> wk_invoked k \<longrightarrow> \<not> sent K (r_id (wk_run k)))
     \<and> (\<exists>r\<in>R. same_run r (wk_run k) \<and> r_status r \<noteq> Queued)"
  unfolding workers_ok_def by auto

lemma runs_ok_insert:
  assumes "runs_ok R K" and "r_id r \<notin> r_id ` R" "CHR '':'' \<notin> set (r_id r)" "r_status r = Queued"
    "r_fence r = 0" "\<not> sent K (r_id r)" "r_kind r = PlanRun \<longleftrightarrow> r_taskId r = None"
    and free: "\<And>q. q \<in> R \<Longrightarrow> unreviewed q \<Longrightarrow> r_taskId q \<noteq> r_taskId r"
  shows "runs_ok (insert r R) K"
proof -
  have ids: "inj_on r_id (insert r R)"
    using assms(1,2) by (auto simp: runs_ok_def)
  have "{q \<in> insert r R. unreviewed q} = insert r {q \<in> R. unreviewed q}"
    using assms(4) by (auto simp: unreviewed_def)
  moreover have "r_taskId r \<notin> r_taskId ` {q \<in> R. unreviewed q}"
    using free by fastforce
  ultimately have "inj_on r_taskId {q \<in> insert r R. unreviewed q}"
    using assms(1) by (auto simp add: runs_ok_def simp del: image_iff)
  with ids show ?thesis
    using assms(1,3-7) unfolding runs_ok_def by auto
qed

text \<open>A run that is not reviewed is the only one that can hold its task.\<close>

lemma bound_ids_replace:
  assumes "runs_ok R K" and "r \<in> R" and "unreviewed r" and "\<not> active r'"
  shows "bound_ids (insert r' (R - {r})) = bound_ids R - set_option (r_taskId r)"
proof -
  have "q = r" if "q \<in> R" "active q" "r_taskId q = r_taskId r" for q
    using assms(1-3) that by (auto simp: runs_ok_def inj_on_def active_def unreviewed_def)
  then show ?thesis
    using assms(4) by (fastforce simp: bound_ids_def)
qed

lemma unbound: "runs_ok R K \<Longrightarrow> r \<in> R \<Longrightarrow> unreviewed r \<Longrightarrow> \<not> active r \<Longrightarrow>
    bound_ids R - set_option (r_taskId r) = bound_ids R"
  using bound_ids_replace [of R K r r] by (simp add: insert_absorb)

lemma end_run_inv:
  assumes "life_inv L" and "r \<in> set (lf_runs L)" and "unreviewed r"
    and "evolves (log_keys (lf_log L)) r (f r)" and "\<not> active (f r)"
    and "\<And>q. r_id (f q) = r_id q" and "distinct (map t_id ts)"
    and "running_ids ts = running_ids (lf_tasks L) - set_option (r_taskId r)"
  shows "life_inv (L\<lparr>lf_runs := update_rows (\<lambda>q. r_id q = r_id r) f (lf_runs L), lf_tasks := ts,
    lf_artifacts := as\<rparr>)"
proof -
  let ?R = "set (lf_runs L)"
  have parts: "distinct (map r_id (lf_runs L))" "runs_ok ?R (log_keys (lf_log L))"
    "log_ok (lf_log L) (lf_calls L) (lf_limit L) ?R" "workers_ok (lf_workers L) ?R (log_keys (lf_log L))"
    "running_ids (lf_tasks L) = bound_ids ?R"
    using assms(1) by (auto simp: life_inv_def)
  have R: "set (update_rows (\<lambda>q. r_id q = r_id r) f (lf_runs L)) = insert (f r) (?R - {r})"
    using parts(1) assms(2) by (rule runs_replaced)
  have "r_id ` ?R \<subseteq> r_id ` insert (f r) (?R - {r})"
    using assms(6) by auto
  with parts(3) have log: "log_ok (lf_log L) (lf_calls L) (lf_limit L) (insert (f r) (?R - {r}))"
    by (rule log_ok_runs)
  show ?thesis
    using parts assms R log runs_ok_replace [OF parts(2) assms(2,4)]
      workers_ok_replace [OF parts(4) assms(4)] bound_ids_replace [OF parts(2) assms(2,3,5)]
    by (simp add: life_inv_def map_key_update)
qed

lemma end_run_step:
  assumes "life_inv L" and "plain_event L k ty" and "r \<in> set (lf_runs L)" and "unreviewed r"
    and "evolves (log_keys (lf_log L)) r (f r)" and "\<not> active (f r)"
    and "\<And>q. r_id (f q) = r_id q"
    and "lf_runs M = update_rows (\<lambda>q. r_id q = r_id r) f (lf_runs L)"
    and "distinct (map t_id (lf_tasks M))"
    and "running_ids (lf_tasks M) = running_ids (lf_tasks L) - set_option (r_taskId r)"
    and rest: "lf_calls M = lf_calls L" "lf_limit M = lf_limit L" "lf_log M = lf_log L"
      "lf_workers M = lf_workers L"
  shows "life_inv (log_event k ty M)"
proof (rule log_event_inv)
  have "life_inv (L\<lparr>lf_runs := lf_runs M, lf_tasks := lf_tasks M, lf_artifacts := lf_artifacts M\<rparr>)"
    unfolding assms(8) by (rule end_run_inv [OF assms(1,3-7) assms(9,10)])
  then show "life_inv M"
    using rest by (simp add: life_inv_def)
  show "plain_event M k ty"
    using assms(2) rest by (simp add: plain_event_def)
qed

lemma task_upd_running:
  assumes "distinct (map t_id ts)" and "st \<noteq> Running"
  shows "running_ids (task_upd i (mark st x) ts) = running_ids ts - set_option i"
  using running_ids_mark [OF assms(1)] assms(2) by (cases i) (auto simp: task_upd_def)

lemma release_shape: "release P i x M = M\<lparr>lf_tasks := lf_tasks (release P i x M)\<rparr>"
  by (auto simp: release_def put_task_def split: option.splits)

lemma life_inv_run:
  assumes "life_inv L" and "r \<in> set (lf_runs L)"
  shows "CHR '':'' \<notin> set (r_id r)" "r_status r = Queued \<longleftrightarrow> r_fence r = 0"
    "r_status r = InProgress \<Longrightarrow> r_fence r = 1"
    "r_status r \<in> {Queued, Stopped, Blocked} \<Longrightarrow> \<not> sent (log_keys (lf_log L)) (r_id r)"
    "r_kind r = PlanRun \<longleftrightarrow> r_taskId r = None"
  using assms by (auto simp: life_inv_def runs_ok_def)

lemma life_inv_distinct: "life_inv L \<Longrightarrow> distinct (map t_id (lf_tasks L))"
  by (simp add: life_inv_def)

lemma gated_worker:
  assumes "life_inv L" and "gated L r w"
  shows "same_run r (wk_run w)" "\<not> wk_invoked w \<Longrightarrow> \<not> sent (log_keys (lf_log L)) (r_id r)"
    "r \<in> set (lf_runs L)" "r_status r = InProgress"
proof -
  show r: "r \<in> set (lf_runs L)" "r_status r = InProgress"
    using assms(2) by (auto simp: gated_def)
  have inj: "inj_on r_id (set (lf_runs L))"
    using assms(1) by (simp add: life_inv_def runs_ok_def)
  obtain q where q: "q \<in> set (lf_runs L)" "same_run q (wk_run w)"
    using assms by (auto simp: gated_def life_inv_def workers_ok_def)
  then have "q = r"
    using inj r assms(2) by (auto simp: gated_def same_run_def inj_on_def)
  with q show "same_run r (wk_run w)" by simp
  show "\<not> sent (log_keys (lf_log L)) (r_id r)" if "\<not> wk_invoked w"
    using that assms by (auto simp: gated_def life_inv_def workers_ok_def)
qed

section \<open>Every step keeps the invariant\<close>

lemma dispatch_inv:
  assumes "life_inv L" and "plain_event L k ty" and "may_dispatch L task r"
  shows "life_inv (log_event k ty (put_task (map_option t_id task) Running x
      (L\<lparr>lf_runs := lf_runs L @ [r]\<rparr>)))"
proof (rule log_event_inv)
  let ?R = "set (lf_runs L)" and ?K = "log_keys (lf_log L)"
  let ?ts = "task_upd (map_option t_id task) (mark Running x) (lf_tasks L)"
  have r: "r_id r \<notin> r_id ` ?R" "CHR '':'' \<notin> set (r_id r)" "r_taskId r = map_option t_id task"
    "r_kind r = PlanRun \<longleftrightarrow> task = None" "r_status r = Queued" "r_fence r = 0"
    using assms(3) by (auto simp: may_dispatch_def split: option.splits)
  have parts: "distinct (map t_id (lf_tasks L))" "runs_ok ?R ?K"
    "log_ok (lf_log L) (lf_calls L) (lf_limit L) ?R" "workers_ok (lf_workers L) ?R ?K"
    "running_ids (lf_tasks L) = bound_ids ?R"
    using assms(1) by (auto simp: life_inv_def)
  have unsent: "\<not> sent ?K (r_id r)"
  proof
    assume "sent ?K (r_id r)"
    then obtain k' where k': "k' \<in> ?K" "prefix (tool_prefix (r_id r)) k'"
      by (auto simp: sent_def)
    then have "prefix ''tool:'' k'" by (blast dest: tool_prefix_tool)
    with k'(1) parts(3) obtain q where "q \<in> ?R" "k' = tool_key (r_id q) 1"
      by (fastforce simp: log_ok_def log_keys_def)
    with k'(2) r(1,2) tool_key_prefix [of "r_id r" "r_id q" 1] life_inv_run(1) [OF assms(1)]
    show False by auto
  qed
  have free: "r_taskId q \<noteq> r_taskId r" if "q \<in> ?R" "unreviewed q" for q
    using that assms(3) r(3) life_inv_run(5) [OF assms(1), of q]
    by (cases task) (auto simp: may_dispatch_def)
  have runs: "runs_ok (insert r ?R) ?K"
    using parts(2) r(1,2,5,6) unsent _ free by (rule runs_ok_insert) (simp add: r(3,4))
  have bound: "bound_ids (insert r ?R) = bound_ids ?R \<union> set_option (map_option t_id task)"
    using r(3,5) by (auto simp: bound_ids_def active_def)
  have running: "running_ids ?ts = running_ids (lf_tasks L) \<union> set_option (map_option t_id task)"
  proof (cases task)
    case (Some t)
    then have "t_id t \<in> t_id ` set (lf_tasks L)"
      using assms(3) by (auto simp: may_dispatch_def find_Some_iff)
    with running_ids_mark [OF parts(1), of "t_id t" Running x] Some show ?thesis by auto
  qed (simp add: task_upd_def)
  have "log_ok (lf_log L) (lf_calls L) (lf_limit L) (insert r ?R)"
    using parts(3) by (rule log_ok_runs) auto
  moreover have "workers_ok (lf_workers L) (insert r ?R) ?K"
    using parts(4) by (auto simp: workers_ok_def)
  ultimately show "life_inv (put_task (map_option t_id task) Running x (L\<lparr>lf_runs := lf_runs L @ [r]\<rparr>))"
    using parts r(1) runs bound running assms(1)
    by (simp add: life_inv_def put_task_def)
  show "plain_event (put_task (map_option t_id task) Running x (L\<lparr>lf_runs := lf_runs L @ [r]\<rparr>)) k ty"
    using assms(2) by (simp add: plain_event_def put_task_def)
qed

lemma claim_inv:
  assumes "life_inv L" and "r \<in> set (lf_runs L)" and "r_status r = Queued"
    and f: "f = (\<lambda>q. q\<lparr>r_status := InProgress, r_fence := r_fence q + 1, r_leaseUntil := y, r_startedAt := z\<rparr>)"
  shows "life_inv ((put_run (r_id r) f L)\<lparr>lf_workers := lf_workers L
      @ [\<lparr>wk_run = f r, wk_guarded = False, wk_invoked = False\<rparr>]\<rparr>)"
proof -
  let ?R = "set (lf_runs L)" and ?K = "log_keys (lf_log L)"
  have parts: "distinct (map r_id (lf_runs L))" "runs_ok ?R ?K"
    "log_ok (lf_log L) (lf_calls L) (lf_limit L) ?R" "workers_ok (lf_workers L) ?R ?K"
    "running_ids (lf_tasks L) = bound_ids ?R"
    using assms(1) by (auto simp: life_inv_def)
  have R: "set (update_rows (\<lambda>q. r_id q = r_id r) f (lf_runs L)) = insert (f r) (?R - {r})"
    using parts(1) assms(2) by (rule runs_replaced)
  have ev: "evolves ?K r (f r)"
    using life_inv_run(2) [OF assms(1,2)] assms(3)
    by (simp add: f evolves_def same_run_def unreviewed_def)
  have bound: "bound_ids (insert (f r) (?R - {r})) = bound_ids ?R"
    using assms(2,3) by (force simp: f bound_ids_def active_def)
  have fresh: "r_id (wk_run k) \<noteq> r_id r" if "k \<in> set (lf_workers L)" for k
  proof
    assume same: "r_id (wk_run k) = r_id r"
    from parts(4) that obtain q where "q \<in> ?R" "same_run q (wk_run k)" "r_status q \<noteq> Queued"
      by (auto simp: workers_ok_def)
    with same parts(2) assms(2,3) show False
      by (auto simp: runs_ok_def inj_on_def same_run_def)
  qed
  have nobody: "r_id r \<notin> (\<lambda>k. r_id (wk_run k)) ` set (lf_workers L)"
    using fresh by fastforce
  have "workers_ok (lf_workers L) (insert (f r) (?R - {r})) ?K"
    using parts(4) ev by (rule workers_ok_replace)
  then have workers: "workers_ok (lf_workers L @ [\<lparr>wk_run = f r, wk_guarded = False, wk_invoked = False\<rparr>])
      (insert (f r) (?R - {r})) ?K"
    using nobody life_inv_run(2,4) [OF assms(1,2)] assms(3)
    by (simp add: workers_ok_append f same_run_def)
  have "r_id ` ?R \<subseteq> r_id ` insert (f r) (?R - {r})"
    by (auto simp: f)
  with parts(3) have "log_ok (lf_log L) (lf_calls L) (lf_limit L) (insert (f r) (?R - {r}))"
    by (rule log_ok_runs)
  with parts R bound workers runs_ok_replace [OF parts(2) assms(2) ev] assms(1) show ?thesis
    by (simp add: life_inv_def put_run_def map_key_update f)
qed

lemma reserve_inv:
  assumes "life_inv L" and "lf_workers L = ks @ k # ls" and "gated L r k" and "\<not> wk_invoked k"
    and "lf_calls L < lf_limit L"
    and new: "tool_key (r_id (wk_run k)) (r_fence (wk_run k)) \<notin> log_keys (lf_log L)"
  shows "life_inv (log_event (tool_key (r_id (wk_run k)) (r_fence (wk_run k))) ''model_dispatch''
      (L\<lparr>lf_calls := lf_calls L + 1, lf_workers := ks @ k\<lparr>wk_invoked := True\<rparr> # ls\<rparr>))"
proof -
  let ?R = "set (lf_runs L)" and ?K = "log_keys (lf_log L)"
  let ?key = "tool_key (r_id (wk_run k)) (r_fence (wk_run k))"
  have parts: "runs_ok ?R ?K" "log_ok (lf_log L) (lf_calls L) (lf_limit L) ?R"
    "workers_ok (lf_workers L) ?R ?K"
    using assms(1) by (auto simp: life_inv_def)
  have r: "r \<in> ?R" "r_status r = InProgress" "r_id r = r_id (wk_run k)"
    using assms(3) by (auto simp: gated_def)
  have fence: "r_fence (wk_run k) = 1"
    using parts(3) assms(2) by (simp add: workers_ok_def)
  have nocolon: "CHR '':'' \<notin> set (r_id q)" if "q \<in> ?R" for q
    using life_inv_run(1) [OF assms(1) that] .
  have sent: "sent (insert ?key ?K) (r_id q) \<longleftrightarrow> sent ?K (r_id q) \<or> q = r" if "q \<in> ?R" for q
    using tool_key_prefix [OF nocolon [OF that] nocolon [OF r(1)]] parts(1) that r
    by (auto simp: sent_insert runs_ok_def inj_on_def)
  have "runs_ok ?R (insert ?key ?K)"
    using parts(1) r(2) sent by (auto simp: runs_ok_def)
  moreover have "log_ok (lf_log L @ [(?key, ''model_dispatch'')]) (lf_calls L + 1) (lf_limit L) ?R"
  proof -
    have "prefix ''tool:'' ?key"
      by (simp add: tool_key_def tool_prefix_def)
    moreover have "\<exists>q\<in>?R. ?key = tool_key (r_id q) 1"
      using r(1,3) fence by (intro bexI [of _ r]) simp_all
    ultimately show ?thesis
      using parts(2) new assms(5) by (auto simp: log_ok_def log_keys_def tbl_simps)
  qed
  moreover have "workers_ok (ks @ k\<lparr>wk_invoked := True\<rparr> # ls) ?R (insert ?key ?K)"
  proof -
    have other: "\<not> sent (insert ?key ?K) (r_id (wk_run w))"
      if w: "w \<in> set ks \<union> set ls" "\<not> wk_invoked w" for w
    proof -
      have "w \<in> set (lf_workers L)" using w assms(2) by auto
      then obtain q where q: "q \<in> ?R" "same_run q (wk_run w)" and no: "\<not> sent ?K (r_id (wk_run w))"
        using parts(3) w(2) by (auto simp: workers_ok_def)
      moreover have "r_id (wk_run w) \<noteq> r_id (wk_run k)"
        using parts(3) assms(2) w(1) by (auto simp: workers_ok_def image_iff)
      ultimately show ?thesis
        using sent [OF q(1)] r(3) by (auto simp: same_run_def)
    qed
    with parts(3) assms(2) show ?thesis
      by (auto simp: workers_ok_def)
  qed
  ultimately show ?thesis
    using assms(1) by (simp add: life_inv_def log_event_def)
qed

lemma cancel_inv:
  assumes "life_inv L" and "plain_event L k ty" and r: "r \<in> set (lf_runs L)" "active r"
  shows "life_inv (log_event k ty (put_task (r_taskId r) Todo x (put_run (r_id r)
      (\<lambda>q. q\<lparr>r_status := (if r_status r = Queued then Stopped else CancelRequested),
        r_fence := r_fence q + 1, r_reason := y\<rparr>) L)))"
proof (rule end_run_step [where f = "\<lambda>q. q\<lparr>r_status := (if r_status r = Queued then Stopped else CancelRequested),
        r_fence := r_fence q + 1, r_reason := y\<rparr>", OF assms(1-3)])
  show "evolves (log_keys (lf_log L)) r (r\<lparr>r_status := (if r_status r = Queued then Stopped
      else CancelRequested), r_fence := r_fence r + 1, r_reason := y\<rparr>)"
    using life_inv_run(4) [OF assms(1) r(1)] r(2)
    by (auto simp: evolves_def same_run_def unreviewed_def active_def)
  show "running_ids (lf_tasks (put_task (r_taskId r) Todo x (put_run (r_id r)
      (\<lambda>q. q\<lparr>r_status := (if r_status r = Queued then Stopped else CancelRequested),
        r_fence := r_fence q + 1, r_reason := y\<rparr>) L))) = running_ids (lf_tasks L) - set_option (r_taskId r)"
    using task_upd_running [OF life_inv_distinct [OF assms(1)], of Todo "r_taskId r" x]
    by (simp add: put_task_def put_run_def)
qed (use r life_inv_distinct [OF assms(1)] in
    \<open>auto simp: active_def unreviewed_def put_task_def put_run_def\<close>)

lemma resolve_inv:
  assumes "life_inv L" and "plain_event L k ty" and r: "r \<in> set (lf_runs L)" "r_status r = OutcomeUnknown"
  shows "life_inv (log_event k ty (put_run (r_id r) (\<lambda>q. q\<lparr>r_status := ReviewedUnknown, r_reason := y\<rparr>) L))"
proof (rule end_run_step [where f = "\<lambda>q. q\<lparr>r_status := ReviewedUnknown, r_reason := y\<rparr>", OF assms(1-3)])
  show "evolves (log_keys (lf_log L)) r (r\<lparr>r_status := ReviewedUnknown, r_reason := y\<rparr>)"
    using life_inv_run(2) [OF assms(1) r(1)] r(2) by (auto simp: evolves_def same_run_def unreviewed_def)
  show "running_ids (lf_tasks (put_run (r_id r) (\<lambda>q. q\<lparr>r_status := ReviewedUnknown, r_reason := y\<rparr>) L)) =
      running_ids (lf_tasks L) - set_option (r_taskId r)"
    using unbound [of "set (lf_runs L)" "log_keys (lf_log L)" r] assms(1) r
    by (auto simp: life_inv_def active_def unreviewed_def put_run_def)
qed (use r assms(1) in \<open>auto simp: active_def unreviewed_def put_run_def life_inv_def\<close>)

lemma release_step_inv:
  assumes "life_inv L" and "plain_event L k ty" and "r \<in> set (lf_runs L)" and "unreviewed r"
    and "evolves (log_keys (lf_log L)) r (f r)" and "\<not> active (f r)"
    and "\<And>q. r_id (f q) = r_id q" and "P Running"
  shows "life_inv (log_event k ty (release P (r_taskId r) x (put_run (r_id r) f L)))"
proof (rule end_run_step [where f = f, OF assms(1-7)])
  let ?M = "put_run (r_id r) f L"
  have d: "distinct (map t_id (lf_tasks ?M))"
    using life_inv_distinct [OF assms(1)] by (simp add: put_run_def)
  then show "distinct (map t_id (lf_tasks (release P (r_taskId r) x ?M)))"
    by simp
  show "running_ids (lf_tasks (release P (r_taskId r) x ?M)) =
      running_ids (lf_tasks L) - set_option (r_taskId r)"
    using release_running [where L = ?M and P = P and i = "r_taskId r" and x = x, OF d assms(8)]
    by (simp add: put_run_def)
qed (simp_all add: put_run_def)

lemma expire_inv:
  assumes "life_inv L" and "plain_event L k ty" and r: "r \<in> set (lf_runs L)"
      "r_status r \<in> {InProgress, CancelRequested}"
  shows "life_inv (log_event k ty (release (\<lambda>s. s = Running) (r_taskId r) x (put_run (r_id r)
      (\<lambda>q. q\<lparr>r_status := (if sent (log_keys (lf_log L)) (r_id r) then OutcomeUnknown else Stopped),
        r_reason := y, r_fence := r_fence q + 1, r_leaseUntil := None, r_finishedAt := z\<rparr>) L)))"
  by (rule release_step_inv [where f = "\<lambda>q. q\<lparr>r_status := (if sent (log_keys (lf_log L)) (r_id r) then OutcomeUnknown else Stopped),
        r_reason := y, r_fence := r_fence q + 1, r_leaseUntil := None, r_finishedAt := z\<rparr>", OF assms(1-3)])
    (use r in \<open>auto simp: evolves_def same_run_def unreviewed_def active_def\<close>)

lemma fail_cancelled_inv:
  assumes "life_inv L" and "plain_event L k ty" and r: "r \<in> set (lf_runs L)" "r_status r = CancelRequested"
  shows "life_inv (log_event k ty (release (\<lambda>s. s \<noteq> Done) (r_taskId r) x (put_run (r_id r)
      (\<lambda>q. q\<lparr>r_status := (if sent (log_keys (lf_log L)) (r_id r) then OutcomeUnknown else Stopped),
        r_reason := y, r_finishedAt := z, r_leaseUntil := None\<rparr>) L)))"
  by (rule release_step_inv [where f = "\<lambda>q. q\<lparr>r_status := (if sent (log_keys (lf_log L)) (r_id r) then OutcomeUnknown else Stopped),
        r_reason := y, r_finishedAt := z, r_leaseUntil := None\<rparr>", OF assms(1-3)])
    (use r life_inv_run(2) [OF assms(1) r(1)] in
      \<open>auto simp: evolves_def same_run_def unreviewed_def active_def\<close>)

lemma fail_running_inv:
  assumes "life_inv L" and "plain_event L k ty" and g: "gated L r w"
  shows "life_inv (log_event k ty (release (\<lambda>s. s \<noteq> Done) (r_taskId r) x (put_run (r_id r)
      (\<lambda>q. q\<lparr>r_status := (if wk_invoked w then OutcomeUnknown else Blocked), r_reason := y,
        r_finishedAt := z, r_leaseUntil := None\<rparr>) L)))"
  by (rule release_step_inv [where f = "\<lambda>q. q\<lparr>r_status := (if wk_invoked w then OutcomeUnknown else Blocked), r_reason := y,
        r_finishedAt := z, r_leaseUntil := None\<rparr>", OF assms(1,2) gated_worker(3) [OF assms(1) g]])
    (use gated_worker [OF assms(1) g] life_inv_run(2) [OF assms(1) gated_worker(3) [OF assms(1) g]] in
      \<open>auto simp: evolves_def same_run_def unreviewed_def active_def\<close>)

lemma finish_inv:
  assumes "life_inv L" and "plain_event L k ty" and g: "gated L r w"
    and "lf_runs M = update_rows (\<lambda>q. r_id q = r_id r)
      (\<lambda>q. q\<lparr>r_status := Succeeded, r_finishedAt := y, r_leaseUntil := None\<rparr>) (lf_runs L)"
    and "distinct (map t_id (lf_tasks M))"
    and "running_ids (lf_tasks M) = running_ids (lf_tasks L) - set_option (r_taskId r)"
    and "lf_calls M = lf_calls L" "lf_limit M = lf_limit L" "lf_log M = lf_log L" "lf_workers M = lf_workers L"
  shows "life_inv (log_event k ty M)"
  by (rule end_run_step [where f = "\<lambda>q. q\<lparr>r_status := Succeeded, r_finishedAt := y, r_leaseUntil := None\<rparr>",
        OF assms(1,2) gated_worker(3) [OF assms(1) g] _ _ _ _ assms(4-10)])
    (use gated_worker(4) [OF assms(1) g] life_inv_run(2) [OF assms(1) gated_worker(3) [OF assms(1) g]] in
      \<open>auto simp: evolves_def same_run_def active_def unreviewed_def\<close>)

lemma finish_plan_inv:
  assumes "life_inv L" and "plain_event L k ty" and g: "gated L r w" and "r_kind r = PlanRun"
    and "plan_effect (lf_tasks L) us"
  shows "life_inv (log_event k ty ((put_run (r_id r) (\<lambda>q. q\<lparr>r_status := Succeeded, r_finishedAt := y,
      r_leaseUntil := None\<rparr>) L)\<lparr>lf_tasks := us\<rparr>))"
proof (rule finish_inv [OF assms(1-3)])
  have "r_taskId r = None"
    using life_inv_run(5) [OF assms(1) gated_worker(3) [OF assms(1) g]] assms(4) by simp
  then show "running_ids (lf_tasks ((put_run (r_id r) (\<lambda>q. q\<lparr>r_status := Succeeded, r_finishedAt := y,
      r_leaseUntil := None\<rparr>) L)\<lparr>lf_tasks := us\<rparr>)) = running_ids (lf_tasks L) - set_option (r_taskId r)"
    using plan_effect_running [OF assms(5)] by simp
qed (use assms(5) in \<open>simp_all add: put_run_def plan_effect_def\<close>)

lemma finish_draft_inv:
  assumes "life_inv L" and "plain_event L k ty" and g: "gated L r w" and "r_taskId r = Some j"
  shows "life_inv (log_event k ty (put_task (Some j) Decision x (put_run (r_id r)
      (\<lambda>q. q\<lparr>r_status := Succeeded, r_finishedAt := y, r_leaseUntil := None\<rparr>)
      (L\<lparr>lf_artifacts := lf_artifacts L @ [a]\<rparr>))))"
  by (rule finish_inv [OF assms(1-3)])
    (use life_inv_distinct [OF assms(1)] assms(4) task_upd_running [OF life_inv_distinct [OF assms(1)],
        of Decision "Some j" x] in \<open>simp_all add: put_run_def put_task_def\<close>)

lemma deliver_inv:
  assumes "life_inv L" and "plain_event L k ty"
    and "find (\<lambda>t. t_id t = j) (lf_tasks L) = Some t" "t_status t \<noteq> Running"
  shows "life_inv (log_event k ty (put_task (Some j) Done x (L\<lparr>lf_artifacts := as\<rparr>)))"
proof (rule log_event_inv)
  have d: "distinct (map t_id (lf_tasks L))"
    using assms(1) by (rule life_inv_distinct)
  have "j \<notin> running_ids (lf_tasks L)"
  proof
    assume "j \<in> running_ids (lf_tasks L)"
    then obtain u where "u \<in> set (lf_tasks L)" "t_id u = j" "t_status u = Running"
      by (auto simp: running_ids_def)
    moreover have "t \<in> set (lf_tasks L)" "t_id t = j"
      using assms(3) by (auto simp: find_Some_iff)
    ultimately have "u = t" using d by (metis distinct_map inj_on_def)
    with \<open>t_status u = Running\<close> assms(4) show False by simp
  qed
  then have "running_ids (task_upd (Some j) (mark Done x) (lf_tasks L)) = running_ids (lf_tasks L)"
    using task_upd_running [OF d, of Done "Some j" x] by simp
  with assms(1) show "life_inv (put_task (Some j) Done x (L\<lparr>lf_artifacts := as\<rparr>))"
    by (simp add: life_inv_def put_task_def)
  show "plain_event (put_task (Some j) Done x (L\<lparr>lf_artifacts := as\<rparr>)) k ty"
    using assms(2) by (simp add: plain_event_def put_task_def)
qed

lemma life_step_inv:
  assumes "life_inv L" and "life_step L M"
  shows "life_inv M"
  using assms(2,1)
proof (induction rule: life_step.induct)
  case (verify_step L k ty i a y z)
  then show ?case
    by (intro log_event_inv) (auto simp: life_inv_def plain_event_def)
next
  case (guarded_step L ks k ls)
  then show ?case by (auto simp: life_inv_def workers_ok_def)
next
  case (gone_step L ks k ls)
  then show ?case by (auto simp: life_inv_def workers_ok_def)
next
  case note_step
  then show ?case by (intro log_event_inv)
next
  case dispatch_step
  then show ?case by (intro dispatch_inv)
next
  case cancel_step
  then show ?case by (intro cancel_inv)
next
  case resolve_step
  then show ?case by (intro resolve_inv)
next
  case claim_step
  then show ?case by (intro claim_inv)
next
  case reserve_step
  then show ?case by (intro reserve_inv)
next
  case finish_plan_step
  then show ?case by (intro finish_plan_inv)
next
  case finish_draft_step
  then show ?case by (intro finish_draft_inv)
next
  case expire_step
  then show ?case by (intro expire_inv)
next
  case fail_running_step
  then show ?case by (intro fail_running_inv)
next
  case fail_cancelled_step
  then show ?case by (intro fail_cancelled_inv)
next
  case (deliver_step L k ty i a j t x)
  then show ?case by (intro deliver_inv) auto
qed

lemma lifecycle_invariant: "lifecycle.reachable L \<Longrightarrow> life_inv L"
  by (rule lifecycle.invariantI) (auto intro: life_inv_init life_step_inv)

section \<open>What no step undoes\<close>

text \<open>The state machine of one execution.\<close>

inductive run_move :: "run_status \<Rightarrow> run_status \<Rightarrow> bool" where
  "run_move Queued InProgress"
| "run_move Queued Stopped"
| "run_move InProgress CancelRequested"
| "run_move InProgress Succeeded"
| "run_move InProgress Stopped"
| "run_move InProgress OutcomeUnknown"
| "run_move InProgress Blocked"
| "run_move CancelRequested Stopped"
| "run_move CancelRequested OutcomeUnknown"
| "run_move OutcomeUnknown ReviewedUnknown"

inductive_cases run_moveE: "run_move a b"
inductive_simps run_move_from: "run_move Stopped b" "run_move Blocked b" "run_move Succeeded b"
  "run_move ReviewedUnknown b" "run_move CancelRequested b" "run_move OutcomeUnknown b"

lemma put_run_moves:
  assumes "q \<in> set rs" and "\<And>q. same_run (f q) q" and "r \<in> set rs" and "distinct (map r_id rs)"
    and "run_move (r_status r) (r_status (f r))"
  shows "\<exists>q'\<in>set (update_rows (\<lambda>q. r_id q = r_id r) f rs).
    same_run q' q \<and> (q' = q \<or> run_move (r_status q) (r_status q'))"
  unfolding runs_replaced [OF assms(4,3)] using assms(1,2,5)
  by (cases "q = r") (auto simp: same_run_def)

lemmas step_shapes = log_event_def put_task_def put_run_def

lemma life_step_runs:
  assumes "life_step L M" and "life_inv L" and "q \<in> set (lf_runs L)"
  shows "\<exists>q'\<in>set (lf_runs M). same_run q' q \<and> (q' = q \<or> run_move (r_status q) (r_status q'))"
proof -
  have d: "distinct (map r_id (lf_runs L))" using assms(2) by (simp add: life_inv_def)
  have moved: "\<exists>q'\<in>set (lf_runs M). same_run q' q \<and> (q' = q \<or> run_move (r_status q) (r_status q'))"
    if "lf_runs M = update_rows (\<lambda>q. r_id q = r_id r) f (lf_runs L)" "r \<in> set (lf_runs L)"
      "\<And>q. same_run (f q) q" "run_move (r_status r) (r_status (f r))" for r f
    unfolding that(1) using put_run_moves [OF assms(3) that(3,2) d that(4)] .
  have kept: ?thesis if "q \<in> set (lf_runs M)"
    using that by (intro bexI [of _ q]) simp_all
  from assms(1) show ?thesis
  proof cases
    case (cancel_step k ty r x y)
    show ?thesis
      by (rule moved [where r = r and f = "\<lambda>q. q\<lparr>r_status := (if r_status r = Queued then Stopped else CancelRequested),
        r_fence := r_fence q + 1, r_reason := y\<rparr>"])
        (use cancel_step in \<open>auto simp: step_shapes same_run_def active_def gated_def
          intro: run_move.intros\<close>)
  next
    case (resolve_step k ty r y)
    show ?thesis
      by (rule moved [where r = r and f = "\<lambda>q. q\<lparr>r_status := ReviewedUnknown, r_reason := y\<rparr>"])
        (use resolve_step in \<open>auto simp: step_shapes same_run_def active_def gated_def
          intro: run_move.intros\<close>)
  next
    case (claim_step r f y z)
    show ?thesis
      by (rule moved [where r = r and f = "f"])
        (use claim_step in \<open>auto simp: step_shapes same_run_def active_def gated_def
          intro: run_move.intros\<close>)
  next
    case (finish_plan_step k ty r w us y)
    show ?thesis
      by (rule moved [where r = r and f = "\<lambda>q. q\<lparr>r_status := Succeeded, r_finishedAt := y, r_leaseUntil := None\<rparr>"])
        (use finish_plan_step in \<open>auto simp: step_shapes same_run_def active_def gated_def
          intro: run_move.intros\<close>)
  next
    case (finish_draft_step k ty r w j t a x y)
    show ?thesis
      by (rule moved [where r = r and f = "\<lambda>q. q\<lparr>r_status := Succeeded, r_finishedAt := y, r_leaseUntil := None\<rparr>"])
        (use finish_draft_step in \<open>auto simp: step_shapes same_run_def active_def gated_def
          intro: run_move.intros\<close>)
  next
    case (expire_step k ty r x z y)
    show ?thesis
      by (rule moved [where r = r and f = "\<lambda>q. q\<lparr>r_status := (if sent (log_keys (lf_log L)) (r_id r) then OutcomeUnknown
        else Stopped), r_reason := y, r_fence := r_fence q + 1, r_leaseUntil := None, r_finishedAt := z\<rparr>"])
        (use expire_step in \<open>auto simp: step_shapes same_run_def active_def gated_def
          intro: run_move.intros\<close>)
  next
    case (fail_running_step k ty r w x z y)
    show ?thesis
      by (rule moved [where r = r and f = "\<lambda>q. q\<lparr>r_status := (if wk_invoked w then OutcomeUnknown else Blocked),
        r_reason := y, r_finishedAt := z, r_leaseUntil := None\<rparr>"])
        (use fail_running_step in \<open>auto simp: step_shapes same_run_def active_def gated_def
          intro: run_move.intros\<close>)
  next
    case (fail_cancelled_step k ty r x z y)
    show ?thesis
      by (rule moved [where r = r and f = "\<lambda>q. q\<lparr>r_status := (if sent (log_keys (lf_log L)) (r_id r) then OutcomeUnknown
        else Stopped), r_reason := y, r_finishedAt := z, r_leaseUntil := None\<rparr>"])
        (use fail_cancelled_step in \<open>auto simp: step_shapes same_run_def active_def gated_def
          intro: run_move.intros\<close>)
  qed (rule kept, use assms(3) in \<open>simp add: step_shapes\<close>)+
qed

lemma update_first_keeps: "x \<in> set xs \<Longrightarrow> find p xs = Some y \<Longrightarrow> x \<noteq> y \<Longrightarrow> x \<in> set (update_first p f xs)"
  by (induction xs) (auto split: if_splits)

lemma task_upd_keeps:
  assumes "distinct (map t_id ts)" and "t \<in> set ts"
    and "\<And>u. find (\<lambda>t. Some (t_id t) = i) ts = Some u \<Longrightarrow> t \<noteq> u"
  shows "t \<in> set (task_upd i f ts)"
proof (cases i)
  case (Some s)
  show ?thesis
  proof (cases "find (\<lambda>t. t_id t = s) ts")
    case None
    then show ?thesis using assms(2) by (simp add: Some task_upd_def update_first_None)
  next
    case (Some u)
    then show ?thesis
      using assms(2,3) update_first_keeps [of t ts "\<lambda>t. t_id t = s" u f] \<open>i = Some s\<close>
      by (simp add: task_upd_def)
  qed
qed (use assms(2) in \<open>simp add: task_upd_def\<close>)

lemma release_keeps_done:
  assumes "distinct (map t_id (lf_tasks L))" and "t \<in> set (lf_tasks L)" and "\<not> P (t_status t)"
  shows "t \<in> set (lf_tasks (release P i x L))"
proof (cases "\<exists>s u. i = Some s \<and> find (\<lambda>t. t_id t = s) (lf_tasks L) = Some u \<and> P (t_status u)")
  case True
  then obtain s u where u: "i = Some s" "find (\<lambda>t. t_id t = s) (lf_tasks L) = Some u" "P (t_status u)"
    by blast
  with assms(3) have "t \<noteq> u" by auto
  with u have "t \<in> set (task_upd i (mark Todo x) (lf_tasks L))"
    by (intro task_upd_keeps [OF assms(1,2)]) auto
  with u show ?thesis by (simp add: release_def put_task_def)
next
  case False
  then have "release P i x L = L"
    by (auto simp: release_def split: option.splits)
  with assms(2) show ?thesis by simp
qed

text \<open>The task of an active run is running.\<close>

lemma active_task_running:
  assumes "life_inv L" and "r \<in> set (lf_runs L)" and "active r" and "r_taskId r = Some (t_id t)"
    and "t \<in> set (lf_tasks L)"
  shows "t_status t = Running"
proof -
  have "t_id t \<in> running_ids (lf_tasks L)"
    using assms(1-4) by (auto simp: life_inv_def bound_ids_def)
  then obtain u where "u \<in> set (lf_tasks L)" "t_status u = Running" "t_id u = t_id t"
    by (auto simp: running_ids_def)
  moreover from this assms(1,5) have "u = t"
    by (metis life_inv_distinct distinct_map inj_on_def)
  ultimately show ?thesis by simp
qed

lemma lf_tasks_log_event: "lf_tasks (log_event k ty L) = lf_tasks L"
  by (simp add: log_event_def)

lemma life_step_done:
  assumes "life_step L M" and "life_inv L" and "t \<in> set (lf_tasks L)" and "t_status t = Done"
  shows "t \<in> set (lf_tasks M)"
proof -
  have d: "distinct (map t_id (lf_tasks L))" using assms(2) by (rule life_inv_distinct)
  have keep: "t \<in> set (task_upd (Some (t_id u)) f (lf_tasks L))"
    if "find (\<lambda>v. t_id v = t_id u) (lf_tasks L) = Some u" "t_status u \<noteq> Done" for u f
    by (rule task_upd_keeps [OF d assms(3)]) (use that assms(4) in auto)
  have rel: "t \<in> set (lf_tasks (release P i x N))" if "lf_tasks N = lf_tasks L" "\<not> P Done" for P i x N
    using release_keeps_done [of N t P i x] d assms(3,4) that by simp
  from assms(1) show ?thesis
  proof cases
    case (dispatch_step k ty task r x)
    have "t \<in> set (task_upd (map_option t_id task) (mark Running x) (lf_tasks L))"
      using keep dispatch_step assms(3) by (cases task) (auto simp: may_dispatch_def task_upd_def)
    with dispatch_step show ?thesis by (simp add: step_shapes)
  next
    case (cancel_step k ty r x y)
    have "t \<in> set (task_upd (r_taskId r) (mark Todo x) (lf_tasks L))"
    proof (rule task_upd_keeps [OF d assms(3)])
      fix u assume u: "find (\<lambda>t. Some (t_id t) = r_taskId r) (lf_tasks L) = Some u"
      then have "u \<in> set (lf_tasks L)" "r_taskId r = Some (t_id u)"
        by (auto simp: find_Some_iff)
      then have "t_status u = Running"
        using active_task_running [OF assms(2)] cancel_step by blast
      with assms(4) show "t \<noteq> u" by auto
    qed
    with cancel_step show ?thesis
      by (simp add: log_event_def put_task_def put_run_def)
  next
    case (deliver_step k ty i a j u x)
    then have "t_id u = j" by (auto simp: find_Some_iff)
    with deliver_step keep [of u] show ?thesis by (auto simp: step_shapes)
  next
    case (finish_plan_step k ty r w us y)
    then have "\<forall>t\<in>set (lf_tasks L). t_status t \<in> {Done, Cancelled, Running} \<longrightarrow> t \<in> set us"
      unfolding plan_effect_def by blast
    with assms(3,4) have "t \<in> set us" by blast
    with finish_plan_step show ?thesis by (simp add: log_event_def)
  next
    case (finish_draft_step k ty r w j u a x y)
    then have "t_id u = j" by (auto simp: find_Some_iff)
    with finish_draft_step keep [of u] show ?thesis by (auto simp: step_shapes)
  next
    case (expire_step k ty r x z y)
    show ?thesis
      unfolding expire_step(1) lf_tasks_log_event by (rule rel) (simp_all add: put_run_def)
  next
    case (fail_running_step k ty r w x z y)
    show ?thesis
      unfolding fail_running_step(1) lf_tasks_log_event by (rule rel) (simp_all add: put_run_def)
  next
    case (fail_cancelled_step k ty r x z y)
    show ?thesis
      unfolding fail_cancelled_step(1) lf_tasks_log_event by (rule rel) (simp_all add: put_run_def)
  qed (use assms(3) in \<open>simp_all add: step_shapes\<close>)
qed

lemma life_step_delivered:
  assumes "life_step L M" and "a \<in> set (lf_artifacts L)" and "a_status a = Delivered"
  shows "a \<in> set (lf_artifacts M)"
proof -
  have keep: "a \<in> set (update_first p f (lf_artifacts L))"
    if "find p (lf_artifacts L) = Some b" "a_status b \<noteq> Delivered" for p f b
    using update_first_keeps [OF assms(2) that(1)] that(2) assms(3) by auto
  from assms(1) show ?thesis
  proof cases
    case (verify_step k ty i b y z)
    then show ?thesis using keep by (simp add: step_shapes)
  next
    case (deliver_step k ty i b j t x)
    then have "a \<in> set (update_first (\<lambda>a. a_id a = i) (\<lambda>a. a\<lparr>a_status := Delivered\<rparr>) (lf_artifacts L))"
      by (intro keep [of _ b]) auto
    with deliver_step show ?thesis by (simp add: step_shapes)
  qed (use assms(2) in \<open>simp_all add: step_shapes\<close>)
qed

lemma life_step_log: "life_step L M \<Longrightarrow> prefix (lf_log L) (lf_log M)"
  by (induction rule: life_step.induct) (auto simp: log_event_def put_task_def put_run_def)

end
