(* ===== verification/Work_System.thy ===== *)
theory Work_System
  imports Work_Lifecycle
begin

text \<open>
  The Work subsystem as one state machine: requests and processes interleave at their
  transactions, a process may die at any moment, and the tables of other components may
  change at any time. The machine refines the lifecycle of every single Work, which carries
  its invariant over to the code.
\<close>

section \<open>The machine\<close>

record work_sys =
  sys_db :: work_db
  sys_workers :: "worker list"

definition same_work_tables :: "work_db \<Rightarrow> work_db \<Rightarrow> bool" where
  "same_work_tables a b \<longleftrightarrow> db_works a = db_works b \<and> db_messages a = db_messages b
     \<and> db_events a = db_events b \<and> db_runs a = db_runs b"

inductive work_step :: "hash_env \<Rightarrow> work_sys \<Rightarrow> work_sys \<Rightarrow> bool" for h where
  sys_command: "is_uuid (rq_newId q) \<Longrightarrow>
    work_step h s (s\<lparr>sys_db := snd (command h q raw (sys_db s))\<rparr>)"
| sys_create: "is_uuid (rq_newId q) \<Longrightarrow>
    work_step h s (s\<lparr>sys_db := snd (create h q newWorkId cw (sys_db s))\<rparr>)"
| sys_expire: "\<exists>r\<in>set (db_runs (sys_db s)). same_run r run \<Longrightarrow> expire h now run (sys_db s) = Inr db \<Longrightarrow>
    work_step h s (s\<lparr>sys_db := db\<rparr>)"
| sys_claim: "claim now candidate (sys_db s) = (Some run, db) \<Longrightarrow>
    work_step h s \<lparr>sys_db = db, sys_workers = sys_workers s
      @ [\<lparr>wk_run = run, wk_guarded = False, wk_invoked = False\<rparr>]\<rparr>"
| sys_guard: "sys_workers s = ks @ k # ls \<Longrightarrow> guard h now (wk_run k) False (sys_db s) = Inr db \<Longrightarrow>
    work_step h s \<lparr>sys_db = db, sys_workers = ks @ k\<lparr>wk_guarded := True\<rparr> # ls\<rparr>"
| sys_reserve: "sys_workers s = ks @ k # ls \<Longrightarrow> wk_guarded k \<Longrightarrow> before_tool h now k (sys_db s) = Inr (k', db) \<Longrightarrow>
    work_step h s \<lparr>sys_db = db, sys_workers = ks @ k' # ls\<rparr>"
| sys_finish: "sys_workers s = ks @ k # ls \<Longrightarrow> wk_guarded k \<Longrightarrow>
    finish h now newArtifactId newMessageId (wk_run k) result (sys_db s) = Inr db \<Longrightarrow>
    work_step h s \<lparr>sys_db = db, sys_workers = ks @ ls\<rparr>"
| sys_fail: "sys_workers s = ks @ k # ls \<Longrightarrow>
    work_step h s \<lparr>sys_db = catch_failure h now k e (sys_db s), sys_workers = ks @ ls\<rparr>"
| sys_crash: "sys_workers s = ks @ k # ls \<Longrightarrow> work_step h s (s\<lparr>sys_workers := ks @ ls\<rparr>)"
| sys_world: "same_work_tables db (sys_db s) \<Longrightarrow> work_step h s (s\<lparr>sys_db := db\<rparr>)"

definition work_init :: "work_sys \<Rightarrow> bool" where
  "work_init s \<longleftrightarrow> db_works (sys_db s) = [] \<and> db_events (sys_db s) = [] \<and> db_runs (sys_db s) = []
     \<and> db_messages (sys_db s) = [] \<and> sys_workers s = []"

section \<open>The view of one Work\<close>

type_synonym work_id = "string \<times> string"

definition run_of :: "work_id \<Rightarrow> work_run \<Rightarrow> bool" where
  "run_of k r \<longleftrightarrow> (r_projectId r, r_workId r) = k"

definition event_of :: "work_id \<Rightarrow> event_row \<Rightarrow> bool" where
  "event_of k e \<longleftrightarrow> (e_projectId e, e_workId e) = k"

definition worker_of :: "work_id \<Rightarrow> worker \<Rightarrow> bool" where
  "worker_of k w \<longleftrightarrow> run_of k (wk_run w)"

definition stored :: "work_id \<Rightarrow> work_db \<Rightarrow> work_state option" where
  "stored k db = map_option w_state (find_unique work_key k (db_works db))"

definition log_of :: "work_id \<Rightarrow> work_db \<Rightarrow> (string \<times> string) list" where
  "log_of k db = map (\<lambda>e. (e_commandKey e, e_type e)) (filter (event_of k) (db_events db))"

definition state_view :: "work_state option \<Rightarrow> work_run list \<Rightarrow> (string \<times> string) list \<Rightarrow> worker list \<Rightarrow> life" where
  "state_view st rs es ks =
     \<lparr>lf_tasks = (case st of None \<Rightarrow> [] | Some s \<Rightarrow> s_tasks s),
      lf_artifacts = (case st of None \<Rightarrow> [] | Some s \<Rightarrow> s_artifacts s),
      lf_calls = (case st of None \<Rightarrow> 0 | Some s \<Rightarrow> s_modelCallsUsed s),
      lf_limit = (case st of None \<Rightarrow> 20 | Some s \<Rightarrow> s_modelCallLimit s),
      lf_runs = rs, lf_log = es, lf_workers = ks\<rparr>"

definition life_of :: "work_id \<Rightarrow> work_sys \<Rightarrow> life" where
  "life_of k s = state_view (stored k (sys_db s)) (filter (run_of k) (db_runs (sys_db s)))
     (log_of k (sys_db s)) (filter (worker_of k) (sys_workers s))"

section \<open>Stored states are parsed states\<close>

definition neat :: "work_state \<Rightarrow> bool" where
  "neat st \<longleftrightarrow> js_trim (s_title st) = s_title st \<and> js_trim (s_goal st) = s_goal st
     \<and> (\<forall>t\<in>set (s_tasks st). js_trim (t_title t) = t_title t \<and> js_trim (t_acceptance t) = t_acceptance t)
     \<and> (\<forall>a\<in>set (s_artifacts st). js_trim (a_content a) = a_content a)"

lemma neat_parsed:
  assumes "neat st" and "work_state_schema st = Inr u"
  shows "u = st"
proof -
  from assms(2) obtain ag ta ar where
    arr: "z_array work_agent_schema 0 16 (s_agents st) = Inr ag"
      "z_array work_task_schema 0 200 (s_tasks st) = Inr ta"
      "z_array work_artifact_schema 0 200 (s_artifacts st) = Inr ar"
    and u: "u = st\<lparr>s_title := js_trim (s_title st), s_goal := js_trim (s_goal st),
      s_agents := ag, s_tasks := ta, s_artifacts := ar\<rparr>"
    by (auto simp: work_state_schema_def res_simps)
  have "ag = s_agents st"
    using arr(1) by (rule z_array_same) (simp add: work_agent_schema_same)
  moreover have "ta = s_tasks st"
    using arr(2) assms(1) by (elim z_array_same) (auto simp: work_task_schema_def res_simps neat_def)
  moreover have "ar = s_artifacts st"
    using arr(3) assms(1) by (elim z_array_same) (auto simp: work_artifact_schema_def res_simps neat_def)
  ultimately show ?thesis
    using u assms(1) by (simp add: neat_def)
qed

lemma parsed_neat:
  assumes "work_state_schema st = Inr u"
  shows "neat u"
proof -
  have "js_trim (t_title y) = t_title y \<and> js_trim (t_acceptance y) = t_acceptance y"
    if "z_array work_task_schema lo hi xs = Inr ys" "y \<in> set ys" for lo hi xs ys y
    using that map_res_all [of work_task_schema xs ys y]
    by (auto simp: z_array_def work_task_schema_def res_simps split: if_splits)
  moreover have "js_trim (a_content y) = a_content y"
    if "z_array work_artifact_schema lo hi xs = Inr ys" "y \<in> set ys" for lo hi xs ys y
    using that map_res_all [of work_artifact_schema xs ys y]
    by (auto simp: z_array_def work_artifact_schema_def res_simps split: if_splits)
  ultimately show ?thesis
    using assms by (auto simp: neat_def work_state_schema_def res_simps)
qed

lemma update_first_all: "\<forall>x\<in>set xs. P x \<Longrightarrow> (\<And>x. P x \<Longrightarrow> P (f x)) \<Longrightarrow> \<forall>x\<in>set (update_first p f xs). P x"
  by (induction xs) auto

lemma neat_set_task:
  assumes "neat st" and "\<And>t. t_title (f t) = t_title t \<and> t_acceptance (f t) = t_acceptance t"
  shows "neat (set_task i f st)"
proof (cases i)
  case (Some s)
  have "\<forall>t\<in>set (update_first (\<lambda>t. t_id t = s) f (s_tasks st)).
      js_trim (t_title t) = t_title t \<and> js_trim (t_acceptance t) = t_acceptance t"
    by (rule update_first_all) (use assms in \<open>simp_all add: neat_def\<close>)
  with assms(1) show ?thesis by (simp add: Some neat_def set_task_def)
qed (use assms(1) in \<open>simp add: set_task_def\<close>)

lemma neat_set_artifact:
  assumes "neat st" and "\<And>a. a_content (f a) = a_content a"
  shows "neat (set_artifact i f st)"
proof -
  have "\<forall>a\<in>set (update_first (\<lambda>a. a_id a = i) f (s_artifacts st)). js_trim (a_content a) = a_content a"
    by (rule update_first_all) (use assms in \<open>simp_all add: neat_def\<close>)
  with assms(1) show ?thesis by (simp add: neat_def set_artifact_def)
qed

section \<open>The invariant of the tables\<close>

definition tables_ok :: "work_db \<Rightarrow> bool" where
  "tables_ok db \<longleftrightarrow> distinct (map work_key (db_works db)) \<and> distinct (map r_id (db_runs db))
     \<and> (\<forall>w\<in>set (db_works db). neat (w_state w)
          \<and> map e_sequence (filter (event_of (work_key w)) (db_events db)) = [1..<Suc (w_revision w)])
     \<and> (\<forall>e\<in>set (db_events db). (e_projectId e, e_workId e) \<in> work_key ` set (db_works db))"

lemma tables_ok_row:
  assumes "tables_ok db" and "find_unique work_key k (db_works db) = Some row"
  shows "neat (w_state row)" "work_key row = k"
    "map e_sequence (filter (event_of k) (db_events db)) = [1..<Suc (w_revision row)]"
    "work_state_schema (w_state row) = Inr st \<Longrightarrow> st = w_state row"
  using assms find_unique_in [OF assms(2)] find_unique_key [OF assms(2)] neat_parsed
  by (auto simp: tables_ok_def)

section \<open>An event of a Work\<close>

text \<open>
  What a handler has done when it appends its event: it changed messages and runs, and holds
  the row and a state built from the stored one.
\<close>

lemma event_refines:
  assumes app: "appendWorkEvent now row st1 inp db1 = Inr db'" and ok: "tables_ok db"
    and row: "find_unique work_key k (db_works db) = Some row"
    and same: "db_works db1 = db_works db" "db_events db1 = db_events db"
    and neat: "neat st1" and runs: "distinct (map r_id (db_runs db1))"
  shows "tables_ok db'" and "in_key inp \<notin> log_keys (log_of k db)"
    and "stored k db' = Some st1" and "log_of k db' = log_of k db @ [(in_key inp, in_type inp)]"
    and "db_runs db' = db_runs db1" and "db_messages db' = db_messages db1"
    and "k' \<noteq> k \<Longrightarrow> stored k' db' = stored k' db \<and> log_of k' db' = log_of k' db"
proof -
  have key: "work_key row = k" "(w_projectId row, w_id row) = k"
    using find_unique_key [OF row] by (auto simp: work_key_def)
  obtain parsed where p: "work_state_schema st1 = Inr parsed"
    and db': "db' = db1\<lparr>db_works := update_rows (\<lambda>w. work_key w = work_key row)
        (\<lambda>w. w\<lparr>w_revision := w_revision row + 1, w_state := parsed, w_updatedAt := now\<rparr>) (db_works db1),
      db_events := db_events db1 @ [\<lparr>e_projectId = w_projectId row, e_workId = w_id row,
        e_sequence = w_revision row + 1, e_commandKey = in_key inp, e_commandHash = in_hash inp,
        e_type = in_type inp, e_summary = in_summary inp, e_actorId = in_actorId inp,
        e_details = in_details inp, e_createdAt = now\<rparr>]\<rparr>"
    and fresh: "(w_projectId row, w_id row, in_key inp) \<notin> command_key ` set (db_events db1)"
    using app by (rule appendWorkEvent_Inr)
  have st1: "parsed = st1" using neat p by (rule neat_parsed)
  show "in_key inp \<notin> log_keys (log_of k db)"
    using fresh key(2) same(2)
    by (auto simp: log_keys_def log_of_def event_of_def command_key_def image_iff)
  have look: "find_unique work_key j (db_works db') =
      (case find_unique work_key j (db_works db) of None \<Rightarrow> None
       | Some w \<Rightarrow> Some (if j = k then w\<lparr>w_revision := w_revision row + 1, w_state := st1,
           w_updatedAt := now\<rparr> else w))" for j
    using work_lookup_after_event [OF app p, of j] unfolding st1 same(1) key(1) .
  show "stored k db' = Some st1"
    using look [of k] row by (simp add: stored_def)
  show "log_of k db' = log_of k db @ [(in_key inp, in_type inp)]"
    using key(2) same(2) by (auto simp: db' log_of_def event_of_def)
  show "stored k' db' = stored k' db \<and> log_of k' db' = log_of k' db" if "k' \<noteq> k"
    using look [of k'] that key(2) same(2)
    by (auto simp: stored_def db' log_of_def event_of_def split: option.splits)
  show "db_runs db' = db_runs db1" "db_messages db' = db_messages db1"
    by (simp_all add: db')
  have works: "db_works db' = update_rows (\<lambda>w. work_key w = k)
        (\<lambda>w. w\<lparr>w_revision := w_revision row + 1, w_state := st1, w_updatedAt := now\<rparr>) (db_works db)"
    using key(1) st1 same(1) by (simp add: db')
  have keys: "map work_key (db_works db') = map work_key (db_works db)"
    unfolding works by (rule map_key_update) (simp add: work_key_def)
  have evs: "filter (event_of j) (db_events db') = filter (event_of j) (db_events db)
      @ (if j = k then [\<lparr>e_projectId = w_projectId row, e_workId = w_id row,
        e_sequence = w_revision row + 1, e_commandKey = in_key inp, e_commandHash = in_hash inp,
        e_type = in_type inp, e_summary = in_summary inp, e_actorId = in_actorId inp,
        e_details = in_details inp, e_createdAt = now\<rparr>] else [])" for j
    using key(2) same(2) by (auto simp: db' event_of_def)
  have "neat (w_state w) \<and> map e_sequence (filter (event_of (work_key w)) (db_events db')) =
      [1..<Suc (w_revision w)]" if "w \<in> set (db_works db')" for w
  proof -
    from that obtain v where v: "v \<in> set (db_works db)" and w: "w = (if work_key v = k
        then v\<lparr>w_revision := w_revision row + 1, w_state := st1, w_updatedAt := now\<rparr> else v)"
      by (auto simp: works set_update_rows)
    have wk: "work_key w = work_key v" by (auto simp: w work_key_def)
    show ?thesis
    proof (cases "work_key v = k")
      case True
      then show ?thesis
        using tables_ok_row(3) [OF ok row] neat evs [of k] w wk by simp
    next
      case False
      then show ?thesis
        using ok v w evs [of "work_key v"] by (simp add: tables_ok_def)
    qed
  qed
  moreover have "(e_projectId e, e_workId e) \<in> work_key ` set (db_works db')" if "e \<in> set (db_events db')" for e
  proof -
    have "work_key ` set (db_works db') = work_key ` set (db_works db)"
      using keys by (metis set_map)
    moreover have "k \<in> work_key ` set (db_works db)"
      using find_unique_in [OF row] key(1) by blast
    ultimately show ?thesis
      using that ok same(2) key(2) by (auto simp: db' tables_ok_def)
  qed
  ultimately show "tables_ok db'"
    using ok keys runs unfolding tables_ok_def by (simp add: db')
qed

section \<open>The branches of a command refine the lifecycle\<close>

definition sv :: "work_id \<Rightarrow> work_state \<Rightarrow> work_db \<Rightarrow> (string \<times> string) list \<Rightarrow> worker list \<Rightarrow> life" where
  "sv k st db es ks = state_view (Some st) (filter (run_of k) (db_runs db)) es ks"

lemma sv_simps [simp]:
  "lf_tasks (sv k st db es ks) = s_tasks st" "lf_artifacts (sv k st db es ks) = s_artifacts st"
  "lf_calls (sv k st db es ks) = s_modelCallsUsed st" "lf_limit (sv k st db es ks) = s_modelCallLimit st"
  "lf_runs (sv k st db es ks) = filter (run_of k) (db_runs db)" "lf_log (sv k st db es ks) = es"
  "lf_workers (sv k st db es ks) = ks"
  by (simp_all add: sv_def state_view_def)

lemma life_eqI:
  fixes L M :: life
  assumes "lf_tasks L = lf_tasks M" "lf_artifacts L = lf_artifacts M" "lf_calls L = lf_calls M"
    "lf_limit L = lf_limit M" "lf_runs L = lf_runs M" "lf_log L = lf_log M" "lf_workers L = lf_workers M"
  shows "L = M"
  using assms by (cases L, cases M) simp

definition same_rows :: "work_id \<Rightarrow> work_db \<Rightarrow> work_db \<Rightarrow> bool" where
  "same_rows k db db1 \<longleftrightarrow> db_works db1 = db_works db \<and> db_events db1 = db_events db
     \<and> distinct (map r_id (db_runs db1))
     \<and> runs_extend (db_runs db) (db_runs db1)
     \<and> (\<forall>k'. k' \<noteq> k \<longrightarrow> filter (run_of k') (db_runs db1) = filter (run_of k') (db_runs db))"

definition branch_ok :: "work_id \<Rightarrow> work_db \<Rightarrow> work_state \<Rightarrow> work_db \<Rightarrow> work_state \<Rightarrow> bool" where
  "branch_ok k db st db1 st1 \<longleftrightarrow> same_rows k db db1 \<and> neat st1
     \<and> (\<forall>es ks key ty. plain_event (sv k st db es ks) key ty \<longrightarrow>
          life_step (sv k st db es ks) (log_event key ty (sv k st1 db1 es ks)))"

lemma same_rows_refl: "distinct (map r_id (db_runs db)) \<Longrightarrow> db_works db1 = db_works db \<Longrightarrow>
    db_events db1 = db_events db \<Longrightarrow> db_runs db1 = db_runs db \<Longrightarrow> same_rows k db db1"
  by (auto simp: same_rows_def)

lemma branch_note:
  assumes "distinct (map r_id (db_runs db))" "neat st1" "db_works db1 = db_works db"
    "db_events db1 = db_events db" "db_runs db1 = db_runs db" "s_tasks st1 = s_tasks st"
    "s_artifacts st1 = s_artifacts st" "s_modelCallsUsed st1 = s_modelCallsUsed st"
    "s_modelCallLimit st1 = s_modelCallLimit st"
  shows "branch_ok k db st db1 st1"
proof -
  have "sv k st1 db1 es ks = sv k st db es ks" for es ks
    by (rule life_eqI) (simp_all add: assms)
  then show ?thesis
    using assms(1-5) by (auto simp: branch_ok_def same_rows_refl intro: note_step)
qed

lemma update_run_view:
  assumes "distinct (map r_id (db_runs db))" and "r \<in> set (db_runs db)" and "run_of k r"
    and "\<And>q. same_run (f q) q"
  shows "filter (run_of k) (db_runs (update_run (r_id r) f db)) =
      update_rows (\<lambda>q. r_id q = r_id r) f (filter (run_of k) (db_runs db))"
    and "same_rows k db (update_run (r_id r) f db)"
proof -
  have kept: "run_of j (f q) = run_of j q" for j q
    using assms(4) [of q] by (simp add: run_of_def same_run_def)
  show "filter (run_of k) (db_runs (update_run (r_id r) f db)) =
      update_rows (\<lambda>q. r_id q = r_id r) f (filter (run_of k) (db_runs db))"
    unfolding update_run_def update_rows_def using kept
    by (induction "db_runs db" arbitrary: db) (auto simp: filter_map comp_def if_distrib)
  have "filter (run_of j) (update_rows (\<lambda>q. r_id q = r_id r) f rs) = filter (run_of j) rs"
    if "j \<noteq> k" "set rs \<subseteq> set (db_runs db)" for j rs
    using that(2)
  proof (induction rs)
    case (Cons q rs)
    have "r_id q = r_id r \<Longrightarrow> \<not> run_of j q"
      using Cons.prems assms(1-3) that(1) by (auto simp: run_of_def distinct_map inj_on_def)
    with Cons kept show ?case by (auto simp: update_rows_def)
  qed (simp add: update_rows_def)
  moreover have "map r_id (update_rows (\<lambda>q. r_id q = r_id r) f (db_runs db)) = map r_id (db_runs db)"
    using assms(4) by (intro map_key_update) (simp add: same_run_def)
  moreover have "runs_extend (db_runs db) (update_rows (\<lambda>q. r_id q = r_id r) f (db_runs db))"
    using assms(4) by (rule runs_extend_update)
  ultimately show "same_rows k db (update_run (r_id r) f db)"
    using assms(1) by (simp add: same_rows_def update_run_def)
qed

lemma set_task_simps [simp]:
  "s_tasks (set_task i f st) = task_upd i f (s_tasks st)" "s_artifacts (set_task i f st) = s_artifacts st"
  "s_modelCallsUsed (set_task i f st) = s_modelCallsUsed st"
  "s_modelCallLimit (set_task i f st) = s_modelCallLimit st"
  by (simp_all add: set_task_def task_upd_def split: option.splits)

lemma mark_fun: "(\<lambda>t. t\<lparr>t_status := s, t_reason := x\<rparr>) = mark s x"
  by (simp add: mark_def fun_eq_iff)

lemma neat_mark: "neat st \<Longrightarrow> neat (set_task i (mark s x) st)"
  by (rule neat_set_task) (simp_all add: mark_def)

lemma find_run_Some:
  "find_run db p w i = Some r \<Longrightarrow> r \<in> set (db_runs db) \<and> r_id r = i \<and> run_of (p, w) r"
  by (auto simp: find_run_def find_Some_iff run_of_def)

lemma uuid_no_colon:
  assumes "is_uuid s"
  shows "CHR '':'' \<notin> set s"
proof
  assume "CHR '':'' \<in> set s"
  then obtain i where "i < length s" "s ! i = CHR '':''" by (auto simp: in_set_conv_nth)
  moreover have "length s = 36" "\<forall>i<36. if i \<in> {8, 13, 18, 23} then s ! i = CHR ''-'' else is_hex (s ! i)"
    using assms by (auto simp: is_uuid_def uuid_shape_def)
  ultimately show False by (auto simp: is_hex_def split: if_splits)
qed

lemma uuid_not_tool:
  assumes "is_uuid s"
  shows "\<not> prefix ''tool:'' s"
proof
  assume "prefix ''tool:'' s"
  then have "CHR '':'' \<in> set s" by (auto simp: prefix_def)
  with uuid_no_colon [OF assms] show False ..
qed

lemma cancel_branch:
  assumes "cancel_action db p w st i = Inr (db1, st1, summary)"
    and "distinct (map r_id (db_runs db))" and "neat st"
  shows "branch_ok (p, w) db st db1 st1"
proof -
  from assms(1) obtain r where r: "find_run db p w i = Some r" "r_status r \<in> {Queued, InProgress}"
    and db1: "db1 = update_run (r_id r) (\<lambda>q. q\<lparr>r_status := (if r_status r = Queued then Stopped
        else CancelRequested), r_fence := r_fence q + 1, r_reason := Some txt_r_cancel_run\<rparr>) db"
    and st1: "st1 = set_task (r_taskId r) (mark Todo txt_r_cancel_task) st"
    by (auto simp: cancel_action_def res_simps mark_fun split: option.splits)
  have mem: "r \<in> set (db_runs db)" "run_of (p, w) r"
    using find_run_Some [OF r(1)] by auto
  note view = update_run_view [OF assms(2) mem, of "\<lambda>q. q\<lparr>r_status := (if r_status r = Queued then Stopped
        else CancelRequested), r_fence := r_fence q + 1, r_reason := Some txt_r_cancel_run\<rparr>", folded db1]
  have "life_step (sv (p, w) st db es ks) (log_event key ty (sv (p, w) st1 db1 es ks))"
    if "plain_event (sv (p, w) st db es ks) key ty" for es ks key ty
  proof -
    have "sv (p, w) st1 db1 es ks = put_task (r_taskId r) Todo txt_r_cancel_task (put_run (r_id r)
      (\<lambda>q. q\<lparr>r_status := (if r_status r = Queued then Stopped else CancelRequested),
        r_fence := r_fence q + 1, r_reason := Some txt_r_cancel_run\<rparr>) (sv (p, w) st db es ks))"
      using view(1) by (intro life_eqI) (simp_all add: put_task_def put_run_def st1)
    then show ?thesis
      using cancel_step [OF that, of r] mem r(2) by (simp add: active_def)
  qed
  then show ?thesis
    using view(2) neat_mark [OF assms(3)] by (simp add: branch_ok_def st1)
qed

lemma resolve_branch:
  assumes "resolve_action db p w u st i ev = Inr (db1, st1, summary)"
    and "distinct (map r_id (db_runs db))" and "neat st"
  shows "branch_ok (p, w) db st db1 st1"
proof -
  from assms(1) obtain r where r: "find_run db p w i = Some r" "r_status r = OutcomeUnknown"
    and db1: "db1 = update_run (r_id r) (\<lambda>q. q\<lparr>r_status := ReviewedUnknown, r_reason := Some ev\<rparr>) db"
    and st1: "st1 = st"
    by (auto simp: resolve_action_def res_simps split: option.splits)
  have mem: "r \<in> set (db_runs db)" "run_of (p, w) r"
    using find_run_Some [OF r(1)] by auto
  note view = update_run_view [OF assms(2) mem, of "\<lambda>q. q\<lparr>r_status := ReviewedUnknown, r_reason := Some ev\<rparr>",
      folded db1]
  have "life_step (sv (p, w) st db es ks) (log_event key ty (sv (p, w) st1 db1 es ks))"
    if "plain_event (sv (p, w) st db es ks) key ty" for es ks key ty
  proof -
    have "sv (p, w) st1 db1 es ks = put_run (r_id r)
        (\<lambda>q. q\<lparr>r_status := ReviewedUnknown, r_reason := Some ev\<rparr>) (sv (p, w) st db es ks)"
      using view(1) by (intro life_eqI) (simp_all add: put_run_def st1)
    then show ?thesis
      using resolve_step [OF that, of r] mem r(2) by simp
  qed
  then show ?thesis
    using view(2) assms(3) by (simp add: branch_ok_def st1)
qed

lemma reviewable_Inr:
  assumes "reviewable h st i = Inr a"
  obtains t j where "find (\<lambda>a. a_id a = i) (s_artifacts st) = Some a" "a_status a \<noteq> Delivered"
    "a_taskId a = Some j" "find (\<lambda>t. t_id t = j) (s_tasks st) = Some t"
    "t_status t \<notin> {Running, Done, Cancelled}" "task_scope_hash h t = Inr (a_taskScopeHash a)"
    "\<forall>b\<in>set (s_artifacts st). a_taskId b = a_taskId a \<longrightarrow> a_version b \<le> a_version a" "a_id a = i"
proof -
  from assms obtain t where a: "find (\<lambda>a. a_id a = i) (s_artifacts st) = Some a" "a_status a \<noteq> Delivered"
    and t: "find_task_opt st (a_taskId a) = Some t" "t_status t \<notin> {Running, Done, Cancelled}"
    and scope: "task_scope_hash h t = Inr (a_taskScopeHash a)"
    and newest: "\<not> list_ex (\<lambda>b. a_taskId b = a_taskId a \<and> a_version a < a_version b) (s_artifacts st)"
    by (auto simp: reviewable_def res_simps split: option.splits)
  have newest': "\<forall>b\<in>set (s_artifacts st). a_taskId b = a_taskId a \<longrightarrow> a_version b \<le> a_version a"
    using newest by (auto simp: list_ex_iff)
  from t(1) obtain j where "a_taskId a = Some j" "find (\<lambda>t. t_id t = j) (s_tasks st) = Some t"
    by (auto simp: find_task_opt_def find_task_def split: option.splits)
  moreover have "a_id a = i" using a(1) by (auto simp: find_Some_iff)
  ultimately show ?thesis using that a t(2) scope newest' by blast
qed

lemma verify_branch:
  assumes "verify_action h db u st i ev = Inr (db1, st1, summary)"
    and "distinct (map r_id (db_runs db))" and "neat st"
  shows "branch_ok k db st db1 st1"
proof -
  let ?f = "\<lambda>a. a\<lparr>a_status := Verified, a_evidence := ev, a_verifiedBy := Some u\<rparr>"
  from assms(1) obtain a where a: "reviewable h st i = Inr a" and db1: "db1 = db"
    and st1: "st1 = set_artifact (a_id a) ?f st"
    by (auto simp: verify_action_def res_simps)
  from a obtain fa: "find (\<lambda>b. a_id b = a_id a) (s_artifacts st) = Some a" "a_status a \<noteq> Delivered"
    by (elim reviewable_Inr) simp
  have "life_step (sv k st db es ks) (log_event key ty (sv k st1 db1 es ks))"
    if "plain_event (sv k st db es ks) key ty" for es ks key ty
  proof -
    have "sv k st1 db1 es ks = (sv k st db es ks)\<lparr>lf_artifacts := update_first (\<lambda>b. a_id b = a_id a) ?f
        (lf_artifacts (sv k st db es ks))\<rparr>"
      by (intro life_eqI) (simp_all add: st1 db1 set_artifact_def)
    then show ?thesis
      using verify_step [OF that, of "a_id a" a] fa by simp
  qed
  moreover have "neat st1"
    unfolding st1 by (rule neat_set_artifact [OF assms(3)]) simp
  ultimately show ?thesis
    using same_rows_refl [OF assms(2)] by (simp add: branch_ok_def db1)
qed

lemma deliver_branch:
  assumes "deliver_action h db st i = Inr (db1, st1, summary)"
    and "distinct (map r_id (db_runs db))" and "neat st"
  shows "branch_ok k db st db1 st1"
proof -
  let ?f = "\<lambda>a. a\<lparr>a_status := Delivered\<rparr>"
  from assms(1) obtain a where a: "reviewable h st i = Inr a" "a_status a = Verified" and db1: "db1 = db"
    and st1: "st1 = set_task (a_taskId a) (mark Done txt_r_delivered) (set_artifact (a_id a) ?f st)"
    by (auto simp: deliver_action_def res_simps mark_fun)
  from a(1) obtain t j where fa: "find (\<lambda>b. a_id b = a_id a) (s_artifacts st) = Some a"
    and j: "a_taskId a = Some j" "find (\<lambda>t. t_id t = j) (s_tasks st) = Some t"
      "t_status t \<notin> {Running, Done, Cancelled}"
    by (elim reviewable_Inr) simp
  have "life_step (sv k st db es ks) (log_event key ty (sv k st1 db1 es ks))"
    if "plain_event (sv k st db es ks) key ty" for es ks key ty
  proof -
    have "sv k st1 db1 es ks = put_task (Some j) Done txt_r_delivered ((sv k st db es ks)\<lparr>lf_artifacts :=
        update_first (\<lambda>b. a_id b = a_id a) ?f (lf_artifacts (sv k st db es ks))\<rparr>)"
      by (intro life_eqI) (simp_all add: st1 db1 j(1) put_task_def set_artifact_def)
    then show ?thesis
      using deliver_step [OF that, of "a_id a" a j t] fa a(2) j by simp
  qed
  moreover have "neat st1"
    unfolding st1 by (intro neat_mark neat_set_artifact [OF assms(3)]) simp
  ultimately show ?thesis
    using same_rows_refl [OF assms(2)] by (simp add: branch_ok_def db1)
qed

lemma dispatch_Inr:
  assumes "dispatch_action h now newId db p w u row st action = Inr (db1, st1, summary)"
  obtains task binding inp approved where "task_to_run st action = Inr task"
    "run_binding st task = Some binding" "s_modelCallsUsed st < s_modelCallLimit st"
    "unreviewed_runs db p w task = 0" "work_hash h (run_input_json inp) = Inr approved"
    "newId \<notin> r_id ` set (db_runs db)"
    "db1 = db\<lparr>db_runs := db_runs db @ [queued_run now newId p w u row task binding inp approved]\<rparr>"
    "st1 = set_task (map_option t_id task) (mark Running txt_r_queued) st"
  using assms unfolding dispatch_action_def Let_def
  by (fastforce simp: res_simps mark_fun find_unique_None_iff queued_run_def)

lemma task_to_run_cases:
  assumes "task_to_run st action = Inr task"
  shows "case task of None \<Rightarrow> True
    | Some t \<Rightarrow> find (\<lambda>u. t_id u = t_id t) (s_tasks st) = Some t \<and> t_status t \<in> {Todo, Decision}
        \<and> (\<forall>d\<in>set (t_dependencies t). \<exists>u\<in>set (s_tasks st). t_id u = d \<and> t_status u = Done)"
proof (cases action)
  case (A_execute i)
  with assms obtain t where f: "find_task st i = Some t"
    by (cases "find_task st i") (simp_all add: task_to_run_def)
  with A_execute assms have t: "task = Some t" "find_task st i = Some t" "t_status t \<in> {Todo, Decision}"
    and deps: "\<forall>d\<in>set (t_dependencies t). case find_task st d of None \<Rightarrow> False | Some u \<Rightarrow> t_status u = Done"
    by (auto simp: task_to_run_def res_simps)
  have "\<exists>u\<in>set (s_tasks st). t_id u = d \<and> t_status u = Done" if "d \<in> set (t_dependencies t)" for d
    using deps that by (fastforce simp: find_task_def find_Some_iff split: option.splits)
  moreover have "t_id t = i" "find (\<lambda>u. t_id u = i) (s_tasks st) = Some t"
    using t(2) by (auto simp: find_task_def find_Some_iff)
  ultimately show ?thesis using t(1,3) by auto
qed (use assms in \<open>auto simp: task_to_run_def\<close>)

lemma dispatch_branch:
  assumes "dispatch_action h now newId db p w u row st action = Inr (db1, st1, summary)"
    and "distinct (map r_id (db_runs db))" and "neat st" and "is_uuid newId"
  shows "branch_ok (p, w) db st db1 st1"
proof -
  from assms(1) obtain task binding inp approved where task: "task_to_run st action = Inr task"
    and calls: "s_modelCallsUsed st < s_modelCallLimit st" and un: "unreviewed_runs db p w task = 0"
    and new: "newId \<notin> r_id ` set (db_runs db)"
    and db1: "db1 = db\<lparr>db_runs := db_runs db @ [queued_run now newId p w u row task binding inp approved]\<rparr>"
    and st1: "st1 = set_task (map_option t_id task) (mark Running txt_r_queued) st"
    by (rule dispatch_Inr)
  define r where "r = queued_run now newId p w u row task binding inp approved"
  have r: "r_id r = newId" "r_projectId r = p" "r_workId r = w" "r_taskId r = map_option t_id task"
      "r_kind r = (case task of None \<Rightarrow> PlanRun | Some _ \<Rightarrow> ExecuteRun)" "r_status r = Queued" "r_fence r = 0"
    by (simp_all add: r_def queued_run_def)
  note db1 = db1 [folded r_def]
  have mine: "run_of (p, w) r" "k' \<noteq> (p, w) \<Longrightarrow> \<not> run_of k' r" for k'
    using r by (auto simp: run_of_def)
  have "may_dispatch (sv (p, w) st db es ks) task r" for es ks
  proof -
    note task_to_run_cases [OF task]
    moreover have "\<forall>q\<in>set (filter (run_of (p, w)) (db_runs db)). unreviewed q \<longrightarrow>
        (case task of None \<Rightarrow> r_kind q \<noteq> PlanRun | Some t \<Rightarrow> r_taskId q \<noteq> Some (t_id t))"
      using un by (cases task) (auto simp: unreviewed_runs_def unreviewed_def run_of_def)
    ultimately show ?thesis
      using r new calls uuid_no_colon [OF assms(4)]
      unfolding may_dispatch_def by (auto split: option.splits)
  qed
  then have "life_step (sv (p, w) st db es ks) (log_event key ty (sv (p, w) st1 db1 es ks))"
    if "plain_event (sv (p, w) st db es ks) key ty" for es ks key ty
  proof -
    have "sv (p, w) st1 db1 es ks = put_task (map_option t_id task) Running txt_r_queued
        ((sv (p, w) st db es ks)\<lparr>lf_runs := lf_runs (sv (p, w) st db es ks) @ [r]\<rparr>)"
      using mine by (intro life_eqI) (simp_all add: st1 db1 put_task_def)
    then show ?thesis
      using dispatch_step [OF that \<open>may_dispatch (sv (p, w) st db es ks) task r\<close>] by simp
  qed
  moreover have "same_rows (p, w) db db1"
    using assms(2) new r(1) mine(2) by (auto simp: same_rows_def db1)
  ultimately show ?thesis
    using neat_mark [OF assms(3)] by (simp add: branch_ok_def st1)
qed

lemma apply_action_branch:
  assumes "apply_action h q user row st key action db = Inr (db1, st1, summary)"
    and "distinct (map r_id (db_runs db))" and "neat st" and "is_uuid (rq_newId q)"
  shows "branch_ok (rq_projectId q, rq_workId q) db st db1 st1"
proof (cases action)
  case (A_message tx so)
  then show ?thesis
    using assms(1,3) by (intro branch_note [OF assms(2)])
      (auto simp: apply_action_def message_action_def res_simps)
next
  case (A_members us)
  then show ?thesis
    using assms(1,3) by (intro branch_note [OF assms(2)])
      (auto simp: apply_action_def members_action_def res_simps neat_def)
next
  case (A_bind i r)
  then show ?thesis
    using assms(1,3) by (intro branch_note [OF assms(2)])
      (auto simp: apply_action_def bind_action_def res_simps neat_def)
next
  case (A_view v)
  then show ?thesis
    using assms(1,3) by (intro branch_note [OF assms(2)])
      (auto simp: apply_action_def view_action_def neat_def)
next
  case (A_cancel r)
  then show ?thesis
    using assms(1) cancel_branch [OF _ assms(2,3)] by (simp add: apply_action_def)
next
  case (A_resolve_unknown r e)
  then show ?thesis
    using assms(1) resolve_branch [OF _ assms(2,3)] by (simp add: apply_action_def)
next
  case (A_verify a e)
  then show ?thesis
    using assms(1) verify_branch [OF _ assms(2,3)] by (simp add: apply_action_def)
next
  case (A_deliver a)
  then show ?thesis
    using assms(1) deliver_branch [OF _ assms(2,3)] by (simp add: apply_action_def)
qed (use assms(1) dispatch_branch [OF _ assms(2,3,4)] in \<open>simp_all add: apply_action_def\<close>)

section \<open>The invariant of the machine\<close>

definition linked :: "work_sys \<Rightarrow> bool" where
  "linked s \<longleftrightarrow> (\<forall>w\<in>set (sys_workers s). \<exists>r\<in>set (db_runs (sys_db s)). same_run r (wk_run w))"

definition work_inv :: "work_sys \<Rightarrow> bool" where
  "work_inv s \<longleftrightarrow> tables_ok (sys_db s) \<and> linked s"

definition refines :: "work_sys \<Rightarrow> work_sys \<Rightarrow> bool" where
  "refines s s' \<longleftrightarrow> work_inv s' \<and> (\<forall>k. life_step\<^sup>*\<^sup>* (life_of k s) (life_of k s'))"

lemma refines_refl: "work_inv s \<Longrightarrow> refines s s"
  by (simp add: refines_def)

lemma refines_trans: "refines s t \<Longrightarrow> refines t u \<Longrightarrow> refines s u"
  unfolding refines_def by (meson rtranclp_trans)

lemma linked_extend:
  assumes "linked s" and "runs_extend (db_runs (sys_db s)) (db_runs db)"
    and "\<forall>w\<in>set ws. \<exists>v\<in>set (sys_workers s). same_run (wk_run v) (wk_run w)"
  shows "linked \<lparr>sys_db = db, sys_workers = ws\<rparr>"
  using assms unfolding linked_def runs_extend_def by (simp, meson same_run_trans)

lemma worker_key: "same_run (wk_run v) (wk_run w) \<Longrightarrow> worker_of k v \<longleftrightarrow> worker_of k w"
  by (auto simp: worker_of_def run_of_def same_run_def)

text \<open>The view of the Work whose row a handler holds.\<close>

lemma life_of_row:
  assumes "find_unique work_key k (db_works (sys_db s)) = Some row"
  shows "life_of k s = sv k (w_state row) (sys_db s) (log_of k (sys_db s)) (filter (worker_of k) (sys_workers s))"
  using assms by (simp add: life_of_def sv_def stored_def)

lemma event_step:
  assumes ok: "work_inv s" and row: "find_unique work_key k (db_works (sys_db s)) = Some row"
    and rows: "same_rows k (sys_db s) db1" and neat: "neat st1"
    and app: "appendWorkEvent now row st1 inp db1 = Inr db'"
    and ws: "\<forall>w\<in>set ws. \<exists>v\<in>set (sys_workers s). same_run (wk_run v) (wk_run w)"
    and others: "\<And>j. j \<noteq> k \<Longrightarrow> filter (worker_of j) ws = filter (worker_of j) (sys_workers s)"
    and step: "in_key inp \<notin> log_keys (log_of k (sys_db s)) \<Longrightarrow>
      life_step\<^sup>*\<^sup>* (life_of k s) (log_event (in_key inp) (in_type inp)
        (sv k st1 db1 (log_of k (sys_db s)) (filter (worker_of k) ws)))"
  shows "refines s \<lparr>sys_db = db', sys_workers = ws\<rparr>"
proof -
  have "tables_ok (sys_db s)" "linked s"
    using ok by (simp_all add: work_inv_def)
  note ev = event_refines [OF app this(1) row]
  from rows have same: "db_works db1 = db_works (sys_db s)" "db_events db1 = db_events (sys_db s)"
      "distinct (map r_id (db_runs db1))"
      "runs_extend (db_runs (sys_db s)) (db_runs db1)"
      "\<And>j. j \<noteq> k \<Longrightarrow> filter (run_of j) (db_runs db1) = filter (run_of j) (db_runs (sys_db s))"
    by (auto simp: same_rows_def)
  note ev = ev [OF same(1,2) neat same(3)]
  have "linked \<lparr>sys_db = db', sys_workers = ws\<rparr>"
    using \<open>linked s\<close> same(4) ws by (intro linked_extend) (simp_all add: ev(5))
  then have "work_inv \<lparr>sys_db = db', sys_workers = ws\<rparr>"
    using ev(1) by (simp add: work_inv_def)
  moreover have "life_step\<^sup>*\<^sup>* (life_of j s) (life_of j \<lparr>sys_db = db', sys_workers = ws\<rparr>)" for j
  proof (cases "j = k")
    case True
    have "life_of k \<lparr>sys_db = db', sys_workers = ws\<rparr> = log_event (in_key inp) (in_type inp)
        (sv k st1 db1 (log_of k (sys_db s)) (filter (worker_of k) ws))"
      by (rule life_eqI) (simp_all add: life_of_def state_view_def log_event_def ev(3,4,5))
    then show ?thesis
      using step [OF ev(2)] True by simp
  next
    case False
    then have "life_of j \<lparr>sys_db = db', sys_workers = ws\<rparr> = life_of j s"
      by (simp add: life_of_def ev(5,7) same(5) others)
    then show ?thesis by simp
  qed
  ultimately show ?thesis by (simp add: refines_def)
qed

section \<open>Commands\<close>

lemma action_type_plain: "action_type a \<noteq> ''model_dispatch''"
  by (cases a) simp_all

lemma sys_with_db: "s\<lparr>sys_db := db\<rparr> = \<lparr>sys_db = db, sys_workers = sys_workers s\<rparr>"
  by (cases s) simp

lemma command_tx_refines:
  assumes ok: "work_inv s" and tx: "command_tx h q cmd dig (sys_db s) = Inr db'"
    and ids: "is_uuid (c_idempotencyKey cmd)" "is_uuid (rq_newId q)"
  shows "refines s (s\<lparr>sys_db := db'\<rparr>)"
proof -
  let ?k = "(rq_projectId q, rq_workId q)"
  have tabs: "tables_ok (sys_db s)"
    using ok by (simp add: work_inv_def)
  from tx obtain user row st where lock: "lockWork (sys_db s) (rq_projectId q) (rq_workId q) = Inr row"
    and parse: "work_state_schema (w_state row) = Inr st"
    and rest: "(case find_unique command_key (rq_projectId q, rq_workId q, c_idempotencyKey cmd)
        (db_events (sys_db s)) of
       Some previous \<Rightarrow>
         res_bind (ensure (e_commandHash previous = dig) (conflict txt_command_key_reused)) (\<lambda>_. Inr (sys_db s))
     | None \<Rightarrow>
         res_bind (ensure (w_revision row = c_expectedRevision cmd)
           (WorkError txt_revision_conflict 409 ''revision_conflict'')) (\<lambda>_.
         res_bind (apply_action h q user row st (c_idempotencyKey cmd) (c_action cmd) (sys_db s))
           (\<lambda>(db1, st1, summary). appendWorkEvent (rq_now q) row st1
           \<lparr>in_key = c_idempotencyKey cmd, in_hash = dig, in_type = action_type (c_action cmd),
            in_summary = summary, in_actorId = rq_userId q, in_details = action_json (c_action cmd)\<rparr> db1))) = Inr db'"
    by (auto simp: command_tx_def res_simps)
  have row: "find_unique work_key ?k (db_works (sys_db s)) = Some row"
    using lockWork_Inr [OF lock] by simp
  have st: "st = w_state row" and neat: "neat (w_state row)"
    using tables_ok_row [OF tabs row] parse by auto
  show ?thesis
  proof (cases "find_unique command_key (rq_projectId q, rq_workId q, c_idempotencyKey cmd) (db_events (sys_db s))")
    case (Some previous)
    then have "db' = sys_db s"
      using rest by (auto simp: res_simps)
    then show ?thesis
      using refines_refl [OF ok] by simp
  next
    case None
    then obtain db1 st1 summary where
      act: "apply_action h q user row (w_state row) (c_idempotencyKey cmd) (c_action cmd) (sys_db s) = Inr (db1, st1, summary)"
      and app: "appendWorkEvent (rq_now q) row st1
           \<lparr>in_key = c_idempotencyKey cmd, in_hash = dig, in_type = action_type (c_action cmd),
            in_summary = summary, in_actorId = rq_userId q, in_details = action_json (c_action cmd)\<rparr> db1 = Inr db'"
      using rest st by (auto simp: res_simps)
    have "distinct (map r_id (db_runs (sys_db s)))"
      using tabs by (simp add: tables_ok_def)
    from apply_action_branch [OF act this neat ids(2)]
    have br: "same_rows ?k (sys_db s) db1" "neat st1"
      "\<And>es ks key ty. plain_event (sv ?k (w_state row) (sys_db s) es ks) key ty \<Longrightarrow>
         life_step (sv ?k (w_state row) (sys_db s) es ks) (log_event key ty (sv ?k st1 db1 es ks))"
      by (auto simp: branch_ok_def)
    have "refines s \<lparr>sys_db = db', sys_workers = sys_workers s\<rparr>"
    proof (rule event_step [OF ok row br(1,2) app])
      assume "in_key \<lparr>in_key = c_idempotencyKey cmd, in_hash = dig, in_type = action_type (c_action cmd),
            in_summary = summary, in_actorId = rq_userId q, in_details = action_json (c_action cmd)\<rparr>
          \<notin> log_keys (log_of ?k (sys_db s))"
      then show "life_step\<^sup>*\<^sup>* (life_of ?k s) (log_event (in_key \<lparr>in_key = c_idempotencyKey cmd, in_hash = dig,
            in_type = action_type (c_action cmd), in_summary = summary, in_actorId = rq_userId q,
            in_details = action_json (c_action cmd)\<rparr>) (in_type \<lparr>in_key = c_idempotencyKey cmd, in_hash = dig,
            in_type = action_type (c_action cmd), in_summary = summary, in_actorId = rq_userId q,
            in_details = action_json (c_action cmd)\<rparr>)
          (sv ?k st1 db1 (log_of ?k (sys_db s)) (filter (worker_of ?k) (sys_workers s))))"
        unfolding life_of_row [OF row]
        using uuid_not_tool [OF ids(1)] action_type_plain
        by (intro r_into_rtranclp br(3)) (simp add: plain_event_def)
    qed (use same_run_refl in \<open>blast, simp\<close>)
    then show ?thesis by (simp only: sys_with_db)
  qed
qed

lemma command_refines:
  assumes "work_inv s" and "is_uuid (rq_newId q)"
  shows "refines s (s\<lparr>sys_db := snd (command h q raw (sys_db s))\<rparr>)"
proof (cases "res_bind (work_command_schema raw) (\<lambda>cmd.
    res_bind (command_digest h (rq_userId q) (c_action cmd)) (\<lambda>dig. command_tx h q cmd dig (sys_db s)))")
  case (Inl e)
  then show ?thesis
    using refines_refl [OF assms(1)] by (simp add: command_def)
next
  case (Inr db')
  then obtain cmd dig where cmd: "work_command_schema raw = Inr cmd"
    and tx: "command_tx h q cmd dig (sys_db s) = Inr db'"
    by (auto simp: res_simps)
  have "is_uuid (c_idempotencyKey cmd)"
    using cmd by (auto simp: work_command_schema_def res_simps)
  from command_tx_refines [OF assms(1) tx this assms(2)] Inr show ?thesis
    by (simp add: command_def)
qed

end
