(* ===== verification/Work_Refinement.thy ===== *)
theory Work_Refinement
  imports Work_System
begin

text \<open>
  Every step of the Work machine refines the lifecycle of every Work and keeps the invariant of
  the tables: the transactions of the worker one by one, then creation, crashes and changes of
  other tables, and with them the interpretation of the simulation.
\<close>

section \<open>Steps without an event\<close>

lemma quiet_step:
  assumes ok: "work_inv s" and rows: "same_rows k (sys_db s) db'"
    and ws: "\<forall>w\<in>set ws. \<exists>r\<in>set (db_runs db'). same_run r (wk_run w)"
    and others: "\<And>j. j \<noteq> k \<Longrightarrow> filter (worker_of j) ws = filter (worker_of j) (sys_workers s)"
    and step: "life_step\<^sup>*\<^sup>* (life_of k s) ((life_of k s)\<lparr>lf_runs := filter (run_of k) (db_runs db'),
      lf_workers := filter (worker_of k) ws\<rparr>)"
  shows "refines s \<lparr>sys_db = db', sys_workers = ws\<rparr>"
proof -
  from rows have same: "db_works db' = db_works (sys_db s)" "db_events db' = db_events (sys_db s)"
      "distinct (map r_id (db_runs db'))"
      "\<And>j. j \<noteq> k \<Longrightarrow> filter (run_of j) (db_runs db') = filter (run_of j) (db_runs (sys_db s))"
    by (auto simp: same_rows_def)
  have look: "stored j db' = stored j (sys_db s)" "log_of j db' = log_of j (sys_db s)" for j
    by (simp_all add: stored_def log_of_def same)
  have "life_of k \<lparr>sys_db = db', sys_workers = ws\<rparr> = (life_of k s)\<lparr>lf_runs := filter (run_of k) (db_runs db'),
      lf_workers := filter (worker_of k) ws\<rparr>"
    by (rule life_eqI) (simp_all add: life_of_def state_view_def look)
  with step have "life_step\<^sup>*\<^sup>* (life_of k s) (life_of k \<lparr>sys_db = db', sys_workers = ws\<rparr>)" by simp
  moreover have "life_of j \<lparr>sys_db = db', sys_workers = ws\<rparr> = life_of j s" if "j \<noteq> k" for j
    using that by (simp add: life_of_def look same(4) others)
  ultimately have "life_step\<^sup>*\<^sup>* (life_of j s) (life_of j \<lparr>sys_db = db', sys_workers = ws\<rparr>)" for j
    by (cases "j = k") simp_all
  moreover have "work_inv \<lparr>sys_db = db', sys_workers = ws\<rparr>"
    using ok same ws by (simp add: work_inv_def linked_def tables_ok_def)
  ultimately show ?thesis by (simp add: refines_def)
qed

abbreviation wkey :: "worker \<Rightarrow> work_id" where
  "wkey k \<equiv> (r_projectId (wk_run k), r_workId (wk_run k))"

lemma worker_of_wkey [simp]: "worker_of (wkey k) k"
  by (simp add: worker_of_def run_of_def)

lemma worker_of_other: "j \<noteq> wkey k \<Longrightarrow> \<not> worker_of j k"
  by (auto simp: worker_of_def run_of_def)

lemma work_inv_runs: "work_inv s \<Longrightarrow> distinct (map r_id (db_runs (sys_db s)))"
  by (simp add: work_inv_def tables_ok_def)

lemma same_row: "distinct (map g rs) \<Longrightarrow> r \<in> set rs \<Longrightarrow> q \<in> set rs \<Longrightarrow> g q = g r \<Longrightarrow> q = r"
  by (auto simp: distinct_map inj_on_def)

lemma gone_refines:
  assumes "work_inv s" and "sys_workers s = ks @ k # ls"
  shows "refines s \<lparr>sys_db = sys_db s, sys_workers = ks @ ls\<rparr>"
proof (rule quiet_step [OF assms(1)])
  show "same_rows (wkey k) (sys_db s) (sys_db s)"
    using work_inv_runs [OF assms(1)] by (intro same_rows_refl) auto
  show "\<forall>w\<in>set (ks @ ls). \<exists>r\<in>set (db_runs (sys_db s)). same_run r (wk_run w)"
    using assms by (auto simp: work_inv_def linked_def)
  show "filter (worker_of j) (ks @ ls) = filter (worker_of j) (sys_workers s)" if "j \<noteq> wkey k" for j
    using worker_of_other [OF that] assms(2) by simp
  have "(life_of (wkey k) s)\<lparr>lf_runs := filter (run_of (wkey k)) (db_runs (sys_db s)),
        lf_workers := filter (worker_of (wkey k)) (ks @ ls)\<rparr> =
      (life_of (wkey k) s)\<lparr>lf_workers := filter (worker_of (wkey k)) ks @ filter (worker_of (wkey k)) ls\<rparr>"
    by (simp add: life_of_def state_view_def)
  moreover have "lf_workers (life_of (wkey k) s) =
      filter (worker_of (wkey k)) ks @ k # filter (worker_of (wkey k)) ls"
    using assms(2) by (simp add: life_of_def state_view_def)
  ultimately show "life_step\<^sup>*\<^sup>* (life_of (wkey k) s)
      ((life_of (wkey k) s)\<lparr>lf_runs := filter (run_of (wkey k)) (db_runs (sys_db s)),
        lf_workers := filter (worker_of (wkey k)) (ks @ ls)\<rparr>)"
    by (simp add: gone_step r_into_rtranclp)
qed

lemma guarded_refines:
  assumes "work_inv s" and "sys_workers s = ks @ k # ls"
  shows "refines s \<lparr>sys_db = sys_db s, sys_workers = ks @ k\<lparr>wk_guarded := True\<rparr> # ls\<rparr>"
proof (rule quiet_step [OF assms(1)])
  show "same_rows (wkey k) (sys_db s) (sys_db s)"
    using work_inv_runs [OF assms(1)] by (intro same_rows_refl) auto
  show "\<forall>w\<in>set (ks @ k\<lparr>wk_guarded := True\<rparr> # ls). \<exists>r\<in>set (db_runs (sys_db s)). same_run r (wk_run w)"
    using assms by (auto simp: work_inv_def linked_def)
  show "filter (worker_of j) (ks @ k\<lparr>wk_guarded := True\<rparr> # ls) = filter (worker_of j) (sys_workers s)"
    if "j \<noteq> wkey k" for j
    using worker_of_other [OF that] assms(2) by (simp add: worker_of_def)
  have "(life_of (wkey k) s)\<lparr>lf_runs := filter (run_of (wkey k)) (db_runs (sys_db s)),
        lf_workers := filter (worker_of (wkey k)) (ks @ k\<lparr>wk_guarded := True\<rparr> # ls)\<rparr> =
      (life_of (wkey k) s)\<lparr>lf_workers := filter (worker_of (wkey k)) ks
        @ k\<lparr>wk_guarded := True\<rparr> # filter (worker_of (wkey k)) ls\<rparr>"
    by (simp add: life_of_def state_view_def worker_of_def run_of_def)
  moreover have "lf_workers (life_of (wkey k) s) =
      filter (worker_of (wkey k)) ks @ k # filter (worker_of (wkey k)) ls"
    using assms(2) by (simp add: life_of_def state_view_def)
  ultimately show "life_step\<^sup>*\<^sup>* (life_of (wkey k) s)
      ((life_of (wkey k) s)\<lparr>lf_runs := filter (run_of (wkey k)) (db_runs (sys_db s)),
        lf_workers := filter (worker_of (wkey k)) (ks @ k\<lparr>wk_guarded := True\<rparr> # ls)\<rparr>)"
    by (simp add: guarded_step r_into_rtranclp)
qed

lemma claim_refines:
  assumes ok: "work_inv s" and claim: "claim now candidate (sys_db s) = (Some run, db)"
  shows "refines s \<lparr>sys_db = db, sys_workers = sys_workers s
      @ [\<lparr>wk_run = run, wk_guarded = False, wk_invoked = False\<rparr>]\<rparr>"
proof -
  let ?f = "\<lambda>q. q\<lparr>r_status := InProgress, r_fence := r_fence q + 1, r_leaseUntil := Some (now + 90000),
    r_startedAt := Some now\<rparr>"
  let ?p = "\<lambda>r. r_id r = r_id candidate \<and> r_status r = Queued \<and> r_fence r = r_fence candidate"
  let ?rs = "db_runs (sys_db s)"
  have d: "distinct (map r_id ?rs)" using ok by (rule work_inv_runs)
  from claim obtain r where r: "r \<in> set ?rs" "?p r"
    and db: "db = (sys_db s)\<lparr>db_runs := update_rows ?p ?f ?rs\<rparr>"
    and run: "find_unique r_id (r_id candidate) (db_runs db) = Some run"
    by (auto simp: claim_def Let_def list_ex_iff split: if_splits)
  have "update_rows ?p ?f ?rs = update_rows (\<lambda>q. r_id q = r_id r) ?f ?rs"
    unfolding update_rows_def
  proof (rule map_cong [OF refl])
    fix q assume "q \<in> set ?rs"
    then have "?p q \<longleftrightarrow> r_id q = r_id r"
      using r same_row [OF d r(1), of q] by auto
    then show "(if ?p q then ?f q else q) = (if r_id q = r_id r then ?f q else q)" by simp
  qed
  then have db: "db = update_run (r_id r) ?f (sys_db s)"
    using db by (simp add: update_run_def)
  have run: "run = ?f r"
  proof -
    have "find_unique r_id (r_id r) (db_runs db) = Some (?f r)"
      unfolding db update_run_def
      using find_unique_update [of r_id ?f "r_id r" "\<lambda>q. r_id q = r_id r" ?rs]
        find_unique_distinct [OF d r(1)] by simp
    with run r(2) show ?thesis by simp
  qed
  let ?w = "\<lparr>wk_run = run, wk_guarded = False, wk_invoked = False\<rparr>"
  let ?k = "wkey ?w"
  have mine: "run_of ?k r" by (simp add: run run_of_def)
  note view = update_run_view [OF d r(1) mine, of ?f, folded db]
  show ?thesis
  proof (rule quiet_step [OF ok])
    show "same_rows ?k (sys_db s) db" by (rule view) simp
    then have ext: "runs_extend ?rs (db_runs db)" by (simp add: same_rows_def)
    have "\<exists>q\<in>set (db_runs db). same_run q run"
      using ext r(1) unfolding runs_extend_def run by (simp add: same_run_def)
    then show "\<forall>w\<in>set (sys_workers s @ [?w]). \<exists>q\<in>set (db_runs db). same_run q (wk_run w)"
      using ok ext unfolding work_inv_def linked_def runs_extend_def
      by (auto, meson same_run_trans)
    show "filter (worker_of j) (sys_workers s @ [?w]) = filter (worker_of j) (sys_workers s)"
      if "j \<noteq> ?k" for j
      using worker_of_other [OF that] by simp
    have "(life_of ?k s)\<lparr>lf_runs := filter (run_of ?k) (db_runs db),
        lf_workers := filter (worker_of ?k) (sys_workers s @ [?w])\<rparr> =
      (put_run (r_id r) ?f (life_of ?k s))\<lparr>lf_workers := lf_workers (life_of ?k s)
        @ [\<lparr>wk_run = ?f r, wk_guarded = False, wk_invoked = False\<rparr>]\<rparr>"
      using view(1) worker_of_wkey [of ?w]
      by (intro life_eqI) (simp_all add: life_of_def state_view_def put_run_def run del: worker_of_wkey)
    moreover have "r \<in> set (lf_runs (life_of ?k s))"
      using r(1) mine by (simp add: life_of_def state_view_def)
    ultimately show "life_step\<^sup>*\<^sup>* (life_of ?k s) ((life_of ?k s)\<lparr>lf_runs := filter (run_of ?k) (db_runs db),
        lf_workers := filter (worker_of ?k) (sys_workers s @ [?w])\<rparr>)"
      using claim_step [of r "life_of ?k s" ?f] r(2) by (simp add: r_into_rtranclp)
  qed
qed

section \<open>Other tables\<close>

lemma world_refines:
  assumes "work_inv s" and "same_work_tables db (sys_db s)"
  shows "refines s (s\<lparr>sys_db := db\<rparr>)"
  using assms by (auto simp: refines_def work_inv_def tables_ok_def linked_def same_work_tables_def
      life_of_def stored_def log_of_def)

section \<open>Creation\<close>

lemma create_schema_trims:
  assumes "create_work_schema raw = Inr inp"
  shows "neat (initial_state inp u agents)"
  using assms by (auto simp: create_work_schema_def res_simps neat_def initial_state_def)

lemma upsert_refines:
  assumes ok: "work_inv s" and up: "upsert_work w (sys_db s) = Inr (row, db1)"
    and new: "w_revision w = 0" "w_state w = initial_state inp u agents" "neat (w_state w)"
  shows "refines s (s\<lparr>sys_db := db1\<rparr>)"
proof (cases "find_unique creation_key (creation_key w) (db_works (sys_db s))")
  case (Some existing)
  then have "db1 = sys_db s" using up by (simp add: upsert_work_def)
  then show ?thesis using refines_refl [OF ok] by simp
next
  case None
  with up have fresh: "work_key w \<notin> work_key ` set (db_works (sys_db s))"
    and db1: "db1 = (sys_db s)\<lparr>db_works := db_works (sys_db s) @ [w]\<rparr>"
    by (auto simp: upsert_work_def res_simps find_unique_None_iff image_iff)
  have tabs: "tables_ok (sys_db s)" "linked s" using ok by (simp_all add: work_inv_def)
  have none: "filter (event_of (work_key w)) (db_events (sys_db s)) = []"
    using tabs(1) fresh unfolding tables_ok_def event_of_def filter_empty_conv by metis
  have "tables_ok db1"
    using tabs(1) fresh none new(1,3) by (auto simp: tables_ok_def db1)
  moreover have "linked (s\<lparr>sys_db := db1\<rparr>)"
    using tabs(2) by (simp add: linked_def db1)
  moreover have "life_of k (s\<lparr>sys_db := db1\<rparr>) = life_of k s" for k
  proof (cases "k = work_key w")
    case True
    then have "find_unique work_key k (db_works (sys_db s)) = None"
      using fresh by (simp add: find_unique_None_iff)
    with True show ?thesis
      by (simp add: life_of_def stored_def log_of_def db1 find_unique_append find_unique_Cons
          state_view_def new(2) initial_state_def)
  next
    case False
    then show ?thesis
      by (simp add: life_of_def stored_def log_of_def db1 find_unique_append find_unique_Cons
          split: option.splits)
  qed
  ultimately show ?thesis by (simp add: refines_def work_inv_def)
qed

lemma planning_refines:
  assumes "work_inv s" and "is_uuid (rq_newId q)"
  shows "refines s (s\<lparr>sys_db := snd (start_planning h q row inp (sys_db s))\<rparr>)"
proof (cases "res_bind (planning_key h (w_id row) (cw_idempotencyKey inp) ''intent'') (\<lambda>k1.
        res_bind (planning_key h (w_id row) (cw_idempotencyKey inp) ''plan'') (\<lambda>k2. Inr (k1, k2)))")
  case (Inl e)
  then show ?thesis using refines_refl [OF assms(1)] by (simp add: start_planning_def)
next
  case (Inr ks)
  obtain k1 k2 where ks: "ks = (k1, k2)" by force
  let ?q = "q\<lparr>rq_workId := w_id row\<rparr>"
  have q: "is_uuid (rq_newId ?q)" using assms(2) by simp
  define c1 where "c1 = \<lparr>c_idempotencyKey = k1, c_expectedRevision = w_revision row,
    c_action = A_message (cw_goal inp) Text\<rparr>"
  obtain o1 db1 where c1: "command h ?q c1 (sys_db s) = (o1, db1)" by force
  have one: "refines s (s\<lparr>sys_db := db1\<rparr>)"
    using command_refines [OF assms(1) q, of h c1] by (simp add: c1)
  then have inv1: "work_inv (s\<lparr>sys_db := db1\<rparr>)" by (simp add: refines_def)
  have two: "refines s (s\<lparr>sys_db := snd (command h ?q c2 db1)\<rparr>)" for c2
    using refines_trans [OF one] command_refines [OF inv1 q, of h c2] by simp
  show ?thesis
  proof (cases o1)
    case (Inl e)
    with Inr show ?thesis using one by (simp add: start_planning_def ks c1_def [symmetric] c1)
  next
    case o1: (Inr sp)
    show ?thesis
    proof (cases "find_unique message_key (rq_projectId q, w_id row, k1) (db_messages db1)")
      case None
      with Inr o1 show ?thesis using one by (simp add: start_planning_def ks c1_def [symmetric] c1)
    next
      case (Some source)
      let ?c2 = "\<lparr>c_idempotencyKey = k2, c_expectedRevision = sp_revision sp, c_action = A_plan (x_id source)\<rparr>"
      have "snd (start_planning h q row inp (sys_db s)) = snd (command h ?q ?c2 db1)"
        using Inr o1 Some
        by (simp add: start_planning_def ks c1_def [symmetric] c1 split: prod.splits sum.splits)
      with two [of ?c2] show ?thesis by (simp only:)
    qed
  qed
qed

lemma create_refines:
  assumes "work_inv s" and "is_uuid (rq_newId q)"
  shows "refines s (s\<lparr>sys_db := snd (create h q newWorkId raw (sys_db s))\<rparr>)"
proof (cases "res_bind (create_work_schema raw) (\<lambda>inp.
        res_bind (requireWorkProject (sys_db s) (rq_projectId q) (rq_userId q)) (\<lambda>_.
        res_bind (initial_agents h (sys_db s) (rq_projectId q) (rq_userId q)) (\<lambda>agents.
        res_bind (upsert_work \<lparr>w_projectId = rq_projectId q, w_id = newWorkId, w_createdBy = rq_userId q,
            w_creationKey = cw_idempotencyKey inp, w_revision = 0,
            w_state = initial_state inp (rq_userId q) agents, w_updatedAt = rq_now q\<rparr> (sys_db s)) (\<lambda>(row, db1).
        Inr (inp, row, db1)))))")
  case (Inl e)
  then show ?thesis using refines_refl [OF assms(1)] by (simp add: create_def)
next
  case (Inr ir)
  obtain inp row db1 where ir: "ir = (inp, row, db1)" by (cases ir) auto
  from Inr obtain agents where inp: "create_work_schema raw = Inr inp"
    and up: "upsert_work \<lparr>w_projectId = rq_projectId q, w_id = newWorkId, w_createdBy = rq_userId q,
            w_creationKey = cw_idempotencyKey inp, w_revision = 0,
            w_state = initial_state inp (rq_userId q) agents, w_updatedAt = rq_now q\<rparr> (sys_db s) = Inr (row, db1)"
    by (auto simp: res_simps ir)
  have one: "refines s (s\<lparr>sys_db := db1\<rparr>)"
    by (rule upsert_refines [OF assms(1) up]) (simp_all add: create_schema_trims [OF inp])
  then have "work_inv (s\<lparr>sys_db := db1\<rparr>)" by (simp add: refines_def)
  from planning_refines [OF this assms(2)]
  have two: "refines s (s\<lparr>sys_db := snd (start_planning h q row inp db1)\<rparr>)"
    using refines_trans [OF one] by simp
  have "snd (create h q newWorkId raw (sys_db s)) \<in> {db1, snd (start_planning h q row inp db1)}"
    by (simp add: create_def Inr ir split: sum.splits prod.splits)
  with one two show ?thesis by auto
qed

section \<open>Executions that end without a result\<close>

lemma sent_dispatched:
  "0 < dispatched db run \<longleftrightarrow> sent (log_keys (log_of (r_projectId run, r_workId run) db)) (r_id run)"
proof -
  have "0 < count_rows p es \<longleftrightarrow> (\<exists>e\<in>set es. p e)" for p :: "event_row \<Rightarrow> bool" and es
    by (metis count_rows_0 gr_zeroI less_irrefl)
  then show ?thesis
    by (auto simp: dispatched_def sent_def log_keys_def log_of_def event_of_def image_iff)
qed

lemma put_run_sv:
  assumes "distinct (map r_id (db_runs db))" and "r \<in> set (db_runs db)" and "run_of k r"
    and "\<And>q. same_run (f q) q"
  shows "sv k st (update_run (r_id r) f db) es ks = put_run (r_id r) f (sv k st db es ks)"
  using update_run_view(1) [OF assms] by (intro life_eqI) (simp_all add: put_run_def)

definition released :: "(task_status \<Rightarrow> bool) \<Rightarrow> string option \<Rightarrow> string \<Rightarrow> work_state \<Rightarrow> work_state" where
  "released P i x st = (case find_task_opt st i of None \<Rightarrow> st
     | Some t \<Rightarrow> if P (t_status t) then set_task i (mark Todo x) st else st)"

lemma release_sv: "sv k (released P i x st) db es ks = release P i x (sv k st db es ks)"
  by (rule life_eqI) (auto simp: released_def release_def put_task_def find_task_opt_def find_task_def
      split: option.splits)

lemma neat_released: "neat st \<Longrightarrow> neat (released P i x st)"
  by (simp add: released_def neat_mark split: option.splits)

lemma run_row_same:
  assumes "work_inv s" and "run_row (sys_db s) (r_id run) = Inr current"
    and "r \<in> set (db_runs (sys_db s))" and "same_run r run"
  shows "current \<in> set (db_runs (sys_db s))" "same_run current run" "r_id current = r_id run"
    "run_of (r_projectId run, r_workId run) current"
proof -
  have c: "current \<in> set (db_runs (sys_db s))" "r_id current = r_id run"
    using assms(2) by (auto simp: run_row_def dest: find_unique_in find_unique_key)
  then have "current = r"
    using same_row [OF work_inv_runs [OF assms(1)] assms(3)] assms(4) by (simp add: same_run_def)
  with assms(4) show "same_run current run" "run_of (r_projectId run, r_workId run) current"
    by (simp_all add: same_run_def run_of_def)
  from c show "current \<in> set (db_runs (sys_db s))" "r_id current = r_id run" .
qed

lemma locked_row:
  assumes "work_inv s" and "lockWork (sys_db s) p w = Inr row" and "work_state_schema (w_state row) = Inr st"
  shows "find_unique work_key (p, w) (db_works (sys_db s)) = Some row" "st = w_state row" "neat (w_state row)"
proof -
  show row: "find_unique work_key (p, w) (db_works (sys_db s)) = Some row"
    using lockWork_Inr [OF assms(2)] by simp
  have "tables_ok (sys_db s)" using assms(1) by (simp add: work_inv_def)
  from tables_ok_row [OF this row] assms(3) show "st = w_state row" "neat (w_state row)" by auto
qed

lemma plain_life:
  assumes "find_unique work_key k (db_works (sys_db s)) = Some row" and "key \<notin> log_keys (log_of k (sys_db s))"
    and "\<not> prefix ''tool:'' key" and "ty \<noteq> ''model_dispatch''"
  shows "plain_event (life_of k s) key ty"
  using assms(2-4) unfolding life_of_row [OF assms(1)] by (simp add: plain_event_def)

lemma end_run_refines:
  assumes ok: "work_inv s" and row: "find_unique work_key k (db_works (sys_db s)) = Some row"
    and neat: "neat (w_state row)" and cur: "current \<in> set (db_runs (sys_db s))" "run_of k current"
    and app: "appendWorkEvent now row (released P (r_taskId current) x (w_state row)) inp
      (update_run (r_id current) f (sys_db s)) = Inr db'"
    and f: "\<And>q. same_run (f q) q"
    and plain: "\<not> prefix ''tool:'' (in_key inp)" "in_type inp \<noteq> ''model_dispatch''"
    and step: "plain_event (life_of k s) (in_key inp) (in_type inp) \<Longrightarrow>
      life_step (life_of k s) (log_event (in_key inp) (in_type inp)
        (release P (r_taskId current) x (put_run (r_id current) f (life_of k s))))"
  shows "refines s \<lparr>sys_db = db', sys_workers = sys_workers s\<rparr>"
proof (rule event_step [OF ok row _ _ app])
  have d: "distinct (map r_id (db_runs (sys_db s)))" using ok by (rule work_inv_runs)
  show "same_rows k (sys_db s) (update_run (r_id current) f (sys_db s))"
    using d cur f by (rule update_run_view)
  show "neat (released P (r_taskId current) x (w_state row))"
    using neat by (rule neat_released)
  assume "in_key inp \<notin> log_keys (log_of k (sys_db s))"
  from step [OF plain_life [OF row this plain]]
  show "life_step\<^sup>*\<^sup>* (life_of k s) (log_event (in_key inp) (in_type inp)
      (sv k (released P (r_taskId current) x (w_state row)) (update_run (r_id current) f (sys_db s))
        (log_of k (sys_db s)) (filter (worker_of k) (sys_workers s))))"
    unfolding release_sv put_run_sv [OF d cur f] life_of_row [OF row] by (rule r_into_rtranclp)
qed (use same_run_refl in \<open>blast, simp\<close>)

lemma life_runs [simp]: "lf_runs (life_of k s) = filter (run_of k) (db_runs (sys_db s))"
  "lf_log (life_of k s) = log_of k (sys_db s)" "lf_workers (life_of k s) = filter (worker_of k) (sys_workers s)"
  by (simp_all add: life_of_def state_view_def)

lemma run_event_key_plain [simp]:
  "kind \<in> {''expired'', ''failure'', ''late'', ''result''} \<Longrightarrow> \<not> prefix ''tool:'' (run_event_key kind i n)"
  by (auto simp: run_event_key_def)

lemma expire_released:
  "expire h now run db =
     res_bind (lockWork db (r_projectId run) (r_workId run)) (\<lambda>row.
     res_bind (run_row db (r_id run)) (\<lambda>current.
     if r_status current \<notin> {InProgress, CancelRequested}
       \<or> (case r_leaseUntil current of None \<Rightarrow> True | Some l \<Rightarrow> now < l)
     then Inr db
     else (let sent = 0 < dispatched db run;
               status = (if sent then OutcomeUnknown else Stopped);
               reason = (if sent then txt_r_expired_unknown else txt_r_expired_stopped)
       in
       res_bind (work_state_schema (w_state row)) (\<lambda>st.
       res_bind (work_hash h (JStr reason)) (\<lambda>hash.
       appendWorkEvent now row (released (\<lambda>s. s = Running) (r_taskId run) reason st)
         \<lparr>in_key = run_event_key ''expired'' (r_id run) (r_fence current), in_hash = hash,
          in_type = ''run_expired'', in_summary = reason, in_actorId = r_instanceId run,
          in_details = JObj [(''runId'', JStr (r_id run)), (''status'', JStr (run_status_text status))]\<rparr>
         (update_run (r_id run) (\<lambda>r. r\<lparr>r_status := status, r_reason := Some reason,
            r_fence := r_fence r + 1, r_leaseUntil := None, r_finishedAt := Some now\<rparr>) db))))))"
  unfolding expire_def released_def mark_fun Let_def by (rule refl)

lemma expire_refines:
  assumes ok: "work_inv s" and ex: "expire h now run (sys_db s) = Inr db'"
    and r: "r \<in> set (db_runs (sys_db s))" "same_run r run"
  shows "refines s (s\<lparr>sys_db := db'\<rparr>)"
proof -
  from ex obtain row current where lock: "lockWork (sys_db s) (r_projectId run) (r_workId run) = Inr row"
    and cur: "run_row (sys_db s) (r_id run) = Inr current"
    by (auto simp: expire_def res_simps)
  note c = run_row_same [OF ok cur r]
  show ?thesis
  proof (cases "db' = sys_db s")
    case False
    let ?k = "(r_projectId run, r_workId run)"
    let ?sent = "0 < dispatched (sys_db s) run"
    let ?reason = "if ?sent then txt_r_expired_unknown else txt_r_expired_stopped"
    let ?f = "\<lambda>r. r\<lparr>r_status := (if ?sent then OutcomeUnknown else Stopped), r_reason := Some ?reason,
      r_fence := r_fence r + 1, r_leaseUntil := None, r_finishedAt := Some now\<rparr>"
    let ?quit = "r_status current \<notin> {InProgress, CancelRequested}
       \<or> (case r_leaseUntil current of None \<Rightarrow> True | Some l \<Rightarrow> now < l)"
    have go: "?quit = False"
    proof (rule ccontr)
      assume "?quit \<noteq> False"
      then have "?quit = True" by blast
      with ex False show False
        unfolding expire_released lock cur res_bind_Inr by (simp only: if_True sum.inject simp_thms)
    qed
    then have status: "r_status current \<in> {InProgress, CancelRequested}" by blast
    from ex obtain st inp where app: "appendWorkEvent now row (released (\<lambda>s. s = Running) (r_taskId run) ?reason st)
         inp (update_run (r_id run) ?f (sys_db s)) = Inr db'"
      and parse: "work_state_schema (w_state row) = Inr st"
      and inp: "in_key inp = run_event_key ''expired'' (r_id run) (r_fence current)" "in_type inp = ''run_expired''"
      unfolding expire_released Let_def lock cur res_bind_Inr go if_False res_bind_eq_Inr
      by (elim exE conjE) (rule that, assumption+, simp_all)
    note row = locked_row [OF ok lock parse]
    have ids: "r_taskId current = r_taskId run" "r_id current = r_id run" using c(2) by (simp_all add: same_run_def)
    have "refines s \<lparr>sys_db = db', sys_workers = sys_workers s\<rparr>"
    proof (rule end_run_refines [OF ok row(1,3) c(1,4)])
      show "appendWorkEvent now row (released (\<lambda>s. s = Running) (r_taskId current) ?reason (w_state row)) inp
         (update_run (r_id current) ?f (sys_db s)) = Inr db'"
        using app row(2) ids by simp
      assume p: "plain_event (life_of ?k s) (in_key inp) (in_type inp)"
      show "life_step (life_of ?k s) (log_event (in_key inp) (in_type inp)
          (release (\<lambda>s. s = Running) (r_taskId current) ?reason (put_run (r_id current) ?f (life_of ?k s))))"
        using expire_step [OF p, of current] c(1,4) status ids by (simp add: sent_dispatched)
    qed (simp_all add: inp)
    then show ?thesis by (simp only: sys_with_db)
  qed (use refines_refl [OF ok] in simp)
qed

section \<open>The gate\<close>

lemma worker_run:
  assumes "work_inv s" and "k \<in> set (sys_workers s)" and "run_row (sys_db s) (r_id (wk_run k)) = Inr current"
  shows "current \<in> set (db_runs (sys_db s))" "same_run current (wk_run k)" "r_id current = r_id (wk_run k)"
    "run_of (wkey k) current"
proof -
  from assms(1,2) obtain r where "r \<in> set (db_runs (sys_db s))" "same_run r (wk_run k)"
    by (auto simp: work_inv_def linked_def)
  from run_row_same [OF assms(1,3) this]
  show "current \<in> set (db_runs (sys_db s))" "same_run current (wk_run k)" "r_id current = r_id (wk_run k)"
    "run_of (wkey k) current" .
qed

lemma worker_gated:
  assumes "work_inv s" and "k \<in> set (sys_workers s)" and "run_row (sys_db s) (r_id (wk_run k)) = Inr current"
    and "r_status current = InProgress" and "r_fence current = r_fence (wk_run k)"
  shows "gated (life_of (wkey k) s) current k"
  using worker_run [OF assms(1-3)] assms(2,4,5) by (simp add: gated_def)

lemma execution_gate_Inr:
  "execution_gate h r fence now = Inr u \<Longrightarrow> r_status r = InProgress \<and> r_fence r = fence"
  by (auto simp: execution_gate_def res_simps)

lemma reserve_refines:
  assumes ok: "work_inv s" and ws: "sys_workers s = ks @ k # ls"
    and bt: "before_tool h now k (sys_db s) = Inr (k', db')"
  shows "refines s \<lparr>sys_db = db', sys_workers = ks @ k' # ls\<rparr>"
proof -
  let ?run = "wk_run k"
  let ?key = "tool_key (r_id ?run) (r_fence ?run)"
  have k: "k \<in> set (sys_workers s)" using ws by simp
  from bt obtain inp row current st where k': "k' = k\<lparr>wk_invoked := True\<rparr>" and idle: "\<not> wk_invoked k"
    and app: "appendWorkEvent now row (st\<lparr>s_modelCallsUsed := s_modelCallsUsed st + 1\<rparr>) inp (sys_db s) = Inr db'"
    and inp: "in_key inp = ?key" "in_type inp = ''model_dispatch''"
    and lock: "lockWork (sys_db s) (r_projectId ?run) (r_workId ?run) = Inr row"
    and cur: "run_row (sys_db s) (r_id ?run) = Inr current"
    and gate: "execution_gate h current (r_fence ?run) now = Inr ()"
    and parse: "work_state_schema (w_state row) = Inr st"
    and calls: "s_modelCallsUsed st < s_modelCallLimit st"
    by (auto simp: before_tool_def guard_def res_simps split: if_splits)
  note row = locked_row [OF ok lock parse]
  have gated: "gated (life_of (wkey k) s) current k"
    using worker_gated [OF ok k cur] execution_gate_Inr [OF gate] by simp
  let ?fs = "filter (worker_of (wkey k))"
  have k'_of: "worker_of j k' \<longleftrightarrow> worker_of j k" for j by (simp add: k' worker_of_def)
  show ?thesis
  proof (rule event_step [OF ok row(1) _ _ app])
    show "same_rows (wkey k) (sys_db s) (sys_db s)"
      using work_inv_runs [OF ok] by (intro same_rows_refl) auto
    show "neat (st\<lparr>s_modelCallsUsed := s_modelCallsUsed st + 1\<rparr>)"
      using row(2,3) by (simp add: neat_def)
    show "\<forall>w\<in>set (ks @ k' # ls). \<exists>v\<in>set (sys_workers s). same_run (wk_run v) (wk_run w)"
    proof
      fix w assume "w \<in> set (ks @ k' # ls)"
      then have "w \<in> set (sys_workers s) \<or> wk_run w = wk_run k" using ws by (auto simp: k')
      then show "\<exists>v\<in>set (sys_workers s). same_run (wk_run v) (wk_run w)"
        using k same_run_refl by metis
    qed
    show "filter (worker_of j) (ks @ k' # ls) = filter (worker_of j) (sys_workers s)" if "j \<noteq> wkey k" for j
      using worker_of_other [OF that] ws k'_of by simp
    assume fresh: "in_key inp \<notin> log_keys (log_of (wkey k) (sys_db s))"
    have "sv (wkey k) (st\<lparr>s_modelCallsUsed := s_modelCallsUsed st + 1\<rparr>) (sys_db s) (log_of (wkey k) (sys_db s))
        (?fs (ks @ k' # ls)) = (life_of (wkey k) s)\<lparr>lf_calls := lf_calls (life_of (wkey k) s) + 1,
          lf_workers := ?fs ks @ k\<lparr>wk_invoked := True\<rparr> # ?fs ls\<rparr>"
      unfolding life_of_row [OF row(1)] using row(2) k'_of [of "wkey k"]
      by (intro life_eqI) (simp_all add: k')
    moreover have "lf_calls (life_of (wkey k) s) < lf_limit (life_of (wkey k) s)"
      unfolding life_of_row [OF row(1)] using calls row(2) by simp
    ultimately show "life_step\<^sup>*\<^sup>* (life_of (wkey k) s) (log_event (in_key inp) (in_type inp)
        (sv (wkey k) (st\<lparr>s_modelCallsUsed := s_modelCallsUsed st + 1\<rparr>) (sys_db s)
          (log_of (wkey k) (sys_db s)) (?fs (ks @ k' # ls))))"
      using reserve_step [of "life_of (wkey k) s" "?fs ks" k "?fs ls" current] gated idle fresh ws
      by (simp add: inp r_into_rtranclp)
  qed
qed

section \<open>Plans and drafts\<close>

lemma plan_effect_applied:
  assumes "apply_work_plan st raw src = Inr (st1, plan)" and d: "distinct (map t_id (s_tasks st))"
  shows "plan_effect (s_tasks st) (s_tasks st1)"
proof -
  from assms(1) obtain ids m where inv: "changes_inv st src (task_map_of (s_tasks st)) (ids, m)"
    and st1: "st1 = st\<lparr>s_tasks := map snd m\<rparr>"
    by (rule apply_work_plan_inv)
  have ok: "task_map_ok m" and same: "\<And>i. i \<notin> set ids \<Longrightarrow> map_of m i = map_of (task_map_of (s_tasks st)) i"
    and new: "\<And>i. i \<in> set ids \<Longrightarrow> opt_all (\<lambda>t. t_status t \<notin> {Done, Cancelled, Running})
        (map_of (task_map_of (s_tasks st)) i) \<and> (\<exists>t. map_of m i = Some t \<and> t_status t \<notin> {Running, Done})"
    using inv unfolding changes_inv_def by auto
  have "distinct (map t_id (map snd m))"
    unfolding task_map_ids [OF ok] using ok by (simp only: task_map_ok_def)
  moreover have "t \<in> set (map snd m)" if "t \<in> set (s_tasks st)" "t_status t \<in> {Done, Cancelled, Running}" for t
  proof -
    have old: "map_of (task_map_of (s_tasks st)) (t_id t) = Some t"
      using that(1) by (simp add: task_map_of_lookup [OF d])
    then have "t_id t \<notin> set ids" using new [of "t_id t"] that(2) by auto
    with old same show ?thesis using task_map_lookup [OF ok] by metis
  qed
  moreover have "t \<in> set (s_tasks st)" if "t \<in> set (map snd m)" "t_status t \<in> {Running, Done}" for t
  proof -
    have now: "map_of m (t_id t) = Some t" using that(1) task_map_lookup [OF ok] by blast
    then have "t_id t \<notin> set ids" using new [of "t_id t"] that(2) by auto
    with now same show ?thesis using task_map_of_lookup [OF d] by metis
  qed
  ultimately show ?thesis by (simp add: plan_effect_def st1)
qed

definition trimmed_task :: "work_task \<Rightarrow> bool" where
  "trimmed_task t \<longleftrightarrow> js_trim (t_title t) = t_title t \<and> js_trim (t_acceptance t) = t_acceptance t"

lemma update_all: "\<forall>p\<in>set m. P (snd p) \<Longrightarrow> P t \<Longrightarrow> \<forall>p\<in>set (AList.update i t m). P (snd p)"
  by (induction m) auto

lemma changes_trimmed:
  "fold_res (apply_change st src) cs acc = Inr acc' \<Longrightarrow> \<forall>p\<in>set (snd acc). trimmed_task (snd p) \<Longrightarrow>
     \<forall>c\<in>set cs. trimmed_task c \<Longrightarrow> \<forall>p\<in>set (snd acc'). trimmed_task (snd p)"
proof (induction cs arbitrary: acc)
  case (Cons c cs)
  then obtain acc1 where one: "apply_change st src c acc = Inr acc1"
    and rest: "fold_res (apply_change st src) cs acc1 = Inr acc'"
    by (auto simp: res_simps)
  have "\<forall>p\<in>set (snd acc1). trimmed_task (snd p)"
  proof -
    have "snd acc1 = AList.update (t_id c) (c\<lparr>t_sourceMessageId := src\<rparr>) (snd acc)"
      using one by (auto simp: apply_change_def res_simps)
    moreover have "trimmed_task (c\<lparr>t_sourceMessageId := src\<rparr>)"
      using Cons.prems(3) by (simp add: trimmed_task_def)
    ultimately show ?thesis
      using update_all [of "snd acc" trimmed_task] Cons.prems(2) by simp
  qed
  with Cons.IH [OF rest] Cons.prems(3) show ?case by simp
qed simp

lemma plan_neat:
  assumes "apply_work_plan st raw src = Inr (st1, plan)" and "neat st"
  shows "neat st1"
proof -
  from assms(1) obtain ids m where plan: "work_plan_schema raw = Inr plan"
    and loop: "fold_res (apply_change st src) (p_changes plan) ([], task_map_of (s_tasks st)) = Inr (ids, m)"
    and st1: "st1 = st\<lparr>s_tasks := map snd m\<rparr>"
    by (auto simp: apply_work_plan_def res_simps split: prod.splits)
  have folded: "\<forall>p\<in>set (fold (\<lambda>t m. AList.update (t_id t) t m) ts m0). trimmed_task (snd p)"
    if "\<forall>t\<in>set ts. trimmed_task t" "\<forall>p\<in>set m0. trimmed_task (snd p)" for ts m0
    using that
  proof (induction ts arbitrary: m0)
    case (Cons t ts)
    then show ?case using update_all [of m0 trimmed_task t "t_id t"] by simp
  qed simp
  have "\<forall>p\<in>set (task_map_of (s_tasks st)). trimmed_task (snd p)"
    unfolding task_map_of_def
    by (rule folded) (use assms(2) in \<open>simp_all add: neat_def trimmed_task_def\<close>)
  moreover have "\<forall>c\<in>set (p_changes plan). trimmed_task c"
  proof -
    obtain ch where "z_array work_task_schema 0 40 (p_changes raw) = Inr ch" "p_changes plan = ch"
      using plan by (auto simp: work_plan_schema_def res_simps)
    then show ?thesis
      using map_res_all [of work_task_schema "p_changes raw" ch]
      by (fastforce simp: z_array_def work_task_schema_def res_simps trimmed_task_def split: if_splits)
  qed
  ultimately have "\<forall>p\<in>set m. trimmed_task (snd p)"
    using changes_trimmed [OF loop] by simp
  with assms(2) show ?thesis by (simp add: st1 neat_def trimmed_task_def)
qed

section \<open>Results\<close>

lemma update_run_messages:
  "update_run i f (db\<lparr>db_messages := ms\<rparr>) = (update_run i f db)\<lparr>db_messages := ms\<rparr>"
  by (simp add: update_run_def)

lemma messages_view [simp]:
  "sv k st (db\<lparr>db_messages := ms\<rparr>) es ks = sv k st db es ks"
  "same_rows k db0 (db\<lparr>db_messages := ms\<rparr>) \<longleftrightarrow> same_rows k db0 db"
  by (simp_all add: sv_def same_rows_def)

lemma finish_draft_Inr:
  assumes "finish_draft h i run st result = Inr (st1, reply)"
  obtains j t a where "r_taskId run = Some j" "find (\<lambda>t. t_id t = j) (s_tasks st) = Some t" "t_id t = j"
    "t_status t = Running" "a_status a = Draft" "js_trim (a_content a) = a_content a"
    "st1 = set_task (Some j) (mark Decision txt_r_draft) (st\<lparr>s_artifacts := s_artifacts st @ [a]\<rparr>)"
proof -
  obtain d where r: "result = DraftResult d"
    using assms by (cases result) (auto simp: finish_draft_def)
  with assms obtain draft t where d: "work_draft_schema d = Inr draft"
    and t: "find_task_opt st (r_taskId run) = Some t"
    by (auto simp: finish_draft_def res_simps split: option.splits)
  from assms r d t have status: "t_status t = Running"
    by (auto simp: finish_draft_def res_simps)
  have "\<exists>a. st1 = set_task (Some (t_id t)) (mark Decision txt_r_draft) (st\<lparr>s_artifacts := s_artifacts st @ [a]\<rparr>)
      \<and> a_status a = Draft \<and> a_content a = d_content draft"
    using assms r d t
    by (clarsimp simp: finish_draft_def res_simps Let_def mark_fun) (rule exI, rule conjI, rule refl, simp)
  then obtain a where a: "a_status a = Draft" "a_content a = d_content draft"
    and st1: "st1 = set_task (Some (t_id t)) (mark Decision txt_r_draft) (st\<lparr>s_artifacts := s_artifacts st @ [a]\<rparr>)"
    by blast
  from t obtain j where j: "r_taskId run = Some j" "find (\<lambda>t. t_id t = j) (s_tasks st) = Some t"
    by (auto simp: find_task_opt_def find_task_def split: option.splits)
  then have id: "t_id t = j" by (auto simp: find_Some_iff)
  have "js_trim (a_content a) = a_content a"
    using d a(2) by (auto simp: work_draft_schema_def res_simps)
  with that [OF j id status a(1)] st1 id show ?thesis by simp
qed

lemma finish_refines:
  assumes ok: "work_inv s" and inv: "life_inv (life_of (wkey k) s)" and k: "k \<in> set (sys_workers s)"
    and fin: "finish h now newArtifactId newMessageId (wk_run k) result (sys_db s) = Inr db'"
  shows "refines s \<lparr>sys_db = db', sys_workers = sys_workers s\<rparr>"
proof -
  let ?run = "wk_run k" and ?k = "wkey k"
  let ?f = "\<lambda>r. r\<lparr>r_status := Succeeded, r_finishedAt := Some now, r_leaseUntil := None\<rparr>"
  from fin obtain row current st st1 reply inp ms where
    lock: "lockWork (sys_db s) (r_projectId ?run) (r_workId ?run) = Inr row"
    and cur: "run_row (sys_db s) (r_id ?run) = Inr current"
    and gate: "execution_gate h current (r_fence ?run) now = Inr ()"
    and parse: "work_state_schema (w_state row) = Inr st"
    and body: "(case r_kind ?run of PlanRun \<Rightarrow> finish_plan h (sys_db s) ?run st result
         | ExecuteRun \<Rightarrow> finish_draft h newArtifactId ?run st result) = Inr (st1, reply)"
    and app: "appendWorkEvent now row st1 inp (update_run (r_id ?run) ?f ((sys_db s)\<lparr>db_messages := ms\<rparr>)) = Inr db'"
    and inp: "in_key inp = run_event_key ''result'' (r_id ?run) (r_fence ?run)" "in_type inp = ''run_result''"
    by (auto simp: finish_def res_simps)
  note row = locked_row [OF ok lock parse] and c = worker_run [OF ok k cur]
  have gated: "gated (life_of ?k s) current k"
    using worker_gated [OF ok k cur] execution_gate_Inr [OF gate] by simp
  have ids: "r_id current = r_id ?run" "r_kind current = r_kind ?run" "r_taskId current = r_taskId ?run"
    using c(2) by (simp_all add: same_run_def)
  have d: "distinct (map r_id (db_runs (sys_db s)))" using ok by (rule work_inv_runs)
  have f: "same_run (?f q) q" for q by simp
  note put = put_run_sv [OF d c(1,4) f, unfolded ids]
  have tasks: "lf_tasks (life_of ?k s) = s_tasks st"
    unfolding life_of_row [OF row(1)] using row(2) by simp
  show ?thesis
  proof (rule event_step [OF ok row(1) _ _ app])
    show "same_rows ?k (sys_db s) (update_run (r_id ?run) ?f ((sys_db s)\<lparr>db_messages := ms\<rparr>))"
      using update_run_view(2) [OF d c(1,4) f] ids by (simp add: update_run_messages)
    show "neat st1"
    proof (cases "r_kind ?run")
      case PlanRun
      with body obtain p pl where "apply_work_plan st p (i_sourceMessageId (r_input ?run)) = Inr (st1, pl)"
        by (auto simp: finish_plan_def res_simps split: work_result.splits)
      with row(2,3) show ?thesis using plan_neat by simp
    next
      case ExecuteRun
      with body have "finish_draft h newArtifactId ?run st result = Inr (st1, reply)" by simp
      then obtain j a where a: "js_trim (a_content a) = a_content a"
        and st1: "st1 = set_task (Some j) (mark Decision txt_r_draft) (st\<lparr>s_artifacts := s_artifacts st @ [a]\<rparr>)"
        by (rule finish_draft_Inr)
      have "neat (st\<lparr>s_artifacts := s_artifacts st @ [a]\<rparr>)"
        using row(2,3) a by (simp add: neat_def)
      then show ?thesis unfolding st1 by (rule neat_mark)
    qed
    assume "in_key inp \<notin> log_keys (log_of ?k (sys_db s))"
    then have p: "plain_event (life_of ?k s) (in_key inp) (in_type inp)"
      using plain_life [OF row(1)] by (simp add: inp)
    show "life_step\<^sup>*\<^sup>* (life_of ?k s) (log_event (in_key inp) (in_type inp)
        (sv ?k st1 (update_run (r_id ?run) ?f ((sys_db s)\<lparr>db_messages := ms\<rparr>))
          (log_of ?k (sys_db s)) (filter (worker_of ?k) (sys_workers s))))"
    proof (cases "r_kind ?run")
      case PlanRun
      with body obtain pl p where plan: "apply_work_plan st p (i_sourceMessageId (r_input ?run)) = Inr (st1, pl)"
        by (auto simp: finish_plan_def res_simps split: work_result.splits)
      then obtain us where st1: "st1 = st\<lparr>s_tasks := us\<rparr>" by (rule apply_work_plan_inv) simp
      have "plan_effect (lf_tasks (life_of ?k s)) us"
        using plan_effect_applied [OF plan] life_inv_distinct [OF inv] tasks by (simp add: st1)
      moreover have "sv ?k st1 (update_run (r_id ?run) ?f (sys_db s)) (log_of ?k (sys_db s))
          (filter (worker_of ?k) (sys_workers s)) = (put_run (r_id current) ?f (life_of ?k s))\<lparr>lf_tasks := us\<rparr>"
        unfolding put life_of_row [OF row(1)] using row(2) ids
        by (intro life_eqI) (simp_all add: put_run_def st1)
      ultimately show ?thesis
        using finish_plan_step [OF p gated] PlanRun ids
        by (simp add: update_run_messages r_into_rtranclp)
    next
      case ExecuteRun
      with body have "finish_draft h newArtifactId ?run st result = Inr (st1, reply)" by simp
      then obtain j t a where j: "r_taskId ?run = Some j" "find (\<lambda>t. t_id t = j) (s_tasks st) = Some t"
        "t_id t = j" "t_status t = Running" "a_status a = Draft"
        and st1: "st1 = set_task (Some j) (mark Decision txt_r_draft) (st\<lparr>s_artifacts := s_artifacts st @ [a]\<rparr>)"
        by (rule finish_draft_Inr)
      have "sv ?k st1 (update_run (r_id ?run) ?f (sys_db s)) (log_of ?k (sys_db s))
          (filter (worker_of ?k) (sys_workers s)) = put_task (Some j) Decision txt_r_draft
            (put_run (r_id current) ?f ((life_of ?k s)\<lparr>lf_artifacts := lf_artifacts (life_of ?k s) @ [a]\<rparr>))"
        unfolding put life_of_row [OF row(1)] using row(2) ids
        by (intro life_eqI) (simp_all add: put_run_def put_task_def st1)
      then show ?thesis
        using finish_draft_step [OF p gated, of j t a] j ids tasks
        by (simp add: update_run_messages r_into_rtranclp)
    qed
  qed (use same_run_refl in \<open>blast, simp\<close>)
qed

section \<open>Failures\<close>

lemma record_failure_released:
  "record_failure h now run row status reason db =
     res_bind (work_state_schema (w_state row)) (\<lambda>st.
     res_bind (work_hash h (JStr reason)) (\<lambda>hash.
     appendWorkEvent now row (released (\<lambda>s. s \<noteq> Done) (r_taskId run) reason st)
       \<lparr>in_key = run_event_key ''failure'' (r_id run) (r_fence run), in_hash = hash,
        in_type = ''run_blocked'', in_summary = reason, in_actorId = r_instanceId run,
        in_details = JObj [(''runId'', JStr (r_id run)), (''status'', JStr (run_status_text status))]\<rparr>
       (update_run (r_id run) (\<lambda>r. r\<lparr>r_status := status, r_reason := Some reason,
          r_finishedAt := Some now, r_leaseUntil := None\<rparr>) db)))"
  unfolding record_failure_def released_def mark_fun Let_def by (rule refl)

lemma record_failure_refines:
  assumes ok: "work_inv s" and k: "k \<in> set (sys_workers s)"
    and cur: "run_row (sys_db s) (r_id (wk_run k)) = Inr current"
    and lock: "lockWork (sys_db s) (r_projectId (wk_run k)) (r_workId (wk_run k)) = Inr row"
    and rec: "record_failure h now (wk_run k) row status reason (sys_db s) = Inr db'"
    and step: "\<And>key. plain_event (life_of (wkey k) s) key ''run_blocked'' \<Longrightarrow>
      life_step (life_of (wkey k) s) (log_event key ''run_blocked'' (release (\<lambda>s. s \<noteq> Done) (r_taskId current) reason
        (put_run (r_id current) (\<lambda>r. r\<lparr>r_status := status, r_reason := Some reason,
          r_finishedAt := Some now, r_leaseUntil := None\<rparr>) (life_of (wkey k) s))))"
  shows "refines s \<lparr>sys_db = db', sys_workers = sys_workers s\<rparr>"
proof -
  note c = worker_run [OF ok k cur]
  have ids: "r_id current = r_id (wk_run k)" "r_taskId current = r_taskId (wk_run k)"
    using c(2) by (simp_all add: same_run_def)
  from rec obtain st inp where app: "appendWorkEvent now row (released (\<lambda>s. s \<noteq> Done) (r_taskId (wk_run k)) reason st) inp
      (update_run (r_id (wk_run k)) (\<lambda>r. r\<lparr>r_status := status, r_reason := Some reason,
          r_finishedAt := Some now, r_leaseUntil := None\<rparr>) (sys_db s)) = Inr db'"
    and parse: "work_state_schema (w_state row) = Inr st"
    and inp: "in_key inp = run_event_key ''failure'' (r_id (wk_run k)) (r_fence (wk_run k))"
      "in_type inp = ''run_blocked''"
    unfolding record_failure_released res_bind_eq_Inr
    by (elim exE conjE) (rule that, assumption+, simp_all)
  note row = locked_row [OF ok lock parse]
  from app [folded ids, unfolded row(2)] show ?thesis
    by (rule end_run_refines [OF ok row(1,3) c(1,4)]) (use step in \<open>simp_all add: inp\<close>)
qed

lemma late_refines:
  assumes ok: "work_inv s" and lock: "lockWork (sys_db s) (r_projectId run) (r_workId run) = Inr row"
    and late: "late_result h now run row reason (sys_db s) = Inr db'"
  shows "refines s \<lparr>sys_db = db', sys_workers = sys_workers s\<rparr>"
proof (cases "db' = sys_db s")
  case True
  then show ?thesis using refines_refl [OF ok] by (cases s) simp
next
  case False
  let ?k = "(r_projectId run, r_workId run)"
  from False late obtain st inp where app: "appendWorkEvent now row st inp (sys_db s) = Inr db'"
    and parse: "work_state_schema (w_state row) = Inr st"
    and inp: "in_key inp = run_event_key ''late'' (r_id run) (r_fence run)" "in_type inp = ''late_result_discarded''"
    by (auto simp: late_result_def Let_def res_simps split: option.splits)
  note row = locked_row [OF ok lock parse]
  show ?thesis
  proof (rule event_step [OF ok row(1) _ _ app])
    show "same_rows ?k (sys_db s) (sys_db s)"
      using work_inv_runs [OF ok] by (intro same_rows_refl) auto
    show "neat st" using row by simp
    assume "in_key inp \<notin> log_keys (log_of ?k (sys_db s))"
    then have "plain_event (life_of ?k s) (in_key inp) (in_type inp)"
      using plain_life [OF row(1)] by (simp add: inp)
    then show "life_step\<^sup>*\<^sup>* (life_of ?k s) (log_event (in_key inp) (in_type inp)
        (sv ?k st (sys_db s) (log_of ?k (sys_db s)) (filter (worker_of ?k) (sys_workers s))))"
      unfolding life_of_row [OF row(1)] row(2) by (intro r_into_rtranclp note_step)
  qed (use same_run_refl in \<open>blast, simp\<close>)
qed

lemma fail_refines:
  assumes ok: "work_inv s" and k: "k \<in> set (sys_workers s)"
    and fail: "fail h now (wk_run k) (if wk_invoked k then OutcomeUnknown else Blocked) reason (sys_db s) = Inr db'"
  shows "refines s \<lparr>sys_db = db', sys_workers = sys_workers s\<rparr>"
proof -
  let ?run = "wk_run k" and ?L = "life_of (wkey k) s"
  let ?status = "if wk_invoked k then OutcomeUnknown else Blocked"
  from fail obtain row current where lock: "lockWork (sys_db s) (r_projectId ?run) (r_workId ?run) = Inr row"
    and cur: "run_row (sys_db s) (r_id ?run) = Inr current"
    by (auto simp: fail_def res_simps)
  note c = worker_run [OF ok k cur]
  have mem: "current \<in> set (lf_runs ?L)" using c(1,4) by simp
  have sent: "0 < dispatched (sys_db s) ?run \<longleftrightarrow> sent (log_keys (lf_log ?L)) (r_id current)"
    using c(3) by (simp add: sent_dispatched)
  consider (cancelled) "r_status current = CancelRequested"
    | (late) "r_status current \<noteq> CancelRequested" "r_status current \<noteq> InProgress \<or> r_fence current \<noteq> r_fence ?run"
    | (running) "r_status current = InProgress" "r_fence current = r_fence ?run"
    by blast
  then show ?thesis
  proof cases
    case cancelled
    note step = fail_cancelled_step [OF _ mem cancelled, folded sent]
    show ?thesis
    proof (cases "0 < dispatched (sys_db s) ?run")
      case True
      with fail lock cur cancelled
      have "record_failure h now ?run row OutcomeUnknown txt_r_cancel_unknown (sys_db s) = Inr db'"
        by (simp add: fail_def)
      then show ?thesis
        by (rule record_failure_refines [OF ok k cur lock]) (use step True in simp)
    next
      case False
      with fail lock cur cancelled
      have "record_failure h now ?run row Stopped txt_r_cancel_stopped (sys_db s) = Inr db'"
        by (simp add: fail_def)
      then show ?thesis
        by (rule record_failure_refines [OF ok k cur lock]) (use step False in simp)
    qed
  next
    case late
    then have "late_result h now ?run row reason (sys_db s) = Inr db'"
      using fail lock cur by (simp add: fail_def)
    then show ?thesis by (rule late_refines [OF ok lock])
  next
    case running
    then have "record_failure h now ?run row ?status reason (sys_db s) = Inr db'"
      using fail lock cur by (simp add: fail_def)
    then show ?thesis
      by (rule record_failure_refines [OF ok k cur lock])
        (use fail_running_step [OF _ worker_gated [OF ok k cur running]] in simp)
  qed
qed

lemma catch_refines:
  assumes "work_inv s" and "k \<in> set (sys_workers s)"
  shows "refines s \<lparr>sys_db = catch_failure h now k e (sys_db s), sys_workers = sys_workers s\<rparr>"
proof (cases "fail h now (wk_run k) (if wk_invoked k then OutcomeUnknown else Blocked) (failure_reason e) (sys_db s)")
  case (Inl f)
  then show ?thesis using refines_refl [OF assms(1)] by (cases s) (simp add: catch_failure_def)
next
  case (Inr db')
  with fail_refines [OF assms this] show ?thesis by (simp add: catch_failure_def)
qed

section \<open>Every step\<close>

definition sys_inv :: "work_sys \<Rightarrow> bool" where
  "sys_inv s \<longleftrightarrow> work_inv s \<and> (\<forall>k. life_inv (life_of k s))"

lemma work_step_refines:
  assumes "work_step h s s'" and "work_inv s" and "\<And>k. life_inv (life_of k s)"
  shows "refines s s'"
  using assms(1)
proof cases
  case (sys_command q raw)
  then show ?thesis using command_refines [OF assms(2)] by simp
next
  case (sys_create q newWorkId cw)
  then show ?thesis using create_refines [OF assms(2)] by simp
next
  case (sys_expire run now db)
  then show ?thesis using expire_refines [OF assms(2)] by blast
next
  case (sys_claim now candidate run db)
  then show ?thesis using claim_refines [OF assms(2)] by simp
next
  case (sys_guard ks k ls now db)
  then have "db = sys_db s" by (auto simp: guard_def res_simps)
  with sys_guard guarded_refines [OF assms(2)] show ?thesis by simp
next
  case (sys_reserve ks k ls now k' db)
  then show ?thesis using reserve_refines [OF assms(2)] by simp
next
  case (sys_finish ks k ls now newArtifactId newMessageId result db)
  have "refines s \<lparr>sys_db = db, sys_workers = sys_workers s\<rparr>"
    by (rule finish_refines [OF assms(2,3), of k h now newArtifactId newMessageId result]) (use sys_finish in simp_all)
  moreover from this have "work_inv \<lparr>sys_db = db, sys_workers = sys_workers s\<rparr>" by (simp add: refines_def)
  ultimately show ?thesis
    using refines_trans gone_refines [of "\<lparr>sys_db = db, sys_workers = sys_workers s\<rparr>" ks k ls] sys_finish by simp
next
  case (sys_fail ks k ls now e)
  let ?m = "\<lparr>sys_db = catch_failure h now k e (sys_db s), sys_workers = sys_workers s\<rparr>"
  have "refines s ?m" by (rule catch_refines [OF assms(2)]) (use sys_fail in simp)
  moreover from this have "work_inv ?m" by (simp add: refines_def)
  ultimately show ?thesis
    using refines_trans gone_refines [of ?m ks k ls] sys_fail by simp
next
  case (sys_crash ks k ls)
  then show ?thesis using gone_refines [OF assms(2), of ks k ls] by (cases s) simp
next
  case (sys_world db)
  then show ?thesis using world_refines [OF assms(2)] by simp
qed

lemma life_steps_inv: "life_step\<^sup>*\<^sup>* L M \<Longrightarrow> life_inv L \<Longrightarrow> life_inv M"
  by (induction rule: rtranclp_induct) (auto intro: life_step_inv)

lemma sys_inv_step: "work_step h s s' \<Longrightarrow> sys_inv s \<Longrightarrow> sys_inv s' \<and> (\<forall>k. life_step\<^sup>*\<^sup>* (life_of k s) (life_of k s'))"
  using work_step_refines [of h s s'] life_steps_inv unfolding sys_inv_def refines_def by blast

lemma work_init_view: "work_init s \<Longrightarrow> life_init (life_of k s) \<and> sys_inv s"
proof -
  assume "work_init s"
  then have "life_init (life_of j s)" for j
    by (simp add: work_init_def life_init_def life_of_def state_view_def stored_def log_of_def)
  moreover have "work_inv s"
    using \<open>work_init s\<close> by (simp add: work_init_def work_inv_def tables_ok_def linked_def)
  ultimately show ?thesis using life_inv_init by (simp add: sys_inv_def)
qed

interpretation works: transition_system work_init "work_step h" for h .

interpretation work: simulation life_init life_step work_init "work_step h" "life_of k" sys_inv for h k
  by unfold_locales (use work_init_view sys_inv_step in blast)+

end
