(* ===== verification/Work_Scenario.thy ===== *)
theory Work_Scenario
  imports Work_Refinement
begin

text \<open>
  The steps of the Work machine as a function of an operation, and with it concrete histories:
  a Work is created, bound to two Agents, planned, executed, cancelled and delivered.
\<close>

section \<open>Operations\<close>

datatype work_op =
    Op_command work_request work_command
  | Op_create work_request string create_work
  | Op_expire nat string
  | Op_claim nat string
  | Op_guard nat nat
  | Op_reserve nat nat
  | Op_finish nat nat string string work_result
  | Op_fail nat nat failure
  | Op_crash nat
  | Op_world work_db

definition with_worker :: "nat \<Rightarrow> work_sys \<Rightarrow> (worker list \<Rightarrow> worker \<Rightarrow> worker list \<Rightarrow> work_sys) \<Rightarrow> work_sys" where
  "with_worker i s f = (case drop i (sys_workers s) of [] \<Rightarrow> s | k # ls \<Rightarrow> f (take i (sys_workers s)) k ls)"

declare with_worker_def [code_unfold]

fun perform :: "hash_env \<Rightarrow> work_op \<Rightarrow> work_sys \<Rightarrow> work_sys" where
  "perform h (Op_command q raw) s =
     (if is_uuid (rq_newId q) then s\<lparr>sys_db := snd (command h q raw (sys_db s))\<rparr> else s)"
| "perform h (Op_create q i cw) s =
     (if is_uuid (rq_newId q) then s\<lparr>sys_db := snd (create h q i cw (sys_db s))\<rparr> else s)"
| "perform h (Op_expire now i) s =
     (case find_unique r_id i (db_runs (sys_db s)) of None \<Rightarrow> s
      | Some run \<Rightarrow> (case expire h now run (sys_db s) of Inl _ \<Rightarrow> s | Inr db \<Rightarrow> s\<lparr>sys_db := db\<rparr>))"
| "perform h (Op_claim now i) s =
     (case find_unique r_id i (db_runs (sys_db s)) of None \<Rightarrow> s
      | Some candidate \<Rightarrow>
          (case claim now candidate (sys_db s) of
             (None, _) \<Rightarrow> s
           | (Some run, db) \<Rightarrow> \<lparr>sys_db = db, sys_workers = sys_workers s
               @ [\<lparr>wk_run = run, wk_guarded = False, wk_invoked = False\<rparr>]\<rparr>))"
| "perform h (Op_guard now i) s = with_worker i s (\<lambda>ks k ls.
     (case guard h now (wk_run k) False (sys_db s) of Inl _ \<Rightarrow> s
      | Inr db \<Rightarrow> \<lparr>sys_db = db, sys_workers = ks @ k\<lparr>wk_guarded := True\<rparr> # ls\<rparr>))"
| "perform h (Op_reserve now i) s = with_worker i s (\<lambda>ks k ls.
     (if wk_guarded k then
        (case before_tool h now k (sys_db s) of Inl _ \<Rightarrow> s
         | Inr (k', db) \<Rightarrow> \<lparr>sys_db = db, sys_workers = ks @ k' # ls\<rparr>)
      else s))"
| "perform h (Op_finish now i a m result) s = with_worker i s (\<lambda>ks k ls.
     (if wk_guarded k then
        (case finish h now a m (wk_run k) result (sys_db s) of Inl _ \<Rightarrow> s
         | Inr db \<Rightarrow> \<lparr>sys_db = db, sys_workers = ks @ ls\<rparr>)
      else s))"
| "perform h (Op_fail now i e) s = with_worker i s (\<lambda>ks k ls.
     \<lparr>sys_db = catch_failure h now k e (sys_db s), sys_workers = ks @ ls\<rparr>)"
| "perform h (Op_crash i) s = with_worker i s (\<lambda>ks k ls. s\<lparr>sys_workers := ks @ ls\<rparr>)"
| "perform h (Op_world db) s = s\<lparr>sys_db := db\<lparr>db_works := db_works (sys_db s),
     db_messages := db_messages (sys_db s), db_events := db_events (sys_db s), db_runs := db_runs (sys_db s)\<rparr>\<rparr>"

lemma with_worker_cases:
  assumes "\<And>ks k ls. sys_workers s = ks @ k # ls \<Longrightarrow> f ks k ls = s \<or> P (f ks k ls)"
  shows "with_worker i s f = s \<or> P (with_worker i s f)"
proof (cases "drop i (sys_workers s)")
  case (Cons k ls)
  then have "sys_workers s = take i (sys_workers s) @ k # ls"
    by (metis append_take_drop_id)
  from assms [OF this] Cons show ?thesis by (simp add: with_worker_def)
qed (simp add: with_worker_def)

text \<open>An operation is a step, or changes nothing.\<close>

lemma perform_step: "perform h p s = s \<or> work_step h s (perform h p s)"
proof (cases p)
  case (Op_command q raw)
  then show ?thesis by (simp add: sys_command)
next
  case (Op_create q i cw)
  then show ?thesis by (simp add: sys_create)
next
  case (Op_expire now i)
  show ?thesis
  proof (cases "find_unique r_id i (db_runs (sys_db s))")
    case (Some run)
    then have "\<exists>r\<in>set (db_runs (sys_db s)). same_run r run"
      using find_unique_in same_run_refl by metis
    with Some Op_expire sys_expire show ?thesis
      by (cases "expire h now run (sys_db s)") auto
  qed (simp add: Op_expire)
next
  case (Op_claim now i)
  then show ?thesis by (auto split: option.splits prod.splits intro: sys_claim)
next
  case (Op_guard now i)
  then show ?thesis
    by (simp only: perform.simps) (rule with_worker_cases, auto split: sum.splits intro: sys_guard)
next
  case (Op_reserve now i)
  then show ?thesis
    by (simp only: perform.simps) (rule with_worker_cases, auto split: sum.splits prod.splits intro: sys_reserve)
next
  case (Op_finish now i a m result)
  then show ?thesis
    by (simp only: perform.simps) (rule with_worker_cases, auto split: sum.splits intro: sys_finish)
next
  case (Op_fail now i e)
  then show ?thesis
    by (simp only: perform.simps) (rule with_worker_cases, auto intro: sys_fail)
next
  case (Op_crash i)
  then show ?thesis
    by (simp only: perform.simps) (rule with_worker_cases, auto intro: sys_crash)
next
  case (Op_world db)
  then show ?thesis by (auto intro!: sys_world simp: same_work_tables_def)
qed

definition performs :: "hash_env \<Rightarrow> work_op list \<Rightarrow> work_sys \<Rightarrow> work_sys" where
  "performs h ops s = fold (perform h) ops s"

lemma performs_steps: "(work_step h)\<^sup>*\<^sup>* s (performs h ops s)"
proof (induction ops arbitrary: s)
  case (Cons p ops)
  have "(work_step h)\<^sup>*\<^sup>* s (perform h p s)"
    using perform_step [of h p s] by auto
  with Cons [of "perform h p s"] show ?case
    by (simp add: performs_def)
qed (simp add: performs_def)

lemma performs_append: "performs h (ps @ qs) s = performs h qs (performs h ps s)"
  by (simp add: performs_def)

section \<open>A history\<close>

definition demo_env :: hash_env where
  "demo_env = \<lparr>collate = text_le, digest = take 12\<rparr>"

definition demo_member :: member_row where
  "demo_member = \<lparr>mr_projectId = ''p1'', mr_userId = ''u1'',
     mr_membership = \<lparr>m_externalAccessActive = None, m_manualAccess = Some True, m_role = AdminRole, m_roleAssignments = []\<rparr>,
     mr_user = \<lparr>uv_id = ''u1'', uv_displayName = ''Ada'', uv_status = ''active''\<rparr>,
     mr_project = \<lparr>pv_id = ''p1'', pv_createdBy = Some ''u1'', pv_departmentId = ''personal-u1'', pv_deleted = False,
       pv_department = \<lparr>dv_id = ''personal-u1'', dv_createdBy = Some ''u1'', dv_status = ''active''\<rparr>\<rparr>\<rparr>"

definition demo_agent :: "string \<Rightarrow> agent_row" where
  "demo_agent i = \<lparr>ag_projectId = ''p1'', ag_id = i, ag_kind = ''WORK_AGENT'', ag_deleted = False,
     ag_ownerUserId = Some ''u1'', ag_developedAgentId = None, ag_developedAgentDeleted = False,
     ag_agentVersion = Some \<lparr>av_id = ''v1'', av_snapshot = Some \<lparr>sn_mode = ''AGENTIC'', sn_engineType = ''TEXT'',
       sn_workRole = None, sn_productName = i, sn_productPurpose = ''writes''\<rparr>\<rparr>,
     ag_status = Some ''READY''\<rparr>"

definition demo_db :: work_db where
  "demo_db = \<lparr>db_works = [], db_messages = [], db_events = [], db_runs = [], db_members = [demo_member],
     db_agents = [demo_agent ''c1'', demo_agent ''x1''], db_expertMembers = [], db_onboarding = [\<lparr>ob_projectId = ''p1'', ob_status = ''READY'',
       ob_defaults = Some (Some ''c1'', Some ''x1'')\<rparr>]\<rparr>"

definition demo_start :: work_sys where
  "demo_start = \<lparr>sys_db = demo_db, sys_workers = []\<rparr>"

lemma demo_init: "work_init demo_start"
  by (simp add: work_init_def demo_start_def demo_db_def)

lemma demo_reachable: "works.reachable h (performs h ops demo_start)"
  using works.reachable_steps [OF works.reachable_init [OF demo_init] performs_steps] .

definition demo_uuid :: "char \<Rightarrow> string" where
  "demo_uuid c = ''00000000-0000-4000-8000-00000000000'' @ [c]"

definition demo_request :: "nat \<Rightarrow> char \<Rightarrow> work_request" where
  "demo_request now c = \<lparr>rq_now = now, rq_newId = demo_uuid c, rq_projectId = ''p1'', rq_workId = ''w1'', rq_userId = ''u1''\<rparr>"

definition demo_command :: "nat \<Rightarrow> char \<Rightarrow> nat \<Rightarrow> work_action \<Rightarrow> work_op" where
  "demo_command now c revision a = Op_command (demo_request now c)
     \<lparr>c_idempotencyKey = demo_uuid c, c_expectedRevision = revision, c_action = a\<rparr>"

text \<open>
  A Work with its two default Agents; a plan is asked for, its execution is claimed and has
  reserved the model call.
\<close>

definition demo_planning :: "work_op list" where
  "demo_planning =
     [Op_create (demo_request 1 CHR ''0'') ''w1''
        \<lparr>cw_title = ''W'', cw_goal = ''G'', cw_idempotencyKey = demo_uuid CHR ''0'', cw_startPlanning = False\<rparr>,
      demo_command 2 CHR ''1'' 0 (A_message ''write'' Text),
      demo_command 3 CHR ''2'' 1 (A_plan (demo_uuid CHR ''1'')),
      Op_claim 4 (demo_uuid CHR ''2''), Op_guard 5 0, Op_reserve 6 0]"

definition demo_state :: work_sys where
  "demo_state = performs demo_env demo_planning demo_start"

definition demo_row :: work_row where
  "demo_row = hd (db_works (sys_db demo_state))"

definition demo_run :: work_run where
  "demo_run = hd (db_runs (sys_db demo_state))"

lemma demo_state_reachable: "works.reachable demo_env demo_state"
  unfolding demo_state_def by (rule demo_reachable)

text \<open>What the history leaves, evaluated once.\<close>

definition demo_summary :: "work_sys \<Rightarrow> (string \<times> string) list \<times> (string \<times> run_status \<times> nat) list
    \<times> (nat \<times> string) list \<times> bool list" where
  "demo_summary s = (map work_key (db_works (sys_db s)),
     map (\<lambda>r. (r_id r, r_status r, r_fence r)) (db_runs (sys_db s)),
     map (\<lambda>e. (e_sequence e, e_type e)) (db_events (sys_db s)), map wk_invoked (sys_workers s))"

lemma demo_state_facts:
  "demo_summary demo_state =
   ([(''p1'', ''w1'')], [(demo_uuid CHR ''2'', InProgress, 1)],
    [(1, ''message''), (2, ''plan''), (3, ''model_dispatch'')], [True])"
  by code_simp

lemma demo_row_in: "demo_row \<in> set (db_works (sys_db demo_state))"
  and demo_row_key: "work_key demo_row = (''p1'', ''w1'')"
  and demo_run_in: "demo_run \<in> set (db_runs (sys_db demo_state))"
  using demo_state_facts by (auto simp: demo_summary_def demo_row_def demo_run_def)

end
