(* ===== verification/Work_Guarantees.thy ===== *)
theory Work_Guarantees
  imports Work_Scenario
begin

text \<open>
  What holds of the Work tables in every reachable state, whatever the interleaving of
  requests, processes, crashes and changes of other tables. Each statement is read off the
  invariant of the lifecycle through the simulation.
\<close>

section \<open>From the lifecycle to the tables\<close>

lemma reachable_inv:
  assumes "works.reachable h s"
  shows "work_inv s" "life_inv (life_of k s)" "lifecycle.reachable (life_of k s)"
proof -
  have "sys_inv s" and "lifecycle.reachable (life_of k s)"
    using work.sim_reachable [OF assms, of k] by blast+
  then show "work_inv s" "life_inv (life_of k s)" "lifecycle.reachable (life_of k s)"
    unfolding sys_inv_def by blast+
qed

lemma reachable_row:
  assumes "works.reachable h s" and "w \<in> set (db_works (sys_db s))"
  shows "find_unique work_key (work_key w) (db_works (sys_db s)) = Some w"
  using reachable_inv(1) [OF assms(1)] assms(2)
  by (intro find_unique_distinct) (simp_all add: work_inv_def tables_ok_def)

lemma row_view:
  assumes "works.reachable h s" and "w \<in> set (db_works (sys_db s))"
  shows "lf_tasks (life_of (work_key w) s) = s_tasks (w_state w)"
    and "lf_artifacts (life_of (work_key w) s) = s_artifacts (w_state w)"
    and "lf_calls (life_of (work_key w) s) = s_modelCallsUsed (w_state w)"
    and "lf_limit (life_of (work_key w) s) = s_modelCallLimit (w_state w)"
  unfolding life_of_row [OF reachable_row [OF assms]] by simp_all

definition work_log :: "work_id \<Rightarrow> work_sys \<Rightarrow> event_row list" where
  "work_log k s = filter (event_of k) (db_events (sys_db s))"

definition work_runs :: "work_id \<Rightarrow> work_sys \<Rightarrow> work_run list" where
  "work_runs k s = filter (run_of k) (db_runs (sys_db s))"

lemma log_of_work_log: "log_of k (sys_db s) = map (\<lambda>e. (e_commandKey e, e_type e)) (work_log k s)"
  by (simp add: log_of_def work_log_def)

lemma life_runs_work: "lf_runs (life_of k s) = work_runs k s"
  by (simp add: work_runs_def)

lemmas life_view = life_runs_work life_runs(2,3)

lemma run_in_work: "r \<in> set (db_runs (sys_db s)) \<Longrightarrow> r \<in> set (work_runs (r_projectId r, r_workId r) s)"
  by (simp add: work_runs_def run_of_def)

section \<open>The log\<close>

text \<open>
  C10. The revision of a Work counts its events: they are numbered from one without a gap,
  and no two carry the same command key.
\<close>

lemma revision_counts_events:
  assumes "works.reachable h s" and "w \<in> set (db_works (sys_db s))"
  shows "map e_sequence (work_log (work_key w) s) = [1..<Suc (w_revision w)]
    \<and> distinct (map e_commandKey (work_log (work_key w) s))"
proof -
  have "tables_ok (sys_db s)"
    using reachable_inv(1) [OF assms(1)] by (simp add: work_inv_def)
  then have "map e_sequence (work_log (work_key w) s) = [1..<Suc (w_revision w)]"
    using assms(2) by (simp add: tables_ok_def work_log_def)
  moreover have "distinct (map fst (log_of (work_key w) (sys_db s)))"
    using reachable_inv(2) [OF assms(1), of "work_key w"] by (simp add: life_inv_def log_ok_def)
  ultimately show ?thesis by (simp add: log_of_work_log comp_def)
qed

lemma revision_counts_events_witness:
  "map e_sequence (work_log (''p1'', ''w1'') demo_state) = [1..<Suc (w_revision demo_row)]
   \<and> map e_sequence (work_log (''p1'', ''w1'') demo_state) = [1, 2, 3]"
proof -
  have keys: "map work_key (db_works (sys_db demo_state)) = [(''p1'', ''w1'')]"
    and evs: "map (\<lambda>e. (e_sequence e, e_type e)) (db_events (sys_db demo_state)) =
      [(1, ''message''), (2, ''plan''), (3, ''model_dispatch'')]"
    using demo_state_facts unfolding demo_summary_def prod.inject by blast+
  have "event_of (''p1'', ''w1'') e" if "e \<in> set (db_events (sys_db demo_state))" for e
  proof -
    have "(e_projectId e, e_workId e) \<in> set (map work_key (db_works (sys_db demo_state)))"
      using reachable_inv(1) [OF demo_state_reachable] that by (simp add: work_inv_def tables_ok_def)
    then show ?thesis unfolding keys by (simp add: event_of_def)
  qed
  then have "filter (event_of (''p1'', ''w1'')) (db_events (sys_db demo_state)) = db_events (sys_db demo_state)"
    by simp
  moreover have "map e_sequence (db_events (sys_db demo_state)) = [1, 2, 3]"
    using arg_cong [OF evs, of "map fst"] by (simp add: comp_def)
  ultimately show ?thesis
    using revision_counts_events [OF demo_state_reachable demo_row_in]
    unfolding demo_row_key work_log_def by simp
qed

text \<open>
  C6. Model calls are accounted for: the calls a Work has used are exactly its dispatch
  events, and never more than its limit.
\<close>

lemma model_calls_accounted:
  assumes "works.reachable h s" and "w \<in> set (db_works (sys_db s))"
  shows "s_modelCallsUsed (w_state w) = count_rows (\<lambda>e. e_type e = ''model_dispatch'') (work_log (work_key w) s)
    \<and> s_modelCallsUsed (w_state w) \<le> s_modelCallLimit (w_state w)"
  using reachable_inv(2) [OF assms(1), of "work_key w"]
  unfolding life_inv_def log_ok_def row_view [OF assms] life_view log_of_work_log
  by (simp add: count_rows_def filter_map comp_def)

lemma model_calls_accounted_witness:
  "s_modelCallsUsed (w_state demo_row) = count_rows (\<lambda>e. e_type e = ''model_dispatch'') (work_log (work_key demo_row) demo_state)
    \<and> s_modelCallsUsed (w_state demo_row) \<le> s_modelCallLimit (w_state demo_row)"
  by (rule model_calls_accounted [OF demo_state_reachable demo_row_in])

section \<open>Executions\<close>

text \<open>
  C4. The tasks shown as running are exactly the tasks of the executions that are queued or
  running.
\<close>

lemma running_tasks_have_executions:
  assumes "works.reachable h s" and "w \<in> set (db_works (sys_db s))"
  shows "{t_id t | t. t \<in> set (s_tasks (w_state w)) \<and> t_status t = Running} =
    {i. \<exists>r\<in>set (work_runs (work_key w) s). r_taskId r = Some i \<and> r_status r \<in> {Queued, InProgress}}"
proof -
  have "running_ids (s_tasks (w_state w)) = bound_ids (set (work_runs (work_key w) s))"
    using reachable_inv(2) [OF assms(1), of "work_key w"]
    unfolding life_inv_def row_view [OF assms] life_view by blast
  then show ?thesis
    by (simp add: running_ids_def bound_ids_def active_def set_eq_iff image_iff) blast
qed

lemma running_tasks_have_executions_witness:
  "{t_id t | t. t \<in> set (s_tasks (w_state demo_row)) \<and> t_status t = Running} =
    {i. \<exists>r\<in>set (work_runs (''p1'', ''w1'') demo_state). r_taskId r = Some i \<and> r_status r \<in> {Queued, InProgress}}"
  using running_tasks_have_executions [OF demo_state_reachable demo_row_in] unfolding demo_row_key .

text \<open>
  C7. A task, and planning, has at most one execution that is open or whose outcome awaits a
  review.
\<close>

lemma one_open_execution:
  assumes "works.reachable h s" and "q \<in> set (db_runs (sys_db s))" and "r \<in> set (db_runs (sys_db s))"
    and "(r_projectId q, r_workId q) = (r_projectId r, r_workId r)" and "r_taskId q = r_taskId r"
    and "r_status q \<in> {Queued, InProgress, CancelRequested, OutcomeUnknown}"
    and "r_status r \<in> {Queued, InProgress, CancelRequested, OutcomeUnknown}"
  shows "q = r"
proof -
  let ?R = "set (work_runs (r_projectId r, r_workId r) s)"
  have "q \<in> ?R" "r \<in> ?R" using assms(2-4) by (simp_all add: work_runs_def run_of_def)
  moreover have "inj_on r_taskId {r \<in> ?R. unreviewed r}"
    using reachable_inv(2) [OF assms(1), of "(r_projectId r, r_workId r)"]
    unfolding life_inv_def runs_ok_def life_view by blast
  ultimately show ?thesis
    using assms(5-7) by (auto simp: inj_on_def unreviewed_def)
qed

lemma demo_run_status: "r_status demo_run = InProgress"
  using demo_state_facts by (auto simp: demo_summary_def demo_run_def)

lemma one_open_execution_witness: "demo_run = demo_run \<and> r_status demo_run = InProgress"
  using one_open_execution [OF demo_state_reachable demo_run_in demo_run_in refl refl] demo_run_status by simp

text \<open>
  C5. An execution asks the model at most once, and one that has not started, was stopped or
  is blocked never has.
\<close>

lemma one_model_call:
  assumes "works.reachable h s" and "r \<in> set (db_runs (sys_db s))"
  shows "dispatched (sys_db s) r \<le> 1
    \<and> (r_status r \<in> {Queued, Stopped, Blocked} \<longrightarrow> dispatched (sys_db s) r = 0)"
proof -
  let ?k = "(r_projectId r, r_workId r)"
  let ?es = "log_of ?k (sys_db s)" and ?R = "set (work_runs ?k s)"
  have inv: "life_inv (life_of ?k s)" using reachable_inv(2) [OF assms(1)] .
  have r: "r \<in> ?R" using assms(2) by (rule run_in_work)
  have runs: "runs_ok ?R (log_keys ?es)" and log: "distinct (map fst ?es)"
    "\<And>k ty. (k, ty) \<in> set ?es \<Longrightarrow> prefix ''tool:'' k \<Longrightarrow> \<exists>q\<in>?R. k = tool_key (r_id q) 1"
    using inv unfolding life_inv_def log_ok_def life_view by auto
  let ?p = "\<lambda>k. prefix (tool_prefix (r_id r)) k"
  have only: "k = tool_key (r_id r) 1" if k: "k \<in> set (map fst ?es)" "?p k" for k
  proof -
    obtain ty where "(k, ty) \<in> set ?es" using k(1) by auto
    then obtain q where q: "q \<in> ?R" "k = tool_key (r_id q) 1"
      using log(2) tool_prefix_tool [OF k(2)] by blast
    have "CHR '':'' \<notin> set (r_id r)" "CHR '':'' \<notin> set (r_id q)"
      using runs r q(1) by (auto simp: runs_ok_def)
    with q k(2) show ?thesis by (simp add: tool_key_prefix)
  qed
  have "dispatched (sys_db s) r = length (filter ?p (map fst ?es))"
    by (simp add: dispatched_def count_rows_def log_of_def event_of_def filter_map comp_def conj_assoc)
  also have "\<dots> = card (set (filter ?p (map fst ?es)))"
    using log(1) by (intro distinct_card [symmetric] distinct_filter)
  also have "\<dots> \<le> card {tool_key (r_id r) 1}"
    using only by (intro card_mono) auto
  finally have "dispatched (sys_db s) r \<le> 1" by simp
  moreover have "dispatched (sys_db s) r = 0" if "r_status r \<in> {Queued, Stopped, Blocked}"
    using runs r that sent_dispatched [of "sys_db s" r] by (auto simp: runs_ok_def)
  ultimately show ?thesis by blast
qed

lemma one_model_call_witness: "dispatched (sys_db demo_state) demo_run \<le> 1"
  using one_model_call [OF demo_state_reachable demo_run_in] by (rule conjunct1)

section \<open>Histories\<close>

lemma life_steps_runs:
  assumes "life_step\<^sup>*\<^sup>* L M" and "life_inv L" and "q \<in> set (lf_runs L)"
  shows "\<exists>q'\<in>set (lf_runs M). same_run q' q \<and> run_move\<^sup>*\<^sup>* (r_status q) (r_status q')"
  using assms(1)
proof (induction rule: rtranclp_induct)
  case base
  then show ?case using assms(3) same_run_refl by blast
next
  case (step M N)
  then obtain q' where q': "q' \<in> set (lf_runs M)" "same_run q' q" "run_move\<^sup>*\<^sup>* (r_status q) (r_status q')"
    by blast
  obtain q'' where "q'' \<in> set (lf_runs N)" "same_run q'' q'"
    "q'' = q' \<or> run_move (r_status q') (r_status q'')"
    using life_step_runs [OF step.hyps(2) life_steps_inv [OF step.hyps(1) assms(2)] q'(1)] by blast
  with q' show ?case by (metis rtranclp.rtrancl_into_rtrancl same_run_trans)
qed

text \<open>
  C9. An execution is never lost and keeps its task, its Agent, its input and its approval,
  and its status moves only along the state machine of executions.
\<close>

lemma executions_follow_machine:
  assumes "works.reachable h s" and "(work_step h)\<^sup>*\<^sup>* s s'" and "r \<in> set (db_runs (sys_db s))"
  shows "\<exists>r'\<in>set (db_runs (sys_db s')). same_run r' r \<and> run_move\<^sup>*\<^sup>* (r_status r) (r_status r')"
proof -
  let ?k = "(r_projectId r, r_workId r)"
  have "life_step\<^sup>*\<^sup>* (life_of ?k s) (life_of ?k s')"
    using work.sim_steps [OF assms(1,2)] .
  moreover have "r \<in> set (lf_runs (life_of ?k s))"
    using run_in_work [OF assms(3)] unfolding life_runs_work .
  ultimately obtain r' where "r' \<in> set (lf_runs (life_of ?k s'))" "same_run r' r"
    "run_move\<^sup>*\<^sup>* (r_status r) (r_status r')"
    using life_steps_runs reachable_inv(2) [OF assms(1)] by blast
  then show ?thesis by auto
qed

lemma executions_follow_machine_witness:
  "\<exists>r'\<in>set (db_runs (sys_db (performs demo_env [Op_crash 0] demo_state))).
     same_run r' demo_run \<and> run_move\<^sup>*\<^sup>* InProgress (r_status r')"
  using executions_follow_machine [OF demo_state_reachable performs_steps demo_run_in, of "[Op_crash 0]"]
  unfolding demo_run_status .

lemma life_steps_keep:
  assumes "life_step\<^sup>*\<^sup>* L M" and "life_inv L"
  shows "{t \<in> set (lf_tasks L). t_status t = Done} \<subseteq> set (lf_tasks M)
    \<and> {a \<in> set (lf_artifacts L). a_status a = Delivered} \<subseteq> set (lf_artifacts M)
    \<and> prefix (lf_log L) (lf_log M)"
  using assms(1)
proof (induction rule: rtranclp_induct)
  case (step M N)
  have "life_inv M" using life_steps_inv [OF step.hyps(1) assms(2)] .
  with step life_step_done [OF step.hyps(2)] life_step_delivered [OF step.hyps(2)]
    life_step_log [OF step.hyps(2)]
  show ?case by (auto intro: prefix_order.trans)
qed simp



section \<open>What a change needs\<close>

text \<open>
  C12. A command changes the tables only for an active member of the Project and of the Work,
  at the revision the caller has seen, and under a key that no event of the Work carries.
\<close>

lemma command_needs:
  assumes "snd (command h q raw db) \<noteq> db"
  shows "\<exists>cmd row. work_command_schema raw = Inr cmd
    \<and> lockWork db (rq_projectId q) (rq_workId q) = Inr row
    \<and> (\<exists>u. requireWorkProject db (rq_projectId q) (rq_userId q) = Inr u)
    \<and> (\<exists>st. work_state_schema (w_state row) = Inr st \<and> rq_userId q \<in> set (s_memberUserIds st))
    \<and> w_revision row = c_expectedRevision cmd
    \<and> find_unique command_key (rq_projectId q, rq_workId q, c_idempotencyKey cmd) (db_events db) = None"
proof -
  from assms obtain cmd dig db' where cmd: "work_command_schema raw = Inr cmd"
    and tx: "command_tx h q cmd dig db = Inr db'" and new: "db' \<noteq> db"
    unfolding command_def by (auto simp: res_simps split: sum.splits)
  from tx obtain u row st where "requireWorkProject db (rq_projectId q) (rq_userId q) = Inr u"
    and "lockWork db (rq_projectId q) (rq_workId q) = Inr row"
    and "work_state_schema (w_state row) = Inr st" and "rq_userId q \<in> set (s_memberUserIds st)"
    and rest: "(case find_unique command_key (rq_projectId q, rq_workId q, c_idempotencyKey cmd) (db_events db) of
       Some previous \<Rightarrow>
         res_bind (ensure (e_commandHash previous = dig) (conflict txt_command_key_reused)) (\<lambda>_. Inr db)
     | None \<Rightarrow>
         res_bind (ensure (w_revision row = c_expectedRevision cmd)
           (WorkError txt_revision_conflict 409 ''revision_conflict'')) (\<lambda>_.
         res_bind (apply_action h q u row st (c_idempotencyKey cmd) (c_action cmd) db)
           (\<lambda>(db1, st1, summary). appendWorkEvent (rq_now q) row st1
           \<lparr>in_key = c_idempotencyKey cmd, in_hash = dig, in_type = action_type (c_action cmd),
            in_summary = summary, in_actorId = rq_userId q, in_details = action_json (c_action cmd)\<rparr> db1))) = Inr db'"
    unfolding command_tx_def by (auto simp: res_simps)
  moreover from rest new have "w_revision row = c_expectedRevision cmd
      \<and> find_unique command_key (rq_projectId q, rq_workId q, c_idempotencyKey cmd) (db_events db) = None"
    by (auto simp: res_simps split: option.splits)
  ultimately show ?thesis using cmd by blast
qed

text \<open>
  C11. A result is published only for an execution that is running under the fence of its
  worker, before its lease and its approval end, with the approved input unchanged, and for a
  requester who still is an active member of the Project and of the Work.
\<close>

lemma publication_needs:
  assumes "finish h now newArtifactId newMessageId run result db = Inr db'"
  shows "\<exists>current\<in>set (db_runs db). r_id current = r_id run \<and> r_status current = InProgress
    \<and> r_fence current = r_fence run \<and> (\<exists>l. r_leaseUntil current = Some l \<and> now < l)
    \<and> now < r_approvalExpiresAt current
    \<and> work_hash h (run_input_json (r_input current)) = Inr (r_approvedHash current)
    \<and> (\<exists>row. workAccess db (r_projectId run) (r_workId run) (r_requestedBy run) = Inr row)"
proof -
  from assms obtain current row where cur: "run_row db (r_id run) = Inr current"
    and gate: "execution_gate h current (r_fence run) now = Inr ()"
    and acc: "workAccess db (r_projectId run) (r_workId run) (r_requestedBy run) = Inr row"
    by (auto simp: finish_def res_simps)
  have "current \<in> set (db_runs db)" "r_id current = r_id run"
    using cur by (auto simp: run_row_def dest: find_unique_in find_unique_key)
  with gate acc show ?thesis
    by (intro bexI [of _ current]) (auto simp: execution_gate_def res_simps split: option.splits)
qed

section \<open>A desk to evaluate on\<close>

definition desk_state :: "task_status \<Rightarrow> work_state" where
  "desk_state ts = (sample_state [sample_task ''A'' ts []])"

definition desk_row :: "task_status \<Rightarrow> work_row" where
  "desk_row ts = \<lparr>w_projectId = ''p1'', w_id = ''w1'', w_createdBy = ''u1'', w_creationKey = ''k'',
     w_revision = 0, w_state = desk_state ts, w_updatedAt = 1\<rparr>"

definition desk_input :: run_input where
  "desk_input = \<lparr>i_sourceMessageId = ''m0'', i_intent = ''go'', i_history = [], i_dependencyArtifacts = [],
     i_goal = ''goal'', i_task = None, i_tasks = [], i_agents = [], i_versionId = ''v1'', i_contextHash = ''c''\<rparr>"

definition desk_run :: "run_status \<Rightarrow> work_run" where
  "desk_run rs = \<lparr>r_id = ''r1'', r_projectId = ''p1'', r_workId = ''w1'', r_taskId = Some ''A'', r_instanceId = ''x1'',
     r_requestedBy = ''u1'', r_kind = ExecuteRun, r_status = rs, r_reason = None, r_input = desk_input,
     r_approvedHash = (case work_hash demo_env (run_input_json desk_input) of Inl _ \<Rightarrow> [] | Inr d \<Rightarrow> d),
     r_approvalExpiresAt = 900, r_planRevision = 1, r_fence = 1, r_leaseUntil = Some 90, r_startedAt = Some 1,
     r_finishedAt = None, r_createdAt = 1\<rparr>"

definition desk_db :: "task_status \<Rightarrow> run_status \<Rightarrow> work_db" where
  "desk_db ts rs = demo_db\<lparr>db_works := [desk_row ts], db_runs := [desk_run rs]\<rparr>"

definition desk_statuses :: "work_db \<Rightarrow> task_status list" where
  "desk_statuses db = concat (map (\<lambda>w. map t_status (s_tasks (w_state w))) (db_works db))"

definition desk_view :: "work_command" where
  "desk_view = \<lparr>c_idempotencyKey = demo_uuid CHR ''1'', c_expectedRevision = 0, c_action = A_view Chat\<rparr>"

lemma desk_view_changes: "snd (command demo_env (demo_request 2 CHR ''1'') desk_view (desk_db Todo Stopped)) \<noteq> desk_db Todo Stopped"
proof
  assume "snd (command demo_env (demo_request 2 CHR ''1'') desk_view (desk_db Todo Stopped)) = desk_db Todo Stopped"
  moreover have "length (db_events (snd (command demo_env (demo_request 2 CHR ''1'') desk_view (desk_db Todo Stopped)))) = 1"
    by code_simp
  ultimately show False by (simp add: desk_db_def demo_db_def)
qed

lemma command_needs_witness:
  "\<exists>u. requireWorkProject (desk_db Todo Stopped) ''p1'' ''u1'' = Inr u"
  using command_needs [OF desk_view_changes] by (auto simp: demo_request_def)

lemma desk_finish:
  "\<not> isl (finish demo_env 5 ''a1'' ''m1'' (desk_run InProgress)
     (DraftResult \<lparr>d_title = ''D'', d_content = ''text'', d_evidence = ''e''\<rparr>) (desk_db Running InProgress))"
  by code_simp

lemma publication_needs_witness:
  "work_hash demo_env (run_input_json desk_input) = Inr (r_approvedHash (desk_run InProgress))"
proof -
  obtain db' where "finish demo_env 5 ''a1'' ''m1'' (desk_run InProgress)
     (DraftResult \<lparr>d_title = ''D'', d_content = ''text'', d_evidence = ''e''\<rparr>) (desk_db Running InProgress) = Inr db'"
    using desk_finish by (cases "finish demo_env 5 ''a1'' ''m1'' (desk_run InProgress)
     (DraftResult \<lparr>d_title = ''D'', d_content = ''text'', d_evidence = ''e''\<rparr>) (desk_db Running InProgress)") auto
  from publication_needs [OF this] show ?thesis
    by (simp add: desk_db_def desk_run_def)
qed

section \<open>A cancelled task that comes back\<close>


end
