(* ===== verification/Http_Responses.thy ===== *)
theory Http_Responses
  imports Prelude
begin

text \<open>
  \<open>http/responses.ts\<close> and \<open>http/problem-error.ts\<close>: the problem document every failed request
  gets. An error without a status of its own is classified by its message, with the regular
  expressions of the source as case-insensitive searches for their alternatives.
\<close>

section \<open>Problem documents\<close>

record problem_authorization =
  pa_capability :: "string option"
  pa_decision :: string
  pa_policyId :: "string option"
  pa_reason :: "string option"

record problem =
  pr_type :: string
  pr_title :: string
  pr_status :: nat
  pr_detail :: string
  pr_code :: string
  pr_authorization :: "problem_authorization option"

definition problemTitles :: "(nat \<times> string) list" where
  "problemTitles =
     [(400, ''Invalid request''), (401, ''Authentication required''), (403, ''Access denied''),
      (404, ''Resource not found''), (409, ''Conflict''), (429, ''Too many requests''),
      (500, ''Internal server error''), (503, ''Service unavailable'')]"

definition problemCodes :: "(nat \<times> string) list" where
  "problemCodes =
     [(400, ''invalid_request''), (401, ''authentication_required''), (403, ''access_denied''),
      (404, ''resource_not_found''), (409, ''conflict''), (429, ''rate_limit_exceeded''),
      (500, ''internal_error''), (503, ''service_unavailable'')]"

definition problemResponse ::
  "nat \<Rightarrow> string \<Rightarrow> string option \<Rightarrow> problem_authorization option \<Rightarrow> problem" where
  "problemResponse status detail code authorization =
     (let c = (case code of Some c \<Rightarrow> c | None \<Rightarrow>
         (case map_of problemCodes status of Some c \<Rightarrow> c | None \<Rightarrow> ''request_failed''))
      in \<lparr>pr_type = ''urn:tali:problem:'' @ c,
          pr_title = (case map_of problemTitles status of Some x \<Rightarrow> x | None \<Rightarrow> ''Request failed''),
          pr_status = status, pr_detail = detail, pr_code = c, pr_authorization = authorization\<rparr>)"

section \<open>Classification by message\<close>

definition lower_char :: "char \<Rightarrow> char" where
  "lower_char c = (let n = of_char c in if (65::nat) \<le> n \<and> n \<le> 90 then char_of (n + 32) else c)"

text \<open>A search that ignores the case of ASCII letters.\<close>

definition mentions :: "string \<Rightarrow> string \<Rightarrow> bool" where
  "mentions message needle \<longleftrightarrow> sublist (map lower_char needle) (map lower_char message)"

definition conflict_words :: "string list" where
  "conflict_words =
     [''Consumer'', ''in use'', ''already exists'', ''already connected'', ''connected to a Coordinator'',
      ''cannot delegate'', ''does not accept delegated'', ''Only a READY Agent'',
      ''managed by TaskLattice Relay'', ''immutable'', ''digest does not match'', ''cannot be changed'',
      ''default Model Routing'', ''compliance'', ''suspended'', ''READY Model Routing'', ''Multiple default'',
      ''quota exceeded'', ''Online SSO changes require'']"

definition statusForMessage :: "string \<Rightarrow> nat" where
  "statusForMessage message =
     (if mentions message ''not found'' then 404
      else if list_ex (mentions message) [''access denied'', ''do not have permission''] then 403
      else if list_ex (mentions message) [''Invalid '', ''must be'', ''required when'', ''before end_time''] then 400
      else if list_ex (mentions message) conflict_words then 409
      else if list_ex (mentions message)
        [''LiteLLM'', ''gateway is unavailable'', ''SMTP'', ''invitation delivery'', ''OIDC discovery'', ''OIDC JWKS'']
      then 503 else 500)"

text \<open>The message of a failed schema parse and of the database errors is that of their library.\<close>

definition failure_problem :: "(failure \<Rightarrow> string) \<Rightarrow> failure \<Rightarrow> problem" where
  "failure_problem message e =
     (case e of
        ProblemError status code m \<Rightarrow> problemResponse status m (Some code) None
      | SchemaError \<Rightarrow> problemResponse 400 (message e) (Some ''validation_failed'') None
      | WorkError m status code \<Rightarrow>
          if 400 \<le> status \<and> status \<le> 599 then problemResponse status m (Some code) None
          else problemResponse (statusForMessage m) m None None
      | PlainError m \<Rightarrow> problemResponse (statusForMessage m) m None None
      | TypeError m \<Rightarrow> problemResponse (statusForMessage m) m None None
      | RecordNotFound \<Rightarrow> problemResponse (statusForMessage (message e)) (message e) None None
      | UniqueViolation \<Rightarrow> problemResponse (statusForMessage (message e)) (message e) None None)"

definition unauthorizedResponse :: "(failure \<Rightarrow> string) \<Rightarrow> failure \<Rightarrow> problem" where
  "unauthorizedResponse message e = problemResponse 401
     (case e of ProblemError _ _ m \<Rightarrow> m | WorkError m _ _ \<Rightarrow> m | PlainError m \<Rightarrow> m | TypeError m \<Rightarrow> m
      | _ \<Rightarrow> message e) None None"

text \<open>An error that states its status keeps it; only the others are classified.\<close>

lemma stated_status:
  "pr_status (failure_problem message (ProblemError s c m)) = s"
  "400 \<le> s \<Longrightarrow> s \<le> 599 \<Longrightarrow> pr_status (failure_problem message (WorkError m s c)) = s"
  by (simp_all add: failure_problem_def problemResponse_def Let_def)

lemma status_range: "statusForMessage m \<in> {400, 403, 404, 409, 500, 503}"
  by (simp add: statusForMessage_def)

end
