(* ===== verification/Urls.thy ===== *)
theory Urls
  imports Prelude
begin

text \<open>
  What the routing code uses of the language on URL paths: splitting at a separator, the
  decoding of percent escapes by \<open>decodeURIComponent\<close> (ECMA-262, 19.2.6.5, which throws on
  a malformed escape), the upper case of a method and the parts of a request the code reads.
\<close>

section \<open>Splitting\<close>

fun split_on :: "char \<Rightarrow> string \<Rightarrow> string list" where
  "split_on c [] = [[]]"
| "split_on c (x # xs) =
     (if x = c then [] # split_on c xs
      else (case split_on c xs of [] \<Rightarrow> [[x]] | y # ys \<Rightarrow> (x # y) # ys))"

lemma split_on_nonempty [simp]: "split_on c s \<noteq> []"
  by (induction s) (auto split: list.splits)

lemma split_on_free: "x \<in> set (split_on c s) \<Longrightarrow> c \<notin> set x"
  by (induction s arbitrary: x) (auto split: if_splits list.splits)

text \<open>The characters \<open>.\<close> of a regular expression does not match.\<close>

definition line_terminators :: "string list" where
  "line_terminators = [[CHR 0x0A], [CHR 0x0D], [CHR 0xE2, CHR 0x80, CHR 0xA8], [CHR 0xE2, CHR 0x80, CHR 0xA9]]"

definition has_line_terminator :: "string \<Rightarrow> bool" where
  "has_line_terminator s \<longleftrightarrow> list_ex (\<lambda>l. sublist l s) line_terminators"

definition upper_char :: "char \<Rightarrow> char" where
  "upper_char c = (let n = of_char c in if (97::nat) \<le> n \<and> n \<le> 122 then char_of (n - 32) else c)"

text \<open>The upper case of an ASCII token, which a method is.\<close>

definition to_upper :: "string \<Rightarrow> string" where
  "to_upper s = map upper_char s"

section \<open>Percent escapes\<close>

definition hex_value :: "char \<Rightarrow> nat option" where
  "hex_value c = (let n = of_char c in
     if 48 \<le> n \<and> n \<le> 57 then Some (n - 48)
     else if 65 \<le> n \<and> n \<le> 70 then Some (n - 55)
     else if 97 \<le> n \<and> n \<le> 102 then Some (n - 87)
     else None)"

text \<open>The next \<open>n\<close> octets, each written as an escape.\<close>

fun percent_bytes :: "nat \<Rightarrow> string \<Rightarrow> (nat list \<times> string) option" where
  "percent_bytes n s =
     (if n = 0 then Some ([], s)
      else case s of
        p # a # b # u \<Rightarrow>
          if p \<noteq> CHR ''%'' then None
          else (case (hex_value a, hex_value b, percent_bytes (n - 1) u) of
                  (Some x, Some y, Some (bs, r)) \<Rightarrow> Some ((16 * x + y) # bs, r)
                | _ \<Rightarrow> None)
      | _ \<Rightarrow> None)"

declare percent_bytes.simps [simp del]

lemma percent_bytes_length: "percent_bytes n s = Some (bs, r) \<Longrightarrow> length s = length r + 3 * n"
proof (induction n s arbitrary: bs r rule: percent_bytes.induct)
  case (1 n s)
  then show ?case
    by (fastforce simp: percent_bytes.simps [of n s] split: if_splits option.splits list.splits prod.splits)
qed

text \<open>The octets a first octet announces, and whether octets are the encoding of one code point.\<close>

definition sequence_length :: "nat \<Rightarrow> nat" where
  "sequence_length b = (if b < 192 then 1 else if b < 224 then 2 else if b < 240 then 3 else 4)"

definition utf8_sequence :: "nat list \<Rightarrow> bool" where
  "utf8_sequence bs =
     (case bs of
        [a] \<Rightarrow> a < 128
      | [a, b] \<Rightarrow> 194 \<le> a \<and> a < 224 \<and> b div 64 = 2
      | [a, b, c] \<Rightarrow> 224 \<le> a \<and> a < 240 \<and> b div 64 = 2 \<and> c div 64 = 2
          \<and> (a = 224 \<longrightarrow> 160 \<le> b) \<and> (a = 237 \<longrightarrow> b < 160)
      | [a, b, c, d] \<Rightarrow> 240 \<le> a \<and> a < 245 \<and> b div 64 = 2 \<and> c div 64 = 2 \<and> d div 64 = 2
          \<and> (a = 240 \<longrightarrow> 144 \<le> b) \<and> (a = 244 \<longrightarrow> b < 144)
      | _ \<Rightarrow> False)"

definition uri_error :: failure where
  "uri_error = PlainError ''URI malformed''"

lemma sequence_length_pos: "0 < sequence_length b"
  by (simp add: sequence_length_def)

lemma percent_bytes_shorter:
  "percent_bytes (sequence_length b) s = Some (bs, r) \<Longrightarrow> length r < length s"
  using percent_bytes_length [of "sequence_length b" s bs r] sequence_length_pos [of b] by linarith

function decodeURIComponent :: "string \<Rightarrow> string res" where
  "decodeURIComponent [] = Inr []"
| "decodeURIComponent (c # s) =
     (if c \<noteq> CHR ''%'' then res_bind (decodeURIComponent s) (\<lambda>u. Inr (c # u))
      else case percent_bytes 1 (c # s) of
        None \<Rightarrow> Inl uri_error
      | Some (b, _) \<Rightarrow>
          (case percent_bytes (sequence_length (hd b)) (c # s) of
             None \<Rightarrow> Inl uri_error
           | Some (bs, r) \<Rightarrow>
               if utf8_sequence bs then res_bind (decodeURIComponent r) (\<lambda>u. Inr (map char_of bs @ u))
               else Inl uri_error))"
  by pat_completeness auto
termination
  by (relation "measure length") (auto dest: percent_bytes_shorter)

declare decodeURIComponent.simps(2) [simp del]

text \<open>A string without escapes is its own decoding; a decoded string is not empty.\<close>

lemma decode_plain: "CHR ''%'' \<notin> set s \<Longrightarrow> decodeURIComponent s = Inr s"
  by (induction s) (auto simp: decodeURIComponent.simps(2))

lemma percent_bytes_nonempty: "percent_bytes n s = Some (bs, r) \<Longrightarrow> length bs = n"
proof (induction n s arbitrary: bs r rule: percent_bytes.induct)
  case (1 n s)
  then show ?case
    by (fastforce simp: percent_bytes.simps [of n s] split: if_splits option.splits list.splits prod.splits)
qed

lemma decode_nonempty: "decodeURIComponent s = Inr u \<Longrightarrow> s \<noteq> [] \<Longrightarrow> u \<noteq> []"
proof (cases s)
  case (Cons c t)
  then show "decodeURIComponent s = Inr u \<Longrightarrow> u \<noteq> []"
    by (auto simp: utf8_sequence_def decodeURIComponent.simps(2) res_simps dest!: percent_bytes_nonempty
        split: if_splits option.splits)
qed simp

section \<open>Requests\<close>

text \<open>
  The parts of a request the code reads: the method, the path of its URL as the platform's
  URL parser gives it, and the parsed query.
\<close>

record http_request =
  rq_method :: string
  rq_pathname :: string
  rq_query :: "(string \<times> string) list"

definition search_param :: "http_request \<Rightarrow> string \<Rightarrow> string option" where
  "search_param r k = map_of (rq_query r) k"

definition projects_prefix :: string where
  "projects_prefix = ''/api/v1/projects/''"

text \<open>The match of \<open>/^\/api\/v1\/projects\/([^/]+)(?:\/|$)/\<close>: the Project segment and what follows it.\<close>

definition project_match :: "string \<Rightarrow> (string \<times> string) option" where
  "project_match pathname =
     (if prefix projects_prefix pathname then
        (let rest = drop (length projects_prefix) pathname;
             first = takeWhile (\<lambda>c. c \<noteq> CHR ''/'') rest
         in if first = [] then None else Some (first, dropWhile (\<lambda>c. c \<noteq> CHR ''/'') rest))
      else None)"

lemma take_free:
  assumes "c \<notin> set p" and "rest = [] \<or> hd rest = c"
  shows "takeWhile (\<lambda>x. x \<noteq> c) (p @ rest) = p" and "dropWhile (\<lambda>x. x \<noteq> c) (p @ rest) = rest"
  using assms by (induction p) (auto, (cases rest; simp)+)

lemma project_match_path:
  assumes "CHR ''/'' \<notin> set p" and "p \<noteq> []" and "rest = [] \<or> hd rest = CHR ''/''"
  shows "project_match (projects_prefix @ p @ rest) = Some (p, rest)"
  using assms(2) by (simp add: project_match_def Let_def take_free [OF assms(1,3)])

end
