(* ===== verification/Admission.thy ===== *)
theory Admission
  imports Http_Responses Urls Project_Access
begin

text \<open>
  \<open>authorization/admission-control.ts\<close> and \<open>authorization/authorization-context.ts\<close>: the
  decision over one capability, the evidence a request collects, and the service that looks
  up the membership and the role definitions.
\<close>

section \<open>Evidence\<close>

record admission_evidence =
  ev_actorId :: string
  ev_capability :: string
  ev_decision :: decision
  ev_projectId :: string
  ev_reason :: string
  ev_relation :: string
  ev_resourceId :: "string option"
  ev_resourceType :: string
  ev_roleId :: "string option"
  ev_policyId :: "string option"

text \<open>What a request carries along: the evidence in order, and whether admission is complete.\<close>

record request_context =
  rc_complete :: bool
  rc_evidence :: "admission_evidence list"

definition appendAdmissionEvidence :: "request_context \<Rightarrow> admission_evidence \<Rightarrow> request_context" where
  "appendAdmissionEvidence ctx ev = ctx\<lparr>rc_evidence := rc_evidence ctx @ [ev]\<rparr>"

definition admissionEvidenceForRequest :: "request_context \<Rightarrow> admission_evidence list" where
  "admissionEvidenceForRequest ctx = rc_evidence ctx"

definition markProjectAdmissionComplete :: "request_context \<Rightarrow> request_context" where
  "markProjectAdmissionComplete ctx = ctx\<lparr>rc_complete := True\<rparr>"

definition isProjectAdmissionComplete :: "request_context \<Rightarrow> bool" where
  "isProjectAdmissionComplete ctx = rc_complete ctx"

definition decisiveAdmissionEvidence :: "admission_evidence list \<Rightarrow> admission_evidence option" where
  "decisiveAdmissionEvidence evs =
     (case find (\<lambda>e. ev_decision e = DENY) evs of
        Some e \<Rightarrow> Some e
      | None \<Rightarrow>
          (case find (\<lambda>e. ev_decision e = APPROVAL_REQUIRED) evs of
             Some e \<Rightarrow> Some e
           | None \<Rightarrow> (case evs of [] \<Rightarrow> None | e # _ \<Rightarrow> Some e)))"

definition ownerFilterForCapability :: "request_context \<Rightarrow> string \<Rightarrow> string option" where
  "ownerFilterForCapability ctx capability =
     (case find (\<lambda>e. ev_capability e = capability \<and> ev_decision e = ALLOW)
         (rev (admissionEvidenceForRequest ctx)) of
        None \<Rightarrow> None
      | Some e \<Rightarrow> if ev_roleId e = Some ''ROLE_AGENT_DEVELOPER'' \<and> ev_relation e = ''OWNER''
          then Some (ev_actorId e) else None)"

section \<open>The decision\<close>

record admission_input =
  ai_actorId :: string
  ai_capability :: string
  ai_explicitDeny :: bool
  ai_projectId :: string
  ai_relation :: "string option"
  ai_requireApproval :: bool
  ai_resourceId :: "string option"
  ai_resourceType :: string
  ai_roleIds :: "string list"

definition relationCovered :: "string list \<Rightarrow> string \<Rightarrow> bool" where
  "relationCovered granted requested \<longleftrightarrow> ''PROJECT_ANY'' \<in> set granted \<or> requested \<in> set granted"

definition requested_relation :: "admission_input \<Rightarrow> string" where
  "requested_relation i = (case ai_relation i of None \<Rightarrow> ''PROJECT_ANY'' | Some r \<Rightarrow> r)"

definition admission_result ::
  "admission_input \<Rightarrow> decision \<Rightarrow> string \<Rightarrow> string option \<Rightarrow> string option \<Rightarrow> admission_evidence" where
  "admission_result i d reason roleId policyId =
     \<lparr>ev_actorId = ai_actorId i, ev_capability = ai_capability i, ev_decision = d,
      ev_projectId = ai_projectId i, ev_reason = reason, ev_relation = requested_relation i,
      ev_resourceId = (if given (ai_resourceId i) then ai_resourceId i else None),
      ev_resourceType = ai_resourceType i,
      ev_roleId = (if given roleId then roleId else None),
      ev_policyId = (if given policyId then policyId else None)\<rparr>"

text \<open>The definitions by identifier: in a \<open>Map\<close> the last one of an identifier counts.\<close>

definition definition_of :: "role_view list \<Rightarrow> string \<Rightarrow> role_view option" where
  "definition_of defs i = find_unique v_id i (rev defs)"

definition grants_capability :: "role_view list \<Rightarrow> string \<Rightarrow> string \<Rightarrow> bool" where
  "grants_capability defs c i =
     (case definition_of defs i of
        None \<Rightarrow> False | Some d \<Rightarrow> list_ex (\<lambda>g. cg_capability g = c) (v_grants d))"

definition grants_relation :: "role_view list \<Rightarrow> string \<Rightarrow> string \<Rightarrow> string \<Rightarrow> bool" where
  "grants_relation defs c rel i =
     (case definition_of defs i of
        None \<Rightarrow> False
      | Some d \<Rightarrow> list_ex (\<lambda>g. cg_capability g = c \<and> relationCovered (cg_relations g) rel) (v_grants d))"

definition evaluateAdmission :: "admission_input \<Rightarrow> role_view list \<Rightarrow> admission_evidence" where
  "evaluateAdmission i defs =
     (if ai_explicitDeny i then
        admission_result i DENY ''An explicit policy denied this request.'' None None
      else if ai_roleIds i = [] then
        admission_result i DENY ''The actor has no Project role binding.'' None None
      else
        (let rel = requested_relation i; c = ai_capability i in
         case find (grants_capability defs c) (ai_roleIds i) of
           None \<Rightarrow> admission_result i DENY (''No bound role grants '' @ c @ ''.'') None None
         | Some capabilityRole \<Rightarrow>
             (case find (grants_relation defs c rel) (ai_roleIds i) of
                None \<Rightarrow> admission_result i DENY
                    (''The grant does not cover resource relation '' @ rel @ ''.'') (Some capabilityRole) None
              | Some relationRole \<Rightarrow>
                  if ai_requireApproval i then
                    (if \<not> list_ex (grants_relation defs ''CAP_APPROVAL_REQUEST_SUBMIT'' rel) (ai_roleIds i) then
                       admission_result i DENY
                         (''The actor may not submit the approval required for '' @ c @ ''.'')
                         (Some relationRole) None
                     else admission_result i APPROVAL_REQUIRED
                       (c @ '' requires an approved governed change.'') (Some relationRole)
                       (Some ''builtin:governed-change''))
                  else admission_result i ALLOW
                    (relationRole @ '' grants '' @ c @ '' for '' @ rel @ ''.'') (Some relationRole) None)))"

section \<open>The service\<close>

text \<open>What a denied admission throws carries its evidence.\<close>

datatype admission_error =
    CapabilityAdmissionError admission_evidence
  | OtherFailure failure

definition admission_message :: "admission_evidence \<Rightarrow> string" where
  "admission_message ev =
     (if ev_decision ev = APPROVAL_REQUIRED then ''Approval required for '' @ ev_capability ev @ ''.''
      else ''Access denied: '' @ ev_capability ev @ '' is not granted.'')"

definition projectIdFromRequest :: "http_request \<Rightarrow> string res" where
  "projectIdFromRequest request =
     (case project_match (rq_pathname request) of
        None \<Rightarrow> Inl (PlainError ''Project scope is required in the request path.'')
      | Some (p, _) \<Rightarrow> decodeURIComponent p)"

text \<open>The match of \<open>/^\/api\/v1\/projects\/[^/]+\/costs\/[^/]+$/\<close>.\<close>

definition is_cost_path :: "string \<Rightarrow> bool" where
  "is_cost_path pathname =
     (case project_match pathname of
        None \<Rightarrow> False
      | Some (_, rest) \<Rightarrow> prefix ''/costs/'' rest \<and> rest \<noteq> ''/costs/'' \<and> CHR ''/'' \<notin> set (drop 7 rest))"

text \<open>Which role a session may act in: none at all when it has selected another access.\<close>

datatype preferred_role = NoRole | AnyRole | PreferRole project_role

definition preferred_option :: "preferred_role \<Rightarrow> project_role option" where
  "preferred_option p = (case p of PreferRole r \<Rightarrow> Some r | _ \<Rightarrow> None)"

definition bound_roles :: "member_row list \<Rightarrow> string \<Rightarrow> string \<Rightarrow> preferred_role \<Rightarrow> string list" where
  "bound_roles members projectId actorId preferred =
     (case find_unique member_key (projectId, actorId) members of
        None \<Rightarrow> []
      | Some m \<Rightarrow>
          if membershipHasAccess (mr_membership m) \<and> \<not> pv_deleted (mr_project m) \<and> preferred \<noteq> NoRole
          then activeBuiltinRoleIds (mr_membership m) (preferred_option preferred) else [])"

definition personal_cost_read ::
  "(string \<Rightarrow> string) \<Rightarrow> member_row list \<Rightarrow> http_request \<Rightarrow> string \<Rightarrow> string \<Rightarrow> string list \<Rightarrow>
     admission_evidence \<Rightarrow> bool" where
  "personal_cost_read dig members request projectId actorId roleIds ev \<longleftrightarrow>
     ev_decision ev = DENY \<and> roleIds \<noteq> [] \<and> rq_method request = ''GET''
     \<and> is_cost_path (rq_pathname request)
     \<and> ev_capability ev \<in> {''CAP_COST_VIEW'', ''CAP_USAGE_DATA_QUALITY_VIEW''}
     \<and> ownsPersonalProject dig members projectId actorId"

record requirement_options =
  ro_relation :: "string option"
  ro_resourceId :: "string option"
  ro_resourceType :: string

text \<open>The state an admission reads and leaves: the role tables and the context of the request.\<close>

record admission_state =
  as_roles :: role_db
  as_context :: request_context

definition authorize ::
  "(string \<Rightarrow> string) \<Rightarrow> configured_catalog \<Rightarrow> member_row list \<Rightarrow> http_request \<Rightarrow> string \<Rightarrow> string \<Rightarrow>
     requirement_options \<Rightarrow> preferred_role \<Rightarrow> admission_state \<Rightarrow>
     (admission_error + admission_evidence) \<times> admission_state" where
  "authorize dig cat members request actorId capability opts preferred st =
     (case projectIdFromRequest request of
        Inl e \<Rightarrow> (Inl (OtherFailure e), st)
      | Inr projectId \<Rightarrow>
          (let roleIds = bound_roles members projectId actorId preferred in
           case roles cat roleIds (as_roles st) of
             Inl e \<Rightarrow> (Inl (OtherFailure e), st)
           | Inr (defs, db) \<Rightarrow>
               (let ev = evaluateAdmission \<lparr>ai_actorId = actorId, ai_capability = capability,
                      ai_explicitDeny = False, ai_projectId = projectId, ai_relation = ro_relation opts,
                      ai_requireApproval = False, ai_resourceId = ro_resourceId opts,
                      ai_resourceType = ro_resourceType opts, ai_roleIds = roleIds\<rparr> defs;
                    ev' = (if personal_cost_read dig members request projectId actorId roleIds ev
                      then ev\<lparr>ev_decision := ALLOW, ev_policyId := Some ''personal-owner:cost-read'',
                        ev_reason := ''The active personal Project owner may read their own usage and cost.''\<rparr>
                      else ev);
                    st' = st\<lparr>as_roles := db, as_context := appendAdmissionEvidence (as_context st) ev'\<rparr>
                in if ev_decision ev' \<noteq> ALLOW then (Inl (CapabilityAdmissionError ev'), st')
                   else (Inr ev', st'))))"

definition responseForError :: "(failure \<Rightarrow> string) \<Rightarrow> admission_error \<Rightarrow> problem" where
  "responseForError message e =
     (case e of
        CapabilityAdmissionError ev \<Rightarrow>
          if ev_decision ev = ALLOW
          then problemResponse (statusForMessage (admission_message ev)) (admission_message ev) None None
          else problemResponse 403 (admission_message ev)
            (Some (if ev_decision ev = APPROVAL_REQUIRED then ''approval_required'' else ''capability_denied''))
            (Some \<lparr>pa_capability = (if ev_capability ev \<noteq> [] then Some (ev_capability ev) else None),
                pa_decision = (if ev_decision ev = DENY then ''DENY'' else ''APPROVAL_REQUIRED''),
                pa_policyId = ev_policyId ev,
                pa_reason = (if ev_reason ev \<noteq> [] then Some (ev_reason ev) else None)\<rparr>)
      | OtherFailure f \<Rightarrow> failure_problem message f)"

section \<open>What a decision means\<close>

lemma find_Some_ex: "find P xs \<noteq> None \<longleftrightarrow> (\<exists>x\<in>set xs. P x)"
  by (auto simp: find_None_iff)

lemma find_SomeD: "find P xs = Some x \<Longrightarrow> P x \<and> x \<in> set xs"
  by (auto simp: find_Some_iff)

lemma grants_relation_capability: "grants_relation defs c rel i \<Longrightarrow> grants_capability defs c i"
  by (auto simp: grants_relation_def grants_capability_def list_ex_iff split: option.splits)

lemma ev_result [simp]:
  "ev_decision (admission_result i d reason r p) = d"
  "ev_capability (admission_result i d reason r p) = ai_capability i"
  "ev_relation (admission_result i d reason r p) = requested_relation i"
  "ev_actorId (admission_result i d reason r p) = ai_actorId i"
  by (simp_all add: admission_result_def)

text \<open>The evidence names the request it is about.\<close>

lemma evaluate_echo:
  "ev_capability (evaluateAdmission i defs) = ai_capability i"
  "ev_relation (evaluateAdmission i defs) = requested_relation i"
  "ev_actorId (evaluateAdmission i defs) = ai_actorId i"
  by (simp_all add: evaluateAdmission_def Let_def split: option.split)

lemma evaluate_decision:
  "ev_decision (evaluateAdmission i defs) =
     (if ai_explicitDeny i
        \<or> \<not> list_ex (grants_relation defs (ai_capability i) (requested_relation i)) (ai_roleIds i) then DENY
      else if \<not> ai_requireApproval i then ALLOW
      else if list_ex (grants_relation defs ''CAP_APPROVAL_REQUEST_SUBMIT'' (requested_relation i)) (ai_roleIds i)
      then APPROVAL_REQUIRED else DENY)"
proof (cases "find (grants_relation defs (ai_capability i) (requested_relation i)) (ai_roleIds i)")
  case None
  then have "\<not> list_ex (grants_relation defs (ai_capability i) (requested_relation i)) (ai_roleIds i)"
    by (auto simp: find_None_iff list_ex_iff)
  with None show ?thesis
    by (simp add: evaluateAdmission_def Let_def split: option.split)
next
  case (Some r)
  then have r: "r \<in> set (ai_roleIds i)" "grants_relation defs (ai_capability i) (requested_relation i) r"
    by (auto simp: find_Some_iff)
  have "find (grants_capability defs (ai_capability i)) (ai_roleIds i) \<noteq> None"
    using r(1) grants_relation_capability [OF r(2)] unfolding find_Some_ex by blast
  then obtain c where "find (grants_capability defs (ai_capability i)) (ai_roleIds i) = Some c"
    by blast
  moreover have "list_ex (grants_relation defs (ai_capability i) (requested_relation i)) (ai_roleIds i)"
    using r by (auto simp: list_ex_iff)
  moreover have "ai_roleIds i \<noteq> []"
    using r(1) by auto
  ultimately show ?thesis
    using Some by (simp add: evaluateAdmission_def Let_def)
qed

lemma evaluate_allow:
  "ev_decision (evaluateAdmission i defs) = ALLOW \<longleftrightarrow> \<not> ai_explicitDeny i \<and> \<not> ai_requireApproval i
     \<and> list_ex (grants_relation defs (ai_capability i) (requested_relation i)) (ai_roleIds i)"
  by (simp add: evaluate_decision)

text \<open>
  A request is allowed exactly if nothing denies it, no approval is asked for and one of
  the actor's roles has a grant of that very capability that covers the relation; with approval
  asked for it is never allowed, and needs besides a grant to submit the approval. A wildcard
  relation of one grant does not help another capability.
\<close>

lemma admission_decision:
  "ev_decision (evaluateAdmission i defs) =
     (if ai_explicitDeny i
        \<or> \<not> list_ex (grants_relation defs (ai_capability i) (requested_relation i)) (ai_roleIds i) then DENY
      else if \<not> ai_requireApproval i then ALLOW
      else if list_ex (grants_relation defs ''CAP_APPROVAL_REQUEST_SUBMIT'' (requested_relation i)) (ai_roleIds i)
      then APPROVAL_REQUIRED else DENY)"
  by (rule evaluate_decision)

text \<open>
  One denial is enough: the decisive evidence of a request is a denial if there is one,
  else a required approval if there is one, else the evidence of the primary capability, which
  comes first.
\<close>

lemma denial_is_decisive:
  "(decisiveAdmissionEvidence evs = None \<longleftrightarrow> evs = [])
   \<and> ((\<exists>e. decisiveAdmissionEvidence evs = Some e \<and> ev_decision e = DENY)
     \<longleftrightarrow> (\<exists>e\<in>set evs. ev_decision e = DENY))
   \<and> (list_all (\<lambda>e. ev_decision e = ALLOW) (e # rest) \<longrightarrow> decisiveAdmissionEvidence (e # rest) = Some e)"
proof (intro conjI impI)
  show "decisiveAdmissionEvidence evs = None \<longleftrightarrow> evs = []"
    by (auto simp: decisiveAdmissionEvidence_def split: option.splits list.splits)
  show "(\<exists>e. decisiveAdmissionEvidence evs = Some e \<and> ev_decision e = DENY)
     \<longleftrightarrow> (\<exists>e\<in>set evs. ev_decision e = DENY)"
    by (cases "find (\<lambda>e. ev_decision e = DENY) evs")
      (auto simp: decisiveAdmissionEvidence_def find_None_iff dest!: find_SomeD
        split: option.splits list.splits)
  show "decisiveAdmissionEvidence (e # rest) = Some e"
    if all: "list_all (\<lambda>e. ev_decision e = ALLOW) (e # rest)"
  proof -
    have "find (\<lambda>e. ev_decision e = d) rest = None" if "d \<noteq> ALLOW" for d
      using that all by (auto simp: find_None_iff list_all_iff)
    then show ?thesis
      using all by (simp add: decisiveAdmissionEvidence_def)
  qed
qed

section \<open>What an authorization guarantees\<close>

text \<open>A grant of the database that covers a request.\<close>

definition granted :: "role_db \<Rightarrow> string \<Rightarrow> string \<Rightarrow> string \<Rightarrow> bool" where
  "granted db i c rel \<longleftrightarrow> (\<exists>g\<in>set (rb_grants db). n_roleId g = i \<and> n_capabilityId g = c
     \<and> relationCovered (relations (n_relations g)) rel)"

lemma ensure_idem: "ensureBuiltinRoleCatalog cat db = Inr db' \<Longrightarrow> ensureBuiltinRoleCatalog cat db' = Inr db'"
  by (auto simp: ensureBuiltinRoleCatalog_def synchronizeBuiltinRoleCatalog_def res_simps Let_def
      split: if_splits)

lemma roles_ensure: "roles cat ids db = Inr (defs, db') \<Longrightarrow> ensureBuiltinRoleCatalog cat db = Inr db'"
  by (auto simp: roles_def res_simps)

lemma roles_granted:
  assumes "roles cat ids db = Inr (defs, db')" and "grants_relation defs c rel i"
  shows "granted db' i c rel"
proof -
  from assms(2) obtain d g where d: "find_unique v_id i (rev defs) = Some d" and g: "g \<in> set (v_grants d)"
    "cg_capability g = c" "relationCovered (cg_relations g) rel"
    by (auto simp: grants_relation_def definition_of_def list_ex_iff split: option.splits)
  have "v_id d = i" "d \<in> set defs"
    using find_unique_key [OF d] find_unique_in [OF d] by simp_all
  then obtain row where "d = roleView db' row" "l_id row = i"
    using assms(1) by (auto simp: roles_def res_simps roleView_def Let_def)
  with g show ?thesis
    by (auto simp: roleView_def Let_def granted_def)
qed

definition personal_cost_exception ::
  "(string \<Rightarrow> string) \<Rightarrow> member_row list \<Rightarrow> http_request \<Rightarrow> string \<Rightarrow> string \<Rightarrow> string \<Rightarrow> bool" where
  "personal_cost_exception dig members request projectId actorId c \<longleftrightarrow>
     rq_method request = ''GET'' \<and> is_cost_path (rq_pathname request)
     \<and> c \<in> {''CAP_COST_VIEW'', ''CAP_USAGE_DATA_QUALITY_VIEW''}
     \<and> ownsPersonalProject dig members projectId actorId"

lemma bound_roles_Cons:
  assumes "bound_roles members projectId actorId preferred \<noteq> []"
  obtains m where "find_unique member_key (projectId, actorId) members = Some m"
    and "membershipHasAccess (mr_membership m)" and "\<not> pv_deleted (mr_project m)" and "preferred \<noteq> NoRole"
    and "bound_roles members projectId actorId preferred =
      [membershipRoleToBuiltinRole (activeRoleForMembership (mr_membership m) (preferred_option preferred))]"
  using assms
  by (auto simp: bound_roles_def activeBuiltinRoleIds_def activeRoleForMembership_def
      split: option.splits if_splits)

lemma authorize_Inr:
  assumes "authorize dig cat members request actorId c opts preferred st = (Inr ev, st')"
  obtains projectId m where "projectIdFromRequest request = Inr projectId"
    and "find_unique member_key (projectId, actorId) members = Some m"
    and "membershipHasAccess (mr_membership m)" and "\<not> pv_deleted (mr_project m)" and "preferred \<noteq> NoRole"
    and "ensureBuiltinRoleCatalog cat (as_roles st) = Inr (as_roles st')"
    and "granted (as_roles st')
        (membershipRoleToBuiltinRole (activeRoleForMembership (mr_membership m) (preferred_option preferred)))
        c (case ro_relation opts of None \<Rightarrow> ''PROJECT_ANY'' | Some r \<Rightarrow> r)
      \<or> personal_cost_exception dig members request projectId actorId c"
    and "as_context st' = appendAdmissionEvidence (as_context st) ev" and "ev_decision ev = ALLOW"
proof -
  from assms obtain projectId defs db where pid: "projectIdFromRequest request = Inr projectId"
    and ro: "roles cat (bound_roles members projectId actorId preferred) (as_roles st) = Inr (defs, db)"
    by (auto simp: authorize_def Let_def split: sum.splits prod.splits)
  define i where "i = \<lparr>ai_actorId = actorId, ai_capability = c, ai_explicitDeny = False,
    ai_projectId = projectId, ai_relation = ro_relation opts, ai_requireApproval = False,
    ai_resourceId = ro_resourceId opts, ai_resourceType = ro_resourceType opts,
    ai_roleIds = bound_roles members projectId actorId preferred\<rparr>"
  define ev0 where "ev0 = evaluateAdmission i defs"
  from assms have st': "as_roles st' = db" "as_context st' = appendAdmissionEvidence (as_context st) ev"
      "ev_decision ev = ALLOW"
    and ev: "ev_decision ev0 = ALLOW \<or> personal_cost_read dig members request projectId actorId
        (bound_roles members projectId actorId preferred) ev0"
    by (auto simp: authorize_def Let_def pid ro i_def [symmetric] ev0_def [symmetric] split: if_splits)
  have allow: "ev_decision ev0 = ALLOW \<longleftrightarrow> list_ex (grants_relation defs c
      (case ro_relation opts of None \<Rightarrow> ''PROJECT_ANY'' | Some r \<Rightarrow> r))
      (bound_roles members projectId actorId preferred)"
    by (simp add: ev0_def i_def evaluate_allow requested_relation_def)
  have ne: "bound_roles members projectId actorId preferred \<noteq> []"
    using ev allow by (auto simp: personal_cost_read_def)
  obtain m where m: "find_unique member_key (projectId, actorId) members = Some m"
    "membershipHasAccess (mr_membership m)" "\<not> pv_deleted (mr_project m)" "preferred \<noteq> NoRole"
    "bound_roles members projectId actorId preferred =
      [membershipRoleToBuiltinRole (activeRoleForMembership (mr_membership m) (preferred_option preferred))]"
    by (rule bound_roles_Cons [OF ne])
  show ?thesis
  proof (rule that [OF pid m(1-4)])
    show "ensureBuiltinRoleCatalog cat (as_roles st) = Inr (as_roles st')"
      using roles_ensure [OF ro] st' by simp
    show "granted (as_roles st')
        (membershipRoleToBuiltinRole (activeRoleForMembership (mr_membership m) (preferred_option preferred)))
        c (case ro_relation opts of None \<Rightarrow> ''PROJECT_ANY'' | Some r \<Rightarrow> r)
      \<or> personal_cost_exception dig members request projectId actorId c"
      using ev allow roles_granted [OF ro] m(5) st'(1) evaluate_echo(1) [of i defs]
      by (auto simp: personal_cost_read_def personal_cost_exception_def ev0_def i_def)
  qed (use st' in auto)
qed

section \<open>Decisions at work\<close>

definition sample_admission :: "string \<Rightarrow> string \<Rightarrow> admission_input" where
  "sample_admission c rel = \<lparr>ai_actorId = ''u'', ai_capability = c, ai_explicitDeny = False,
     ai_projectId = ''p'', ai_relation = Some rel, ai_requireApproval = False, ai_resourceId = None,
     ai_resourceType = ''Skill'', ai_roleIds = [''ROLE_USER'']\<rparr>"

definition sample_user_role :: role_view where
  "sample_user_role = \<lparr>v_id = ''ROLE_USER'', v_scope = ''PROJECT'', v_family = ''BUILTIN'', v_name = ''User'',
     v_description = [], v_revision = 1,
     v_grants = [\<lparr>cg_capability = ''CAP_SKILL_VIEW'', cg_relations = [''PROJECT_ANY'']\<rparr>,
       \<lparr>cg_capability = ''CAP_TRACE_VIEW'', cg_relations = [''OWNER'']\<rparr>],
     v_capabilities = [], v_relations = []\<rparr>"

text \<open>The wildcard of \<open>CAP_SKILL_VIEW\<close> does not widen \<open>CAP_TRACE_VIEW\<close>.\<close>

lemma sample_decisions:
  "ev_decision (evaluateAdmission (sample_admission ''CAP_SKILL_VIEW'' ''ASSIGNED'') [sample_user_role]) = ALLOW"
  "ev_decision (evaluateAdmission (sample_admission ''CAP_TRACE_VIEW'' ''ASSIGNED'') [sample_user_role]) = DENY"
  by code_simp+

lemma denial_is_decisive_witness:
  "decisiveAdmissionEvidence [evaluateAdmission (sample_admission ''CAP_SKILL_VIEW'' ''OWNER'') [sample_user_role]]
     = Some (evaluateAdmission (sample_admission ''CAP_SKILL_VIEW'' ''OWNER'') [sample_user_role])"
proof -
  have "list_all (\<lambda>e. ev_decision e = ALLOW)
      [evaluateAdmission (sample_admission ''CAP_SKILL_VIEW'' ''OWNER'') [sample_user_role]]"
    by code_simp
  then show ?thesis
    using denial_is_decisive [of "[]" "evaluateAdmission (sample_admission ''CAP_SKILL_VIEW'' ''OWNER'') [sample_user_role]" "[]"]
    by blast
qed

lemma admission_decision_witness:
  "ev_decision (evaluateAdmission (sample_admission ''CAP_TRACE_VIEW'' ''ASSIGNED'') [sample_user_role]) = DENY"
proof -
  have "\<not> list_ex (grants_relation [sample_user_role] ''CAP_TRACE_VIEW'' ''ASSIGNED'') [''ROLE_USER'']"
    by code_simp
  then show ?thesis
    by (subst admission_decision) (simp add: sample_admission_def requested_relation_def)
qed

end
