(* ===== verification/Agent_Platforms.thy ===== *)
theory Agent_Platforms
  imports Prelude
begin

text \<open>
  \<open>packages/contracts/src/agent-platforms.ts\<close>: the supported agent platforms and the lookups
  over them.
\<close>

definition agentPlatformIds :: "string list" where
  "agentPlatformIds = [''hermes'', ''openclaw'', ''deepagents'', ''pi'']"

datatype platform_memory = NativeMemory | NativeHybridMemory | NoMemory

datatype interaction_surface = WebUi | TerminalUi

record agent_platform_capabilities =
  ac_interactive :: bool
  ac_canDelegate :: bool
  ac_acceptsDelegation :: bool
  ac_embeddedRunTelemetry :: bool
  ac_memory :: platform_memory

record platform_catalog =
  pc_id :: string
  pc_name :: string
  pc_description :: string
  pc_category :: string
  pc_tags :: "string list"
  pc_specializationId :: "string option"

record agent_platform =
  ap_id :: string
  ap_name :: string
  ap_description :: string
  ap_terminalLabel :: string
  ap_endpointLabel :: string
  ap_interactionSurface :: interaction_surface
  ap_isDefault :: bool
  ap_sandboxImage :: string
  ap_capabilities :: agent_platform_capabilities
  ap_catalog :: platform_catalog

definition agentPlatforms :: "agent_platform list" where
  "agentPlatforms = [
     \<lparr>ap_id = ''hermes'', ap_name = ''Hermes'',
       ap_description = ''Self-improving Agent with durable memory and a learning loop.'',
       ap_terminalLabel = ''Hermes TUI'', ap_endpointLabel = ''Hermes dashboard'',
       ap_interactionSurface = WebUi, ap_isDefault = True,
       ap_sandboxImage = ''ghcr.io/tasklattice/tali-nemoclaw-hermes-sandbox:dev'',
       ap_capabilities = \<lparr>ac_interactive = True, ac_canDelegate = True, ac_acceptsDelegation = False,
         ac_embeddedRunTelemetry = True, ac_memory = NativeMemory\<rparr>,
       ap_catalog = \<lparr>pc_id = ''hermes-deep-researcher'', pc_name = ''Hermes Deep Researcher'',
         pc_description = ''Investigates complex questions with durable memory, evidence gathering, and synthesis.'',
         pc_category = ''Research'', pc_tags = [''Research'', ''RAG'', ''Memory''],
         pc_specializationId = Some ''research-analyst''\<rparr>\<rparr>,
     \<lparr>ap_id = ''openclaw'', ap_name = ''OpenClaw'',
       ap_description = ''Gateway-based Agent with a plugin ecosystem and browser UI.'',
       ap_terminalLabel = ''OpenClaw TUI'', ap_endpointLabel = ''OpenClaw Web UI'',
       ap_interactionSurface = WebUi, ap_isDefault = False,
       ap_sandboxImage = ''ghcr.io/tasklattice/tali-nemoclaw-sandbox:dev'',
       ap_capabilities = \<lparr>ac_interactive = True, ac_canDelegate = True, ac_acceptsDelegation = False,
         ac_embeddedRunTelemetry = True, ac_memory = NativeHybridMemory\<rparr>,
       ap_catalog = \<lparr>pc_id = ''openclaw-generalist'', pc_name = ''OpenClaw Generalist'',
         pc_description = ''A general-purpose interactive Agent for browser tasks, terminal work, and multi-step automation.'',
         pc_category = ''General'', pc_tags = [''Automation'', ''Browser'', ''Coding''],
         pc_specializationId = Some ''general-purpose''\<rparr>\<rparr>,
     \<lparr>ap_id = ''deepagents'', ap_name = ''Deep Agents Code'',
       ap_description = ''Terminal coding Agent built on the LangChain Deep Agents SDK.'',
       ap_terminalLabel = ''Deep Agents TUI'', ap_endpointLabel = ''No Web UI'',
       ap_interactionSurface = TerminalUi, ap_isDefault = False,
       ap_sandboxImage = ''ghcr.io/tasklattice/tali-nemoclaw-deepagents-sandbox:dev'',
       ap_capabilities = \<lparr>ac_interactive = True, ac_canDelegate = True, ac_acceptsDelegation = False,
         ac_embeddedRunTelemetry = False, ac_memory = NativeMemory\<rparr>,
       ap_catalog = \<lparr>pc_id = ''deepagents-code'', pc_name = ''Deep Agents Code'',
         pc_description = ''A repository-native coding Supervisor powered by the LangChain Deep Agents SDK.'',
         pc_category = ''Developer Tools'', pc_tags = [''Coding'', ''Repository'', ''Terminal''],
         pc_specializationId = Some ''devops-engineer''\<rparr>\<rparr>,
     \<lparr>ap_id = ''pi'', ap_name = ''Pi'',
       ap_description = ''Extensible terminal coding Agent with native session recovery.'',
       ap_terminalLabel = ''Pi TUI'', ap_endpointLabel = ''No Web UI'',
       ap_interactionSurface = TerminalUi, ap_isDefault = False,
       ap_sandboxImage = ''ghcr.io/tasklattice/tali-nemoclaw-pi-sandbox:dev'',
       ap_capabilities = \<lparr>ac_interactive = True, ac_canDelegate = False, ac_acceptsDelegation = False,
         ac_embeddedRunTelemetry = False, ac_memory = NativeMemory\<rparr>,
       ap_catalog = \<lparr>pc_id = ''pi-coding-agent'', pc_name = ''Pi Coding Agent'',
         pc_description = ''A terminal coding Agent with persistent sessions and native file tools.'',
         pc_category = ''Developer Tools'', pc_tags = [''Coding'', ''Repository'', ''Terminal''],
         pc_specializationId = None\<rparr>\<rparr>]"

definition defaultAgentPlatformId :: string where
  "defaultAgentPlatformId = ap_id (the (find ap_isDefault agentPlatforms))"

definition getAgentPlatformDefinition :: "string \<Rightarrow> agent_platform option" where
  "getAgentPlatformDefinition i = find (\<lambda>p. ap_id p = i) agentPlatforms"

definition isAgentPlatformId :: "string \<Rightarrow> bool" where
  "isAgentPlatformId v \<longleftrightarrow> v \<in> set agentPlatformIds"

definition mapAgentPlatforms :: "(agent_platform \<Rightarrow> 'a) \<Rightarrow> (string \<times> 'a) list" where
  "mapAgentPlatforms select = map (\<lambda>p. (ap_id p, select p)) agentPlatforms"

lemma platform_ids: "map ap_id agentPlatforms = agentPlatformIds"
  by code_simp

lemma default_platform: "defaultAgentPlatformId = ''hermes''"
  by code_simp

lemma platform_defined: "isAgentPlatformId i \<Longrightarrow> \<exists>p. getAgentPlatformDefinition i = Some p \<and> ap_id p = i"
  unfolding getAgentPlatformDefinition_def isAgentPlatformId_def
  by (cases "find (\<lambda>p. ap_id p = i) agentPlatforms")
     (auto simp: find_None_iff find_Some_iff platform_ids [symmetric])

end
