(* ===== verification/Route_Policy.thy ===== *)
theory Route_Policy
  imports Urls Capabilities Agent_Platforms Canonical_Json
begin

text \<open>
  \<open>authorization/route-capabilities.ts\<close>: which capabilities a request to a Project route needs.
  The chain of \<open>projectRouteAdmissionPolicy\<close> is one definition per group of routes, tried in
  the order of the source: \<open>None\<close> falls through to the next group, \<open>Some None\<close> is an early
  \<open>return undefined\<close>. \<open>m\<close> is the upper-case method, \<open>t\<close> the decoded segments after the
  Project. The feature switch for durable memory is an argument.
\<close>

section \<open>Policies\<close>

datatype relation_resolver =
    ToProject
  | NewOwner
  | ToInstance
  | InstanceCollection
  | RegisteredAgent
  | ExpertAgent
  | ExpertAgentCollection
  | ToTrace
  | TraceCollection

datatype route_kind = InstanceCreate | AuditLogList

record route_requirement =
  rr_capability :: string
  rr_resourceType :: string

record route_policy =
  rp_kind :: "route_kind option"
  rp_relation :: relation_resolver
  rp_requiredActiveRole :: "project_role option"
  rp_requirements :: "route_requirement list"
  rp_resourceId :: "string option"
  rp_skipBecauseCapabilityToken :: bool

definition requirement :: "string \<Rightarrow> string \<Rightarrow> route_requirement" where
  "requirement capability resourceType = \<lparr>rr_capability = capability, rr_resourceType = resourceType\<rparr>"

definition projectTail :: "string \<Rightarrow> string list option res" where
  "projectTail pathname =
     (case project_match pathname of
        None \<Rightarrow> Inr None
      | Some (_, rest) \<Rightarrow>
          if has_line_terminator rest then Inr None
          else res_bind (map_res decodeURIComponent (filter (\<lambda>s. s \<noteq> []) (split_on CHR ''/'' (drop 1 rest))))
            (\<lambda>t. Inr (Some t)))"

definition policy ::
  "relation_resolver \<Rightarrow> route_requirement list \<Rightarrow> string option \<Rightarrow> route_kind option \<Rightarrow> route_policy" where
  "policy relation requirements resourceId kind =
     \<lparr>rp_kind = kind, rp_relation = relation, rp_requiredActiveRole = None, rp_requirements = requirements,
      rp_resourceId = (if given resourceId then resourceId else None), rp_skipBecauseCapabilityToken = False\<rparr>"

definition agentDeveloperPolicy ::
  "relation_resolver \<Rightarrow> route_requirement list \<Rightarrow> string option \<Rightarrow> route_policy" where
  "agentDeveloperPolicy relation requirements resourceId =
     (policy relation requirements resourceId None)\<lparr>rp_requiredActiveRole := Some DeveloperRole\<rparr>"

section \<open>Routes\<close>

type_synonym routes = "string \<Rightarrow> string list \<Rightarrow> route_policy option option"

definition at :: "string list \<Rightarrow> nat \<Rightarrow> string option" where
  "at t i = (if i < length t then Some (t ! i) else None)"

definition seg :: "string list \<Rightarrow> nat \<Rightarrow> string \<Rightarrow> bool" where
  "seg t i s \<longleftrightarrow> at t i = Some s"

definition found :: "route_policy \<Rightarrow> route_policy option option" where
  "found p = Some (Some p)"

definition no_route :: "route_policy option option" where
  "no_route = Some None"

text \<open>Sockets that carry a capability token of their own.\<close>

definition token_routes :: routes where
  "token_routes m t =
  (if m = ''GET'' \<and> length t = 3 \<and> (seg t 0 ''terminal-sessions'' \<or> seg t 0 ''agent-log-sessions'')
      \<and> seg t 2 ''ws''
    then found \<lparr>rp_kind = None, rp_relation = ToProject, rp_requiredActiveRole = None, rp_requirements = [],
        rp_resourceId = None, rp_skipBecauseCapabilityToken = True\<rparr>
  else None)"

definition works_routes :: routes where
  "works_routes m t =
  (if seg t 0 ''works'' \<and> (length t = 1 \<and> m \<in> {''GET'', ''POST''} \<or> length t = 2
      \<and> m = ''GET'' \<or> length t = 3 \<and> (seg t 2 ''commands'' \<and> m = ''POST''
      \<or> seg t 2 ''events'' \<and> m = ''GET''))
    then found (policy ToProject [requirement ''CAP_PROJECT_VIEW'' ''Work''] None None)
  else None)"

definition personal_onboarding_routes :: routes where
  "personal_onboarding_routes m t =
  (if seg t 0 ''personal-onboarding'' \<and> (length t = 1 \<and> m = ''GET'' \<or> length t = 2
      \<and> (seg t 1 ''connect'' \<or> seg t 1 ''prepare'') \<and> m = ''POST'')
    then found (policy ToProject [requirement ''CAP_PROJECT_VIEW'' ''PersonalOnboarding''] None
        None)
  else None)"

definition project_routes :: routes where
  "project_routes m t =
  (if t = []
    then (if m = ''PATCH''
        then found (policy ToProject [requirement ''CAP_PROJECT_SETTINGS_UPDATE'' ''Project''] None None)
      else if m = ''DELETE''
        then found (policy ToProject [requirement ''CAP_PROJECT_DELETE'' ''Project''] None None)
      else no_route)
  else None)"

definition deletion_impact_routes :: routes where
  "deletion_impact_routes m t =
  (if seg t 0 ''deletion-impact'' \<and> length t = 1 \<and> m = ''GET''
    then found (policy ToProject [requirement ''CAP_PROJECT_DELETE'' ''Project''] None None)
  else None)"

definition members_routes :: routes where
  "members_routes m t =
  (if seg t 0 ''members''
    then (if m = ''GET'' \<and> length t = 1
        then found (policy ToProject [requirement ''CAP_PROJECT_MEMBER_VIEW'' ''ProjectMember'']
            None None)
      else if m = ''POST'' \<and> length t = 2 \<and> seg t 1 ''invitations''
        then found (policy ToProject [requirement ''CAP_PROJECT_MEMBER_INVITE'' ''ProjectMember'',
            requirement ''CAP_PROJECT_MEMBER_ROLE_ASSIGN'' ''ProjectRole''] None None)
      else if m = ''DELETE'' \<and> length t = 2 \<and> given (at t 1)
        then found (policy ToProject [requirement ''CAP_PROJECT_MEMBER_REMOVE'' ''ProjectMember'']
            (at t 1) None)
      else None)
  else None)"

definition role_routes :: routes where
  "role_routes m t =
  (if seg t 0 ''role'' \<and> m = ''PUT'' \<and> length t = 1
    then found (policy ToProject [requirement ''CAP_PROJECT_VIEW'' ''ProjectRole''] None None)
  else None)"

definition quota_routes :: routes where
  "quota_routes m t =
  (if seg t 0 ''quota'' \<and> length t = 1
    then (if m = ''GET''
        then found (policy ToProject [requirement ''CAP_PROJECT_QUOTA_VIEW'' ''ProjectQuota''] None
            None)
      else if m = ''PUT''
        then found (policy ToProject [requirement ''CAP_PROJECT_QUOTA_UPDATE'' ''ProjectQuota'']
            None None)
      else no_route)
  else None)"

definition resource_operations_routes :: routes where
  "resource_operations_routes m t =
  (if seg t 0 ''resource-operations'' \<and> length t = 2 \<and> m = ''GET''
    then found (policy ToProject [requirement ''CAP_PROJECT_VIEW'' ''Project''] None None)
  else None)"

definition initialization_routes :: routes where
  "initialization_routes m t =
  (if seg t 0 ''initialization''
    then (if length t = 2 \<and> seg t 1 ''check'' \<and> m = ''GET''
        then found (policy ToProject [requirement ''CAP_PROJECT_SETTINGS_UPDATE'' ''Project''] None
            None)
      else if length t = 2 \<and> seg t 1 ''reconcile'' \<and> m = ''POST''
        then found (policy ToProject [requirement ''CAP_RUNTIME_OPERATION_RECONCILE'' ''Project'']
            None None)
      else if length t = 1 \<and> m = ''GET''
        then found (policy ToProject [requirement ''CAP_PROJECT_VIEW'' ''Project''] None None)
      else if length t = 2 \<and> seg t 1 ''retry'' \<and> m = ''POST''
        then found (policy ToProject [requirement ''CAP_RUNTIME_OPERATION_RECONCILE'' ''Project'']
            None None)
      else None)
  else None)"

definition runtime_routes :: routes where
  "runtime_routes m t =
  (if seg t 0 ''runtime'' \<and> length t = 1 \<and> m = ''GET''
    then found (policy ToProject [requirement ''CAP_RUNTIME_OPERATION_VIEW'' ''Runtime''] None None)
  else None)"

definition overview_routes :: routes where
  "overview_routes m t =
  (if seg t 0 ''overview'' \<and> length t = 1 \<and> m = ''GET''
    then found (policy ToProject [requirement ''CAP_USAGE_VIEW'' ''Usage'',
        requirement ''CAP_COST_VIEW'' ''Cost'',
        requirement ''CAP_PROJECT_QUOTA_VIEW'' ''ProjectQuota'',
        requirement ''CAP_AGENT_INSTANCE_CONFIG_VIEW'' ''AgentInstance'',
        requirement ''CAP_AGENT_MEMORY_CONFIG_VIEW'' ''AgentMemory'',
        requirement ''CAP_SKILL_VIEW'' ''Skill'',
        requirement ''CAP_ACCESS_POLICY_VIEW'' ''AccessPolicy''] None None)
  else None)"

definition runtime_inventory_routes :: routes where
  "runtime_inventory_routes m t =
  (if seg t 0 ''runtime-inventory'' \<and> length t = 1 \<and> m = ''GET''
    then found (policy InstanceCollection [requirement ''CAP_AGENT_INSTANCE_CONFIG_VIEW'' ''RuntimeInventory'']
        None None)
  else None)"

definition authorization_routes :: routes where
  "authorization_routes m t =
  (if seg t 0 ''authorization'' \<and> length t = 2 \<and> (seg t 1 ''roles''
      \<or> seg t 1 ''capabilities'') \<and> m = ''GET''
    then found (policy ToProject [requirement ''CAP_PROJECT_ROLE_VIEW'' ''ProjectRole''] None None)
  else None)"

definition instances_routes :: routes where
  "instances_routes m t =
  (if seg t 0 ''instances''
    then (if length t = 1 \<and> m = ''GET''
        then found (policy InstanceCollection [requirement ''CAP_AGENT_INSTANCE_CONFIG_VIEW'' ''AgentInstance'']
            None None)
      else if length t = 1 \<and> m = ''POST''
        then found (policy NewOwner [requirement ''CAP_AGENT_INSTANCE_CREATE'' ''AgentInstance'']
            None (Some InstanceCreate))
      else if \<not> given (at t 1)
        then no_route
      else if length t = 2 \<and> m = ''GET''
        then found (policy ToInstance [requirement ''CAP_AGENT_INSTANCE_CONFIG_VIEW'' ''AgentInstance'']
            (at t 1) None)
      else if length t = 2 \<and> m = ''DELETE''
        then found (policy ToInstance [requirement ''CAP_AGENT_INSTANCE_DELETE'' ''AgentInstance'']
            (at t 1) None)
      else if length t = 3 \<and> seg t 2 ''interaction'' \<and> m = ''GET''
        then found (policy ToInstance [requirement ''CAP_AGENT_INSTANCE_INTERACT'' ''AgentInstance'']
            (at t 1) None)
      else if length t = 3 \<and> seg t 2 ''web-ui-sessions'' \<and> m \<in> {''POST'', ''PATCH''}
        then found (policy ToInstance [requirement ''CAP_AGENT_INSTANCE_INTERACT'' ''AgentInstance'']
            (at t 1) None)
      else if length t = 3 \<and> seg t 2 ''logs'' \<and> m = ''GET''
        then found (policy ToInstance [requirement ''CAP_AGENT_INSTANCE_LOG_VIEW'' ''AgentInstance'']
            (at t 1) None)
      else if m = ''GET'' \<and> seg t 2 ''operations'' \<and> (length t = 4 \<or> length t = 5
          \<and> seg t 4 ''events'')
        then found (policy ToInstance [requirement ''CAP_AGENT_INSTANCE_LOG_VIEW'' ''AgentInstance'']
            (at t 1) None)
      else if length t = 3 \<and> seg t 2 ''log-sessions'' \<and> m = ''POST''
        then found (policy ToInstance [requirement ''CAP_AGENT_INSTANCE_LOG_VIEW'' ''AgentInstance'']
            (at t 1) None)
      else if length t = 3 \<and> seg t 2 ''access-policies'' \<and> m = ''PUT''
        then found (policy ToInstance [requirement ''CAP_AGENT_INSTANCE_ACCESS_POLICY_ASSIGN'' ''AgentInstance'']
            (at t 1) None)
      else if length t = 3 \<and> seg t 2 ''audit'' \<and> m = ''GET''
        then found (policy ToInstance [requirement ''CAP_AUDIT_DETAIL_VIEW'' ''AgentInstance'',
            requirement ''CAP_AUDIT_SENSITIVE_CONTENT_VIEW'' ''AgentInstanceAudit''] (at t 1) None)
      else if length t = 3 \<and> seg t 2 ''terminal-targets'' \<and> m = ''GET''
        then found (policy ToInstance [requirement ''CAP_AGENT_INSTANCE_TERMINAL_EXEC'' ''AgentInstance'']
            (at t 1) None)
      else if length t = 3 \<and> seg t 2 ''terminal-sessions'' \<and> m = ''POST''
        then found (policy ToInstance [requirement ''CAP_AGENT_INSTANCE_TERMINAL_EXEC'' ''AgentInstance'']
            (at t 1) None)
      else None)
  else None)"

definition agents_routes :: routes where
  "agents_routes m t =
  (if seg t 0 ''agents''
    then (if length t = 1 \<and> m = ''GET''
        then found (agentDeveloperPolicy ExpertAgentCollection [requirement ''CAP_AGENT_REGISTRATION_VIEW'' ''ExpertAgent'']
            None)
      else if length t = 1 \<and> m = ''POST''
        then found (agentDeveloperPolicy NewOwner [requirement ''CAP_AGENT_REGISTRATION_CREATE'' ''ExpertAgent'']
            None)
      else if length t = 2 \<and> seg t 1 ''contract-drafts'' \<and> m = ''POST''
        then found (agentDeveloperPolicy NewOwner [requirement ''CAP_AGENT_REGISTRATION_CREATE'' ''ExpertAgent'']
            None)
      else if length t = 2 \<and> seg t 1 ''draft-tries'' \<and> m = ''POST''
        then found (agentDeveloperPolicy NewOwner [requirement ''CAP_AGENT_REGISTRATION_CREATE'' ''ExpertAgent'']
            None)
      else if \<not> given (at t 1)
        then no_route
      else if length t = 2 \<and> m = ''GET''
        then found (agentDeveloperPolicy ExpertAgent [requirement ''CAP_AGENT_REGISTRATION_VIEW'' ''ExpertAgent''] (at t 1))
      else if length t = 2 \<and> m = ''PATCH''
        then found (agentDeveloperPolicy ExpertAgent [requirement ''CAP_AGENT_REGISTRATION_UPDATE'' ''ExpertAgent''] (at t 1))
      else if length t = 2 \<and> m = ''DELETE''
        then found (agentDeveloperPolicy ExpertAgent [requirement ''CAP_AGENT_REGISTRATION_DELETE'' ''ExpertAgent''] (at t 1))
      else if length t = 3 \<and> seg t 2 ''versions'' \<and> m = ''GET''
        then found (agentDeveloperPolicy ExpertAgent [requirement ''CAP_AGENT_REGISTRATION_VIEW'' ''ExpertAgent''] (at t 1))
      else if length t = 3 \<and> (seg t 2 ''test-runs'' \<or> seg t 2 ''tries''
          \<or> seg t 2 ''publications'') \<and> m = ''POST''
        then found (agentDeveloperPolicy ExpertAgent [requirement ''CAP_AGENT_REGISTRATION_UPDATE'' ''ExpertAgent''] (at t 1))
      else if length t = 3 \<and> seg t 2 ''resource-revisions'' \<and> m = ''GET''
        then found (agentDeveloperPolicy ExpertAgent [requirement ''CAP_AGENT_REGISTRATION_VIEW'' ''ExpertAgent''] (at t 1))
      else if length t = 3 \<and> seg t 2 ''available-resources'' \<and> m = ''GET''
        then found (agentDeveloperPolicy ExpertAgent [requirement ''CAP_AGENT_REGISTRATION_VIEW'' ''ExpertAgent''] (at t 1))
      else None)
  else None)"

definition agent_garden_routes :: routes where
  "agent_garden_routes m t =
  (if seg t 0 ''agent-garden''
    then (if length t = 1 \<and> m = ''GET''
        then found (policy InstanceCollection [requirement ''CAP_AGENT_REGISTRATION_VIEW'' ''AgentRegistration'']
            None None)
      else if length t = 2 \<and> seg t 1 ''onboard'' \<and> m = ''POST''
        then found (policy NewOwner [requirement ''CAP_AGENT_REGISTRATION_CREATE'' ''AgentRegistration'',
            requirement ''CAP_AGENT_REGISTRATION_DISCOVER'' ''AgentRegistration''] None None)
      else if seg t 1 ''agents'' \<and> given (at t 2) \<and> length t = 4
          \<and> seg t 3 ''discover'' \<and> m = ''POST''
        then found (policy RegisteredAgent [requirement ''CAP_AGENT_REGISTRATION_DISCOVER'' ''AgentRegistration'']
            (at t 2) None)
      else if seg t 1 ''agents'' \<and> given (at t 2) \<and> length t = 4
          \<and> seg t 3 ''instances'' \<and> m = ''POST''
        then found (policy NewOwner [requirement ''CAP_AGENT_INSTANCE_CREATE'' ''AgentInstance'']
            None None)
      else if seg t 1 ''agents'' \<and> given (at t 2) \<and> length t = 3 \<and> m = ''DELETE''
        then found (policy RegisteredAgent [requirement ''CAP_AGENT_REGISTRATION_DELETE'' ''AgentRegistration'']
            (at t 2) None)
      else if seg t 1 ''instances'' \<and> length t = 3 \<and> given (at t 2) \<and> m = ''DELETE''
        then found (policy ToInstance [requirement ''CAP_AGENT_INSTANCE_DELETE'' ''AgentInstance'']
            (at t 2) None)
      else None)
  else None)"

definition memories_routes :: routes where
  "memories_routes m t =
  (if seg t 0 ''memories''
    then (if length t = 1 \<and> m = ''GET''
        then found (policy ToProject [requirement ''CAP_AGENT_MEMORY_ITEM_VIEW'' ''DurableMemory'']
            None None)
      else if length t = 1 \<and> m = ''POST''
        then found (policy ToProject [requirement ''CAP_AGENT_MEMORY_CONFIG_UPDATE'' ''DurableMemory'']
            None None)
      else if \<not> given (at t 1)
        then no_route
      else if length t = 2 \<and> m = ''GET''
        then found (policy ToProject [requirement ''CAP_AGENT_MEMORY_ITEM_VIEW'' ''DurableMemory'']
            (at t 1) None)
      else if length t = 2 \<and> m = ''PATCH''
        then found (policy ToProject [requirement ''CAP_AGENT_MEMORY_CONFIG_UPDATE'' ''DurableMemory'']
            (at t 1) None)
      else if length t = 2 \<and> m = ''DELETE''
        then found (policy ToProject [requirement ''CAP_AGENT_MEMORY_CONTENT_PURGE'' ''DurableMemory'']
            (at t 1) None)
      else if length t = 3 \<and> seg t 2 ''overview'' \<and> m = ''GET''
        then found (policy ToProject [requirement ''CAP_AGENT_MEMORY_ITEM_VIEW'' ''DurableMemory'',
            requirement ''CAP_AGENT_MEMORY_CONTENT_VIEW'' ''DurableMemory''] (at t 1) None)
      else if length t = 3 \<and> seg t 2 ''activity'' \<and> m = ''GET''
        then found (policy ToProject [requirement ''CAP_AGENT_MEMORY_ITEM_VIEW'' ''DurableMemory'']
            (at t 1) None)
      else if length t = 3 \<and> (seg t 2 ''conversations'' \<or> seg t 2 ''facts''
          \<or> seg t 2 ''experiences'' \<or> seg t 2 ''insights'') \<and> m = ''GET''
        then found (policy ToProject [requirement ''CAP_AGENT_MEMORY_CONTENT_VIEW'' ''DurableMemory'']
            (at t 1) None)
      else if length t = 3 \<and> seg t 2 ''settings'' \<and> m = ''GET''
        then found (policy ToProject [requirement ''CAP_AGENT_MEMORY_CONFIG_VIEW'' ''DurableMemory'']
            (at t 1) None)
      else if length t = 3 \<and> seg t 2 ''retry'' \<and> m = ''POST''
        then found (policy ToProject [requirement ''CAP_AGENT_MEMORY_CONFIG_UPDATE'' ''DurableMemory'']
            (at t 1) None)
      else if length t = 3 \<and> seg t 2 ''bindings'' \<and> m = ''GET''
        then found (policy ToProject [requirement ''CAP_AGENT_MEMORY_CONFIG_VIEW'' ''DurableMemory'']
            (at t 1) None)
      else if length t = 3 \<and> seg t 2 ''bindings'' \<and> m = ''POST''
        then found (policy ToProject [requirement ''CAP_AGENT_MEMORY_CONFIG_UPDATE'' ''DurableMemory'']
            (at t 1) None)
      else if length t = 4 \<and> seg t 2 ''bindings'' \<and> m = ''DELETE''
        then found (policy ToProject [requirement ''CAP_AGENT_MEMORY_CONFIG_UPDATE'' ''DurableMemory'']
            (at t 1) None)
      else if length t = 3 \<and> seg t 2 ''outbox'' \<and> m = ''GET''
        then found (policy ToProject [requirement ''CAP_AGENT_MEMORY_INDEX_STATUS_VIEW'' ''DurableMemory'']
            (at t 1) None)
      else if length t = 3 \<and> seg t 2 ''exports'' \<and> m = ''POST''
        then found (policy ToProject [requirement ''CAP_AGENT_MEMORY_EXPORT'' ''DurableMemory'']
            (at t 1) None)
      else if length t = 4 \<and> seg t 2 ''exports'' \<and> m = ''GET''
        then found (policy ToProject [requirement ''CAP_AGENT_MEMORY_EXPORT'' ''DurableMemory'']
            (at t 1) None)
      else if length t = 4 \<and> seg t 2 ''items'' \<and> m = ''GET''
        then found (policy ToProject [requirement ''CAP_AGENT_MEMORY_CONTENT_VIEW'' ''DurableMemory'']
            (at t 1) None)
      else if length t = 4 \<and> seg t 2 ''facts'' \<and> m = ''PATCH''
        then found (policy ToProject [requirement ''CAP_AGENT_MEMORY_CONTENT_WRITE'' ''DurableMemory'']
            (at t 1) None)
      else if length t = 4 \<and> seg t 2 ''experiences'' \<and> m = ''PATCH''
        then found (policy ToProject [requirement ''CAP_AGENT_MEMORY_CONTENT_WRITE'' ''DurableMemory'']
            (at t 1) None)
      else if length t = 5 \<and> seg t 2 ''items'' \<and> (seg t 4 ''invalidate''
          \<or> seg t 4 ''restore'') \<and> m = ''POST''
        then found (policy ToProject [requirement ''CAP_AGENT_MEMORY_CONTENT_WRITE'' ''DurableMemory'']
            (at t 1) None)
      else if length t = 4 \<and> seg t 2 ''conversations'' \<and> m = ''GET''
        then found (policy ToProject [requirement ''CAP_AGENT_MEMORY_CONTENT_VIEW'' ''DurableMemory'']
            (at t 1) None)
      else if length t = 4 \<and> seg t 2 ''conversations'' \<and> m = ''DELETE''
        then found (policy ToProject [requirement ''CAP_AGENT_MEMORY_CONTENT_DELETE'' ''DurableMemory'']
            (at t 1) None)
      else if length t = 5 \<and> seg t 2 ''conversations'' \<and> seg t 4 ''reextract''
          \<and> m = ''POST''
        then found (policy ToProject [requirement ''CAP_AGENT_MEMORY_SESSION_INDEX_MANAGE'' ''DurableMemory'']
            (at t 1) None)
      else if length t = 5 \<and> seg t 2 ''conversations'' \<and> seg t 4 ''redact''
          \<and> m = ''POST''
        then found (policy ToProject [requirement ''CAP_AGENT_MEMORY_CONTENT_WRITE'' ''DurableMemory'']
            (at t 1) None)
      else if length t = 5 \<and> seg t 2 ''outbox'' \<and> seg t 4 ''replay'' \<and> m = ''POST''
        then found (policy ToProject [requirement ''CAP_AGENT_MEMORY_INDEX_REBUILD'' ''DurableMemory'']
            (at t 1) None)
      else None)
  else None)"

definition access_policies_routes :: routes where
  "access_policies_routes m t =
  (if seg t 0 ''access-policies''
    then (if length t = 1 \<and> m = ''GET''
        then found (policy ToProject [requirement ''CAP_ACCESS_POLICY_VIEW'' ''AccessPolicy''] None
            None)
      else if length t = 1 \<and> m = ''POST''
        then found (policy ToProject [requirement ''CAP_ACCESS_POLICY_CREATE'' ''AccessPolicy'']
            None None)
      else if \<not> given (at t 1)
        then no_route
      else if length t = 3 \<and> seg t 2 ''versions'' \<and> m = ''GET''
        then found (policy ToProject [requirement ''CAP_ACCESS_POLICY_VERSION_VIEW'' ''AccessPolicy'']
            (at t 1) None)
      else if length t = 2 \<and> m = ''GET''
        then found (policy ToProject [requirement ''CAP_ACCESS_POLICY_VIEW'' ''AccessPolicy'']
            (at t 1) None)
      else if length t = 2 \<and> m = ''PUT''
        then found (policy ToProject [requirement ''CAP_ACCESS_POLICY_UPDATE'' ''AccessPolicy'']
            (at t 1) None)
      else if length t = 2 \<and> m = ''DELETE''
        then found (policy ToProject [requirement ''CAP_ACCESS_POLICY_DELETE'' ''AccessPolicy'']
            (at t 1) None)
      else None)
  else None)"

text \<open>
  The capability of a catalog kind is looked up in an object literal, so a kind named like an
  inherited member of an object gives that member, which is no capability; \<open>inherited_member\<close>
  is its text.
\<close>

definition inherited_names :: "string list" where
  "inherited_names =
     [''constructor'', ''__defineGetter__'', ''__defineSetter__'', ''hasOwnProperty'', ''__lookupGetter__'',
      ''__lookupSetter__'', ''isPrototypeOf'', ''propertyIsEnumerable'', ''toString'', ''valueOf'',
      ''toLocaleString'']"

definition inherited_member :: "string \<Rightarrow> string option" where
  "inherited_member kind =
     (if kind = ''__proto__'' then Some ''[object Object]''
      else if kind = ''constructor'' then Some ''function Object() { [native code] }''
      else if kind \<in> set inherited_names then Some (''function '' @ kind @ ''() { [native code] }'')
      else None)"

definition catalogCapability :: "string \<Rightarrow> string \<Rightarrow> string option" where
  "catalogCapability kind action =
     (if kind = ''skills'' then Some (''CAP_SKILL_'' @ action)
      else if kind = ''mcp-servers'' then Some (''CAP_MCP_SERVER_'' @ action)
      else if kind = ''vector-databases'' then Some (''CAP_VECTOR_DATABASE_'' @ action)
      else inherited_member kind)"

definition catalog_action :: "string \<Rightarrow> string list \<Rightarrow> string option" where
  "catalog_action m t =
     (if m = ''POST'' \<and> length t = 2 then Some ''CREATE''
      else if m = ''PUT'' \<and> length t = 3 then Some ''UPDATE''
      else if m = ''DELETE'' \<and> length t = 3 then Some ''DELETE''
      else None)"

definition catalog_item_routes :: routes where
  "catalog_item_routes m t =
     (case catalog_action m t of
        None \<Rightarrow> None
      | Some action \<Rightarrow>
          (case catalogCapability (case at t 1 of None \<Rightarrow> [] | Some k \<Rightarrow> k) action of
             None \<Rightarrow> None
           | Some capability \<Rightarrow> found (policy ToProject
               [requirement capability (case at t 1 of None \<Rightarrow> ''CatalogResource'' | Some k \<Rightarrow> k)]
               (at t 2) None)))"

definition catalog_routes :: routes where
  "catalog_routes m t =
  (if seg t 0 ''catalog''
    then (if length t = 1 \<and> m = ''GET''
        then found (policy ToProject [requirement ''CAP_SKILL_VIEW'' ''Skill'',
            requirement ''CAP_MCP_SERVER_VIEW'' ''McpServer'',
            requirement ''CAP_VECTOR_DATABASE_VIEW'' ''VectorDatabase'',
            requirement ''CAP_AGENT_SPECIALIZATION_VIEW'' ''AgentSpecialization''] None None)
      else if length t = 4 \<and> seg t 1 ''mcp-servers'' \<and> seg t 3 ''discover''
          \<and> m = ''POST''
        then found (policy ToProject [requirement ''CAP_MCP_SERVER_DISCOVER'' ''McpServer'']
            (at t 2) None)
      else if length t = 4 \<and> seg t 1 ''skills'' \<and> seg t 3 ''archive'' \<and> m = ''GET''
        then found (policy ToProject [requirement ''CAP_SKILL_ARTIFACT_DOWNLOAD'' ''SkillArtifact'']
            (at t 2) None)
      else if length t = 4 \<and> seg t 1 ''skills'' \<and> seg t 3 ''verify'' \<and> m = ''POST''
        then found (policy ToProject [requirement ''CAP_SKILL_VERIFY'' ''Skill''] (at t 2) None)
      else if length t = 4 \<and> seg t 1 ''vector-databases'' \<and> seg t 3 ''chunks''
          \<and> m = ''PUT''
        then found (policy ToProject [requirement ''CAP_VECTOR_DATABASE_UPDATE'' ''VectorChunk'']
            (at t 2) None)
      else if length t = 4 \<and> seg t 1 ''vector-databases'' \<and> seg t 3 ''documents''
          \<and> m = ''POST''
        then found (policy ToProject [requirement ''CAP_VECTOR_DATABASE_UPDATE'' ''VectorDocument'']
            (at t 2) None)
      else if seg t 1 ''vector-databases'' \<and> seg t 3 ''folders'' \<and> (length t = 4
          \<and> m = ''POST'' \<or> length t = 5 \<and> (m = ''PATCH'' \<or> m = ''DELETE''))
        then found (policy ToProject [requirement ''CAP_VECTOR_DATABASE_UPDATE'' ''VectorFolder'']
            (at t 2) None)
      else if length t = 5 \<and> seg t 1 ''vector-databases'' \<and> seg t 3 ''chunks''
          \<and> m = ''DELETE''
        then found (policy ToProject [requirement ''CAP_VECTOR_DATABASE_UPDATE'' ''VectorChunk'']
            (at t 2) None)
      else if seg t 1 ''vector-databases'' \<and> length t = 3 \<and> m = ''GET''
        then found (policy ToProject [requirement ''CAP_VECTOR_DATABASE_VIEW'' ''VectorDatabase'']
            (at t 2) None)
      else if seg t 1 ''vector-databases'' \<and> length t = 4 \<and> seg t 3 ''search''
          \<and> m = ''POST''
        then found (policy ToProject [requirement ''CAP_VECTOR_DATABASE_CONTENT_VIEW'' ''VectorDatabase'']
            (at t 2) None)
      else if seg t 1 ''vector-databases'' \<and> length t = 5 \<and> seg t 3 ''documents''
          \<and> (m = ''GET'' \<or> m = ''PATCH'' \<or> m = ''DELETE'')
        then found (policy ToProject [requirement (if m = ''GET'' then ''CAP_VECTOR_DATABASE_CONTENT_VIEW''
            else ''CAP_VECTOR_DATABASE_UPDATE'') ''VectorDocument''] (at t 2) None)
      else if seg t 1 ''vector-databases'' \<and> length t = 6 \<and> seg t 3 ''documents''
          \<and> seg t 5 ''chunks'' \<and> m = ''GET''
        then found (policy ToProject [requirement ''CAP_VECTOR_DATABASE_CONTENT_VIEW'' ''VectorDocument'']
            (at t 2) None)
      else catalog_item_routes m t)
  else None)"

definition runtime_policies_routes :: routes where
  "runtime_policies_routes m t =
  (if seg t 0 ''runtime-policies''
    then (if length t = 1 \<and> m = ''GET''
        then found (policy ToProject [requirement ''CAP_RUNTIME_POLICY_VIEW'' ''RuntimePolicy'']
            None None)
      else if length t = 1 \<and> m = ''POST''
        then found (policy ToProject [requirement ''CAP_RUNTIME_POLICY_CREATE'' ''RuntimePolicy'']
            None None)
      else if length t = 2 \<and> given (at t 1) \<and> m = ''PUT''
        then found (policy ToProject [requirement ''CAP_RUNTIME_POLICY_UPDATE'' ''RuntimePolicy'']
            (at t 1) None)
      else if length t = 2 \<and> given (at t 1) \<and> m = ''DELETE''
        then found (policy ToProject [requirement ''CAP_RUNTIME_POLICY_DELETE'' ''RuntimePolicy'']
            (at t 1) None)
      else None)
  else None)"

definition providers_routes :: routes where
  "providers_routes m t =
  (if seg t 0 ''providers''
    then (if length t = 1 \<and> m = ''GET''
        then found (policy ToProject [requirement ''CAP_PROVIDER_VIEW'' ''Provider''] None None)
      else if length t = 1 \<and> m = ''POST''
        then found (policy ToProject [requirement ''CAP_PROVIDER_CREATE'' ''Provider''] None None)
      else if length t = 2 \<and> seg t 1 ''discover'' \<and> m = ''POST''
        then found (policy ToProject [requirement ''CAP_PROVIDER_DISCOVER'' ''Provider''] None None)
      else if length t = 3 \<and> seg t 2 ''discover'' \<and> m = ''POST''
        then found (policy ToProject [requirement ''CAP_PROVIDER_DISCOVER'' ''Provider''] (at t 1)
            None)
      else if length t = 3 \<and> seg t 2 ''validate'' \<and> m = ''POST''
        then found (policy ToProject [requirement ''CAP_PROVIDER_VALIDATE'' ''Provider''] (at t 1)
            None)
      else if length t = 2 \<and> given (at t 1) \<and> m = ''DELETE''
        then found (policy ToProject [requirement ''CAP_PROVIDER_DELETE'' ''Provider''] (at t 1)
            None)
      else None)
  else None)"

definition models_routes :: routes where
  "models_routes m t =
  (if seg t 0 ''models''
    then (if length t = 1 \<and> m = ''GET''
        then found (policy ToProject [requirement ''CAP_MODEL_VIEW'' ''Model''] None None)
      else if length t = 1 \<and> m = ''POST''
        then found (policy ToProject [requirement ''CAP_MODEL_CREATE'' ''Model''] None None)
      else if length t = 2 \<and> seg t 1 ''inheritable'' \<and> m = ''GET''
        then found (policy ToProject [requirement ''CAP_MODEL_VIEW'' ''Model''] None None)
      else if length t = 3 \<and> seg t 2 ''inherit'' \<and> m = ''POST''
        then found (policy ToProject [requirement ''CAP_MODEL_CREATE'' ''Model''] (at t 1) None)
      else if length t = 3 \<and> seg t 2 ''inherit'' \<and> m = ''DELETE''
        then found (policy ToProject [requirement ''CAP_MODEL_DELETE'' ''Model''] (at t 1) None)
      else if length t = 3 \<and> seg t 2 ''removal-impact'' \<and> m = ''GET''
        then found (policy ToProject [requirement ''CAP_MODEL_DELETE'' ''Model''] (at t 1) None)
      else if length t = 2 \<and> given (at t 1) \<and> m = ''DELETE''
        then found (policy ToProject [requirement ''CAP_MODEL_DELETE'' ''Model''] (at t 1) None)
      else None)
  else None)"

definition inference_gateways_routes :: routes where
  "inference_gateways_routes m t =
  (if seg t 0 ''inference-gateways'' \<and> length t = 1 \<and> m = ''GET''
    then found (policy ToProject [requirement ''CAP_INFERENCE_GATEWAY_VIEW'' ''InferenceGateway'']
        None None)
  else None)"

definition model_routings_routes :: routes where
  "model_routings_routes m t =
  (if seg t 0 ''model-routings''
    then (if length t = 1 \<and> m = ''GET''
        then found (policy ToProject [requirement ''CAP_MODEL_ROUTING_VIEW'' ''ModelRouting''] None
            None)
      else if length t = 1 \<and> m = ''POST''
        then found (policy ToProject [requirement ''CAP_MODEL_ROUTING_CREATE'' ''ModelRouting'']
            None None)
      else if length t = 2 \<and> seg t 1 ''inheritable'' \<and> m = ''GET''
        then found (policy ToProject [requirement ''CAP_MODEL_ROUTING_VIEW'' ''ModelRouting''] None
            None)
      else if \<not> given (at t 1)
        then no_route
      else if length t = 3 \<and> seg t 2 ''inherit'' \<and> m = ''POST''
        then found (policy ToProject [requirement ''CAP_MODEL_ROUTING_CREATE'' ''ModelRouting'']
            (at t 1) None)
      else if length t = 3 \<and> seg t 2 ''inherit'' \<and> m = ''DELETE''
        then found (policy ToProject [requirement ''CAP_MODEL_ROUTING_DELETE'' ''ModelRouting'']
            (at t 1) None)
      else if (length t = 2 \<or> length t = 3 \<and> seg t 2 ''consumers'') \<and> m = ''GET''
        then found (policy ToProject [requirement ''CAP_MODEL_ROUTING_VIEW'' ''ModelRouting'']
            (at t 1) None)
      else if length t = 3 \<and> seg t 2 ''audit'' \<and> m = ''GET''
        then found (policy ToProject [requirement ''CAP_AUDIT_VIEW'' ''ModelRouting''] (at t 1)
            None)
      else if length t = 3 \<and> seg t 2 ''refresh'' \<and> m = ''POST''
        then found (policy ToProject [requirement ''CAP_MODEL_ROUTING_RECONCILE'' ''ModelRouting'']
            (at t 1) None)
      else if length t = 2 \<and> m = ''PUT''
        then found (policy ToProject [requirement ''CAP_MODEL_ROUTING_UPDATE'' ''ModelRouting'']
            (at t 1) None)
      else if length t = 2 \<and> m = ''DELETE''
        then found (policy ToProject [requirement ''CAP_MODEL_ROUTING_DELETE'' ''ModelRouting'']
            (at t 1) None)
      else None)
  else None)"

definition audit_logs_routes :: routes where
  "audit_logs_routes m t =
  (if seg t 0 ''audit-logs''
    then (if length t = 2 \<and> seg t 1 ''export'' \<and> m = ''GET''
        then found (policy ToProject [requirement ''CAP_AUDIT_EXPORT'' ''AuditLog''] None None)
      else if length t = 1 \<and> m = ''GET''
        then found (policy ToProject [requirement ''CAP_AUDIT_DETAIL_VIEW'' ''AuditLog'']
            None (Some AuditLogList))
      else None)
  else None)"

definition traces_routes :: routes where
  "traces_routes m t =
  (if seg t 0 ''traces''
    then (if length t = 1 \<and> m = ''GET''
        then found (policy TraceCollection [requirement ''CAP_TRACE_VIEW'' ''Trace''] None None)
      else if length t = 2 \<and> given (at t 1) \<and> m = ''GET''
        then found (policy ToTrace [requirement ''CAP_TRACE_VIEW'' ''Trace''] (at t 1) None)
      else None)
  else None)"

definition costs_routes :: routes where
  "costs_routes m t =
  (if seg t 0 ''costs'' \<and> length t = 2 \<and> m = ''GET''
    then found (policy ToProject
        ([requirement ''CAP_COST_VIEW'' ''Cost'']
         @ (if seg t 1 ''data-quality'' then [requirement ''CAP_USAGE_DATA_QUALITY_VIEW'' ''Usage''] else []))
        None None)
  else None)"

definition project_route_table :: "routes list" where
  "project_route_table =
     [works_routes, personal_onboarding_routes, project_routes,
      deletion_impact_routes, members_routes, role_routes,
      quota_routes, resource_operations_routes, initialization_routes,
      runtime_routes, overview_routes, runtime_inventory_routes,
      authorization_routes, instances_routes, agents_routes,
      agent_garden_routes, memories_routes, access_policies_routes,
      catalog_routes, runtime_policies_routes, providers_routes,
      models_routes, inference_gateways_routes, model_routings_routes,
      audit_logs_routes, traces_routes, costs_routes]"

fun first_route :: "routes list \<Rightarrow> routes" where
  "first_route [] m t = None"
| "first_route (f # fs) m t = (case f m t of None \<Rightarrow> first_route fs m t | Some r \<Rightarrow> Some r)"

definition projectRouteAdmissionPolicy :: "string \<Rightarrow> string \<Rightarrow> route_policy option res" where
  "projectRouteAdmissionPolicy methodInput pathname =
     res_bind (projectTail pathname) (\<lambda>tail.
     Inr (case tail of
            None \<Rightarrow> None
          | Some t \<Rightarrow>
              (case first_route (token_routes # project_route_table) (to_upper methodInput) t of
                 None \<Rightarrow> None | Some r \<Rightarrow> r)))"

section \<open>Requirements of the content\<close>

text \<open>A member of a request body: the last one of that name.\<close>

definition member :: "string \<Rightarrow> (string \<times> js) list \<Rightarrow> js option" where
  "member k es = map_of (rev es) k"

definition nonempty_array :: "js option \<Rightarrow> bool" where
  "nonempty_array v = (case v of Some (JArr (_ # _)) \<Rightarrow> True | _ \<Rightarrow> False)"

definition requested_platform :: "(string \<times> js) list \<Rightarrow> string" where
  "requested_platform input =
     (case member ''agentPlatform'' input of
        Some (JStr p) \<Rightarrow> if isAgentPlatformId p then p else defaultAgentPlatformId
      | _ \<Rightarrow> defaultAgentPlatformId)"

definition conditionalInstanceCreateRequirements :: "(string \<times> js) list \<Rightarrow> bool \<Rightarrow> route_requirement list" where
  "conditionalInstanceCreateRequirements input durableMemoryEnabled =
     [requirement ''CAP_AGENT_INSTANCE_ACCESS_POLICY_ASSIGN'' ''AgentInstance'',
      requirement ''CAP_AGENT_INSTANCE_MODEL_ROUTING_ASSIGN'' ''AgentInstance'']
     @ (case member ''policyId'' input of
          Some (JStr _) \<Rightarrow> [requirement ''CAP_AGENT_INSTANCE_RUNTIME_POLICY_ASSIGN'' ''AgentInstance'']
        | _ \<Rightarrow> [])
     @ (if nonempty_array (member ''skillIds'' input)
        then [requirement ''CAP_AGENT_INSTANCE_SKILL_ASSIGN'' ''AgentInstance''] else [])
     @ (if nonempty_array (member ''mcpServerIds'' input)
        then [requirement ''CAP_AGENT_INSTANCE_MCP_SERVER_ASSIGN'' ''AgentInstance''] else [])
     @ (if nonempty_array (member ''knowledgeSourceIds'' input)
        then [requirement ''CAP_AGENT_INSTANCE_KNOWLEDGE_SOURCE_ASSIGN'' ''AgentInstance''] else [])
     @ (if durableMemoryEnabled \<and> requested_platform input \<in> {''openclaw'', ''hermes''}
        then [requirement ''CAP_AGENT_MEMORY_CONFIG_UPDATE'' ''AgentMemory''] else [])
     @ (case member ''memory'' input of
          Some (JObj es) \<Rightarrow>
            if member ''mode'' es = Some (JStr ''hybrid'')
            then [requirement ''CAP_AGENT_MEMORY_EMBEDDING_ASSIGN'' ''AgentMemory''] else []
        | _ \<Rightarrow> [])"

definition conditionalRequestRequirements ::
  "(string \<Rightarrow> bool) \<Rightarrow> route_policy \<Rightarrow> http_request \<Rightarrow> (string \<times> js) list \<Rightarrow> route_requirement list res" where
  "conditionalRequestRequirements durable admission request input =
     (if rp_kind admission = Some InstanceCreate then
        res_bind (case project_match (rq_pathname request) of
            None \<Rightarrow> Inr [] | Some (p, _) \<Rightarrow> decodeURIComponent p) (\<lambda>projectId.
        Inr (conditionalInstanceCreateRequirements input (durable projectId)))
      else if rp_kind admission = Some AuditLogList \<and> search_param request ''include_sensitive'' = Some ''true''
      then Inr [requirement ''CAP_AUDIT_SENSITIVE_CONTENT_VIEW'' ''AuditLog'']
      else Inr [])"

text \<open>The relation of the actor to the resource of the route.\<close>

definition concreteRelation ::
  "relation_resolver \<Rightarrow> bool \<Rightarrow> project_role option \<Rightarrow> string option \<Rightarrow> string" where
  "concreteRelation resolver ownedByActor collectionRole resolvedRelation =
     (let own = (if ownedByActor then ''OWNER'' else ''PROJECT_ANY'') in
      case resolver of
        NewOwner \<Rightarrow> ''OWNER''
      | InstanceCollection \<Rightarrow> ''PROJECT_ANY''
      | ExpertAgentCollection \<Rightarrow> ''PROJECT_ANY''
      | TraceCollection \<Rightarrow> ''PROJECT_ANY''
      | ToTrace \<Rightarrow> (case resolvedRelation of None \<Rightarrow> ''PROJECT_ANY'' | Some r \<Rightarrow> r)
      | ExpertAgent \<Rightarrow> (case resolvedRelation of None \<Rightarrow> own | Some r \<Rightarrow> r)
      | ToInstance \<Rightarrow> (case resolvedRelation of None \<Rightarrow> own | Some r \<Rightarrow> r)
      | RegisteredAgent \<Rightarrow> own
      | ToProject \<Rightarrow> ''PROJECT_ANY'')"

section \<open>What every policy satisfies\<close>

text \<open>A property of the policies a group of routes gives.\<close>

definition gives :: "(route_policy \<Rightarrow> bool) \<Rightarrow> route_policy option option \<Rightarrow> bool" where
  "gives Q r \<longleftrightarrow> (\<forall>p. r = Some (Some p) \<longrightarrow> Q p)"

lemma gives_simps [simp]:
  "gives Q None" "gives Q no_route" "gives Q (found p) \<longleftrightarrow> Q p"
  by (simp_all add: gives_def no_route_def found_def)

lemma gives_if [simp]: "gives Q (if c then x else y) \<longleftrightarrow> (c \<longrightarrow> gives Q x) \<and> (\<not> c \<longrightarrow> gives Q y)"
  by simp

lemma gives_first_route:
  assumes "\<And>f. f \<in> set fs \<Longrightarrow> gives Q (f m t)"
  shows "gives Q (first_route fs m t)"
  using assms by (induction fs) (auto simp: gives_def split: option.splits)

lemma gives_policy:
  assumes "projectRouteAdmissionPolicy m pathname = Inr (Some p)"
  obtains t where "projectTail pathname = Inr (Some t)"
    and "first_route (token_routes # project_route_table) (to_upper m) t = Some (Some p)"
  using assms by (auto simp: projectRouteAdmissionPolicy_def res_simps split: option.splits)

section \<open>The capabilities of the table\<close>

definition route_capability_ids :: "string list" where
  "route_capability_ids =
     [''CAP_PROJECT_VIEW'', ''CAP_PROJECT_SETTINGS_UPDATE'',
      ''CAP_PROJECT_DELETE'', ''CAP_PROJECT_MEMBER_VIEW'',
      ''CAP_PROJECT_MEMBER_INVITE'', ''CAP_PROJECT_MEMBER_ROLE_ASSIGN'',
      ''CAP_PROJECT_MEMBER_REMOVE'', ''CAP_PROJECT_ROLE_VIEW'',
      ''CAP_PROJECT_QUOTA_VIEW'', ''CAP_PROJECT_QUOTA_UPDATE'',
      ''CAP_AGENT_REGISTRATION_VIEW'', ''CAP_AGENT_REGISTRATION_CREATE'',
      ''CAP_AGENT_REGISTRATION_DISCOVER'', ''CAP_AGENT_REGISTRATION_UPDATE'',
      ''CAP_AGENT_REGISTRATION_DELETE'', ''CAP_AGENT_INSTANCE_CONFIG_VIEW'',
      ''CAP_AGENT_INSTANCE_CREATE'', ''CAP_AGENT_INSTANCE_DELETE'',
      ''CAP_AGENT_INSTANCE_LOG_VIEW'', ''CAP_AGENT_INSTANCE_INTERACT'',
      ''CAP_AGENT_INSTANCE_TERMINAL_EXEC'', ''CAP_AGENT_INSTANCE_SKILL_ASSIGN'',
      ''CAP_AGENT_INSTANCE_MCP_SERVER_ASSIGN'', ''CAP_AGENT_INSTANCE_KNOWLEDGE_SOURCE_ASSIGN'',
      ''CAP_AGENT_INSTANCE_ACCESS_POLICY_ASSIGN'', ''CAP_AGENT_INSTANCE_RUNTIME_POLICY_ASSIGN'',
      ''CAP_AGENT_INSTANCE_MODEL_ROUTING_ASSIGN'', ''CAP_AGENT_MEMORY_CONFIG_VIEW'',
      ''CAP_AGENT_MEMORY_CONFIG_UPDATE'', ''CAP_AGENT_MEMORY_EMBEDDING_ASSIGN'',
      ''CAP_AGENT_MEMORY_ITEM_VIEW'', ''CAP_AGENT_MEMORY_CONTENT_VIEW'',
      ''CAP_AGENT_MEMORY_CONTENT_WRITE'', ''CAP_AGENT_MEMORY_CONTENT_DELETE'',
      ''CAP_AGENT_MEMORY_CONTENT_PURGE'', ''CAP_AGENT_MEMORY_SESSION_INDEX_MANAGE'',
      ''CAP_AGENT_MEMORY_INDEX_STATUS_VIEW'', ''CAP_AGENT_MEMORY_INDEX_REBUILD'',
      ''CAP_AGENT_MEMORY_EXPORT'', ''CAP_SKILL_VIEW'',
      ''CAP_SKILL_CREATE'', ''CAP_SKILL_UPDATE'',
      ''CAP_SKILL_VERIFY'', ''CAP_SKILL_DELETE'',
      ''CAP_SKILL_ARTIFACT_DOWNLOAD'', ''CAP_MCP_SERVER_VIEW'',
      ''CAP_MCP_SERVER_CREATE'', ''CAP_MCP_SERVER_UPDATE'',
      ''CAP_MCP_SERVER_DELETE'', ''CAP_MCP_SERVER_DISCOVER'',
      ''CAP_VECTOR_DATABASE_VIEW'', ''CAP_VECTOR_DATABASE_CONTENT_VIEW'',
      ''CAP_VECTOR_DATABASE_CREATE'', ''CAP_VECTOR_DATABASE_UPDATE'',
      ''CAP_VECTOR_DATABASE_DELETE'', ''CAP_AGENT_SPECIALIZATION_VIEW'',
      ''CAP_ACCESS_POLICY_VIEW'', ''CAP_ACCESS_POLICY_VERSION_VIEW'',
      ''CAP_ACCESS_POLICY_CREATE'', ''CAP_ACCESS_POLICY_UPDATE'',
      ''CAP_ACCESS_POLICY_DELETE'', ''CAP_RUNTIME_POLICY_VIEW'',
      ''CAP_RUNTIME_POLICY_CREATE'', ''CAP_RUNTIME_POLICY_UPDATE'',
      ''CAP_RUNTIME_POLICY_DELETE'', ''CAP_PROVIDER_VIEW'',
      ''CAP_PROVIDER_CREATE'', ''CAP_PROVIDER_DELETE'',
      ''CAP_PROVIDER_DISCOVER'', ''CAP_PROVIDER_VALIDATE'',
      ''CAP_MODEL_VIEW'', ''CAP_MODEL_CREATE'',
      ''CAP_MODEL_DELETE'', ''CAP_INFERENCE_GATEWAY_VIEW'',
      ''CAP_MODEL_ROUTING_VIEW'', ''CAP_MODEL_ROUTING_CREATE'',
      ''CAP_MODEL_ROUTING_UPDATE'', ''CAP_MODEL_ROUTING_DELETE'',
      ''CAP_MODEL_ROUTING_RECONCILE'', ''CAP_AUDIT_VIEW'',
      ''CAP_AUDIT_DETAIL_VIEW'', ''CAP_AUDIT_SENSITIVE_CONTENT_VIEW'',
      ''CAP_AUDIT_EXPORT'', ''CAP_TRACE_VIEW'',
      ''CAP_RUNTIME_OPERATION_VIEW'', ''CAP_RUNTIME_OPERATION_RECONCILE'',
      ''CAP_COST_VIEW'', ''CAP_USAGE_VIEW'',
      ''CAP_USAGE_DATA_QUALITY_VIEW'']"

text \<open>The lists follow the order of the registry, so one pass decides that they are part of it.\<close>

lemma route_capabilities_subseq: "subseq route_capability_ids projectCapabilities"
  by code_simp

lemma subseq_in: "subseq xs ys \<Longrightarrow> x \<in> set xs \<Longrightarrow> x \<in> set ys"
  by (metis notin_set_nthsI subseq_conv_nths)

lemma route_capabilities_registered: "list_all isProjectCapability route_capability_ids"
  using subseq_in [OF route_capabilities_subseq] by (simp add: list_all_iff isProjectCapability_iff)

lemmas registered_ids = route_capabilities_registered [unfolded route_capability_ids_def list.pred_inject]

text \<open>The capabilities that change something.\<close>

definition side_effecting :: "string \<Rightarrow> bool" where
  "side_effecting c \<longleftrightarrow> (\<exists>d. projectCapabilityDefinition c = Some d \<and> cd_sideEffect d)"

lemma side_effecting_iff: "side_effecting c \<longleftrightarrow> isProjectCapability c \<and> \<not> suffix ''_VIEW'' c"
  unfolding side_effecting_def isProjectCapability_def
  using project_capability_side_effect by (cases "projectCapabilityDefinition c") auto

definition write_capability_ids :: "string list" where
  "write_capability_ids =
     [''CAP_PROJECT_SETTINGS_UPDATE'', ''CAP_PROJECT_DELETE'',
      ''CAP_PROJECT_MEMBER_INVITE'', ''CAP_PROJECT_MEMBER_ROLE_ASSIGN'',
      ''CAP_PROJECT_MEMBER_REMOVE'', ''CAP_PROJECT_QUOTA_UPDATE'',
      ''CAP_AGENT_REGISTRATION_CREATE'', ''CAP_AGENT_REGISTRATION_DISCOVER'',
      ''CAP_AGENT_REGISTRATION_UPDATE'', ''CAP_AGENT_REGISTRATION_DELETE'',
      ''CAP_AGENT_INSTANCE_CREATE'', ''CAP_AGENT_INSTANCE_DELETE'',
      ''CAP_AGENT_INSTANCE_INTERACT'', ''CAP_AGENT_INSTANCE_TERMINAL_EXEC'',
      ''CAP_AGENT_INSTANCE_SKILL_ASSIGN'', ''CAP_AGENT_INSTANCE_MCP_SERVER_ASSIGN'',
      ''CAP_AGENT_INSTANCE_KNOWLEDGE_SOURCE_ASSIGN'', ''CAP_AGENT_INSTANCE_ACCESS_POLICY_ASSIGN'',
      ''CAP_AGENT_INSTANCE_RUNTIME_POLICY_ASSIGN'', ''CAP_AGENT_INSTANCE_MODEL_ROUTING_ASSIGN'',
      ''CAP_AGENT_MEMORY_CONFIG_UPDATE'', ''CAP_AGENT_MEMORY_EMBEDDING_ASSIGN'',
      ''CAP_AGENT_MEMORY_CONTENT_WRITE'', ''CAP_AGENT_MEMORY_CONTENT_DELETE'',
      ''CAP_AGENT_MEMORY_CONTENT_PURGE'', ''CAP_AGENT_MEMORY_SESSION_INDEX_MANAGE'',
      ''CAP_AGENT_MEMORY_INDEX_REBUILD'', ''CAP_AGENT_MEMORY_EXPORT'',
      ''CAP_SKILL_CREATE'', ''CAP_SKILL_UPDATE'',
      ''CAP_SKILL_VERIFY'', ''CAP_SKILL_DELETE'',
      ''CAP_SKILL_ARTIFACT_DOWNLOAD'', ''CAP_MCP_SERVER_CREATE'',
      ''CAP_MCP_SERVER_UPDATE'', ''CAP_MCP_SERVER_DELETE'',
      ''CAP_MCP_SERVER_DISCOVER'', ''CAP_VECTOR_DATABASE_CREATE'',
      ''CAP_VECTOR_DATABASE_UPDATE'', ''CAP_VECTOR_DATABASE_DELETE'',
      ''CAP_ACCESS_POLICY_CREATE'', ''CAP_ACCESS_POLICY_UPDATE'',
      ''CAP_ACCESS_POLICY_DELETE'', ''CAP_RUNTIME_POLICY_CREATE'',
      ''CAP_RUNTIME_POLICY_UPDATE'', ''CAP_RUNTIME_POLICY_DELETE'',
      ''CAP_PROVIDER_CREATE'', ''CAP_PROVIDER_DELETE'',
      ''CAP_PROVIDER_DISCOVER'', ''CAP_PROVIDER_VALIDATE'',
      ''CAP_MODEL_CREATE'', ''CAP_MODEL_DELETE'',
      ''CAP_MODEL_ROUTING_CREATE'', ''CAP_MODEL_ROUTING_UPDATE'',
      ''CAP_MODEL_ROUTING_DELETE'', ''CAP_MODEL_ROUTING_RECONCILE'',
      ''CAP_AUDIT_EXPORT'', ''CAP_RUNTIME_OPERATION_RECONCILE'']"

lemma write_capabilities_subseq: "subseq write_capability_ids projectCapabilities"
  by code_simp

lemma write_capabilities_no_view: "list_all (\<lambda>c. \<not> suffix ''_VIEW'' c) write_capability_ids"
  by code_simp

lemma write_capabilities: "list_all side_effecting write_capability_ids"
  using subseq_in [OF write_capabilities_subseq] write_capabilities_no_view
  by (simp add: list_all_iff isProjectCapability_iff side_effecting_iff)

lemmas side_effecting_ids =
  write_capabilities [unfolded write_capability_ids_def list.pred_inject]

section \<open>Soundness of the table\<close>

text \<open>
  A requirement of a route asks for a registered capability, or for the member of an object
  literal a catalog kind happened to name. A writing route asks for a capability with a side
  effect, except for the routes whose handler decides on its own.
\<close>

definition known_requirement :: "route_requirement \<Rightarrow> bool" where
  "known_requirement r \<longleftrightarrow>
     isProjectCapability (rr_capability r) \<or> (\<exists>k. inherited_member k = Some (rr_capability r))"

definition self_guarded :: "route_requirement list" where
  "self_guarded = [requirement ''CAP_PROJECT_VIEW'' ''Work'', requirement ''CAP_PROJECT_VIEW'' ''PersonalOnboarding'',
     requirement ''CAP_PROJECT_VIEW'' ''ProjectRole'',
     requirement ''CAP_VECTOR_DATABASE_CONTENT_VIEW'' ''VectorDatabase'',
     requirement ''CAP_AGENT_INSTANCE_LOG_VIEW'' ''AgentInstance'']"

definition guards_write :: "route_requirement \<Rightarrow> bool" where
  "guards_write r \<longleftrightarrow> side_effecting (rr_capability r)
     \<or> (\<exists>k. inherited_member k = Some (rr_capability r)) \<or> r \<in> set self_guarded"

definition sound_policy :: "string \<Rightarrow> string list \<Rightarrow> route_policy \<Rightarrow> bool" where
  "sound_policy m t p \<longleftrightarrow> \<not> rp_skipBecauseCapabilityToken p \<and> rp_requirements p \<noteq> []
     \<and> list_all known_requirement (rp_requirements p)
     \<and> m \<in> {''GET'', ''POST'', ''PUT'', ''PATCH'', ''DELETE''}
     \<and> (m = ''GET'' \<or> list_ex guards_write (rp_requirements p))
     \<and> opt_all (\<lambda>i. i \<in> set t) (rp_resourceId p)"

lemma at_in: "at t i = Some x \<Longrightarrow> x \<in> set t"
  by (auto simp: at_def split: if_splits)

text \<open>The check of a leaf of the table, decided by evaluation.\<close>

definition leaf_ok :: "string \<Rightarrow> route_requirement list \<Rightarrow> bool" where
  "leaf_ok m rs \<longleftrightarrow> rs \<noteq> [] \<and> list_all known_requirement rs
     \<and> m \<in> {''GET'', ''POST'', ''PUT'', ''PATCH'', ''DELETE''} \<and> (m = ''GET'' \<or> list_ex guards_write rs)"

lemma sound_leaf:
  "sound_policy m t (policy rel rs None k) \<longleftrightarrow> leaf_ok m rs"
  "sound_policy m t (policy rel rs (at t n) k) \<longleftrightarrow> leaf_ok m rs"
  "sound_policy m t (agentDeveloperPolicy rel rs None) \<longleftrightarrow> leaf_ok m rs"
  "sound_policy m t (agentDeveloperPolicy rel rs (at t n)) \<longleftrightarrow> leaf_ok m rs"
  using at_in [of t n]
  by (auto simp: sound_policy_def leaf_ok_def policy_def agentDeveloperPolicy_def opt_all_iff)

lemma known_requirement_simp:
  "known_requirement (requirement c x) \<longleftrightarrow> isProjectCapability c \<or> (\<exists>k. inherited_member k = Some c)"
  by (simp add: known_requirement_def requirement_def)

lemma guards_write_simp:
  "guards_write (requirement c x) \<longleftrightarrow> side_effecting c
     \<or> (\<exists>k. inherited_member k = Some c) \<or> requirement c x \<in> set self_guarded"
  by (simp add: guards_write_def requirement_def)

lemma self_guarded_routes:
  "requirement ''CAP_PROJECT_VIEW'' ''Work'' \<in> set self_guarded"
  "requirement ''CAP_PROJECT_VIEW'' ''PersonalOnboarding'' \<in> set self_guarded"
  "requirement ''CAP_PROJECT_VIEW'' ''ProjectRole'' \<in> set self_guarded"
  "requirement ''CAP_VECTOR_DATABASE_CONTENT_VIEW'' ''VectorDatabase'' \<in> set self_guarded"
  "requirement ''CAP_AGENT_INSTANCE_LOG_VIEW'' ''AgentInstance'' \<in> set self_guarded"
  by (simp_all add: self_guarded_def)

lemmas leaf_check = sound_leaf leaf_ok_def known_requirement_simp
  guards_write_simp self_guarded_routes registered_ids side_effecting_ids

lemma works_routes_sound: "gives (sound_policy m t) (works_routes m t)"
  by (auto simp: works_routes_def leaf_check)

lemma personal_onboarding_routes_sound: "gives (sound_policy m t) (personal_onboarding_routes m t)"
  by (auto simp: personal_onboarding_routes_def leaf_check)

lemma project_routes_sound: "gives (sound_policy m t) (project_routes m t)"
  by (simp add: project_routes_def leaf_check)

lemma deletion_impact_routes_sound: "gives (sound_policy m t) (deletion_impact_routes m t)"
  by (simp add: deletion_impact_routes_def leaf_check)

lemma members_routes_sound: "gives (sound_policy m t) (members_routes m t)"
  by (simp add: members_routes_def leaf_check)

lemma role_routes_sound: "gives (sound_policy m t) (role_routes m t)"
  by (simp add: role_routes_def leaf_check)

lemma quota_routes_sound: "gives (sound_policy m t) (quota_routes m t)"
  by (simp add: quota_routes_def leaf_check)

lemma resource_operations_routes_sound: "gives (sound_policy m t) (resource_operations_routes m t)"
  by (simp add: resource_operations_routes_def leaf_check)

lemma initialization_routes_sound: "gives (sound_policy m t) (initialization_routes m t)"
  by (simp add: initialization_routes_def leaf_check)

lemma runtime_routes_sound: "gives (sound_policy m t) (runtime_routes m t)"
  by (simp add: runtime_routes_def leaf_check)

lemma overview_routes_sound: "gives (sound_policy m t) (overview_routes m t)"
  by (simp add: overview_routes_def leaf_check)

lemma runtime_inventory_routes_sound: "gives (sound_policy m t) (runtime_inventory_routes m t)"
  by (simp add: runtime_inventory_routes_def leaf_check)

lemma authorization_routes_sound: "gives (sound_policy m t) (authorization_routes m t)"
  by (simp add: authorization_routes_def leaf_check)

lemma instances_routes_sound: "gives (sound_policy m t) (instances_routes m t)"
  by (auto simp: instances_routes_def leaf_check)

lemma agents_routes_sound: "gives (sound_policy m t) (agents_routes m t)"
  by (simp add: agents_routes_def leaf_check)

lemma agent_garden_routes_sound: "gives (sound_policy m t) (agent_garden_routes m t)"
  by (simp add: agent_garden_routes_def leaf_check)

lemma memories_routes_sound: "gives (sound_policy m t) (memories_routes m t)"
  by (simp add: memories_routes_def leaf_check)

lemma access_policies_routes_sound: "gives (sound_policy m t) (access_policies_routes m t)"
  by (simp add: access_policies_routes_def leaf_check)

lemma catalog_item_routes_sound: "gives (sound_policy m t) (catalog_item_routes m t)"
proof -
  have known: "leaf_ok m [requirement c x]"
    if "catalog_action m t = Some action" "catalogCapability k action = Some c" for action k c x
    using that
    by (auto simp: catalog_action_def catalogCapability_def leaf_check split: if_splits)
  then show ?thesis
    by (auto simp: catalog_item_routes_def sound_leaf split: option.splits)
qed



lemma catalog_routes_sound: "gives (sound_policy m t) (catalog_routes m t)"
  by (auto simp: catalog_item_routes_sound catalog_routes_def leaf_check)

lemma runtime_policies_routes_sound: "gives (sound_policy m t) (runtime_policies_routes m t)"
  by (simp add: runtime_policies_routes_def leaf_check)

lemma providers_routes_sound: "gives (sound_policy m t) (providers_routes m t)"
  by (simp add: providers_routes_def leaf_check)

lemma models_routes_sound: "gives (sound_policy m t) (models_routes m t)"
  by (simp add: models_routes_def leaf_check)

lemma inference_gateways_routes_sound: "gives (sound_policy m t) (inference_gateways_routes m t)"
  by (simp add: inference_gateways_routes_def leaf_check)

lemma model_routings_routes_sound: "gives (sound_policy m t) (model_routings_routes m t)"
  by (simp add: model_routings_routes_def leaf_check)

lemma audit_logs_routes_sound: "gives (sound_policy m t) (audit_logs_routes m t)"
  by (simp add: audit_logs_routes_def leaf_check)

lemma traces_routes_sound: "gives (sound_policy m t) (traces_routes m t)"
  by (simp add: traces_routes_def leaf_check)

lemma costs_routes_sound: "gives (sound_policy m t) (costs_routes m t)"
  by (simp add: costs_routes_def leaf_check)



lemma route_table_leaves: "gives (sound_policy m t) (first_route project_route_table m t)"
  by (rule gives_first_route)
    (auto simp: project_route_table_def
      works_routes_sound personal_onboarding_routes_sound project_routes_sound deletion_impact_routes_sound members_routes_sound role_routes_sound quota_routes_sound resource_operations_routes_sound initialization_routes_sound runtime_routes_sound overview_routes_sound runtime_inventory_routes_sound authorization_routes_sound instances_routes_sound agents_routes_sound agent_garden_routes_sound memories_routes_sound access_policies_routes_sound catalog_routes_sound runtime_policies_routes_sound providers_routes_sound models_routes_sound inference_gateways_routes_sound model_routings_routes_sound audit_logs_routes_sound traces_routes_sound costs_routes_sound)

lemma policy_leaf:
  assumes "projectRouteAdmissionPolicy m pathname = Inr (Some p)" and "\<not> rp_skipBecauseCapabilityToken p"
  obtains t where "projectTail pathname = Inr (Some t)" and "sound_policy (to_upper m) t p"
proof -
  from assms(1) obtain t where tail: "projectTail pathname = Inr (Some t)"
    and route: "first_route (token_routes # project_route_table) (to_upper m) t = Some (Some p)"
    by (rule gives_policy)
  have "token_routes (to_upper m) t = None"
    using route assms(2) by (auto simp: token_routes_def found_def split: if_splits)
  with route have "first_route project_route_table (to_upper m) t = Some (Some p)"
    by simp
  with route_table_leaves [of "to_upper m" t] that [OF tail] show ?thesis
    by (simp add: gives_def)
qed

text \<open>
  C23. Every route of a Project that is served at all asks for at least one capability, or is
  one of the sockets with a token of its own; what it asks for is registered, unless the kind
  of a catalog item names an inherited member of an object; and a request that is not a
  \<open>GET\<close> needs a capability with a side effect, except on five routes that a viewing capability
  opens.
\<close>

lemma route_table_sound:
  assumes "projectRouteAdmissionPolicy m pathname = Inr (Some p)"
  shows "if rp_skipBecauseCapabilityToken p
    then to_upper m = ''GET'' \<and> rp_requirements p = []
      \<and> (\<exists>x s. projectTail pathname = Inr (Some [x, s, ''ws'']) \<and> x \<in> {''terminal-sessions'', ''agent-log-sessions''})
    else rp_requirements p \<noteq> [] \<and> list_all known_requirement (rp_requirements p)
      \<and> (to_upper m = ''GET'' \<or> list_ex guards_write (rp_requirements p))"
proof -
  from assms obtain t where tail: "projectTail pathname = Inr (Some t)"
    and route: "first_route (token_routes # project_route_table) (to_upper m) t = Some (Some p)"
    by (rule gives_policy)
  show ?thesis
  proof (cases "rp_skipBecauseCapabilityToken p")
    case False
    then show ?thesis
      using policy_leaf [OF assms False] by (auto simp: sound_policy_def)
  next
    case True
    have "\<not> gives (sound_policy (to_upper m) t) (Some (Some p))"
      using True by (simp add: gives_def sound_policy_def)
    then have "first_route project_route_table (to_upper m) t \<noteq> Some (Some p)"
      using route_table_leaves [of "to_upper m" t] by auto
    with route have "token_routes (to_upper m) t = Some (Some p)"
      by (cases "token_routes (to_upper m) t") auto
    then have p: "rp_requirements p = []" "to_upper m = ''GET''"
      and t: "length t = 3" "seg t 0 ''terminal-sessions'' \<or> seg t 0 ''agent-log-sessions''" "seg t 2 ''ws''"
      by (auto simp: token_routes_def found_def split: if_splits)
    from t obtain s where "t = [''terminal-sessions'', s, ''ws''] \<or> t = [''agent-log-sessions'', s, ''ws'']"
      by (auto simp: seg_def at_def numeral_eq_Suc length_Suc_conv)
    with True p tail show ?thesis by auto
  qed
qed

text \<open>
  C19. The routes that define and develop agents are open to nobody but an active Agent
  Developer, and ask for capabilities over agent registrations only.
\<close>

lemma agent_routes_need_developer:
  assumes "projectTail pathname = Inr (Some (''agents'' # rest))"
    and "projectRouteAdmissionPolicy m pathname = Inr (Some p)"
  shows "rp_requiredActiveRole p = Some DeveloperRole
    \<and> list_all (\<lambda>r. prefix ''CAP_AGENT_REGISTRATION_'' (rr_capability r)) (rp_requirements p)"
proof -
  define t where "t = ''agents'' # rest"
  have other: "seg t 0 x \<longleftrightarrow> x = ''agents''" for x
    by (auto simp: t_def seg_def at_def)
  have "t \<noteq> []" by (simp add: t_def)
  then have "first_route (token_routes # project_route_table) (to_upper m) t =
      (case agents_routes (to_upper m) t of None \<Rightarrow> None | Some r \<Rightarrow> Some r)"
    by (cases "agents_routes (to_upper m) t")
      (simp_all add: project_route_table_def other token_routes_def project_routes_def
      works_routes_def personal_onboarding_routes_def deletion_impact_routes_def members_routes_def role_routes_def quota_routes_def resource_operations_routes_def initialization_routes_def runtime_routes_def overview_routes_def runtime_inventory_routes_def authorization_routes_def instances_routes_def agent_garden_routes_def memories_routes_def access_policies_routes_def catalog_routes_def runtime_policies_routes_def providers_routes_def models_routes_def inference_gateways_routes_def model_routings_routes_def audit_logs_routes_def traces_routes_def costs_routes_def)
  moreover have "gives (\<lambda>p. rp_requiredActiveRole p = Some DeveloperRole
      \<and> list_all (\<lambda>r. prefix ''CAP_AGENT_REGISTRATION_'' (rr_capability r)) (rp_requirements p))
      (agents_routes (to_upper m) t)"
    by (simp add: agents_routes_def agentDeveloperPolicy_def policy_def requirement_def)
  ultimately show ?thesis
    using assms by (auto simp: projectRouteAdmissionPolicy_def t_def [symmetric] gives_def split: option.splits)
qed

lemma relation_owner:
  "concreteRelation resolver own c rel = ''OWNER'' \<Longrightarrow> resolver = NewOwner \<or> own \<or> rel = Some ''OWNER''"
  by (auto simp: concreteRelation_def Let_def split: relation_resolver.splits option.splits if_splits)

section \<open>Two requests\<close>

lemma sample_agent_route:
  "projectTail ''/api/v1/projects/p/agents/a%31'' = Inr (Some [''agents'', ''a1''])"
  "projectRouteAdmissionPolicy ''patch'' ''/api/v1/projects/p/agents/a%31'' = Inr (Some
     \<lparr>rp_kind = None, rp_relation = ExpertAgent, rp_requiredActiveRole = Some DeveloperRole,
      rp_requirements = [\<lparr>rr_capability = ''CAP_AGENT_REGISTRATION_UPDATE'', rr_resourceType = ''ExpertAgent''\<rparr>],
      rp_resourceId = Some ''a1'', rp_skipBecauseCapabilityToken = False\<rparr>)"
  by code_simp+

lemma route_table_sound_witness:
  "guards_write \<lparr>rr_capability = ''CAP_AGENT_REGISTRATION_UPDATE'', rr_resourceType = ''ExpertAgent''\<rparr>"
proof -
  have "to_upper ''patch'' = ''PATCH''"
    by code_simp
  then show ?thesis
    using route_table_sound [OF sample_agent_route(2)] by simp
qed

lemma agent_routes_need_developer_witness:
  "prefix ''CAP_AGENT_REGISTRATION_'' ''CAP_AGENT_REGISTRATION_UPDATE''"
  using agent_routes_need_developer [OF sample_agent_route] by simp

text \<open>The corner the first claim allows for: a catalog kind that is an inherited name.\<close>

lemma inherited_catalog_kind:
  "(case projectRouteAdmissionPolicy ''POST'' ''/api/v1/projects/p/catalog/constructor'' of
      Inr (Some p) \<Rightarrow> map rr_capability (rp_requirements p) = [''function Object() { [native code] }'']
    | _ \<Rightarrow> False)"
  by code_simp

end
