(* ===== verification/Admission_Middleware.thy ===== *)
theory Admission_Middleware
  imports Admission Route_Policy Work_Contracts
begin

text \<open>
  \<open>middleware/project-capability-admission.ts\<close>, with \<open>requireProjectCapability\<close> of
  \<open>services.ts\<close> and \<open>requireUser\<close> of \<open>projects/project-service.ts\<close>: every request to a
  Project passes here before its handler. The principal a request authenticates as is an
  argument, as the session library gives it once per request; so is the parsed body.
\<close>

section \<open>The database a request is judged by\<close>

record run_view =
  rv_projectId :: string
  rv_traceId :: "string option"
  rv_expertAgentId :: "string option"

record agent_member_row =
  gm_projectId :: string
  gm_agentId :: string
  gm_userId :: string
  gm_relation :: string
  gm_agentDeleted :: bool

record owned_row =
  ow_projectId :: string
  ow_id :: string
  ow_ownerUserId :: "string option"
  ow_deleted :: bool

record project_db =
  pd_members :: "member_row list"
  pd_users :: "user_view list"
  pd_runs :: "run_view list"
  pd_agentMembers :: "agent_member_row list"
  pd_instances :: "owned_row list"
  pd_registered :: "owned_row list"

definition scoped_project_id :: "string \<Rightarrow> string res" where
  "scoped_project_id pathname =
     (let parts = split_on CHR ''/'' pathname
      in decodeURIComponent (if 4 < length parts then parts ! 4 else []))"

section \<open>Relation to a resource\<close>

record ownership_result =
  os_collectionRole :: "project_role option"
  os_ownedByActor :: bool
  os_resolvedRelation :: "string option"

definition agent_relation :: "project_db \<Rightarrow> string \<Rightarrow> string \<Rightarrow> string \<Rightarrow> string option" where
  "agent_relation db projectId agentId actorId =
     map_option gm_relation (find (\<lambda>g. gm_projectId g = projectId \<and> gm_agentId g = agentId
       \<and> gm_userId g = actorId \<and> \<not> gm_agentDeleted g) (pd_agentMembers db))"

definition by_relation :: "string option \<Rightarrow> ownership_result" where
  "by_relation rel = \<lparr>os_collectionRole = None, os_ownedByActor = (rel = Some ''OWNER''),
     os_resolvedRelation = rel\<rparr>"

definition owned :: "bool \<Rightarrow> ownership_result" where
  "owned b = \<lparr>os_collectionRole = None, os_ownedByActor = b, os_resolvedRelation = None\<rparr>"

definition owned_by :: "owned_row list \<Rightarrow> string \<Rightarrow> string option \<Rightarrow> owned_row option" where
  "owned_by rows projectId resourceId =
     (if given resourceId
      then find (\<lambda>w. ow_projectId w = projectId \<and> ow_id w = the resourceId \<and> \<not> ow_deleted w) rows
      else None)"

text \<open>The Agent Developer a resource identifier may belong to is looked up for UUIDs only.\<close>

definition uuid_relation :: "project_db \<Rightarrow> string \<Rightarrow> string option \<Rightarrow> string \<Rightarrow> string option" where
  "uuid_relation db projectId resourceId actorId =
     (if given resourceId \<and> is_uuid (the resourceId)
      then agent_relation db projectId (the resourceId) actorId else None)"

definition trace_relation :: "project_db \<Rightarrow> string \<Rightarrow> string option \<Rightarrow> string \<Rightarrow> string option" where
  "trace_relation db projectId resourceId actorId =
     (if given resourceId then
        (case find (\<lambda>r. rv_projectId r = projectId \<and> rv_traceId r = resourceId \<and> rv_expertAgentId r \<noteq> None)
            (pd_runs db) of
           None \<Rightarrow> None
         | Some r \<Rightarrow> if given (rv_expertAgentId r)
             then agent_relation db projectId (the (rv_expertAgentId r)) actorId else None)
      else None)"

definition active_member_role ::
  "member_row list \<Rightarrow> string \<Rightarrow> string \<Rightarrow> project_role option \<Rightarrow> project_role option" where
  "active_member_role members projectId actorId preferred =
     (case find_unique member_key (projectId, actorId) members of
        None \<Rightarrow> None
      | Some m \<Rightarrow> if membershipHasAccess (mr_membership m)
          then Some (activeRoleForMembership (mr_membership m) preferred) else None)"

definition ownership ::
  "project_db \<Rightarrow> string \<Rightarrow> string \<Rightarrow> relation_resolver \<Rightarrow> string option \<Rightarrow> project_role option \<Rightarrow>
     ownership_result" where
  "ownership db projectId actorId resolver resourceId preferred =
     (case resolver of
        InstanceCollection \<Rightarrow> (owned False)\<lparr>os_collectionRole :=
          active_member_role (pd_members db) projectId actorId preferred\<rparr>
      | ExpertAgentCollection \<Rightarrow> (owned False)\<lparr>os_collectionRole :=
          active_member_role (pd_members db) projectId actorId preferred\<rparr>
      | TraceCollection \<Rightarrow> (owned False)\<lparr>os_collectionRole :=
          active_member_role (pd_members db) projectId actorId preferred\<rparr>
      | ToTrace \<Rightarrow> by_relation (trace_relation db projectId resourceId actorId)
      | ExpertAgent \<Rightarrow> by_relation (uuid_relation db projectId resourceId actorId)
      | ToInstance \<Rightarrow>
          (case owned_by (pd_instances db) projectId resourceId of
             Some w \<Rightarrow> owned (ow_ownerUserId w = Some actorId)
           | None \<Rightarrow> by_relation (uuid_relation db projectId resourceId actorId))
      | RegisteredAgent \<Rightarrow>
          (case owned_by (pd_registered db) projectId resourceId of
             Some w \<Rightarrow> owned (ow_ownerUserId w = Some actorId)
           | None \<Rightarrow> owned False)
      | NewOwner \<Rightarrow> owned True
      | ToProject \<Rightarrow> owned False)"

section \<open>One capability\<close>

definition requireUser :: "user_view list \<Rightarrow> principal \<Rightarrow> string res" where
  "requireUser users auth =
     (case find_unique uv_id (au_userId auth) users of
        None \<Rightarrow> Inl (PlainError ''The authenticated TaskLattice Relay user is unavailable.'')
      | Some u \<Rightarrow> if uv_status u = ''active'' then Inr (uv_id u)
          else Inl (PlainError ''The authenticated TaskLattice Relay user is unavailable.''))"

text \<open>The role the session has selected for this Project.\<close>

definition selected_role :: "principal \<Rightarrow> string \<Rightarrow> project_role option option" where
  "selected_role auth projectId =
     (case au_accessContext auth of
        None \<Rightarrow> None
      | Some c \<Rightarrow> if ac_level c = ''project'' \<and> ac_resourceId c = Some projectId
          then Some (projectRoleFromBuiltinRole (Some (ac_roleId c))) else None)"

definition preferred_for :: "principal \<Rightarrow> string \<Rightarrow> preferred_role" where
  "preferred_for auth projectId =
     (case selected_role auth projectId of
        Some (Some r) \<Rightarrow> PreferRole r
      | Some None \<Rightarrow> AnyRole
      | None \<Rightarrow> if given (au_sessionId auth) then NoRole else AnyRole)"

definition requireProjectCapability ::
  "(string \<Rightarrow> string) \<Rightarrow> configured_catalog \<Rightarrow> project_db \<Rightarrow> principal res \<Rightarrow> http_request \<Rightarrow> string \<Rightarrow>
     requirement_options \<Rightarrow> admission_state \<Rightarrow> (admission_error + admission_evidence) \<times> admission_state" where
  "requireProjectCapability dig cat db auth request capability opts st =
     (case res_bind auth (\<lambda>a. res_bind (requireUser (pd_users db) a) (\<lambda>u.
        res_bind (case project_match (rq_pathname request) of
            None \<Rightarrow> Inr [] | Some (p, _) \<Rightarrow> decodeURIComponent p) (\<lambda>projectId.
        Inr (a, u, projectId)))) of
        Inl e \<Rightarrow> (Inl (OtherFailure e), st)
      | Inr (a, u, projectId) \<Rightarrow>
          authorize dig cat (pd_members db) request u capability opts (preferred_for a projectId) st)"

section \<open>The middleware\<close>

text \<open>The loop over the requirements stops at the first one that is not met.\<close>

fun require_all ::
  "(route_requirement \<Rightarrow> admission_state \<Rightarrow> (admission_error + admission_evidence) \<times> admission_state) \<Rightarrow>
     route_requirement list \<Rightarrow> admission_state \<Rightarrow> (admission_error + unit) \<times> admission_state" where
  "require_all f [] st = (Inr (), st)"
| "require_all f (r # rs) st =
     (case f r st of
        (Inl e, st1) \<Rightarrow> (Inl e, st1)
      | (Inr _, st1) \<Rightarrow> require_all f rs st1)"

datatype admission_outcome = Proceed | Respond problem

definition is_memory_path :: "string \<Rightarrow> bool" where
  "is_memory_path pathname =
     (case project_match pathname of
        None \<Rightarrow> False | Some (_, rest) \<Rightarrow> rest = ''/memories'' \<or> prefix ''/memories/'' rest)"

definition json_body :: "js option \<Rightarrow> (string \<times> js) list" where
  "json_body body = (case body of Some (JObj es) \<Rightarrow> es | _ \<Rightarrow> [])"

definition admit ::
  "(failure \<Rightarrow> string) \<Rightarrow> (string \<Rightarrow> string) \<Rightarrow> configured_catalog \<Rightarrow> (string \<Rightarrow> bool) \<Rightarrow> project_db \<Rightarrow>
     principal res \<Rightarrow> http_request \<Rightarrow> js option \<Rightarrow> route_policy \<Rightarrow> string \<Rightarrow> principal \<Rightarrow>
     admission_state \<Rightarrow> admission_outcome \<times> admission_state" where
  "admit message dig cat durable db auth request body p projectId a st =
     (let actorId = au_userId a;
          preferred = (case selected_role a projectId of Some r \<Rightarrow> r | None \<Rightarrow> None) in
      if rp_requiredActiveRole p \<noteq> None
        \<and> active_member_role (pd_members db) projectId actorId preferred \<noteq> rp_requiredActiveRole p
      then (Respond (problemResponse 403
          ''Agent definition and development require the active Agent Developer role.''
          (Some ''agent_developer_role_required'') None), st)
      else
        (let own = ownership db projectId actorId (rp_relation p) (rp_resourceId p) preferred;
             relation = concreteRelation (rp_relation p) (os_ownedByActor own) (os_collectionRole own)
               (os_resolvedRelation own)
         in case conditionalRequestRequirements durable p request
             (if rp_kind p = Some InstanceCreate then json_body body else []) of
            Inl e \<Rightarrow> (Respond (responseForError message (OtherFailure e)), st)
          | Inr extra \<Rightarrow>
              (case require_all
                  (\<lambda>r. requireProjectCapability dig cat db auth request (rr_capability r)
                     \<lparr>ro_relation = Some relation, ro_resourceId = rp_resourceId p,
                      ro_resourceType = rr_resourceType r\<rparr>)
                  (rp_requirements p @ extra) st of
                 (Inl e, st1) \<Rightarrow> (Respond (responseForError message e), st1)
               | (Inr _, st1) \<Rightarrow>
                   (Proceed, st1\<lparr>as_context := markProjectAdmissionComplete (as_context st1)\<rparr>))))"

text \<open>A failure outside the handler's own catches is the platform's: it is not a response.\<close>

definition project_capability_admission ::
  "(failure \<Rightarrow> string) \<Rightarrow> (string \<Rightarrow> string) \<Rightarrow> configured_catalog \<Rightarrow> (string \<Rightarrow> bool) \<Rightarrow> project_db \<Rightarrow>
     principal res \<Rightarrow> http_request \<Rightarrow> js option \<Rightarrow> admission_state \<Rightarrow>
     (admission_outcome \<times> admission_state) res" where
  "project_capability_admission message dig cat durable db auth request body st =
     res_bind (projectRouteAdmissionPolicy (rq_method request) (rq_pathname request)) (\<lambda>admission.
     if project_match (rq_pathname request) = None \<or> to_upper (rq_method request) = ''OPTIONS''
     then Inr (Proceed, st)
     else
       res_bind (scoped_project_id (rq_pathname request)) (\<lambda>projectId.
       if is_memory_path (rq_pathname request) \<and> \<not> durable projectId
       then Inr (Respond (problemResponse 404 ''Durable Memory is not enabled for this Project.''
           (Some ''feature_disabled'') None), st)
       else
         (case admission of
            None \<Rightarrow> Inr (Respond (failure_problem message
                (PlainError ''Access denied: this Project route has no Capability admission policy.'')), st)
          | Some p \<Rightarrow>
              if rp_skipBecauseCapabilityToken p then Inr (Proceed, st)
              else
                (case auth of
                   Inl e \<Rightarrow> Inr (Respond (unauthorizedResponse message e), st)
                 | Inr a \<Rightarrow> Inr (admit message dig cat durable db auth request body p projectId a st)))))"

section \<open>What an admitted request guarantees\<close>

text \<open>The Project of the two ways to read it from the path is the same.\<close>

lemma split_on_append: "c \<notin> set x \<Longrightarrow> split_on c (x @ c # y) = x # split_on c y"
  by (induction x) auto

lemma split_on_none: "c \<notin> set x \<Longrightarrow> split_on c x = [x]"
  by (induction x) auto

lemma project_match_Some:
  assumes "project_match pathname = Some (p, rest)"
  shows "pathname = projects_prefix @ p @ rest \<and> CHR ''/'' \<notin> set p \<and> p \<noteq> []
     \<and> (rest = [] \<or> (\<exists>z. rest = CHR ''/'' # z))"
proof -
  define tail where "tail = drop (length projects_prefix) pathname"
  from assms have pre: "prefix projects_prefix pathname" and p: "p = takeWhile (\<lambda>c. c \<noteq> CHR ''/'') tail" "p \<noteq> []"
    and rest: "rest = dropWhile (\<lambda>c. c \<noteq> CHR ''/'') tail"
    by (auto simp: project_match_def Let_def tail_def split: if_splits)
  have "pathname = projects_prefix @ tail"
    using pre by (auto simp: prefix_def tail_def)
  moreover have "rest = [] \<or> (\<exists>z. rest = CHR ''/'' # z)"
    unfolding rest
    by (cases "dropWhile (\<lambda>c. c \<noteq> CHR ''/'') tail") (auto simp: dropWhile_eq_Cons_conv)
  ultimately show ?thesis
    using p rest by (auto dest: set_takeWhileD)
qed

lemma scoped_project_id_match:
  assumes "project_match pathname = Some (p, rest)"
  shows "scoped_project_id pathname = decodeURIComponent p"
proof -
  have path: "pathname = projects_prefix @ p @ rest" and p: "CHR ''/'' \<notin> set p"
    and rest: "rest = [] \<or> (\<exists>z. rest = CHR ''/'' # z)"
    using project_match_Some [OF assms] by auto
  have "split_on CHR ''/'' pathname = [] # ''api'' # ''v1'' # ''projects'' # split_on CHR ''/'' (p @ rest)"
    using path by (simp add: projects_prefix_def)
  moreover have "\<exists>zs. split_on CHR ''/'' (p @ rest) = p # zs"
    using rest p by (auto simp: split_on_append split_on_none)
  ultimately show ?thesis
    by (auto simp: scoped_project_id_def Let_def)
qed

text \<open>
  What the loop over the requirements establishes for each of them and keeps: the role tables
  are those of the catalog, and the acting role has a covering grant there.
\<close>

definition requirement_met ::
  "(string \<Rightarrow> string) \<Rightarrow> configured_catalog \<Rightarrow> project_db \<Rightarrow> http_request \<Rightarrow> string \<Rightarrow> string \<Rightarrow> project_role \<Rightarrow>
     string \<Rightarrow> admission_state \<Rightarrow> route_requirement \<Rightarrow> bool" where
  "requirement_met dig cat db request projectId actorId acting rel st r \<longleftrightarrow>
     ensureBuiltinRoleCatalog cat (as_roles st) = Inr (as_roles st)
     \<and> (granted (as_roles st) (membershipRoleToBuiltinRole acting) (rr_capability r) rel
        \<or> personal_cost_exception dig (pd_members db) request projectId actorId (rr_capability r))"

lemma requireProjectCapability_Inr:
  assumes "requireProjectCapability dig cat db (Inr a) request c opts st = (Inr ev, st')"
    and "scoped_project_id (rq_pathname request) = Inr projectId"
  obtains m where "find_unique member_key (projectId, au_userId a) (pd_members db) = Some m"
    and "membershipHasAccess (mr_membership m)" and "\<not> pv_deleted (mr_project m)"
    and "preferred_for a projectId \<noteq> NoRole" and "requireUser (pd_users db) a = Inr (au_userId a)"
    and "ensureBuiltinRoleCatalog cat (as_roles st) = Inr (as_roles st')"
    and "requirement_met dig cat db request projectId (au_userId a)
        (activeRoleForMembership (mr_membership m) (preferred_option (preferred_for a projectId)))
        (case ro_relation opts of None \<Rightarrow> ''PROJECT_ANY'' | Some r \<Rightarrow> r) st'
        \<lparr>rr_capability = c, rr_resourceType = t\<rparr>"
    and "rc_complete (as_context st') = rc_complete (as_context st)"
proof -
  have user: "u = au_userId a" if "requireUser (pd_users db) a = Inr u" for u
    using that find_unique_key [of uv_id "au_userId a" "pd_users db"]
    by (auto simp: requireUser_def split: option.splits if_splits)
  from assms(1) obtain pid where ru: "requireUser (pd_users db) a = Inr (au_userId a)"
    and au: "authorize dig cat (pd_members db) request (au_userId a) c opts (preferred_for a pid) st = (Inr ev, st')"
    and pid: "(case project_match (rq_pathname request) of None \<Rightarrow> Inr [] | Some (p, _) \<Rightarrow> decodeURIComponent p) = Inr pid"
    by (auto simp: requireProjectCapability_def res_simps dest: user split: sum.splits prod.splits)
  from au obtain pid' m where m: "projectIdFromRequest request = Inr pid'"
    "find_unique member_key (pid', au_userId a) (pd_members db) = Some m"
    "membershipHasAccess (mr_membership m)" "\<not> pv_deleted (mr_project m)" "preferred_for a pid \<noteq> NoRole"
    "ensureBuiltinRoleCatalog cat (as_roles st) = Inr (as_roles st')"
    "granted (as_roles st')
        (membershipRoleToBuiltinRole (activeRoleForMembership (mr_membership m) (preferred_option (preferred_for a pid))))
        c (case ro_relation opts of None \<Rightarrow> ''PROJECT_ANY'' | Some r \<Rightarrow> r)
      \<or> personal_cost_exception dig (pd_members db) request pid' (au_userId a) c"
    "as_context st' = appendAdmissionEvidence (as_context st) ev"
    by (rule authorize_Inr)
  obtain p rest where match: "project_match (rq_pathname request) = Some (p, rest)"
    using m(1) by (auto simp: projectIdFromRequest_def split: option.splits)
  have same: "pid = projectId" "pid' = projectId"
    using match m(1) pid assms(2) scoped_project_id_match [OF match]
    by (auto simp: projectIdFromRequest_def)
  show ?thesis
    by (rule that [of m, OF m(2-5) [unfolded same] ru m(6)])
      (use m same ensure_idem [OF m(6)] in \<open>auto simp: requirement_met_def appendAdmissionEvidence_def\<close>)
qed

lemma require_all_Inr:
  assumes "require_all f rs st = (Inr u, st')"
    and step: "\<And>r s s' ev. r \<in> set rs \<Longrightarrow> f r s = (Inr ev, s') \<Longrightarrow> Q r s' \<and> (\<forall>q. Q q s \<longrightarrow> Q q s')"
  shows "(\<forall>r\<in>set rs. Q r st') \<and> (\<forall>q. Q q st \<longrightarrow> Q q st')"
  using assms
proof (induction rs arbitrary: st)
  case (Cons r rs)
  then obtain ev s where "f r st = (Inr ev, s)" "require_all f rs s = (Inr u, st')"
    by (auto split: sum.splits prod.splits)
  with Cons show ?case
    by (metis list.set_intros set_ConsD)
qed simp

lemma middleware_marks:
  assumes "project_capability_admission message dig cat durable db auth request body st = Inr (Proceed, st')"
    and "st \<noteq> st'"
  obtains p projectId a where
    "projectRouteAdmissionPolicy (rq_method request) (rq_pathname request) = Inr (Some p)"
    and "\<not> rp_skipBecauseCapabilityToken p" and "scoped_project_id (rq_pathname request) = Inr projectId"
    and "auth = Inr a" and "admit message dig cat durable db (Inr a) request body p projectId a st = (Proceed, st')"
proof -
  obtain admission where adm: "projectRouteAdmissionPolicy (rq_method request) (rq_pathname request) = Inr admission"
    using assms(1) by (auto simp: project_capability_admission_def res_simps)
  then obtain projectId where pid: "scoped_project_id (rq_pathname request) = Inr projectId"
    using assms by (auto simp: project_capability_admission_def res_simps split: if_splits)
  obtain p where p: "admission = Some p"
    using assms adm pid by (cases admission) (auto simp: project_capability_admission_def split: if_splits)
  have skip: "\<not> rp_skipBecauseCapabilityToken p"
    using assms adm pid p by (auto simp: project_capability_admission_def split: if_splits)
  obtain a where a: "auth = Inr a"
    using assms adm pid p skip by (cases auth) (auto simp: project_capability_admission_def split: if_splits)
  have "admit message dig cat durable db (Inr a) request body p projectId a st = (Proceed, st')"
    using assms adm pid p skip a by (auto simp: project_capability_admission_def split: if_splits)
  with that adm p skip pid a show ?thesis by blast
qed

lemma preferred_for_option:
  "preferred_option (preferred_for a projectId) =
     (case selected_role a projectId of Some r \<Rightarrow> r | None \<Rightarrow> None)"
  by (simp add: preferred_for_def preferred_option_def split: option.split)

lemma preferred_for_session:
  "preferred_for a projectId \<noteq> NoRole \<Longrightarrow> given (au_sessionId a) \<Longrightarrow> selected_role a projectId \<noteq> None"
  by (auto simp: preferred_for_def split: option.splits)


section \<open>A request that passes\<close>

definition sample_agent_id :: string where
  "sample_agent_id = ''11111111-1111-4111-8111-111111111111''"

definition sample_request :: http_request where
  "sample_request = \<lparr>rq_method = ''PATCH'', rq_pathname = ''/api/v1/projects/p/agents/'' @ sample_agent_id,
     rq_query = []\<rparr>"

definition sample_project_db :: project_db where
  "sample_project_db = \<lparr>pd_members = [\<lparr>mr_projectId = ''p'', mr_userId = ''u'',
       mr_membership = sample_membership DeveloperRole,
       mr_user = \<lparr>uv_id = ''u'', uv_displayName = ''U'', uv_status = ''active''\<rparr>,
       mr_project = \<lparr>pv_id = ''p'', pv_createdBy = Some ''u'', pv_departmentId = ''d'', pv_deleted = False,
         pv_department = \<lparr>dv_id = ''d'', dv_createdBy = None, dv_status = ''active''\<rparr>\<rparr>\<rparr>],
     pd_users = [\<lparr>uv_id = ''u'', uv_displayName = ''U'', uv_status = ''active''\<rparr>],
     pd_runs = [],
     pd_agentMembers = [\<lparr>gm_projectId = ''p'', gm_agentId = sample_agent_id, gm_userId = ''u'',
       gm_relation = ''OWNER'', gm_agentDeleted = False\<rparr>],
     pd_instances = [], pd_registered = []\<rparr>"

definition sample_principal :: principal where
  "sample_principal = \<lparr>au_userId = ''u'', au_sessionId = Some ''s'',
     au_accessContext = Some \<lparr>ac_level = ''project'', ac_resourceId = Some ''p'',
       ac_roleId = ''ROLE_AGENT_DEVELOPER''\<rparr>\<rparr>"

definition sample_roles :: role_db where
  "sample_roles = sample_role_db\<lparr>rb_grants := [\<lparr>n_roleId = ''ROLE_AGENT_DEVELOPER'',
     n_capabilityId = ''CAP_AGENT_REGISTRATION_UPDATE'', n_relations = [''OWNER'']\<rparr>]\<rparr>"

definition sample_evidence :: admission_evidence where
  "sample_evidence = \<lparr>ev_actorId = ''u'', ev_capability = ''CAP_AGENT_REGISTRATION_UPDATE'',
     ev_decision = ALLOW, ev_projectId = ''p'',
     ev_reason = ''ROLE_AGENT_DEVELOPER grants CAP_AGENT_REGISTRATION_UPDATE for OWNER.'',
     ev_relation = ''OWNER'', ev_resourceId = Some sample_agent_id, ev_resourceType = ''ExpertAgent'',
     ev_roleId = Some ''ROLE_AGENT_DEVELOPER'', ev_policyId = None\<rparr>"

lemma sample_request_admitted:
  "project_capability_admission (\<lambda>_. []) (\<lambda>s. s) sample_catalog (\<lambda>_. True) sample_project_db
     (Inr sample_principal) sample_request None
     \<lparr>as_roles = sample_roles, as_context = \<lparr>rc_complete = False, rc_evidence = []\<rparr>\<rparr> =
   Inr (Proceed, \<lparr>as_roles = sample_roles,
     as_context = \<lparr>rc_complete = True, rc_evidence = [sample_evidence]\<rparr>\<rparr>)"
  by code_simp

lemma sample_scoped_project: "scoped_project_id (rq_pathname sample_request) = Inr ''p''"
  by code_simp


end
