(* ===== verification/Budget_Window.thy ===== *)
theory Budget_Window
  imports Prelude
begin

text \<open>
  \<open>quotas/budget-window.ts\<close>: the reset window of a budget. Dates are milliseconds since the
  epoch; a stored date that is absent or not finite is \<open>None\<close>.
\<close>

datatype budget_duration = Day1 | Day7 | Day30

fun budgetDurationMilliseconds :: "budget_duration \<Rightarrow> int" where
  "budgetDurationMilliseconds Day1 = 24 * 60 * 60 * 1000"
| "budgetDurationMilliseconds Day7 = 7 * 24 * 60 * 60 * 1000"
| "budgetDurationMilliseconds Day30 = 30 * 24 * 60 * 60 * 1000"

lemma duration_pos: "0 < budgetDurationMilliseconds d"
  by (cases d) simp_all

definition nextBudgetWindow ::
  "int \<Rightarrow> budget_duration \<Rightarrow> int option \<Rightarrow> int option \<Rightarrow> int \<times> int" where
  "nextBudgetWindow now duration storedStart storedReset =
     (let len = budgetDurationMilliseconds duration;
          startedAt = (case storedStart of Some s \<Rightarrow> s | None \<Rightarrow> now);
          resetsAt = (case storedReset of Some r \<Rightarrow> r | None \<Rightarrow> startedAt + len);
          resetsAt = (if resetsAt \<le> startedAt then startedAt + len else resetsAt)
      in if resetsAt \<le> now
         then (let elapsed = (now - resetsAt) div len + 1
               in (resetsAt + (elapsed - 1) * len, resetsAt + elapsed * len))
         else (startedAt, resetsAt))"

section \<open>The window by single steps\<close>

text \<open>The reference: one window after the other until the current one.\<close>

function roll :: "int \<Rightarrow> budget_duration \<Rightarrow> int \<Rightarrow> int \<Rightarrow> int \<times> int" where
  "roll now d s r =
     (if now < r then (s, r) else roll now d r (r + budgetDurationMilliseconds d))"
  by pat_completeness auto
termination
  by (relation "measure (\<lambda>(now, d, s, r). nat (now + 1 - r))") (use duration_pos in auto)

declare roll.simps [simp del]

lemma roll_closed:
  "roll now d s r =
     (if now < r then (s, r)
      else (let k = (now - r) div budgetDurationMilliseconds d + 1
            in (r + (k - 1) * budgetDurationMilliseconds d, r + k * budgetDurationMilliseconds d)))"
proof (induction now d s r rule: roll.induct)
  case (1 now d s r)
  let ?l = "budgetDurationMilliseconds d"
  have l: "0 < ?l" by (rule duration_pos)
  show ?case
  proof (cases "now < r")
    case False
    have IH: "roll now d s r = roll now d r (r + ?l)"
      using False by (simp add: roll.simps [of now d s r])
    show ?thesis
    proof (cases "now < r + ?l")
      case True
      then have "(now - r) div ?l = 0" using False by (intro div_pos_pos_trivial) auto
      then show ?thesis
        using True False IH by (simp add: roll.simps [of now d r "r + ?l"])
    next
      case later: False
      have "(now - r) div ?l = (now - (r + ?l)) div ?l + 1"
        using l div_add_self2 [of ?l "now - (r + ?l)"] by (simp add: algebra_simps)
      then show ?thesis
        using "1.IH" [OF False] later False IH by (simp add: Let_def algebra_simps)
    qed
  qed (simp add: roll.simps [of now d s r])
qed

text \<open>
  C34. Skipping the elapsed windows by division gives the window that single steps give.
\<close>

lemma window_is_rolled:
  "nextBudgetWindow now d st rs =
     (let s = (case st of Some s \<Rightarrow> s | None \<Rightarrow> now);
          r = (case rs of Some r \<Rightarrow> r | None \<Rightarrow> s + budgetDurationMilliseconds d)
      in roll now d s (if r \<le> s then s + budgetDurationMilliseconds d else r))"
  unfolding nextBudgetWindow_def Let_def roll_closed by (auto simp: not_less)

text \<open>
  The window holds the present: it ends after now, and it begins by now unless a stored
  window begins in the future; a new window, and one that was rolled on, has exactly its length.
\<close>

lemma window_holds_now:
  assumes "nextBudgetWindow now d st rs = (s, r)"
  shows "now < r \<and> s < r \<and> (opt_all (\<lambda>x. x \<le> now) st \<longrightarrow> s \<le> now)
    \<and> (rs = None \<or> opt_all (\<lambda>x. x \<le> now) rs \<longrightarrow> r - s = budgetDurationMilliseconds d)"
proof -
  let ?l = "budgetDurationMilliseconds d"
  have l: "0 < ?l" by (rule duration_pos)
  define s0 where "s0 = (case st of Some s \<Rightarrow> s | None \<Rightarrow> now)"
  define r0 where "r0 = (case rs of Some r \<Rightarrow> r | None \<Rightarrow> s0 + ?l)"
  define r1 where "r1 = (if r0 \<le> s0 then s0 + ?l else r0)"
  define m where "m = (now - r1) div ?l"
  have sr: "(s, r) = (if r1 \<le> now then (r1 + m * ?l, r1 + (m + 1) * ?l) else (s0, r1))"
    using assms [symmetric] unfolding nextBudgetWindow_def Let_def s0_def [symmetric] r0_def [symmetric]
      r1_def [symmetric] m_def [symmetric] by simp
  have r1: "s0 < r1" using l by (simp add: r1_def)
  obtain w where split: "now - r1 = m * ?l + w" "0 \<le> w" "w < ?l"
    using l by (intro that [of "(now - r1) mod ?l"]) (simp_all add: m_def)
  have s0: "opt_all (\<lambda>x. x \<le> now) st \<Longrightarrow> s0 \<le> now"
    by (cases st) (simp_all add: s0_def)
  have new: "rs = None \<or> opt_all (\<lambda>x. x \<le> now) rs \<Longrightarrow> now < r1 \<Longrightarrow> r1 = s0 + ?l"
    by (cases rs) (auto simp: r1_def r0_def split: if_splits)
  show ?thesis
  proof (cases "r1 \<le> now")
    case True
    with sr have "s = r1 + m * ?l" "r = r1 + (m + 1) * ?l" by simp_all
    with split l show ?thesis by (auto simp: algebra_simps)
  next
    case False
    with sr r1 s0 new show ?thesis by auto
  qed
qed

lemma window_holds_now_witness:
  "nextBudgetWindow 10000000000 Day30 (Some 0) (Some 2592000000) = (7776000000, 10368000000)
   \<and> (10000000000::int) < 10368000000"
proof -
  have "nextBudgetWindow 10000000000 Day30 (Some 0) (Some 2592000000) = (7776000000, 10368000000)"
    by code_simp
  then show ?thesis using window_holds_now by blast
qed

end
