(* ===== verification/Department_Quotas.thy ===== *)
theory Department_Quotas
  imports Budget_Window Transition_Systems
begin

text \<open>
  The shares of a Department's hard limits that its Projects hold: the quota of a Project
  (\<open>quotas/project-quota-service.ts\<close>), the limits of a Department
  (\<open>departments/department-settings-service.ts\<close>, \<open>departments/department-service.ts\<close>) and the
  share a new Project starts with (\<open>projects/project-service.ts\<close>). Money is counted in
  millionths of a dollar, as the columns store it.
\<close>

section \<open>Rows\<close>

record quota_row =
  q_projectId :: string
  q_hardBudgetUsd :: "nat option"
  q_budgetDuration :: "budget_duration option"
  q_budgetPeriodStartedAt :: "int option"
  q_budgetResetsAt :: "int option"
  q_tpmLimit :: "nat option"
  q_maxInstances :: "nat option"
  q_maxMcpIntegrations :: "nat option"
  q_maxKnowledgeBaseIntegrations :: "nat option"
  q_litellmTeamId :: "string option"
  q_syncStatus :: string
  q_lastSyncedAt :: "int option"
  q_lastSyncError :: "string option"
  q_updatedBy :: "string option"
  q_revision :: nat

record project_row =
  pj_id :: string
  pj_name :: string
  pj_departmentId :: string
  pj_deleted :: bool

record project_defaults =
  df_hardBudgetUsd :: "nat option"
  df_budgetDuration :: "budget_duration option"
  df_tpmLimit :: "nat option"
  df_maxInstances :: "nat option"
  df_maxMcpIntegrations :: "nat option"
  df_maxKnowledgeBaseIntegrations :: "nat option"

record hard_limits =
  hl_budgetUsd :: "nat option"
  hl_maxInstances :: "nat option"
  hl_maxMcpIntegrations :: "nat option"
  hl_maxKnowledgeBaseIntegrations :: "nat option"

text \<open>The models and the routing a new Project inherits.\<close>

record model_defaults =
  md_defaultChatModel :: "string option"
  md_defaultEmbeddingModel :: "string option"
  md_mode :: string
  md_fallbackModel :: "string option"

record department_row =
  dp_id :: string
  dp_name :: string
  dp_description :: "string option"
  dp_status :: string
  dp_models :: model_defaults
  dp_soft :: hard_limits
  dp_hard :: hard_limits
  dp_defaults :: project_defaults
  dp_settingsRevision :: nat

text \<open>A row of a counted resource: an Agent, an MCP server or a knowledge source.\<close>

record counted_row =
  cn_projectId :: string
  cn_deleted :: bool

record quota_db =
  qd_departments :: "department_row list"
  qd_projects :: "project_row list"
  qd_quotas :: "quota_row list"
  qd_agents :: "counted_row list"
  qd_mcpServers :: "counted_row list"
  qd_knowledgeSources :: "counted_row list"

datatype quota_error =
    NotFound string
  | NeedsBudget
  | BudgetOverAllocated nat nat
  | NeedsQuota string
  | QuotaOverAllocated string nat nat
  | HardBelowRunning string nat
  | HardBelowAllocated string nat
  | NewProjectExceeds string nat nat nat
  | QuotaReached string nat nat
  | DepartmentQuotaReached string nat nat
  | NameTaken string
  | BadInput

type_synonym 'a qres = "quota_error + 'a"

text \<open>A row as the database creates it when only the Project is given.\<close>

definition blank_quota :: "string \<Rightarrow> quota_row" where
  "blank_quota i = \<lparr>q_projectId = i, q_hardBudgetUsd = None, q_budgetDuration = None,
     q_budgetPeriodStartedAt = None, q_budgetResetsAt = None, q_tpmLimit = None, q_maxInstances = None,
     q_maxMcpIntegrations = None, q_maxKnowledgeBaseIntegrations = None, q_litellmTeamId = None,
     q_syncStatus = ''pending'', q_lastSyncedAt = None, q_lastSyncError = None, q_updatedBy = None, q_revision = 1\<rparr>"

definition ensureRecord :: "string \<Rightarrow> quota_db \<Rightarrow> quota_row \<times> quota_db" where
  "ensureRecord i db =
     (case find_unique q_projectId i (qd_quotas db) of
        Some q \<Rightarrow> (q, db)
      | None \<Rightarrow> (blank_quota i, db\<lparr>qd_quotas := qd_quotas db @ [blank_quota i]\<rparr>))"

section \<open>Shares\<close>

definition active_in :: "quota_db \<Rightarrow> string \<Rightarrow> string \<Rightarrow> bool" where
  "active_in db d i \<longleftrightarrow> list_ex (\<lambda>p. pj_id p = i \<and> pj_departmentId p = d \<and> \<not> pj_deleted p) (qd_projects db)"

definition department_quotas :: "quota_db \<Rightarrow> string \<Rightarrow> quota_row list" where
  "department_quotas db d = filter (\<lambda>q. active_in db d (q_projectId q)) (qd_quotas db)"

definition sumNullable :: "nat option list \<Rightarrow> nat" where
  "sumNullable xs = sum_list (map (\<lambda>x. case x of None \<Rightarrow> 0 | Some n \<Rightarrow> n) xs)"

text \<open>What the other active Projects of the Department hold.\<close>

definition siblings_hold :: "(quota_row \<Rightarrow> nat option) \<Rightarrow> quota_db \<Rightarrow> string \<Rightarrow> string \<Rightarrow> nat" where
  "siblings_hold share db d i =
     sumNullable (map share (filter (\<lambda>q. q_projectId q \<noteq> i) (department_quotas db d)))"

section \<open>The quota of a Project\<close>

record quota_input =
  in_hardBudgetUsd :: "nat option"
  in_budgetDuration :: "budget_duration option"
  in_tpmLimit :: "nat option"
  in_maxInstances :: "nat option"
  in_maxMcpIntegrations :: "nat option"
  in_maxKnowledgeBaseIntegrations :: "nat option"

text \<open>\<open>updateProjectQuotaSchema\<close>: the numbers are whole and not negative by their type.\<close>

definition up_to :: "nat \<Rightarrow> nat option \<Rightarrow> bool" where
  "up_to n x \<longleftrightarrow> opt_all (\<lambda>y. y \<le> n) x"

definition updateProjectQuotaSchema :: "quota_input \<Rightarrow> quota_input qres" where
  "updateProjectQuotaSchema i =
     res_bind (ensure (up_to (10000000 * 1000000) (in_hardBudgetUsd i) \<and> up_to 1000000000 (in_tpmLimit i)
       \<and> up_to 1000000000 (in_maxInstances i) \<and> up_to 1000000000 (in_maxMcpIntegrations i)
       \<and> up_to 1000000000 (in_maxKnowledgeBaseIntegrations i)) BadInput) (\<lambda>_.
     res_bind (ensure (in_hardBudgetUsd i \<noteq> None \<longrightarrow> in_budgetDuration i \<noteq> None) BadInput) (\<lambda>_. Inr i))"

text \<open>One entry of \<open>capacityChecks\<close>.\<close>

definition check_capacity :: "string \<times> nat option \<times> nat \<times> nat option \<Rightarrow> unit qres" where
  "check_capacity c = (case c of (label, requested, siblings, hard) \<Rightarrow>
     (case hard of None \<Rightarrow> Inr ()
      | Some h \<Rightarrow>
         (case requested of None \<Rightarrow> Inl (NeedsQuota label)
          | Some r \<Rightarrow> ensure (siblings + r \<le> h) (QuotaOverAllocated label (siblings + r) h))))"

definition check_budget :: "nat option \<Rightarrow> nat \<Rightarrow> nat option \<Rightarrow> unit qres" where
  "check_budget requested siblings hard =
     (case hard of None \<Rightarrow> Inr ()
      | Some h \<Rightarrow>
         (case requested of None \<Rightarrow> Inl NeedsBudget
          | Some r \<Rightarrow> ensure (siblings + r \<le> h) (BudgetOverAllocated (siblings + r) h)))"

definition databaseInput :: "quota_input \<Rightarrow> (int \<times> int) option \<Rightarrow> quota_row \<Rightarrow> quota_row" where
  "databaseInput i window q = q\<lparr>q_hardBudgetUsd := in_hardBudgetUsd i, q_budgetDuration := in_budgetDuration i,
     q_budgetPeriodStartedAt := map_option fst window, q_budgetResetsAt := map_option snd window,
     q_tpmLimit := in_tpmLimit i, q_maxInstances := in_maxInstances i,
     q_maxMcpIntegrations := in_maxMcpIntegrations i,
     q_maxKnowledgeBaseIntegrations := in_maxKnowledgeBaseIntegrations i\<rparr>"

definition quota_window :: "int \<Rightarrow> quota_input \<Rightarrow> quota_row \<Rightarrow> (int \<times> int) option" where
  "quota_window now i current =
     (let changed = q_hardBudgetUsd current \<noteq> in_hardBudgetUsd i \<or> q_budgetDuration current \<noteq> in_budgetDuration i
      in case (in_hardBudgetUsd i, in_budgetDuration i) of
           (Some _, Some d) \<Rightarrow> Some (nextBudgetWindow now d
             (if changed then None else q_budgetPeriodStartedAt current)
             (if changed then None else q_budgetResetsAt current))
         | _ \<Rightarrow> None)"

definition update_project_quota :: "int \<Rightarrow> string \<Rightarrow> string \<Rightarrow> quota_input \<Rightarrow> quota_db \<Rightarrow> quota_db qres" where
  "update_project_quota now actor i inp db =
     res_bind (of_option (NotFound ''project'') (find_unique pj_id i (qd_projects db))) (\<lambda>project.
     res_bind (of_option (NotFound ''department'')
       (find_unique dp_id (pj_departmentId project) (qd_departments db))) (\<lambda>department.
     (let d = pj_departmentId project; hard = dp_hard department; (current, db1) = ensureRecord i db in
     res_bind (check_budget (in_hardBudgetUsd inp) (siblings_hold q_hardBudgetUsd db1 d i) (hl_budgetUsd hard)) (\<lambda>_.
     res_bind (fold_res (\<lambda>c _. check_capacity c)
       [(''Instance'', in_maxInstances inp, siblings_hold q_maxInstances db1 d i, hl_maxInstances hard),
        (''MCP integration'', in_maxMcpIntegrations inp, siblings_hold q_maxMcpIntegrations db1 d i,
          hl_maxMcpIntegrations hard),
        (''Vector Database integration'', in_maxKnowledgeBaseIntegrations inp,
          siblings_hold q_maxKnowledgeBaseIntegrations db1 d i, hl_maxKnowledgeBaseIntegrations hard)] ()) (\<lambda>_.
     Inr (db1\<lparr>qd_quotas := update_rows (\<lambda>q. q_projectId q = i)
       (\<lambda>q. (databaseInput inp (quota_window now inp current) q)\<lparr>q_updatedBy := Some actor,
          q_syncStatus := ''pending'', q_lastSyncError := None, q_revision := q_revision q + 1\<rparr>)
       (qd_quotas db1)\<rparr>))))))"

definition ensureCurrentBudgetWindow :: "int \<Rightarrow> string \<Rightarrow> quota_db \<Rightarrow> quota_row \<times> quota_db" where
  "ensureCurrentBudgetWindow now i db =
     (let (quota, db1) = ensureRecord i db in
      case (q_hardBudgetUsd quota, q_budgetDuration quota) of
        (Some _, Some d) \<Rightarrow>
          (let (s, r) = nextBudgetWindow now d (q_budgetPeriodStartedAt quota) (q_budgetResetsAt quota) in
           if q_budgetPeriodStartedAt quota = Some s \<and> q_budgetResetsAt quota = Some r then (quota, db1)
           else (quota\<lparr>q_budgetPeriodStartedAt := Some s, q_budgetResetsAt := Some r\<rparr>,
                 db1\<lparr>qd_quotas := update_rows (\<lambda>q. q_projectId q = i)
                   (\<lambda>q. q\<lparr>q_budgetPeriodStartedAt := Some s, q_budgetResetsAt := Some r\<rparr>) (qd_quotas db1)\<rparr>))
      | _ \<Rightarrow> (quota, db1))"

section \<open>Room for one more resource\<close>

datatype limited_resource = Instances | Mcp | KnowledgeBase

fun resource_rows :: "limited_resource \<Rightarrow> quota_db \<Rightarrow> counted_row list" where
  "resource_rows Instances db = qd_agents db"
| "resource_rows Mcp db = qd_mcpServers db"
| "resource_rows KnowledgeBase db = qd_knowledgeSources db"

fun resource_limit :: "limited_resource \<Rightarrow> quota_row \<Rightarrow> nat option" where
  "resource_limit Instances q = q_maxInstances q"
| "resource_limit Mcp q = q_maxMcpIntegrations q"
| "resource_limit KnowledgeBase q = q_maxKnowledgeBaseIntegrations q"

fun resource_hard :: "limited_resource \<Rightarrow> hard_limits \<Rightarrow> nat option" where
  "resource_hard Instances h = hl_maxInstances h"
| "resource_hard Mcp h = hl_maxMcpIntegrations h"
| "resource_hard KnowledgeBase h = hl_maxKnowledgeBaseIntegrations h"

fun resource_label :: "limited_resource \<Rightarrow> string" where
  "resource_label Instances = ''Instance''"
| "resource_label Mcp = ''MCP integration''"
| "resource_label KnowledgeBase = ''Vector Database integration''"

definition project_count :: "limited_resource \<Rightarrow> quota_db \<Rightarrow> string \<Rightarrow> nat" where
  "project_count r db i = count_rows (\<lambda>x. cn_projectId x = i \<and> \<not> cn_deleted x) (resource_rows r db)"

definition department_count :: "limited_resource \<Rightarrow> quota_db \<Rightarrow> string \<Rightarrow> nat" where
  "department_count r db d =
     count_rows (\<lambda>x. \<not> cn_deleted x \<and> active_in db d (cn_projectId x)) (resource_rows r db)"

definition below :: "nat \<Rightarrow> nat option \<Rightarrow> bool" where
  "below n limit \<longleftrightarrow> (case limit of None \<Rightarrow> True | Some l \<Rightarrow> n < l)"

definition assertCanCreate :: "limited_resource \<Rightarrow> string \<Rightarrow> quota_db \<Rightarrow> unit qres \<times> quota_db" where
  "assertCanCreate r i db =
     (let (quota, db1) = ensureRecord i db;
          n = project_count r db1 i; limit = resource_limit r quota
      in (res_bind (ensure (below n limit) (QuotaReached (resource_label r) n (the limit))) (\<lambda>_.
          res_bind (of_option (NotFound ''project'') (find_unique pj_id i (qd_projects db1))) (\<lambda>project.
          res_bind (of_option (NotFound ''department'')
            (find_unique dp_id (pj_departmentId project) (qd_departments db1))) (\<lambda>department.
          (let hard = resource_hard r (dp_hard department);
               m = department_count r db1 (pj_departmentId project)
           in ensure (below m hard) (DepartmentQuotaReached (resource_label r) m (the hard)))))), db1))"

section \<open>The limits of a Department\<close>

definition with_window :: "int \<Rightarrow> quota_row \<Rightarrow> quota_row" where
  "with_window now q = (let (s, r) = nextBudgetWindow now Day30 None None in
     q\<lparr>q_hardBudgetUsd := Some 0, q_budgetDuration := Some Day30, q_budgetPeriodStartedAt := Some s,
       q_budgetResetsAt := Some r\<rparr>)"

definition active_projects :: "quota_db \<Rightarrow> string \<Rightarrow> string list" where
  "active_projects db d =
     map pj_id (filter (\<lambda>p. pj_departmentId p = d \<and> \<not> pj_deleted p) (qd_projects db))"

text \<open>A Project without a budget gets a budget of zero once the Department has a limit.\<close>

definition bound_budget :: "int \<Rightarrow> string \<Rightarrow> quota_row list \<Rightarrow> quota_row list" where
  "bound_budget now i quotas =
     (case find_unique q_projectId i quotas of
        None \<Rightarrow> quotas @ [with_window now (blank_quota i)]
      | Some q \<Rightarrow> if q_hardBudgetUsd q = None
          then update_rows (\<lambda>q. q_projectId q = i) (with_window now) quotas else quotas)"

text \<open>\<open>_count\<close> counts every row of the Project, also the deleted ones.\<close>

definition all_rows :: "limited_resource \<Rightarrow> quota_db \<Rightarrow> string \<Rightarrow> nat" where
  "all_rows r db i = count_rows (\<lambda>x. cn_projectId x = i) (resource_rows r db)"

fun set_limit :: "limited_resource \<Rightarrow> nat \<Rightarrow> quota_row \<Rightarrow> quota_row" where
  "set_limit Instances n q = q\<lparr>q_maxInstances := Some n\<rparr>"
| "set_limit Mcp n q = q\<lparr>q_maxMcpIntegrations := Some n\<rparr>"
| "set_limit KnowledgeBase n q = q\<lparr>q_maxKnowledgeBaseIntegrations := Some n\<rparr>"

text \<open>
  \<open>before\<close> is the table as the transaction read it with the Projects, which decides whose
  share is still open.
\<close>

definition bound_project :: "limited_resource \<Rightarrow> quota_db \<Rightarrow> string \<Rightarrow> quota_row list \<Rightarrow> quota_row list" where
  "bound_project r before i quotas =
     (if (case find_unique q_projectId i (qd_quotas before) of None \<Rightarrow> False
          | Some q \<Rightarrow> resource_limit r q \<noteq> None)
      then quotas
      else upsert_row q_projectId (set_limit r (all_rows r before i) (blank_quota i))
        (set_limit r (all_rows r before i)) quotas)"

definition boundExistingProjects ::
  "quota_db \<Rightarrow> string list \<Rightarrow> hard_limits \<Rightarrow> limited_resource \<Rightarrow> quota_row list \<Rightarrow> quota_row list qres" where
  "boundExistingProjects before projects hard r quotas =
     (case resource_hard r hard of
        None \<Rightarrow> Inr quotas
      | Some h \<Rightarrow>
          (let actual = sum_list (map (all_rows r before) projects) in
           res_bind (ensure (actual \<le> h) (HardBelowRunning (resource_label r) actual)) (\<lambda>_.
           Inr (fold (bound_project r before) projects quotas))))"

definition assertAllocatedWithinHardQuota :: "string \<Rightarrow> nat \<Rightarrow> nat option \<Rightarrow> unit qres" where
  "assertAllocatedWithinHardQuota label allocated hard =
     ensure (case hard of None \<Rightarrow> True | Some h \<Rightarrow> allocated \<le> h) (HardBelowAllocated label allocated)"

record settings_input =
  si_models :: model_defaults
  si_soft :: hard_limits
  si_hard :: hard_limits
  si_defaults :: project_defaults

definition optionalModelReference :: "string option \<Rightarrow> string option qres" where
  "optionalModelReference m =
     (case m of None \<Rightarrow> Inr None
      | Some s \<Rightarrow>
          (let t = js_trim s in
           res_bind (ensure (1 \<le> js_length t \<and> js_length t \<le> 255
             \<and> list_all (\<lambda>u. strip_prefix js_white_space u = None) (suffixes t)) BadInput) (\<lambda>_. Inr (Some t))))"

definition limits_up_to :: "nat \<Rightarrow> hard_limits \<Rightarrow> bool" where
  "limits_up_to n l \<longleftrightarrow> up_to (n * 1000000) (hl_budgetUsd l) \<and> up_to n (hl_maxInstances l)
     \<and> up_to n (hl_maxMcpIntegrations l) \<and> up_to n (hl_maxKnowledgeBaseIntegrations l)"

definition not_above :: "nat option \<Rightarrow> nat option \<Rightarrow> bool" where
  "not_above a b \<longleftrightarrow> (case (a, b) of (Some x, Some y) \<Rightarrow> x \<le> y | _ \<Rightarrow> True)"

definition updateDepartmentSettingsSchema :: "settings_input \<Rightarrow> settings_input qres" where
  "updateDepartmentSettingsSchema inp =
     (let soft = si_soft inp; hard = si_hard inp; df = si_defaults inp; md = si_models inp in
      res_bind (optionalModelReference (md_defaultChatModel md)) (\<lambda>chat.
      res_bind (optionalModelReference (md_defaultEmbeddingModel md)) (\<lambda>embedding.
      res_bind (optionalModelReference (md_fallbackModel md)) (\<lambda>fallback.
      res_bind (ensure (md_mode md \<in> {''PROJECT_MANAGED'', ''SINGLE'', ''FAILOVER''}) BadInput) (\<lambda>_.
      res_bind (ensure (limits_up_to 1000000000 soft \<and> limits_up_to 1000000000 hard
        \<and> up_to (1000000000 * 1000000) (df_hardBudgetUsd df) \<and> up_to 1000000000 (df_tpmLimit df)
        \<and> up_to 1000000000 (df_maxInstances df) \<and> up_to 1000000000 (df_maxMcpIntegrations df)
        \<and> up_to 1000000000 (df_maxKnowledgeBaseIntegrations df)) BadInput) (\<lambda>_.
      res_bind (ensure (not_above (hl_budgetUsd soft) (hl_budgetUsd hard)
        \<and> not_above (hl_maxInstances soft) (hl_maxInstances hard)
        \<and> not_above (hl_maxMcpIntegrations soft) (hl_maxMcpIntegrations hard)
        \<and> not_above (hl_maxKnowledgeBaseIntegrations soft) (hl_maxKnowledgeBaseIntegrations hard)) BadInput) (\<lambda>_.
      res_bind (ensure (df_hardBudgetUsd df \<noteq> None \<longrightarrow> df_budgetDuration df \<noteq> None) BadInput) (\<lambda>_.
      res_bind (ensure (md_mode md = ''PROJECT_MANAGED'' \<or> chat \<noteq> None) BadInput) (\<lambda>_.
      res_bind (ensure (md_mode md \<noteq> ''FAILOVER'' \<or> fallback \<noteq> None) BadInput) (\<lambda>_.
      res_bind (ensure (fallback = None \<or> fallback \<noteq> chat) BadInput) (\<lambda>_.
      res_bind (ensure (not_above (df_hardBudgetUsd df) (hl_budgetUsd hard)
        \<and> not_above (df_maxInstances df) (hl_maxInstances hard)
        \<and> not_above (df_maxMcpIntegrations df) (hl_maxMcpIntegrations hard)
        \<and> not_above (df_maxKnowledgeBaseIntegrations df) (hl_maxKnowledgeBaseIntegrations hard)) BadInput) (\<lambda>_.
      Inr (inp\<lparr>si_models := md\<lparr>md_defaultChatModel := chat, md_defaultEmbeddingModel := embedding,
        md_fallbackModel := fallback\<rparr>\<rparr>)))))))))))))"

definition update_department_settings ::
  "int \<Rightarrow> string \<Rightarrow> settings_input \<Rightarrow> quota_db \<Rightarrow> quota_db qres" where
  "update_department_settings now d inp db =
     (let hard = si_hard inp; projects = active_projects db d;
          quotas = (if hl_budgetUsd hard = None then qd_quotas db
            else fold (bound_budget now) projects (qd_quotas db))
      in
      res_bind (fold_res (boundExistingProjects db projects hard) [Instances, Mcp, KnowledgeBase] quotas) (\<lambda>quotas.
      (let db1 = db\<lparr>qd_quotas := quotas\<rparr>; held = (\<lambda>share. sumNullable (map share (department_quotas db1 d))) in
      res_bind (assertAllocatedWithinHardQuota ''Project budget'' (held q_hardBudgetUsd) (hl_budgetUsd hard)) (\<lambda>_.
      res_bind (assertAllocatedWithinHardQuota ''Instance'' (held q_maxInstances) (hl_maxInstances hard)) (\<lambda>_.
      res_bind (assertAllocatedWithinHardQuota ''MCP integration'' (held q_maxMcpIntegrations)
        (hl_maxMcpIntegrations hard)) (\<lambda>_.
      res_bind (assertAllocatedWithinHardQuota ''Vector Database integration''
        (held q_maxKnowledgeBaseIntegrations) (hl_maxKnowledgeBaseIntegrations hard)) (\<lambda>_.
      res_bind (ensure (find_unique dp_id d (qd_departments db) \<noteq> None) (NotFound ''department'')) (\<lambda>_.
      Inr (db1\<lparr>qd_departments := update_rows (\<lambda>x. dp_id x = d)
        (\<lambda>x. x\<lparr>dp_models := si_models inp, dp_soft := si_soft inp, dp_hard := hard, dp_defaults := si_defaults inp,
           dp_settingsRevision := dp_settingsRevision x + 1\<rparr>) (qd_departments db)\<rparr>)))))))))"

text \<open>
  \<open>DepartmentService.update\<close>; \<open>fold_case\<close> is the database's comparison of names without case.
\<close>

definition update_department ::
  "(string \<Rightarrow> string) \<Rightarrow> int \<Rightarrow> string \<Rightarrow> string \<Rightarrow> string option \<Rightarrow> nat option \<Rightarrow> quota_db \<Rightarrow> quota_db qres" where
  "update_department fold_case now d name description hard db =
     res_bind (ensure (find_unique dp_id d (qd_departments db) \<noteq> None) (NotFound ''department'')) (\<lambda>_.
     res_bind (ensure (\<not> list_ex (\<lambda>x. dp_id x \<noteq> d \<and> fold_case (dp_name x) = fold_case name) (qd_departments db))
       (NameTaken name)) (\<lambda>_.
     (let quotas = (if hard = None then qd_quotas db
            else update_rows (\<lambda>q. q_hardBudgetUsd q = None \<and> q_projectId q \<in> set (active_projects db d))
              (with_window now) (qd_quotas db));
          db1 = db\<lparr>qd_quotas := quotas\<rparr>;
          allocated = sumNullable (map q_hardBudgetUsd (department_quotas db1 d))
      in
      res_bind (assertAllocatedWithinHardQuota ''Department budget'' allocated hard) (\<lambda>_.
      Inr (db1\<lparr>qd_departments := update_rows (\<lambda>x. dp_id x = d)
        (\<lambda>x. x\<lparr>dp_name := name, dp_description := description, dp_hard := (dp_hard x)\<lparr>hl_budgetUsd := hard\<rparr>\<rparr>)
        (qd_departments db)\<rparr>)))))"

section \<open>A new Project\<close>

text \<open>The share a Project inherits from the defaults of its Department.\<close>

definition inherited_quota :: "department_row \<Rightarrow> quota_input" where
  "inherited_quota dep =
     (let df = dp_defaults dep; hard = dp_hard dep; or_zero = (\<lambda>d h. case d of Some x \<Rightarrow> Some x
          | None \<Rightarrow> (case h of None \<Rightarrow> None | Some _ \<Rightarrow> Some 0))
      in \<lparr>in_hardBudgetUsd = or_zero (df_hardBudgetUsd df) (hl_budgetUsd hard),
          in_budgetDuration = (case df_hardBudgetUsd df of
              None \<Rightarrow> (case hl_budgetUsd hard of None \<Rightarrow> None | Some _ \<Rightarrow> Some Day30)
            | Some _ \<Rightarrow> Some (case df_budgetDuration df of None \<Rightarrow> Day30 | Some x \<Rightarrow> x)),
          in_tpmLimit = df_tpmLimit df,
          in_maxInstances = or_zero (df_maxInstances df) (hl_maxInstances hard),
          in_maxMcpIntegrations = or_zero (df_maxMcpIntegrations df) (hl_maxMcpIntegrations hard),
          in_maxKnowledgeBaseIntegrations =
            or_zero (df_maxKnowledgeBaseIntegrations df) (hl_maxKnowledgeBaseIntegrations hard)\<rparr>)"

definition check_new :: "string \<times> nat \<times> nat option \<times> nat option \<Rightarrow> unit qres" where
  "check_new c = (case c of (label, current, requested, hard) \<Rightarrow>
     (let r = (case requested of None \<Rightarrow> 0 | Some x \<Rightarrow> x) in
      case hard of None \<Rightarrow> Inr () | Some h \<Rightarrow> ensure (current + r \<le> h) (NewProjectExceeds label current r h)))"

definition assertDepartmentAllocationAvailable :: "department_row \<Rightarrow> quota_input \<Rightarrow> quota_db \<Rightarrow> unit qres" where
  "assertDepartmentAllocationAvailable dep defaults db =
     (let held = (\<lambda>share. sumNullable (map share (department_quotas db (dp_id dep)))); hard = dp_hard dep in
      fold_res (\<lambda>c _. check_new c)
       [(''budget'', held q_hardBudgetUsd, in_hardBudgetUsd defaults, hl_budgetUsd hard),
        (''Instance'', held q_maxInstances, in_maxInstances defaults, hl_maxInstances hard),
        (''MCP integration'', held q_maxMcpIntegrations, in_maxMcpIntegrations defaults, hl_maxMcpIntegrations hard),
        (''Vector Database integration'', held q_maxKnowledgeBaseIntegrations,
          in_maxKnowledgeBaseIntegrations defaults, hl_maxKnowledgeBaseIntegrations hard)] ())"

text \<open>The checks of the creation, which read outside its transaction, give what it will write.\<close>

definition check_creation ::
  "(string \<Rightarrow> string) \<Rightarrow> string \<Rightarrow> string \<Rightarrow> string \<Rightarrow> quota_db \<Rightarrow> quota_input qres" where
  "check_creation fold_case d i name db =
     (case find_unique dp_id d (qd_departments db) of
        None \<Rightarrow> Inl (NotFound ''department'')
      | Some dep \<Rightarrow>
          res_bind (ensure (dp_status dep = ''active'') (NotFound ''department'')) (\<lambda>_.
          res_bind (ensure (find_unique pj_id i (qd_projects db) = None) (NameTaken i)) (\<lambda>_.
          res_bind (ensure (\<not> list_ex (\<lambda>p. pj_departmentId p = d \<and> fold_case (pj_name p) = fold_case name)
            (qd_projects db)) (NameTaken name)) (\<lambda>_.
          res_bind (assertDepartmentAllocationAvailable dep (inherited_quota dep) db) (\<lambda>_.
          Inr (inherited_quota dep))))))"

definition new_quota :: "int \<Rightarrow> string \<Rightarrow> quota_input \<Rightarrow> quota_row" where
  "new_quota now i inherited =
     (let window = map_option (\<lambda>b. nextBudgetWindow now b None None) (in_budgetDuration inherited);
          q0 = (blank_quota i)\<lparr>q_tpmLimit := in_tpmLimit inherited, q_maxInstances := in_maxInstances inherited,
            q_maxMcpIntegrations := in_maxMcpIntegrations inherited,
            q_maxKnowledgeBaseIntegrations := in_maxKnowledgeBaseIntegrations inherited\<rparr>
      in case (in_hardBudgetUsd inherited, window) of
           (Some b, Some (s, r)) \<Rightarrow> q0\<lparr>q_hardBudgetUsd := Some b, q_budgetDuration := in_budgetDuration inherited,
             q_budgetPeriodStartedAt := Some s, q_budgetResetsAt := Some r\<rparr>
         | _ \<Rightarrow> q0)"

definition write_creation :: "int \<Rightarrow> string \<Rightarrow> string \<Rightarrow> string \<Rightarrow> quota_input \<Rightarrow> quota_db \<Rightarrow> quota_db qres" where
  "write_creation now d i name inherited db =
     res_bind (of_option (NameTaken i) (insert_row pj_id
       \<lparr>pj_id = i, pj_name = name, pj_departmentId = d, pj_deleted = False\<rparr> (qd_projects db))) (\<lambda>projects.
     res_bind (of_option (NameTaken i) (insert_row q_projectId (new_quota now i inherited) (qd_quotas db))) (\<lambda>quotas.
     Inr (db\<lparr>qd_projects := projects, qd_quotas := quotas\<rparr>)))"

section \<open>A deleted Project\<close>

text \<open>The row of the Project stays, marked; its share is free from then on.\<close>

definition tombstone_project :: "string \<Rightarrow> quota_db \<Rightarrow> quota_db qres" where
  "tombstone_project i db =
     res_bind (ensure (find_unique pj_id i (qd_projects db) \<noteq> None) (NotFound ''project'')) (\<lambda>_.
     Inr (db\<lparr>qd_projects := update_rows (\<lambda>p. pj_id p = i) (\<lambda>p. p\<lparr>pj_deleted := True\<rparr>) (qd_projects db)\<rparr>))"

section \<open>The view of the settings\<close>

record settings_usage =
  su_allocatedBudgetUsd :: nat
  su_allocatedInstances :: nat
  su_allocatedMcpIntegrations :: nat
  su_allocatedKnowledgeBaseIntegrations :: nat
  su_actualInstances :: nat
  su_actualMcpIntegrations :: nat
  su_actualKnowledgeBaseIntegrations :: nat
  su_projectCount :: nat
  su_unboundedBudget :: nat
  su_unboundedInstances :: nat
  su_unboundedMcpIntegrations :: nat
  su_unboundedKnowledgeBaseIntegrations :: nat

record settings_view =
  sv_departmentId :: string
  sv_revision :: nat
  sv_settings :: settings_input
  sv_usage :: settings_usage

definition settingsView :: "department_row \<Rightarrow> nat \<Rightarrow> quota_row list \<Rightarrow> (limited_resource \<Rightarrow> nat) \<Rightarrow> settings_view" where
  "settingsView dep projects quotas actual =
     (let sum = (\<lambda>share. sumNullable (map share quotas)); unbounded = (\<lambda>share. count_rows (\<lambda>q. share q = None) quotas) in
      \<lparr>sv_departmentId = dp_id dep, sv_revision = dp_settingsRevision dep,
        sv_settings = \<lparr>si_models = dp_models dep, si_soft = dp_soft dep, si_hard = dp_hard dep,
          si_defaults = dp_defaults dep\<rparr>,
        sv_usage = \<lparr>su_allocatedBudgetUsd = sum q_hardBudgetUsd, su_allocatedInstances = sum q_maxInstances,
          su_allocatedMcpIntegrations = sum q_maxMcpIntegrations,
          su_allocatedKnowledgeBaseIntegrations = sum q_maxKnowledgeBaseIntegrations,
          su_actualInstances = actual Instances, su_actualMcpIntegrations = actual Mcp,
          su_actualKnowledgeBaseIntegrations = actual KnowledgeBase, su_projectCount = projects,
          su_unboundedBudget = unbounded q_hardBudgetUsd, su_unboundedInstances = unbounded q_maxInstances,
          su_unboundedMcpIntegrations = unbounded q_maxMcpIntegrations,
          su_unboundedKnowledgeBaseIntegrations = unbounded q_maxKnowledgeBaseIntegrations\<rparr>\<rparr>)"

definition get_department_settings :: "string \<Rightarrow> quota_db \<Rightarrow> settings_view qres" where
  "get_department_settings d db =
     (case find_unique dp_id d (qd_departments db) of
        None \<Rightarrow> Inl (NotFound ''department'')
      | Some dep \<Rightarrow> Inr (settingsView dep
          (count_rows (\<lambda>p. pj_departmentId p = d \<and> \<not> pj_deleted p) (qd_projects db))
          (department_quotas db d) (\<lambda>r. department_count r db d)))"

end
