(* ===== verification/Quota_Sync.thy ===== *)
theory Quota_Sync
  imports Department_Quotas "HOL-Library.Char_ord"
begin

text \<open>
  The rest of \<open>quotas/project-quota-service.ts\<close>: the team of a Project at the model gateway, which
  the limits are copied to after every change, and the view of a quota. The gateway is an
  argument: a method that may be missing, and may fail with a message or without one.
\<close>

section \<open>Texts\<close>

definition slug_char :: "char \<Rightarrow> bool" where
  "slug_char c \<longleftrightarrow> (CHR ''a'' \<le> c \<and> c \<le> CHR ''z'') \<or> (CHR ''0'' \<le> c \<and> c \<le> CHR ''9'')"

fun dashes :: "bool \<Rightarrow> string \<Rightarrow> string" where
  "dashes run [] = []"
| "dashes run (c # cs) = (if slug_char c then c # dashes False cs
     else if run then dashes True cs else CHR ''-'' # dashes True cs)"

definition drop_dash :: "string \<Rightarrow> string" where
  "drop_dash s = (case s of c # cs \<Rightarrow> if c = CHR ''-'' then cs else s | [] \<Rightarrow> [])"

definition slug :: "(string \<Rightarrow> string) \<Rightarrow> string \<Rightarrow> string" where
  "slug toLowerCase value =
     (let s = take 48 (rev (drop_dash (rev (drop_dash (dashes False (toLowerCase value))))))
      in if s = [] then ''project'' else s)"

definition word_char :: "char \<Rightarrow> bool" where
  "word_char c \<longleftrightarrow> slug_char c \<or> (CHR ''A'' \<le> c \<and> c \<le> CHR ''Z'') \<or> c = CHR ''_''"

definition key_char :: "char \<Rightarrow> bool" where
  "key_char c \<longleftrightarrow> slug_char c \<or> (CHR ''A'' \<le> c \<and> c \<le> CHR ''Z'') \<or> c \<in> {CHR ''.'', CHR ''_'', CHR ''-''}"

primrec opt_word :: "char option \<Rightarrow> bool" where
  "opt_word None = False"
| "opt_word (Some c) = word_char c"

definition boundary :: "char option \<Rightarrow> char option \<Rightarrow> bool" where
  "boundary a b \<longleftrightarrow> opt_word a \<noteq> opt_word b"

definition next_char :: "string \<Rightarrow> char option" where
  "next_char s = (case s of [] \<Rightarrow> None | c # _ \<Rightarrow> Some c)"

text \<open>
  The expression \<open>\bsk-[A-Za-z0-9._-]{8,}\b\<close> at one position: the longest run that ends at a word
  boundary. The result is the last character of the match and the text after it.
\<close>

fun key_end :: "nat \<Rightarrow> string \<Rightarrow> (char \<times> string) option" where
  "key_end 0 s = None"
| "key_end (Suc n) s =
     (if Suc n < 8 then None
      else if boundary (Some (s ! n)) (next_char (drop (Suc n) s)) then Some (s ! n, drop (Suc n) s)
      else key_end n s)"

definition key_match :: "char option \<Rightarrow> string \<Rightarrow> (char \<times> string) option" where
  "key_match before s =
     (case strip_prefix [''sk-''] s of None \<Rightarrow> None
      | Some t \<Rightarrow> if boundary before (Some (CHR ''s'')) then key_end (length (takeWhile key_char t)) t else None)"

lemma key_end_shorter: "key_end n s = Some (c, t) \<Longrightarrow> length t \<le> length s"
  by (induction n s rule: key_end.induct) (auto split: if_splits)

lemma key_match_shorter: "key_match b s = Some (c, t) \<Longrightarrow> length t < length s"
  by (auto simp: key_match_def dest!: key_end_shorter strip_prefix_shorter split: option.splits if_splits)

function redact :: "char option \<Rightarrow> string \<Rightarrow> string" where
  "redact before s =
     (case s of [] \<Rightarrow> []
      | c # cs \<Rightarrow>
          (case key_match before s of
             Some (l, t) \<Rightarrow> ''[REDACTED]'' @ redact (Some l) t
           | None \<Rightarrow> c # redact (Some c) cs))"
  by pat_completeness auto
termination
  by (relation "measure (\<lambda>(b, s). length s)") (auto dest: key_match_shorter)

declare redact.simps [simp del]

text \<open>
  The first code units of a text; a character that would be cut in two is left out.
\<close>

fun js_take :: "nat \<Rightarrow> string \<Rightarrow> string" where
  "js_take n [] = []"
| "js_take n (c # cs) = (if utf16_units c \<le> n then c # js_take (n - utf16_units c) cs else [])"

text \<open>What a call throws: an error with its message, or something else.\<close>

type_synonym thrown = "string option"

definition safeError :: "thrown \<Rightarrow> string" where
  "safeError e = js_take 1000 (redact None
     (case e of Some m \<Rightarrow> m | None \<Rightarrow> ''LiteLLM synchronization failed.''))"

section \<open>The team of a Project\<close>

text \<open>\<open>absent\<close> is the message of the database client for a Project that does not exist.\<close>

record team_limits =
  tl_maxBudget :: "nat option"
  tl_budgetDuration :: "budget_duration option"
  tl_tpmLimit :: "nat option"

text \<open>The gateway: the team for a name, Project and Project name; the update of a team.\<close>

record litellm =
  ll_ensureProjectTeam :: "(string \<Rightarrow> string \<Rightarrow> string \<Rightarrow> thrown + string) option"
  ll_updateProjectTeam :: "(string \<Rightarrow> team_limits \<Rightarrow> thrown + unit) option"

definition no_adapter :: "string \<Rightarrow> thrown" where
  "no_adapter method = Some (''LiteLLM adapter does not support '' @ method @ ''.'')"

definition set_quota :: "string \<Rightarrow> (quota_row \<Rightarrow> quota_row) \<Rightarrow> quota_db \<Rightarrow> quota_db" where
  "set_quota i f db = db\<lparr>qd_quotas := update_rows (\<lambda>q. q_projectId q = i) f (qd_quotas db)\<rparr>"

definition markSyncFailure :: "string \<Rightarrow> thrown \<Rightarrow> quota_db \<Rightarrow> quota_db" where
  "markSyncFailure i e = set_quota i (\<lambda>q. q\<lparr>q_syncStatus := ''failed'', q_lastSyncError := Some (safeError e)\<rparr>)"

definition ensureProjectTeam ::
  "(string \<Rightarrow> string) \<Rightarrow> string \<Rightarrow> litellm \<Rightarrow> string \<Rightarrow> quota_db \<Rightarrow> (thrown + string) \<times> quota_db" where
  "ensureProjectTeam lower absent gateway i db =
     (case find_unique pj_id i (qd_projects db) of
        None \<Rightarrow> (Inl (Some absent), db)
      | Some project \<Rightarrow>
          (let (quota, db1) = ensureRecord i db in
           case q_litellmTeamId quota of
             Some (c # cs) \<Rightarrow> (Inr (c # cs), db1)
           | _ \<Rightarrow>
               (case (case ll_ensureProjectTeam gateway of
                        None \<Rightarrow> Inl (no_adapter ''ensureProjectTeam'')
                      | Some ensure_team \<Rightarrow> ensure_team (''tali-project-'' @ slug lower i) i (pj_name project)) of
                  Inl e \<Rightarrow> (Inl e, markSyncFailure i e db1)
                | Inr team \<Rightarrow> (Inr team, set_quota i (\<lambda>q. q\<lparr>q_litellmTeamId := Some team\<rparr>) db1))))"

definition limits_of :: "quota_row \<Rightarrow> team_limits" where
  "limits_of q = \<lparr>tl_maxBudget = q_hardBudgetUsd q, tl_budgetDuration = q_budgetDuration q,
     tl_tpmLimit = q_tpmLimit q\<rparr>"

definition sync :: "(string \<Rightarrow> string) \<Rightarrow> string \<Rightarrow> litellm \<Rightarrow> int \<Rightarrow> string \<Rightarrow> quota_db \<Rightarrow> (thrown + unit) \<times> quota_db" where
  "sync lower absent gateway now i db =
     (let (quota, db1) = ensureRecord i db;
          (team, db2) = ensureProjectTeam lower absent gateway i db1;
          result = (case team of Inl e \<Rightarrow> Inl e
            | Inr t \<Rightarrow> (case ll_updateProjectTeam gateway of
                None \<Rightarrow> Inl (no_adapter ''updateProjectTeam'')
              | Some update \<Rightarrow> update t (limits_of quota)))
      in case result of
           Inl e \<Rightarrow> (Inl e, markSyncFailure i e db2)
         | Inr u \<Rightarrow> (Inr u, set_quota i (\<lambda>q. q\<lparr>q_syncStatus := ''synced'', q_lastSyncedAt := Some now,
             q_lastSyncError := None\<rparr>) db2))"

section \<open>The view of a quota\<close>

record usage_fact =
  uf_projectId :: string
  uf_requestStartTime :: int
  uf_totalCostUsd :: nat
  uf_totalTokens :: nat

record quota_view =
  qv_quota :: quota_row
  qv_spendUsd :: nat
  qv_totalTokens :: nat
  qv_instances :: nat
  qv_mcpIntegrations :: nat
  qv_knowledgeBaseIntegrations :: nat

definition in_window :: "int \<Rightarrow> quota_row \<Rightarrow> usage_fact \<Rightarrow> bool" where
  "in_window now q f \<longleftrightarrow> uf_projectId f = q_projectId q \<and>
     opt_all (\<lambda>s. s \<le> uf_requestStartTime f \<and> uf_requestStartTime f < now) (q_budgetPeriodStartedAt q)"

definition get_quota :: "int \<Rightarrow> string \<Rightarrow> usage_fact list \<Rightarrow> quota_db \<Rightarrow> quota_view \<times> quota_db" where
  "get_quota now i facts db =
     (let (quota, db1) = ensureCurrentBudgetWindow now i db; used = filter (in_window now quota) facts
      in (\<lparr>qv_quota = quota, qv_spendUsd = sum_list (map uf_totalCostUsd used),
           qv_totalTokens = sum_list (map uf_totalTokens used),
           qv_instances = project_count Instances db1 i,
           qv_mcpIntegrations = project_count Mcp db1 i,
           qv_knowledgeBaseIntegrations = project_count KnowledgeBase db1 i\<rparr>, db1))"

text \<open>
  The whole \<open>update\<close>: the transaction, the copy to the gateway, whose failure is only recorded,
  and the view.
\<close>

definition update_quota ::
  "(string \<Rightarrow> string) \<Rightarrow> string \<Rightarrow> litellm \<Rightarrow> int \<Rightarrow> string \<Rightarrow> string \<Rightarrow> quota_input \<Rightarrow> usage_fact list \<Rightarrow> quota_db \<Rightarrow>
   quota_view qres \<times> quota_db" where
  "update_quota lower absent gateway now actor i inp facts db =
     (case update_project_quota now actor i inp db of
        Inl e \<Rightarrow> (Inl e, db)
      | Inr db1 \<Rightarrow>
          (let (view, db2) = get_quota now i facts (snd (sync lower absent gateway now i db1)) in (Inr view, db2)))"

end
