(* ===== verification/Quota_Invariant.thy ===== *)
theory Quota_Invariant
  imports Quota_Sync
begin

text \<open>
  The invariant behind the Department lock: what the Projects of a Department hold of each
  limited quantity stays within the Department's hard limit, and no Project is unlimited inside
  a limited Department. Every operation that takes the lock keeps it; the creation of a
  Project, which checks before its transaction, does not when two creations interleave.
\<close>

section \<open>The invariant\<close>

definition allocations :: "((hard_limits \<Rightarrow> nat option) \<times> (quota_row \<Rightarrow> nat option)) list" where
  "allocations = [(hl_budgetUsd, q_hardBudgetUsd), (hl_maxInstances, q_maxInstances),
     (hl_maxMcpIntegrations, q_maxMcpIntegrations),
     (hl_maxKnowledgeBaseIntegrations, q_maxKnowledgeBaseIntegrations)]"

lemma allocation_cases:
  assumes "(limit, share) \<in> set allocations"
  obtains "limit = hl_budgetUsd" "share = q_hardBudgetUsd"
  | "limit = hl_maxInstances" "share = q_maxInstances"
  | "limit = hl_maxMcpIntegrations" "share = q_maxMcpIntegrations"
  | "limit = hl_maxKnowledgeBaseIntegrations" "share = q_maxKnowledgeBaseIntegrations"
  using assms by (auto simp: allocations_def)

definition held :: "(quota_row \<Rightarrow> nat option) \<Rightarrow> quota_db \<Rightarrow> string \<Rightarrow> nat" where
  "held share db d = sumNullable (map share (department_quotas db d))"

definition within_limit :: "quota_db \<Rightarrow> string \<Rightarrow> nat option \<Rightarrow> (quota_row \<Rightarrow> nat option) \<Rightarrow> bool" where
  "within_limit db d hard share \<longleftrightarrow> (case hard of None \<Rightarrow> True
     | Some h \<Rightarrow> held share db d \<le> h \<and> list_all (\<lambda>q. share q \<noteq> None) (department_quotas db d))"

definition department_within :: "quota_db \<Rightarrow> department_row \<Rightarrow> bool" where
  "department_within db dep \<longleftrightarrow>
     list_all (\<lambda>(limit, share). within_limit db (dp_id dep) (limit (dp_hard dep)) share) allocations"

definition rows_ok :: "quota_db \<Rightarrow> bool" where
  "rows_ok db \<longleftrightarrow> distinct (map dp_id (qd_departments db)) \<and> distinct (map pj_id (qd_projects db))
     \<and> distinct (map q_projectId (qd_quotas db))
     \<and> list_all (\<lambda>p. pj_id p \<in> q_projectId ` set (qd_quotas db)) (qd_projects db)"

definition quota_inv :: "quota_db \<Rightarrow> bool" where
  "quota_inv db \<longleftrightarrow> rows_ok db \<and> list_all (department_within db) (qd_departments db)"

lemma quota_inv_dep:
  "quota_inv db \<Longrightarrow> dep \<in> set (qd_departments db) \<Longrightarrow> department_within db dep"
  by (simp add: quota_inv_def list_all_iff)

section \<open>Rows of one Department\<close>

lemma active_once:
  assumes "distinct (map pj_id (qd_projects db))" and "active_in db d i" and "active_in db e i"
  shows "d = e"
  using assms by (auto simp: active_in_def list_ex_iff distinct_map inj_on_def)

lemma sumNullable_split:
  "sumNullable (map share xs) = sumNullable (map share (filter P xs)) + sumNullable (map share (filter (\<lambda>x. \<not> P x) xs))"
  by (induction xs) (simp_all add: sumNullable_def)

lemma sumNullable_cong: "(\<And>q. q \<in> set xs \<Longrightarrow> f q = g q) \<Longrightarrow> sumNullable (map f xs) = sumNullable (map g xs)"
  by (simp cong: map_cong)

text \<open>
  A change of the quota rows that keeps their keys, and the shares of all Projects that are
  active in another Department.
\<close>

definition reshares :: "quota_db \<Rightarrow> string \<Rightarrow> (quota_row \<Rightarrow> quota_row) \<Rightarrow> bool" where
  "reshares db d g \<longleftrightarrow> (\<forall>q. q_projectId (g q) = q_projectId q
     \<and> (\<forall>e. e \<noteq> d \<longrightarrow> active_in db e (q_projectId q) \<longrightarrow>
          list_all (\<lambda>(_, share). share (g q) = share q) allocations))"

lemma department_quotas_map:
  assumes "\<And>q. q_projectId (g q) = q_projectId q"
  shows "department_quotas (db\<lparr>qd_quotas := map g (qd_quotas db), qd_departments := ds\<rparr>) d =
    map g (department_quotas db d)"
  using assms by (simp add: department_quotas_def filter_map comp_def active_in_def)

lemma within_limit_other:
  assumes "reshares db d g" and "e \<noteq> d" and "(limit, share) \<in> set allocations"
    and "within_limit db e hard share"
  shows "within_limit (db\<lparr>qd_quotas := map g (qd_quotas db), qd_departments := ds\<rparr>) e hard share"
proof -
  have key: "q_projectId (g q) = q_projectId q" for q using assms(1) by (simp add: reshares_def)
  have same: "share (g q) = share q" if "q \<in> set (department_quotas db e)" for q
  proof -
    have "active_in db e (q_projectId q)" using that by (simp add: department_quotas_def)
    with assms(1,2) have "\<forall>x\<in>set allocations. case x of (_, share) \<Rightarrow> share (g q) = share q"
      by (simp add: reshares_def list_all_iff)
    from bspec [OF this assms(3)] show ?thesis by simp
  qed
  have "sumNullable (map (share \<circ> g) (department_quotas db e)) = sumNullable (map share (department_quotas db e))"
    using same by (intro sumNullable_cong) simp
  then show ?thesis
    using assms(4) same
    by (simp add: within_limit_def held_def department_quotas_map [OF key] list_all_iff split: option.splits)
qed

lemma within_limit_departments:
  "within_limit (db\<lparr>qd_quotas := qs, qd_departments := ds\<rparr>) d hard share = within_limit (db\<lparr>qd_quotas := qs\<rparr>) d hard share"
  by (simp add: within_limit_def held_def department_quotas_def active_in_def split: option.splits)

text \<open>The one step behind every operation under the lock of a Department.\<close>

lemma quota_inv_reshare:
  assumes inv: "quota_inv db" and re: "reshares db d g" and f: "\<And>x. dp_id (f x) = dp_id x"
    and new: "\<And>dep limit share. dep \<in> set (qd_departments db) \<Longrightarrow> dp_id dep = d \<Longrightarrow>
      (limit, share) \<in> set allocations \<Longrightarrow>
      within_limit (db\<lparr>qd_quotas := map g (qd_quotas db)\<rparr>) d (limit (dp_hard (f dep))) share"
  shows "quota_inv (db\<lparr>qd_quotas := map g (qd_quotas db),
    qd_departments := update_rows (\<lambda>x. dp_id x = d) f (qd_departments db)\<rparr>)" (is "quota_inv ?db'")
proof -
  have rows: "rows_ok db" using inv by (simp add: quota_inv_def)
  have key: "q_projectId (g q) = q_projectId q" for q using re by (simp add: reshares_def)
  have "map dp_id (qd_departments ?db') = map dp_id (qd_departments db)"
    using f by (simp add: map_key_update)
  moreover have "map q_projectId (map g (qd_quotas db)) = map q_projectId (qd_quotas db)"
    using key by (simp add: comp_def)
  ultimately have "rows_ok ?db'"
    using rows by (simp add: rows_ok_def list_all_iff image_image key comp_def)
  moreover have "department_within ?db' dep'" if "dep' \<in> set (qd_departments ?db')" for dep'
  proof -
    from that obtain dep where dep: "dep \<in> set (qd_departments db)"
      and dep': "dep' = (if dp_id dep = d then f dep else dep)"
      by (auto simp: set_update_rows)
    have "within_limit ?db' (dp_id dep') (limit (dp_hard dep')) share" if sh: "(limit, share) \<in> set allocations" for limit share
    proof (cases "dp_id dep = d")
      case True
      have "within_limit (db\<lparr>qd_quotas := map g (qd_quotas db)\<rparr>) d (limit (dp_hard (f dep))) share"
        using new [OF dep True sh] .
      then show ?thesis
        using True dep' f [of dep] by (simp add: within_limit_departments)
    next
      case False
      have "within_limit db (dp_id dep) (limit (dp_hard dep)) share"
        using quota_inv_dep [OF inv dep] sh by (auto simp: department_within_def list_all_iff)
      from within_limit_other [OF re False sh this] show ?thesis
        using False dep' by simp
    qed
    then show ?thesis by (auto simp: department_within_def list_all_iff)
  qed
  ultimately show ?thesis by (simp add: quota_inv_def list_all_iff)
qed

lemma update_rows_id: "(\<And>x. p x \<Longrightarrow> f x = x) \<Longrightarrow> update_rows p f xs = xs"
  by (induction xs) (simp_all add: update_rows_def)

lemma quota_inv_reshare_only:
  assumes inv: "quota_inv db" and re: "reshares db d g"
    and new: "\<And>dep limit share. dep \<in> set (qd_departments db) \<Longrightarrow> dp_id dep = d \<Longrightarrow>
      (limit, share) \<in> set allocations \<Longrightarrow>
      within_limit (db\<lparr>qd_quotas := map g (qd_quotas db)\<rparr>) d (limit (dp_hard dep)) share"
  shows "quota_inv (db\<lparr>qd_quotas := map g (qd_quotas db)\<rparr>)"
  using quota_inv_reshare [OF inv re, of "\<lambda>x. x"] new by (simp add: update_rows_id)

text \<open>A change of the columns that are no shares.\<close>

lemma quota_inv_columns:
  assumes "quota_inv db" and "\<And>q. q_projectId (g q) = q_projectId q"
    and "\<And>q limit share. (limit, share) \<in> set allocations \<Longrightarrow> share (g q) = share q"
  shows "quota_inv (db\<lparr>qd_quotas := map g (qd_quotas db)\<rparr>)"
proof (rule quota_inv_reshare_only [OF assms(1), where d = d])
  show "reshares db d g" using assms(2,3) by (auto simp: reshares_def list_all_iff)
  fix dep limit share
  assume dep: "dep \<in> set (qd_departments db)" "dp_id dep = d" "(limit, share) \<in> set allocations"
  then have "within_limit db d (limit (dp_hard dep)) share"
    using quota_inv_dep [OF assms(1)] by (auto simp: department_within_def list_all_iff)
  moreover have "share \<circ> g = share"
    using assms(3) [OF dep(3)] by (simp add: fun_eq_iff)
  moreover have "department_quotas (db\<lparr>qd_quotas := map g (qd_quotas db)\<rparr>) e = map g (department_quotas db e)" for e
    using department_quotas_map [OF assms(2), where db = db and ds = "qd_departments db"] by simp
  ultimately show "within_limit (db\<lparr>qd_quotas := map g (qd_quotas db)\<rparr>) d (limit (dp_hard dep)) share"
    using assms(3) [OF dep(3)] by (simp add: within_limit_def held_def list_all_iff split: option.splits)
qed

section \<open>The quota of a Project\<close>

lemma ensureRecord_present:
  assumes "rows_ok db" and "i \<in> pj_id ` set (qd_projects db)"
  obtains q where "ensureRecord i db = (q, db)" "q \<in> set (qd_quotas db)" "q_projectId q = i"
proof -
  have "find_unique q_projectId i (qd_quotas db) \<noteq> None"
    using assms by (auto simp: find_unique_None_iff rows_ok_def list_all_iff)
  then obtain q where "find_unique q_projectId i (qd_quotas db) = Some q" by auto
  with that show ?thesis
    by (auto simp: ensureRecord_def dest: find_unique_in find_unique_key)
qed

lemma only_row:
  assumes "distinct (map q_projectId qs)"
  shows "filter (\<lambda>q. q_projectId q = i) qs = [] \<or> (\<exists>q. filter (\<lambda>q. q_projectId q = i) qs = [q])"
  using assms
proof (induction qs)
  case (Cons q qs)
  then show ?case
    by (cases "q_projectId q = i") (auto simp: filter_empty_conv image_iff)
qed simp

text \<open>After one row is set, the Department holds what the others hold and what that row got.\<close>

lemma held_after_set:
  assumes "distinct (map q_projectId (qd_quotas db))" and key: "\<And>q. q_projectId (F q) = q_projectId q"
    and set: "\<And>q. share (F q) = requested"
  shows "held share (db\<lparr>qd_quotas := update_rows (\<lambda>q. q_projectId q = i) F (qd_quotas db)\<rparr>) d
    \<le> siblings_hold share db d i + (case requested of None \<Rightarrow> 0 | Some r \<Rightarrow> r)"
proof -
  let ?g = "\<lambda>q. if q_projectId q = i then F q else q" and ?Q = "department_quotas db d"
  have Q: "department_quotas (db\<lparr>qd_quotas := update_rows (\<lambda>q. q_projectId q = i) F (qd_quotas db)\<rparr>) d = map ?g ?Q"
    using department_quotas_map [of ?g, where db = db and ds = "qd_departments db"] key
    by (simp add: update_rows_def)
  have "filter (\<lambda>q. q_projectId q \<noteq> i) (map ?g ?Q) = filter (\<lambda>q. q_projectId q \<noteq> i) ?Q"
    using key by (induction ?Q) (auto simp: filter_map comp_def intro!: map_idI)
  moreover have "filter (\<lambda>q. q_projectId q = i) (map ?g ?Q) = map F (filter (\<lambda>q. q_projectId q = i) ?Q)"
    using key by (simp add: filter_map comp_def cong: map_cong)
  moreover have "sumNullable (map share (map F (filter (\<lambda>q. q_projectId q = i) ?Q)))
      \<le> (case requested of None \<Rightarrow> 0 | Some r \<Rightarrow> r)"
  proof -
    have "distinct (map q_projectId ?Q)"
      using assms(1) by (simp add: department_quotas_def distinct_map_filter)
    from only_row [OF this, of i] show ?thesis
      by (auto simp: sumNullable_def set)
  qed
  ultimately show ?thesis
    unfolding held_def Q siblings_hold_def
    using sumNullable_split [of share "map ?g ?Q" "\<lambda>q. q_projectId q \<noteq> i"] by simp
qed

lemma check_capacity_Inr:
  "check_capacity (label, requested, siblings, hard) = Inr () \<longleftrightarrow>
     (case hard of None \<Rightarrow> True | Some h \<Rightarrow> (\<exists>r. requested = Some r \<and> siblings + r \<le> h))"
  by (auto simp: check_capacity_def split: option.splits)

lemma check_budget_Inr:
  "check_budget requested siblings hard = Inr () \<longleftrightarrow>
     (case hard of None \<Rightarrow> True | Some h \<Rightarrow> (\<exists>r. requested = Some r \<and> siblings + r \<le> h))"
  by (auto simp: check_budget_def split: option.splits)

lemma set_within_limit:
  assumes inv: "quota_inv db" and dep: "dep \<in> set (qd_departments db)" "dp_id dep = d"
    and sh: "(limit, share) \<in> set allocations" and key: "\<And>q. q_projectId (F q) = q_projectId q"
    and set: "\<And>q. share (F q) = requested"
    and ok: "case limit (dp_hard dep) of None \<Rightarrow> True
      | Some h \<Rightarrow> (\<exists>r. requested = Some r \<and> siblings_hold share db d i + r \<le> h)"
  shows "within_limit (db\<lparr>qd_quotas := update_rows (\<lambda>q. q_projectId q = i) F (qd_quotas db)\<rparr>) d
    (limit (dp_hard dep)) share"
proof (cases "limit (dp_hard dep)")
  case (Some h)
  then obtain r where r: "requested = Some r" "siblings_hold share db d i + r \<le> h" using ok by auto
  let ?db' = "db\<lparr>qd_quotas := update_rows (\<lambda>q. q_projectId q = i) F (qd_quotas db)\<rparr>"
  have "held share ?db' d \<le> h"
    using held_after_set [of db F share requested i d, OF _ key set] r inv
    by (simp add: quota_inv_def rows_ok_def)
  moreover have "list_all (\<lambda>q. share q \<noteq> None) (department_quotas db d)"
    using quota_inv_dep [OF inv dep(1)] sh Some dep(2)
    by (auto simp: department_within_def within_limit_def list_all_iff)
  then have "list_all (\<lambda>q. share q \<noteq> None) (department_quotas ?db' d)"
    using department_quotas_map [of "\<lambda>q. if q_projectId q = i then F q else q", where db = db and ds = "qd_departments db"] key set r(1)
    by (auto simp: update_rows_def list_all_iff)
  ultimately show ?thesis by (simp add: within_limit_def Some)
qed (simp add: within_limit_def)

lemma update_project_quota_inv:
  assumes inv: "quota_inv db" and up: "update_project_quota now actor i inp db = Inr db'"
  shows "quota_inv db'"
proof -
  have rows: "rows_ok db" using inv by (simp add: quota_inv_def)
  from up obtain project dep where pj: "find_unique pj_id i (qd_projects db) = Some project"
    and dep: "find_unique dp_id (pj_departmentId project) (qd_departments db) = Some dep"
    by (auto simp: update_project_quota_def res_simps)
  have "i \<in> pj_id ` set (qd_projects db)"
    using find_unique_in [OF pj] find_unique_key [OF pj] by auto
  then obtain cur where cur: "ensureRecord i db = (cur, db)" using rows ensureRecord_present by metis
  let ?d = "pj_departmentId project"
  let ?F = "\<lambda>q. (databaseInput inp (quota_window now inp cur) q)\<lparr>q_updatedBy := Some actor,
          q_syncStatus := ''pending'', q_lastSyncError := None, q_revision := q_revision q + 1\<rparr>"
  let ?g = "\<lambda>q. if q_projectId q = i then ?F q else q"
  have db': "db' = db\<lparr>qd_quotas := update_rows (\<lambda>q. q_projectId q = i) ?F (qd_quotas db)\<rparr>"
    and budget: "check_budget (in_hardBudgetUsd inp) (siblings_hold q_hardBudgetUsd db ?d i) (hl_budgetUsd (dp_hard dep)) = Inr ()"
    and caps: "check_capacity (''Instance'', in_maxInstances inp, siblings_hold q_maxInstances db ?d i, hl_maxInstances (dp_hard dep)) = Inr ()"
      "check_capacity (''MCP integration'', in_maxMcpIntegrations inp, siblings_hold q_maxMcpIntegrations db ?d i, hl_maxMcpIntegrations (dp_hard dep)) = Inr ()"
      "check_capacity (''Vector Database integration'', in_maxKnowledgeBaseIntegrations inp, siblings_hold q_maxKnowledgeBaseIntegrations db ?d i, hl_maxKnowledgeBaseIntegrations (dp_hard dep)) = Inr ()"
    using up pj dep cur by (auto simp: update_project_quota_def Let_def res_simps fold_res_each)
  have key: "q_projectId (?F q) = q_projectId q" for q by (simp add: databaseInput_def)
  have once: "e = ?d" if "active_in db e i" for e
  proof -
    have "active_in db (pj_departmentId p) i \<Longrightarrow> pj_id p = i \<Longrightarrow> p \<in> set (qd_projects db) \<Longrightarrow> p = project" for p
      using rows find_unique_in [OF pj] find_unique_key [OF pj]
      by (auto simp: rows_ok_def distinct_map inj_on_def)
    with that show ?thesis by (fastforce simp: active_in_def list_ex_iff)
  qed
  have "quota_inv (db\<lparr>qd_quotas := map ?g (qd_quotas db)\<rparr>)"
  proof (rule quota_inv_reshare_only [OF inv, where d = ?d])
    show "reshares db ?d ?g"
      using once key by (auto simp: reshares_def list_all_iff)
    fix dep' limit share assume d: "dep' \<in> set (qd_departments db)" "dp_id dep' = ?d" "(limit, share) \<in> set allocations"
    have "dep' = dep"
      using rows d(1,2) find_unique_in [OF dep] find_unique_key [OF dep]
      by (auto simp: rows_ok_def distinct_map inj_on_def)
    have set: "share (?F q) = share (?F cur)" for q
      using d(3) by (auto simp: allocations_def databaseInput_def)
    have ok: "case limit (dp_hard dep') of None \<Rightarrow> True
      | Some h \<Rightarrow> (\<exists>r. share (?F cur) = Some r \<and> siblings_hold share db ?d i + r \<le> h)"
      using d(3)
      by (rule allocation_cases)
        (use budget caps in \<open>simp_all add: \<open>dep' = dep\<close> check_budget_Inr check_capacity_Inr databaseInput_def split: option.splits\<close>)
    have "within_limit (db\<lparr>qd_quotas := update_rows (\<lambda>q. q_projectId q = i) ?F (qd_quotas db)\<rparr>) ?d
        (limit (dp_hard dep')) share"
      by (rule set_within_limit [OF inv d(1-3) key set ok])
    then show "within_limit (db\<lparr>qd_quotas := map ?g (qd_quotas db)\<rparr>) ?d (limit (dp_hard dep')) share"
      by (simp only: update_rows_def)
  qed
  then show ?thesis by (simp only: db' update_rows_def)
qed

section \<open>Filling in the open shares\<close>

text \<open>
  A table \<open>fills\<close> another when only rows of the given Projects changed, under their keys, and
  every share that was set is still set.
\<close>

definition shares :: "(quota_row \<Rightarrow> nat option) set" where
  "shares = snd ` set allocations"

lemma allocation_share: "(limit, share) \<in> set allocations \<Longrightarrow> share \<in> shares"
  by (force simp: shares_def)

definition filling :: "string set \<Rightarrow> (quota_row \<Rightarrow> quota_row) \<Rightarrow> bool" where
  "filling I g \<longleftrightarrow> (\<forall>q. q_projectId (g q) = q_projectId q) \<and> (\<forall>q. q_projectId q \<notin> I \<longrightarrow> g q = q)
     \<and> (\<forall>share\<in>shares. \<forall>q. share q \<noteq> None \<longrightarrow> share (g q) \<noteq> None)"

definition fills :: "string set \<Rightarrow> quota_row list \<Rightarrow> quota_row list \<Rightarrow> bool" where
  "fills I qs qs' \<longleftrightarrow> (\<exists>g. filling I g \<and> qs' = map g qs)"

definition has_share :: "(quota_row \<Rightarrow> nat option) \<Rightarrow> string \<Rightarrow> quota_row list \<Rightarrow> bool" where
  "has_share share i qs \<longleftrightarrow> (\<forall>q\<in>set qs. q_projectId q = i \<longrightarrow> share q \<noteq> None)"

lemma filling_id: "filling I (\<lambda>q. q)"
  by (simp add: filling_def)

lemma filling_comp: "filling I g \<Longrightarrow> filling J h \<Longrightarrow> filling (I \<union> J) (\<lambda>q. h (g q))"
  by (simp add: filling_def)

lemma fills_refl: "fills I qs qs"
  unfolding fills_def by (rule exI [of _ "\<lambda>q. q"]) (simp add: filling_id)

lemma fills_trans:
  assumes "fills I qs rs" and "fills J rs ts"
  shows "fills (I \<union> J) qs ts"
proof -
  from assms obtain g h where "filling I g" "filling J h" "rs = map g qs" "ts = map h rs"
    by (auto simp: fills_def)
  then show ?thesis
    unfolding fills_def by (intro exI [of _ "\<lambda>q. h (g q)"]) (simp add: filling_comp)
qed

lemma fills_keys: "fills I qs rs \<Longrightarrow> map q_projectId rs = map q_projectId qs"
  by (auto simp: fills_def filling_def)

lemma fills_keeps:
  assumes "fills I qs rs" and "has_share share i qs" and "share \<in> shares"
  shows "has_share share i rs"
proof -
  from assms(1) obtain g where g: "filling I g" "rs = map g qs" by (auto simp: fills_def)
  show ?thesis
    unfolding has_share_def
  proof (intro ballI impI)
    fix r assume r: "r \<in> set rs" "q_projectId r = i"
    then obtain q where q: "q \<in> set qs" "r = g q" using g(2) by auto
    have "q_projectId (g q) = q_projectId q" using g(1) unfolding filling_def by blast
    with q r have "q_projectId q = i" by simp
    with q have "share q \<noteq> None" using assms(2) unfolding has_share_def by blast
    then show "share r \<noteq> None" using q assms(3) g(1) unfolding filling_def by blast
  qed
qed

lemma fills_update:
  assumes "\<And>q. q_projectId (F q) = q_projectId q"
    and "\<And>q share. share \<in> shares \<Longrightarrow> share q \<noteq> None \<Longrightarrow> share (F q) \<noteq> None"
  shows "fills {i} qs (update_rows (\<lambda>q. q_projectId q = i) F qs)"
  unfolding fills_def update_rows_def
  by (rule exI [of _ "\<lambda>q. if q_projectId q = i then F q else q"]) (use assms in \<open>auto simp: filling_def simp del: not_None_eq\<close>)

lemma row_found:
  assumes "i \<in> q_projectId ` set qs"
  obtains q where "find_unique q_projectId i qs = Some q" "q \<in> set qs" "q_projectId q = i"
  using assms find_unique_None_iff [of q_projectId i qs] find_unique_in find_unique_key
  by (cases "find_unique q_projectId i qs") fastforce+

lemma row_unique:
  assumes "distinct (map q_projectId qs)" and "find_unique q_projectId i qs = Some q"
    and "x \<in> set qs" and "q_projectId x = i"
  shows "x = q"
  using find_unique_distinct [OF assms(1,3)] assms(2,4) by simp

text \<open>
  One pass over the active Projects that fills in one share each; \<open>keep\<close> names the Projects the
  pass leaves as they are.
\<close>

locale bounding =
  fixes step :: "string \<Rightarrow> quota_row list \<Rightarrow> quota_row list"
    and share :: "quota_row \<Rightarrow> nat option" and keep :: "string \<Rightarrow> bool"
  assumes share: "share \<in> shares"
    and step_fills: "i \<in> q_projectId ` set qs \<Longrightarrow> fills {i} qs (step i qs)"
    and step_has: "distinct (map q_projectId qs) \<Longrightarrow> i \<in> q_projectId ` set qs \<Longrightarrow> \<not> keep i \<Longrightarrow>
      has_share share i (step i qs)"
begin

lemma fold_fills:
  assumes "set is \<subseteq> q_projectId ` set qs"
  shows "fills (set is) qs (fold step is qs)"
  using assms
proof (induction "is" arbitrary: qs)
  case Nil
  then show ?case by (simp add: fills_refl)
next
  case (Cons i "is")
  have one: "fills {i} qs (step i qs)" using Cons.prems step_fills by simp
  have "q_projectId ` set (step i qs) = q_projectId ` set qs"
    using fills_keys [OF one] by (metis list.set_map)
  then have "fills (set is) (step i qs) (fold step is (step i qs))"
    using Cons by simp
  from fills_trans [OF one this] show ?case by simp
qed

lemma fold_has:
  assumes "distinct (map q_projectId qs)" and "set is \<subseteq> q_projectId ` set qs" and "i \<in> set is" and "\<not> keep i"
  shows "has_share share i (fold step is qs)"
  using assms
proof (induction "is" arbitrary: qs)
  case (Cons j "is")
  have one: "fills {j} qs (step j qs)" using Cons.prems step_fills by simp
  have keys: "map q_projectId (step j qs) = map q_projectId qs" by (rule fills_keys [OF one])
  then have sub: "set is \<subseteq> q_projectId ` set (step j qs)" using Cons.prems by (metis list.set_map list.simps(15) insert_subset)
  show ?case
  proof (cases "i \<in> set is")
    case True
    then show ?thesis using Cons.IH [of "step j qs"] Cons.prems keys sub by simp
  next
    case False
    then have "has_share share i (step j qs)" using Cons.prems step_has by simp
    then show ?thesis using fills_keeps [OF fold_fills [OF sub] _ share] by simp
  qed
qed simp

end

lemma with_window_share:
  "share \<in> shares \<Longrightarrow> share q \<noteq> None \<Longrightarrow> share (with_window now q) \<noteq> None"
  by (auto simp: shares_def allocations_def with_window_def split: prod.splits)

lemma with_window_simps [simp]:
  "q_projectId (with_window now q) = q_projectId q"
  "q_hardBudgetUsd (with_window now q) = Some 0"
  by (simp_all add: with_window_def split: prod.splits)

interpretation budgets: bounding "bound_budget now" q_hardBudgetUsd "\<lambda>_. False" for now
proof
  show "q_hardBudgetUsd \<in> shares" by (simp add: shares_def allocations_def)
next
  fix i and qs :: "quota_row list" assume "i \<in> q_projectId ` set qs"
  then obtain q where "find_unique q_projectId i qs = Some q" by (rule row_found)
  then show "fills {i} qs (bound_budget now i qs)"
    by (simp add: bound_budget_def fills_refl fills_update with_window_share)
next
  fix i and qs :: "quota_row list" assume "distinct (map q_projectId qs)" and "i \<in> q_projectId ` set qs"
  then show "has_share q_hardBudgetUsd i (bound_budget now i qs)"
    by (elim row_found)
      (auto simp: bound_budget_def has_share_def set_update_rows dest: row_unique)
qed

lemma set_limit_simps [simp]:
  "q_projectId (set_limit r n q) = q_projectId q" "resource_limit r (set_limit r n q) = Some n"
  by (cases r; simp)+

lemma set_limit_share:
  "share \<in> shares \<Longrightarrow> share q \<noteq> None \<Longrightarrow> share (set_limit r n q) \<noteq> None"
  by (cases r) (auto simp: shares_def allocations_def)

interpretation limits: bounding "bound_project r before" "resource_limit r"
  "\<lambda>i. case find_unique q_projectId i (qd_quotas before) of None \<Rightarrow> False | Some q \<Rightarrow> resource_limit r q \<noteq> None"
  for r before
proof
  have "resource_limit r = q_maxInstances \<or> resource_limit r = q_maxMcpIntegrations
    \<or> resource_limit r = q_maxKnowledgeBaseIntegrations"
    by (cases r) (auto simp: fun_eq_iff)
  then show "resource_limit r \<in> shares" by (auto simp: shares_def allocations_def)
next
  fix i and qs :: "quota_row list" assume "i \<in> q_projectId ` set qs"
  then obtain q where "find_unique q_projectId i qs = Some q" by (rule row_found)
  then show "fills {i} qs (bound_project r before i qs)"
    by (simp add: bound_project_def upsert_row_def blank_quota_def fills_refl fills_update set_limit_share)
next
  fix i and qs :: "quota_row list" assume "distinct (map q_projectId qs)" and "i \<in> q_projectId ` set qs"
    and "\<not> (case find_unique q_projectId i (qd_quotas before) of None \<Rightarrow> False | Some q \<Rightarrow> resource_limit r q \<noteq> None)"
  then show "has_share (resource_limit r) i (bound_project r before i qs)"
    by (elim row_found)
      (auto simp: bound_project_def upsert_row_def blank_quota_def has_share_def set_update_rows)
qed

section \<open>The limits of a Department\<close>

lemma active_projects_iff: "i \<in> set (active_projects db d) \<longleftrightarrow> active_in db d i"
  by (auto simp: active_projects_def active_in_def list_ex_iff)

lemma active_keys: "rows_ok db \<Longrightarrow> set (active_projects db d) \<subseteq> q_projectId ` set (qd_quotas db)"
  by (auto simp: rows_ok_def active_projects_def list_all_iff)

lemma resource_limit_share: "resource_limit r \<in> shares"
  by (rule limits.share)

lemma boundExistingProjects_fills:
  assumes rows: "rows_ok before" and ps: "set projects \<subseteq> q_projectId ` set (qd_quotas before)"
    and from_before: "fills P (qd_quotas before) qs"
    and up: "boundExistingProjects before projects hard r qs = Inr rs"
  shows "fills (set projects) qs rs"
    and "resource_hard r hard \<noteq> None \<Longrightarrow> i \<in> set projects \<Longrightarrow> has_share (resource_limit r) i rs"
proof -
  have keys: "map q_projectId qs = map q_projectId (qd_quotas before)" by (rule fills_keys [OF from_before])
  then have sub: "set projects \<subseteq> q_projectId ` set qs" using ps by (metis list.set_map)
  show fills: "fills (set projects) qs rs"
    using up limits.fold_fills [OF sub, of r before]
    by (auto simp: boundExistingProjects_def res_simps Let_def fills_refl split: option.splits)
  assume some: "resource_hard r hard \<noteq> None" and i: "i \<in> set projects"
  have rs: "rs = fold (bound_project r before) projects qs"
    using up some by (auto simp: boundExistingProjects_def res_simps Let_def)
  obtain q where q: "find_unique q_projectId i (qd_quotas before) = Some q"
    using ps i row_found by (metis subsetD)
  have dist: "distinct (map q_projectId (qd_quotas before))" using rows by (simp add: rows_ok_def)
  show "has_share (resource_limit r) i rs"
  proof (cases "resource_limit r q = None")
    case True
    then show ?thesis
      unfolding rs using dist keys sub i q by (intro limits.fold_has) simp_all
  next
    case False
    have "has_share (resource_limit r) i (qd_quotas before)"
      using False row_unique [OF dist q] by (auto simp: has_share_def)
    then show ?thesis
      using fills_keeps [OF fills_trans [OF from_before fills]] resource_limit_share by blast
  qed
qed

lemma fills_reshares:
  assumes "rows_ok db" and "filling (set (active_projects db d)) g"
  shows "reshares db d g"
proof -
  have "g q = q" if "e \<noteq> d" "active_in db e (q_projectId q)" for e q
    using that assms active_once [of db d "q_projectId q" e]
    by (auto simp: filling_def rows_ok_def active_projects_iff)
  then show ?thesis
    using assms(2) by (auto simp: reshares_def list_all_iff filling_def)
qed

lemma assertAllocated_Inr:
  "assertAllocatedWithinHardQuota label allocated hard = Inr () \<longleftrightarrow>
     (case hard of None \<Rightarrow> True | Some h \<Rightarrow> allocated \<le> h)"
  by (simp add: assertAllocatedWithinHardQuota_def res_simps)

lemma shares_within_limit:
  assumes "case hard of None \<Rightarrow> True | Some h \<Rightarrow> held share db d \<le> h"
    and "\<And>i. hard \<noteq> None \<Longrightarrow> active_in db d i \<Longrightarrow> has_share share i (qd_quotas db)"
  shows "within_limit db d hard share"
  using assms
  by (cases hard) (auto simp: within_limit_def list_all_iff department_quotas_def has_share_def simp del: not_None_eq)

lemma budget_filled:
  fixes now d db and hard :: "nat option"
  assumes rows: "rows_ok db"
  defines "qs \<equiv> (if hard = None then qd_quotas db
    else fold (bound_budget now) (active_projects db d) (qd_quotas db))"
  shows "fills (set (active_projects db d)) (qd_quotas db) qs"
    and "hard \<noteq> None \<Longrightarrow> active_in db d i \<Longrightarrow> has_share q_hardBudgetUsd i qs"
  using budgets.fold_fills [OF active_keys [OF rows]] budgets.fold_has [OF _ active_keys [OF rows]] rows
  by (auto simp: qs_def fills_refl rows_ok_def active_projects_iff)

lemma settings_filled:
  assumes rows: "rows_ok db" and up: "update_department_settings now d inp db = Inr db'"
  obtains qs where "fills (set (active_projects db d)) (qd_quotas db) qs"
    "\<And>limit share i. (limit, share) \<in> set allocations \<Longrightarrow> limit (si_hard inp) \<noteq> None \<Longrightarrow> active_in db d i \<Longrightarrow>
       has_share share i qs"
    "\<And>limit share. (limit, share) \<in> set allocations \<Longrightarrow> (case limit (si_hard inp) of None \<Rightarrow> True
       | Some h \<Rightarrow> held share (db\<lparr>qd_quotas := qs\<rparr>) d \<le> h)"
    "db' = db\<lparr>qd_quotas := qs, qd_departments := update_rows (\<lambda>x. dp_id x = d)
        (\<lambda>x. x\<lparr>dp_models := si_models inp, dp_soft := si_soft inp, dp_hard := si_hard inp, dp_defaults := si_defaults inp,
           dp_settingsRevision := dp_settingsRevision x + 1\<rparr>) (qd_departments db)\<rparr>"
proof -
  let ?P = "active_projects db d" and ?H = "si_hard inp"
  define q0 where "q0 = (if hl_budgetUsd ?H = None then qd_quotas db
    else fold (bound_budget now) ?P (qd_quotas db))"
  from up obtain q1 q2 q3 where b: "boundExistingProjects db ?P ?H Instances q0 = Inr q1"
      "boundExistingProjects db ?P ?H Mcp q1 = Inr q2" "boundExistingProjects db ?P ?H KnowledgeBase q2 = Inr q3"
    and held: "case hl_budgetUsd ?H of None \<Rightarrow> True | Some h \<Rightarrow> held q_hardBudgetUsd (db\<lparr>qd_quotas := q3\<rparr>) d \<le> h"
      "case hl_maxInstances ?H of None \<Rightarrow> True | Some h \<Rightarrow> held q_maxInstances (db\<lparr>qd_quotas := q3\<rparr>) d \<le> h"
      "case hl_maxMcpIntegrations ?H of None \<Rightarrow> True | Some h \<Rightarrow> held q_maxMcpIntegrations (db\<lparr>qd_quotas := q3\<rparr>) d \<le> h"
      "case hl_maxKnowledgeBaseIntegrations ?H of None \<Rightarrow> True
        | Some h \<Rightarrow> held q_maxKnowledgeBaseIntegrations (db\<lparr>qd_quotas := q3\<rparr>) d \<le> h"
    and db': "db' = db\<lparr>qd_quotas := q3, qd_departments := update_rows (\<lambda>x. dp_id x = d)
        (\<lambda>x. x\<lparr>dp_models := si_models inp, dp_soft := si_soft inp, dp_hard := si_hard inp, dp_defaults := si_defaults inp,
           dp_settingsRevision := dp_settingsRevision x + 1\<rparr>) (qd_departments db)\<rparr>"
    unfolding update_department_settings_def Let_def q0_def [symmetric] held_def
    by (auto simp: res_simps assertAllocated_Inr)
  note keys = active_keys [OF rows, of d]
  note f0 = budget_filled [OF rows, where now = now and d = d and hard = "hl_budgetUsd ?H", folded q0_def]
  note f1 = boundExistingProjects_fills [OF rows keys f0(1) b(1)]
  note t1 = fills_trans [OF f0(1) f1(1), simplified]
  note f2 = boundExistingProjects_fills [OF rows keys t1 b(2)]
  note t2 = fills_trans [OF t1 f2(1), simplified]
  note f3 = boundExistingProjects_fills [OF rows keys t2 b(3)]
  note t3 = fills_trans [OF t2 f3(1), simplified]
  have limit_fun: "resource_limit Instances = q_maxInstances" "resource_limit Mcp = q_maxMcpIntegrations"
    "resource_limit KnowledgeBase = q_maxKnowledgeBaseIntegrations"
    by (simp_all add: fun_eq_iff)
  have later: "fills (set ?P) q1 q3" "fills (set ?P) q0 q3"
    using fills_trans [OF f2(1) f3(1)] fills_trans [OF f1(1) fills_trans [OF f2(1) f3(1)]] by simp_all
  have "has_share share i q3" if "(limit, share) \<in> set allocations" "limit ?H \<noteq> None" "active_in db d i" for limit share i
    using that(1)
  proof (cases rule: allocation_cases)
    case 1
    then show ?thesis
      using fills_keeps [OF later(2) f0(2)] that allocation_share by blast
  next
    case 2
    then show ?thesis
      using fills_keeps [OF later(1) f1(2)] that allocation_share
      by (simp add: limit_fun active_projects_iff del: not_None_eq)
  next
    case 3
    then show ?thesis
      using fills_keeps [OF f3(1) f2(2)] that allocation_share
      by (simp add: limit_fun active_projects_iff del: not_None_eq)
  next
    case 4
    then show ?thesis
      using f3(2) that by (simp add: limit_fun active_projects_iff del: not_None_eq)
  qed
  moreover have "case limit ?H of None \<Rightarrow> True | Some h \<Rightarrow> held share (db\<lparr>qd_quotas := q3\<rparr>) d \<le> h"
    if "(limit, share) \<in> set allocations" for limit share
    using that by (rule allocation_cases) (use held in \<open>simp_all split: option.splits\<close>)
  ultimately show ?thesis using that t3 db' by blast
qed

lemma update_department_settings_inv:
  assumes inv: "quota_inv db" and up: "update_department_settings now d inp db = Inr db'"
  shows "quota_inv db'"
proof -
  have rows: "rows_ok db" using inv by (simp add: quota_inv_def)
  from rows up obtain qs where fl: "fills (set (active_projects db d)) (qd_quotas db) qs"
    and has: "\<And>limit share i. (limit, share) \<in> set allocations \<Longrightarrow> limit (si_hard inp) \<noteq> None \<Longrightarrow> active_in db d i \<Longrightarrow>
       has_share share i qs"
    and held: "\<And>limit share. (limit, share) \<in> set allocations \<Longrightarrow> (case limit (si_hard inp) of None \<Rightarrow> True
       | Some h \<Rightarrow> held share (db\<lparr>qd_quotas := qs\<rparr>) d \<le> h)"
    and db': "db' = db\<lparr>qd_quotas := qs, qd_departments := update_rows (\<lambda>x. dp_id x = d)
        (\<lambda>x. x\<lparr>dp_models := si_models inp, dp_soft := si_soft inp, dp_hard := si_hard inp, dp_defaults := si_defaults inp,
           dp_settingsRevision := dp_settingsRevision x + 1\<rparr>) (qd_departments db)\<rparr>"
    by (rule settings_filled) blast
  from fl obtain g where g: "filling (set (active_projects db d)) g" "qs = map g (qd_quotas db)"
    by (auto simp: fills_def)
  show ?thesis
    unfolding db' g(2)
  proof (rule quota_inv_reshare [OF inv fills_reshares [OF rows g(1)]])
    fix dep limit share assume "(limit, share) \<in> set allocations"
    then have "within_limit (db\<lparr>qd_quotas := qs\<rparr>) d (limit (si_hard inp)) share"
      using held has by (intro shares_within_limit) (auto simp: active_in_def)
    then show "within_limit (db\<lparr>qd_quotas := map g (qd_quotas db)\<rparr>) d
        (limit (dp_hard (dep\<lparr>dp_models := si_models inp, dp_soft := si_soft inp, dp_hard := si_hard inp, dp_defaults := si_defaults inp,
           dp_settingsRevision := dp_settingsRevision dep + 1\<rparr>))) share"
      by (simp add: g(2))
  qed simp
qed

lemma update_department_inv:
  assumes inv: "quota_inv db" and up: "update_department fold_case now d name description hard db = Inr db'"
  shows "quota_inv db'"
proof -
  have rows: "rows_ok db" using inv by (simp add: quota_inv_def)
  let ?P = "set (active_projects db d)"
  let ?f = "\<lambda>x. x\<lparr>dp_name := name, dp_description := description, dp_hard := (dp_hard x)\<lparr>hl_budgetUsd := hard\<rparr>\<rparr>"
  define g where "g = (\<lambda>q. if hard \<noteq> None \<and> q_hardBudgetUsd q = None \<and> q_projectId q \<in> ?P then with_window now q else q)"
  have quotas: "(if hard = None then qd_quotas db
      else update_rows (\<lambda>q. q_hardBudgetUsd q = None \<and> q_projectId q \<in> ?P) (with_window now) (qd_quotas db))
    = map g (qd_quotas db)"
    by (simp add: g_def update_rows_def)
  from up have held: "case hard of None \<Rightarrow> True
      | Some h \<Rightarrow> held q_hardBudgetUsd (db\<lparr>qd_quotas := map g (qd_quotas db)\<rparr>) d \<le> h"
    and db': "db' = db\<lparr>qd_quotas := map g (qd_quotas db), qd_departments := update_rows (\<lambda>x. dp_id x = d) ?f (qd_departments db)\<rparr>"
    unfolding update_department_def Let_def quotas held_def
    by (auto simp: res_simps assertAllocated_Inr)
  have g: "filling ?P g"
    using with_window_share by (auto simp: filling_def g_def simp del: not_None_eq)
  have other: "share (g q) = share q" if "(limit, share) \<in> set allocations" "share \<noteq> q_hardBudgetUsd" for limit share q
    using that(1) by (rule allocation_cases) (use that(2) in \<open>simp_all add: g_def with_window_def split: prod.splits\<close>)
  have key: "q_projectId (g q) = q_projectId q" for q by (simp add: g_def)
  show ?thesis
    unfolding db'
  proof (rule quota_inv_reshare [OF inv fills_reshares [OF rows g]])
    fix dep limit share
    assume dep: "dep \<in> set (qd_departments db)" "dp_id dep = d" and sh: "(limit, share) \<in> set allocations"
    let ?db = "db\<lparr>qd_quotas := map g (qd_quotas db)\<rparr>"
    show "within_limit ?db d (limit (dp_hard (?f dep))) share"
    proof (cases "share = q_hardBudgetUsd")
      case True
      have "within_limit ?db d hard q_hardBudgetUsd"
        using held by (intro shares_within_limit)
          (auto simp: has_share_def g_def active_projects_iff active_in_def)
      moreover have "limit = hl_budgetUsd"
        using sh by (rule allocation_cases) (use True in \<open>auto dest: fun_cong [where x = "blank_quota i\<lparr>q_hardBudgetUsd := Some 0\<rparr>" for i] simp: blank_quota_def\<close>)
      ultimately show ?thesis using True by simp
    next
      case False
      have same: "share (g q) = share q" for q by (rule other [OF sh False])
      have "limit (dp_hard (?f dep)) = limit (dp_hard dep)"
        using sh by (rule allocation_cases) (use False in simp_all)
      moreover have "within_limit db d (limit (dp_hard dep)) share"
        using quota_inv_dep [OF inv dep(1)] sh dep(2) by (auto simp: department_within_def list_all_iff)
      moreover have "department_quotas ?db d = map g (department_quotas db d)"
        using department_quotas_map [OF key, where db = db and ds = "qd_departments db"] by simp
      ultimately show ?thesis
        by (simp add: within_limit_def held_def list_all_iff same comp_def split: option.splits)
    qed
  qed simp
qed

section \<open>New and deleted Projects\<close>

lemma check_new_Inr:
  "check_new (label, current, Some r, hard) = Inr () \<longleftrightarrow> (case hard of None \<Rightarrow> True | Some h \<Rightarrow> current + r \<le> h)"
  by (auto simp: check_new_def res_simps split: option.splits)


lemma new_quota_shares:
  "q_maxInstances (new_quota now i inp) = in_maxInstances inp"
  "q_maxMcpIntegrations (new_quota now i inp) = in_maxMcpIntegrations inp"
  "q_maxKnowledgeBaseIntegrations (new_quota now i inp) = in_maxKnowledgeBaseIntegrations inp"
  by (simp_all add: new_quota_def Let_def split: option.split prod.split)

lemma new_quota_budget:
  assumes "in_hardBudgetUsd inp \<noteq> None \<longrightarrow> in_budgetDuration inp \<noteq> None"
  shows "q_hardBudgetUsd (new_quota now i inp) = in_hardBudgetUsd inp"
  using assms by (cases "in_budgetDuration inp"; cases "in_hardBudgetUsd inp")
    (simp_all add: new_quota_def Let_def blank_quota_def split: prod.split)

lemma inherited_quota_shares:
  "hl_maxInstances (dp_hard dep) \<noteq> None \<Longrightarrow> in_maxInstances (inherited_quota dep) \<noteq> None"
  "hl_maxMcpIntegrations (dp_hard dep) \<noteq> None \<Longrightarrow> in_maxMcpIntegrations (inherited_quota dep) \<noteq> None"
  "hl_maxKnowledgeBaseIntegrations (dp_hard dep) \<noteq> None \<Longrightarrow>
     in_maxKnowledgeBaseIntegrations (inherited_quota dep) \<noteq> None"
  "hl_budgetUsd (dp_hard dep) \<noteq> None \<Longrightarrow> in_hardBudgetUsd (inherited_quota dep) \<noteq> None"
  by (auto simp: inherited_quota_def Let_def split: option.split)

lemma inherited_quota_duration:
  "in_hardBudgetUsd (inherited_quota dep) \<noteq> None \<longrightarrow> in_budgetDuration (inherited_quota dep) \<noteq> None"
  by (auto simp: inherited_quota_def Let_def split: option.splits)

lemmas inherited_facts = new_quota_shares new_quota_budget [OF inherited_quota_duration]

lemma inherited_share:
  assumes "(limit, share) \<in> set allocations" and "limit (dp_hard dep) \<noteq> None"
  shows "share (new_quota now i (inherited_quota dep)) \<noteq> None"
  using assms(1)
  by (rule allocation_cases)
    (use assms(2) inherited_quota_shares [of dep] in \<open>simp_all add: inherited_facts del: not_None_eq\<close>)

lemma new_quota_key [simp]: "q_projectId (new_quota now i inherited) = i"
  by (auto simp: new_quota_def Let_def blank_quota_def split: option.splits prod.splits)

lemma allocation_available:
  assumes "assertDepartmentAllocationAvailable dep (inherited_quota dep) db = Inr ()"
    and "(limit, share) \<in> set allocations" and "limit (dp_hard dep) = Some h"
    and "share (new_quota now i (inherited_quota dep)) = Some r"
  shows "held share db (dp_id dep) + r \<le> h"
proof -
  note checks = assms(1) [unfolded assertDepartmentAllocationAvailable_def Let_def fold_res_each, simplified,
    folded held_def]
  from assms(2) show ?thesis
    by (rule allocation_cases)
      (use checks assms(3,4) in \<open>simp_all add: inherited_facts check_new_Inr\<close>)
qed

lemma creation_inv:
  assumes inv: "quota_inv db" and check: "check_creation fold_case d i name db = Inr inherited"
    and up: "write_creation now d i name inherited db = Inr db'"
  shows "quota_inv db'"
proof -
  have rows: "rows_ok db" using inv by (simp add: quota_inv_def)
  let ?q = "new_quota now i inherited" and ?p = "\<lparr>pj_id = i, pj_name = name, pj_departmentId = d, pj_deleted = False\<rparr>"
  from check obtain dep where dep: "find_unique dp_id d (qd_departments db) = Some dep"
    and avail: "assertDepartmentAllocationAvailable dep (inherited_quota dep) db = Inr ()"
    and inherited: "inherited = inherited_quota dep"
  proof (cases "find_unique dp_id d (qd_departments db)")
    case (Some dep)
    show ?thesis
      by (rule that [OF Some]) (use check Some in \<open>auto simp: check_creation_def res_simps\<close>)
  qed (use check in \<open>simp add: check_creation_def\<close>)
  from up have db': "db' = db\<lparr>qd_projects := qd_projects db @ [?p], qd_quotas := qd_quotas db @ [?q]\<rparr>"
    and fresh: "i \<notin> pj_id ` set (qd_projects db)" "i \<notin> q_projectId ` set (qd_quotas db)"
    by (auto simp: write_creation_def res_simps insert_row_Some find_unique_None_iff)
  have id: "dp_id dep = d" by (rule find_unique_key [OF dep])
  have active: "active_in db' e j \<longleftrightarrow> active_in db e j \<or> (j = i \<and> e = d)" for e j
    by (auto simp: db' active_in_def)
  have old: "\<not> active_in db e i" for e
    using fresh(1) by (auto simp: active_in_def list_ex_iff)
  have Q: "department_quotas db' e = department_quotas db e @ (if e = d then [?q] else [])" for e
    using fresh(2) old by (auto simp: department_quotas_def db' active [unfolded db'] intro!: filter_cong)
  have "rows_ok db'" using rows fresh by (auto simp: rows_ok_def db' list_all_iff)
  moreover have "within_limit db' (dp_id dep') (limit (dp_hard dep')) share"
    if d: "dep' \<in> set (qd_departments db)" and sh: "(limit, share) \<in> set allocations" for dep' limit share
  proof -
    have was: "within_limit db (dp_id dep') (limit (dp_hard dep')) share"
      using quota_inv_dep [OF inv d] sh by (auto simp: department_within_def list_all_iff)
    show ?thesis
    proof (cases "dp_id dep' = d")
      case True
      then have "dep' = dep"
        using rows d find_unique_in [OF dep] id by (auto simp: rows_ok_def distinct_map inj_on_def)
      show ?thesis
      proof (cases "limit (dp_hard dep)")
        case (Some h)
        then obtain r where r: "share ?q = Some r"
          using inherited_share [OF sh, of dep now i] by (auto simp: inherited)
        have "held share db d + r \<le> h"
          using allocation_available [OF avail sh Some] r id by (simp add: inherited)
        then show ?thesis
          using was r Some id by (simp add: within_limit_def held_def Q \<open>dep' = dep\<close> sumNullable_def)
      qed (simp add: within_limit_def \<open>dep' = dep\<close>)
    next
      case False
      then show ?thesis using was by (simp add: within_limit_def held_def Q split: option.splits)
    qed
  qed
  ultimately show ?thesis
    by (auto simp: quota_inv_def department_within_def list_all_iff db')
qed

lemma within_limit_fewer:
  assumes "within_limit db d hard share" and "\<And>i. active_in db' d i \<Longrightarrow> active_in db d i"
    and "qd_quotas db' = qd_quotas db"
  shows "within_limit db' d hard share"
proof -
  have Q: "department_quotas db' d = filter (\<lambda>q. active_in db' d (q_projectId q)) (department_quotas db d)"
    using assms(2,3) by (auto simp: department_quotas_def intro!: filter_cong)
  have "held share db' d \<le> held share db d"
    using sumNullable_split [of share "department_quotas db d" "\<lambda>q. active_in db' d (q_projectId q)"]
    by (simp add: held_def Q)
  then show ?thesis
    using assms(1) by (auto simp: within_limit_def Q list_all_iff split: option.splits)
qed

lemma tombstone_project_inv:
  assumes inv: "quota_inv db" and up: "tombstone_project i db = Inr db'"
  shows "quota_inv db'"
proof -
  from up have db': "db' = db\<lparr>qd_projects := update_rows (\<lambda>p. pj_id p = i) (\<lambda>p. p\<lparr>pj_deleted := True\<rparr>) (qd_projects db)\<rparr>"
    by (auto simp: tombstone_project_def res_simps)
  have ids: "map pj_id (qd_projects db') = map pj_id (qd_projects db)"
    by (simp add: db' map_key_update)
  have subset: "pj_id p \<in> pj_id ` set (qd_projects db)" if "p \<in> set (qd_projects db')" for p
    using that by (auto simp: db' set_update_rows)
  have same: "qd_quotas db' = qd_quotas db" "qd_departments db' = qd_departments db" by (simp_all add: db')
  have "pj_id p \<in> q_projectId ` set (qd_quotas db)" if "p \<in> set (qd_projects db')" for p
    using subset [OF that] inv by (fastforce simp: quota_inv_def rows_ok_def list_all_iff)
  then have "rows_ok db'"
    using inv unfolding quota_inv_def rows_ok_def ids same list_all_iff by blast
  moreover have "active_in db d j" if "active_in db' d j" for d j
    using that by (auto simp: active_in_def db' list_ex_iff set_update_rows split: if_splits)
  then have fewer: "within_limit db d hard share \<Longrightarrow> within_limit db' d hard share" for d hard share
    using within_limit_fewer same(1) by blast
  have "department_within db' dep" if "dep \<in> set (qd_departments db)" for dep
    using quota_inv_dep [OF inv that] fewer unfolding department_within_def list_all_iff by fast
  ultimately show ?thesis
    by (simp add: quota_inv_def list_all_iff same)
qed

section \<open>The operations together\<close>

lemma ensureRecord_inv:
  assumes "quota_inv db" and "i \<in> pj_id ` set (qd_projects db)"
  shows "snd (ensureRecord i db) = db"
  using assms by (metis ensureRecord_present quota_inv_def snd_conv)

lemma ensureCurrentBudgetWindow_inv:
  assumes inv: "quota_inv db" and i: "i \<in> pj_id ` set (qd_projects db)"
  shows "quota_inv (snd (ensureCurrentBudgetWindow now i db))"
proof -
  obtain q where q: "ensureRecord i db = (q, db)"
    using ensureRecord_present inv i unfolding quota_inv_def by metis
  have columns: "quota_inv (db\<lparr>qd_quotas := update_rows (\<lambda>q. q_projectId q = i)
      (\<lambda>q. q\<lparr>q_budgetPeriodStartedAt := s, q_budgetResetsAt := r\<rparr>) (qd_quotas db)\<rparr>)" for s r
    unfolding update_rows_def
    by (rule quota_inv_columns [OF inv]) (auto simp: allocations_def)
  show ?thesis
    using inv columns
    by (simp add: ensureCurrentBudgetWindow_def q Let_def split: option.split prod.split)
qed

lemma set_quota_inv:
  assumes "quota_inv db" and "\<And>q. q_projectId (f q) = q_projectId q"
    and "\<And>q limit share. (limit, share) \<in> set allocations \<Longrightarrow> share (f q) = share q"
  shows "quota_inv (set_quota i f db)"
  unfolding set_quota_def update_rows_def
  by (rule quota_inv_columns [OF assms(1)]) (auto simp: assms(2,3))

lemma ensureProjectTeam_inv:
  assumes inv: "quota_inv db" and i: "i \<in> pj_id ` set (qd_projects db)"
  shows "quota_inv (snd (ensureProjectTeam lower absent gateway i db))"
proof -
  obtain q where q: "ensureRecord i db = (q, db)"
    using ensureRecord_present inv i unfolding quota_inv_def by metis
  have "quota_inv (markSyncFailure i e db)" and "quota_inv (set_quota i (\<lambda>q. q\<lparr>q_litellmTeamId := team\<rparr>) db)" for e team
    unfolding markSyncFailure_def by (rule set_quota_inv [OF inv]; auto simp: allocations_def)+
  then show ?thesis
    using inv by (simp add: ensureProjectTeam_def q Let_def split: option.split list.split sum.split)
qed

lemma sync_inv:
  assumes inv: "quota_inv db" and i: "i \<in> pj_id ` set (qd_projects db)"
  shows "quota_inv (snd (sync lower absent gateway now i db))"
proof -
  obtain q where q: "ensureRecord i db = (q, db)"
    using ensureRecord_present inv i unfolding quota_inv_def by metis
  obtain r db2 where team: "ensureProjectTeam lower absent gateway i db = (r, db2)" by fastforce
  have "quota_inv db2" using ensureProjectTeam_inv [OF inv i, of lower absent gateway] by (simp add: team)
  then have "quota_inv (markSyncFailure i e db2)"
    and "quota_inv (set_quota i (\<lambda>q. q\<lparr>q_syncStatus := ''synced'', q_lastSyncedAt := Some now, q_lastSyncError := None\<rparr>) db2)" for e
    unfolding markSyncFailure_def by (rule set_quota_inv; auto simp: allocations_def)+
  then show ?thesis by (simp add: sync_def q team Let_def split: sum.split)
qed

text \<open>
  The runs of Control against the tables: every transaction under the Department lock, the
  deletion of a Project, and a creation whose checks and writes nothing else separates.
\<close>

inductive quota_step :: "quota_db \<Rightarrow> quota_db \<Rightarrow> bool" where
  step_project_quota: "update_project_quota now actor i inp db = Inr db' \<Longrightarrow> quota_step db db'"
| step_settings: "update_department_settings now d settings db = Inr db' \<Longrightarrow> quota_step db db'"
| step_department: "update_department fold_case now d name description hard db = Inr db' \<Longrightarrow> quota_step db db'"
| step_create: "check_creation fold_case d i name db = Inr inherited \<Longrightarrow> write_creation now d i name inherited db = Inr db' \<Longrightarrow>
    quota_step db db'"
| step_delete: "tombstone_project i db = Inr db' \<Longrightarrow> quota_step db db'"
| step_window: "i \<in> pj_id ` set (qd_projects db) \<Longrightarrow> quota_step db (snd (ensureCurrentBudgetWindow now i db))"
| step_sync: "i \<in> pj_id ` set (qd_projects db) \<Longrightarrow> quota_step db (snd (sync lower absent gateway now i db))"
| step_resources: "quota_step db (db\<lparr>qd_agents := a, qd_mcpServers := m, qd_knowledgeSources := k\<rparr>)"

definition quota_init :: "quota_db \<Rightarrow> bool" where
  "quota_init db \<longleftrightarrow> distinct (map dp_id (qd_departments db)) \<and> qd_projects db = [] \<and> qd_quotas db = []"

interpretation quotas: transition_system quota_init quota_step .

lemma quota_init_inv: "quota_init db \<Longrightarrow> quota_inv db"
  by (simp add: quota_init_def quota_inv_def rows_ok_def list_all_iff department_within_def
      within_limit_def held_def department_quotas_def sumNullable_def split: option.splits)

lemma quota_inv_resources:
  "quota_inv db \<Longrightarrow> quota_inv (db\<lparr>qd_agents := a, qd_mcpServers := m, qd_knowledgeSources := k\<rparr>)"
  (is "_ \<Longrightarrow> quota_inv ?db")
proof -
  have "department_quotas ?db = department_quotas db"
    by (simp add: fun_eq_iff department_quotas_def active_in_def)
  then have "within_limit ?db = within_limit db"
    by (intro ext) (simp only: within_limit_def held_def)
  then have "department_within ?db = department_within db"
    by (intro ext) (simp only: department_within_def)
  then show "quota_inv db \<Longrightarrow> quota_inv ?db"
    by (simp add: quota_inv_def rows_ok_def)
qed

lemma quota_step_inv: "quota_step db db' \<Longrightarrow> quota_inv db \<Longrightarrow> quota_inv db'"
  by (induction rule: quota_step.induct)
    (auto intro: update_project_quota_inv update_department_settings_inv update_department_inv
      creation_inv tombstone_project_inv sync_inv ensureCurrentBudgetWindow_inv quota_inv_resources)

lemma quota_reachable_inv: "quotas.reachable db \<Longrightarrow> quota_inv db"
  by (erule quotas.invariantI) (auto intro: quota_init_inv quota_step_inv)

lemma quota_steps_inv:
  "quota_step\<^sup>*\<^sup>* db db' \<Longrightarrow> quota_inv db \<Longrightarrow> quota_inv db'"
  by (induction rule: rtranclp_induct) (auto intro: quota_step_inv)

section \<open>What follows\<close>


text \<open>A Department whose new Projects start with a budget of 6 dollars out of 10.\<close>

definition sample_hard :: hard_limits where
  "sample_hard = \<lparr>hl_budgetUsd = Some 10000000, hl_maxInstances = Some 4, hl_maxMcpIntegrations = None,
     hl_maxKnowledgeBaseIntegrations = None\<rparr>"

definition sample_defaults :: project_defaults where
  "sample_defaults = \<lparr>df_hardBudgetUsd = Some 6000000, df_budgetDuration = Some Day7, df_tpmLimit = None,
     df_maxInstances = Some 2, df_maxMcpIntegrations = None, df_maxKnowledgeBaseIntegrations = None\<rparr>"

definition no_limits :: hard_limits where
  "no_limits = \<lparr>hl_budgetUsd = None, hl_maxInstances = None, hl_maxMcpIntegrations = None,
     hl_maxKnowledgeBaseIntegrations = None\<rparr>"

definition sample_models :: model_defaults where
  "sample_models = \<lparr>md_defaultChatModel = None, md_defaultEmbeddingModel = None, md_mode = ''PROJECT_MANAGED'',
     md_fallbackModel = None\<rparr>"

definition sample_department :: department_row where
  "sample_department = \<lparr>dp_id = ''research'', dp_name = ''Research'', dp_description = None, dp_status = ''active'',
     dp_models = sample_models, dp_soft = no_limits, dp_hard = sample_hard, dp_defaults = sample_defaults, dp_settingsRevision = 1\<rparr>"

definition sample_quotas :: quota_db where
  "sample_quotas = \<lparr>qd_departments = [sample_department], qd_projects = [], qd_quotas = [], qd_agents = [],
     qd_mcpServers = [], qd_knowledgeSources = []\<rparr>"

definition after_creation :: "string \<Rightarrow> quota_db \<Rightarrow> quota_db" where
  "after_creation i db = (case res_bind (check_creation id ''research'' i ''Project'' db)
     (\<lambda>inherited. write_creation 1700000000000 ''research'' i ''Project'' inherited db) of Inr db' \<Rightarrow> db' | Inl _ \<Rightarrow> db)"

lemma sample_reachable: "quotas.reachable (after_creation ''alpha'' sample_quotas)"
proof -
  have "quota_init sample_quotas" by (simp add: quota_init_def sample_quotas_def)
  then have start: "quotas.reachable sample_quotas" by (rule quotas.reachable_init)
  show ?thesis
  proof (cases "res_bind (check_creation id ''research'' ''alpha'' ''Project'' sample_quotas)
     (\<lambda>inherited. write_creation 1700000000000 ''research'' ''alpha'' ''Project'' inherited sample_quotas)")
    case (Inr db)
    then show ?thesis
      using quotas.reachable_step [OF start step_create] by (auto simp: after_creation_def res_simps)
  qed (simp add: after_creation_def start)
qed

lemma sample_state: "qd_departments (after_creation ''alpha'' sample_quotas) = [sample_department]
  \<and> held q_hardBudgetUsd (after_creation ''alpha'' sample_quotas) ''research'' = 6000000"
  by code_simp


definition racing_creations :: "string \<Rightarrow> string \<Rightarrow> quota_db \<Rightarrow> quota_db qres" where
  "racing_creations i j db =
     res_bind (check_creation id ''research'' i ''Project'' db) (\<lambda>a.
     res_bind (check_creation id ''research'' j ''Second'' db) (\<lambda>b.
     res_bind (write_creation 1700000000000 ''research'' i ''Project'' a db) (\<lambda>db1.
     write_creation 1700000000001 ''research'' j ''Second'' b db1)))"


lemma count_rows_split:
  assumes "distinct ids"
  shows "count_rows (\<lambda>x. p x \<and> key x \<in> set ids) xs =
    sum_list (map (\<lambda>i. count_rows (\<lambda>x. key x = i \<and> p x) xs) ids)"
  using assms
proof (induction ids)
  case Nil
  then show ?case by (simp add: count_rows_def)
next
  case (Cons i ids)
  have "count_rows (\<lambda>x. p x \<and> key x \<in> set (i # ids)) xs =
      count_rows (\<lambda>x. key x = i \<and> p x) xs + count_rows (\<lambda>x. p x \<and> key x \<in> set ids) xs"
    using Cons.prems by (induction xs) (auto simp: count_rows_Cons)
  with Cons show ?case by simp
qed

lemma sum_within:
  assumes "\<And>q. q \<in> set qs \<Longrightarrow> \<exists>n. share q = Some n \<and> f q \<le> n"
  shows "sum_list (map f qs) \<le> sumNullable (map share qs)"
  using assms
proof (induction qs)
  case (Cons q qs)
  then have "\<exists>n. share q = Some n \<and> f q \<le> n" and "sum_list (map f qs) \<le> sumNullable (map share qs)"
    by simp_all
  then show ?case by (auto simp: sumNullable_def)
qed (simp add: sumNullable_def)

lemma department_count_sum:
  assumes "rows_ok db"
  shows "department_count r db d = sum_list (map (\<lambda>q. project_count r db (q_projectId q)) (department_quotas db d))"
proof -
  let ?ids = "map q_projectId (department_quotas db d)"
  have "distinct ?ids"
    using assms by (simp add: rows_ok_def department_quotas_def distinct_map_filter)
  moreover have "active_in db d i \<longleftrightarrow> i \<in> set ?ids" for i
    using active_keys [OF assms, of d]
    by (auto simp: department_quotas_def active_projects_iff subset_iff image_iff)
  ultimately show ?thesis
    using count_rows_split [of ?ids "\<lambda>x. \<not> cn_deleted x" cn_projectId]
    by (simp add: department_count_def project_count_def comp_def)
qed

text \<open>
  Where every active Project of a Department keeps within its own limit of a resource, the
  Department keeps within its hard limit of that resource.
\<close>

theorem department_count_bounded:
  assumes "quotas.reachable db" and "dep \<in> set (qd_departments db)"
    and "resource_hard r (dp_hard dep) = Some h"
    and "\<And>q n. q \<in> set (department_quotas db (dp_id dep)) \<Longrightarrow> resource_limit r q = Some n \<Longrightarrow>
      project_count r db (q_projectId q) \<le> n"
  shows "department_count r db (dp_id dep) \<le> h"
proof -
  have inv: "quota_inv db" by (rule quota_reachable_inv [OF assms(1)])
  have "(resource_hard r, resource_limit r) \<in> set allocations"
    by (cases r) (simp_all add: allocations_def fun_eq_iff)
  then have "within_limit db (dp_id dep) (Some h) (resource_limit r)"
    using quota_inv_dep [OF inv assms(2)] assms(3) by (auto simp: department_within_def list_all_iff)
  then have held: "held (resource_limit r) db (dp_id dep) \<le> h"
    and some: "\<And>q. q \<in> set (department_quotas db (dp_id dep)) \<Longrightarrow> resource_limit r q \<noteq> None"
    by (auto simp: within_limit_def list_all_iff)
  have "department_count r db (dp_id dep) \<le> held (resource_limit r) db (dp_id dep)"
    unfolding held_def department_count_sum [OF inv [unfolded quota_inv_def, THEN conjunct1]]
    using some assms(4) by (intro sum_within) blast
  with held show ?thesis by simp
qed

lemma sample_counts: "map q_maxInstances (department_quotas (after_creation ''alpha'' sample_quotas) ''research'') = [Some 2]
  \<and> project_count Instances (after_creation ''alpha'' sample_quotas) ''alpha'' = 0
  \<and> map q_projectId (department_quotas (after_creation ''alpha'' sample_quotas) ''research'') = [''alpha'']"
  by code_simp

theorem department_count_bounded_witness:
  "department_count Instances (after_creation ''alpha'' sample_quotas) ''research'' \<le> 4"
proof -
  have "resource_hard Instances (dp_hard sample_department) = Some 4"
    by (simp add: sample_department_def sample_hard_def)
  moreover have "project_count Instances (after_creation ''alpha'' sample_quotas) (q_projectId q) \<le> n"
    if "q \<in> set (department_quotas (after_creation ''alpha'' sample_quotas) (dp_id sample_department))" for q n
    using that sample_counts by (auto simp: sample_department_def)
  ultimately show ?thesis
    using department_count_bounded [OF sample_reachable, of sample_department Instances 4] sample_state
    by (simp add: sample_department_def)
qed

definition with_agents :: "quota_db \<Rightarrow> quota_db" where
  "with_agents db = db\<lparr>qd_agents := map (\<lambda>gone. \<lparr>cn_projectId = ''alpha'', cn_deleted = gone\<rparr>) [False, True, True]\<rparr>"

definition two_instances :: settings_input where
  "two_instances = \<lparr>si_models = sample_models, si_soft = no_limits,
     si_hard = sample_hard\<lparr>hl_maxInstances := Some 2\<rparr>, si_defaults = sample_defaults\<rparr>"

text \<open>
  The settings count every Agent row of a Project, also the deleted ones: a Department with
  one running Agent and two deleted ones cannot be limited to two, although a creation would
  find room.
\<close>

theorem deleted_agents_count:
  "(let db = with_agents (after_creation ''alpha'' sample_quotas) in
    department_count Instances db ''research'' = 1
    \<and> fst (assertCanCreate Instances ''alpha'' db) = Inr ()
    \<and> update_department_settings 1700000000000 ''research'' two_instances db
        = Inl (HardBelowRunning ''Instance'' 3))"
  by code_simp

end
