(* ===== verification/Runtime_Targets.thy ===== *)
theory Runtime_Targets
  imports Prelude
begin

text \<open>
  The runtime target of a Project and its lease (\<open>projects/project-runtime-target-service.ts\<close>,
  \<open>projects/project-runtime-status.ts\<close>), the request to delete a Project
  (\<open>projects/project-service.ts\<close>) and the task that carries it out
  (\<open>workers/control-worker-tasks.ts\<close>). Every definition that changes the tables is one statement
  or one transaction of the source; what happens between them is left to the other workers. The
  clusters themselves, the queue and the clock are arguments.
\<close>

section \<open>Rows\<close>

datatype target_status = PendingTarget | Reconciling | Ready | RetryTarget | FailedTarget | Deleting

record target =
  rt_projectId :: string
  rt_clusterId :: string
  rt_namespace :: string
  rt_status :: target_status
  rt_generation :: nat
  rt_observedGeneration :: nat
  rt_nextAttemptAt :: int
  rt_leaseOwner :: "string option"
  rt_leaseExpiresAt :: "int option"
  rt_attempts :: nat
  rt_lastError :: "string option"
  rt_lastReconciledAt :: "int option"

datatype deletion_status = Scheduled | RunningTask | RetryTask | FailedTask | CompletedTask

record deletion_task =
  dt_projectId :: string
  dt_queueJobId :: "string option"
  dt_status :: deletion_status
  dt_scheduledFor :: int
  dt_nextAttemptAt :: int
  dt_leaseOwner :: "string option"
  dt_leaseExpiresAt :: "int option"
  dt_attempts :: nat
  dt_lastError :: "string option"

record project =
  pr_id :: string
  pr_deletedAt :: "int option"
  pr_deletedBy :: "string option"

datatype op_action = Onboard | Discover | Instantiate | Remove | RemoveInstance

datatype op_status = PendingOp | RunningOp | RetryOp | CompletedOp | FailedOp | CancelledOp

text \<open>
  The input of an operation as the worker decrypts it: the identifier when it is a string, and
  whether \<open>a2aDeletionFenceVersion\<close> is 1.
\<close>

record op_input =
  oi_id :: "string option"
  oi_versionId :: "string option"
  oi_fenced :: bool

record operation =
  op_id :: string
  op_projectId :: string
  op_actorId :: string
  op_action :: op_action
  op_input :: op_input
  op_status :: op_status
  op_lastError :: "string option"
  op_createdAt :: int

record catalog_agent =
  ca_projectId :: string
  ca_id :: string
  ca_registered :: bool
  ca_deletedAt :: "int option"

record instance_row =
  ir_projectId :: string
  ir_id :: string
  ir_a2a :: bool
  ir_catalogAgentId :: "string option"
  ir_deletedAt :: "int option"
  ir_destroying :: bool

text \<open>A row of one of the other tables of a Project, known by its table.\<close>

record business_row =
  br_table :: string
  br_projectId :: string
  br_deletedAt :: "int option"

record runtime_db =
  rd_projects :: "project list"
  rd_targets :: "target list"
  rd_tasks :: "deletion_task list"
  rd_operations :: "operation list"
  rd_catalog :: "catalog_agent list"
  rd_instances :: "instance_row list"
  rd_records :: "business_row list"

datatype runtime_error =
    NotAvailable
  | WrongCluster
  | TargetChanged
  | Superseded
  | LeaseLost
  | BeingDeleted
  | StillRunning
  | RuntimesDisabled
  | TargetMismatch
  | Waiting
  | BuiltInAgent
  | OperationInactive
  | CancelledByDeletion
  | NeedsOwner
  | NotDeleted
  | Remote "string option"

type_synonym 'a rtres = "runtime_error + 'a"

section \<open>Reconciliation\<close>

definition set_targets :: "(target \<Rightarrow> bool) \<Rightarrow> (target \<Rightarrow> target) \<Rightarrow> runtime_db \<Rightarrow> runtime_db" where
  "set_targets p f db = db\<lparr>rd_targets := update_rows p f (rd_targets db)\<rparr>"

definition find_project :: "string \<Rightarrow> runtime_db \<Rightarrow> project option" where
  "find_project i db = find_unique pr_id i (rd_projects db)"

definition find_target :: "string \<Rightarrow> runtime_db \<Rightarrow> target option" where
  "find_target i db = find_unique rt_projectId i (rd_targets db)"

definition active_project :: "string \<Rightarrow> runtime_db \<Rightarrow> bool" where
  "active_project i db \<longleftrightarrow> (case find_project i db of None \<Rightarrow> False | Some p \<Rightarrow> pr_deletedAt p = None)"

definition new_target :: "int \<Rightarrow> string \<Rightarrow> string \<Rightarrow> string \<Rightarrow> target" where
  "new_target now cluster namespace i = \<lparr>rt_projectId = i, rt_clusterId = cluster, rt_namespace = namespace,
     rt_status = PendingTarget, rt_generation = 1, rt_observedGeneration = 0, rt_nextAttemptAt = now,
     rt_leaseOwner = None, rt_leaseExpiresAt = None, rt_attempts = 0, rt_lastError = None,
     rt_lastReconciledAt = None\<rparr>"

text \<open>
  The start of \<open>ensureProjectNamespace\<close>: the Project, its target, created when there is none, and
  the generation the rest of the run works for. \<open>namespace_of\<close> is \<open>projectRuntimeNamespace\<close>.
\<close>

definition open_target ::
  "(string \<Rightarrow> string) \<Rightarrow> int \<Rightarrow> string \<Rightarrow> string \<Rightarrow> runtime_db \<Rightarrow> nat rtres \<times> runtime_db" where
  "open_target namespace_of now cluster i db =
     (if \<not> active_project i db then (Inl NotAvailable, db)
      else
        (let (t, db1) = (case find_target i db of
               Some t \<Rightarrow> (t, db)
             | None \<Rightarrow> (let t = new_target now cluster (namespace_of i) i in (t, db\<lparr>rd_targets := rd_targets db @ [t]\<rparr>)))
         in if rt_clusterId t \<noteq> cluster then (Inl WrongCluster, db1) else (Inr (rt_generation t), db1)))"

definition lease_ms :: int where
  "lease_ms = 600000"

definition lease_free :: "int \<Rightarrow> target \<Rightarrow> bool" where
  "lease_free now t \<longleftrightarrow> rt_leaseOwner t = None \<or> rt_leaseExpiresAt t = None \<or> opt_all (\<lambda>e. e \<le> now) (rt_leaseExpiresAt t)"

definition claimable :: "int \<Rightarrow> string \<Rightarrow> nat \<Rightarrow> target \<Rightarrow> bool" where
  "claimable now i gen t \<longleftrightarrow> rt_projectId t = i \<and> rt_generation t = gen
     \<and> rt_status t \<notin> {Deleting, FailedTarget} \<and> lease_free now t"

definition claim_target :: "int \<Rightarrow> string \<Rightarrow> string \<Rightarrow> nat \<Rightarrow> runtime_db \<Rightarrow> runtime_db rtres" where
  "claim_target now lease i gen db =
     (if count_rows (claimable now i gen) (rd_targets db) = 0 then Inl TargetChanged
      else Inr (set_targets (claimable now i gen)
        (\<lambda>t. t\<lparr>rt_attempts := rt_attempts t + 1, rt_lastError := None,
           rt_leaseExpiresAt := Some (now + lease_ms), rt_leaseOwner := Some lease, rt_status := Reconciling\<rparr>) db))"

text \<open>The heartbeat of a lease, of a reconciliation and of a resource operation alike.\<close>

definition heartbeat :: "int \<Rightarrow> string \<Rightarrow> string \<Rightarrow> runtime_db \<Rightarrow> runtime_db \<times> bool" where
  "heartbeat now lease i db =
     (let held = (\<lambda>t. rt_projectId t = i \<and> rt_leaseOwner t = Some lease) in
      (set_targets held (\<lambda>t. t\<lparr>rt_leaseExpiresAt := Some (now + lease_ms)\<rparr>) db,
       count_rows held (rd_targets db) = 0))"

definition reconciled_by :: "string \<Rightarrow> string \<Rightarrow> nat \<Rightarrow> target \<Rightarrow> bool" where
  "reconciled_by lease i gen t \<longleftrightarrow> rt_projectId t = i \<and> rt_generation t = gen
     \<and> rt_leaseOwner t = Some lease \<and> rt_status t = Reconciling"

definition stillCurrent :: "bool \<Rightarrow> string \<Rightarrow> string \<Rightarrow> nat \<Rightarrow> runtime_db \<Rightarrow> unit rtres" where
  "stillCurrent leaseLost lease i gen db =
     res_bind (ensure (\<not> leaseLost) LeaseLost) (\<lambda>_.
     ensure (list_ex (reconciled_by lease i gen) (rd_targets db) \<and> active_project i db) Superseded)"

definition observe_target :: "int \<Rightarrow> string \<Rightarrow> string \<Rightarrow> nat \<Rightarrow> runtime_db \<Rightarrow> runtime_db rtres" where
  "observe_target now lease i gen db =
     (if count_rows (reconciled_by lease i gen) (rd_targets db) = 0 then Inl TargetChanged
      else Inr (set_targets (reconciled_by lease i gen)
        (\<lambda>t. t\<lparr>rt_attempts := 0, rt_lastError := None, rt_lastReconciledAt := Some now,
           rt_leaseExpiresAt := None, rt_leaseOwner := None, rt_observedGeneration := gen, rt_status := Ready\<rparr>) db))"

definition retry_target :: "string \<Rightarrow> string \<Rightarrow> string \<Rightarrow> nat \<Rightarrow> runtime_db \<Rightarrow> runtime_db" where
  "retry_target error lease i gen = set_targets (reconciled_by lease i gen)
     (\<lambda>t. t\<lparr>rt_lastError := Some error, rt_leaseExpiresAt := None, rt_leaseOwner := None, rt_status := RetryTarget\<rparr>)"

text \<open>The \<open>finally\<close> of a reconciliation and of a resource operation.\<close>

definition release_lease :: "string \<Rightarrow> string \<Rightarrow> runtime_db \<Rightarrow> runtime_db" where
  "release_lease lease i = set_targets (\<lambda>t. rt_projectId t = i \<and> rt_leaseOwner t = Some lease)
     (\<lambda>t. t\<lparr>rt_leaseOwner := None, rt_leaseExpiresAt := None\<rparr>)"

text \<open>The \<open>catch\<close> of the reconcile job in the worker.\<close>

definition reconcile_job_failed :: "bool \<Rightarrow> string \<Rightarrow> string \<Rightarrow> runtime_db \<Rightarrow> runtime_db" where
  "reconcile_job_failed final error i = set_targets
     (\<lambda>t. rt_projectId t = i \<and> rt_status t \<in> {PendingTarget, RetryTarget} \<and> rt_leaseOwner t = None)
     (\<lambda>t. t\<lparr>rt_status := (if final then FailedTarget else RetryTarget), rt_lastError := Some error\<rparr>)"

text \<open>
  A run of \<open>ensureProjectNamespace\<close> that nothing else interrupts; \<open>calls\<close> are the outcomes of the
  calls to the cluster, in their order.
\<close>

definition reconcile_calls :: "string rtres list \<Rightarrow> bool \<Rightarrow> string \<Rightarrow> string \<Rightarrow> nat \<Rightarrow> runtime_db \<Rightarrow> unit rtres" where
  "reconcile_calls calls lost lease i gen db =
     res_bind (stillCurrent lost lease i gen db) (\<lambda>_.
     fold_res (\<lambda>call _. res_bind call (\<lambda>_. stillCurrent lost lease i gen db)) calls ())"

definition ensureProjectNamespace ::
  "(string \<Rightarrow> string) \<Rightarrow> (runtime_error \<Rightarrow> string) \<Rightarrow> int \<Rightarrow> string \<Rightarrow> string \<Rightarrow> string \<Rightarrow> string rtres list \<Rightarrow>
   runtime_db \<Rightarrow> unit rtres \<times> runtime_db" where
  "ensureProjectNamespace namespace_of text_of now cluster lease i calls db =
     (case open_target namespace_of now cluster i db of
        (Inl e, db1) \<Rightarrow> (Inl e, db1)
      | (Inr gen, db1) \<Rightarrow>
          (case claim_target now lease i gen db1 of
             Inl e \<Rightarrow> (Inl e, release_lease lease i (retry_target (text_of e) lease i gen db1))
           | Inr db2 \<Rightarrow>
               (case reconcile_calls calls False lease i gen db2 of
                  Inl e \<Rightarrow> (Inl e, release_lease lease i (retry_target (text_of e) lease i gen db2))
                | Inr _ \<Rightarrow>
                    (case observe_target now lease i gen db2 of
                       Inl e \<Rightarrow> (Inl e, release_lease lease i (retry_target (text_of e) lease i gen db2))
                     | Inr db3 \<Rightarrow> (Inr (), release_lease lease i db3)))))"

definition needs_reconciling :: "bool \<Rightarrow> int \<Rightarrow> int \<Rightarrow> target option \<Rightarrow> bool" where
  "needs_reconciling enabled now interval target =
     (case target of None \<Rightarrow> True
      | Some t \<Rightarrow> rt_status t \<notin> {FailedTarget, Deleting}
          \<and> (rt_status t \<noteq> Reconciling \<or> opt_all (\<lambda>e. e \<le> now) (rt_leaseExpiresAt t))
          \<and> (rt_status t \<noteq> Ready \<or> (enabled \<and> opt_all (\<lambda>r. r \<le> now - interval) (rt_lastReconciledAt t))))"

definition reconciliationCandidateIds :: "bool \<Rightarrow> int \<Rightarrow> int \<Rightarrow> runtime_db \<Rightarrow> string list" where
  "reconciliationCandidateIds enabled now interval db =
     map pr_id (filter (\<lambda>p. pr_deletedAt p = None \<and> needs_reconciling enabled now interval (find_target (pr_id p) db))
       (rd_projects db))"

section \<open>The status of a target\<close>

definition schedule ::
  "(string \<Rightarrow> string) \<Rightarrow> int \<Rightarrow> string \<Rightarrow> bool \<Rightarrow> bool \<Rightarrow> string \<Rightarrow> runtime_db \<Rightarrow> runtime_db rtres" where
  "schedule namespace_of now cluster enabled reinitialize i db =
     res_bind (ensure (active_project i db) NotAvailable) (\<lambda>_.
     (let target = find_target i db in
     res_bind (ensure (opt_all (\<lambda>t. rt_status t \<noteq> Deleting) target) BeingDeleted) (\<lambda>_.
     res_bind (ensure (opt_all (\<lambda>t. rt_leaseOwner t = None \<or> opt_all (\<lambda>e. e \<le> now) (rt_leaseExpiresAt t)) target)
       StillRunning) (\<lambda>_.
     if \<not> reinitialize \<and> (case target of None \<Rightarrow> False | Some t \<Rightarrow> rt_status t \<in> {Ready, PendingTarget}) then Inr db
     else
       res_bind (ensure (\<not> reinitialize \<or> enabled) RuntimesDisabled) (\<lambda>_.
       res_bind (ensure (opt_all (\<lambda>t. rt_clusterId t = cluster \<and> rt_namespace t = namespace_of i) target)
         TargetMismatch) (\<lambda>_.
       Inr (db\<lparr>rd_targets := upsert_row rt_projectId (new_target now cluster (namespace_of i) i)
         (\<lambda>t. t\<lparr>rt_generation := rt_generation t + (if rt_status t = PendingTarget then 0 else 1),
            rt_status := PendingTarget, rt_attempts := 0, rt_lastError := None, rt_nextAttemptAt := now,
            rt_leaseOwner := None, rt_leaseExpiresAt := None\<rparr>) (rd_targets db)\<rparr>)))))))"

end
