(* ===== verification/Resource_Operations.thy ===== *)
theory Resource_Operations
  imports Runtime_Targets
begin

text \<open>
  The operations on registered agents and their instances: the request
  (\<open>projects/resource-operation-service.ts\<close>), the worker that carries one out
  (\<open>workers/resource-operation-task.ts\<close>), the search for a deletion that overtook a request
  (\<open>agent-garden/a2a-lifecycle-queries.ts\<close>) and the writes an operation may make
  (\<open>agent-garden/agent-garden-store.ts\<close>).
\<close>

section \<open>Deletions against creations\<close>

definition final_op :: "op_status \<Rightarrow> bool" where
  "final_op s \<longleftrightarrow> s \<in> {CompletedOp, FailedOp, CancelledOp}"

definition open_op :: "op_status \<Rightarrow> bool" where
  "open_op s \<longleftrightarrow> s \<in> {PendingOp, RunningOp, RetryOp}"

definition creates :: "op_action \<Rightarrow> bool" where
  "creates a \<longleftrightarrow> a \<in> {Onboard, Discover, Instantiate}"

definition removes :: "op_action \<Rightarrow> bool" where
  "removes a \<longleftrightarrow> a \<in> {Remove, RemoveInstance}"

definition created_agent :: "operation \<Rightarrow> string option" where
  "created_agent o1 = (if op_action o1 = Onboard then Some (op_id o1) else oi_id (op_input o1))"

definition hasA2aInstanceDeletedSinceOperation :: "string \<Rightarrow> string \<Rightarrow> string \<Rightarrow> runtime_db \<Rightarrow> bool" where
  "hasA2aInstanceDeletedSinceOperation pid oid agent db \<longleftrightarrow>
     list_ex (\<lambda>a. list_ex (\<lambda>o1. op_projectId o1 = ir_projectId a \<and> op_id o1 = oid \<and> ir_projectId a = pid
         \<and> ir_catalogAgentId a = Some agent \<and> ir_a2a a
         \<and> (case ir_deletedAt a of None \<Rightarrow> False | Some d \<Rightarrow> op_createdAt o1 \<le> d)) (rd_operations db)) (rd_instances db)"

definition find_agent :: "string \<Rightarrow> string \<Rightarrow> runtime_db \<Rightarrow> catalog_agent option" where
  "find_agent pid i db = find_unique (\<lambda>a. (ca_projectId a, ca_id a)) (pid, i) (rd_catalog db)"

definition a2aCreationWasDeleted :: "runtime_db \<Rightarrow> operation \<Rightarrow> bool" where
  "a2aCreationWasDeleted db o1 =
     (if \<not> creates (op_action o1) then False
      else (case created_agent o1 of None \<Rightarrow> False
        | Some agent \<Rightarrow>
            if (case find_agent (op_projectId o1) agent db of None \<Rightarrow> False | Some a \<Rightarrow> ca_deletedAt a \<noteq> None) then True
            else if op_action o1 \<noteq> Onboard \<and> oi_fenced (op_input o1) then False
            else hasA2aInstanceDeletedSinceOperation (op_projectId o1) (op_id o1) agent db))"

definition delete_instances :: "int \<Rightarrow> (instance_row \<Rightarrow> bool) \<Rightarrow> runtime_db \<Rightarrow> runtime_db" where
  "delete_instances now p db = db\<lparr>rd_instances := update_rows (\<lambda>r. ir_a2a r \<and> ir_deletedAt r = None \<and> p r)
     (\<lambda>r. r\<lparr>ir_deletedAt := Some now, ir_destroying := True\<rparr>) (rd_instances db)\<rparr>"

definition cancel_op :: "string option \<Rightarrow> operation \<Rightarrow> operation" where
  "cancel_op e o1 = o1\<lparr>op_status := CancelledOp,
     op_lastError := (case e of None \<Rightarrow> op_lastError o1 | Some m \<Rightarrow> Some m)\<rparr>"

lemma cancel_op_simps [simp]:
  "op_status (cancel_op e o1) = CancelledOp" "op_action (cancel_op e o1) = op_action o1"
  "op_id (cancel_op e o1) = op_id o1" "op_projectId (cancel_op e o1) = op_projectId o1"
  "op_input (cancel_op e o1) = op_input o1"
  by (simp_all add: cancel_op_def)

definition cancelled_by_deletion :: string where
  "cancelled_by_deletion = ''A2A creation cancelled by deletion.''"

definition cancel_creations :: "string \<Rightarrow> string option \<Rightarrow> bool \<Rightarrow> runtime_db \<Rightarrow> runtime_db" where
  "cancel_creations pid agent again db = db\<lparr>rd_operations := update_rows
     (\<lambda>o1. op_projectId o1 = pid \<and> creates (op_action o1) \<and> open_op (op_status o1)
        \<and> agent \<noteq> None \<and> created_agent o1 = agent \<and> (again \<longrightarrow> a2aCreationWasDeleted db o1))
     (cancel_op (Some cancelled_by_deletion))
     (rd_operations db)\<rparr>"

text \<open>
  \<open>prepareA2aDeletion\<close>: the tombstones of a deletion and the creations it cancels. A repeated
  deletion cancels only the creations the first one overtook.
\<close>

definition prepareA2aDeletion ::
  "int \<Rightarrow> string \<Rightarrow> op_action \<Rightarrow> op_input \<Rightarrow> runtime_db \<Rightarrow> (bool \<times> runtime_db) rtres" where
  "prepareA2aDeletion now pid action input db =
     (case oi_id input of None \<Rightarrow> Inr (False, db)
      | Some i \<Rightarrow>
          if action = Remove
          then (case find_agent pid i db of None \<Rightarrow> Inr (False, db)
            | Some a \<Rightarrow>
                res_bind (ensure (ca_registered a) BuiltInAgent) (\<lambda>_.
                if ca_deletedAt a \<noteq> None then Inr (True, cancel_creations pid (Some i) True db)
                else
                  (let db1 = db\<lparr>rd_catalog := update_rows (\<lambda>a. ca_projectId a = pid \<and> ca_id a = i)
                         (\<lambda>a. a\<lparr>ca_deletedAt := Some now\<rparr>) (rd_catalog db)\<rparr>;
                       db2 = delete_instances now (\<lambda>r. ir_projectId r = pid \<and> ir_catalogAgentId r = Some i) db1
                   in Inr (True, cancel_creations pid (Some i) False db2))))
          else (case find (\<lambda>r. ir_projectId r = pid \<and> ir_id r = i \<and> ir_a2a r) (rd_instances db) of
              None \<Rightarrow> Inr (False, db)
            | Some r \<Rightarrow>
                if ir_deletedAt r \<noteq> None then Inr (True, cancel_creations pid (ir_catalogAgentId r) True db)
                else Inr (True, cancel_creations pid (ir_catalogAgentId r) False
                  (delete_instances now (\<lambda>r. ir_projectId r = pid \<and> ir_id r = i) db))))"

section \<open>The request\<close>

definition enqueue ::
  "int \<Rightarrow> string \<Rightarrow> string \<Rightarrow> string \<Rightarrow> op_action \<Rightarrow> op_input \<Rightarrow> runtime_db \<Rightarrow> (bool \<times> runtime_db) rtres" where
  "enqueue now oid pid actor action input db =
     res_bind (ensure (active_project pid db) NotAvailable) (\<lambda>_.
     res_bind (if removes action then prepareA2aDeletion now pid action input db else Inr (False, db)) (\<lambda>(background, db1).
     (case insert_row op_id \<lparr>op_id = oid, op_projectId = pid, op_actorId = actor, op_action = action,
          op_input = (if action \<in> {Instantiate, Discover} then input\<lparr>oi_fenced := True\<rparr> else input),
          op_status = PendingOp, op_lastError = None, op_createdAt = now\<rparr> (rd_operations db1) of
        None \<Rightarrow> Inl Waiting
      | Some ops \<Rightarrow> Inr (background, db1\<lparr>rd_operations := ops\<rparr>))))"

definition get_operation :: "string \<Rightarrow> string \<Rightarrow> string \<Rightarrow> bool \<Rightarrow> runtime_db \<Rightarrow> operation rtres" where
  "get_operation pid oid actor administrator db =
     of_option NotAvailable (find (\<lambda>o1. op_id o1 = oid \<and> op_projectId o1 = pid \<and> (administrator \<or> op_actorId o1 = actor))
       (rd_operations db))"

section \<open>The worker\<close>

definition find_operation :: "string \<Rightarrow> string \<Rightarrow> runtime_db \<Rightarrow> operation option" where
  "find_operation pid oid db = find (\<lambda>o1. op_id o1 = oid \<and> op_projectId o1 = pid) (rd_operations db)"

definition set_op :: "string \<Rightarrow> (op_status \<Rightarrow> bool) \<Rightarrow> (operation \<Rightarrow> operation) \<Rightarrow> runtime_db \<Rightarrow> runtime_db" where
  "set_op oid p f db = db\<lparr>rd_operations := update_rows (\<lambda>o1. op_id o1 = oid \<and> p (op_status o1)) f (rd_operations db)\<rparr>"

definition claimable_by :: "int \<Rightarrow> string \<Rightarrow> op_action \<Rightarrow> target \<Rightarrow> bool" where
  "claimable_by now pid action t \<longleftrightarrow> rt_projectId t = pid \<and> (removes action \<or> rt_status t = Ready)
     \<and> (rt_leaseOwner t = None \<or> (case rt_leaseExpiresAt t of None \<Rightarrow> False | Some e \<Rightarrow> e \<le> now))"

text \<open>The transaction that takes an operation on; \<open>False\<close> when there is nothing left to do.\<close>

definition acquire :: "int \<Rightarrow> string \<Rightarrow> string \<Rightarrow> string \<Rightarrow> runtime_db \<Rightarrow> (bool \<times> runtime_db) rtres" where
  "acquire now lease pid oid db =
     (case find_operation pid oid db of None \<Rightarrow> Inr (False, db)
      | Some o1 \<Rightarrow>
          if final_op (op_status o1) then Inr (False, db)
          else if \<not> active_project pid db then
            Inr (False, set_op oid (\<lambda>_. True) (cancel_op None) db)
          else if a2aCreationWasDeleted db o1 then
            Inr (False, set_op oid (\<lambda>_. True) (cancel_op (Some cancelled_by_deletion)) db)
          else
            res_bind (if removes (op_action o1) then prepareA2aDeletion now pid (op_action o1) (op_input o1) db
                else Inr (False, db)) (\<lambda>(_, db1).
            res_bind (ensure (count_rows (claimable_by now pid (op_action o1)) (rd_targets db1) \<noteq> 0) Waiting) (\<lambda>_.
            Inr (True, set_op oid (\<lambda>_. True) (\<lambda>o1. o1\<lparr>op_status := RunningOp, op_lastError := None\<rparr>)
              (set_targets (claimable_by now pid (op_action o1))
                (\<lambda>t. t\<lparr>rt_leaseOwner := Some lease, rt_leaseExpiresAt := Some (now + lease_ms)\<rparr>) db1)))))"

definition acquire_failed :: "bool \<Rightarrow> string \<Rightarrow> string \<Rightarrow> runtime_db \<Rightarrow> runtime_db" where
  "acquire_failed final error oid = set_op oid (\<lambda>s. s \<in> {PendingOp, RetryOp})
     (\<lambda>o1. o1\<lparr>op_status := (if final then FailedOp else RetryOp), op_lastError := Some error\<rparr>)"

definition holds_lease :: "string \<Rightarrow> string \<Rightarrow> runtime_db \<Rightarrow> bool" where
  "holds_lease lease pid db \<longleftrightarrow> (case find_target pid db of None \<Rightarrow> False | Some t \<Rightarrow> rt_leaseOwner t = Some lease)"

definition complete_operation :: "bool \<Rightarrow> string \<Rightarrow> string \<Rightarrow> string \<Rightarrow> runtime_db \<Rightarrow> runtime_db rtres" where
  "complete_operation leaseLost lease pid oid db =
     res_bind (ensure (\<not> leaseLost \<and> holds_lease lease pid db) LeaseLost) (\<lambda>_.
     Inr (set_op oid (\<lambda>s. s = RunningOp)
       (\<lambda>o1. o1\<lparr>op_status := (if active_project pid db then CompletedOp else CancelledOp)\<rparr>) db))"

text \<open>The \<open>catch\<close> of the worker: whether it throws on, and the tables.\<close>

definition fail_operation :: "bool \<Rightarrow> string \<Rightarrow> string \<Rightarrow> string \<Rightarrow> string \<Rightarrow> runtime_db \<Rightarrow> bool \<times> runtime_db" where
  "fail_operation final error lease pid oid db =
     (if (case find_operation pid oid db of None \<Rightarrow> False | Some o1 \<Rightarrow> op_status o1 = CancelledOp) then (False, db)
      else if \<not> holds_lease lease pid db then (True, db)
      else (True, set_op oid (\<lambda>s. s = RunningOp)
        (\<lambda>o1. o1\<lparr>op_status := (if final then FailedOp else RetryOp), op_lastError := Some error\<rparr>) db))"

section \<open>What an operation writes\<close>

definition assertOperationActive :: "string \<Rightarrow> string \<Rightarrow> runtime_db \<Rightarrow> unit rtres" where
  "assertOperationActive pid oid db =
     ensure (case find_operation pid oid db of None \<Rightarrow> False | Some o1 \<Rightarrow> open_op (op_status o1)) OperationInactive"

definition find_a2a_instance :: "string \<Rightarrow> string \<Rightarrow> runtime_db \<Rightarrow> instance_row option" where
  "find_a2a_instance pid i db = find_unique (\<lambda>r. (ir_projectId r, ir_id r)) (pid, i) (rd_instances db)"

definition assertManagedInstanceActive :: "string \<Rightarrow> string \<Rightarrow> string option \<Rightarrow> runtime_db \<Rightarrow> unit rtres" where
  "assertManagedInstanceActive pid i oid db =
     res_bind (case oid of None \<Rightarrow> Inr () | Some oid \<Rightarrow> assertOperationActive pid oid db) (\<lambda>_.
     ensure (opt_all (\<lambda>r. ir_deletedAt r = None) (find_a2a_instance pid i db)) CancelledByDeletion)"

text \<open>
  The entry of an agent, of whose payload only the source is kept. A deleted row cannot be written:
  the update does not find it and the insertion meets its key.
\<close>

definition persistAgent :: "string \<Rightarrow> string \<Rightarrow> bool \<Rightarrow> string option \<Rightarrow> runtime_db \<Rightarrow> runtime_db rtres" where
  "persistAgent pid i registered owner db =
     (case find_agent pid i db of
        Some a \<Rightarrow> if ca_deletedAt a = None
          then Inr (db\<lparr>rd_catalog := update_rows (\<lambda>a. ca_projectId a = pid \<and> ca_id a = i)
            (\<lambda>a. a\<lparr>ca_registered := registered\<rparr>) (rd_catalog db)\<rparr>)
          else if owner = None \<and> registered then Inl NeedsOwner else Inl CancelledByDeletion
      | None \<Rightarrow> if owner = None \<and> registered then Inl NeedsOwner
          else Inr (db\<lparr>rd_catalog := rd_catalog db @ [\<lparr>ca_projectId = pid, ca_id = i, ca_registered = registered,
            ca_deletedAt = None\<rparr>]\<rparr>))"

definition saveAgent :: "string \<Rightarrow> string \<Rightarrow> bool \<Rightarrow> string option \<Rightarrow> string option \<Rightarrow> runtime_db \<Rightarrow> runtime_db rtres" where
  "saveAgent pid i registered owner oid db =
     res_bind (case oid of None \<Rightarrow> Inr () | Some oid \<Rightarrow> assertOperationActive pid oid db) (\<lambda>_.
     persistAgent pid i registered owner db)"

definition persistManagedInstance ::
  "string \<Rightarrow> string \<Rightarrow> string \<Rightarrow> string option \<Rightarrow> bool \<Rightarrow> runtime_db \<Rightarrow> runtime_db rtres" where
  "persistManagedInstance pid i agent owner destroying db =
     (case owner of
        None \<Rightarrow>
          (let live = (\<lambda>r. ir_projectId r = pid \<and> ir_id r = i \<and> ir_a2a r \<and> ir_deletedAt r = None) in
           if count_rows live (rd_instances db) = 0 then Inl NeedsOwner
           else Inr (db\<lparr>rd_instances := update_rows live (\<lambda>r. r\<lparr>ir_destroying := destroying\<rparr>) (rd_instances db)\<rparr>))
      | Some _ \<Rightarrow>
          (case find_a2a_instance pid i db of
             Some r \<Rightarrow>
               if ir_deletedAt r \<noteq> None then Inl CancelledByDeletion
               else if \<not> ir_a2a r then Inl NotAvailable
               else Inr (db\<lparr>rd_instances := update_rows (\<lambda>r. ir_projectId r = pid \<and> ir_id r = i)
                 (\<lambda>r. r\<lparr>ir_catalogAgentId := Some agent, ir_destroying := destroying\<rparr>) (rd_instances db)\<rparr>)
           | None \<Rightarrow> Inr (db\<lparr>rd_instances := rd_instances db @ [\<lparr>ir_projectId = pid, ir_id = i, ir_a2a = True,
               ir_catalogAgentId = Some agent, ir_deletedAt = None, ir_destroying = destroying\<rparr>]\<rparr>)))"

definition saveManagedInstance ::
  "string \<Rightarrow> string \<Rightarrow> string \<Rightarrow> string option \<Rightarrow> bool \<Rightarrow> string option \<Rightarrow> runtime_db \<Rightarrow> runtime_db rtres" where
  "saveManagedInstance pid i agent owner destroying oid db =
     res_bind (case oid of None \<Rightarrow> Inr () | Some _ \<Rightarrow> assertManagedInstanceActive pid i oid db) (\<lambda>_.
     persistManagedInstance pid i agent owner destroying db)"

definition deleteAgent :: "int \<Rightarrow> string \<Rightarrow> string \<Rightarrow> runtime_db \<Rightarrow> bool \<times> runtime_db" where
  "deleteAgent now pid i db =
     (let live = (\<lambda>a. ca_projectId a = pid \<and> ca_id a = i \<and> ca_deletedAt a = None) in
      (count_rows live (rd_catalog db) > 0,
       db\<lparr>rd_catalog := update_rows live (\<lambda>a. a\<lparr>ca_deletedAt := Some now\<rparr>) (rd_catalog db)\<rparr>))"

definition completeManagedInstanceDeletion :: "int \<Rightarrow> string \<Rightarrow> string \<Rightarrow> runtime_db \<Rightarrow> runtime_db" where
  "completeManagedInstanceDeletion now pid i db =
     (let mine = (\<lambda>r. ir_projectId r = pid \<and> ir_id r = i \<and> ir_a2a r);
          db1 = db\<lparr>rd_instances := update_rows (\<lambda>r. mine r \<and> ir_deletedAt r = None)
            (\<lambda>r. r\<lparr>ir_deletedAt := Some now\<rparr>) (rd_instances db)\<rparr>
      in db1\<lparr>rd_instances := update_rows mine (\<lambda>r. r\<lparr>ir_destroying := True\<rparr>) (rd_instances db1)\<rparr>)"

end
