(* ===== verification/Project_Deletion.thy ===== *)
theory Project_Deletion
  imports Resource_Operations Agent_Platforms Http_Responses
begin

text \<open>
  The deletion of a Project: the request (\<open>ProjectService.delete\<close>), the job with its task row
  (\<open>workers/control-worker-tasks.ts\<close>) and the purge of what the Project has outside the database
  (\<open>projects/project-deletion-service.ts\<close>). The outcome of each outside call is an argument.
\<close>

section \<open>The request\<close>

definition grace_period_ms :: int where
  "grace_period_ms = 10 * 60 * 1000"

definition set_tasks :: "(deletion_task \<Rightarrow> bool) \<Rightarrow> (deletion_task \<Rightarrow> deletion_task) \<Rightarrow> runtime_db \<Rightarrow> runtime_db" where
  "set_tasks p f db = db\<lparr>rd_tasks := update_rows p f (rd_tasks db)\<rparr>"

definition request_deletion :: "int \<Rightarrow> string \<Rightarrow> string option \<Rightarrow> string \<Rightarrow> runtime_db \<Rightarrow> runtime_db rtres" where
  "request_deletion now actor job pid db =
     res_bind (ensure (find_project pid db \<noteq> None) NotAvailable) (\<lambda>_.
     res_bind (of_option BeingDeleted (insert_row dt_projectId \<lparr>dt_projectId = pid, dt_queueJobId = None,
       dt_status = Scheduled, dt_scheduledFor = now + grace_period_ms, dt_nextAttemptAt = now + grace_period_ms,
       dt_leaseOwner = None, dt_leaseExpiresAt = None, dt_attempts = 0, dt_lastError = None\<rparr> (rd_tasks db))) (\<lambda>tasks.
     Inr (set_tasks (\<lambda>t. dt_projectId t = pid) (\<lambda>t. t\<lparr>dt_queueJobId := job\<rparr>)
       (set_targets (\<lambda>t. rt_projectId t = pid)
         (\<lambda>t. t\<lparr>rt_status := Deleting, rt_generation := rt_generation t + 1\<rparr>)
         (db\<lparr>rd_projects := update_rows (\<lambda>p. pr_id p = pid)
              (\<lambda>p. p\<lparr>pr_deletedAt := Some now, pr_deletedBy := Some actor\<rparr>) (rd_projects db),
            rd_tasks := tasks\<rparr>)))))"

section \<open>The task\<close>

definition find_task :: "string \<Rightarrow> runtime_db \<Rightarrow> deletion_task option" where
  "find_task pid db = find_unique dt_projectId pid (rd_tasks db)"

text \<open>The job takes the task on, unless there is none or it is completed.\<close>

definition begin_deletion :: "nat \<Rightarrow> string \<Rightarrow> string \<Rightarrow> runtime_db \<Rightarrow> bool \<times> runtime_db" where
  "begin_deletion attempt job pid db =
     (case find_task pid db of None \<Rightarrow> (False, db)
      | Some t \<Rightarrow> if dt_status t = CompletedTask then (False, db)
          else (True, set_tasks (\<lambda>t. dt_projectId t = pid) (\<lambda>t. t\<lparr>dt_attempts := attempt, dt_lastError := None,
            dt_leaseExpiresAt := None, dt_leaseOwner := None, dt_queueJobId := Some job, dt_status := RunningTask\<rparr>) db))"

definition fail_deletion :: "bool \<Rightarrow> string \<Rightarrow> string \<Rightarrow> runtime_db \<Rightarrow> runtime_db" where
  "fail_deletion final error pid = set_tasks (\<lambda>t. dt_projectId t = pid \<and> dt_status t = RunningTask)
     (\<lambda>t. t\<lparr>dt_lastError := Some error, dt_leaseExpiresAt := None, dt_leaseOwner := None,
        dt_status := (if final then FailedTask else RetryTask)\<rparr>)"

definition detached :: "int \<Rightarrow> deletion_task \<Rightarrow> bool" where
  "detached now t \<longleftrightarrow> dt_queueJobId t = None \<and> dt_status t \<notin> {CompletedTask, FailedTask}
     \<and> \<not> (dt_status t = RunningTask \<and> dt_leaseExpiresAt t \<noteq> None \<and> opt_all (\<lambda>e. now < e) (dt_leaseExpiresAt t))"

text \<open>One pass of \<open>attachHistoricalDeletionJobs\<close>; \<open>queue\<close> gives the identifier of the new job.\<close>

definition attach_job :: "(string \<Rightarrow> string option) \<Rightarrow> int \<Rightarrow> string \<Rightarrow> runtime_db \<times> nat \<Rightarrow> runtime_db \<times> nat" where
  "attach_job queue now pid = (\<lambda>(db, n).
     (case find_task pid db of None \<Rightarrow> (db, n)
      | Some t \<Rightarrow> if \<not> detached now t then (db, n)
          else (set_tasks (\<lambda>t. dt_projectId t = pid) (\<lambda>t. t\<lparr>dt_leaseExpiresAt := None, dt_leaseOwner := None,
            dt_queueJobId := queue pid, dt_status := (if dt_status t = RunningTask then RetryTask else dt_status t)\<rparr>) db,
            n + 1)))"

definition attachHistoricalDeletionJobs :: "(string \<Rightarrow> string option) \<Rightarrow> int \<Rightarrow> runtime_db \<Rightarrow> runtime_db \<times> nat" where
  "attachHistoricalDeletionJobs queue now db =
     fold (attach_job queue now) (map dt_projectId (filter (detached now) (rd_tasks db))) (db, 0)"

section \<open>What a Project has outside the database\<close>

record stored_agent =
  sa_id :: "string option"
  sa_name :: "string option"
  sa_sandboxName :: "string option"
  sa_agentPlatform :: "string option"
  sa_liteLLMTokenId :: "string option"

record resources =
  pg_agents :: "stored_agent list"
  pg_memories :: "string list"
  pg_routings :: "(string \<times> string option \<times> string option) list"
  pg_deployments :: "string option list"
  pg_mcpServers :: "string list"
  pg_knowledge :: "string option list"
  pg_team :: "string option"

datatype remote_call =
    DestroySandbox string string "string option"
  | DeleteMemory string
  | RevokeKey string
  | DeleteRoutingRoute string string
  | DeleteRoutingTeam string
  | DeleteModel string
  | DeleteMcpServer string
  | DeleteVectorStore string
  | DeleteProjectTeam string
  | DeleteGateway string
  | DeleteNamespace string string

text \<open>The methods of the gateway's client that may be missing.\<close>

record client =
  has_routingRoute :: bool
  has_routingTeam :: bool
  has_mcpServer :: bool
  has_vectorStore :: bool
  has_projectTeam :: bool

definition deletionAgent :: "string option \<Rightarrow> stored_agent \<Rightarrow> (remote_call \<times> remote_call list) rtres" where
  "deletionAgent namespace a =
     (case (sa_id a, sa_name a, sa_sandboxName a, sa_agentPlatform a) of
        (Some _, Some _, Some sandbox, Some platform) \<Rightarrow>
          if isAgentPlatformId platform
          then Inr (DestroySandbox sandbox platform namespace,
            case sa_liteLLMTokenId a of Some (c # cs) \<Rightarrow> [RevokeKey (c # cs)] | _ \<Rightarrow> [])
          else Inl NotAvailable
      | _ \<Rightarrow> Inl NotAvailable)"

text \<open>\<open>optionalString\<close>: an empty text is none.\<close>

definition given_text :: "string option \<Rightarrow> string list" where
  "given_text x = (case x of Some (c # cs) \<Rightarrow> [c # cs] | _ \<Rightarrow> [])"

definition when_has :: "bool \<Rightarrow> 'a list \<Rightarrow> 'a list" where
  "when_has b xs = (if b then xs else [])"

text \<open>The expression \<open>/not found|does not exist|unknown (?:key|team|model)/i\<close> in a message.\<close>

definition already_absent :: "string option \<Rightarrow> bool" where
  "already_absent e = (case e of None \<Rightarrow> False | Some m \<Rightarrow>
     list_ex (mentions m)
       [''not found'', ''does not exist'', ''unknown key'', ''unknown team'', ''unknown model''])"

text \<open>
  The batches of calls in their order; within a batch they run side by side. An error that says
  the resource is gone already counts as success, except for memories and the Namespace.
\<close>

definition external_batches :: "client \<Rightarrow> resources \<Rightarrow> remote_call list \<Rightarrow> remote_call list list" where
  "external_batches c r keys =
     [keys,
      concat (map (\<lambda>(i, alias, team). map (\<lambda>a. DeleteRoutingRoute a i) (when_has (has_routingRoute c) (given_text alias))
        @ map DeleteRoutingTeam (when_has (has_routingTeam c) (given_text team))) (pg_routings r)),
      map DeleteModel (concat (map given_text (pg_deployments r))),
      when_has (has_mcpServer c) (map DeleteMcpServer (pg_mcpServers r)),
      when_has (has_vectorStore c) (map DeleteVectorStore (concat (map given_text (pg_knowledge r)))),
      when_has (has_projectTeam c) (map DeleteProjectTeam (given_text (pg_team r)))]"

definition tolerant :: "remote_call \<Rightarrow> bool" where
  "tolerant c = (case c of DeleteMemory _ \<Rightarrow> False | DeleteGateway _ \<Rightarrow> False | DeleteNamespace _ _ \<Rightarrow> False | _ \<Rightarrow> True)"

definition done_by :: "(remote_call \<Rightarrow> string option + unit) \<Rightarrow> remote_call \<Rightarrow> bool" where
  "done_by remote c = (case remote c of Inr _ \<Rightarrow> True | Inl e \<Rightarrow> tolerant c \<and> already_absent e)"

text \<open>Runs batch after batch up to the first that fails; the calls made come with the outcome.\<close>

fun run_batches :: "(remote_call \<Rightarrow> string option + unit) \<Rightarrow> remote_call list list \<Rightarrow> unit rtres \<times> remote_call list" where
  "run_batches remote [] = (Inr (), [])"
| "run_batches remote (b # bs) =
     (case find (\<lambda>c. \<not> done_by remote c) b of
        Some c \<Rightarrow> (Inl (Remote (case remote c of Inl e \<Rightarrow> e | Inr _ \<Rightarrow> None)), b)
      | None \<Rightarrow> (case run_batches remote bs of (r, calls) \<Rightarrow> (r, b @ calls)))"

section \<open>The purge\<close>

definition lease_active :: "int \<Rightarrow> target option \<Rightarrow> bool" where
  "lease_active now target \<longleftrightarrow> (case target of None \<Rightarrow> False
     | Some t \<Rightarrow> rt_leaseOwner t \<noteq> None \<and> (case rt_leaseExpiresAt t of None \<Rightarrow> False | Some e \<Rightarrow> now < e))"

definition deleteProjectNamespace ::
  "(remote_call \<Rightarrow> string option + unit) \<Rightarrow> (string option \<Rightarrow> string) \<Rightarrow> bool \<Rightarrow> string \<Rightarrow> int \<Rightarrow> string \<Rightarrow> runtime_db \<Rightarrow>
   (bool rtres \<times> runtime_db) \<times> remote_call list" where
  "deleteProjectNamespace remote text_of enabled cluster now pid db =
     (if \<not> enabled then ((Inr False, db), [])
      else (case find_target pid db of None \<Rightarrow> ((Inr False, db), [])
        | Some t \<Rightarrow>
            if lease_active now (Some t) then ((Inl Waiting, db), [])
            else if rt_clusterId t \<noteq> cluster then ((Inl WrongCluster, db), [])
            else
              (let db1 = set_targets (\<lambda>t. rt_projectId t = pid) (\<lambda>t. t\<lparr>rt_lastError := None, rt_status := Deleting\<rparr>) db;
                   (r, calls) = run_batches remote [[DeleteGateway (rt_namespace t)], [DeleteNamespace (rt_namespace t) pid]]
               in case r of
                    Inr _ \<Rightarrow> ((Inr True, db1), calls)
                  | Inl e \<Rightarrow> ((Inl e, set_targets (\<lambda>t. rt_projectId t = pid)
                      (\<lambda>t. t\<lparr>rt_lastError := Some (case e of Remote m \<Rightarrow> text_of m | _ \<Rightarrow> [])\<rparr>) db1), calls))))"

definition marked_tables :: "string list" where
  "marked_tables = [''providerAccountRecord'', ''modelDeploymentRecord'', ''modelRoutingRecord'', ''sandboxPolicyRecord'',
     ''accessPolicyRecord'', ''skillRecord'', ''mcpServerRecord'', ''knowledgeSourceRecord'', ''agentSpecializationRecord'']"

definition finish_deletion :: "int \<Rightarrow> string \<Rightarrow> runtime_db \<Rightarrow> runtime_db" where
  "finish_deletion deletedAt pid db =
     set_tasks (\<lambda>t. dt_projectId t = pid \<and> dt_status t = RunningTask)
       (\<lambda>t. t\<lparr>dt_lastError := None, dt_leaseExpiresAt := None, dt_leaseOwner := None, dt_status := CompletedTask\<rparr>)
       (db\<lparr>rd_instances := update_rows (\<lambda>r. ir_projectId r = pid \<and> ir_deletedAt r = None)
            (\<lambda>r. r\<lparr>ir_deletedAt := Some deletedAt\<rparr>) (rd_instances db),
          rd_catalog := update_rows (\<lambda>a. ca_projectId a = pid \<and> ca_deletedAt a = None)
            (\<lambda>a. a\<lparr>ca_deletedAt := Some deletedAt\<rparr>) (rd_catalog db),
          rd_records := update_rows (\<lambda>r. br_table r \<in> set marked_tables \<and> br_projectId r = pid \<and> br_deletedAt r = None)
            (\<lambda>r. r\<lparr>br_deletedAt := Some deletedAt\<rparr>) (rd_records db)\<rparr>)"

definition purge_batches :: "bool \<Rightarrow> client \<Rightarrow> resources \<Rightarrow> string option \<Rightarrow> remote_call list list rtres" where
  "purge_batches external c r namespace =
     res_bind (fold_res (\<lambda>a (ds, ks). res_bind (deletionAgent namespace a) (\<lambda>(d, k). Inr (ds @ [d], ks @ k)))
       (pg_agents r) ([], [])) (\<lambda>(destroy, keys).
     Inr ([destroy] @ map (\<lambda>m. [DeleteMemory m]) (pg_memories r)
       @ (if external then external_batches c r keys else [])))"

definition purge ::
  "(remote_call \<Rightarrow> string option + unit) \<Rightarrow> (string option \<Rightarrow> string) \<Rightarrow> bool \<Rightarrow> bool \<Rightarrow> string \<Rightarrow> client \<Rightarrow> resources \<Rightarrow>
   int \<Rightarrow> string \<Rightarrow> runtime_db \<Rightarrow> (bool rtres \<times> runtime_db) \<times> remote_call list" where
  "purge remote text_of external enabled cluster c r now pid db =
     (case find_project pid db of None \<Rightarrow> ((Inr False, db), [])
      | Some p \<Rightarrow>
          (case pr_deletedAt p of None \<Rightarrow> ((Inl NotDeleted, db), [])
           | Some deletedAt \<Rightarrow>
               if lease_active now (find_target pid db) then ((Inl Waiting, db), [])
               else
                 (case purge_batches external c r (map_option rt_namespace (find_target pid db)) of
                    Inl e \<Rightarrow> ((Inl e, db), [])
                  | Inr batches \<Rightarrow>
                      (case run_batches remote batches of
                         (Inl e, calls) \<Rightarrow> ((Inl e, db), calls)
                       | (Inr _, calls) \<Rightarrow>
                           (case deleteProjectNamespace remote text_of enabled cluster now pid db of
                              ((Inl e, db1), rest) \<Rightarrow> ((Inl e, db1), calls @ rest)
                            | ((Inr _, db1), rest) \<Rightarrow>
                                ((Inr True, finish_deletion deletedAt pid db1), calls @ rest))))))"

text \<open>The job of the worker, run from beginning to end.\<close>

definition projectDeletion ::
  "(remote_call \<Rightarrow> string option + unit) \<Rightarrow> (string option \<Rightarrow> string) \<Rightarrow> (runtime_error \<Rightarrow> string) \<Rightarrow> bool \<Rightarrow> bool \<Rightarrow>
   string \<Rightarrow> client \<Rightarrow> resources \<Rightarrow> int \<Rightarrow> nat \<Rightarrow> nat \<Rightarrow> string \<Rightarrow> string \<Rightarrow> runtime_db \<Rightarrow> unit rtres \<times> runtime_db" where
  "projectDeletion remote text_of error_text external enabled cluster c r now retryCount retryLimit job pid db =
     (case begin_deletion (retryCount + 1) job pid db of
        (False, db1) \<Rightarrow> (Inr (), db1)
      | (True, db1) \<Rightarrow>
          (case fst (purge remote text_of external enabled cluster c r now pid db1) of
             (Inr _, db2) \<Rightarrow> (Inr (), db2)
           | (Inl e, db2) \<Rightarrow> (Inl e, fail_deletion (retryLimit \<le> retryCount) (error_text e) pid db2)))"

end
