(* ===== verification/Runtime_Lifecycle.thy ===== *)
theory Runtime_Lifecycle
  imports Project_Deletion Transition_Systems
begin

text \<open>
  The workers of Control against the tables of a Project's runtime, one statement or transaction
  at a time and in any order. What holds in every reachable state: a Project that is being
  deleted never gets its runtime back, a runtime is ready only for the generation that was
  observed, no creation runs for a deleted agent, and the outcome of an operation is final.
\<close>

section \<open>Steps\<close>

text \<open>
  A lease, its generation and the operation a worker holds are arguments of the steps: every
  guard of the code is on the row, so a step of a worker that never held the lease is harmless.
\<close>

inductive runtime_step :: "runtime_db \<Rightarrow> runtime_db \<Rightarrow> bool" where
  create_step: "find_project pid db = None \<Longrightarrow> find_target pid db = None \<Longrightarrow>
    runtime_step db (db\<lparr>rd_projects := rd_projects db @ [\<lparr>pr_id = pid, pr_deletedAt = None, pr_deletedBy = None\<rparr>],
      rd_targets := rd_targets db @ [new_target now cluster pid pid]\<rparr>)"
| open_step: "runtime_step db (snd (open_target namespace_of now cluster pid db))"
| claim_step: "claim_target now lease pid gen db = Inr db' \<Longrightarrow> runtime_step db db'"
| heartbeat_step: "runtime_step db (fst (heartbeat now lease pid db))"
| observe_step: "observe_target now lease pid gen db = Inr db' \<Longrightarrow> runtime_step db db'"
| retry_step: "runtime_step db (retry_target error lease pid gen db)"
| release_step: "runtime_step db (release_lease lease pid db)"
| job_failed_step: "runtime_step db (reconcile_job_failed final error pid db)"
| schedule_step: "schedule namespace_of now cluster enabled reinitialize pid db = Inr db' \<Longrightarrow> runtime_step db db'"
| enqueue_step: "enqueue now oid pid actor action input db = Inr (background, db') \<Longrightarrow> runtime_step db db'"
| acquire_step: "acquire now lease pid oid db = Inr (acquired, db') \<Longrightarrow> runtime_step db db'"
| acquire_failed_step: "runtime_step db (acquire_failed final error oid db)"
| complete_step: "complete_operation lost lease pid oid db = Inr db' \<Longrightarrow> runtime_step db db'"
| fail_step: "runtime_step db (snd (fail_operation final error lease pid oid db))"
| save_agent_step: "saveAgent pid i registered owner oid db = Inr db' \<Longrightarrow> runtime_step db db'"
| save_instance_step: "saveManagedInstance pid i agent owner destroying oid db = Inr db' \<Longrightarrow> runtime_step db db'"
| instance_gone_step: "runtime_step db (completeManagedInstanceDeletion now pid i db)"
| delete_step: "request_deletion now actor job pid db = Inr db' \<Longrightarrow> runtime_step db db'"
| begin_step: "runtime_step db (snd (begin_deletion attempt job pid db))"
| fail_deletion_step: "runtime_step db (fail_deletion final error pid db)"
| attach_step: "runtime_step db (fst (attach_job queue now pid (db, n)))"
| namespace_step: "find_project pid db = Some p \<Longrightarrow> pr_deletedAt p \<noteq> None \<Longrightarrow>
    runtime_step db (snd (fst (deleteProjectNamespace remote text_of enabled cluster now pid db)))"
| finish_step: "find_project pid db = Some p \<Longrightarrow> pr_deletedAt p = Some d \<Longrightarrow>
    runtime_step db (finish_deletion d pid db)"

definition runtime_init :: "runtime_db \<Rightarrow> bool" where
  "runtime_init db \<longleftrightarrow> db = \<lparr>rd_projects = [], rd_targets = [], rd_tasks = [], rd_operations = [],
     rd_catalog = [], rd_instances = [],
     rd_records = []\<rparr>"

interpretation runtime: transition_system runtime_init runtime_step .

section \<open>The projects and their targets\<close>

text \<open>
  One target per Project, known to it; the target of a deleted Project is being deleted; a ready
  target has been observed at its generation; a leased one, when its Project is not deleted, is
  no newer than it says.
\<close>

definition known :: "string \<Rightarrow> runtime_db \<Rightarrow> bool" where
  "known i db \<longleftrightarrow> find_project i db \<noteq> None"

definition gone :: "string \<Rightarrow> runtime_db \<Rightarrow> bool" where
  "gone i db \<longleftrightarrow> (case find_project i db of None \<Rightarrow> False | Some p \<Rightarrow> pr_deletedAt p \<noteq> None)"

lemma active_project_iff: "active_project i db \<longleftrightarrow> known i db \<and> \<not> gone i db"
  by (simp add: active_project_def known_def gone_def split: option.split)

lemma projects_same:
  assumes "rd_projects db' = rd_projects db"
  shows "known i db' = known i db" "gone i db' = gone i db"
  using assms by (simp_all add: known_def gone_def find_project_def)

definition target_ok :: "runtime_db \<Rightarrow> target \<Rightarrow> bool" where
  "target_ok db t \<longleftrightarrow> (rt_status t = Ready \<longrightarrow> rt_observedGeneration t = rt_generation t)
     \<and> rt_observedGeneration t \<le> rt_generation t
     \<and> known (rt_projectId t) db \<and> (gone (rt_projectId t) db \<longrightarrow> rt_status t = Deleting)"

definition targets_inv :: "runtime_db \<Rightarrow> bool" where
  "targets_inv db \<longleftrightarrow> distinct (map rt_projectId (rd_targets db)) \<and> distinct (map pr_id (rd_projects db))
     \<and> (\<forall>t\<in>set (rd_targets db). target_ok db t)"

lemma targets_inv_update:
  assumes inv: "targets_inv db" and same: "rd_projects db' = rd_projects db" "rd_targets db' = update_rows p f (rd_targets db)"
    and key: "\<And>t. rt_projectId (f t) = rt_projectId t"
    and ok: "\<And>t. t \<in> set (rd_targets db) \<Longrightarrow> p t \<Longrightarrow> target_ok db t \<Longrightarrow> target_ok db (f t)"
  shows "targets_inv db'"
proof -
  have "target_ok db' t = target_ok db t" for t
    by (simp add: target_ok_def projects_same [OF same(1)])
  then show ?thesis
    using inv key ok by (auto simp: targets_inv_def same map_key_update set_update_rows)
qed

lemma targets_inv_same:
  assumes "targets_inv db" and "rd_projects db' = rd_projects db" and "rd_targets db' = rd_targets db"
  shows "targets_inv db'"
  using assms(1) by (simp add: targets_inv_def target_ok_def assms(2,3) projects_same [OF assms(2)])

text \<open>The operations that leave the Projects and the targets as they are.\<close>

lemma set_op_frame [simp]:
  "rd_projects (set_op oid p f db) = rd_projects db" "rd_targets (set_op oid p f db) = rd_targets db"
  "rd_catalog (set_op oid p f db) = rd_catalog db"
  by (simp_all add: set_op_def)

lemma set_targets_frame [simp]:
  "rd_projects (set_targets p f db) = rd_projects db" "rd_operations (set_targets p f db) = rd_operations db"
  "rd_catalog (set_targets p f db) = rd_catalog db" "rd_tasks (set_targets p f db) = rd_tasks db"
  "rd_targets (set_targets p f db) = update_rows p f (rd_targets db)"
  by (simp_all add: set_targets_def)

lemma set_tasks_frame [simp]:
  "rd_projects (set_tasks p f db) = rd_projects db" "rd_operations (set_tasks p f db) = rd_operations db"
  "rd_catalog (set_tasks p f db) = rd_catalog db" "rd_targets (set_tasks p f db) = rd_targets db"
  by (simp_all add: set_tasks_def)

lemma cancel_creations_frame [simp]:
  "rd_projects (cancel_creations pid a again db) = rd_projects db"
  "rd_targets (cancel_creations pid a again db) = rd_targets db"
  "rd_catalog (cancel_creations pid a again db) = rd_catalog db"
  by (simp_all add: cancel_creations_def)

lemma delete_instances_frame [simp]:
  "rd_projects (delete_instances now p db) = rd_projects db"
  "rd_targets (delete_instances now p db) = rd_targets db"
  "rd_catalog (delete_instances now p db) = rd_catalog db"
  "rd_operations (delete_instances now p db) = rd_operations db"
  by (simp_all add: delete_instances_def)

lemma prepare_frame:
  "prepareA2aDeletion now pid action input db = Inr (b, db') \<Longrightarrow>
     rd_projects db' = rd_projects db \<and> rd_targets db' = rd_targets db"
  by (auto simp: prepareA2aDeletion_def res_simps Let_def split: option.splits if_splits)

lemma enqueue_frame:
  "enqueue now oid pid actor action input db = Inr (b, db') \<Longrightarrow>
     rd_projects db' = rd_projects db \<and> rd_targets db' = rd_targets db"
  by (auto simp: enqueue_def res_simps split: option.splits if_splits dest!: prepare_frame)

lemma saveAgent_frame:
  "saveAgent pid i registered owner oid db = Inr db' \<Longrightarrow>
     rd_projects db' = rd_projects db \<and> rd_targets db' = rd_targets db \<and> rd_operations db' = rd_operations db"
  by (auto simp: saveAgent_def persistAgent_def res_simps split: option.splits if_splits)

lemma saveManagedInstance_frame:
  "saveManagedInstance pid i agent owner destroying oid db = Inr db' \<Longrightarrow>
     rd_projects db' = rd_projects db \<and> rd_targets db' = rd_targets db
     \<and> rd_operations db' = rd_operations db \<and> rd_catalog db' = rd_catalog db"
  by (auto simp: saveManagedInstance_def persistManagedInstance_def res_simps Let_def
      split: option.splits if_splits)

lemma completeManagedInstanceDeletion_frame [simp]:
  "rd_projects (completeManagedInstanceDeletion now pid i db) = rd_projects db"
  "rd_targets (completeManagedInstanceDeletion now pid i db) = rd_targets db"
  "rd_operations (completeManagedInstanceDeletion now pid i db) = rd_operations db"
  "rd_catalog (completeManagedInstanceDeletion now pid i db) = rd_catalog db"
  by (simp_all add: completeManagedInstanceDeletion_def Let_def)

lemma finish_deletion_frame [simp]:
  "rd_projects (finish_deletion d pid db) = rd_projects db" "rd_targets (finish_deletion d pid db) = rd_targets db"
  "rd_operations (finish_deletion d pid db) = rd_operations db"
  by (simp_all add: finish_deletion_def)

lemma acquire_cases:
  assumes "acquire now lease pid oid db = Inr (b, db')"
  obtains "\<not> b" "db' = db"
  | e o1 where "\<not> b" "db' = set_op oid (\<lambda>_. True) (cancel_op e) db"
      "find_operation pid oid db = Some o1" "\<not> final_op (op_status o1)"
  | o1 c db1 where "b" "find_operation pid oid db = Some o1" "\<not> final_op (op_status o1)" "active_project pid db"
      "\<not> a2aCreationWasDeleted db o1"
      "(if removes (op_action o1) then prepareA2aDeletion now pid (op_action o1) (op_input o1) db else Inr (False, db)) = Inr (c, db1)"
      "db' = set_op oid (\<lambda>_. True) (\<lambda>o1. o1\<lparr>op_status := RunningOp, op_lastError := None\<rparr>)
              (set_targets (claimable_by now pid (op_action o1))
                (\<lambda>t. t\<lparr>rt_leaseOwner := Some lease, rt_leaseExpiresAt := Some (now + lease_ms)\<rparr>) db1)"
proof (cases "find_operation pid oid db")
  case None
  then show thesis using assms that(1) by (simp add: acquire_def)
next
  case (Some o1)
  show thesis
  proof (cases "final_op (op_status o1)")
    case True
    then show thesis using assms that(1) Some by (simp add: acquire_def)
  next
    case False
    note acq = assms [unfolded acquire_def Some option.case if_not_P [OF False]]
    show thesis
    proof (cases "\<not> active_project pid db \<or> a2aCreationWasDeleted db o1")
      case True
      then have "\<not> b \<and> (\<exists>e. db' = set_op oid (\<lambda>_. True) (cancel_op e) db)"
        using acq by (auto split: if_splits)
      then show thesis using that(2) False Some by blast
    next
      case neither: False
      then have "res_bind (if removes (op_action o1) then prepareA2aDeletion now pid (op_action o1) (op_input o1) db
            else Inr (False, db)) (\<lambda>(_, db1).
          res_bind (ensure (count_rows (claimable_by now pid (op_action o1)) (rd_targets db1) \<noteq> 0) Waiting) (\<lambda>_.
          Inr (True, set_op oid (\<lambda>_. True) (\<lambda>o1. o1\<lparr>op_status := RunningOp, op_lastError := None\<rparr>)
            (set_targets (claimable_by now pid (op_action o1))
              (\<lambda>t. t\<lparr>rt_leaseOwner := Some lease, rt_leaseExpiresAt := Some (now + lease_ms)\<rparr>) db1)))) = Inr (b, db')"
        using acq by simp
      then show thesis
        using that(3) [OF _ Some False] neither by (auto simp only: res_simps split: prod.splits)
    qed
  qed
qed

lemma targets_inv_set:
  assumes "targets_inv db" and "\<And>t. rt_projectId (f t) = rt_projectId t"
    and "\<And>t. p t \<Longrightarrow> target_ok db t \<Longrightarrow> target_ok db (f t)"
  shows "targets_inv (set_targets p f db)"
  by (rule targets_inv_update [OF assms(1), where p = p and f = f]) (simp_all add: assms(2,3))

lemma new_target_simps [simp]:
  "rt_projectId (new_target now cluster ns pid) = pid" "rt_status (new_target now cluster ns pid) = PendingTarget"
  "rt_generation (new_target now cluster ns pid) = 1" "rt_observedGeneration (new_target now cluster ns pid) = 0"
  by (simp_all add: new_target_def)

lemma find_project_key: "find_project i db = Some p \<Longrightarrow> pr_id p = i"
  unfolding find_project_def by (rule find_unique_key)

lemma targets_inv_new:
  assumes inv: "targets_inv db" and "find_target pid db = None" and "active_project pid db"
  shows "targets_inv (db\<lparr>rd_targets := rd_targets db @ [new_target now cluster ns pid]\<rparr>)" (is "targets_inv ?db")
proof -
  have "known i ?db = known i db" "gone i ?db = gone i db" for i by (rule projects_same; simp)+
  then show ?thesis
    using assms
    by (auto simp: targets_inv_def target_ok_def find_target_def find_unique_None_iff active_project_iff)
qed

lemma targets_inv_create:
  assumes inv: "targets_inv db" and "find_project pid db = None" and "find_target pid db = None"
  shows "targets_inv (db\<lparr>rd_projects := rd_projects db @ [\<lparr>pr_id = pid, pr_deletedAt = None, pr_deletedBy = None\<rparr>],
      rd_targets := rd_targets db @ [new_target now cluster ns pid]\<rparr>)" (is "targets_inv ?db")
proof -
  let ?p = "\<lparr>pr_id = pid, pr_deletedAt = None, pr_deletedBy = None\<rparr>"
  have find: "find_project i ?db = (if i = pid then Some ?p else find_project i db)" for i
    using assms(2) by (auto simp: find_project_def find_unique_append find_unique_Cons split: option.splits)
  have "target_ok ?db t" if "target_ok db t" for t
    using that assms(2) by (auto simp: target_ok_def known_def gone_def find split: option.splits)
  moreover have "target_ok ?db (new_target now cluster ns pid)"
    by (simp add: target_ok_def known_def gone_def find)
  moreover have "pid \<notin> pr_id ` set (rd_projects db)" "pid \<notin> rt_projectId ` set (rd_targets db)"
    using assms(2,3) by (simp_all add: find_project_def find_target_def find_unique_None_iff)
  ultimately show ?thesis
    using inv by (auto simp: targets_inv_def)
qed

lemma targets_inv_delete:
  assumes inv: "targets_inv db" and up: "request_deletion now actor job pid db = Inr db'"
  shows "targets_inv db'"
proof -
  let ?f = "\<lambda>t. t\<lparr>rt_status := Deleting, rt_generation := rt_generation t + 1\<rparr>"
    and ?d = "\<lambda>p. p\<lparr>pr_deletedAt := Some now, pr_deletedBy := Some actor\<rparr>"
  have p: "rd_projects db' = update_rows (\<lambda>p. pr_id p = pid) ?d (rd_projects db)"
    and t: "rd_targets db' = update_rows (\<lambda>t. rt_projectId t = pid) ?f (rd_targets db)"
    using up by (auto simp: request_deletion_def res_simps)
  have find: "find_project i db' = map_option (\<lambda>p. if pr_id p = pid then ?d p else p) (find_project i db)" for i
    by (simp add: find_project_def p find_unique_update)
  have "rt_projectId t = pid \<Longrightarrow> target_ok db' (?f t)" "rt_projectId t \<noteq> pid \<Longrightarrow> target_ok db' t"
    if "target_ok db t" for t
    using that by (auto simp: target_ok_def known_def gone_def find dest: find_project_key split: option.splits)
  then show ?thesis
    using inv by (auto simp: targets_inv_def p t map_key_update set_update_rows)
qed

lemma active_target_ok:
  assumes "target_ok db t" and "active_project (rt_projectId t) db" and "rt_observedGeneration s \<le> rt_generation s"
    and "rt_projectId s = rt_projectId t" and "rt_status s \<noteq> Ready"
  shows "target_ok db s"
  using assms by (auto simp: target_ok_def active_project_iff)

lemma schedule_targets:
  assumes inv: "targets_inv db" and up: "schedule namespace_of now cluster enabled reinitialize pid db = Inr db'"
  shows "targets_inv db'"
proof (cases "db' = db")
  case False
  let ?f = "\<lambda>t. t\<lparr>rt_generation := rt_generation t + (if rt_status t = PendingTarget then 0 else 1),
            rt_status := PendingTarget, rt_attempts := 0, rt_lastError := None, rt_nextAttemptAt := now,
            rt_leaseOwner := None, rt_leaseExpiresAt := None\<rparr>"
  from up False have act: "active_project pid db"
    and db': "db' = db\<lparr>rd_targets := upsert_row rt_projectId (new_target now cluster (namespace_of pid) pid) ?f (rd_targets db)\<rparr>"
    by (auto simp: schedule_def Let_def res_simps split: if_splits)
  show ?thesis
  proof (cases "find_target pid db")
    case None
    then show ?thesis
      using targets_inv_new [OF inv None act]
      by (simp add: db' upsert_row_def find_target_def new_target_def)
  next
    case (Some t)
    have "targets_inv (set_targets (\<lambda>t. rt_projectId t = pid) ?f db)"
      by (rule targets_inv_set [OF inv]) (use act in \<open>auto simp: target_ok_def active_project_iff\<close>)
    then show ?thesis
      using Some by (simp add: db' upsert_row_def find_target_def new_target_def set_targets_def)
  qed
qed (simp add: inv)

lemma open_target_inv:
  assumes "targets_inv db"
  shows "targets_inv (snd (open_target namespace_of now cluster pid db))"
  using assms targets_inv_new [OF assms]
  by (auto simp: open_target_def Let_def split: option.split)

lemma acquire_targets:
  assumes inv: "targets_inv db" and up: "acquire now lease pid oid db = Inr (b, db')"
  shows "targets_inv db'"
  using up
proof (cases rule: acquire_cases)
  case (3 o1 c db1)
  have "rd_projects db1 = rd_projects db \<and> rd_targets db1 = rd_targets db"
    using 3(6) prepare_frame by (auto split: if_splits)
  then have "targets_inv db1" using inv by (auto intro: targets_inv_same)
  then have "targets_inv (set_targets (claimable_by now pid (op_action o1))
      (\<lambda>t. t\<lparr>rt_leaseOwner := Some lease, rt_leaseExpiresAt := Some (now + lease_ms)\<rparr>) db1)"
    by (rule targets_inv_set) (auto simp: target_ok_def)
  then show ?thesis unfolding 3(7) by (rule targets_inv_same) simp_all
qed (use inv in \<open>auto intro: targets_inv_same\<close>)

lemma namespace_targets:
  assumes inv: "targets_inv db" and p: "find_project pid db = Some p" "pr_deletedAt p \<noteq> None"
  shows "targets_inv (snd (fst (deleteProjectNamespace remote text_of enabled cluster now pid db)))"
proof -
  let ?f = "\<lambda>t. t\<lparr>rt_lastError := None, rt_status := Deleting\<rparr>"
  have one: "targets_inv (set_targets (\<lambda>t. rt_projectId t = pid) ?f db)" (is "targets_inv ?db")
    by (rule targets_inv_set [OF inv]) (auto simp: target_ok_def)
  have two: "targets_inv (set_targets (\<lambda>t. rt_projectId t = pid) (\<lambda>t. t\<lparr>rt_lastError := m\<rparr>) ?db)" for m
    by (rule targets_inv_set [OF one]) (auto simp: target_ok_def)
  show ?thesis
    using inv one two
    by (auto simp: deleteProjectNamespace_def Let_def split: option.split prod.split sum.split)
qed

lemma runtime_step_targets: "runtime_step db db' \<Longrightarrow> targets_inv db \<Longrightarrow> targets_inv db'"
proof (induction rule: runtime_step.induct)
  case (claim_step now lease pid gen db db')
  then show ?case
    unfolding claim_target_def
    by (auto intro!: targets_inv_set simp: target_ok_def claimable_def split: if_splits option.splits)
next
  case (observe_step now lease pid gen db db')
  then show ?case
    unfolding observe_target_def
    by (auto intro!: targets_inv_set simp: target_ok_def reconciled_by_def split: if_splits option.splits)
next
  case (enqueue_step now oid pid actor action input db background db')
  then show ?case using enqueue_frame by (blast intro: targets_inv_same)
next
  case (save_agent_step pid i registered owner oid db db')
  then show ?case using saveAgent_frame by (blast intro: targets_inv_same)
next
  case (save_instance_step pid i agent owner destroying oid db db')
  then show ?case using saveManagedInstance_frame by (blast intro: targets_inv_same)
next
  case (complete_step lost lease pid oid db db')
  then show ?case by (auto simp: complete_operation_def res_simps intro: targets_inv_same)
next
  case (attach_step queue now pid db n)
  then show ?case by (auto simp: attach_job_def intro: targets_inv_same split: option.split)
qed (auto intro: targets_inv_create targets_inv_delete schedule_targets open_target_inv acquire_targets
      namespace_targets targets_inv_same intro!: targets_inv_set
      simp: heartbeat_def retry_target_def release_lease_def reconcile_job_failed_def acquire_failed_def
        fail_operation_def begin_deletion_def fail_deletion_def Let_def target_ok_def reconciled_by_def
      split: option.splits)

end
