(* ===== verification/Runtime_Fences.thy ===== *)
theory Runtime_Fences
  imports Runtime_Lifecycle
begin

text \<open>
  The operations on agents in every reachable state: a creation whose agent was deleted is not
  running, and an operation that has its outcome keeps it.
\<close>

section \<open>The operations\<close>

definition agent_deleted :: "runtime_db \<Rightarrow> string \<Rightarrow> string option \<Rightarrow> bool" where
  "agent_deleted db pid agent \<longleftrightarrow>
     (\<exists>a c. agent = Some a \<and> find_agent pid a db = Some c \<and> ca_deletedAt c \<noteq> None)"

definition op_ok :: "runtime_db \<Rightarrow> operation \<Rightarrow> bool" where
  "op_ok db o1 \<longleftrightarrow> known (op_projectId o1) db
     \<and> (op_status o1 = RunningOp \<longrightarrow> creates (op_action o1) \<longrightarrow> \<not> gone (op_projectId o1) db \<longrightarrow>
          \<not> agent_deleted db (op_projectId o1) (created_agent o1))"

definition ops_inv :: "runtime_db \<Rightarrow> bool" where
  "ops_inv db \<longleftrightarrow> distinct (map op_id (rd_operations db)) \<and> (\<forall>o1\<in>set (rd_operations db). op_ok db o1)"

definition same_request :: "operation \<Rightarrow> operation \<Rightarrow> bool" where
  "same_request a b \<longleftrightarrow> op_id a = op_id b \<and> op_projectId a = op_projectId b \<and> op_action a = op_action b
     \<and> op_input a = op_input b"

lemma same_request_refl [simp]: "same_request x x"
  by (simp add: same_request_def)

lemma same_request_agent: "same_request a b \<Longrightarrow> created_agent a = created_agent b"
  by (simp add: same_request_def created_agent_def)

lemma ops_inv_update:
  assumes inv: "ops_inv db" and ops: "rd_operations db' = update_rows p f (rd_operations db)"
    and same: "\<And>o1. same_request (f o1) o1"
    and projects: "\<And>i. known i db \<Longrightarrow> known i db'" "\<And>i. known i db \<Longrightarrow> gone i db \<Longrightarrow> gone i db'"
    and agents: "\<And>pid a. \<not> gone pid db' \<Longrightarrow> agent_deleted db' pid a \<Longrightarrow> agent_deleted db pid a"
    and run: "\<And>o1. o1 \<in> set (rd_operations db) \<Longrightarrow> p o1 \<Longrightarrow> op_status (f o1) = RunningOp \<Longrightarrow>
      creates (op_action o1) \<Longrightarrow> \<not> gone (op_projectId o1) db \<Longrightarrow> agent_deleted db (op_projectId o1) (created_agent o1) \<Longrightarrow>
      op_status o1 = RunningOp"
  shows "ops_inv db'"
proof -
  have key: "op_id (f o1) = op_id o1" for o1 using same by (simp add: same_request_def)
  have yes: "op_ok db' (f o1)" if o1: "o1 \<in> set (rd_operations db)" and p: "p o1" for o1
  proof -
    have "op_ok db o1" using inv o1 by (simp add: ops_inv_def)
    then show ?thesis
      using projects agents run [OF o1 p] same [of o1] same_request_agent [OF same [of o1]]
      by (auto simp: op_ok_def same_request_def)
  qed
  have no: "op_ok db' o1" if "o1 \<in> set (rd_operations db)" for o1
  proof -
    have "op_ok db o1" using inv that by (simp add: ops_inv_def)
    then show ?thesis using projects agents by (auto simp: op_ok_def)
  qed
  with yes show ?thesis
    using inv key by (auto simp: ops_inv_def ops map_key_update set_update_rows)
qed

lemma ops_inv_same:
  assumes "ops_inv db" and "rd_operations db' = rd_operations db" and "rd_projects db' = rd_projects db"
    and "\<And>pid a. \<not> gone pid db \<Longrightarrow> agent_deleted db' pid a \<Longrightarrow> agent_deleted db pid a"
  shows "ops_inv db'"
  using assms(1,4)
  by (auto simp: ops_inv_def op_ok_def assms(2) projects_same [OF assms(3)])

lemma agents_same: "rd_catalog db' = rd_catalog db \<Longrightarrow> agent_deleted db' = agent_deleted db"
  by (simp add: fun_eq_iff agent_deleted_def find_agent_def)

lemma set_op_inv:
  assumes "ops_inv db" and "\<And>o1. same_request (f o1) o1"
    and "\<And>o1. o1 \<in> set (rd_operations db) \<Longrightarrow> op_id o1 = oid \<Longrightarrow> p (op_status o1) \<Longrightarrow> op_status (f o1) = RunningOp \<Longrightarrow>
      creates (op_action o1) \<Longrightarrow> \<not> gone (op_projectId o1) db \<Longrightarrow> agent_deleted db (op_projectId o1) (created_agent o1) \<Longrightarrow>
      op_status o1 = RunningOp"
  shows "ops_inv (set_op oid p f db)"
proof (rule ops_inv_update [OF assms(1), where p = "\<lambda>o1. op_id o1 = oid \<and> p (op_status o1)" and f = f])
  show "agent_deleted db pid a" if "agent_deleted (set_op oid p f db) pid a" for pid a
    using that agents_same [of "set_op oid p f db" db] by simp
qed (use assms projects_same [of "set_op oid p f db" db] in \<open>auto simp: set_op_def\<close>)

lemma cancel_request [simp]: "same_request (cancel_op e o1) o1"
  by (simp add: same_request_def)

lemma cancel_creations_inv:
  assumes "ops_inv db"
  shows "ops_inv (cancel_creations pid agent again db)" (is "ops_inv ?db")
  by (rule ops_inv_update [OF assms, where f = "cancel_op (Some cancelled_by_deletion)"])
    (use projects_same [of ?db db] agents_same [of ?db db] in \<open>auto simp: cancel_creations_def\<close>)

lemma delete_instances_inv:
  assumes "ops_inv db"
  shows "ops_inv (delete_instances now p db)" (is "ops_inv ?db")
  by (rule ops_inv_same [OF assms]) (use agents_same [of ?db db] in auto)

lemma find_agent_key: "find_agent pid i db = Some c \<Longrightarrow> ca_projectId c = pid \<and> ca_id c = i"
  by (auto simp: find_agent_def dest: find_unique_key)

text \<open>The deletion of an agent: all its open creations are cancelled in the same transaction.\<close>

lemma delete_agent_inv:
  fixes now pid i
  assumes inv: "ops_inv db"
  defines "db1 \<equiv> db\<lparr>rd_catalog := update_rows (\<lambda>a. ca_projectId a = pid \<and> ca_id a = i)
     (\<lambda>a. a\<lparr>ca_deletedAt := Some now\<rparr>) (rd_catalog db)\<rparr>"
  shows "ops_inv (cancel_creations pid (Some i) False (delete_instances now p db1))" (is "ops_inv ?db")
proof -
  have find: "find_agent pid' a ?db = map_option (\<lambda>x. if ca_projectId x = pid \<and> ca_id x = i then x\<lparr>ca_deletedAt := Some now\<rparr> else x)
      (find_agent pid' a db)" for pid' a
    by (simp add: find_agent_def db1_def find_unique_update)
  have agents: "agent_deleted ?db pid' a \<Longrightarrow> agent_deleted db pid' a \<or> (pid' = pid \<and> a = Some i)" for pid' a
    by (auto simp: agent_deleted_def find dest: find_agent_key split: if_splits)
  have projects: "known j ?db = known j db" "gone j ?db = gone j db" for j
    by (rule projects_same; simp add: db1_def)+
  have ops: "rd_operations ?db = update_rows (\<lambda>o1. op_projectId o1 = pid \<and> creates (op_action o1) \<and> open_op (op_status o1)
      \<and> created_agent o1 = Some i) (cancel_op (Some cancelled_by_deletion)) (rd_operations db)"
    by (simp add: cancel_creations_def db1_def)
  have "op_ok ?db o2" if "o2 \<in> set (rd_operations ?db)" for o2
  proof -
    from that obtain o1 where o1: "o1 \<in> set (rd_operations db)"
      and o2: "o2 = (if op_projectId o1 = pid \<and> creates (op_action o1) \<and> open_op (op_status o1) \<and> created_agent o1 = Some i
        then cancel_op (Some cancelled_by_deletion) o1 else o1)"
      by (auto simp: ops set_update_rows)
    have "op_ok db o1" using inv o1 by (simp add: ops_inv_def)
    then show ?thesis
      using agents by (auto simp: o2 op_ok_def projects open_op_def)
  qed
  moreover have "map op_id (rd_operations ?db) = map op_id (rd_operations db)"
    by (simp add: ops map_key_update)
  ultimately show ?thesis using inv by (simp add: ops_inv_def)
qed

lemma prepare_inv:
  assumes inv: "ops_inv db" and up: "prepareA2aDeletion now pid action input db = Inr (b, db')"
  shows "ops_inv db'"
  using up inv
  by (auto simp: prepareA2aDeletion_def res_simps Let_def split: option.splits if_splits
      intro: cancel_creations_inv delete_instances_inv delete_agent_inv)

lemma enqueue_inv:
  assumes inv: "ops_inv db" and up: "enqueue now oid pid actor action input db = Inr (b, db')"
  shows "ops_inv db'"
proof -
  from up obtain db1 ops where act: "active_project pid db"
    and prep: "(if removes action then prepareA2aDeletion now pid action input db else Inr (False, db)) = Inr (b, db1)"
    and fresh: "find_unique op_id oid (rd_operations db1) = None"
    and db': "db' = db1\<lparr>rd_operations := rd_operations db1 @ [\<lparr>op_id = oid, op_projectId = pid, op_actorId = actor, op_action = action,
          op_input = (if action \<in> {Instantiate, Discover} then input\<lparr>oi_fenced := True\<rparr> else input),
          op_status = PendingOp, op_lastError = None, op_createdAt = now\<rparr>]\<rparr>"
    by (auto simp: enqueue_def res_simps split: option.splits)
  have inv1: "ops_inv db1" and same: "rd_projects db1 = rd_projects db"
    using prep inv prepare_inv prepare_frame by (auto split: if_splits)
  have "known pid db1" using act same by (simp add: active_project_iff known_def find_project_def)
  moreover have "op_ok db' o1 = op_ok db1 o1" for o1
    using projects_same [of db' db1] agents_same [of db' db1] by (simp add: op_ok_def db')
  ultimately show ?thesis
    using inv1 fresh by (auto simp: ops_inv_def db' op_ok_def find_unique_None_iff)
qed

lemma find_operation_in: "find_operation pid oid db = Some o1 \<Longrightarrow>
    o1 \<in> set (rd_operations db) \<and> op_id o1 = oid \<and> op_projectId o1 = pid"
  by (auto simp: find_operation_def find_Some_iff)

lemma same_operation:
  assumes "ops_inv db" and "find_operation pid oid db = Some o1" and "x \<in> set (rd_operations db)" and "op_id x = oid"
  shows "x = o1"
  using assms find_operation_in [OF assms(2)] by (auto simp: ops_inv_def distinct_map inj_on_def)

lemma not_overtaken: "\<not> a2aCreationWasDeleted db o1 \<Longrightarrow> creates (op_action o1) \<Longrightarrow>
    \<not> agent_deleted db (op_projectId o1) (created_agent o1)"
  by (auto simp: a2aCreationWasDeleted_def agent_deleted_def split: if_splits)

lemma cancel_requests:
  assumes "x \<in> set (rd_operations (cancel_creations pid a again db1))" and "rd_operations db1 = rd_operations db"
  shows "\<exists>y\<in>set (rd_operations db). same_request x y"
proof -
  from assms obtain y where "y \<in> set (rd_operations db)" "x = y \<or> x = cancel_op (Some cancelled_by_deletion) y"
    by (auto simp: cancel_creations_def set_update_rows split: if_splits)
  then have "same_request x y" by auto
  with \<open>y \<in> set (rd_operations db)\<close> show ?thesis ..
qed

lemma prepare_requests:
  assumes "prepareA2aDeletion now pid action input db = Inr (b, db')" and "x \<in> set (rd_operations db')"
  shows "\<exists>y\<in>set (rd_operations db). same_request x y"
  using assms
  by (auto simp: prepareA2aDeletion_def res_simps Let_def split: option.splits if_splits
      intro: bexI [of _ x] dest!: cancel_requests)

lemma acquire_inv:
  assumes inv: "ops_inv db" and up: "acquire now lease pid oid db = Inr (b, db')"
  shows "ops_inv db'"
  using up
proof (cases rule: acquire_cases)
  case (3 o1 c db1)
  let ?t = "set_targets (claimable_by now pid (op_action o1))
      (\<lambda>t. t\<lparr>rt_leaseOwner := Some lease, rt_leaseExpiresAt := Some (now + lease_ms)\<rparr>) db1"
  note in_op = find_operation_in [OF 3(2)]
  have inv1: "ops_inv db1"
    using 3(6) inv prepare_inv by (auto split: if_splits)
  have invt: "ops_inv ?t"
    by (rule ops_inv_same [OF inv1]) (use agents_same [of ?t db1] in auto)
  show ?thesis
    unfolding 3(7)
  proof (rule set_op_inv [OF invt])
    fix x assume x: "x \<in> set (rd_operations ?t)" "op_id x = oid" "creates (op_action x)"
      "agent_deleted ?t (op_projectId x) (created_agent x)"
    show "op_status x = RunningOp"
    proof (cases "removes (op_action o1)")
      case False
      then have "db1 = db" using 3(6) by simp
      then have "x = o1" using x(1,2) same_operation [OF inv 3(2)] by simp
      moreover have "agent_deleted db (op_projectId x) (created_agent x)"
        using x(4) agents_same [of ?t db] \<open>db1 = db\<close> by simp
      ultimately show ?thesis using x(3) not_overtaken [OF 3(5)] by simp
    next
      case True
      have "op_action x = op_action o1"
      proof -
        obtain y where "y \<in> set (rd_operations db)" "same_request x y"
          using prepare_requests [of now pid "op_action o1" "op_input o1" db c db1 x] x(1) 3(6) True by auto
        moreover from this have "y = o1" using x(2) same_operation [OF inv 3(2)] by (simp add: same_request_def)
        ultimately show ?thesis by (simp add: same_request_def)
      qed
      then show ?thesis using True x(3) by (auto simp: removes_def creates_def)
    qed
  qed (simp add: same_request_def)
qed (use inv in \<open>auto intro: set_op_inv\<close>)

lemma saveAgent_inv:
  assumes inv: "ops_inv db" and up: "saveAgent pid i registered owner oid db = Inr db'"
  shows "ops_inv db'"
proof (rule ops_inv_same [OF inv])
  show "rd_operations db' = rd_operations db" "rd_projects db' = rd_projects db"
    using saveAgent_frame [OF up] by simp_all
  fix pid' a assume "agent_deleted db' pid' a"
  moreover have persist: "persistAgent pid i registered owner db = Inr db'"
    using up by (auto simp: saveAgent_def res_simps)
  ultimately show "agent_deleted db pid' a"
  proof (cases "find_agent pid i db")
    case None
    then have "db' = db\<lparr>rd_catalog := rd_catalog db @ [\<lparr>ca_projectId = pid, ca_id = i, ca_registered = registered,
            ca_deletedAt = None\<rparr>]\<rparr>"
      using persist by (auto simp: persistAgent_def split: if_splits)
    with \<open>agent_deleted db' pid' a\<close> show ?thesis
      by (auto simp: agent_deleted_def find_agent_def find_unique_append find_unique_Cons split: option.splits if_splits)
  next
    case (Some c)
    then have "db' = db\<lparr>rd_catalog := update_rows (\<lambda>a. ca_projectId a = pid \<and> ca_id a = i)
            (\<lambda>a. a\<lparr>ca_registered := registered\<rparr>) (rd_catalog db)\<rparr>"
      using persist by (auto simp: persistAgent_def split: if_splits)
    with \<open>agent_deleted db' pid' a\<close> show ?thesis
      by (auto simp: agent_deleted_def find_agent_def find_unique_update split: if_splits)
  qed
qed

lemma finish_deletion_inv:
  assumes inv: "ops_inv db" and gone: "gone pid db"
  shows "ops_inv (finish_deletion d pid db)" (is "ops_inv ?db")
proof (rule ops_inv_same [OF inv])
  fix pid' a assume "\<not> gone pid' db" and deleted: "agent_deleted ?db pid' a"
  then have "pid' \<noteq> pid" using gone by auto
  moreover have "find_agent pid' i ?db = map_option (\<lambda>x. if ca_projectId x = pid \<and> ca_deletedAt x = None
      then x\<lparr>ca_deletedAt := Some d\<rparr> else x) (find_agent pid' i db)" for i
    by (simp add: find_agent_def finish_deletion_def find_unique_update)
  ultimately show "agent_deleted db pid' a"
    using deleted by (auto simp: agent_deleted_def dest: find_agent_key split: if_splits)
qed simp_all

text \<open>Only the creation and the deletion of a Project touch the Projects.\<close>

definition project_added :: "runtime_db \<Rightarrow> runtime_db \<Rightarrow> bool" where
  "project_added db db' \<longleftrightarrow> (\<exists>pid. find_project pid db = None
     \<and> rd_projects db' = rd_projects db @ [\<lparr>pr_id = pid, pr_deletedAt = None, pr_deletedBy = None\<rparr>])"

definition project_deleted :: "runtime_db \<Rightarrow> runtime_db \<Rightarrow> bool" where
  "project_deleted db db' \<longleftrightarrow> (\<exists>pid now actor. rd_projects db' = update_rows (\<lambda>p. pr_id p = pid)
     (\<lambda>p. p\<lparr>pr_deletedAt := Some now, pr_deletedBy := Some actor\<rparr>) (rd_projects db))"

lemma step_projects:
  "runtime_step db db' \<Longrightarrow> rd_projects db' = rd_projects db \<or> project_added db db' \<or> project_deleted db db'"
proof (induction rule: runtime_step.induct)
  case (create_step pid db now cluster)
  then show ?case by (auto simp: project_added_def)
next
  case (delete_step now actor job pid db db')
  then have "rd_projects db' = update_rows (\<lambda>p. pr_id p = pid)
      (\<lambda>p. p\<lparr>pr_deletedAt := Some now, pr_deletedBy := Some actor\<rparr>) (rd_projects db)"
    by (auto simp: request_deletion_def res_simps)
  then show ?case unfolding project_deleted_def by blast
next
  case (enqueue_step now oid pid actor action input db background db')
  then show ?case using enqueue_frame by blast
next
  case (acquire_step now lease pid oid db acquired db')
  then show ?case by (elim acquire_cases) (auto dest!: prepare_frame split: if_splits)
next
  case (save_agent_step pid i registered owner oid db db')
  then show ?case using saveAgent_frame by blast
next
  case (save_instance_step pid i agent owner destroying oid db db')
  then show ?case using saveManagedInstance_frame by blast
qed (auto simp: claim_target_def observe_target_def open_target_def schedule_def complete_operation_def
      attach_job_def deleteProjectNamespace_def heartbeat_def retry_target_def release_lease_def reconcile_job_failed_def
      acquire_failed_def fail_operation_def begin_deletion_def fail_deletion_def Let_def res_simps
      split: option.splits if_splits prod.splits sum.splits)

lemma projects_grow:
  assumes "runtime_step db db'" and "known i db"
  shows "known i db' \<and> (gone i db \<longrightarrow> gone i db')"
  using step_projects [OF assms(1)]
proof (elim disjE)
  assume "project_added db db'"
  then show ?thesis
    using assms(2) by (auto simp: project_added_def known_def gone_def find_project_def find_unique_append split: option.splits)
next
  assume "project_deleted db db'"
  then show ?thesis
    using assms(2) by (auto simp: project_deleted_def known_def gone_def find_project_def find_unique_update split: option.splits)
qed (use assms(2) projects_same in blast)

lemma ops_inv_frame:
  assumes "runtime_step db db'" and "ops_inv db"
    and "rd_operations db' = rd_operations db" and "rd_catalog db' = rd_catalog db"
  shows "ops_inv db'"
proof (rule ops_inv_update [OF assms(2), where p = "\<lambda>_. False" and f = "\<lambda>x. x"])
  show "rd_operations db' = update_rows (\<lambda>_. False) (\<lambda>x. x) (rd_operations db)"
    by (simp add: assms(3) update_rows_def)
  show "agent_deleted db pid a" if "agent_deleted db' pid a" for pid a
    using that agents_same [OF assms(4)] by simp
qed (use projects_grow [OF assms(1)] in auto)

lemma runtime_step_ops:
  assumes "runtime_step db db'" and "ops_inv db"
  shows "ops_inv db'"
proof -
  have frame: "rd_operations db' = rd_operations db \<and> rd_catalog db' = rd_catalog db \<Longrightarrow> ?thesis"
    using ops_inv_frame [OF assms] by blast
  from assms(1) show ?thesis
  proof cases
  case (enqueue_step now oid pid actor action input background)
  with assms(2) show ?thesis by (auto intro: enqueue_inv)
next
  case (acquire_step now lease pid oid acquired)
  with assms(2) show ?thesis by (auto intro: acquire_inv)
next
  case (acquire_failed_step final error oid)
  then show ?thesis
    unfolding acquire_failed_def by (auto intro!: set_op_inv [OF assms(2)] simp: same_request_def split: if_splits)
next
  case (complete_step lost lease pid oid)
  then show ?thesis
    by (auto simp: complete_operation_def res_simps same_request_def intro!: set_op_inv [OF assms(2)] split: if_splits)
next
  case (fail_step final error lease pid oid)
  then show ?thesis
    by (auto simp: fail_operation_def same_request_def assms(2) intro!: set_op_inv [OF assms(2)] split: if_splits option.splits)
next
  case (save_agent_step pid i registered owner oid)
  with assms(2) show ?thesis by (auto intro: saveAgent_inv)
next
  case (save_instance_step pid i agent owner destroying oid)
  then show ?thesis using saveManagedInstance_frame ops_inv_frame [OF assms] by blast
next
  case (finish_step pid p d)
  then show ?thesis using finish_deletion_inv [OF assms(2)] by (simp add: gone_def)
  qed (rule frame, (auto simp: claim_target_def observe_target_def open_target_def schedule_def request_deletion_def
      attach_job_def deleteProjectNamespace_def heartbeat_def retry_target_def release_lease_def reconcile_job_failed_def
      begin_deletion_def fail_deletion_def Let_def res_simps
    split: option.splits if_splits prod.splits sum.splits)[1])+
qed

lemma runtime_init_inv: "runtime_init db \<Longrightarrow> targets_inv db \<and> ops_inv db"
  by (simp add: runtime_init_def targets_inv_def ops_inv_def)

lemma runtime_reachable_inv: "runtime.reachable db \<Longrightarrow> targets_inv db \<and> ops_inv db"
  by (erule runtime.invariantI [where I = "\<lambda>db. targets_inv db \<and> ops_inv db"])
    (use runtime_init_inv runtime_step_targets runtime_step_ops in blast)+

section \<open>Final outcomes\<close>

lemma set_op_keeps:
  "x \<in> set (rd_operations db) \<Longrightarrow> (op_id x = oid \<Longrightarrow> \<not> p (op_status x)) \<Longrightarrow> x \<in> set (rd_operations (set_op oid p f db))"
  by (auto simp: set_op_def set_update_rows)

lemma cancel_keeps:
  "x \<in> set (rd_operations db) \<Longrightarrow> final_op (op_status x) \<Longrightarrow> x \<in> set (rd_operations (cancel_creations pid a again db))"
  by (auto simp: cancel_creations_def set_update_rows final_op_def open_op_def image_iff intro!: bexI [of _ x])

lemma prepare_keeps:
  "prepareA2aDeletion now pid action input db = Inr (b, db') \<Longrightarrow> x \<in> set (rd_operations db) \<Longrightarrow> final_op (op_status x) \<Longrightarrow>
    x \<in> set (rd_operations db')"
  by (auto simp: prepareA2aDeletion_def res_simps Let_def intro!: cancel_keeps split: option.splits if_splits)

lemma step_keeps_final:
  assumes "runtime_step db db'" and inv: "ops_inv db" and x: "x \<in> set (rd_operations db)" "final_op (op_status x)"
  shows "x \<in> set (rd_operations db')"
  using assms(1)
proof cases
  case (enqueue_step now oid pid actor action input background)
  then show ?thesis
    using x by (auto simp: enqueue_def res_simps split: option.splits if_splits dest: prepare_keeps)
next
  case (acquire_step now lease pid oid acquired)
  from acquire_step show ?thesis
  proof (cases rule: acquire_cases)
    case (2 e o1)
    then have "op_id x \<noteq> oid" using same_operation [OF inv _ x(1)] x(2) by blast
    with 2 x show ?thesis by (simp add: set_op_keeps)
  next
    case (3 o1 c db1)
    then have "op_id x \<noteq> oid" using same_operation [OF inv _ x(1)] x(2) by blast
    moreover have "x \<in> set (rd_operations db1)"
      using 3(6) x by (auto split: if_splits dest: prepare_keeps)
    ultimately show ?thesis using 3(7) by (simp add: set_op_keeps)
  qed (simp add: x)
next
  case (save_agent_step pid i registered owner oid)
  then show ?thesis using saveAgent_frame x by metis
next
  case (save_instance_step pid i agent owner destroying oid)
  then show ?thesis using saveManagedInstance_frame x by metis
qed (use x in \<open>auto simp: claim_target_def observe_target_def open_target_def schedule_def request_deletion_def
      attach_job_def deleteProjectNamespace_def heartbeat_def retry_target_def release_lease_def reconcile_job_failed_def
      begin_deletion_def fail_deletion_def acquire_failed_def complete_operation_def fail_operation_def
      final_op_def Let_def res_simps
    intro!: set_op_keeps split: option.splits if_splits prod.splits sum.splits\<close>)

section \<open>What the runtime guarantees\<close>


text \<open>
  An operation that is completed, failed or cancelled stays exactly as it is, whatever the
  workers do.
\<close>

theorem operation_outcomes_are_final:
  assumes "runtime.reachable db" and "runtime_step\<^sup>*\<^sup>* db db'"
    and "o1 \<in> set (rd_operations db)" and "final_op (op_status o1)"
  shows "o1 \<in> set (rd_operations db')"
  by (rule runtime.stableI [OF assms(2,1), where P = "\<lambda>db. o1 \<in> set (rd_operations db)"])
    (use assms(3,4) step_keeps_final runtime_reachable_inv in blast)+


section \<open>A run\<close>

definition attempt :: "(runtime_db \<Rightarrow> runtime_db rtres) \<Rightarrow> runtime_db \<Rightarrow> runtime_db" where
  "attempt f db = (case f db of Inr db' \<Rightarrow> db' | Inl _ \<Rightarrow> db)"

lemma attempt_reachable:
  "runtime.reachable db \<Longrightarrow> (\<And>db'. f db = Inr db' \<Longrightarrow> runtime_step db db') \<Longrightarrow> runtime.reachable (attempt f db)"
  by (auto simp: attempt_def intro: runtime.reachable_step split: sum.split)

lemma attempt_steps: "(\<And>db'. f db = Inr db' \<Longrightarrow> runtime_step db db') \<Longrightarrow> runtime_step\<^sup>*\<^sup>* db (attempt f db)"
  by (auto simp: attempt_def split: sum.split)

definition no_runtime :: runtime_db where
  "no_runtime = \<lparr>rd_projects = [], rd_targets = [], rd_tasks = [], rd_operations = [], rd_catalog = [], rd_instances = [],
     rd_records = []\<rparr>"

definition ready_runtime :: runtime_db where
  "ready_runtime = attempt (observe_target 2 ''lease-1'' ''p'' 1) (attempt (claim_target 1 ''lease-1'' ''p'' 1)
     (no_runtime\<lparr>rd_projects := [\<lparr>pr_id = ''p'', pr_deletedAt = None, pr_deletedBy = None\<rparr>],
        rd_targets := [new_target 0 ''cluster'' ''p'' ''p'']\<rparr>))"

definition running_runtime :: runtime_db where
  "running_runtime =
     attempt (\<lambda>db. map_sum id snd (acquire 5 ''lease-2'' ''p'' ''op'' db))
     (attempt (\<lambda>db. map_sum id snd (enqueue 4 ''op'' ''p'' ''u'' Instantiate
        \<lparr>oi_id = Some ''a'', oi_versionId = None, oi_fenced = False\<rparr> db))
     (attempt (saveAgent ''p'' ''a'' True (Some ''u'') None) ready_runtime))"

lemma map_sum_Inr: "map_sum id snd x = Inr y \<Longrightarrow> \<exists>b. x = Inr (b, y)"
  by (cases x) auto

lemma running_reachable: "runtime.reachable running_runtime"
proof -
  have "runtime.reachable no_runtime"
    by (rule runtime.reachable_init) (simp add: runtime_init_def no_runtime_def)
  from runtime.reachable_step [OF this create_step [of "''p''" _ 0 "''cluster''"]]
  have "runtime.reachable (no_runtime\<lparr>rd_projects := [\<lparr>pr_id = ''p'', pr_deletedAt = None, pr_deletedBy = None\<rparr>],
        rd_targets := [new_target 0 ''cluster'' ''p'' ''p'']\<rparr>)"
    by (simp add: no_runtime_def find_project_def find_target_def)
  then have "runtime.reachable ready_runtime"
    unfolding ready_runtime_def by (intro attempt_reachable) (auto intro: claim_step observe_step)
  then show ?thesis
    unfolding running_runtime_def
    by (intro attempt_reachable) (auto dest!: map_sum_Inr intro: save_agent_step enqueue_step acquire_step)
qed

definition running_op :: operation where
  "running_op = \<lparr>op_id = ''op'', op_projectId = ''p'', op_actorId = ''u'', op_action = Instantiate,
     op_input = \<lparr>oi_id = Some ''a'', oi_versionId = None, oi_fenced = True\<rparr>, op_status = RunningOp,
     op_lastError = None, op_createdAt = 4\<rparr>"

lemma running_facts:
  "rd_operations running_runtime = [running_op]" "active_project ''p'' running_runtime"
  "find_agent ''p'' ''a'' running_runtime = Some \<lparr>ca_projectId = ''p'', ca_id = ''a'', ca_registered = True, ca_deletedAt = None\<rparr>"
  by code_simp+

definition completed_runtime :: runtime_db where
  "completed_runtime = attempt (complete_operation False ''lease-2'' ''p'' ''op'') running_runtime"

definition deleted_runtime :: runtime_db where
  "deleted_runtime = attempt (request_deletion 6 ''u'' None ''p'') completed_runtime"

lemma deleted_facts:
  "rd_operations completed_runtime = [running_op\<lparr>op_status := CompletedOp\<rparr>]"
  "find_project ''p'' deleted_runtime = Some \<lparr>pr_id = ''p'', pr_deletedAt = Some 6, pr_deletedBy = Some ''u''\<rparr>"
  "map rt_status (rd_targets running_runtime) = [Ready]" "map rt_projectId (rd_targets deleted_runtime) = [''p'']"
  by code_simp+

lemma completed_steps: "runtime_step\<^sup>*\<^sup>* running_runtime completed_runtime"
  unfolding completed_runtime_def by (rule attempt_steps) (rule complete_step)

lemma deleted_steps: "runtime_step\<^sup>*\<^sup>* completed_runtime deleted_runtime"
  unfolding deleted_runtime_def by (rule attempt_steps) (rule delete_step)


theorem operation_outcomes_are_final_witness:
  "running_op\<lparr>op_status := CompletedOp\<rparr> \<in> set (rd_operations deleted_runtime)"
proof -
  have "final_op (op_status (running_op\<lparr>op_status := CompletedOp\<rparr>))" by (simp add: final_op_def)
  then show ?thesis
    using operation_outcomes_are_final [OF runtime.reachable_steps [OF running_reachable completed_steps] deleted_steps]
      deleted_facts(1) by simp
qed


section \<open>The purge\<close>

lemma run_batches_Inr:
  assumes "run_batches remote bs = (Inr u, calls)"
  shows "calls = concat bs \<and> (\<forall>c\<in>set calls. done_by remote c)"
  using assms
  by (induction bs arbitrary: calls) (auto simp: find_None_iff split: option.splits prod.splits)

lemma namespace_Inr:
  assumes "deleteProjectNamespace remote text_of enabled cluster now pid db = ((Inr b, db'), calls)"
  shows "(\<forall>c\<in>set calls. done_by remote c) \<and> rd_tasks db' = rd_tasks db
    \<and> (enabled \<longrightarrow> (\<forall>t. find_target pid db = Some t \<longrightarrow> calls = [DeleteGateway (rt_namespace t), DeleteNamespace (rt_namespace t) pid]))"
  using assms
  by (auto simp: deleteProjectNamespace_def Let_def dest!: run_batches_Inr split: if_splits option.splits prod.splits sum.splits)

lemma update_rows_all:
  "(\<And>x. p x \<Longrightarrow> Q (f x)) \<Longrightarrow> (\<And>x. \<not> p x \<Longrightarrow> Q x) \<Longrightarrow> \<forall>y\<in>set (update_rows p f xs). Q y"
  by (auto simp: set_update_rows)

lemma finish_marks:
  shows "\<forall>r\<in>set (rd_instances (finish_deletion d pid db)). ir_projectId r = pid \<longrightarrow> ir_deletedAt r \<noteq> None"
    and "\<forall>r\<in>set (rd_tasks (finish_deletion d pid db)). dt_projectId r = pid \<longrightarrow> dt_status r \<noteq> RunningTask"
proof -
  have i: "rd_instances (finish_deletion d pid db) = update_rows (\<lambda>r. ir_projectId r = pid \<and> ir_deletedAt r = None)
      (\<lambda>r. r\<lparr>ir_deletedAt := Some d\<rparr>) (rd_instances db)"
    and t: "rd_tasks (finish_deletion d pid db) = update_rows (\<lambda>t. dt_projectId t = pid \<and> dt_status t = RunningTask)
       (\<lambda>t. t\<lparr>dt_lastError := None, dt_leaseExpiresAt := None, dt_leaseOwner := None, dt_status := CompletedTask\<rparr>) (rd_tasks db)"
    by (simp_all add: finish_deletion_def set_tasks_def)
  show "\<forall>r\<in>set (rd_instances (finish_deletion d pid db)). ir_projectId r = pid \<longrightarrow> ir_deletedAt r \<noteq> None"
    unfolding i by (rule update_rows_all) auto
  show "\<forall>r\<in>set (rd_tasks (finish_deletion d pid db)). dt_projectId r = pid \<longrightarrow> dt_status r \<noteq> RunningTask"
    unfolding t by (rule update_rows_all) auto
qed


definition sample_resources :: resources where
  "sample_resources = \<lparr>pg_agents = [\<lparr>sa_id = Some ''i'', sa_name = Some ''Instance'', sa_sandboxName = Some ''box'',
       sa_agentPlatform = Some ''openclaw'', sa_liteLLMTokenId = Some ''token''\<rparr>],
     pg_memories = [''m''], pg_routings = [(''r'', Some ''alias'', None)], pg_deployments = [Some ''model'', None],
     pg_mcpServers = [''s''], pg_knowledge = [], pg_team = Some ''team''\<rparr>"

definition sample_remote :: "remote_call \<Rightarrow> string option + unit" where
  "sample_remote call = (case call of DeleteModel _ \<Rightarrow> Inl (Some ''Model NOT FOUND'') | _ \<Rightarrow> Inr ())"

definition sample_purge :: "(bool rtres \<times> runtime_db) \<times> remote_call list" where
  "sample_purge = purge sample_remote (\<lambda>_. []) True True ''cluster'' \<lparr>has_routingRoute = True, has_routingTeam = True,
     has_mcpServer = True, has_vectorStore = True, has_projectTeam = True\<rparr> sample_resources 700000 ''p'' deleted_runtime"

lemma sample_purge_facts:
  "fst (fst sample_purge) = Inr True" "map rt_namespace (rd_targets deleted_runtime) = [''p'']"
  "snd sample_purge = [DestroySandbox ''box'' ''openclaw'' (Some ''p''), DeleteMemory ''m'', RevokeKey ''token'',
     DeleteRoutingRoute ''alias'' ''r'', DeleteModel ''model'', DeleteMcpServer ''s'', DeleteProjectTeam ''team'',
     DeleteGateway ''p'', DeleteNamespace ''p'' ''p'']"
  by code_simp+


end
