(* ===== verification/Member_Tables.thy ===== *)
theory Member_Tables
  imports Admission_Middleware Work_Contracts
begin

text \<open>
  The tables behind access: users, Departments, Projects, their members, the roles assigned to
  a member, invitations, and the bindings of groups of the identity provider with the grants
  they gave. A table is the list of its rows in insertion order, which stands for the order by
  \<open>joinedAt\<close>, \<open>assignedAt\<close> and \<open>createdAt\<close>.
\<close>

section \<open>Rows\<close>

record account_row =
  ua_id :: string
  ua_email :: string
  ua_displayName :: string
  ua_status :: string
  ua_platformAdministrator :: bool
  ua_externalPlatformAdministrator :: bool

record scope_department =
  sd_id :: string
  sd_name :: string
  sd_status :: string

record scope_project =
  sp_id :: string
  sp_departmentId :: string
  sp_name :: string
  sp_deleted :: bool

record department_access_row =
  de_departmentId :: string
  de_userId :: string
  de_role :: department_role
  de_status :: string
  de_manualAccess :: bool
  de_externalAccessActive :: bool

record project_member_row =
  pm_projectId :: string
  pm_userId :: string
  pm_role :: project_role
  pm_manualAccess :: bool
  pm_externalAccessActive :: bool

record assignment_row =
  as_projectId :: string
  as_userId :: string
  as_role :: project_role
  as_manualAssignment :: bool
  as_externalAssignmentActive :: bool

record invitation_row =
  iv_id :: string
  iv_projectId :: string
  iv_email :: string
  iv_role :: project_role
  iv_invitedBy :: string
  iv_pending :: bool

record external_binding =
  eb_id :: string
  eb_providerId :: string
  eb_ofGroup :: bool
  eb_subjectValue :: string
  eb_scope :: authorization_scope
  eb_departmentId :: "string option"
  eb_projectId :: "string option"
  eb_roleId :: string
  eb_enabled :: bool
  eb_createdBy :: string

record external_grant =
  eg_bindingId :: string
  eg_holder :: string
  eg_lastSeenAt :: int

text \<open>\<open>xd_instanceOwners\<close> and \<open>xd_catalogOwners\<close> are the Projects and owners of the agents.\<close>

record access_db =
  xd_users :: "account_row list"
  xd_departments :: "scope_department list"
  xd_projects :: "scope_project list"
  xd_departmentMembers :: "department_access_row list"
  xd_members :: "project_member_row list"
  xd_assignments :: "assignment_row list"
  xd_invitations :: "invitation_row list"
  xd_bindings :: "external_binding list"
  xd_grants :: "external_grant list"
  xd_instanceOwners :: "(string \<times> string) list"
  xd_catalogOwners :: "(string \<times> string) list"

section \<open>Keys\<close>

definition de_key :: "department_access_row \<Rightarrow> string \<times> string" where
  "de_key r = (de_departmentId r, de_userId r)"

definition pm_key :: "project_member_row \<Rightarrow> string \<times> string" where
  "pm_key r = (pm_projectId r, pm_userId r)"

definition as_key :: "assignment_row \<Rightarrow> string \<times> string \<times> project_role" where
  "as_key r = (as_projectId r, as_userId r, as_role r)"

definition iv_key :: "invitation_row \<Rightarrow> string \<times> string" where
  "iv_key r = (iv_projectId r, iv_email r)"

definition eg_key :: "external_grant \<Rightarrow> string \<times> string" where
  "eg_key r = (eg_bindingId r, eg_holder r)"

text \<open>The unique index over the mapping of a binding.\<close>

definition eb_mapping ::
  "external_binding \<Rightarrow> string \<times> bool \<times> string \<times> authorization_scope \<times> string \<times> string \<times> string" where
  "eb_mapping b = (eb_providerId b, eb_ofGroup b, eb_subjectValue b, eb_scope b,
     case_option [] id (eb_departmentId b), case_option [] id (eb_projectId b), eb_roleId b)"

section \<open>Reading a membership\<close>

definition assignment_of :: "assignment_row \<Rightarrow> role_assignment" where
  "assignment_of a = \<lparr>ra_externalAssignmentActive = Some (as_externalAssignmentActive a),
     ra_manualAssignment = Some (as_manualAssignment a), ra_role = as_role a\<rparr>"

definition assignments_of :: "access_db \<Rightarrow> string \<Rightarrow> string \<Rightarrow> assignment_row list" where
  "assignments_of db p u = filter (\<lambda>a. as_projectId a = p \<and> as_userId a = u) (xd_assignments db)"

text \<open>The row with \<open>membershipAccessInclude\<close>.\<close>

definition membership_of :: "access_db \<Rightarrow> project_member_row \<Rightarrow> membership" where
  "membership_of db m = \<lparr>m_externalAccessActive = Some (pm_externalAccessActive m),
     m_manualAccess = Some (pm_manualAccess m), m_role = pm_role m,
     m_roleAssignments = map assignment_of (assignments_of db (pm_projectId m) (pm_userId m))\<rparr>"

definition find_member :: "access_db \<Rightarrow> string \<Rightarrow> string \<Rightarrow> project_member_row option" where
  "find_member db p u = find_unique pm_key (p, u) (xd_members db)"

lemma membership_access [simp]:
  "membershipHasAccess (membership_of db m) \<longleftrightarrow> pm_manualAccess m \<or> pm_externalAccessActive m"
  by (simp add: membershipHasAccess_def membership_of_def)

lemma membership_assigned:
  "r \<in> set (assigned_roles (membership_of db m)) \<longleftrightarrow> pm_manualAccess m \<and> r = pm_role m
     \<or> (\<exists>a\<in>set (xd_assignments db). as_projectId a = pm_projectId m \<and> as_userId a = pm_userId m
          \<and> as_role a = r \<and> (as_manualAssignment a \<or> as_externalAssignmentActive a))"
  by (auto simp: assigned_roles_iff membership_of_def assignment_of_def assignments_of_def)

lemma find_member_key: "find_member db p u = Some m \<Longrightarrow> pm_projectId m = p \<and> pm_userId m = u"
  by (auto simp: find_member_def pm_key_def dest: find_unique_key)

end
