(* ===== verification/External_Roles.thy ===== *)
theory External_Roles
  imports Member_Tables
begin

text \<open>
  \<open>auth/external-role-bindings.ts\<close>: groups of the identity provider are bound to a platform,
  Department or Project role. At every sign-in the groups of the ID token are matched against
  the bindings, the access of bindings that no longer match is taken away and that of the
  matching ones is given. \<open>ExternalRoleBindingService.replace\<close> stores a new set of bindings
  and takes away what the changed ones gave. Each is one transaction: it returns the new
  tables or throws and leaves the old ones.

  The collation of \<open>localeCompare\<close> (\<open>collate\<close>), the decoding of the payload of a token and
  the fresh identifiers are arguments.
\<close>

section \<open>The input of the settings\<close>

record binding_input =
  bi_id :: "string option"
  bi_enabled :: bool
  bi_group :: string
  bi_scope :: authorization_scope
  bi_departmentId :: "string option"
  bi_projectId :: "string option"
  bi_roleId :: string

definition lower_or_digit :: "char \<Rightarrow> bool" where
  "lower_or_digit c \<longleftrightarrow> c \<in> set ''abcdefghijklmnopqrstuvwxyz0123456789''"

definition scopedEntityIdSchema :: "string \<Rightarrow> string res" where
  "scopedEntityIdSchema s = (let t = js_trim s in
     if 2 \<le> js_length t \<and> js_length t \<le> 48 \<and> lower_or_digit (hd t) \<and> lower_or_digit (last t)
        \<and> list_all (\<lambda>c. lower_or_digit c \<or> c = CHR ''-'') t
     then Inr t else Inl SchemaError)"

text \<open>A path of non-empty segments without control characters.\<close>

definition control_char :: "char \<Rightarrow> bool" where
  "control_char c \<longleftrightarrow> of_char c < (32::nat) \<or> of_char c = (127::nat)"

definition group_path :: "string \<Rightarrow> bool" where
  "group_path s \<longleftrightarrow> prefix ''/'' s
     \<and> list_all (\<lambda>seg. seg \<noteq> [] \<and> list_all (\<lambda>c. \<not> control_char c) seg) (split_on CHR ''/'' (drop 1 s))"

definition groupSchema :: "string \<Rightarrow> string res" where
  "groupSchema s = res_bind (z_trimmed 1024 s) (\<lambda>g.
     res_bind (ensure (group_path g) SchemaError) (\<lambda>_. Inr g))"

definition scope_allows :: "binding_input \<Rightarrow> bool" where
  "scope_allows b \<longleftrightarrow>
     (bi_scope b = PLATFORM \<longrightarrow> bi_departmentId b = None \<and> bi_projectId b = None
        \<and> bi_roleId b \<in> set platformRoleIds)
   \<and> (bi_scope b = DEPARTMENT \<longrightarrow> given (bi_departmentId b) \<and> bi_projectId b = None
        \<and> bi_roleId b \<in> set departmentRoleIds)
   \<and> (bi_scope b = PROJECT \<longrightarrow> given (bi_departmentId b) \<and> given (bi_projectId b)
        \<and> bi_roleId b \<in> set builtinProjectRoleIds)"

definition canonical_group :: "binding_input \<Rightarrow> bool" where
  "canonical_group b \<longleftrightarrow> opt_all (\<lambda>p. bi_group b = p)
     (canonicalExternalRoleGroupPath (bi_scope b) (bi_departmentId b) (bi_projectId b) (bi_roleId b))"

definition externalRoleBindingInputSchema :: "binding_input \<Rightarrow> binding_input res" where
  "externalRoleBindingInputSchema b =
     res_bind (case bi_id b of None \<Rightarrow> Inr None | Some i \<Rightarrow> res_bind (z_uuid i) (\<lambda>i. Inr (Some i))) (\<lambda>i.
     res_bind (groupSchema (bi_group b)) (\<lambda>g.
     res_bind (z_nullable scopedEntityIdSchema (bi_departmentId b)) (\<lambda>d.
     res_bind (z_nullable scopedEntityIdSchema (bi_projectId b)) (\<lambda>p.
     res_bind (ensure (bi_roleId b \<in> set externalRoleIds) SchemaError) (\<lambda>_.
     (let c = b\<lparr>bi_id := i, bi_group := g, bi_departmentId := d, bi_projectId := p\<rparr> in
     res_bind (ensure (scope_allows c \<and> canonical_group c) SchemaError) (\<lambda>_. Inr c)))))))"

definition binding_input_key ::
  "binding_input \<Rightarrow> string \<times> authorization_scope \<times> string \<times> string \<times> string" where
  "binding_input_key b = (bi_group b, bi_scope b, case_option [] id (bi_departmentId b),
     case_option [] id (bi_projectId b), bi_roleId b)"

definition replaceExternalRoleBindingsSchema :: "binding_input list \<Rightarrow> binding_input list res" where
  "replaceExternalRoleBindingsSchema bs =
     res_bind (z_array externalRoleBindingInputSchema 0 500 bs) (\<lambda>bs.
     res_bind (ensure (distinct (map binding_input_key bs)) SchemaError) (\<lambda>_. Inr bs))"

section \<open>Bindings\<close>

definition corporateSsoProviderId :: string where
  "corporateSsoProviderId = ''corporate-sso''"

definition of_provider :: "external_binding \<Rightarrow> bool" where
  "of_provider b \<longleftrightarrow> eb_providerId b = corporateSsoProviderId"

definition bindingChanged :: "external_binding \<Rightarrow> binding_input \<Rightarrow> bool" where
  "bindingChanged stored inp \<longleftrightarrow> eb_subjectValue stored \<noteq> bi_group inp \<or> eb_scope stored \<noteq> bi_scope inp
     \<or> eb_departmentId stored \<noteq> bi_departmentId inp \<or> eb_projectId stored \<noteq> bi_projectId inp
     \<or> eb_roleId stored \<noteq> bi_roleId inp"

definition sameBinding :: "external_binding \<Rightarrow> binding_input \<Rightarrow> bool" where
  "sameBinding stored inp \<longleftrightarrow> eb_subjectValue stored = bi_group inp \<and> eb_scope stored = bi_scope inp
     \<and> eb_departmentId stored = bi_departmentId inp \<and> eb_projectId stored = bi_projectId inp
     \<and> eb_roleId stored = bi_roleId inp \<and> eb_enabled stored = bi_enabled inp"

definition projectRole :: "string \<Rightarrow> project_role res" where
  "projectRole roleId = of_option (PlainError (''Unsupported Project role binding: '' @ roleId @ ''.''))
     (projectRoleFromBuiltinRole (Some roleId))"

definition activation_priority :: "string \<Rightarrow> nat option" where
  "activation_priority roleId =
     (if roleId = ''ROLE_PROJECT_ADMIN'' then Some 0
      else if roleId = ''ROLE_AUDITOR'' then Some 1
      else if roleId = ''ROLE_AGENT_DEVELOPER'' then Some 2
      else if roleId = ''ROLE_REVIEWER'' then Some 3
      else if roleId = ''ROLE_USER'' then Some 4
      else None)"

definition binding_priority :: "external_binding \<Rightarrow> int" where
  "binding_priority b =
     (if eb_scope b = PROJECT then int (case_option 100 id (activation_priority (eb_roleId b))) else - 1)"

definition applied_before :: "(string \<Rightarrow> string \<Rightarrow> bool) \<Rightarrow> external_binding \<Rightarrow> external_binding \<Rightarrow> bool" where
  "applied_before collate l r \<longleftrightarrow> binding_priority l < binding_priority r
     \<or> binding_priority l = binding_priority r \<and> collate (eb_subjectValue l) (eb_subjectValue r)"

text \<open>A grant of the user for a binding that satisfies \<open>P\<close>.\<close>

definition granted :: "access_db \<Rightarrow> string \<Rightarrow> (external_binding \<Rightarrow> bool) \<Rightarrow> bool" where
  "granted db u P \<longleftrightarrow> list_ex (\<lambda>g. eg_holder g = u
     \<and> list_ex (\<lambda>b. eb_id b = eg_bindingId g \<and> P b) (xd_bindings db)) (xd_grants db)"

section \<open>Giving access\<close>

definition set_platform :: "string \<Rightarrow> bool \<Rightarrow> access_db \<Rightarrow> access_db res" where
  "set_platform u v db =
     (if find_unique ua_id u (xd_users db) = None then Inl RecordNotFound
      else Inr (db\<lparr>xd_users := update_rows (\<lambda>r. ua_id r = u)
        (\<lambda>r. r\<lparr>ua_externalPlatformAdministrator := v\<rparr>) (xd_users db)\<rparr>))"

definition department_access :: "string \<Rightarrow> string \<Rightarrow> department_role \<Rightarrow> access_db \<Rightarrow> access_db" where
  "department_access d u r db = db\<lparr>xd_departmentMembers := upsert_row de_key
     \<lparr>de_departmentId = d, de_userId = u, de_role = r, de_status = ''active'', de_manualAccess = False,
       de_externalAccessActive = True\<rparr>
     (\<lambda>m. m\<lparr>de_externalAccessActive := True, de_status := ''active''\<rparr>) (xd_departmentMembers db)\<rparr>"

definition external_member :: "string \<Rightarrow> string \<Rightarrow> project_role \<Rightarrow> access_db \<Rightarrow> access_db" where
  "external_member p u r db = db\<lparr>xd_members := upsert_row pm_key
     \<lparr>pm_projectId = p, pm_userId = u, pm_role = r, pm_manualAccess = False, pm_externalAccessActive = True\<rparr>
     (\<lambda>m. m\<lparr>pm_externalAccessActive := True\<rparr>) (xd_members db)\<rparr>"

definition external_assignment :: "string \<Rightarrow> string \<Rightarrow> project_role \<Rightarrow> access_db \<Rightarrow> access_db" where
  "external_assignment p u r db = db\<lparr>xd_assignments := upsert_row as_key
     \<lparr>as_projectId = p, as_userId = u, as_role = r, as_manualAssignment = False,
       as_externalAssignmentActive = True\<rparr>
     (\<lambda>a. a\<lparr>as_externalAssignmentActive := True\<rparr>) (xd_assignments db)\<rparr>"

text \<open>The Project of a binding must be live and belong to its Department.\<close>

definition project_in :: "access_db \<Rightarrow> string option \<Rightarrow> string option \<Rightarrow> bool" where
  "project_in db p d \<longleftrightarrow> (case p of None \<Rightarrow> False | Some p \<Rightarrow>
     (case find_unique sp_id p (xd_projects db) of None \<Rightarrow> False
      | Some r \<Rightarrow> \<not> sp_deleted r \<and> Some (sp_departmentId r) = d))"

definition applyBinding :: "external_binding \<Rightarrow> string \<Rightarrow> access_db \<Rightarrow> access_db res" where
  "applyBinding b u db = (case eb_scope b of
       PLATFORM \<Rightarrow> set_platform u True db
     | DEPARTMENT \<Rightarrow>
         res_bind (ensure (given (eb_departmentId b)) (PlainError ''Department binding is incomplete.'')) (\<lambda>_.
         Inr (department_access (the (eb_departmentId b)) u
           (if eb_roleId b = ''ROLE_DEPARTMENT_ADMIN'' then DepartmentAdministrator else DepartmentMember) db))
     | PROJECT \<Rightarrow>
         res_bind (ensure (given (eb_projectId b) \<and> given (eb_departmentId b))
           (PlainError ''Project binding is incomplete.'')) (\<lambda>_.
         res_bind (projectRole (eb_roleId b)) (\<lambda>r.
         res_bind (ensure (project_in db (eb_projectId b) (eb_departmentId b))
           (PlainError (''Project '' @ the (eb_projectId b) @ '' is not active in Department ''
             @ the (eb_departmentId b) @ ''.''))) (\<lambda>_.
         Inr (external_assignment (the (eb_projectId b)) u r
           (external_member (the (eb_projectId b)) u r db))))))"

section \<open>Taking access away\<close>

definition drop_department :: "string \<Rightarrow> string \<Rightarrow> access_db \<Rightarrow> access_db" where
  "drop_department d u db = db\<lparr>xd_departmentMembers := update_rows
     (\<lambda>m. de_departmentId m = d \<and> de_userId m = u \<and> \<not> de_manualAccess m)
     (\<lambda>m. m\<lparr>de_externalAccessActive := False\<rparr>) (xd_departmentMembers db)\<rparr>"

definition drop_assignment :: "string \<Rightarrow> string \<Rightarrow> project_role \<Rightarrow> access_db \<Rightarrow> access_db" where
  "drop_assignment p u r db = db\<lparr>xd_assignments := update_rows
     (\<lambda>a. as_projectId a = p \<and> as_userId a = u \<and> as_role a = r \<and> \<not> as_manualAssignment a)
     (\<lambda>a. a\<lparr>as_externalAssignmentActive := False\<rparr>) (xd_assignments db)\<rparr>"

definition drop_member :: "string \<Rightarrow> string \<Rightarrow> access_db \<Rightarrow> access_db" where
  "drop_member p u db = db\<lparr>xd_members := update_rows
     (\<lambda>m. pm_projectId m = p \<and> pm_userId m = u \<and> \<not> pm_manualAccess m)
     (\<lambda>m. m\<lparr>pm_externalAccessActive := False\<rparr>) (xd_members db)\<rparr>"

definition effectiveProjectRoles :: "access_db \<Rightarrow> string \<Rightarrow> string \<Rightarrow> project_role list" where
  "effectiveProjectRoles db p u = js_unique (map as_role
     (filter (\<lambda>a. as_manualAssignment a \<or> as_externalAssignmentActive a) (assignments_of db p u)))"

definition set_member_role :: "string \<Rightarrow> string \<Rightarrow> project_role \<Rightarrow> access_db \<Rightarrow> access_db" where
  "set_member_role p u r db = db\<lparr>xd_members := update_rows (\<lambda>m. pm_key m = (p, u))
     (\<lambda>m. m\<lparr>pm_role := r\<rparr>) (xd_members db)\<rparr>"

text \<open>A membership whose role is no longer assigned takes the first role that is.\<close>

definition settle_role :: "string \<Rightarrow> string \<Rightarrow> access_db \<Rightarrow> access_db" where
  "settle_role p u db = (case find_member db p u of
       None \<Rightarrow> db
     | Some m \<Rightarrow> (case effectiveProjectRoles db p u of
           [] \<Rightarrow> db
         | r # rs \<Rightarrow> if pm_role m \<in> set (r # rs) then db else set_member_role p u r db))"

definition delete_grants :: "string \<Rightarrow> string \<Rightarrow> access_db \<Rightarrow> access_db" where
  "delete_grants b u db =
     db\<lparr>xd_grants := delete_rows (\<lambda>g. eg_bindingId g = b \<and> eg_holder g = u) (xd_grants db)\<rparr>"

definition revokeGrant :: "external_binding \<Rightarrow> string \<Rightarrow> access_db \<Rightarrow> access_db res" where
  "revokeGrant b u db = (let db = delete_grants (eb_id b) u db in
     if eb_scope b = PLATFORM then
       if granted db u (\<lambda>c. eb_providerId c = eb_providerId b \<and> eb_enabled c \<and> eb_scope c = PLATFORM
            \<and> eb_roleId c = ''ROLE_PLATFORM_ADMIN'')
       then Inr db else set_platform u False db
     else if eb_scope b = DEPARTMENT \<and> given (eb_departmentId b) then
       Inr (if granted db u (\<lambda>c. eb_providerId c = eb_providerId b \<and> eb_enabled c \<and> eb_scope c = DEPARTMENT
              \<and> eb_departmentId c = eb_departmentId b)
            then db else drop_department (the (eb_departmentId b)) u db)
     else if eb_scope b \<noteq> PROJECT \<or> \<not> given (eb_projectId b) then Inr db
     else res_bind (projectRole (eb_roleId b)) (\<lambda>r.
       (let p = the (eb_projectId b);
            db = (if granted db u (\<lambda>c. eb_providerId c = eb_providerId b \<and> eb_enabled c \<and> eb_scope c = PROJECT
                      \<and> eb_projectId c = Some p \<and> eb_roleId c = eb_roleId b)
                  then db else drop_assignment p u r db);
            db = (if granted db u (\<lambda>c. eb_providerId c = eb_providerId b \<and> eb_enabled c \<and> eb_scope c = PROJECT
                      \<and> eb_projectId c = Some p)
                  then db else drop_member p u db)
        in Inr (settle_role p u db))))"

definition revokeExternalRoleBinding :: "external_binding \<Rightarrow> access_db \<Rightarrow> access_db res" where
  "revokeExternalRoleBinding b db = fold_res (\<lambda>g. revokeGrant b (eg_holder g))
     (filter (\<lambda>g. eg_bindingId g = eb_id b) (xd_grants db)) db"

section \<open>The groups of a token\<close>

text \<open>
  \<open>decode\<close> gives the JSON value of the base64url text between the first two dots, if it is
  one. The claim is not the name of a member that every object inherits.
\<close>

definition parseJwtPayload :: "(string \<Rightarrow> js option) \<Rightarrow> string \<Rightarrow> (string \<times> js) list res" where
  "parseJwtPayload decode idToken = (case split_on CHR ''.'' idToken of
       _ # encoded # _ \<Rightarrow> if encoded = [] then Inl (PlainError ''The SSO ID token is malformed.'')
         else (case decode encoded of
             Some (JObj payload) \<Rightarrow> Inr payload
           | _ \<Rightarrow> Inl (PlainError ''The SSO ID token payload is not valid JSON.''))
     | _ \<Rightarrow> Inl (PlainError ''The SSO ID token is malformed.''))"

fun string_value :: "js \<Rightarrow> string option" where
  "string_value (JStr s) = Some s"
| "string_value _ = None"

definition strings_of :: "js list \<Rightarrow> string list option" where
  "strings_of xs = (if None \<in> set (map string_value xs) then None
     else Some (map (\<lambda>x. the (string_value x)) xs))"

fun claimed_groups :: "js option \<Rightarrow> string list option" where
  "claimed_groups None = Some []"
| "claimed_groups (Some JNull) = Some []"
| "claimed_groups (Some JUndefined) = Some []"
| "claimed_groups (Some (JStr s)) = Some [s]"
| "claimed_groups (Some (JArr xs)) = strings_of xs"
| "claimed_groups (Some _) = None"

definition groupsFromVerifiedIdToken :: "(string \<Rightarrow> js option) \<Rightarrow> string \<Rightarrow> string \<Rightarrow> string list res" where
  "groupsFromVerifiedIdToken decode idToken groupClaim =
     res_bind (parseJwtPayload decode idToken) (\<lambda>payload.
     res_bind (of_option (PlainError (''OIDC claim '' @ groupClaim @ '' must be a string or string array.''))
       (claimed_groups (map_of payload groupClaim))) (\<lambda>groups.
     Inr (js_unique (filter (\<lambda>g. g \<noteq> []) (map js_trim groups)))))"

section \<open>A sign-in\<close>

definition matching :: "string list \<Rightarrow> access_db \<Rightarrow> external_binding list" where
  "matching groups db = filter (\<lambda>b. of_provider b \<and> eb_ofGroup b \<and> eb_subjectValue b \<in> set groups
     \<and> eb_enabled b) (xd_bindings db)"

text \<open>The user's grants with their bindings.\<close>

definition current_grants :: "string \<Rightarrow> access_db \<Rightarrow> external_binding list" where
  "current_grants u db = concat (map (\<lambda>g. if eg_holder g = u
       then filter (\<lambda>b. eb_id b = eg_bindingId g \<and> of_provider b) (xd_bindings db) else [])
     (xd_grants db))"

definition record_grant :: "int \<Rightarrow> string \<Rightarrow> external_binding \<Rightarrow> access_db \<Rightarrow> access_db" where
  "record_grant now u b db = db\<lparr>xd_grants := upsert_row eg_key
     \<lparr>eg_bindingId = eb_id b, eg_holder = u, eg_lastSeenAt = now\<rparr>
     (\<lambda>g. g\<lparr>eg_lastSeenAt := now\<rparr>) (xd_grants db)\<rparr>"

definition grant_binding :: "int \<Rightarrow> string \<Rightarrow> external_binding \<Rightarrow> access_db \<Rightarrow> access_db res" where
  "grant_binding now u b db = res_bind (applyBinding b u db) (\<lambda>db. Inr (record_grant now u b db))"

definition synchronize_groups ::
  "(string \<Rightarrow> string \<Rightarrow> bool) \<Rightarrow> int \<Rightarrow> string \<Rightarrow> string list \<Rightarrow> access_db \<Rightarrow> access_db res" where
  "synchronize_groups collate now u groups db =
     (let matched = matching groups db;
          ids = map eb_id matched
      in
      res_bind (fold_res (\<lambda>b. revokeGrant b u) (filter (\<lambda>b. eb_id b \<notin> set ids) (current_grants u db)) db) (\<lambda>db.
      fold_res (grant_binding now u) (sort_by (applied_before collate) matched) db))"

definition synchronizeExternalRoleBindings ::
  "(string \<Rightarrow> string \<Rightarrow> bool) \<Rightarrow> (string \<Rightarrow> js option) \<Rightarrow> int \<Rightarrow> string \<Rightarrow> string \<Rightarrow> string \<Rightarrow> access_db \<Rightarrow>
     ((string list \<times> string list) \<times> access_db) res" where
  "synchronizeExternalRoleBindings collate decode now u idToken groupClaim db =
     res_bind (groupsFromVerifiedIdToken decode idToken groupClaim) (\<lambda>groups.
     res_bind (synchronize_groups collate now u groups db) (\<lambda>db'.
     Inr ((groups, js_unique (map eb_id (matching groups db))), db')))"

section \<open>Replacing the bindings\<close>

definition validate_target :: "access_db \<Rightarrow> binding_input \<Rightarrow> unit res" where
  "validate_target db b = (case bi_scope b of
       PLATFORM \<Rightarrow> Inr ()
     | DEPARTMENT \<Rightarrow> ensure (find_unique sd_id (case_option [] id (bi_departmentId b)) (xd_departments db) \<noteq> None)
         (PlainError (''Department '' @ case_option ''null'' id (bi_departmentId b) @ '' does not exist.''))
     | PROJECT \<Rightarrow> ensure (project_in db (bi_projectId b) (bi_departmentId b))
         (PlainError (''Project '' @ case_option ''null'' id (bi_projectId b)
           @ '' does not belong to Department '' @ case_option ''null'' id (bi_departmentId b) @ ''.'')))"

definition validateTargets :: "access_db \<Rightarrow> binding_input list \<Rightarrow> unit res" where
  "validateTargets db bs = fold_res (\<lambda>b _. validate_target db b) bs ()"

definition group_bindings :: "access_db \<Rightarrow> external_binding list" where
  "group_bindings db = filter (\<lambda>b. of_provider b \<and> eb_ofGroup b) (xd_bindings db)"

text \<open>The first request for a stored binding, and whether it keeps the access it gives.\<close>

definition input_for :: "binding_input list \<Rightarrow> external_binding \<Rightarrow> binding_input option" where
  "input_for bs b = find (\<lambda>i. bi_id i = Some (eb_id b)) bs"

definition revokes :: "binding_input list \<Rightarrow> external_binding \<Rightarrow> bool" where
  "revokes bs b \<longleftrightarrow> (case input_for bs b of None \<Rightarrow> True
     | Some i \<Rightarrow> bindingChanged b i \<or> eb_enabled b \<and> \<not> bi_enabled i)"

definition requested :: "binding_input list \<Rightarrow> string \<Rightarrow> bool" where
  "requested bs i \<longleftrightarrow> i \<noteq> [] \<and> Some i \<in> set (map bi_id bs)"

text \<open>The grants of a binding go with its row.\<close>

definition delete_binding :: "string \<Rightarrow> access_db \<Rightarrow> access_db" where
  "delete_binding i db = db\<lparr>xd_bindings := delete_rows (\<lambda>b. eb_id b = i) (xd_bindings db),
     xd_grants := delete_rows (\<lambda>g. eg_bindingId g = i) (xd_grants db)\<rparr>"

definition retire_binding :: "binding_input list \<Rightarrow> external_binding \<Rightarrow> access_db \<Rightarrow> access_db res" where
  "retire_binding bs b db =
     res_bind (if revokes bs b then revokeExternalRoleBinding b db else Inr db) (\<lambda>db.
     Inr (if requested bs (eb_id b) then db else delete_binding (eb_id b) db))"

definition with_input :: "binding_input \<Rightarrow> external_binding \<Rightarrow> external_binding" where
  "with_input i b = b\<lparr>eb_subjectValue := bi_group i, eb_scope := bi_scope i,
     eb_departmentId := bi_departmentId i, eb_projectId := bi_projectId i, eb_roleId := bi_roleId i,
     eb_enabled := bi_enabled i\<rparr>"

definition created_binding :: "string \<Rightarrow> string \<Rightarrow> binding_input \<Rightarrow> external_binding" where
  "created_binding fresh actor i = \<lparr>eb_id = fresh, eb_providerId = corporateSsoProviderId, eb_ofGroup = True,
     eb_subjectValue = bi_group i, eb_scope = bi_scope i, eb_departmentId = bi_departmentId i,
     eb_projectId = bi_projectId i, eb_roleId = bi_roleId i, eb_enabled = bi_enabled i,
     eb_createdBy = actor\<rparr>"

definition update_binding :: "string \<Rightarrow> binding_input \<Rightarrow> access_db \<Rightarrow> access_db res" where
  "update_binding k i db = (case find_unique eb_id k (xd_bindings db) of
       None \<Rightarrow> Inl RecordNotFound
     | Some b \<Rightarrow> if list_ex (\<lambda>c. eb_id c \<noteq> k \<and> eb_mapping c = eb_mapping (with_input i b)) (xd_bindings db)
         then Inl UniqueViolation
         else Inr (db\<lparr>xd_bindings := update_rows (\<lambda>c. eb_id c = k) (with_input i) (xd_bindings db)\<rparr>))"

definition create_binding :: "string \<Rightarrow> string \<Rightarrow> binding_input \<Rightarrow> access_db \<Rightarrow> access_db res" where
  "create_binding fresh actor i db =
     (if list_ex (\<lambda>c. eb_id c = fresh \<or> eb_mapping c = eb_mapping (created_binding fresh actor i)) (xd_bindings db)
      then Inl UniqueViolation
      else Inr (db\<lparr>xd_bindings := xd_bindings db @ [created_binding fresh actor i]\<rparr>))"

text \<open>\<open>existing\<close> are the bindings read at the start; \<open>fresh\<close> gives the identifiers of new ones.\<close>

definition store_binding ::
  "string \<Rightarrow> external_binding list \<Rightarrow> binding_input \<times> string \<Rightarrow> access_db \<Rightarrow> access_db res" where
  "store_binding actor existing = (\<lambda>(i, fresh) db.
     (let stored = (if given (bi_id i) then find_unique eb_id (the (bi_id i)) existing else None) in
     res_bind (ensure (\<not> given (bi_id i) \<or> stored \<noteq> None)
       (PlainError (''External role binding '' @ the (bi_id i) @ '' does not exist.''))) (\<lambda>_.
     (case stored of
        None \<Rightarrow> create_binding fresh actor i db
      | Some s \<Rightarrow> if sameBinding s i then Inr db else update_binding (eb_id s) i db))))"

definition replace_bindings ::
  "string \<Rightarrow> (nat \<Rightarrow> string) \<Rightarrow> binding_input list \<Rightarrow> access_db \<Rightarrow> access_db res" where
  "replace_bindings actor fresh bs db =
     res_bind (validateTargets db bs) (\<lambda>_.
     (let existing = group_bindings db in
     res_bind (fold_res (retire_binding bs) existing db) (\<lambda>db.
     fold_res (store_binding actor existing) (zip bs (map fresh [0..<length bs])) db)))"

text \<open>The handler of the route parses the body before.\<close>

definition put_role_bindings ::
  "string \<Rightarrow> (nat \<Rightarrow> string) \<Rightarrow> binding_input list \<Rightarrow> access_db \<Rightarrow> access_db res" where
  "put_role_bindings actor fresh body db =
     res_bind (replaceExternalRoleBindingsSchema body) (\<lambda>bs. replace_bindings actor fresh bs db)"

section \<open>The list of bindings\<close>

record binding_view =
  bv_id :: string
  bv_enabled :: bool
  bv_group :: string
  bv_scope :: authorization_scope
  bv_departmentId :: "string option"
  bv_departmentName :: "string option"
  bv_projectId :: "string option"
  bv_projectName :: "string option"
  bv_roleId :: string
  bv_lastMatchedAt :: "int option"

fun scope_rank :: "authorization_scope \<Rightarrow> nat" where
  "scope_rank PLATFORM = 0"
| "scope_rank DEPARTMENT = 1"
| "scope_rank PROJECT = 2"

definition listed_before :: "(string \<Rightarrow> string \<Rightarrow> bool) \<Rightarrow> external_binding \<Rightarrow> external_binding \<Rightarrow> bool" where
  "listed_before collate l r \<longleftrightarrow> scope_rank (eb_scope l) < scope_rank (eb_scope r)
     \<or> eb_scope l = eb_scope r \<and> collate (eb_subjectValue l) (eb_subjectValue r)"

definition last_matched :: "access_db \<Rightarrow> string \<Rightarrow> int option" where
  "last_matched db i = (case map eg_lastSeenAt (filter (\<lambda>g. eg_bindingId g = i) (xd_grants db)) of
       [] \<Rightarrow> None | t # ts \<Rightarrow> Some (fold max ts t))"

definition binding_view_of :: "access_db \<Rightarrow> external_binding \<Rightarrow> binding_view" where
  "binding_view_of db b = \<lparr>bv_id = eb_id b, bv_enabled = eb_enabled b, bv_group = eb_subjectValue b,
     bv_scope = eb_scope b, bv_departmentId = eb_departmentId b,
     bv_departmentName = (case eb_departmentId b of None \<Rightarrow> None
       | Some d \<Rightarrow> map_option sd_name (find_unique sd_id d (xd_departments db))),
     bv_projectId = eb_projectId b,
     bv_projectName = (case eb_projectId b of None \<Rightarrow> None
       | Some p \<Rightarrow> map_option sp_name (find_unique sp_id p (xd_projects db))),
     bv_roleId = eb_roleId b, bv_lastMatchedAt = last_matched db (eb_id b)\<rparr>"

definition list_bindings :: "(string \<Rightarrow> string \<Rightarrow> bool) \<Rightarrow> access_db \<Rightarrow> binding_view list" where
  "list_bindings collate db =
     map (binding_view_of db) (sort_by (listed_before collate) (group_bindings db))"

end
