(* ===== verification/Project_Members.thy ===== *)
theory Project_Members
  imports External_Roles
begin

text \<open>
  The members of a Project in \<open>projects/project-service.ts\<close>: who may manage them, switching the
  active role, invitations and their acceptance, removal, the members a new Project starts with,
  and the personal Project of \<open>projects/personal-project.ts\<close>. A transaction returns the new
  tables or throws; an operation of several transactions returns its outcome and the tables
  the committed ones leave. The mailer, the job queue, \<open>toLowerCase\<close> (\<open>lower\<close>) and the fresh
  identifiers are arguments. The advisory lock and the row locks make the transactions on the
  administrators of a Project follow one another.
\<close>

section \<open>The acting user\<close>

definition require_active_user :: "string \<Rightarrow> access_db \<Rightarrow> string res" where
  "require_active_user u db =
     (case find_unique ua_id u (xd_users db) of
        None \<Rightarrow> Inl (PlainError ''The authenticated TaskLattice Relay user is unavailable.'')
      | Some r \<Rightarrow> if ua_status r = ''active'' then Inr (ua_id r)
          else Inl (PlainError ''The authenticated TaskLattice Relay user is unavailable.''))"

definition no_permission :: failure where
  "no_permission = PlainError ''You do not have permission to manage this project.''"

definition project_live :: "access_db \<Rightarrow> string \<Rightarrow> bool" where
  "project_live db p \<longleftrightarrow> (case find_unique sp_id p (xd_projects db) of
     None \<Rightarrow> False | Some r \<Rightarrow> \<not> sp_deleted r)"

definition requireRole ::
  "configured_catalog \<Rightarrow> access_db \<Rightarrow> string \<Rightarrow> string \<Rightarrow> project_role list \<Rightarrow> role_db \<Rightarrow>
     (project_role \<times> role_db) res" where
  "requireRole cat db p u allowed rdb =
     (case find_member db p u of
        None \<Rightarrow> Inl no_permission
      | Some m \<Rightarrow>
          res_bind (accessForMembership cat (membership_of db m) None rdb) (\<lambda>(v, rdb).
          res_bind (ensure (project_live db p \<and> pav_activeRole v \<in> set allowed) no_permission) (\<lambda>_.
          Inr (pav_activeRole v, rdb))))"

text \<open>A missing membership view is the \<open>undefined\<close> of a member without access.\<close>

definition member_access ::
  "configured_catalog \<Rightarrow> access_db \<Rightarrow> string \<Rightarrow> string \<Rightarrow> role_db \<Rightarrow> (project_access_view option \<times> role_db) res" where
  "member_access cat db p u rdb =
     (case find_member db p u of
        None \<Rightarrow> Inr (None, rdb)
      | Some m \<Rightarrow> if membershipHasAccess (membership_of db m)
          then res_bind (accessForMembership cat (membership_of db m) None rdb) (\<lambda>(v, rdb). Inr (Some v, rdb))
          else Inr (None, rdb))"

definition switch_role :: "string \<Rightarrow> string \<Rightarrow> project_role \<Rightarrow> access_db \<Rightarrow> access_db res" where
  "switch_role p u r db =
     (case find_member db p u of
        None \<Rightarrow> Inl (ProblemError 404 ''project_not_found'' ''Project not found.'')
      | Some m \<Rightarrow>
          res_bind (ensure (project_live db p)
            (ProblemError 404 ''project_not_found'' ''Project not found.'')) (\<lambda>_.
          res_bind (ensure (r = pm_role m \<or> r \<in> set (map as_role (assignments_of db p u)))
            (ProblemError 403 ''project_role_not_assigned''
              ''This Project role is not assigned to your Account.'')) (\<lambda>_.
          Inr (if pm_role m = r then db else set_member_role p u r db))))"

definition switchRole ::
  "configured_catalog \<Rightarrow> string \<Rightarrow> string \<Rightarrow> project_role \<Rightarrow> access_db \<Rightarrow> role_db \<Rightarrow>
     ((project_access_view option \<times> role_db) res) \<times> access_db" where
  "switchRole cat p u r db rdb = (case switch_role p u r db of
       Inl e \<Rightarrow> (Inl e, db)
     | Inr db' \<Rightarrow> (member_access cat db' p u rdb, db'))"

definition rename :: "configured_catalog \<Rightarrow> access_db \<Rightarrow> string \<Rightarrow> string \<Rightarrow> role_db \<Rightarrow> unit res" where
  "rename cat db p u rdb =
     res_bind (requireRole cat db p u [AdminRole] rdb) (\<lambda>_.
     res_bind (ensure (find_unique sp_id p (xd_projects db) \<noteq> None) (PlainError ''Project not found.'')) (\<lambda>_.
     Inl (PlainError ''Project names are immutable after creation.'')))"

section \<open>Administrators\<close>

definition lockAdministrators :: "access_db \<Rightarrow> string \<Rightarrow> string \<Rightarrow> unit res" where
  "lockAdministrators db p actor =
     (case find_member db p actor of
        None \<Rightarrow> Inl no_permission
      | Some m \<Rightarrow> ensure (activeRoleForMembership (membership_of db m) None = AdminRole) no_permission)"

definition administrators :: "access_db \<Rightarrow> string \<Rightarrow> string list" where
  "administrators db p = js_unique
     (map pm_userId (filter (\<lambda>m. pm_projectId m = p \<and> pm_role m = AdminRole) (xd_members db))
      @ map as_userId (filter (\<lambda>a. as_projectId a = p \<and> as_role a = AdminRole) (xd_assignments db)))"

definition administratorCount :: "access_db \<Rightarrow> string \<Rightarrow> nat" where
  "administratorCount db p = length (administrators db p)"

section \<open>Invitations\<close>

text \<open>The rows a user gets from an invitation or from being invited.\<close>

definition manual_member :: "string \<Rightarrow> string \<Rightarrow> project_role \<Rightarrow> access_db \<Rightarrow> access_db" where
  "manual_member p u r db = db\<lparr>xd_members := upsert_row pm_key
     \<lparr>pm_projectId = p, pm_userId = u, pm_role = r, pm_manualAccess = True, pm_externalAccessActive = False\<rparr>
     (\<lambda>m. m\<lparr>pm_manualAccess := True\<rparr>) (xd_members db)\<rparr>"

definition manual_assignment :: "string \<Rightarrow> string \<Rightarrow> project_role \<Rightarrow> access_db \<Rightarrow> access_db" where
  "manual_assignment p u r db = db\<lparr>xd_assignments := upsert_row as_key
     \<lparr>as_projectId = p, as_userId = u, as_role = r, as_manualAssignment = True,
       as_externalAssignmentActive = False\<rparr>
     (\<lambda>a. a\<lparr>as_manualAssignment := True\<rparr>) (xd_assignments db)\<rparr>"

definition add_member :: "string \<Rightarrow> string \<Rightarrow> project_role \<Rightarrow> access_db \<Rightarrow> access_db" where
  "add_member p u r db = manual_assignment p u r (manual_member p u r db)"

definition accept_invitation :: "string \<Rightarrow> invitation_row \<Rightarrow> access_db \<Rightarrow> access_db res" where
  "accept_invitation u iv db =
     (let db = add_member (iv_projectId iv) u (iv_role iv) db in
      if find_unique iv_id (iv_id iv) (xd_invitations db) = None then Inl RecordNotFound
      else Inr (db\<lparr>xd_invitations := update_rows (\<lambda>i. iv_id i = iv_id iv)
        (\<lambda>i. i\<lparr>iv_pending := False\<rparr>) (xd_invitations db)\<rparr>))"

text \<open>
  One transaction for each invitation, and then a job to reconcile the runtime of its Project;
  \<open>enqueue\<close> is the failure of the queue for a Project, if it fails.
\<close>

fun accept_all ::
  "(string \<Rightarrow> failure option) \<Rightarrow> string \<Rightarrow> invitation_row list \<Rightarrow> access_db \<Rightarrow> unit res \<times> access_db" where
  "accept_all enqueue u [] db = (Inr (), db)"
| "accept_all enqueue u (iv # ivs) db = (case accept_invitation u iv db of
       Inl e \<Rightarrow> (Inl e, db)
     | Inr db' \<Rightarrow> (case enqueue (iv_projectId iv) of
           Some e \<Rightarrow> (Inl e, db')
         | None \<Rightarrow> accept_all enqueue u ivs db'))"

definition pending_invitations :: "string \<Rightarrow> access_db \<Rightarrow> invitation_row list" where
  "pending_invitations email db =
     filter (\<lambda>i. iv_email i = email \<and> iv_pending i \<and> project_live db (iv_projectId i)) (xd_invitations db)"

definition acceptPendingInvitations ::
  "(string \<Rightarrow> string) \<Rightarrow> (string \<Rightarrow> failure option) \<Rightarrow> string \<Rightarrow> access_db \<Rightarrow> string res \<times> access_db" where
  "acceptPendingInvitations lower enqueue u db =
     (case res_bind (require_active_user u db) (\<lambda>i. of_option RecordNotFound (find_unique ua_id i (xd_users db))) of
        Inl e \<Rightarrow> (Inl e, db)
      | Inr user \<Rightarrow> (case accept_all enqueue (ua_id user)
            (pending_invitations (lower (js_trim (ua_email user))) db) db of
            (Inl e, db') \<Rightarrow> (Inl e, db')
          | (Inr _, db') \<Rightarrow> (Inr (ua_id user), db')))"

text \<open>The two transactions of \<open>invite\<close>: the user exists, or an invitation is stored.\<close>

definition invite_user :: "string \<Rightarrow> string \<Rightarrow> string \<Rightarrow> project_role \<Rightarrow> access_db \<Rightarrow> access_db res" where
  "invite_user p actor u r db =
     res_bind (lockAdministrators db p actor) (\<lambda>_. Inr (add_member p u r db))"

definition store_invitation ::
  "string \<Rightarrow> string \<Rightarrow> string \<Rightarrow> string \<Rightarrow> project_role \<Rightarrow> access_db \<Rightarrow> access_db res" where
  "store_invitation fresh p actor email r db =
     res_bind (lockAdministrators db p actor) (\<lambda>_.
     (if find_unique iv_key (p, email) (xd_invitations db) = None
         \<and> find_unique iv_id fresh (xd_invitations db) \<noteq> None then Inl UniqueViolation
      else Inr (db\<lparr>xd_invitations := upsert_row iv_key
        \<lparr>iv_id = fresh, iv_projectId = p, iv_email = email, iv_role = r, iv_invitedBy = actor, iv_pending = True\<rparr>
        (\<lambda>i. i\<lparr>iv_role := r, iv_pending := True, iv_invitedBy := actor\<rparr>) (xd_invitations db)\<rparr>)))"

record member_view =
  hv_id :: string
  hv_name :: string
  hv_email :: string
  hv_roles :: "project_role list"
  hv_activeRole :: "project_role option"
  hv_active :: bool

definition local_part :: "string \<Rightarrow> string" where
  "local_part email = (let l = takeWhile (\<lambda>c. c \<noteq> CHR ''@'') email in if l = [] then email else l)"

definition member_view_of ::
  "configured_catalog \<Rightarrow> access_db \<Rightarrow> account_row \<Rightarrow> project_member_row \<Rightarrow> role_db \<Rightarrow> (member_view \<times> role_db) res" where
  "member_view_of cat db user m rdb =
     res_bind (accessForMembership cat (membership_of db m) None rdb) (\<lambda>(v, rdb).
     Inr (\<lparr>hv_id = ua_id user, hv_name = ua_displayName user, hv_email = ua_email user,
            hv_roles = pav_assignedRoles v, hv_activeRole = Some (pav_activeRole v), hv_active = True\<rparr>, rdb))"

record mailer =
  ml_configured :: "failure option"
  ml_send :: "string option"

definition invite ::
  "configured_catalog \<Rightarrow> (string \<Rightarrow> string) \<Rightarrow> (string \<Rightarrow> failure option) \<Rightarrow> mailer \<Rightarrow> string \<Rightarrow> string \<Rightarrow> string \<Rightarrow>
     string \<Rightarrow> project_role \<Rightarrow> access_db \<Rightarrow> role_db \<Rightarrow> ((member_view \<times> role_db) res) \<times> access_db" where
  "invite cat lower enqueue mail fresh p actor email r db rdb =
     (let address = lower (js_trim email) in
     (case requireRole cat db p actor [AdminRole] rdb of
        Inl e \<Rightarrow> (Inl e, db)
      | Inr (_, rdb) \<Rightarrow>
     (case find_unique ua_email address (xd_users db) of
        Some user \<Rightarrow>
          (case invite_user p actor (ua_id user) r db of
             Inl e \<Rightarrow> (Inl e, db)
           | Inr db' \<Rightarrow> (case enqueue p of
               Some e \<Rightarrow> (Inl e, db')
             | None \<Rightarrow> (res_bind (of_option RecordNotFound (find_member db' p (ua_id user))) (\<lambda>m.
                 member_view_of cat db' user m rdb), db')))
      | None \<Rightarrow>
          (case res_bind (case ml_configured mail of None \<Rightarrow> Inr () | Some e \<Rightarrow> Inl e) (\<lambda>_.
               res_bind (ensure (find_unique sp_id p (xd_projects db) \<noteq> None) (PlainError ''Project not found.'')) (\<lambda>_.
               res_bind (ensure (find_unique ua_id actor (xd_users db) \<noteq> None)
                 (PlainError ''Inviting user not found.'')) (\<lambda>_.
               store_invitation fresh p actor address r db))) of
             Inl e \<Rightarrow> (Inl e, db)
           | Inr db' \<Rightarrow> ((case ml_send mail of
                 Some reason \<Rightarrow> Inl (PlainError (''Invitation saved, but '' @ reason))
               | None \<Rightarrow> res_bind (of_option RecordNotFound
                     (find_unique iv_key (p, address) (xd_invitations db'))) (\<lambda>i.
                   Inr (\<lparr>hv_id = iv_id i, hv_name = local_part address, hv_email = address,
                     hv_roles = [r], hv_activeRole = None, hv_active = False\<rparr>, rdb))), db')))))"

section \<open>Removal\<close>

definition count_owned :: "(string \<times> string) list \<Rightarrow> string \<Rightarrow> string \<Rightarrow> nat" where
  "count_owned rows p u = count_rows (\<lambda>w. w = (p, u)) rows"

text \<open>The assignments of a member go with its row.\<close>

definition delete_member :: "string \<Rightarrow> string \<Rightarrow> access_db \<Rightarrow> access_db" where
  "delete_member p u db = db\<lparr>xd_members := delete_rows (\<lambda>m. pm_key m = (p, u)) (xd_members db),
     xd_assignments := delete_rows (\<lambda>a. as_projectId a = p \<and> as_userId a = u) (xd_assignments db)\<rparr>"

definition remove_target :: "string \<Rightarrow> string \<Rightarrow> access_db \<Rightarrow> access_db res" where
  "remove_target p u db =
     (case find_member db p u of
        None \<Rightarrow> Inl (PlainError ''Project member not found.'')
      | Some target \<Rightarrow>
          (let instances = count_owned (xd_instanceOwners db) p u;
               registered = count_owned (xd_catalogOwners db) p u
           in
           res_bind (ensure (instances = 0 \<and> registered = 0)
             (PlainError (''Transfer the member's '' @ show_nat instances @ '' Agent Instance(s) and ''
               @ show_nat registered @ '' registered Agent(s) before removing them.''))) (\<lambda>_.
           res_bind (ensure (\<not> (pm_role target = AdminRole
                 \<or> AdminRole \<in> set (map as_role (assignments_of db p u)))
               \<or> 1 < administratorCount db p)
             (PlainError ''A project must retain at least one administrator.'')) (\<lambda>_.
           Inr (delete_member p u db)))))"

definition remove_member :: "string \<Rightarrow> string \<Rightarrow> string \<Rightarrow> access_db \<Rightarrow> access_db res" where
  "remove_member p actor memberId db =
     res_bind (lockAdministrators db p actor) (\<lambda>_.
     (let kept = delete_rows (\<lambda>i. iv_projectId i = p \<and> iv_id i = memberId) (xd_invitations db) in
      if length kept < length (xd_invitations db) then Inr (db\<lparr>xd_invitations := kept\<rparr>)
      else remove_target p memberId db))"

definition removeMember ::
  "configured_catalog \<Rightarrow> string \<Rightarrow> string \<Rightarrow> string \<Rightarrow> access_db \<Rightarrow> role_db \<Rightarrow> access_db res" where
  "removeMember cat p actor memberId db rdb =
     res_bind (requireRole cat db p actor [AdminRole] rdb) (\<lambda>_. remove_member p actor memberId db)"

section \<open>The list of members\<close>

text \<open>An auditor sees a pseudonym and a masked address.\<close>

definition auditorMemberView :: "(string \<Rightarrow> string) \<Rightarrow> member_view \<Rightarrow> member_view" where
  "auditorMemberView digest v =
     (let parts = split_on CHR ''@'' (hv_email v);
          local = hd parts;
          domain = (case parts of _ # d # _ \<Rightarrow> d | _ \<Rightarrow> [])
      in v\<lparr>hv_name := ''Project member '' @ take 8 (digest (hv_id v)),
           hv_email := (if domain = [] then ''[redacted]''
             else (if local = [] then ''*'' else take 1 local) @ ''***@'' @ domain)\<rparr>)"

fun active_members ::
  "configured_catalog \<Rightarrow> access_db \<Rightarrow> project_member_row list \<Rightarrow> role_db \<Rightarrow> (member_view list \<times> role_db) res" where
  "active_members cat db [] rdb = Inr ([], rdb)"
| "active_members cat db (m # ms) rdb =
     res_bind (of_option RecordNotFound (find_unique ua_id (pm_userId m) (xd_users db))) (\<lambda>user.
     res_bind (member_view_of cat db user m rdb) (\<lambda>(v, rdb).
     res_bind (active_members cat db ms rdb) (\<lambda>(vs, rdb). Inr (v # vs, rdb))))"

definition invited_view :: "invitation_row \<Rightarrow> member_view" where
  "invited_view i = \<lparr>hv_id = iv_id i, hv_name = local_part (iv_email i), hv_email = iv_email i,
     hv_roles = [iv_role i], hv_activeRole = None, hv_active = False\<rparr>"

definition project_members ::
  "configured_catalog \<Rightarrow> (string \<Rightarrow> string) \<Rightarrow> access_db \<Rightarrow> string \<Rightarrow> string \<Rightarrow> role_db \<Rightarrow>
     (member_view list \<times> role_db) res" where
  "project_members cat digest db p u rdb =
     res_bind (requireRole cat db p u [AdminRole, AuditorRole] rdb) (\<lambda>(viewer, rdb).
     res_bind (active_members cat db (filter (\<lambda>m. pm_projectId m = p) (xd_members db)) rdb) (\<lambda>(vs, rdb).
     (let result = vs @ map invited_view
            (filter (\<lambda>i. iv_projectId i = p \<and> iv_pending i) (xd_invitations db))
      in Inr (if viewer = AuditorRole then map (auditorMemberView digest) result else result, rdb))))"

section \<open>The Projects of a user\<close>

record project_summary =
  pr_departmentId :: string
  pr_departmentName :: string
  pr_departmentRole :: "department_role option"
  pr_id :: string
  pr_name :: string
  pr_memberCount :: nat
  pr_access :: project_access_view

text \<open>The flag of the durable memory and the avatar are left out.\<close>

definition visible_members :: "access_db \<Rightarrow> string \<Rightarrow> project_member_row list" where
  "visible_members db u = filter (\<lambda>m. pm_userId m = u \<and> (pm_manualAccess m \<or> pm_externalAccessActive m)
     \<and> project_live db (pm_projectId m)) (xd_members db)"

definition department_role_in :: "access_db \<Rightarrow> string \<Rightarrow> string \<Rightarrow> department_role option" where
  "department_role_in db d u = map_option de_role (find (\<lambda>m. de_departmentId m = d \<and> de_userId m = u
     \<and> de_status m = ''active'') (xd_departmentMembers db))"

definition project_summary_of ::
  "configured_catalog \<Rightarrow> access_db \<Rightarrow> project_member_row \<Rightarrow> role_db \<Rightarrow> (project_summary option \<times> role_db) res" where
  "project_summary_of cat db m rdb =
     (case find_unique sp_id (pm_projectId m) (xd_projects db) of
        None \<Rightarrow> Inl RecordNotFound
      | Some p \<Rightarrow> (case find_unique sd_id (sp_departmentId p) (xd_departments db) of
          None \<Rightarrow> Inl RecordNotFound
        | Some d \<Rightarrow> if sd_status d \<noteq> ''active'' then Inr (None, rdb)
            else res_bind (accessForMembership cat (membership_of db m) None rdb) (\<lambda>(v, rdb).
              Inr (Some \<lparr>pr_departmentId = sd_id d, pr_departmentName = sd_name d,
                pr_departmentRole = department_role_in db (sd_id d) (pm_userId m), pr_id = sp_id p,
                pr_name = sp_name p,
                pr_memberCount = count_rows (\<lambda>x. pm_projectId x = sp_id p
                  \<and> (pm_manualAccess x \<or> pm_externalAccessActive x)) (xd_members db),
                pr_access = v\<rparr>, rdb))))"

fun project_summaries ::
  "configured_catalog \<Rightarrow> access_db \<Rightarrow> project_member_row list \<Rightarrow> role_db \<Rightarrow> (project_summary list \<times> role_db) res" where
  "project_summaries cat db [] rdb = Inr ([], rdb)"
| "project_summaries cat db (m # ms) rdb =
     res_bind (project_summary_of cat db m rdb) (\<lambda>(v, rdb).
     res_bind (project_summaries cat db ms rdb) (\<lambda>(vs, rdb).
     Inr (case v of None \<Rightarrow> vs | Some s \<Rightarrow> s # vs, rdb)))"

definition list_projects ::
  "configured_catalog \<Rightarrow> (string \<Rightarrow> string) \<Rightarrow> (string \<Rightarrow> failure option) \<Rightarrow> string \<Rightarrow> access_db \<Rightarrow> role_db \<Rightarrow>
     ((project_summary list \<times> role_db) res) \<times> access_db" where
  "list_projects cat lower enqueue u db rdb =
     (case acceptPendingInvitations lower enqueue u db of
        (Inl e, db) \<Rightarrow> (Inl e, db)
      | (Inr i, db) \<Rightarrow> (project_summaries cat db (visible_members db i) rdb, db))"

section \<open>A request for a Project\<close>

definition resolve_project ::
  "configured_catalog \<Rightarrow> access_db \<Rightarrow> principal \<Rightarrow> string \<Rightarrow> role_db \<Rightarrow>
     ((string \<times> string \<times> project_role) \<times> role_db) res" where
  "resolve_project cat db auth pathname rdb =
     res_bind (require_active_user (au_userId auth) db) (\<lambda>u.
     res_bind (of_option (PlainError ''Project scope is required in the request path.'')
       (project_match pathname)) (\<lambda>(encoded, _).
     res_bind (decodeURIComponent encoded) (\<lambda>p.
     (let denied = PlainError ''Project not found or access denied.'' in
     (case find_member db p u of
        None \<Rightarrow> Inl denied
      | Some m \<Rightarrow>
          res_bind (ensure (membershipHasAccess (membership_of db m) \<and> project_live db p
              \<and> (case find_unique sp_id p (xd_projects db) of None \<Rightarrow> False
                 | Some r \<Rightarrow> map_option sd_status (find_unique sd_id (sp_departmentId r) (xd_departments db))
                     = Some ''active'')) denied) (\<lambda>_.
          (let selected = (case selected_role auth p of Some r \<Rightarrow> r | None \<Rightarrow> None) in
          res_bind (ensure (\<not> given (au_sessionId auth) \<or> selected \<noteq> None)
            (PlainError ''Access denied: select access for this Project and Role for the session.'')) (\<lambda>_.
          res_bind (accessForMembership cat (membership_of db m) selected rdb) (\<lambda>(v, rdb).
          Inr ((u, p, pav_activeRole v), rdb)))))))))) "

section \<open>New Projects\<close>

text \<open>
  The members and invitations of the transaction of \<open>create\<close>, and its checks of the invitations;
  the quota of the Project is in \<open>Department_Quotas\<close>.
\<close>

definition check_invitations ::
  "(string \<Rightarrow> string) \<Rightarrow> string \<Rightarrow> (string \<times> project_role) list \<Rightarrow> access_db \<Rightarrow>
     (string \<times> project_role) list res" where
  "check_invitations lower creator invs db =
     res_bind (of_option RecordNotFound (find_unique ua_id creator (xd_users db))) (\<lambda>user.
     (let normalized = map (\<lambda>(e, r). (lower (js_trim e), r)) invs in
     res_bind (ensure (distinct (map fst normalized))
       (PlainError ''Each invited email address must be unique.'')) (\<lambda>_.
     res_bind (ensure (ua_email user \<notin> set (map fst normalized))
       (PlainError ''The Project creator is already included as an administrator.'')) (\<lambda>_.
     Inr normalized))))"

definition new_member :: "string \<Rightarrow> string \<Rightarrow> project_role \<Rightarrow> access_db \<Rightarrow> access_db res" where
  "new_member p u r db =
     (case insert_row pm_key \<lparr>pm_projectId = p, pm_userId = u, pm_role = r, pm_manualAccess = True,
             pm_externalAccessActive = False\<rparr> (xd_members db) of
        None \<Rightarrow> Inl UniqueViolation
      | Some ms \<Rightarrow> (case insert_row as_key \<lparr>as_projectId = p, as_userId = u, as_role = r,
              as_manualAssignment = True, as_externalAssignmentActive = False\<rparr> (xd_assignments db) of
          None \<Rightarrow> Inl UniqueViolation
        | Some xs \<Rightarrow> Inr (db\<lparr>xd_members := ms, xd_assignments := xs\<rparr>)))"

definition invite_new :: "string \<Rightarrow> string \<Rightarrow> (string \<times> project_role) \<times> string \<Rightarrow> access_db \<Rightarrow> access_db res" where
  "invite_new p creator = (\<lambda>((email, r), fresh) db.
     (case find_unique ua_email email (xd_users db) of
        Some user \<Rightarrow> new_member p (ua_id user) r db
      | None \<Rightarrow> (case insert_row iv_id \<lparr>iv_id = fresh, iv_projectId = p, iv_email = email, iv_role = r,
              iv_invitedBy = creator, iv_pending = True\<rparr> (xd_invitations db) of
          None \<Rightarrow> Inl UniqueViolation | Some is \<Rightarrow> Inr (db\<lparr>xd_invitations := is\<rparr>))))"

definition create_members ::
  "(string \<Rightarrow> string) \<Rightarrow> (nat \<Rightarrow> string) \<Rightarrow> scope_project \<Rightarrow> string \<Rightarrow> (string \<times> project_role) list \<Rightarrow>
     access_db \<Rightarrow> access_db res" where
  "create_members lower fresh row creator invs db =
     res_bind (check_invitations lower creator invs db) (\<lambda>normalized.
     (case insert_row sp_id row (xd_projects db) of
        None \<Rightarrow> Inl UniqueViolation
      | Some ps \<Rightarrow>
          res_bind (new_member (sp_id row) creator AdminRole (db\<lparr>xd_projects := ps\<rparr>)) (\<lambda>db.
          fold_res (invite_new (sp_id row) creator) (zip normalized (map fresh [0..<length normalized])) db)))"

section \<open>The personal Project\<close>

text \<open>
  \<open>dig\<close> is the digest in hexadecimal, \<open>generated\<close> the identifier of the Project and \<open>ordinary\<close>
  says that the principal of the request is not a platform administrator.
\<close>

definition ensurePersonalProject ::
  "(string \<Rightarrow> string) \<Rightarrow> string \<Rightarrow> bool \<Rightarrow> string \<Rightarrow> access_db \<Rightarrow> (string option \<times> access_db) res" where
  "ensurePersonalProject dig generated ordinary u db =
     (if \<not> ordinary \<or> list_ex (\<lambda>m. pm_userId m = u) (xd_members db) then Inr (None, db)
      else
        res_bind (ensure (list_ex (\<lambda>r. ua_id r = u \<and> ua_status r = ''active'') (xd_users db))
          (PlainError ''Access denied: account unavailable.'')) (\<lambda>_.
        (let d = personal_department_id dig u in
         if find_unique sd_id d (xd_departments db) \<noteq> None then Inr (None, db)
         else
           (case insert_row sp_id \<lparr>sp_id = generated, sp_departmentId = d,
                   sp_name = utf8 [25105, 30340, 32, 80, 114, 111, 106, 101, 99, 116], sp_deleted = False\<rparr>
                 (xd_projects db) of
              None \<Rightarrow> Inl UniqueViolation
            | Some ps \<Rightarrow>
                res_bind (new_member generated u UserRole (db\<lparr>xd_departments := xd_departments db
                    @ [\<lparr>sd_id = d, sd_name = ''Personal '' @ take 24 (dig u), sd_status = ''active''\<rparr>],
                  xd_projects := ps\<rparr>)) (\<lambda>db. Inr (Some generated, db))))))"

end
