(* ===== verification/Access_Invariant.thy ===== *)
theory Access_Invariant
  imports Project_Members Transition_Systems
begin

text \<open>
  What the operations on access keep. Access that no person gave (a flag set by an external
  binding and no manual access beside it) is backed by a grant of an enabled binding; the role
  of a member is among its assignments. Revoking, granting, a sign-in and a new set of bindings
  each keep both.
\<close>

section \<open>Bindings that give an access\<close>

definition role_binding :: "string \<Rightarrow> project_role \<Rightarrow> external_binding \<Rightarrow> bool" where
  "role_binding p r b \<longleftrightarrow> of_provider b \<and> eb_enabled b \<and> eb_scope b = PROJECT \<and> eb_projectId b = Some p
     \<and> eb_roleId b = membershipRoleToBuiltinRole r"

definition project_binding :: "string \<Rightarrow> external_binding \<Rightarrow> bool" where
  "project_binding p b \<longleftrightarrow> of_provider b \<and> eb_enabled b \<and> eb_scope b = PROJECT \<and> eb_projectId b = Some p"

definition department_binding :: "string \<Rightarrow> external_binding \<Rightarrow> bool" where
  "department_binding d b \<longleftrightarrow> of_provider b \<and> eb_enabled b \<and> eb_scope b = DEPARTMENT \<and> eb_departmentId b = Some d"

definition platform_binding :: "external_binding \<Rightarrow> bool" where
  "platform_binding b \<longleftrightarrow> of_provider b \<and> eb_enabled b \<and> eb_scope b = PLATFORM
     \<and> eb_roleId b = ''ROLE_PLATFORM_ADMIN''"

lemmas binding_defs = role_binding_def project_binding_def department_binding_def platform_binding_def
  of_provider_def

lemma granted_iff:
  "granted db u P \<longleftrightarrow> (\<exists>g\<in>set (xd_grants db). eg_holder g = u
     \<and> (\<exists>b\<in>set (xd_bindings db). eb_id b = eg_bindingId g \<and> P b))"
  by (auto simp: granted_def list_ex_iff)

lemma granted_mono:
  assumes "granted db u P" and "\<And>b. b \<in> set (xd_bindings db) \<Longrightarrow> P b \<Longrightarrow> Q b"
  shows "granted db u Q"
  using assms unfolding granted_iff by blast

lemma granted_cong:
  "xd_grants db' = xd_grants db \<Longrightarrow> xd_bindings db' = xd_bindings db \<Longrightarrow> granted db' u P = granted db u P"
  by (simp add: granted_def)

section \<open>The invariant of external access\<close>

definition binding_scoped :: "external_binding \<Rightarrow> bool" where
  "binding_scoped b \<longleftrightarrow> of_provider b
     \<and> (eb_scope b = PLATFORM \<longrightarrow> eb_roleId b = ''ROLE_PLATFORM_ADMIN'')
     \<and> (eb_scope b = DEPARTMENT \<longrightarrow> given (eb_departmentId b))
     \<and> (eb_scope b = PROJECT \<longrightarrow> given (eb_projectId b) \<and> eb_roleId b \<in> set builtinProjectRoleIds)"

definition grants_sound :: "access_db \<Rightarrow> bool" where
  "grants_sound db \<longleftrightarrow> distinct (map eb_id (xd_bindings db))
     \<and> (\<forall>b\<in>set (xd_bindings db). binding_scoped b)
     \<and> (\<forall>g\<in>set (xd_grants db). \<exists>b\<in>set (xd_bindings db). eb_id b = eg_bindingId g \<and> eb_enabled b)"

definition users_backed :: "access_db \<Rightarrow> bool" where
  "users_backed db \<longleftrightarrow> (\<forall>r\<in>set (xd_users db). ua_externalPlatformAdministrator r
     \<longrightarrow> granted db (ua_id r) platform_binding)"

definition departments_backed :: "access_db \<Rightarrow> bool" where
  "departments_backed db \<longleftrightarrow> (\<forall>m\<in>set (xd_departmentMembers db).
     de_externalAccessActive m \<and> \<not> de_manualAccess m
     \<longrightarrow> granted db (de_userId m) (department_binding (de_departmentId m)))"

definition members_backed :: "access_db \<Rightarrow> bool" where
  "members_backed db \<longleftrightarrow> (\<forall>m\<in>set (xd_members db).
     pm_externalAccessActive m \<and> \<not> pm_manualAccess m
     \<longrightarrow> granted db (pm_userId m) (project_binding (pm_projectId m)))"

definition assignments_backed :: "access_db \<Rightarrow> bool" where
  "assignments_backed db \<longleftrightarrow> (\<forall>a\<in>set (xd_assignments db).
     as_externalAssignmentActive a \<and> \<not> as_manualAssignment a
     \<longrightarrow> granted db (as_userId a) (role_binding (as_projectId a) (as_role a)))"

lemmas backed_defs = users_backed_def departments_backed_def members_backed_def assignments_backed_def

definition external_inv :: "access_db \<Rightarrow> bool" where
  "external_inv db \<longleftrightarrow> grants_sound db \<and> users_backed db \<and> departments_backed db \<and> members_backed db
     \<and> assignments_backed db"

lemma external_invI:
  "grants_sound db \<Longrightarrow> users_backed db \<Longrightarrow> departments_backed db \<Longrightarrow> members_backed db \<Longrightarrow>
     assignments_backed db \<Longrightarrow> external_inv db"
  by (simp add: external_inv_def)

section \<open>What the operations leave alone\<close>

definition same_grants :: "access_db \<Rightarrow> access_db \<Rightarrow> bool" where
  "same_grants db db' \<longleftrightarrow> xd_grants db' = xd_grants db \<and> xd_bindings db' = xd_bindings db"

lemma same_grants_granted: "same_grants db db' \<Longrightarrow> granted db' u P = granted db u P"
  by (rule granted_cong) (simp_all add: same_grants_def)

lemma same_grants_sound: "same_grants db db' \<Longrightarrow> grants_sound db' = grants_sound db"
  by (simp add: same_grants_def grants_sound_def)

lemma set_platform_frame:
  "set_platform u v db = Inr db' \<Longrightarrow> db' = db\<lparr>xd_users := xd_users db'\<rparr>"
  by (auto simp: set_platform_def split: if_splits)

lemma projectRole_iff: "projectRole i = Inr r \<longleftrightarrow> i = membershipRoleToBuiltinRole r"
  by (simp add: projectRole_def role_names_onto)

lemma delete_grants_sel [simp]:
  "xd_users (delete_grants i u db) = xd_users db" "xd_projects (delete_grants i u db) = xd_projects db"
  "xd_departmentMembers (delete_grants i u db) = xd_departmentMembers db"
  "xd_members (delete_grants i u db) = xd_members db" "xd_assignments (delete_grants i u db) = xd_assignments db"
  "xd_bindings (delete_grants i u db) = xd_bindings db"
  by (simp_all add: delete_grants_def)

lemma drop_department_sel [simp]:
  "xd_users (drop_department e u db) = xd_users db" "xd_projects (drop_department e u db) = xd_projects db"
  "xd_members (drop_department e u db) = xd_members db" "xd_assignments (drop_department e u db) = xd_assignments db"
  "xd_bindings (drop_department e u db) = xd_bindings db" "xd_grants (drop_department e u db) = xd_grants db"
  by (simp_all add: drop_department_def)

lemma drop_assignment_sel [simp]:
  "xd_users (drop_assignment p u r db) = xd_users db" "xd_projects (drop_assignment p u r db) = xd_projects db"
  "xd_departmentMembers (drop_assignment p u r db) = xd_departmentMembers db"
  "xd_members (drop_assignment p u r db) = xd_members db"
  "xd_bindings (drop_assignment p u r db) = xd_bindings db" "xd_grants (drop_assignment p u r db) = xd_grants db"
  by (simp_all add: drop_assignment_def)

lemma drop_member_sel [simp]:
  "xd_users (drop_member p u db) = xd_users db" "xd_projects (drop_member p u db) = xd_projects db"
  "xd_departmentMembers (drop_member p u db) = xd_departmentMembers db"
  "xd_assignments (drop_member p u db) = xd_assignments db"
  "xd_bindings (drop_member p u db) = xd_bindings db" "xd_grants (drop_member p u db) = xd_grants db"
  by (simp_all add: drop_member_def)

lemma set_member_role_sel [simp]:
  "xd_users (set_member_role p u r db) = xd_users db" "xd_projects (set_member_role p u r db) = xd_projects db"
  "xd_departmentMembers (set_member_role p u r db) = xd_departmentMembers db"
  "xd_assignments (set_member_role p u r db) = xd_assignments db"
  "xd_bindings (set_member_role p u r db) = xd_bindings db" "xd_grants (set_member_role p u r db) = xd_grants db"
  by (simp_all add: set_member_role_def)

lemma settle_role_sel [simp]:
  "xd_users (settle_role p u db) = xd_users db" "xd_projects (settle_role p u db) = xd_projects db"
  "xd_departmentMembers (settle_role p u db) = xd_departmentMembers db"
  "xd_assignments (settle_role p u db) = xd_assignments db"
  "xd_bindings (settle_role p u db) = xd_bindings db" "xd_grants (settle_role p u db) = xd_grants db"
  by (auto simp: settle_role_def split: option.splits list.splits)

text \<open>The branches of \<open>revokeGrant\<close> after the grant is deleted.\<close>

definition role_left :: "external_binding \<Rightarrow> string \<Rightarrow> string \<Rightarrow> access_db \<Rightarrow> bool" where
  "role_left b p u d \<longleftrightarrow> granted d u (\<lambda>c. eb_providerId c = eb_providerId b \<and> eb_enabled c \<and> eb_scope c = PROJECT
     \<and> eb_projectId c = Some p \<and> eb_roleId c = eb_roleId b)"

definition project_left :: "external_binding \<Rightarrow> string \<Rightarrow> string \<Rightarrow> access_db \<Rightarrow> bool" where
  "project_left b p u d \<longleftrightarrow> granted d u (\<lambda>c. eb_providerId c = eb_providerId b \<and> eb_enabled c
     \<and> eb_scope c = PROJECT \<and> eb_projectId c = Some p)"

definition without_role :: "external_binding \<Rightarrow> string \<Rightarrow> string \<Rightarrow> project_role \<Rightarrow> access_db \<Rightarrow> access_db" where
  "without_role b p u r d = (if role_left b p u d then d else drop_assignment p u r d)"

definition without_member :: "external_binding \<Rightarrow> string \<Rightarrow> string \<Rightarrow> access_db \<Rightarrow> access_db" where
  "without_member b p u d = (if project_left b p u d then d else drop_member p u d)"

lemma without_role_sel [simp]:
  "xd_users (without_role b p u r db) = xd_users db" "xd_projects (without_role b p u r db) = xd_projects db"
  "xd_departmentMembers (without_role b p u r db) = xd_departmentMembers db"
  "xd_members (without_role b p u r db) = xd_members db"
  "xd_bindings (without_role b p u r db) = xd_bindings db" "xd_grants (without_role b p u r db) = xd_grants db"
  by (simp_all add: without_role_def)

lemma without_member_sel [simp]:
  "xd_users (without_member b p u db) = xd_users db" "xd_projects (without_member b p u db) = xd_projects db"
  "xd_departmentMembers (without_member b p u db) = xd_departmentMembers db"
  "xd_assignments (without_member b p u db) = xd_assignments db"
  "xd_bindings (without_member b p u db) = xd_bindings db" "xd_grants (without_member b p u db) = xd_grants db"
  by (simp_all add: without_member_def)

lemma revoke_cases:
  assumes "revokeGrant b u db = Inr db'" and "binding_scoped b"
  obtains (platform_kept) "eb_scope b = PLATFORM" "db' = delete_grants (eb_id b) u db"
      "granted db' u (\<lambda>c. eb_providerId c = eb_providerId b \<and> eb_enabled c \<and> eb_scope c = PLATFORM
         \<and> eb_roleId c = ''ROLE_PLATFORM_ADMIN'')"
    | (platform_lost) "eb_scope b = PLATFORM" "set_platform u False (delete_grants (eb_id b) u db) = Inr db'"
    | (department_kept) e where "eb_scope b = DEPARTMENT" "eb_departmentId b = Some e"
      "db' = delete_grants (eb_id b) u db"
      "granted db' u (\<lambda>c. eb_providerId c = eb_providerId b \<and> eb_enabled c \<and> eb_scope c = DEPARTMENT
         \<and> eb_departmentId c = eb_departmentId b)"
    | (department_lost) e where "eb_scope b = DEPARTMENT" "eb_departmentId b = Some e"
      "db' = drop_department e u (delete_grants (eb_id b) u db)"
    | (project) p r where "eb_scope b = PROJECT" "eb_projectId b = Some p"
      "eb_roleId b = membershipRoleToBuiltinRole r"
      "db' = settle_role p u (without_member b p u (without_role b p u r (delete_grants (eb_id b) u db)))"
proof (cases "eb_scope b")
  case PLATFORM
  let ?d = "delete_grants (eb_id b) u db"
  let ?G = "granted ?d u (\<lambda>c. eb_providerId c = eb_providerId b \<and> eb_enabled c \<and> eb_scope c = PLATFORM
      \<and> eb_roleId c = ''ROLE_PLATFORM_ADMIN'')"
  have "(if ?G then Inr ?d else set_platform u False ?d) = Inr db'"
    using assms(1) PLATFORM by (simp add: revokeGrant_def Let_def)
  then show ?thesis
    by (cases ?G) (rule platform_kept [OF PLATFORM] platform_lost [OF PLATFORM], simp_all)+
next
  case DEPARTMENT
  with assms(2) obtain e where e: "eb_departmentId b = Some e" "given (Some e)"
    by (auto simp: binding_scoped_def given_def split: option.splits)
  let ?d = "delete_grants (eb_id b) u db"
  let ?G = "granted ?d u (\<lambda>c. eb_providerId c = eb_providerId b \<and> eb_enabled c \<and> eb_scope c = DEPARTMENT
      \<and> eb_departmentId c = eb_departmentId b)"
  have "db' = (if ?G then ?d else drop_department e u ?d)"
    using assms(1) DEPARTMENT unfolding revokeGrant_def Let_def e(1)
    by (simp add: e(2) split: if_splits)
  then show ?thesis
    by (cases ?G) (rule department_kept [OF DEPARTMENT e(1)] department_lost [OF DEPARTMENT e(1)], simp_all)+
next
  case PROJECT
  with assms(2) obtain p where p: "eb_projectId b = Some p" "given (Some p)"
    by (auto simp: binding_scoped_def given_def split: option.splits)
  from assms(1) PROJECT obtain r where r: "projectRole (eb_roleId b) = Inr r"
    and "db' = settle_role p u (without_member b p u (without_role b p u r (delete_grants (eb_id b) u db)))"
    unfolding revokeGrant_def Let_def p(1)
    by (auto simp: p(2) res_simps without_role_def without_member_def role_left_def project_left_def)
  with PROJECT p(1) show ?thesis
    by (intro project) (simp_all add: projectRole_iff)
qed

lemma revoke_frame:
  assumes "revokeGrant b u db = Inr db'" and "binding_scoped b"
  shows "xd_bindings db' = xd_bindings db" and "xd_projects db' = xd_projects db"
    and "same_grants (delete_grants (eb_id b) u db) db'"
  using assms by (cases rule: revoke_cases; auto simp: same_grants_def set_platform_def split: if_splits)+

lemma granted_delete:
  assumes "granted db v P" and "\<not> granted (delete_grants i u db) v P"
  shows "v = u \<and> (\<exists>b\<in>set (xd_bindings db). eb_id b = i \<and> P b)"
  using assms by (auto simp: granted_iff delete_grants_def delete_rows_def)

text \<open>A backing that the deletion of a grant takes away was that of the binding itself.\<close>

lemma lost_backing:
  assumes "grants_sound db" and "b \<in> set (xd_bindings db)" and "granted db v P"
    and "\<not> granted (delete_grants (eb_id b) u db) v P"
  shows "v = u \<and> P b"
  using granted_delete [OF assms(3,4)] assms(1,2)
  by (auto simp: grants_sound_def distinct_map inj_on_def)

lemma delete_grants_sound: "grants_sound db \<Longrightarrow> grants_sound (delete_grants i u db)"
  by (auto simp: grants_sound_def delete_grants_def delete_rows_def)

lemma settle_role_members:
  "members_backed db \<Longrightarrow> members_backed (settle_role p u db)"
  by (auto simp: settle_role_def set_member_role_def members_backed_def set_update_rows granted_def
      split: option.splits list.splits)

section \<open>Taking access away keeps it backed\<close>

lemma revoke_keeps_users:
  assumes inv: "external_inv db" and b: "b \<in> set (xd_bindings db)" and r: "revokeGrant b u db = Inr db'"
  shows "users_backed db'"
proof -
  define d where "d = delete_grants (eb_id b) u db"
  have sound: "grants_sound db" and scoped: "binding_scoped b"
    using inv b by (auto simp: external_inv_def grants_sound_def)
  have old: "granted db (ua_id x) platform_binding"
    if "x \<in> set (xd_users d)" "ua_externalPlatformAdministrator x" for x
    using inv that by (simp add: external_inv_def users_backed_def d_def)
  have other: "granted db' v platform_binding" if "granted db v platform_binding" "v \<noteq> u \<or> eb_scope b \<noteq> PLATFORM" for v
    using lost_backing [OF sound b that(1)] that(2) same_grants_granted [OF revoke_frame(3) [OF r scoped]]
    by (auto simp: platform_binding_def)
  from r scoped show ?thesis
  proof (cases rule: revoke_cases)
    case platform_kept
    have "granted db' u platform_binding"
      by (rule granted_mono [OF platform_kept(3)])
        (use scoped in \<open>auto simp: binding_defs binding_scoped_def\<close>)
    then show ?thesis
      using old other platform_kept(2) by (auto simp: users_backed_def d_def)
  next
    case platform_lost
    then have "xd_users db' = update_rows (\<lambda>r. ua_id r = u)
        (\<lambda>r. r\<lparr>ua_externalPlatformAdministrator := False\<rparr>) (xd_users d)"
      by (auto simp: set_platform_def d_def split: if_splits)
    then show ?thesis
      using old other by (auto simp: users_backed_def set_update_rows)
  qed (use old other in \<open>auto simp: users_backed_def d_def\<close>)
qed

lemma revoke_keeps_departments:
  assumes inv: "external_inv db" and b: "b \<in> set (xd_bindings db)" and r: "revokeGrant b u db = Inr db'"
  shows "departments_backed db'"
proof -
  define d where "d = delete_grants (eb_id b) u db"
  have sound: "grants_sound db" and scoped: "binding_scoped b"
    using inv b by (auto simp: external_inv_def grants_sound_def)
  have old: "granted db (de_userId m) (department_binding (de_departmentId m))"
    if "m \<in> set (xd_departmentMembers d)" "de_externalAccessActive m" "\<not> de_manualAccess m" for m
    using inv that by (simp add: external_inv_def departments_backed_def d_def)
  have other: "granted db' v (department_binding e)"
    if "granted db v (department_binding e)" "v \<noteq> u \<or> eb_scope b \<noteq> DEPARTMENT \<or> eb_departmentId b \<noteq> Some e" for v e
    using lost_backing [OF sound b that(1)] that(2) same_grants_granted [OF revoke_frame(3) [OF r scoped]]
    by (auto simp: department_binding_def)
  from r scoped show ?thesis
  proof (cases rule: revoke_cases)
    case (department_kept e)
    have kept: "granted db' u (department_binding e)"
      by (rule granted_mono [OF department_kept(4)])
        (use scoped department_kept(2) in \<open>auto simp: binding_defs binding_scoped_def\<close>)
    have "granted db' (de_userId m) (department_binding (de_departmentId m))"
      if m: "m \<in> set (xd_departmentMembers d)" "de_externalAccessActive m" "\<not> de_manualAccess m" for m
    proof (cases "de_userId m = u \<and> de_departmentId m = e")
      case False
      then show ?thesis
        using other [OF old [OF m]] department_kept(2) by auto
    qed (use kept in auto)
    then show ?thesis
      using department_kept(3) by (simp add: departments_backed_def d_def)
  next
    case (department_lost e)
    have "granted db' (de_userId m) (department_binding (de_departmentId m))"
      if m: "m \<in> set (xd_departmentMembers d)" "de_externalAccessActive m" "\<not> de_manualAccess m"
        "\<not> (de_departmentId m = e \<and> de_userId m = u)" for m
      using other [OF old [OF m(1-3)]] m(4) department_lost(2) by auto
    moreover have "xd_departmentMembers db' = update_rows
        (\<lambda>m. de_departmentId m = e \<and> de_userId m = u \<and> \<not> de_manualAccess m)
        (\<lambda>m. m\<lparr>de_externalAccessActive := False\<rparr>) (xd_departmentMembers d)"
      by (simp add: department_lost(3) drop_department_def d_def)
    ultimately show ?thesis
      by (auto simp: departments_backed_def set_update_rows)
  next
    case platform_lost
    then have "xd_departmentMembers db' = xd_departmentMembers d"
      by (auto simp: set_platform_def d_def split: if_splits)
    with platform_lost show ?thesis
      using old other by (auto simp: departments_backed_def)
  qed (use old other in \<open>auto simp: departments_backed_def d_def\<close>)
qed

lemma project_left_sel [simp]: "project_left b p u (without_role c q v r d) = project_left b p u d"
  unfolding project_left_def by (rule granted_cong) simp_all

lemma revoke_keeps_members:
  assumes inv: "external_inv db" and b: "b \<in> set (xd_bindings db)" and r: "revokeGrant b u db = Inr db'"
  shows "members_backed db'"
proof -
  define d where "d = delete_grants (eb_id b) u db"
  have sound: "grants_sound db" and scoped: "binding_scoped b"
    using inv b by (auto simp: external_inv_def grants_sound_def)
  have old: "granted db (pm_userId m) (project_binding (pm_projectId m))"
    if "m \<in> set (xd_members d)" "pm_externalAccessActive m" "\<not> pm_manualAccess m" for m
    using inv that by (simp add: external_inv_def members_backed_def d_def)
  have other: "granted d v (project_binding p)"
    if "granted db v (project_binding p)" "v \<noteq> u \<or> eb_scope b \<noteq> PROJECT \<or> eb_projectId b \<noteq> Some p" for v p
    using lost_backing [OF sound b that(1)] that(2) by (auto simp: project_binding_def d_def)
  have same: "granted db' v P = granted d v P" for v P
    using same_grants_granted [OF revoke_frame(3) [OF r scoped]] by (simp add: d_def)
  show ?thesis
  proof (cases "eb_scope b = PROJECT")
    case False
    with r scoped have "xd_members db' = xd_members d"
      by (cases rule: revoke_cases) (auto simp: d_def set_platform_def split: if_splits)
    with False show ?thesis
      using old other by (auto simp: members_backed_def same)
  next
    case True
    with r scoped obtain p q where p: "eb_projectId b = Some p"
      and db': "db' = settle_role p u (without_member b p u (without_role b p u q d))"
      by (cases rule: revoke_cases) (auto simp: d_def)
    have backed: "granted d (pm_userId m) (project_binding (pm_projectId m))"
      if m: "m \<in> set (xd_members d)" "pm_externalAccessActive m" "\<not> pm_manualAccess m"
        and "project_left b p u d \<or> \<not> (pm_projectId m = p \<and> pm_userId m = u)" for m
    proof (cases "pm_userId m = u \<and> pm_projectId m = p")
      case True
      then have "granted d u (project_binding p)"
        using that(4) unfolding project_left_def
        by (intro granted_mono [of d u _ "project_binding p"]) (use scoped in \<open>auto simp: binding_defs binding_scoped_def\<close>)
      with True show ?thesis by simp
    next
      case False
      then show ?thesis using other [OF old [OF m]] p by auto
    qed
    have "members_backed (without_member b p u (without_role b p u q d))"
    proof (cases "project_left b p u d")
      case True
      have "granted (without_role b p u q d) v P = granted d v P" for v P
        by (rule granted_cong) simp_all
      with True backed show ?thesis by (simp add: without_member_def members_backed_def)
    next
      case False
      have "granted (drop_member p u (without_role b p u q d)) v P = granted d v P" for v P
        by (rule granted_cong) simp_all
      moreover have "xd_members (drop_member p u (without_role b p u q d)) = update_rows
          (\<lambda>m. pm_projectId m = p \<and> pm_userId m = u \<and> \<not> pm_manualAccess m)
          (\<lambda>m. m\<lparr>pm_externalAccessActive := False\<rparr>) (xd_members d)"
        by (simp add: drop_member_def)
      ultimately show ?thesis
        using False backed by (auto simp: without_member_def members_backed_def set_update_rows)
    qed
    then show ?thesis unfolding db' by (rule settle_role_members)
  qed
qed

lemma role_name_eq: "membershipRoleToBuiltinRole r = membershipRoleToBuiltinRole q \<longleftrightarrow> r = q"
  by (metis role_names_roundtrip option.inject)

lemma revoke_keeps_assignments:
  assumes inv: "external_inv db" and b: "b \<in> set (xd_bindings db)" and r: "revokeGrant b u db = Inr db'"
  shows "assignments_backed db'"
proof -
  define d where "d = delete_grants (eb_id b) u db"
  have sound: "grants_sound db" and scoped: "binding_scoped b"
    using inv b by (auto simp: external_inv_def grants_sound_def)
  have old: "granted db (as_userId a) (role_binding (as_projectId a) (as_role a))"
    if "a \<in> set (xd_assignments d)" "as_externalAssignmentActive a" "\<not> as_manualAssignment a" for a
    using inv that by (simp add: external_inv_def assignments_backed_def d_def)
  have other: "granted d v (role_binding p q)"
    if "granted db v (role_binding p q)" "v \<noteq> u \<or> \<not> role_binding p q b" for v p q
    using lost_backing [OF sound b that(1)] that(2) by (auto simp: d_def)
  have same: "granted db' v P = granted d v P" for v P
    using same_grants_granted [OF revoke_frame(3) [OF r scoped]] by (simp add: d_def)
  show ?thesis
  proof (cases "eb_scope b = PROJECT")
    case False
    with r scoped have "xd_assignments db' = xd_assignments d"
      by (cases rule: revoke_cases) (auto simp: d_def set_platform_def split: if_splits)
    with False show ?thesis
      using old other by (auto simp: assignments_backed_def same role_binding_def)
  next
    case True
    with r scoped obtain p q where p: "eb_projectId b = Some p" "eb_roleId b = membershipRoleToBuiltinRole q"
      and db': "db' = settle_role p u (without_member b p u (without_role b p u q d))"
      by (cases rule: revoke_cases) (auto simp: d_def)
    have backed: "granted d (as_userId a) (role_binding (as_projectId a) (as_role a))"
      if a: "a \<in> set (xd_assignments d)" "as_externalAssignmentActive a" "\<not> as_manualAssignment a"
        and "role_left b p u d \<or> \<not> (as_projectId a = p \<and> as_userId a = u \<and> as_role a = q)" for a
    proof (cases "as_userId a = u \<and> as_projectId a = p \<and> as_role a = q")
      case True
      then have "granted d u (role_binding p q)"
        using that(4) unfolding role_left_def
        by (intro granted_mono [of d u _ "role_binding p q"]) (use scoped p in \<open>auto simp: binding_defs binding_scoped_def\<close>)
      with True show ?thesis by simp
    next
      case False
      then show ?thesis using other [OF old [OF a]] p by (auto simp: role_binding_def role_name_eq)
    qed
    have "xd_assignments db' = (if role_left b p u d then xd_assignments d else update_rows
          (\<lambda>a. as_projectId a = p \<and> as_userId a = u \<and> as_role a = q \<and> \<not> as_manualAssignment a)
          (\<lambda>a. a\<lparr>as_externalAssignmentActive := False\<rparr>) (xd_assignments d))"
      by (simp add: db' without_role_def drop_assignment_def)
    then show ?thesis
      using backed by (auto simp: assignments_backed_def set_update_rows same split: if_splits)
  qed
qed

lemma revoke_inv:
  assumes "external_inv db" and "b \<in> set (xd_bindings db)" and "revokeGrant b u db = Inr db'"
  shows "external_inv db'"
proof (rule external_invI)
  have sound: "grants_sound db" and scoped: "binding_scoped b"
    using assms(1,2) by (auto simp: external_inv_def grants_sound_def)
  show "grants_sound db'"
    using delete_grants_sound [OF sound] same_grants_sound [OF revoke_frame(3) [OF assms(3) scoped]] by simp
qed (use assms revoke_keeps_users revoke_keeps_departments revoke_keeps_members revoke_keeps_assignments in auto)

text \<open>A loop that revokes bindings of the table.\<close>

lemma revoke_all_inv:
  assumes "fold_res (\<lambda>x. revokeGrant (f x) (h x)) xs db = Inr db'"
    and "external_inv db" and "\<forall>x\<in>set xs. f x \<in> set (xd_bindings db)"
  shows "external_inv db' \<and> xd_bindings db' = xd_bindings db \<and> xd_projects db' = xd_projects db
    \<and> xd_grants db' = filter (\<lambda>g. \<forall>x\<in>set xs. \<not> (eg_bindingId g = eb_id (f x) \<and> eg_holder g = h x)) (xd_grants db)"
  using assms
proof (induction xs arbitrary: db)
  case (Cons x xs)
  then obtain d where d: "revokeGrant (f x) (h x) db = Inr d"
    and rest: "fold_res (\<lambda>x. revokeGrant (f x) (h x)) xs d = Inr db'"
    by (auto simp: res_simps)
  have x: "f x \<in> set (xd_bindings db)" using Cons.prems by simp
  then have scoped: "binding_scoped (f x)"
    using Cons.prems(2) by (auto simp: external_inv_def grants_sound_def)
  have inv: "external_inv d" by (rule revoke_inv [OF Cons.prems(2) x d])
  have b: "xd_bindings d = xd_bindings db" by (rule revoke_frame(1) [OF d scoped])
  have p: "xd_projects d = xd_projects db" by (rule revoke_frame(2) [OF d scoped])
  have "external_inv db' \<and> xd_bindings db' = xd_bindings d \<and> xd_projects db' = xd_projects d
      \<and> xd_grants db' = filter (\<lambda>g. \<forall>x\<in>set xs. \<not> (eg_bindingId g = eb_id (f x) \<and> eg_holder g = h x)) (xd_grants d)"
    by (rule Cons.IH [OF rest inv]) (use Cons.prems(3) b in auto)
  moreover have "xd_grants d = filter (\<lambda>g. \<not> (eg_bindingId g = eb_id (f x) \<and> eg_holder g = h x)) (xd_grants db)"
    using revoke_frame(3) [OF d scoped] by (simp add: same_grants_def delete_grants_def delete_rows_def)
  ultimately show ?case using b p by (auto intro!: filter_cong)
qed simp

section \<open>Giving access keeps it backed\<close>

lemma record_grant_sel [simp]:
  "xd_users (record_grant now u b db) = xd_users db" "xd_projects (record_grant now u b db) = xd_projects db"
  "xd_departmentMembers (record_grant now u b db) = xd_departmentMembers db"
  "xd_members (record_grant now u b db) = xd_members db" "xd_assignments (record_grant now u b db) = xd_assignments db"
  "xd_bindings (record_grant now u b db) = xd_bindings db"
  by (simp_all add: record_grant_def)

lemma upsert_keys:
  assumes "\<And>x. key (f x) = key x"
  shows "key ` set (upsert_row key r f t) = insert (key r) (key ` set t)"
proof -
  have "key ` set (update_rows p f t) = key ` set t" for p
    using map_key_update [of p key f t] assms by (metis list.set_map)
  then show ?thesis
    using find_unique_None_iff [of key "key r" t] by (auto simp: upsert_row_def)
qed

text \<open>The rows after an upsert: old ones, changed or not, and the new one.\<close>

lemma upsert_rows:
  assumes "x \<in> set (upsert_row key r f t)"
  obtains (fresh) "x = r" | (kept) "x \<in> set t" "key x \<noteq> key r" | (changed) y where "y \<in> set t" "key y = key r" "x = f y"
proof (cases "find_unique key (key r) t = None")
  case True
  then have "x = r \<or> x \<in> set t \<and> key x \<noteq> key r"
    using assms by (auto simp: upsert_row_def find_unique_None_iff intro: rev_image_eqI)
  then show ?thesis using fresh kept by blast
next
  case False
  then have "\<exists>y\<in>set t. x = (if key y = key r then f y else y)"
    using assms by (auto simp: upsert_row_def set_update_rows)
  then show ?thesis using kept changed by (metis (full_types))
qed

lemma upsert_all:
  assumes "\<forall>x\<in>set t. P x" and "P r" and "\<And>y. key y = key r \<Longrightarrow> P (f y)"
  shows "\<forall>x\<in>set (upsert_row key r f t). P x"
  using assms by (auto elim!: upsert_rows)

lemma grant_keys: "eg_key ` set (xd_grants (record_grant now u b db)) = insert (eb_id b, u) (eg_key ` set (xd_grants db))"
  using upsert_keys [of eg_key "\<lambda>g. g\<lparr>eg_lastSeenAt := now\<rparr>"
      "\<lparr>eg_bindingId = eb_id b, eg_holder = u, eg_lastSeenAt = now\<rparr>" "xd_grants db"]
  by (simp add: record_grant_def eg_key_def)

lemma granted_keys:
  "granted db u P \<longleftrightarrow> (\<exists>b\<in>set (xd_bindings db). (eb_id b, u) \<in> eg_key ` set (xd_grants db) \<and> P b)"
  by (auto simp: granted_iff eg_key_def image_iff)

lemma record_grant_granted:
  "granted (record_grant now u b db) v P \<longleftrightarrow>
     granted db v P \<or> v = u \<and> (\<exists>c\<in>set (xd_bindings db). eb_id c = eb_id b \<and> P c)"
  by (auto simp: granted_keys grant_keys)

lemma apply_frame:
  assumes "applyBinding b u db = Inr db'"
  shows "same_grants db db'" and "xd_projects db' = xd_projects db"
  using assms by (auto simp: applyBinding_def set_platform_def department_access_def external_member_def
      external_assignment_def same_grants_def res_simps split: authorization_scope.splits if_splits)

lemma apply_cases:
  assumes "applyBinding b u db = Inr db'" and "binding_scoped b"
  obtains (platform) "platform_binding (b\<lparr>eb_enabled := True\<rparr>)" "set_platform u True db = Inr db'"
    | (department) e r where "department_binding e (b\<lparr>eb_enabled := True\<rparr>)" "db' = department_access e u r db"
    | (project) p r where "role_binding p r (b\<lparr>eb_enabled := True\<rparr>)"
      "project_in db (Some p) (eb_departmentId b)"
      "db' = external_assignment p u r (external_member p u r db)"
  using assms
  by (auto simp: applyBinding_def binding_scoped_def binding_defs res_simps projectRole_iff given_def
      split: authorization_scope.splits if_splits option.splits)

lemma grant_inv:
  assumes inv: "external_inv db" and b: "b \<in> set (xd_bindings db)" "eb_enabled b"
    and g: "grant_binding now u b db = Inr db'"
  shows "external_inv db'"
proof -
  have scoped: "binding_scoped b" and sound: "grants_sound db"
    using inv b(1) by (auto simp: external_inv_def grants_sound_def)
  have b': "b\<lparr>eb_enabled := True\<rparr> = b" using b(2) by simp
  from g obtain d where d: "applyBinding b u db = Inr d" and db': "db' = record_grant now u b d"
    by (auto simp: grant_binding_def res_simps)
  have same: "xd_bindings d = xd_bindings db" "xd_grants d = xd_grants db"
    using apply_frame(1) [OF d] by (simp_all add: same_grants_def)
  have mono: "granted db' v P" if "granted db v P" for v P
    using that same granted_cong [OF same(2,1)] by (simp add: db' record_grant_granted)
  have gives: "granted db' u P" if "P b" for P
    using that b(1) same by (auto simp: db' record_grant_granted)
  have "grants_sound db'"
    unfolding grants_sound_def db' record_grant_sel same(1)
  proof (intro conjI ballI)
    fix g assume "g \<in> set (xd_grants (record_grant now u b d))"
    then have "(eg_bindingId g, eg_holder g) \<in> insert (eb_id b, u) (eg_key ` set (xd_grants d))"
      unfolding grant_keys [of now u b d, symmetric] by (rule rev_image_eqI) (simp add: eg_key_def)
    then show "\<exists>b\<in>set (xd_bindings db). eb_id b = eg_bindingId g \<and> eb_enabled b"
      using sound b same by (auto simp: grants_sound_def eg_key_def)
  qed (use sound in \<open>auto simp: grants_sound_def\<close>)
  moreover have "users_backed db' \<and> departments_backed db' \<and> members_backed db' \<and> assignments_backed db'"
    using d scoped
  proof (cases rule: apply_cases)
    case platform
    then have "xd_users d = update_rows (\<lambda>r. ua_id r = u)
        (\<lambda>r. r\<lparr>ua_externalPlatformAdministrator := True\<rparr>) (xd_users db)"
      and "xd_departmentMembers d = xd_departmentMembers db" "xd_members d = xd_members db"
        "xd_assignments d = xd_assignments db"
      by (auto simp: set_platform_def split: if_splits)
    then have rows: "xd_users db' = update_rows (\<lambda>r. ua_id r = u)
        (\<lambda>r. r\<lparr>ua_externalPlatformAdministrator := True\<rparr>) (xd_users db)"
      and others: "xd_departmentMembers db' = xd_departmentMembers db" "xd_members db' = xd_members db"
        "xd_assignments db' = xd_assignments db"
      by (simp_all add: db')
    have "granted db' u platform_binding"
      using gives platform(1) by (simp only: b')
    then have "users_backed db'"
      using inv mono by (auto simp: external_inv_def users_backed_def rows set_update_rows)
    moreover have "departments_backed db'" "members_backed db'" "assignments_backed db'"
      using inv mono by (simp_all add: external_inv_def backed_defs others)
    ultimately show ?thesis by simp
  next
    case (department e r)
    have db'': "granted db' u (department_binding e)"
      using gives department(1) by (simp only: b')
    have rows: "xd_departmentMembers db' = upsert_row de_key
        \<lparr>de_departmentId = e, de_userId = u, de_role = r, de_status = ''active'', de_manualAccess = False,
          de_externalAccessActive = True\<rparr>
        (\<lambda>m. m\<lparr>de_externalAccessActive := True, de_status := ''active''\<rparr>) (xd_departmentMembers db)"
      and others: "xd_users db' = xd_users db" "xd_members db' = xd_members db"
        "xd_assignments db' = xd_assignments db"
      by (simp_all add: db' department(2) department_access_def)
    have "departments_backed db'"
      unfolding departments_backed_def rows
      by (rule upsert_all) (use inv mono db'' in \<open>auto simp: external_inv_def departments_backed_def de_key_def\<close>)
    moreover have "users_backed db'" "members_backed db'" "assignments_backed db'"
      using inv mono by (simp_all add: external_inv_def backed_defs others)
    ultimately show ?thesis by simp
  next
    case (project p r)
    have pb: "project_binding p b" "role_binding p r b"
      using project(1) unfolding b' by (simp_all add: binding_defs)
    have held: "granted db' u (project_binding p)" "granted db' u (role_binding p r)"
      using gives pb by blast+
    have rows: "xd_members db' = upsert_row pm_key
        \<lparr>pm_projectId = p, pm_userId = u, pm_role = r, pm_manualAccess = False, pm_externalAccessActive = True\<rparr>
        (\<lambda>m. m\<lparr>pm_externalAccessActive := True\<rparr>) (xd_members db)"
      "xd_assignments db' = upsert_row as_key
        \<lparr>as_projectId = p, as_userId = u, as_role = r, as_manualAssignment = False,
          as_externalAssignmentActive = True\<rparr>
        (\<lambda>a. a\<lparr>as_externalAssignmentActive := True\<rparr>) (xd_assignments db)"
      and others: "xd_users db' = xd_users db" "xd_departmentMembers db' = xd_departmentMembers db"
      by (simp_all add: db' project(3) external_member_def external_assignment_def)
    have "members_backed db'"
      unfolding members_backed_def rows
      by (rule upsert_all) (use inv mono held in \<open>auto simp: external_inv_def members_backed_def pm_key_def\<close>)
    moreover have "assignments_backed db'"
      unfolding assignments_backed_def rows
      by (rule upsert_all) (use inv mono held in \<open>auto simp: external_inv_def assignments_backed_def as_key_def\<close>)
    moreover have "users_backed db'" "departments_backed db'"
      using inv mono by (simp_all add: external_inv_def backed_defs others)
    ultimately show ?thesis by simp
  qed
  ultimately show ?thesis by (simp add: external_inv_def)
qed

lemma grant_frame:
  assumes "grant_binding now u b db = Inr db'"
  shows "xd_bindings db' = xd_bindings db" and "xd_projects db' = xd_projects db"
    and "eg_key ` set (xd_grants db') = insert (eb_id b, u) (eg_key ` set (xd_grants db))"
proof -
  from assms obtain d where d: "applyBinding b u db = Inr d" and db': "db' = record_grant now u b d"
    by (auto simp: grant_binding_def res_simps)
  show "xd_bindings db' = xd_bindings db" "xd_projects db' = xd_projects db"
    "eg_key ` set (xd_grants db') = insert (eb_id b, u) (eg_key ` set (xd_grants db))"
    using apply_frame [OF d] by (simp_all add: db' grant_keys same_grants_def)
qed

lemma grant_all_inv:
  assumes "fold_res (grant_binding now u) bs db = Inr db'" and "external_inv db"
    and "\<forall>b\<in>set bs. b \<in> set (xd_bindings db) \<and> eb_enabled b"
  shows "external_inv db' \<and> xd_bindings db' = xd_bindings db \<and> xd_projects db' = xd_projects db
    \<and> eg_key ` set (xd_grants db') = (\<lambda>b. (eb_id b, u)) ` set bs \<union> eg_key ` set (xd_grants db)"
  using assms
proof (induction bs arbitrary: db)
  case (Cons b bs)
  then obtain d where d: "grant_binding now u b db = Inr d" and rest: "fold_res (grant_binding now u) bs d = Inr db'"
    by (auto simp: res_simps)
  have inv: "external_inv d" using grant_inv [OF Cons.prems(2) _ _ d] Cons.prems(3) by simp
  have "external_inv db' \<and> xd_bindings db' = xd_bindings d \<and> xd_projects db' = xd_projects d
    \<and> eg_key ` set (xd_grants db') = (\<lambda>b. (eb_id b, u)) ` set bs \<union> eg_key ` set (xd_grants d)"
    by (rule Cons.IH [OF rest inv]) (use Cons.prems(3) grant_frame(1) [OF d] in auto)
  then show ?case using grant_frame [OF d] by auto
qed simp

section \<open>A sign-in\<close>

lemma current_grants_iff:
  "b \<in> set (current_grants u db) \<longleftrightarrow> b \<in> set (xd_bindings db) \<and> of_provider b \<and> (eb_id b, u) \<in> eg_key ` set (xd_grants db)"
  by (auto simp: current_grants_def eg_key_def split: if_splits)

lemma synchronize_inv:
  assumes inv: "external_inv db" and sync: "synchronize_groups collate now u groups db = Inr db'"
  shows "external_inv db' \<and> xd_bindings db' = xd_bindings db \<and> xd_projects db' = xd_projects db
    \<and> (\<forall>b\<in>set (xd_bindings db). (eb_id b, u) \<in> eg_key ` set (xd_grants db') \<longleftrightarrow> b \<in> set (matching groups db))"
proof -
  let ?stale = "filter (\<lambda>b. eb_id b \<notin> set (map eb_id (matching groups db))) (current_grants u db)"
  from sync obtain d where d: "fold_res (\<lambda>b. revokeGrant b u) ?stale db = Inr d"
    and rest: "fold_res (grant_binding now u) (sort_by (applied_before collate) (matching groups db)) d = Inr db'"
    by (auto simp: synchronize_groups_def Let_def res_simps)
  have one: "external_inv d \<and> xd_bindings d = xd_bindings db \<and> xd_projects d = xd_projects db
    \<and> xd_grants d = filter (\<lambda>g. \<forall>x\<in>set ?stale. \<not> (eg_bindingId g = eb_id x \<and> eg_holder g = u)) (xd_grants db)"
    by (rule revoke_all_inv [where f = "\<lambda>b. b" and h = "\<lambda>_. u", OF d inv]) (simp add: current_grants_iff)
  then have two: "external_inv db' \<and> xd_bindings db' = xd_bindings d \<and> xd_projects db' = xd_projects d
    \<and> eg_key ` set (xd_grants db') =
        (\<lambda>b. (eb_id b, u)) ` set (sort_by (applied_before collate) (matching groups db)) \<union> eg_key ` set (xd_grants d)"
    by (intro grant_all_inv [OF rest]) (auto simp: matching_def)
  have sound: "grants_sound db" using inv by (simp add: external_inv_def)
  have "(eb_id b, u) \<in> eg_key ` set (xd_grants db') \<longleftrightarrow> b \<in> set (matching groups db)"
    if b: "b \<in> set (xd_bindings db)" for b
  proof
    assume "(eb_id b, u) \<in> eg_key ` set (xd_grants db')"
    moreover have "eb_id b \<in> eb_id ` set (matching groups db)" if "(eb_id b, u) \<in> eg_key ` set (xd_grants d)"
    proof (rule ccontr)
      assume no: "eb_id b \<notin> eb_id ` set (matching groups db)"
      have old: "(eb_id b, u) \<in> eg_key ` set (xd_grants db)"
        and kept: "\<forall>x\<in>set ?stale. eb_id b \<noteq> eb_id x"
        using that one by (auto simp: eg_key_def)
      have "of_provider b"
        using sound b by (simp add: grants_sound_def binding_scoped_def)
      then have "b \<in> set ?stale"
        using no old b by (simp add: current_grants_iff)
      with kept show False by blast
    qed
    ultimately have "eb_id b \<in> eb_id ` set (matching groups db)"
      using two by auto
    then show "b \<in> set (matching groups db)"
      using sound b by (auto simp: grants_sound_def matching_def distinct_map inj_on_def)
  qed (use two in auto)
  then show ?thesis using one two by simp
qed

section \<open>A new set of bindings\<close>

definition inputs_ok :: "binding_input list \<Rightarrow> bool" where
  "inputs_ok bs \<longleftrightarrow> distinct (map bi_id (filter (\<lambda>i. given (bi_id i)) bs))
     \<and> (\<forall>i\<in>set bs. scope_allows i \<and> bi_id i \<noteq> Some [])"

lemma schema_scope:
  assumes "externalRoleBindingInputSchema b = Inr i"
  shows "scope_allows i \<and> bi_id i \<noteq> Some []"
proof -
  from assms obtain k g d p where
    k: "(case bi_id b of None \<Rightarrow> Inr None | Some i \<Rightarrow> res_bind (z_uuid i) (\<lambda>i. Inr (Some i))) = Inr k"
    and i: "i = b\<lparr>bi_id := k, bi_group := g, bi_departmentId := d, bi_projectId := p\<rparr>" "scope_allows i"
    unfolding externalRoleBindingInputSchema_def Let_def res_bind_eq_Inr by auto
  have "\<not> is_uuid []" by (simp add: is_uuid_def uuid_shape_def)
  then have "k \<noteq> Some []"
    using k by (cases "bi_id b") (auto simp: res_simps z_uuid_def split: if_splits)
  with i show ?thesis by simp
qed

lemma schema_inputs_ok:
  assumes "replaceExternalRoleBindingsSchema body = Inr bs"
    and "distinct (map bi_id (filter (\<lambda>i. given (bi_id i)) bs))"
  shows "inputs_ok bs"
proof -
  from assms(1) have parsed: "map_res externalRoleBindingInputSchema body = Inr bs"
    by (auto simp: replaceExternalRoleBindingsSchema_def z_array_def res_simps split: if_splits)
  then have "\<exists>b. externalRoleBindingInputSchema b = Inr i" if "i \<in> set bs" for i
    using map_res_all [OF parsed that] by blast
  then have "scope_allows i \<and> bi_id i \<noteq> Some []" if "i \<in> set bs" for i
    using that schema_scope by blast
  with assms(2) show ?thesis by (simp add: inputs_ok_def)
qed

text \<open>A binding without grants may be deleted, changed or added.\<close>

lemma granted_without:
  assumes "\<forall>g\<in>set (xd_grants d). eg_bindingId g \<noteq> k" and "granted d v P"
    and "xd_grants d' = xd_grants d"
    and "\<And>c. c \<in> set (xd_bindings d) \<Longrightarrow> eb_id c \<noteq> k \<Longrightarrow> c \<in> set (xd_bindings d')"
  shows "granted d' v P"
  using assms(2) unfolding granted_iff assms(3) using assms(1,4) by metis

lemma backed_mono:
  assumes "external_inv d" and "grants_sound d'" and "\<And>v P. granted d v P \<Longrightarrow> granted d' v P"
    and "xd_users d' = xd_users d" "xd_departmentMembers d' = xd_departmentMembers d"
      "xd_members d' = xd_members d" "xd_assignments d' = xd_assignments d"
  shows "external_inv d'"
  using assms by (auto simp: external_inv_def backed_defs)

lemma delete_binding_inv:
  assumes inv: "external_inv d" and none: "\<forall>g\<in>set (xd_grants d). eg_bindingId g \<noteq> k"
  shows "external_inv (delete_binding k d)" and "xd_grants (delete_binding k d) = xd_grants d"
proof -
  show g: "xd_grants (delete_binding k d) = xd_grants d"
    using none by (simp add: delete_binding_def delete_rows_def)
  have b: "xd_bindings (delete_binding k d) = filter (\<lambda>b. eb_id b \<noteq> k) (xd_bindings d)"
    by (simp add: delete_binding_def delete_rows_def)
  have "grants_sound (delete_binding k d)"
    using inv none unfolding grants_sound_def g b external_inv_def
    by (auto simp: distinct_map_filter) metis
  then show "external_inv (delete_binding k d)"
    by (rule backed_mono [OF inv])
      (use granted_without [OF none _ g] b in \<open>auto simp: delete_binding_def delete_rows_def\<close>)
qed

lemma scoped_input: "scope_allows i \<Longrightarrow> of_provider b \<Longrightarrow> binding_scoped (with_input i b)"
  by (auto simp: binding_scoped_def with_input_def scope_allows_def of_provider_def platformRoleIds_def)

lemma update_binding_inv:
  assumes inv: "external_inv d" and none: "\<forall>g\<in>set (xd_grants d). eg_bindingId g \<noteq> k"
    and i: "scope_allows i" and u: "update_binding k i d = Inr d'"
  shows "external_inv d' \<and> xd_grants d' = xd_grants d \<and> xd_projects d' = xd_projects d"
proof -
  from u have d': "d' = d\<lparr>xd_bindings := update_rows (\<lambda>c. eb_id c = k) (with_input i) (xd_bindings d)\<rparr>"
    by (auto simp: update_binding_def split: option.splits if_splits)
  have sound: "grants_sound d" using inv by (simp add: external_inv_def)
  have ids: "map eb_id (xd_bindings d') = map eb_id (xd_bindings d)"
    unfolding d' by (simp add: map_key_update with_input_def)
  have kept: "c \<in> set (xd_bindings d')" if "c \<in> set (xd_bindings d)" "eb_id c \<noteq> k" for c
    using that by (auto simp: d' set_update_rows)
  have "grants_sound d'"
    unfolding grants_sound_def
  proof (intro conjI ballI)
    show "distinct (map eb_id (xd_bindings d'))"
      using sound ids by (simp add: grants_sound_def)
    show "binding_scoped b" if "b \<in> set (xd_bindings d')" for b
      using that sound scoped_input [OF i]
      by (auto simp: d' set_update_rows grants_sound_def binding_scoped_def split: if_splits)
    show "\<exists>b\<in>set (xd_bindings d'). eb_id b = eg_bindingId g \<and> eb_enabled b" if "g \<in> set (xd_grants d')" for g
    proof -
      have g: "g \<in> set (xd_grants d)" using that by (simp add: d')
      then obtain b where "b \<in> set (xd_bindings d)" "eb_id b = eg_bindingId g" "eb_enabled b"
        using sound by (auto simp: grants_sound_def)
      with kept [of b] none g show ?thesis by auto
    qed
  qed
  then have "external_inv d'"
    by (rule backed_mono [OF inv]) (use granted_without [OF none] kept in \<open>auto simp: d'\<close>)
  then show ?thesis by (simp add: d')
qed

lemma create_binding_inv:
  assumes inv: "external_inv d" and i: "scope_allows i" and u: "create_binding fresh actor i d = Inr d'"
  shows "external_inv d' \<and> xd_grants d' = xd_grants d \<and> xd_projects d' = xd_projects d"
proof -
  from u have d': "d' = d\<lparr>xd_bindings := xd_bindings d @ [created_binding fresh actor i]\<rparr>"
    and new: "\<forall>c\<in>set (xd_bindings d). eb_id c \<noteq> fresh"
    by (auto simp: create_binding_def list_ex_iff split: if_splits)
  have "binding_scoped (created_binding fresh actor i)"
    using i by (auto simp: binding_scoped_def created_binding_def scope_allows_def of_provider_def platformRoleIds_def)
  then have "grants_sound d'"
    using inv new by (auto simp: external_inv_def grants_sound_def d' created_binding_def)
  then have "external_inv d'"
    by (rule backed_mono [OF inv]) (auto simp: d' granted_iff)
  then show ?thesis by (simp add: d')
qed

lemma retire_one:
  assumes inv: "external_inv d" and b: "b \<in> set (xd_bindings d)" and bs: "inputs_ok bs"
    and r: "retire_binding bs b d = Inr d'"
  shows "external_inv d' \<and> xd_projects d' = xd_projects d \<and> set (xd_grants d') \<subseteq> set (xd_grants d)
    \<and> (\<forall>c\<in>set (xd_bindings d). eb_id c \<noteq> eb_id b \<longrightarrow> c \<in> set (xd_bindings d'))
    \<and> (revokes bs b \<longrightarrow> (\<forall>g\<in>set (xd_grants d'). eg_bindingId g \<noteq> eb_id b))"
proof -
  from r obtain x where x: "(if revokes bs b then revokeExternalRoleBinding b d else Inr d) = Inr x"
    and d': "d' = (if requested bs (eb_id b) then x else delete_binding (eb_id b) x)"
    by (auto simp: retire_binding_def res_simps)
  let ?gs = "filter (\<lambda>g. eg_bindingId g = eb_id b) (xd_grants d)"
  have mid: "external_inv x \<and> xd_bindings x = xd_bindings d \<and> xd_projects x = xd_projects d
    \<and> set (xd_grants x) \<subseteq> set (xd_grants d)
    \<and> (revokes bs b \<longrightarrow> (\<forall>g\<in>set (xd_grants x). eg_bindingId g \<noteq> eb_id b))"
  proof (cases "revokes bs b")
    case True
    then have "fold_res (\<lambda>g. revokeGrant b (eg_holder g)) ?gs d = Inr x"
      using x by (simp add: revokeExternalRoleBinding_def)
    then have "external_inv x \<and> xd_bindings x = xd_bindings d \<and> xd_projects x = xd_projects d
      \<and> xd_grants x = filter (\<lambda>g. \<forall>y\<in>set ?gs. \<not> (eg_bindingId g = eb_id b \<and> eg_holder g = eg_holder y)) (xd_grants d)"
      by (rule revoke_all_inv [where f = "\<lambda>_. b" and h = eg_holder]) (use inv b in auto)
    then show ?thesis by auto
  qed (use x inv in auto)
  show ?thesis
  proof (cases "requested bs (eb_id b)")
    case True
    with mid d' show ?thesis by auto
  next
    case False
    have "input_for bs b = None"
    proof (rule ccontr)
      assume "input_for bs b \<noteq> None"
      then obtain i where "i \<in> set bs" "bi_id i = Some (eb_id b)"
        by (auto simp: input_for_def find_None_iff)
      with False bs show False
        by (force simp: requested_def inputs_ok_def)
    qed
    then have "revokes bs b" by (simp add: revokes_def)
    with mid have none: "\<forall>g\<in>set (xd_grants x). eg_bindingId g \<noteq> eb_id b" by blast
    have "xd_projects (delete_binding (eb_id b) x) = xd_projects x"
      "xd_bindings (delete_binding (eb_id b) x) = filter (\<lambda>c. eb_id c \<noteq> eb_id b) (xd_bindings x)"
      by (simp_all add: delete_binding_def delete_rows_def)
    with mid delete_binding_inv [OF _ none] False d' none show ?thesis by auto
  qed
qed

lemma retire_all:
  assumes "fold_res (retire_binding bs) xs d = Inr d'" and "external_inv d" and "inputs_ok bs"
    and "set xs \<subseteq> set (xd_bindings d)" and "distinct (map eb_id xs)"
  shows "external_inv d' \<and> xd_projects d' = xd_projects d \<and> set (xd_grants d') \<subseteq> set (xd_grants d)
    \<and> (\<forall>b\<in>set xs. revokes bs b \<longrightarrow> (\<forall>g\<in>set (xd_grants d'). eg_bindingId g \<noteq> eb_id b))"
  using assms
proof (induction xs arbitrary: d)
  case (Cons b xs)
  then obtain x where x: "retire_binding bs b d = Inr x" and rest: "fold_res (retire_binding bs) xs x = Inr d'"
    by (auto simp: res_simps)
  have one: "external_inv x \<and> xd_projects x = xd_projects d \<and> set (xd_grants x) \<subseteq> set (xd_grants d)
    \<and> (\<forall>c\<in>set (xd_bindings d). eb_id c \<noteq> eb_id b \<longrightarrow> c \<in> set (xd_bindings x))
    \<and> (revokes bs b \<longrightarrow> (\<forall>g\<in>set (xd_grants x). eg_bindingId g \<noteq> eb_id b))"
    using retire_one [OF Cons.prems(2) _ Cons.prems(3) x] Cons.prems(4) by simp
  have "set xs \<subseteq> set (xd_bindings x)"
  proof
    fix c assume "c \<in> set xs"
    then have "c \<in> set (xd_bindings d)" "eb_id c \<noteq> eb_id b"
      using Cons.prems(4,5) by (auto simp: image_iff)
    with one show "c \<in> set (xd_bindings x)" by blast
  qed
  then have "external_inv d' \<and> xd_projects d' = xd_projects x \<and> set (xd_grants d') \<subseteq> set (xd_grants x)
    \<and> (\<forall>b\<in>set xs. revokes bs b \<longrightarrow> (\<forall>g\<in>set (xd_grants d'). eg_bindingId g \<noteq> eb_id b))"
    using Cons.IH [OF rest] one Cons.prems(3,5) by simp
  with one show ?case by auto
qed simp

lemma store_all:
  assumes "fold_res (store_binding actor existing) ys d = Inr d'" and "external_inv d"
    and "\<forall>(i, f)\<in>set ys. scope_allows i \<and> (\<forall>s. given (bi_id i) \<longrightarrow>
      find_unique eb_id (the (bi_id i)) existing = Some s \<longrightarrow> \<not> sameBinding s i \<longrightarrow>
      (\<forall>g\<in>set (xd_grants d). eg_bindingId g \<noteq> eb_id s))"
  shows "external_inv d' \<and> xd_grants d' = xd_grants d \<and> xd_projects d' = xd_projects d"
  using assms
proof (induction ys arbitrary: d)
  case (Cons y ys)
  obtain i f where y: "y = (i, f)" by (cases y)
  from Cons.prems(1) obtain x where x: "store_binding actor existing (i, f) d = Inr x"
    and rest: "fold_res (store_binding actor existing) ys x = Inr d'"
    by (auto simp: res_simps y)
  have i: "scope_allows i" using Cons.prems(3) y by auto
  have one: "external_inv x \<and> xd_grants x = xd_grants d \<and> xd_projects x = xd_projects d"
  proof (cases "if given (bi_id i) then find_unique eb_id (the (bi_id i)) existing else None")
    case None
    then have "create_binding f actor i d = Inr x"
      using x by (auto simp: store_binding_def Let_def res_simps)
    then show ?thesis by (rule create_binding_inv [OF Cons.prems(2) i])
  next
    case (Some s)
    then have s: "given (bi_id i)" "find_unique eb_id (the (bi_id i)) existing = Some s"
      by (auto split: if_splits)
    show ?thesis
    proof (cases "sameBinding s i")
      case True
      then show ?thesis using x Some Cons.prems(2) by (auto simp: store_binding_def Let_def res_simps)
    next
      case False
      then have "update_binding (eb_id s) i d = Inr x"
        using x Some by (auto simp: store_binding_def Let_def res_simps)
      moreover have "\<forall>g\<in>set (xd_grants d). eg_bindingId g \<noteq> eb_id s"
        using Cons.prems(3) y s False by auto
      ultimately show ?thesis using update_binding_inv [OF Cons.prems(2) _ i] by blast
    qed
  qed
  then show ?case using Cons.IH [OF rest] Cons.prems(3) by auto
qed simp

lemma grant_bound:
  assumes "grants_sound db" and "g \<in> set (xd_grants db)"
  obtains b where "b \<in> set (xd_bindings db)" "eb_id b = eg_bindingId g" "eb_enabled b"
proof -
  have "\<exists>b\<in>set (xd_bindings db). eb_id b = eg_bindingId g \<and> eb_enabled b"
    using assms by (simp add: grants_sound_def)
  then show ?thesis using that by blast
qed

lemma replace_inv:
  assumes inv: "external_inv db" and bs: "inputs_ok bs" and r: "replace_bindings actor fresh bs db = Inr db'"
  shows "external_inv db' \<and> xd_projects db' = xd_projects db"
proof -
  let ?old = "group_bindings db"
  let ?ys = "zip bs (map fresh [0..<length bs])"
  from r obtain d where d: "fold_res (retire_binding bs) ?old db = Inr d"
    and s: "fold_res (store_binding actor ?old) ?ys d = Inr db'"
    by (auto simp: replace_bindings_def Let_def res_simps)
  have sound: "grants_sound db" using inv by (simp add: external_inv_def)
  have mid: "external_inv d \<and> xd_projects d = xd_projects db \<and> set (xd_grants d) \<subseteq> set (xd_grants db)
    \<and> (\<forall>b\<in>set ?old. revokes bs b \<longrightarrow> (\<forall>g\<in>set (xd_grants d). eg_bindingId g \<noteq> eb_id b))"
    by (rule retire_all [OF d inv bs])
      (use sound in \<open>auto simp: group_bindings_def grants_sound_def distinct_map_filter\<close>)
  have "\<forall>g\<in>set (xd_grants d). eg_bindingId g \<noteq> eb_id t"
    if i: "i \<in> set bs" "given (bi_id i)" "find_unique eb_id (the (bi_id i)) ?old = Some t" "\<not> sameBinding t i" for i t
  proof (cases "revokes bs t")
    case True
    with mid find_unique_in [OF i(3)] show ?thesis by blast
  next
    case False
    have id: "bi_id i = Some (eb_id t)"
      using i(2) find_unique_key [OF i(3)] by (auto simp: given_def split: option.splits)
    have "input_for bs t \<noteq> None"
      using i(1) id by (auto simp: input_for_def find_None_iff)
    then obtain j where j: "input_for bs t = Some j" by auto
    then have "j \<in> set bs" "bi_id j = Some (eb_id t)"
      by (auto simp: input_for_def find_Some_iff)
    then have "j = i"
      using bs i(1,2) id by (auto simp: inputs_ok_def distinct_map inj_on_def)
    with False j i(4) have off: "\<not> eb_enabled t"
      by (auto simp: revokes_def bindingChanged_def sameBinding_def)
    have t: "t \<in> set (xd_bindings db)"
      using find_unique_in [OF i(3)] by (simp add: group_bindings_def)
    have "eg_bindingId g \<noteq> eb_id t" if g: "g \<in> set (xd_grants db)" for g
    proof
      assume "eg_bindingId g = eb_id t"
      moreover obtain b where "b \<in> set (xd_bindings db)" "eb_id b = eg_bindingId g" "eb_enabled b"
        by (rule grant_bound [OF sound g])
      ultimately have "b = t"
        using sound t by (auto simp: grants_sound_def distinct_map inj_on_def)
      with off \<open>eb_enabled b\<close> show False by simp
    qed
    with mid show ?thesis by blast
  qed
  then have "\<forall>(i, f)\<in>set ?ys. scope_allows i \<and> (\<forall>t. given (bi_id i) \<longrightarrow>
      find_unique eb_id (the (bi_id i)) ?old = Some t \<longrightarrow> \<not> sameBinding t i \<longrightarrow>
      (\<forall>g\<in>set (xd_grants d). eg_bindingId g \<noteq> eb_id t))"
    using bs by (auto simp: inputs_ok_def dest!: set_zip_leftD)
  from store_all [OF s _ this] mid show ?thesis by simp
qed

section \<open>Operations that give manual access or change a role\<close>

text \<open>They leave the grants alone and give no external access.\<close>

definition external_members :: "access_db \<Rightarrow> (string \<times> string) set" where
  "external_members db = pm_key ` set (filter (\<lambda>m. pm_externalAccessActive m \<and> \<not> pm_manualAccess m) (xd_members db))"

definition external_roles :: "access_db \<Rightarrow> (string \<times> string \<times> project_role) set" where
  "external_roles db = as_key ` set (filter (\<lambda>a. as_externalAssignmentActive a \<and> \<not> as_manualAssignment a)
     (xd_assignments db))"

definition quiet :: "access_db \<Rightarrow> access_db \<Rightarrow> bool" where
  "quiet db db' \<longleftrightarrow> same_grants db db' \<and> xd_users db' = xd_users db
     \<and> xd_departmentMembers db' = xd_departmentMembers db
     \<and> external_members db' \<subseteq> external_members db \<and> external_roles db' \<subseteq> external_roles db"

lemma quiet_refl: "quiet db db"
  by (simp add: quiet_def same_grants_def)

lemma quiet_trans: "quiet a b \<Longrightarrow> quiet b c \<Longrightarrow> quiet a c"
  by (auto simp: quiet_def same_grants_def)

lemma members_backed_iff:
  "members_backed db \<longleftrightarrow> (\<forall>(p, u)\<in>external_members db. granted db u (project_binding p))"
  by (auto simp: members_backed_def external_members_def pm_key_def)

lemma assignments_backed_iff:
  "assignments_backed db \<longleftrightarrow> (\<forall>(p, u, r)\<in>external_roles db. granted db u (role_binding p r))"
  by (auto simp: assignments_backed_def external_roles_def as_key_def)

lemma quiet_inv:
  assumes "quiet db db'" and "external_inv db"
  shows "external_inv db'"
proof -
  have same: "same_grants db db'" using assms(1) by (simp add: quiet_def)
  show ?thesis
    using assms unfolding quiet_def external_inv_def members_backed_iff assignments_backed_iff
    by (auto simp: users_backed_def departments_backed_def same_grants_granted [OF same]
        same_grants_sound [OF same])
qed

section \<open>Roles and administrators\<close>

text \<open>The role of a member is among its assignments, in force or not.\<close>

definition role_key :: "project_member_row \<Rightarrow> string \<times> string \<times> project_role" where
  "role_key m = (pm_projectId m, pm_userId m, pm_role m)"

definition role_inv :: "access_db \<Rightarrow> bool" where
  "role_inv db \<longleftrightarrow> role_key ` set (xd_members db) \<subseteq> as_key ` set (xd_assignments db)"

definition has_admin :: "access_db \<Rightarrow> string \<Rightarrow> bool" where
  "has_admin db p \<longleftrightarrow> (\<exists>u. (p, u, AdminRole) \<in> as_key ` set (xd_assignments db))"

definition role_kept :: "access_db \<Rightarrow> access_db \<Rightarrow> bool" where
  "role_kept db db' \<longleftrightarrow> (role_inv db \<longrightarrow> role_inv db' \<and> (\<forall>p. has_admin db p \<longrightarrow> has_admin db' p))"

lemma administrators_iff:
  "u \<in> set (administrators db p) \<longleftrightarrow> (p, u, AdminRole) \<in> role_key ` set (xd_members db) \<union> as_key ` set (xd_assignments db)"
  by (force simp: administrators_def role_key_def as_key_def)

lemma administratorCount_iff: "role_inv db \<Longrightarrow> 1 \<le> administratorCount db p \<longleftrightarrow> has_admin db p"
proof -
  assume "role_inv db"
  then have "(\<exists>u. u \<in> set (administrators db p)) \<longleftrightarrow> has_admin db p"
    unfolding administrators_iff has_admin_def role_inv_def by blast
  then have "administrators db p \<noteq> [] \<longleftrightarrow> has_admin db p"
    by (metis ex_in_conv set_empty)
  then show ?thesis
    by (simp add: administratorCount_def Suc_le_eq)
qed

lemma role_kept_refl: "role_kept db db"
  by (simp add: role_kept_def)

lemma role_kept_trans: "role_kept a b \<Longrightarrow> role_kept b c \<Longrightarrow> role_kept a c"
  by (auto simp: role_kept_def)

text \<open>No assignment goes, and every role of a member that is new has an assignment.\<close>

lemma role_keptI:
  assumes "as_key ` set (xd_assignments db) \<subseteq> as_key ` set (xd_assignments db')"
    and "role_key ` set (xd_members db') \<subseteq> role_key ` set (xd_members db) \<union> as_key ` set (xd_assignments db')"
  shows "role_kept db db'"
  using assms by (auto simp: role_kept_def role_inv_def has_admin_def) blast+

lemma role_kept_same:
  "xd_members db' = xd_members db \<Longrightarrow> xd_assignments db' = xd_assignments db \<Longrightarrow> role_kept db db'"
  by (rule role_keptI) auto

lemma update_keys: "(\<And>r. p r \<Longrightarrow> key (f r) = key r) \<Longrightarrow> key ` set (update_rows p f t) = key ` set t"
  using map_key_update [of p key f t] by (metis list.set_map)

section \<open>The operations keep roles assigned\<close>

lemma effective_role:
  "r \<in> set (effectiveProjectRoles db p u) \<Longrightarrow> (p, u, r) \<in> as_key ` set (xd_assignments db)"
  by (force simp: effectiveProjectRoles_def assignments_of_def as_key_def)

lemma set_member_role_kept:
  assumes "(p, u, r) \<in> as_key ` set (xd_assignments db)"
  shows "role_kept db (set_member_role p u r db)"
  by (rule role_keptI)
    (use assms in \<open>auto simp: set_member_role_def set_update_rows role_key_def pm_key_def\<close>)

lemma settle_role_kept: "role_kept db (settle_role p u db)"
proof -
  have "role_kept db (set_member_role p u r db)" if "effectiveProjectRoles db p u = r # rs" for r rs
    using that by (intro set_member_role_kept effective_role) simp
  then show ?thesis
    by (auto simp: settle_role_def role_kept_refl split: option.splits list.splits)
qed

lemma drop_assignment_kept: "role_kept db (drop_assignment p u r db)"
  by (rule role_keptI) (simp_all add: drop_assignment_def update_keys as_key_def)

lemma drop_member_kept: "role_kept db (drop_member p u db)"
  by (rule role_keptI) (simp_all add: drop_member_def update_keys role_key_def)

lemma set_platform_kept: "set_platform u v db = Inr db' \<Longrightarrow> role_kept db db'"
  by (rule role_kept_same) (auto simp: set_platform_def split: if_splits)

lemma revoke_kept:
  assumes "revokeGrant b u db = Inr db'" and "binding_scoped b"
  shows "role_kept db db'"
proof -
  have del: "role_kept db (delete_grants (eb_id b) u db)"
    by (rule role_kept_same) simp_all
  from assms show ?thesis
  proof (cases rule: revoke_cases)
    case platform_lost
    then show ?thesis using del set_platform_kept role_kept_trans by blast
  next
    case (department_lost e)
    then show ?thesis by (auto intro: role_kept_same)
  next
    case (project p r)
    have "role_kept d (without_role b p u r d)" "role_kept d (without_member b p u d)" for d
      by (simp_all add: without_role_def without_member_def role_kept_refl drop_assignment_kept drop_member_kept)
    then show ?thesis
      unfolding project(4) using del settle_role_kept role_kept_trans by metis
  qed (use del in simp_all)
qed

lemma upsert_role_kept:
  assumes "db' = db\<lparr>xd_members := upsert_row pm_key m f (xd_members db),
      xd_assignments := upsert_row as_key a h (xd_assignments db)\<rparr>"
    and "role_key m = as_key a" and "\<And>x. role_key (f x) = role_key x" and "\<And>x. as_key (h x) = as_key x"
  shows "role_kept db db'"
proof (rule role_keptI)
  have keys: "as_key ` set (xd_assignments db') = insert (as_key a) (as_key ` set (xd_assignments db))"
    using upsert_keys [of as_key h] assms(1,4) by simp
  then show "as_key ` set (xd_assignments db) \<subseteq> as_key ` set (xd_assignments db')" by auto
  show "role_key ` set (xd_members db') \<subseteq> role_key ` set (xd_members db) \<union> as_key ` set (xd_assignments db')"
  proof
    fix k assume "k \<in> role_key ` set (xd_members db')"
    then obtain x where k: "k = role_key x" and "x \<in> set (upsert_row pm_key m f (xd_members db))"
      by (auto simp: assms(1))
    from this(2) show "k \<in> role_key ` set (xd_members db) \<union> as_key ` set (xd_assignments db')"
      by (cases rule: upsert_rows) (auto simp: k keys assms(2,3))
  qed
qed

lemma apply_kept: "applyBinding b u db = Inr db' \<Longrightarrow> role_kept db db'"
proof -
  assume a: "applyBinding b u db = Inr db'"
  have "role_kept db (external_assignment p u r (external_member p u r db))" for p r
    by (rule upsert_role_kept [where
          m = "\<lparr>pm_projectId = p, pm_userId = u, pm_role = r, pm_manualAccess = False, pm_externalAccessActive = True\<rparr>"
          and f = "\<lambda>m. m\<lparr>pm_externalAccessActive := True\<rparr>"
          and a = "\<lparr>as_projectId = p, as_userId = u, as_role = r, as_manualAssignment = False,
            as_externalAssignmentActive = True\<rparr>"
          and h = "\<lambda>a. a\<lparr>as_externalAssignmentActive := True\<rparr>"])
      (simp_all add: external_assignment_def external_member_def role_key_def as_key_def)
  moreover have "role_kept db (department_access d u r db)" for d r
    by (rule role_kept_same) (simp_all add: department_access_def)
  ultimately show ?thesis
    using a set_platform_kept by (auto simp: applyBinding_def res_simps split: authorization_scope.splits)
qed

lemma grant_kept: "grant_binding now u b db = Inr db' \<Longrightarrow> role_kept db db'"
proof -
  assume "grant_binding now u b db = Inr db'"
  then obtain d where "applyBinding b u db = Inr d" and "db' = record_grant now u b d"
    by (auto simp: grant_binding_def res_simps)
  moreover have "role_kept d (record_grant now u b d)"
    by (rule role_kept_same) simp_all
  ultimately show ?thesis
    using apply_kept role_kept_trans by blast
qed

lemma synchronize_kept:
  assumes inv: "external_inv db" and sync: "synchronize_groups collate now u groups db = Inr db'"
  shows "role_kept db db'"
proof -
  let ?stale = "filter (\<lambda>b. eb_id b \<notin> set (map eb_id (matching groups db))) (current_grants u db)"
  from sync obtain d where d: "fold_res (\<lambda>b. revokeGrant b u) ?stale db = Inr d"
    and rest: "fold_res (grant_binding now u) (sort_by (applied_before collate) (matching groups db)) d = Inr db'"
    by (auto simp: synchronize_groups_def Let_def res_simps)
  have scoped: "binding_scoped b" if "b \<in> set ?stale" for b
    using that inv by (auto simp: current_grants_iff external_inv_def grants_sound_def)
  have "role_kept db d"
    by (rule fold_res_inv [OF d]) (use scoped revoke_kept role_kept_refl role_kept_trans in metis)+
  moreover have "role_kept d db'"
    by (rule fold_res_inv [OF rest]) (use grant_kept role_kept_refl role_kept_trans in metis)+
  ultimately show ?thesis by (rule role_kept_trans)
qed

lemma retire_kept:
  assumes "retire_binding bs b db = Inr db'" and "binding_scoped b"
  shows "role_kept db db'"
proof -
  from assms(1) obtain x where x: "(if revokes bs b then revokeExternalRoleBinding b db else Inr db) = Inr x"
    and db': "db' = (if requested bs (eb_id b) then x else delete_binding (eb_id b) x)"
    by (auto simp: retire_binding_def res_simps)
  have "role_kept db x" if "revokeExternalRoleBinding b db = Inr x"
    by (rule fold_res_inv [OF that [unfolded revokeExternalRoleBinding_def]])
      (use revoke_kept [OF _ assms(2)] role_kept_refl role_kept_trans in metis)+
  then have "role_kept db x" using x role_kept_refl by (auto split: if_splits)
  moreover have "role_kept x db'"
    by (rule role_kept_same) (simp_all add: db' delete_binding_def)
  ultimately show ?thesis by (rule role_kept_trans)
qed

lemma store_kept: "store_binding actor existing y db = Inr db' \<Longrightarrow> role_kept db db'"
  by (rule role_kept_same) (auto simp: store_binding_def Let_def create_binding_def update_binding_def res_simps
      split: prod.splits option.splits if_splits)

lemma replace_kept:
  assumes inv: "external_inv db" and r: "replace_bindings actor fresh bs db = Inr db'"
  shows "role_kept db db'"
proof -
  from r obtain d where d: "fold_res (retire_binding bs) (group_bindings db) db = Inr d"
    and s: "fold_res (store_binding actor (group_bindings db)) (zip bs (map fresh [0..<length bs])) d = Inr db'"
    by (auto simp: replace_bindings_def Let_def res_simps)
  have scoped: "binding_scoped b" if "b \<in> set (group_bindings db)" for b
    using that inv by (auto simp: group_bindings_def external_inv_def grants_sound_def)
  have "role_kept db d"
    by (rule fold_res_inv [OF d]) (use scoped retire_kept role_kept_refl role_kept_trans in metis)+
  moreover have "role_kept d db'"
    by (rule fold_res_inv [OF s]) (use store_kept role_kept_refl role_kept_trans in metis)+
  ultimately show ?thesis by (rule role_kept_trans)
qed

end
