(* ===== verification/Member_Guarantees.thy ===== *)
theory Member_Guarantees
  imports Access_Invariant
begin

text \<open>
  The state machine of access: sign-ins, new sets of bindings and the operations on members as
  steps over the tables of \<open>Member_Tables\<close>. Access that no person gave is always backed by a
  grant of an enabled binding, a sign-in leaves exactly the grants of the groups of the user,
  and a Project that has an administrator keeps one; and the two defects that the counted
  administrators and the assignments out of force lead to.
\<close>

section \<open>The manual operations\<close>

definition safe :: "access_db \<Rightarrow> access_db \<Rightarrow> bool" where
  "safe db db' \<longleftrightarrow> quiet db db' \<and> role_kept db db'"

lemma safe_refl: "safe db db"
  by (simp add: safe_def quiet_refl role_kept_refl)

lemma safe_trans: "safe a b \<Longrightarrow> safe b c \<Longrightarrow> safe a c"
  by (auto simp: safe_def intro: quiet_trans role_kept_trans)

text \<open>Only the tables of members and assignments and those outside this invariant change.\<close>

lemma safe_same:
  assumes "same_grants db db'" and "xd_users db' = xd_users db" and "xd_departmentMembers db' = xd_departmentMembers db"
    and "xd_members db' = xd_members db" and "xd_assignments db' = xd_assignments db"
  shows "safe db db'"
  using assms by (simp add: safe_def quiet_def external_members_def external_roles_def role_kept_same)

lemma upsert_filter_keys:
  assumes "\<not> P r" and "\<And>x. \<not> P (f x)"
  shows "key ` set (filter P (upsert_row key r f t)) \<subseteq> key ` set (filter P t)"
  using assms by (auto elim!: upsert_rows)

lemma add_member_safe: "safe db (add_member p u r db)"
proof -
  let ?m = "\<lparr>pm_projectId = p, pm_userId = u, pm_role = r, pm_manualAccess = True, pm_externalAccessActive = False\<rparr>"
  let ?a = "\<lparr>as_projectId = p, as_userId = u, as_role = r, as_manualAssignment = True,
       as_externalAssignmentActive = False\<rparr>"
  have db': "add_member p u r db = db\<lparr>
      xd_members := upsert_row pm_key ?m (\<lambda>m. m\<lparr>pm_manualAccess := True\<rparr>) (xd_members db),
      xd_assignments := upsert_row as_key ?a (\<lambda>a. a\<lparr>as_manualAssignment := True\<rparr>) (xd_assignments db)\<rparr>"
    by (simp add: add_member_def manual_assignment_def manual_member_def)
  then have rows: "xd_members (add_member p u r db) = upsert_row pm_key ?m (\<lambda>m. m\<lparr>pm_manualAccess := True\<rparr>) (xd_members db)"
    "xd_assignments (add_member p u r db) =
       upsert_row as_key ?a (\<lambda>a. a\<lparr>as_manualAssignment := True\<rparr>) (xd_assignments db)"
    by simp_all
  have "role_kept db (add_member p u r db)"
    by (rule upsert_role_kept [OF db']) (simp_all add: role_key_def as_key_def)
  moreover have "external_members (add_member p u r db) \<subseteq> external_members db"
    unfolding external_members_def rows by (rule upsert_filter_keys) simp_all
  moreover have "external_roles (add_member p u r db) \<subseteq> external_roles db"
    unfolding external_roles_def rows by (rule upsert_filter_keys) simp_all
  ultimately show ?thesis
    by (simp add: safe_def quiet_def same_grants_def db')
qed

lemma accept_invitation_safe: "accept_invitation u iv db = Inr db' \<Longrightarrow> safe db db'"
proof -
  assume "accept_invitation u iv db = Inr db'"
  then obtain rows where "db' = (add_member (iv_projectId iv) u (iv_role iv) db)\<lparr>xd_invitations := rows\<rparr>"
    by (auto simp: accept_invitation_def Let_def split: if_splits)
  then have "safe (add_member (iv_projectId iv) u (iv_role iv) db) db'"
    by (intro safe_same) (simp_all add: same_grants_def)
  then show ?thesis using add_member_safe safe_trans by blast
qed

lemma accept_all_safe: "accept_all enqueue u ivs db = (x, db') \<Longrightarrow> safe db db'"
proof (induction ivs arbitrary: db)
  case (Cons iv ivs)
  then show ?case
    using accept_invitation_safe [of u iv db] safe_trans safe_refl
    by (auto split: sum.splits option.splits)
qed (simp add: safe_refl)

lemma acceptPendingInvitations_safe:
  "acceptPendingInvitations lower enqueue u db = (x, db') \<Longrightarrow> safe db db'"
  using accept_all_safe
  by (auto simp: acceptPendingInvitations_def safe_refl split: sum.splits prod.splits)

lemma invite_safe:
  assumes "invite cat lower enqueue mail fresh p actor email r db rdb = (x, db')"
  shows "safe db db'"
proof -
  have "safe db d" if "store_invitation fresh p actor e r db = Inr d" for e d
    using that by (intro safe_same) (auto simp: store_invitation_def same_grants_def res_simps split: if_splits)
  moreover have "safe db d" if "invite_user p actor u r db = Inr d" for u d
    using that add_member_safe by (auto simp: invite_user_def res_simps)
  ultimately show ?thesis
    using assms safe_refl
    by (auto simp: invite_def Let_def res_simps split: sum.splits option.splits prod.splits)
qed

lemma switch_role_safe: "switch_role p u r db = Inr db' \<Longrightarrow> safe db db'"
proof -
  assume "switch_role p u r db = Inr db'"
  then have "db' = db \<or> db' = set_member_role p u r db \<and> (p, u, r) \<in> as_key ` set (xd_assignments db)"
    by (auto simp: switch_role_def res_simps assignments_of_def as_key_def image_iff split: option.splits if_splits)
  moreover have "safe db (set_member_role p u r db)" if "(p, u, r) \<in> as_key ` set (xd_assignments db)"
  proof -
    have "external_members (set_member_role p u r db) \<subseteq> external_members db"
      by (auto simp: external_members_def set_member_role_def set_update_rows pm_key_def)
    moreover have "external_roles (set_member_role p u r db) = external_roles db"
      by (simp add: external_roles_def)
    ultimately show ?thesis
      using set_member_role_kept [OF that] by (simp add: safe_def quiet_def same_grants_def)
  qed
  ultimately show ?thesis using safe_refl by blast
qed

lemma new_member_safe: "new_member p u r db = Inr db' \<Longrightarrow> safe db db'"
proof -
  assume n: "new_member p u r db = Inr db'"
  let ?m = "\<lparr>pm_projectId = p, pm_userId = u, pm_role = r, pm_manualAccess = True, pm_externalAccessActive = False\<rparr>"
  let ?a = "\<lparr>as_projectId = p, as_userId = u, as_role = r, as_manualAssignment = True,
       as_externalAssignmentActive = False\<rparr>"
  from n have db': "db' = db\<lparr>xd_members := xd_members db @ [?m], xd_assignments := xd_assignments db @ [?a]\<rparr>"
    by (auto simp: new_member_def split: option.splits)
  have "role_kept db db'"
    by (rule role_keptI) (auto simp: db' role_key_def as_key_def)
  then show ?thesis
    by (auto simp: safe_def quiet_def same_grants_def external_members_def external_roles_def db')
qed

lemma invite_new_safe: "invite_new p creator y db = Inr db' \<Longrightarrow> safe db db'"
  by (auto simp: invite_new_def same_grants_def split: prod.splits option.splits
      intro: new_member_safe safe_same)

lemma create_members_safe:
  assumes "create_members lower fresh row creator invs db = Inr db'"
  shows "safe db db'"
proof -
  from assms obtain ns d where d: "new_member (sp_id row) creator AdminRole (db\<lparr>xd_projects := xd_projects db @ [row]\<rparr>) = Inr d"
    and rest: "fold_res (invite_new (sp_id row) creator) (zip ns (map fresh [0..<length ns])) d = Inr db'"
    by (auto simp: create_members_def res_simps split: option.splits)
  have "safe db (db\<lparr>xd_projects := xd_projects db @ [row]\<rparr>)"
    by (rule safe_same) (simp_all add: same_grants_def)
  moreover have "safe d db'"
    by (rule fold_res_inv [OF rest]) (use invite_new_safe safe_refl safe_trans in metis)+
  ultimately show ?thesis using new_member_safe [OF d] safe_trans by blast
qed

lemma ensurePersonalProject_safe:
  assumes "ensurePersonalProject dig generated ordinary u db = Inr (x, db')"
  shows "safe db db'"
proof -
  have "safe db d" if "new_member p v r (db\<lparr>xd_departments := ds, xd_projects := ps\<rparr>) = Inr d" for p v r ds ps d
    using safe_trans [OF safe_same new_member_safe [OF that]] by (simp add: same_grants_def)
  then show ?thesis
    using assms safe_refl
    by (auto simp: ensurePersonalProject_def Let_def res_simps split: if_splits option.splits)
qed

section \<open>Removal\<close>

lemma delete_member_quiet: "quiet db (delete_member p u db)"
  by (auto simp: quiet_def same_grants_def external_members_def external_roles_def delete_member_def delete_rows_def)

lemma assignments_admin:
  "AdminRole \<in> as_role ` set (assignments_of db p u) \<longleftrightarrow> (p, u, AdminRole) \<in> as_key ` set (xd_assignments db)"
  by (force simp: assignments_of_def as_key_def)

lemma remove_target_kept:
  assumes "remove_target p u db = Inr db'"
  shows "role_kept db db'"
  unfolding role_kept_def
proof (intro impI conjI allI)
  assume inv: "role_inv db"
  from assms obtain m where m: "find_member db p u = Some m"
    and guard: "(p, u, AdminRole) \<in> as_key ` set (xd_assignments db) \<longrightarrow> 1 < administratorCount db p"
    and db': "db' = delete_member p u db"
    by (auto simp: remove_target_def Let_def res_simps assignments_admin split: option.splits)
  have left: "k \<in> as_key ` set (xd_assignments db')" if "k \<in> as_key ` set (xd_assignments db)" "(fst k, fst (snd k)) \<noteq> (p, u)" for k
    using that by (auto simp: db' delete_member_def delete_rows_def as_key_def)
  show "role_inv db'"
    unfolding role_inv_def
  proof
    fix k assume "k \<in> role_key ` set (xd_members db')"
    then have "k \<in> role_key ` set (xd_members db)" "(fst k, fst (snd k)) \<noteq> (p, u)"
      by (auto simp: db' delete_member_def delete_rows_def role_key_def pm_key_def)
    then show "k \<in> as_key ` set (xd_assignments db')"
      using inv left [of k] unfolding role_inv_def by blast
  qed
  fix q assume "has_admin db q"
  then obtain v where v: "(q, v, AdminRole) \<in> as_key ` set (xd_assignments db)"
    by (auto simp: has_admin_def)
  show "has_admin db' q"
  proof (cases "(q, v) = (p, u)")
    case False
    then show ?thesis using left [OF v] by (auto simp: has_admin_def)
  next
    case True
    then have more: "1 < length (administrators db p)"
      using guard v by (simp add: administratorCount_def)
    have "distinct (administrators db p)" by (simp add: administrators_def)
    then have "\<not> set (administrators db p) \<subseteq> {u}"
      using more card_mono [of "{u}" "set (administrators db p)"] by (auto simp: distinct_card)
    then obtain w where w: "w \<in> set (administrators db p)" "w \<noteq> u" by auto
    then have "(p, w, AdminRole) \<in> as_key ` set (xd_assignments db)"
      using inv by (auto simp: administrators_iff role_inv_def)
    with left [of "(p, w, AdminRole)"] w(2) True show ?thesis by (auto simp: has_admin_def)
  qed
qed

lemma remove_member_safe:
  assumes "remove_member p actor v db = Inr db'"
  shows "safe db db'"
proof -
  have "safe db d" if "remove_target p v db = Inr d" for d
    using that remove_target_kept [OF that] delete_member_quiet
    by (auto simp: safe_def remove_target_def Let_def res_simps split: option.splits)
  moreover have "safe db (db\<lparr>xd_invitations := x\<rparr>)" for x
    by (rule safe_same) (simp_all add: same_grants_def)
  ultimately show ?thesis
    using assms by (auto simp: remove_member_def Let_def res_simps split: if_splits)
qed

section \<open>The state machine\<close>

text \<open>
  A new set of bindings does not name a stored binding twice; nothing else is asked of the
  input but that its schema accepts it. \<open>elsewhere\<close> is what other services do to these tables:
  users and Departments come and change, Projects are renamed in the database or marked as
  deleted and agents change owners; the flag of the platform is only set by a binding.
\<close>

inductive access_step :: "access_db \<Rightarrow> access_db \<Rightarrow> bool" where
  sign_in: "synchronizeExternalRoleBindings collate decode now u idToken groupClaim db = Inr (x, db') \<Longrightarrow>
     access_step db db'"
| new_bindings: "replaceExternalRoleBindingsSchema body = Inr bs \<Longrightarrow>
     distinct (map bi_id (filter (\<lambda>i. given (bi_id i)) bs)) \<Longrightarrow>
     replace_bindings actor fresh bs db = Inr db' \<Longrightarrow> access_step db db'"
| accepting: "acceptPendingInvitations lower enqueue u db = (y, db') \<Longrightarrow> access_step db db'"
| inviting: "invite cat lower enqueue mail i p actor email r db rdb = (z, db') \<Longrightarrow> access_step db db'"
| removing: "removeMember cat p actor v db rdb = Inr db' \<Longrightarrow> access_step db db'"
| switching: "switchRole cat p u r db rdb = (w, db') \<Longrightarrow> access_step db db'"
| creating: "create_members lower fresh row u invs db = Inr db' \<Longrightarrow> access_step db db'"
| personal: "ensurePersonalProject dig generated ordinary u db = Inr (q, db') \<Longrightarrow> access_step db db'"
| elsewhere: "(\<And>r. r \<in> set us \<Longrightarrow> ua_externalPlatformAdministrator r \<Longrightarrow>
       \<exists>x\<in>set (xd_users db). ua_id x = ua_id r \<and> ua_externalPlatformAdministrator x) \<Longrightarrow>
     access_step db (db\<lparr>xd_users := us, xd_departments := ds, xd_projects := ps,
       xd_instanceOwners := ios, xd_catalogOwners := cs\<rparr>)"

definition no_access :: "access_db \<Rightarrow> bool" where
  "no_access db \<longleftrightarrow> xd_departmentMembers db = [] \<and> xd_members db = [] \<and> xd_assignments db = []
     \<and> xd_invitations db = [] \<and> xd_bindings db = [] \<and> xd_grants db = []
     \<and> (\<forall>r\<in>set (xd_users db). \<not> ua_externalPlatformAdministrator r)"

interpretation access: transition_system no_access access_step .

definition access_inv :: "access_db \<Rightarrow> bool" where
  "access_inv db \<longleftrightarrow> external_inv db \<and> role_inv db"

lemma safe_inv: "safe db db' \<Longrightarrow> access_inv db \<Longrightarrow> access_inv db' \<and> role_kept db db'"
  by (auto simp: safe_def access_inv_def quiet_inv role_kept_def)

lemma switchRole_safe: "switchRole cat p u r db rdb = (w, db') \<Longrightarrow> safe db db'"
  by (auto simp: switchRole_def safe_refl switch_role_safe split: sum.splits)

lemma removeMember_safe: "removeMember cat p actor v db rdb = Inr db' \<Longrightarrow> safe db db'"
  by (auto simp: removeMember_def res_simps intro: remove_member_safe)

lemma elsewhere_inv:
  assumes "access_inv db" and "\<And>r. r \<in> set us \<Longrightarrow> ua_externalPlatformAdministrator r \<Longrightarrow>
       \<exists>x\<in>set (xd_users db). ua_id x = ua_id r \<and> ua_externalPlatformAdministrator x"
    and "db' = db\<lparr>xd_users := us, xd_departments := ds, xd_projects := ps,
       xd_instanceOwners := ios, xd_catalogOwners := cs\<rparr>"
  shows "access_inv db' \<and> role_kept db db'"
proof -
  have same: "same_grants db db'" by (simp add: same_grants_def assms(3))
  have "external_inv db'"
    using assms(1,2) same_grants_sound [OF same] unfolding access_inv_def external_inv_def backed_defs
      same_grants_granted [OF same] by (auto simp: assms(3)) metis
  moreover have "role_kept db db'"
    by (rule role_kept_same) (simp_all add: assms(3))
  ultimately show ?thesis using assms(1) by (auto simp: access_inv_def role_kept_def)
qed

lemma access_step_inv:
  assumes "access_step db db'" and "access_inv db"
  shows "access_inv db' \<and> role_kept db db'"
  using assms
proof (cases rule: access_step.cases)
  case (sign_in collate decode now u idToken groupClaim x)
  then obtain groups where s: "synchronize_groups collate now u groups db = Inr db'"
    by (auto simp: synchronizeExternalRoleBindings_def res_simps)
  then have "role_kept db db'" and "external_inv db'"
    using assms(2) synchronize_kept synchronize_inv by (auto simp: access_inv_def)
  then show ?thesis using assms(2) by (auto simp: access_inv_def role_kept_def)
next
  case (new_bindings body bs actor fresh)
  then have "role_kept db db'" and "external_inv db'"
    using assms(2) replace_kept [OF _ new_bindings(3)]
      replace_inv [OF _ schema_inputs_ok [OF new_bindings(1,2)] new_bindings(3)] by (auto simp: access_inv_def)
  then show ?thesis using assms(2) by (auto simp: access_inv_def role_kept_def)
next
  case (elsewhere us ds ps ios cs)
  then show ?thesis using elsewhere_inv [OF assms(2)] by blast
next
  case accepting
  then show ?thesis using safe_inv [OF acceptPendingInvitations_safe assms(2)] by blast
next
  case inviting
  then show ?thesis using safe_inv [OF invite_safe assms(2)] by blast
next
  case removing
  then show ?thesis using safe_inv [OF removeMember_safe assms(2)] by blast
next
  case switching
  then show ?thesis using safe_inv [OF switchRole_safe assms(2)] by blast
next
  case creating
  then show ?thesis using safe_inv [OF create_members_safe assms(2)] by blast
next
  case personal
  then show ?thesis using safe_inv [OF ensurePersonalProject_safe assms(2)] by blast
qed

lemma access_reachable_inv: "access.reachable db \<Longrightarrow> access_inv db"
proof (rule access.invariantI)
  show "access_inv db" if "no_access db" for db
    using that by (simp add: no_access_def access_inv_def external_inv_def backed_defs grants_sound_def role_inv_def)
qed (use access_step_inv in blast)+

section \<open>Guarantees\<close>


text \<open>What a matched binding gives is in force.\<close>

lemma granted_binding:
  assumes "(eb_id b, u) \<in> eg_key ` set (xd_grants db)" and "b \<in> set (xd_bindings db)" and "P b"
  shows "granted db u P"
  using assms by (auto simp: granted_keys)


text \<open>
  C30. A Project that has an administrator, as the code counts them, has one after every
  further step.
\<close>

lemma project_keeps_administrator:
  assumes "access.reachable db" and "access_step\<^sup>*\<^sup>* db db'" and "1 \<le> administratorCount db p"
  shows "1 \<le> administratorCount db' p"
proof (rule access.stableI [where P = "\<lambda>s. 1 \<le> administratorCount s p", OF assms(2,1,3)])
  fix s t assume r: "access.reachable s" and st: "access_step s t" and n: "1 \<le> administratorCount s p"
  have "access_inv s" by (rule access_reachable_inv [OF r])
  with access_step_inv [OF st] have "role_inv s" "role_inv t" "role_kept s t"
    by (auto simp: access_inv_def)
  then show "1 \<le> administratorCount t p"
    using n administratorCount_iff [of s p] administratorCount_iff [of t p] by (auto simp: role_kept_def)
qed

text \<open>
  C32. A role that an external group gave and took back can be taken up again: a member with
  manual access and an assignment out of force switches to its role, which then counts as
  assigned and is the one the member acts in.
\<close>

lemma revoked_role_resumed:
  assumes "find_member db p u = Some m" and "pm_manualAccess m" and "project_live db p"
    and "(p, u, r) \<in> as_key ` set (xd_assignments db)"
    and "r \<notin> set (assigned_roles (membership_of db m))"
  shows "\<exists>db' m'. switch_role p u r db = Inr db' \<and> find_member db' p u = Some m'
    \<and> r \<in> set (assigned_roles (membership_of db' m'))
    \<and> activeRoleForMembership (membership_of db' m') None = r \<and> xd_grants db' = xd_grants db"
proof -
  have key: "pm_projectId m = p" "pm_userId m = u" using find_member_key [OF assms(1)] by auto
  have acts: "activeRoleForMembership (membership_of d n) None = pm_role n"
    "pm_role n \<in> set (assigned_roles (membership_of d n))" if "pm_manualAccess n" for d n
    using that membership_assigned [of "pm_role n" d n]
    by (auto simp: activeRoleForMembership_def membershipRoleState_def Let_def membership_of_def)
  have row: "r \<in> set (map as_role (assignments_of db p u))"
    using assms(4) by (force simp: assignments_of_def as_key_def)
  have other: "pm_role m \<noteq> r"
    using assms(2,5) acts(2) by blast
  have sw: "switch_role p u r db = Inr (set_member_role p u r db)"
    using assms(1,3) row other by (simp add: switch_role_def)
  have "find_member (set_member_role p u r db) p u = Some (m\<lparr>pm_role := r\<rparr>)"
    using assms(1) key by (simp add: find_member_def set_member_role_def find_unique_update pm_key_def)
  then show ?thesis
    using sw acts [of "m\<lparr>pm_role := r\<rparr>"] assms(2) by fastforce
qed

section \<open>A scenario\<close>

text \<open>
  Alice creates a Project. The group of its administrators is bound, Bob signs in as a member
  of the group and gets the role. In one run Alice then removes herself after Bob has left the
  group; in the other she invites Bob as a developer before he leaves it.
\<close>

definition sc_start :: access_db where
  "sc_start = \<lparr>xd_users = [
       \<lparr>ua_id = ''alice'', ua_email = ''a@x'', ua_displayName = ''A'', ua_status = ''active'',
         ua_platformAdministrator = False, ua_externalPlatformAdministrator = False\<rparr>,
       \<lparr>ua_id = ''bob'', ua_email = ''b@x'', ua_displayName = ''B'', ua_status = ''active'',
         ua_platformAdministrator = False, ua_externalPlatformAdministrator = False\<rparr>],
     xd_departments = [\<lparr>sd_id = ''dd'', sd_name = ''D'', sd_status = ''active''\<rparr>],
     xd_projects = [], xd_departmentMembers = [], xd_members = [], xd_assignments = [], xd_invitations = [],
     xd_bindings = [], xd_grants = [], xd_instanceOwners = [], xd_catalogOwners = []\<rparr>"

definition sc_binding :: binding_input where
  "sc_binding = \<lparr>bi_id = None, bi_enabled = True, bi_group = ''/tali/d/dd/p/pp/r/ROLE_PROJECT_ADMIN'',
     bi_scope = PROJECT, bi_departmentId = Some ''dd'', bi_projectId = Some ''pp'',
     bi_roleId = ''ROLE_PROJECT_ADMIN''\<rparr>"

definition sc_token :: "string list \<Rightarrow> string \<Rightarrow> js option" where
  "sc_token groups _ = Some (JObj [(''groups'', JArr (map JStr groups))])"

definition sc_roles :: role_db where
  "sc_roles = \<lparr>rb_capabilities = [], rb_roles = [role_row_of sample_catalog
       (sample_role ''ROLE_PROJECT_ADMIN'' ''PROJECT'' []), role_row_of sample_catalog
       (sample_role ''ROLE_AGENT_DEVELOPER'' ''PROJECT'' [])], rb_grants = [], rb_revision = Some 5\<rparr>"

definition sc_create :: "access_db \<Rightarrow> access_db res" where
  "sc_create = create_members id (\<lambda>_. ''i'')
     \<lparr>sp_id = ''pp'', sp_departmentId = ''dd'', sp_name = ''P'', sp_deleted = False\<rparr> ''alice'' []"

definition sc_bind :: "access_db \<Rightarrow> access_db res" where
  "sc_bind = replace_bindings ''root'' (\<lambda>_. ''b1'') [sc_binding]"

definition sc_sign_in :: "string list \<Rightarrow> access_db \<Rightarrow> ((string list \<times> string list) \<times> access_db) res" where
  "sc_sign_in groups = synchronizeExternalRoleBindings (\<lambda>_ _. True) (sc_token groups) 7 ''bob'' ''h.p.s'' ''groups''"

definition sc_member :: access_db where
  "sc_member = snd (projr (sc_sign_in [bi_group sc_binding] (projr (sc_bind (projr (sc_create sc_start))))))"

definition sc_left :: access_db where
  "sc_left = snd (projr (sc_sign_in [] sc_member))"

definition sc_mail :: mailer where
  "sc_mail = \<lparr>ml_configured = None, ml_send = None\<rparr>"

definition sc_invited :: access_db where
  "sc_invited = snd (invite sample_catalog id (\<lambda>_. None) sc_mail ''i'' ''pp'' ''alice'' ''b@x'' DeveloperRole
     sc_member sc_roles)"

definition sc_developer :: access_db where
  "sc_developer = snd (projr (sc_sign_in [] sc_invited))"

lemma sc_member_reachable: "access.reachable sc_member"
proof -
  have one: "access.reachable sc_start"
    by (rule access.reachable_init) (simp add: no_access_def sc_start_def)
  have "sc_create sc_start = Inr (projr (sc_create sc_start))" by code_simp
  then have two: "access.reachable (projr (sc_create sc_start))"
    using one access.reachable_step access_step.creating unfolding sc_create_def by blast
  have schema: "replaceExternalRoleBindingsSchema [sc_binding] = Inr [sc_binding]" by code_simp
  have "sc_bind (projr (sc_create sc_start)) = Inr (projr (sc_bind (projr (sc_create sc_start))))" by code_simp
  then have three: "access.reachable (projr (sc_bind (projr (sc_create sc_start))))"
    using two access.reachable_step access_step.new_bindings [OF schema] unfolding sc_bind_def by auto
  have "sc_sign_in [bi_group sc_binding] (projr (sc_bind (projr (sc_create sc_start)))) =
      Inr (([bi_group sc_binding], [''b1'']), sc_member)" by code_simp
  then show ?thesis
    using three access.reachable_step access_step.sign_in unfolding sc_sign_in_def by blast
qed

lemma sc_left_step: "sc_sign_in [] sc_member = Inr (([], []), sc_left)"
  by code_simp

lemma sc_left_reachable: "access.reachable sc_left"
  using sc_member_reachable access.reachable_step access_step.sign_in [OF sc_left_step [unfolded sc_sign_in_def]]
  by blast

lemma sc_developer_reachable: "access.reachable sc_developer"
proof -
  have "access_step sc_member sc_invited"
    unfolding sc_invited_def by (rule access_step.inviting) (rule prod.collapse [symmetric])
  moreover have "sc_sign_in [] sc_invited = Inr (([], []), sc_developer)" by code_simp
  then have "access_step sc_invited sc_developer"
    unfolding sc_sign_in_def by (rule access_step.sign_in)
  ultimately show ?thesis
    using sc_member_reachable access.reachable_step by blast
qed



lemma project_keeps_administrator_witness: "1 \<le> administratorCount sc_left ''pp''"
proof -
  have "1 \<le> administratorCount sc_member ''pp''" by code_simp
  moreover have "access_step\<^sup>*\<^sup>* sc_member sc_left"
    using access_step.sign_in [OF sc_left_step [unfolded sc_sign_in_def]] by blast
  ultimately show ?thesis
    using project_keeps_administrator [OF sc_member_reachable] by blast
qed

lemma revoked_role_resumed_witness:
  "access.reachable sc_developer \<and> (\<exists>db'. switch_role ''pp'' ''bob'' AdminRole sc_developer = Inr db'
     \<and> xd_grants db' = [])"
proof -
  obtain m where m: "find_member sc_developer ''pp'' ''bob'' = Some m" "pm_manualAccess m"
      "assigned_roles (membership_of sc_developer m) = [DeveloperRole]"
  proof -
    have "(case find_member sc_developer ''pp'' ''bob'' of None \<Rightarrow> False
      | Some m \<Rightarrow> pm_manualAccess m \<and> assigned_roles (membership_of sc_developer m) = [DeveloperRole])" by code_simp
    then show ?thesis using that by (auto split: option.splits)
  qed
  have live: "project_live sc_developer ''pp''" by code_simp
  have "list_ex (\<lambda>a. as_key a = (''pp'', ''bob'', AdminRole)) (xd_assignments sc_developer)" by code_simp
  then have "(''pp'', ''bob'', AdminRole) \<in> as_key ` set (xd_assignments sc_developer)"
    by (auto simp: list_ex_iff image_iff) metis
  from revoked_role_resumed [OF m(1,2) live this] m(3)
  obtain db' where "switch_role ''pp'' ''bob'' AdminRole sc_developer = Inr db'" "xd_grants db' = xd_grants sc_developer"
    by auto
  moreover have "xd_grants sc_developer = []" by code_simp
  ultimately show ?thesis using sc_developer_reachable by simp
qed

text \<open>
  C31. The count of administrators includes assignments that are out of force: the only
  administrator who has access leaves, the count stays positive, and nobody has access any more.
\<close>

lemma last_administrator_can_leave:
  "access.reachable sc_left
   \<and> (\<exists>db'. removeMember sample_catalog ''pp'' ''alice'' ''alice'' sc_left sc_roles = Inr db'
        \<and> administratorCount db' ''pp'' = 1
        \<and> filter (\<lambda>m. pm_projectId m = ''pp'' \<and> membershipHasAccess (membership_of db' m)) (xd_members db') = [])"
proof -
  define r where "r = removeMember sample_catalog ''pp'' ''alice'' ''alice'' sc_left sc_roles"
  have "(case r of Inl _ \<Rightarrow> False | Inr db' \<Rightarrow> administratorCount db' ''pp'' = 1
      \<and> filter (\<lambda>m. pm_projectId m = ''pp'' \<and> membershipHasAccess (membership_of db' m)) (xd_members db') = [])"
    unfolding r_def by code_simp
  then show ?thesis
    using sc_left_reachable by (auto simp: r_def split: sum.splits)
qed

end
