(* ===== verification/Playbooks.thy ===== *)
theory Playbooks
  imports Work_Contracts Urls
begin

text \<open>
  Playbooks, the workflows of an expert agent: the schema
  \<open>expertAgentWorkflowExecutionSpecSchema\<close> of \<open>contracts/src/expert-agents.ts\<close>, which accepts a
  graph of nodes and transitions after a depth-first search, and \<open>RelayPlaybookRuntime\<close> of
  \<open>apps/expert-agent-runtime/src/playbook-runtime.ts\<close>, which walks it from the entrypoint. The
  search decides exactly whether the graph is a finite acyclic one that is reachable as a whole,
  and so a run ends.
\<close>

section \<open>Data\<close>

datatype node_type = Reason | Knowledge | Tool | Transform | Verify | Delegate | Approval | Response
  | NormalizeInput | ClassifyIntent | RetrieveEvidence | Decide | RenderTemplate | Escalate | EndNode

datatype failure_policy = FailRun | FollowFailureEdge

record retry =
  ry_maxAttempts :: int
  ry_backoffMs :: int

record playbook_node =
  nd_id :: string
  nd_type :: node_type
  nd_configuration :: js
  nd_inputSchema :: "js option"
  nd_outputSchema :: "js option"
  nd_timeoutMs :: "int option"
  nd_retry :: "retry option"
  nd_failurePolicy :: "failure_policy option"

record transition =
  tr_from :: string
  tr_outcome :: string
  tr_to :: string

text \<open>The values of the fields with a default are those after it is filled in.\<close>

record playbook =
  pb_framework :: string
  pb_version :: string
  pb_entrypoint :: string
  pb_configuration :: js
  pb_nodes :: "playbook_node list"
  pb_transitions :: "transition list"
  pb_timeoutMs :: int

section \<open>Fields\<close>

definition lower_letter :: "char \<Rightarrow> bool" where
  "lower_letter c \<longleftrightarrow> c \<in> set ''abcdefghijklmnopqrstuvwxyz''"

definition kebab_part :: "string \<Rightarrow> bool" where
  "kebab_part s \<longleftrightarrow> s \<noteq> [] \<and> list_all (\<lambda>c. lower_letter c \<or> is_digit c) s"

text \<open>The expression \<open>^[a-z][a-z0-9]*(?:-[a-z0-9]+)*$\<close>.\<close>

definition kebab_case :: "string \<Rightarrow> bool" where
  "kebab_case s \<longleftrightarrow> list_all kebab_part (split_on CHR ''-'' s) \<and> lower_letter (hd s)"

definition identifierSchema :: "string \<Rightarrow> string res" where
  "identifierSchema s = res_bind (z_trimmed 160 s) (\<lambda>t. res_bind (ensure (kebab_case t) SchemaError) (\<lambda>_. Inr t))"

definition int_between :: "int \<Rightarrow> int \<Rightarrow> int \<Rightarrow> int res" where
  "int_between lo hi n = (if lo \<le> n \<and> n \<le> hi then Inr n else Inl SchemaError)"

definition retrySchema :: "retry \<Rightarrow> retry res" where
  "retrySchema r = res_bind (int_between 1 10 (ry_maxAttempts r)) (\<lambda>_.
     res_bind (int_between 0 60000 (ry_backoffMs r)) (\<lambda>_. Inr r))"

definition expertAgentWorkflowNodeSchema :: "playbook_node \<Rightarrow> playbook_node res" where
  "expertAgentWorkflowNodeSchema n =
     res_bind (identifierSchema (nd_id n)) (\<lambda>i.
     res_bind (z_nullable (int_between 100 900000) (nd_timeoutMs n)) (\<lambda>_.
     res_bind (z_nullable retrySchema (nd_retry n)) (\<lambda>_. Inr (n\<lparr>nd_id := i\<rparr>))))"

definition expertAgentWorkflowTransitionSchema :: "transition \<Rightarrow> transition res" where
  "expertAgentWorkflowTransitionSchema t =
     res_bind (identifierSchema (tr_from t)) (\<lambda>f.
     res_bind (z_trimmed 120 (tr_outcome t)) (\<lambda>r.
     res_bind (identifierSchema (tr_to t)) (\<lambda>to. Inr \<lparr>tr_from = f, tr_outcome = r, tr_to = to\<rparr>)))"

section \<open>The search\<close>

text \<open>
  \<open>path\<close> is the set \<open>visiting\<close>, which is the path from the root again when a call returns; the
  state is the list of visited nodes and the flag \<open>cycleFound\<close>.
\<close>

type_synonym edges = "(string \<times> string) list"

definition edges_of :: "playbook \<Rightarrow> edges" where
  "edges_of pb = map (\<lambda>t. (tr_from t, tr_to t)) (pb_transitions pb)"

definition targets :: "edges \<Rightarrow> string \<Rightarrow> string list" where
  "targets es i = map snd (filter (\<lambda>e. fst e = i) es)"

function walk :: "edges \<Rightarrow> string list \<Rightarrow> string list \<times> bool \<Rightarrow> string \<Rightarrow> string list \<times> bool"
  and walk_all :: "edges \<Rightarrow> string list \<Rightarrow> string list \<times> bool \<Rightarrow> string list \<Rightarrow> string list \<times> bool" where
  "walk es path s i =
     (if i \<in> set path then (fst s, True)
      else if i \<in> set (fst s) then s
      else case walk_all es (i # path) s (targets es i) of (visited, cyclic) \<Rightarrow> (i # visited, cyclic))"
| "walk_all es path s [] = s"
| "walk_all es path s (i # is) = walk_all es path (walk es path s i) is"
  by pat_completeness auto
termination
proof (relation "measures
    [\<lambda>x. case x of Inl (es, path, _, _) \<Rightarrow> card (fst ` set es - set path)
       | Inr (es, path, _, _) \<Rightarrow> card (fst ` set es - set path),
     \<lambda>x. case x of Inl _ \<Rightarrow> 1 | Inr (_, _, _, is) \<Rightarrow> 2 * length is]", goal_cases)
  case (2 es path s i)
  show ?case
  proof (cases "i \<in> fst ` set es")
    case True
    with 2 have "fst ` set es - set (i # path) \<subset> fst ` set es - set path" by auto
    then show ?thesis by (simp add: psubset_card_mono)
  next
    case False
    then have "targets es i = []" by (force simp: targets_def filter_empty_conv)
    moreover have "fst ` set es - set (i # path) = fst ` set es - set path"
      using False by auto
    ultimately show ?thesis by simp
  qed
qed auto

declare walk.simps [simp del]

section \<open>The checks over the whole graph\<close>

definition end_nodes :: "playbook \<Rightarrow> string list" where
  "end_nodes pb = map nd_id (filter (\<lambda>n. nd_type n = EndNode) (pb_nodes pb))"

definition failure_edge :: "playbook \<Rightarrow> playbook_node \<Rightarrow> bool" where
  "failure_edge pb n \<longleftrightarrow> nd_failurePolicy n = Some FollowFailureEdge
     \<longrightarrow> list_ex (\<lambda>t. tr_from t = nd_id n \<and> tr_outcome t = ''FAILURE'') (pb_transitions pb)"

definition graph_checks :: "playbook \<Rightarrow> bool" where
  "graph_checks pb \<longleftrightarrow>
     (let ids = map nd_id (pb_nodes pb);
          ends = end_nodes pb;
          (visited, cyclic) = walk (edges_of pb) [] ([], False) (pb_entrypoint pb)
      in distinct ids \<and> pb_entrypoint pb \<in> set ids \<and> ends \<noteq> []
       \<and> list_all (\<lambda>t. tr_from t \<in> set ids \<and> tr_to t \<in> set ids) (pb_transitions pb)
       \<and> distinct (map (\<lambda>t. (tr_from t, tr_outcome t)) (pb_transitions pb))
       \<and> list_all (failure_edge pb) (pb_nodes pb)
       \<and> list_all (\<lambda>t. tr_from t \<notin> set ends) (pb_transitions pb)
       \<and> \<not> cyclic
       \<and> list_ex (\<lambda>i. i \<in> set visited) ends
       \<and> list_all (\<lambda>i. i \<in> set visited) ids)"

definition expertAgentWorkflowExecutionSpecSchema :: "playbook \<Rightarrow> playbook res" where
  "expertAgentWorkflowExecutionSpecSchema pb =
     res_bind (z_trimmed 120 (pb_framework pb)) (\<lambda>f.
     res_bind (z_trimmed 120 (pb_version pb)) (\<lambda>v.
     res_bind (identifierSchema (pb_entrypoint pb)) (\<lambda>e.
     res_bind (z_array expertAgentWorkflowNodeSchema 2 200 (pb_nodes pb)) (\<lambda>ns.
     res_bind (z_array expertAgentWorkflowTransitionSchema 1 1000 (pb_transitions pb)) (\<lambda>ts.
     res_bind (int_between 1000 900000 (pb_timeoutMs pb)) (\<lambda>_.
     (let pb = pb\<lparr>pb_framework := f, pb_version := v, pb_entrypoint := e, pb_nodes := ns, pb_transitions := ts\<rparr> in
     res_bind (ensure (graph_checks pb) SchemaError) (\<lambda>_. Inr pb)))))))) "

section \<open>What the search finds\<close>

lemma set_targets [simp]: "t \<in> set (targets es i) \<longleftrightarrow> (i, t) \<in> set es"
  by (force simp: targets_def)

definition closed_under :: "edges \<Rightarrow> string set \<Rightarrow> string set \<Rightarrow> bool" where
  "closed_under es A B \<longleftrightarrow> (\<forall>x\<in>A. \<forall>y. (x, y) \<in> set es \<longrightarrow> y \<in> A \<union> B)"

text \<open>The calls of the search as a relation, so that what they keep is shown by rule induction.\<close>

inductive visits :: "edges \<Rightarrow> string list \<Rightarrow> string list \<Rightarrow> bool \<Rightarrow> string \<Rightarrow> string list \<Rightarrow> bool \<Rightarrow> bool"
  and visits_all :: "edges \<Rightarrow> string list \<Rightarrow> string list \<Rightarrow> bool \<Rightarrow> string list \<Rightarrow> string list \<Rightarrow> bool \<Rightarrow> bool" for es where
  in_path: "i \<in> set path \<Longrightarrow> visits es path vs c i vs True"
| seen: "\<lbrakk>i \<notin> set path; i \<in> set vs\<rbrakk> \<Longrightarrow> visits es path vs c i vs c"
| new: "\<lbrakk>i \<notin> set path; i \<notin> set vs; visits_all es (i # path) vs c (targets es i) ws d\<rbrakk>
    \<Longrightarrow> visits es path vs c i (i # ws) d"
| none: "visits_all es path vs c [] vs c"
| next_target: "\<lbrakk>visits es path vs c i ws d; visits_all es path ws d is us e\<rbrakk> \<Longrightarrow> visits_all es path vs c (i # is) us e"

lemma walk_visits:
  "visits es path (fst s) (snd s) i (fst (walk es path s i)) (snd (walk es path s i))"
  "visits_all es path (fst s) (snd s) is (fst (walk_all es path s is)) (snd (walk_all es path s is))"
proof (induction es path s i and es path s "is" rule: walk_walk_all.induct)
  case (1 es path s i)
  then show ?case
    by (cases "walk_all es (i # path) s (targets es i)")
      (auto simp: walk.simps [of es path s i] intro: visits_visits_all.intros)
qed (auto intro: visits_visits_all.intros)

text \<open>
  Visited nodes only grow, and the path is never visited below itself; what is visited is
  reachable; and it is closed up to the path.
\<close>

lemma visits_grows:
  "visits es path vs c i ws d \<Longrightarrow>
     set vs \<subseteq> set ws \<and> (c \<longrightarrow> d) \<and> i \<in> set ws \<union> set path \<and> set ws \<inter> set path \<subseteq> set vs"
  "visits_all es path vs c is ws d \<Longrightarrow>
     set vs \<subseteq> set ws \<and> (c \<longrightarrow> d) \<and> set is \<subseteq> set ws \<union> set path \<and> set ws \<inter> set path \<subseteq> set vs"
  by (induction rule: visits_visits_all.inducts) auto

lemma visits_reaches:
  "visits es path vs c i ws d \<Longrightarrow> set ws \<subseteq> set vs \<union> (set es)\<^sup>* `` {i}"
  "visits_all es path vs c is ws d \<Longrightarrow> set ws \<subseteq> set vs \<union> (set es)\<^sup>* `` set is"
proof (induction rule: visits_visits_all.inducts)
  case (new i path vs c ws d)
  moreover have "(set es)\<^sup>* `` set (targets es i) \<subseteq> (set es)\<^sup>* `` {i}"
    by (auto intro: converse_rtrancl_into_rtrancl)
  ultimately show ?case unfolding set_simps by blast
qed auto

lemma visits_closed:
  "visits es path vs c i ws d \<Longrightarrow>
     closed_under es (set vs) (set path) \<longrightarrow> closed_under es (set ws) (set path)"
  "visits_all es path vs c is ws d \<Longrightarrow>
     closed_under es (set vs) (set path) \<longrightarrow> closed_under es (set ws) (set path)"
proof (induction rule: visits_visits_all.inducts)
  case (new i path vs c ws d)
  then have "set (targets es i) \<subseteq> set ws \<union> set (i # path)"
    using visits_grows(2) by blast
  moreover have "closed_under es (set vs) (set path) \<Longrightarrow> closed_under es (set vs) (set (i # path))"
    by (auto simp: closed_under_def)
  ultimately show ?case
    using new.IH by (auto simp: closed_under_def subset_iff)
qed auto

text \<open>
  The flag: without it, no visited node lies on a cycle; with it, some visited node does.
\<close>

definition on_cycle :: "edges \<Rightarrow> string \<Rightarrow> bool" where
  "on_cycle es i \<longleftrightarrow> (i, i) \<in> (set es)\<^sup>+"

lemma closed_reachable:
  assumes "closed_under es A {}" and "i \<in> A" and "(i, j) \<in> (set es)\<^sup>*"
  shows "j \<in> A"
  using assms(3,2) by (induction rule: rtrancl_induct) (use assms(1) in \<open>auto simp: closed_under_def\<close>)

text \<open>Without the flag every target of a visited node is visited before it, so that its cycle would be.\<close>

lemma visits_acyclic:
  "visits es path vs c i ws d \<Longrightarrow> \<not> d \<Longrightarrow> closed_under es (set vs) {} \<Longrightarrow> list_all (\<lambda>x. \<not> on_cycle es x) vs
     \<Longrightarrow> closed_under es (set ws) {} \<and> list_all (\<lambda>x. \<not> on_cycle es x) ws \<and> i \<in> set ws"
  "visits_all es path vs c is ws d \<Longrightarrow> \<not> d \<Longrightarrow> closed_under es (set vs) {} \<Longrightarrow> list_all (\<lambda>x. \<not> on_cycle es x) vs
     \<Longrightarrow> closed_under es (set ws) {} \<and> list_all (\<lambda>x. \<not> on_cycle es x) ws \<and> set is \<subseteq> set ws"
proof (induction rule: visits_visits_all.inducts)
  case (new i path vs c ws d)
  then have ih: "closed_under es (set ws) {}" "list_all (\<lambda>x. \<not> on_cycle es x) ws" "set (targets es i) \<subseteq> set ws"
    by simp_all
  have fresh: "i \<notin> set ws"
    using new.hyps visits_grows(2) [OF new.IH(1)] by auto
  have "\<not> on_cycle es i"
  proof
    assume "on_cycle es i"
    then obtain y where "(i, y) \<in> set es" "(y, i) \<in> (set es)\<^sup>*"
      unfolding on_cycle_def by (meson tranclD)
    then have "i \<in> set ws"
      using ih(3) closed_reachable [OF ih(1)] by auto
    with fresh show False ..
  qed
  then show ?case using ih by (auto simp: closed_under_def)
next
  case (next_target path vs c i ws d "is" us e)
  have later: "set ws \<subseteq> set us" "d \<longrightarrow> e"
    using visits_grows(2) [OF next_target.IH(3)] by simp_all
  with next_target show ?case by auto
qed auto

lemma visits_cyclic:
  "visits es path vs c i ws d \<Longrightarrow> d \<Longrightarrow> \<not> c \<Longrightarrow> list_all (\<lambda>q. (q, i) \<in> (set es)\<^sup>+) path
     \<Longrightarrow> \<exists>j. (i, j) \<in> (set es)\<^sup>* \<and> on_cycle es j"
  "visits_all es path vs c is ws d \<Longrightarrow> d \<Longrightarrow> \<not> c \<Longrightarrow> list_all (\<lambda>i. list_all (\<lambda>q. (q, i) \<in> (set es)\<^sup>+) path) is
     \<Longrightarrow> \<exists>i j. i \<in> set is \<and> (i, j) \<in> (set es)\<^sup>* \<and> on_cycle es j"
proof (induction rule: visits_visits_all.inducts)
  case (in_path i path vs c)
  then show ?case by (auto simp: on_cycle_def list_all_iff)
next
  case (new i path vs c ws d)
  have "list_all (\<lambda>t. list_all (\<lambda>q. (q, t) \<in> (set es)\<^sup>+) (i # path)) (targets es i)"
    using new.prems(3) by (auto simp: list_all_iff intro: trancl_into_trancl)
  then obtain t j where "(i, t) \<in> set es" "(t, j) \<in> (set es)\<^sup>*" "on_cycle es j"
    using new.IH new.prems by auto
  then show ?case by (meson converse_rtrancl_into_rtrancl)
next
  case (next_target path vs c i ws d "is" us e)
  then show ?case by (cases d) fastforce+
qed auto

lemma search_finds:
  assumes "walk es [] ([], False) i = (vs, c)"
  shows "set vs = (set es)\<^sup>* `` {i}" and "c \<longleftrightarrow> (\<exists>j. (i, j) \<in> (set es)\<^sup>* \<and> on_cycle es j)"
proof -
  have run: "visits es [] [] False i vs c"
    using walk_visits(1) [of es "[]" "([], False)" i] assms by simp
  have closed: "closed_under es (set vs) {}"
    using visits_closed(1) [OF run] by (simp add: closed_under_def)
  moreover have "i \<in> set vs" using visits_grows(1) [OF run] by simp
  ultimately show reach: "set vs = (set es)\<^sup>* `` {i}"
    using visits_reaches(1) [OF run] closed_reachable [of es "set vs" i] by auto
  have "\<not> c \<Longrightarrow> list_all (\<lambda>x. \<not> on_cycle es x) vs"
    using visits_acyclic(1) [OF run] by (simp add: closed_under_def)
  moreover have "c \<Longrightarrow> \<exists>j. (i, j) \<in> (set es)\<^sup>* \<and> on_cycle es j"
    using visits_cyclic(1) [OF run] by simp
  ultimately show "c \<longleftrightarrow> (\<exists>j. (i, j) \<in> (set es)\<^sup>* \<and> on_cycle es j)"
    using reach by (auto simp: list_all_iff)
qed

section \<open>The schema decides a property of the graph\<close>

lemma edges_of_iff [simp]:
  "(i, j) \<in> set (edges_of pb) \<longleftrightarrow> (\<exists>t\<in>set (pb_transitions pb). tr_from t = i \<and> tr_to t = j)"
  by (auto simp: edges_of_def)

definition node_ids :: "playbook \<Rightarrow> string list" where
  "node_ids pb = map nd_id (pb_nodes pb)"

lemma graph_checks_iff:
  "graph_checks pb \<longleftrightarrow>
     distinct (node_ids pb) \<and> pb_entrypoint pb \<in> set (node_ids pb)
     \<and> list_all (\<lambda>t. tr_from t \<in> set (node_ids pb) \<and> tr_to t \<in> set (node_ids pb)) (pb_transitions pb)
     \<and> distinct (map (\<lambda>t. (tr_from t, tr_outcome t)) (pb_transitions pb))
     \<and> list_all (failure_edge pb) (pb_nodes pb)
     \<and> end_nodes pb \<noteq> [] \<and> list_all (\<lambda>t. tr_from t \<notin> set (end_nodes pb)) (pb_transitions pb)
     \<and> acyclic (set (edges_of pb))
     \<and> set (node_ids pb) \<subseteq> (set (edges_of pb))\<^sup>* `` {pb_entrypoint pb}"
proof -
  obtain vs c where run: "walk (edges_of pb) [] ([], False) (pb_entrypoint pb) = (vs, c)"
    by fastforce
  note found = search_finds [OF run]
  have ends: "set (end_nodes pb) \<subseteq> set (node_ids pb)"
    by (auto simp: end_nodes_def node_ids_def)
  have cycles: "(\<exists>j. (pb_entrypoint pb, j) \<in> (set (edges_of pb))\<^sup>* \<and> on_cycle (edges_of pb) j)
      \<longleftrightarrow> \<not> acyclic (set (edges_of pb))"
    if inside: "list_all (\<lambda>t. tr_from t \<in> set (node_ids pb) \<and> tr_to t \<in> set (node_ids pb)) (pb_transitions pb)"
      and reached: "set (node_ids pb) \<subseteq> (set (edges_of pb))\<^sup>* `` {pb_entrypoint pb}"
  proof -
    have "j \<in> set (node_ids pb)" if "(j, j) \<in> (set (edges_of pb))\<^sup>+" for j
      using tranclD [OF that] inside by (auto simp: list_all_iff)
    with reached show ?thesis by (auto simp: acyclic_def on_cycle_def)
  qed
  have all: "list_all (\<lambda>i. i \<in> set vs) (node_ids pb)
      \<longleftrightarrow> set (node_ids pb) \<subseteq> (set (edges_of pb))\<^sup>* `` {pb_entrypoint pb}"
    by (auto simp: list_all_iff found(1))
  have some: "list_ex (\<lambda>i. i \<in> set vs) (end_nodes pb)"
    if "list_all (\<lambda>i. i \<in> set vs) (node_ids pb)" "end_nodes pb \<noteq> []"
    using that ends by (cases "end_nodes pb") (auto simp: list_all_iff list_ex_iff)
  show ?thesis
    unfolding graph_checks_def Let_def run prod.case node_ids_def [symmetric] found(2)
    using all some cycles by blast
qed

section \<open>Running a playbook\<close>

text \<open>
  What a run meets outside the runtime: the operators (a failure stands for a rejected promise),
  the schema library, and for every step and attempt whether the signal of the node, of the wait
  after it and of the run has fired. The timeout of the run fires at some time whatever an
  operator does, so that a pending operator is a fired signal.
\<close>

record 'st playbook_env =
  pe_operators :: "node_type \<Rightarrow> (playbook_node \<Rightarrow> 'st \<Rightarrow> int \<Rightarrow> string + string \<times> 'st) option"
  pe_compiles :: "js \<Rightarrow> bool"
  pe_valid :: "js \<Rightarrow> 'st \<Rightarrow> bool"
  pe_run_aborted :: "nat \<Rightarrow> bool"
  pe_node_aborted :: "nat \<Rightarrow> int \<Rightarrow> bool"
  pe_wait_aborted :: "nat \<Rightarrow> int \<Rightarrow> bool"

datatype schema_boundary = InputBoundary | OutputBoundary

datatype attempt_error = SchemaMismatch string schema_boundary | NodeCancelled string | EmptyOutcome
  | OperatorFailed string

text \<open>The events of a run, with their step, attempt and outcome.\<close>

datatype trace_event = Started string int | Produced string int string | AttemptFailed string int attempt_error
  | ReachedEnd string

datatype playbook_error = InvalidPlaybook failure | SchemaNotCompiled string | RunAborted | WaitAborted
  | NodeMissing string | NoOperator node_type
  | NodeExecutionError string int "trace_event list" "attempt_error option"
  | TransitionError string string nat | BoundExceeded

definition assertSchema ::
    "'st playbook_env \<Rightarrow> js option \<Rightarrow> 'st \<Rightarrow> string \<Rightarrow> schema_boundary \<Rightarrow> attempt_error + unit" where
  "assertSchema env schema v i b =
     (case schema of None \<Rightarrow> Inr ()
      | Some s \<Rightarrow> if pe_valid env s v then Inr () else Inl (SchemaMismatch i b))"

definition compileNodeValidators :: "'st playbook_env \<Rightarrow> playbook \<Rightarrow> playbook_error + unit" where
  "compileNodeValidators env pb =
     (case List.find (\<lambda>n. \<not> list_all (pe_compiles env)
         (List.map_filter id [nd_inputSchema n, nd_outputSchema n])) (pb_nodes pb) of
        None \<Rightarrow> Inr () | Some n \<Rightarrow> Inl (SchemaNotCompiled (nd_id n)))"

definition wait_between :: "'st playbook_env \<Rightarrow> int \<Rightarrow> nat \<Rightarrow> int \<Rightarrow> playbook_error + unit" where
  "wait_between env ms step attempt =
     (if ms \<le> 0 then Inr () else if pe_wait_aborted env step attempt then Inl WaitAborted else Inr ())"

definition attempt_node ::
    "'st playbook_env \<Rightarrow> (playbook_node \<Rightarrow> 'st \<Rightarrow> int \<Rightarrow> string + string \<times> 'st) \<Rightarrow> playbook_node \<Rightarrow> nat \<Rightarrow> 'st
     \<Rightarrow> int \<Rightarrow> attempt_error + string \<times> 'st" where
  "attempt_node env operator n step st attempt =
     res_bind (assertSchema env (nd_inputSchema n) st (nd_id n) InputBoundary) (\<lambda>_.
       if pe_node_aborted env step attempt then Inl (NodeCancelled (nd_id n))
       else case operator n st attempt of
         Inl message \<Rightarrow> Inl (OperatorFailed message)
       | Inr (outcome, st') \<Rightarrow>
           if js_trim outcome = [] then Inl EmptyOutcome
           else res_bind (assertSchema env (nd_outputSchema n) st' (nd_id n) OutputBoundary) (\<lambda>_.
             Inr (outcome, st')))"

definition max_attempts :: "playbook_node \<Rightarrow> int" where
  "max_attempts n = (case nd_retry n of None \<Rightarrow> 1 | Some r \<Rightarrow> ry_maxAttempts r)"

definition backoff :: "playbook_node \<Rightarrow> int" where
  "backoff n = (case nd_retry n of None \<Rightarrow> 0 | Some r \<Rightarrow> ry_backoffMs r)"

text \<open>The loop over the attempts: the result if there is one, the last error, the events.\<close>

function attempt_loop ::
    "'st playbook_env \<Rightarrow> (playbook_node \<Rightarrow> 'st \<Rightarrow> int \<Rightarrow> string + string \<times> 'st) \<Rightarrow> playbook_node \<Rightarrow> nat \<Rightarrow> 'st
     \<Rightarrow> int \<Rightarrow> attempt_error option \<Rightarrow> trace_event list
     \<Rightarrow> playbook_error + (string \<times> 'st) option \<times> attempt_error option \<times> trace_event list" where
  "attempt_loop env operator n step st attempt lastError events =
     (if max_attempts n < attempt then Inr (None, lastError, events)
      else let events = events @ [Started (nd_id n) attempt] in
        case attempt_node env operator n step st attempt of
          Inr (outcome, st') \<Rightarrow>
            Inr (Some (outcome, st'), lastError, events @ [Produced (nd_id n) attempt outcome])
        | Inl e \<Rightarrow>
            (let events = events @ [AttemptFailed (nd_id n) attempt e] in
             res_bind (if attempt < max_attempts n then wait_between env (backoff n) step attempt else Inr ())
               (\<lambda>_. attempt_loop env operator n step st (attempt + 1) (Some e) events)))"
  by pat_completeness auto
termination
  by (relation "measure (\<lambda>(env, operator, n, step, st, attempt, lastError, events).
      nat (max_attempts n + 1 - attempt))") auto

declare attempt_loop.simps [simp del]

text \<open>\<open>new Map(nodes)\<close> keeps the last node of an identifier.\<close>

definition node_at :: "playbook \<Rightarrow> string \<Rightarrow> playbook_node option" where
  "node_at pb = map_of (rev (map (\<lambda>n. (nd_id n, n)) (pb_nodes pb)))"

definition take_transition :: "playbook \<Rightarrow> string \<Rightarrow> string \<Rightarrow> playbook_error + string" where
  "take_transition pb i outcome =
     (case filter (\<lambda>t. tr_from t = i \<and> tr_outcome t = outcome) (pb_transitions pb) of
        [t] \<Rightarrow> Inr (tr_to t)
      | matches \<Rightarrow> Inl (TransitionError i outcome (length matches)))"

text \<open>
  The loop over the steps, with the number of steps it has left; it starts with the number of
  nodes, so that the step is that number less the steps left.
\<close>

definition outcome_of ::
    "playbook_node \<Rightarrow> (string \<times> 'st) option \<times> attempt_error option \<times> trace_event list \<Rightarrow> 'st
     \<Rightarrow> playbook_error + string \<times> 'st" where
  "outcome_of n r st =
     (case r of
        (Some (outcome, st'), _, _) \<Rightarrow> Inr (outcome, st')
      | (None, lastError, events) \<Rightarrow>
          if nd_failurePolicy n = Some FollowFailureEdge then Inr (''FAILURE'', st)
          else Inl (NodeExecutionError (nd_id n) (max_attempts n) events lastError))"

fun run_steps ::
    "'st playbook_env \<Rightarrow> playbook \<Rightarrow> nat \<Rightarrow> string \<Rightarrow> 'st \<Rightarrow> trace_event list
     \<Rightarrow> playbook_error + 'st \<times> string \<times> trace_event list" where
  "run_steps env pb 0 current st events = Inl BoundExceeded"
| "run_steps env pb (Suc left) current st events =
     (let step = length (pb_nodes pb) - Suc left in
      if pe_run_aborted env step then Inl RunAborted
      else case node_at pb current of
        None \<Rightarrow> Inl (NodeMissing current)
      | Some n \<Rightarrow>
          if nd_type n = EndNode then Inr (st, nd_id n, events @ [ReachedEnd (nd_id n)])
          else (case pe_operators env (nd_type n) of
            None \<Rightarrow> Inl (NoOperator (nd_type n))
          | Some operator \<Rightarrow>
              res_bind (attempt_loop env operator n step st 1 None events) (\<lambda>r.
              res_bind (outcome_of n r st) (\<lambda>(outcome, st').
              res_bind (take_transition pb (nd_id n) outcome) (\<lambda>target.
                run_steps env pb left target st' (snd (snd r)))))))"

definition run_playbook ::
    "'st playbook_env \<Rightarrow> playbook \<Rightarrow> 'st \<Rightarrow> playbook_error + 'st \<times> string \<times> trace_event list" where
  "run_playbook env input initialState =
     (case expertAgentWorkflowExecutionSpecSchema input of
        Inl e \<Rightarrow> Inl (InvalidPlaybook e)
      | Inr pb \<Rightarrow>
          res_bind (compileNodeValidators env pb) (\<lambda>_.
            run_steps env pb (length (pb_nodes pb)) (pb_entrypoint pb) initialState []))"

section \<open>A run ends\<close>

lemma node_at_Some: "node_at pb i = Some n \<Longrightarrow> n \<in> set (pb_nodes pb) \<and> nd_id n = i"
  unfolding node_at_def by (drule map_of_SomeD) auto

lemma node_at_exists: "i \<in> set (node_ids pb) \<Longrightarrow> \<exists>n. node_at pb i = Some n"
  unfolding node_at_def node_ids_def
  by (rule not_None_eq [THEN iffD1]) (simp only: map_of_eq_None_iff not_not, force)

lemma accepted_graph: "expertAgentWorkflowExecutionSpecSchema input = Inr pb \<Longrightarrow> graph_checks pb"
  by (auto simp: expertAgentWorkflowExecutionSpecSchema_def res_bind_eq_Inr ensure_eq_Inr Let_def)

lemma compileNodeValidators_cases:
  "compileNodeValidators env pb = Inr () \<or> (\<exists>i. compileNodeValidators env pb = Inl (SchemaNotCompiled i))"
  unfolding compileNodeValidators_def by (simp only: option.case_eq_if split: if_splits) blast

lemma take_transition_Inr:
  "take_transition pb i outcome = Inr j \<Longrightarrow> (i, j) \<in> set (edges_of pb)"
proof -
  assume "take_transition pb i outcome = Inr j"
  then obtain t where "filter (\<lambda>t. tr_from t = i \<and> tr_outcome t = outcome) (pb_transitions pb) = [t]"
      "tr_to t = j"
    by (auto simp: take_transition_def split: list.splits)
  moreover from this(1)
  have "t \<in> set (pb_transitions pb) \<and> tr_from t = i \<and> tr_outcome t = outcome"
    by (metis (mono_tags, lifting) filter_eq_ConsD in_set_conv_decomp)
  ultimately show ?thesis by auto
qed

lemma take_transition_exists:
  assumes "distinct (map (\<lambda>t. (tr_from t, tr_outcome t)) ts)" and "t \<in> set ts"
    and "pb_transitions pb = ts"
  shows "take_transition pb (tr_from t) (tr_outcome t) = Inr (tr_to t)"
proof -
  have "filter (\<lambda>u. tr_from u = tr_from t \<and> tr_outcome u = tr_outcome t) ts = [t]"
    using assms(1,2)
  proof (induction ts)
    case (Cons a ts)
    then show ?case
    proof (cases "a = t")
      case True
      have "\<not> (tr_from u = tr_from t \<and> tr_outcome u = tr_outcome t)" if "u \<in> set ts" for u
        using Cons.prems(1) that True by (auto simp: image_iff)
      with True show ?thesis by (simp add: filter_empty_conv)
    next
      case False
      with Cons.prems have "t \<in> set ts" by simp
      moreover from this Cons.prems(1) have "\<not> (tr_from a = tr_from t \<and> tr_outcome a = tr_outcome t)"
        by (auto simp: image_iff)
      ultimately show ?thesis using Cons by simp
    qed
  qed simp
  then show ?thesis by (simp add: take_transition_def assms(3))
qed

lemma attempt_loop_error:
  "attempt_loop env operator n step st a lastError events = Inl e \<Longrightarrow> e = WaitAborted"
proof (induction env operator n step st a lastError events rule: attempt_loop.induct)
  case (1 env operator n step st attempt lastError events)
  then show ?case
    by (subst (asm) (2) attempt_loop.simps)
      (auto simp: Let_def wait_between_def res_bind_def split: if_splits sum.splits prod.splits)
qed

text \<open>The nodes that lie after a node are fewer at each step.\<close>

definition after :: "playbook \<Rightarrow> string \<Rightarrow> string set" where
  "after pb i = {j. (i, j) \<in> (set (edges_of pb))\<^sup>+}"

lemma after_decreases:
  assumes "acyclic (set (edges_of pb))" and "(i, j) \<in> set (edges_of pb)"
  shows "card (after pb j) < card (after pb i)"
proof (rule psubset_card_mono)
  show "finite (after pb i)"
    by (rule finite_subset [of _ "snd ` ((set (edges_of pb))\<^sup>+)"]) (auto simp: after_def image_iff, force)
  have "j \<in> after pb i" "j \<notin> after pb j"
    using assms(1) r_into_trancl [OF assms(2)] by (simp_all add: after_def acyclic_def)
  moreover have "after pb j \<subseteq> after pb i"
    using trancl_into_trancl2 [OF assms(2)] by (auto simp: after_def simp del: edges_of_iff)
  ultimately show "after pb j \<subset> after pb i" by blast
qed

lemma edge_inside:
  "graph_checks pb \<Longrightarrow> (i, j) \<in> set (edges_of pb) \<Longrightarrow> j \<in> set (node_ids pb)"
  unfolding graph_checks_iff by (auto simp: list_all_iff)

lemma after_bound:
  assumes checks: "graph_checks pb" and here: "i \<in> set (node_ids pb)"
  shows "card (after pb i) < length (pb_nodes pb)"
proof -
  have "after pb i \<subseteq> set (node_ids pb)"
    using edge_inside [OF checks] by (auto simp: after_def dest!: tranclD2)
  moreover have "i \<notin> after pb i"
    using checks by (simp add: graph_checks_iff after_def acyclic_def)
  ultimately have "after pb i \<subset> set (node_ids pb)" using here by blast
  then have "card (after pb i) < card (set (node_ids pb))"
    by (simp add: psubset_card_mono)
  also have "\<dots> \<le> length (pb_nodes pb)"
    using card_length [of "node_ids pb"] by (simp add: node_ids_def)
  finally show ?thesis .
qed

lemma run_steps_bound:
  assumes "graph_checks pb" and "current \<in> set (node_ids pb)" and "card (after pb current) < left"
    and "run_steps env pb left current st events = Inl e"
  shows "e \<noteq> BoundExceeded \<and> e \<noteq> NodeMissing i"
  using assms
proof (induction left arbitrary: current st events)
  case (Suc left)
  obtain n where n: "node_at pb current = Some n" using node_at_exists Suc.prems(2) by blast
  have id: "nd_id n = current" using node_at_Some [OF n] by simp
  have step: "e \<noteq> BoundExceeded \<and> e \<noteq> NodeMissing i"
    if "take_transition pb current outcome = Inr j" "run_steps env pb left j st' events' = Inl e"
    for outcome j st' events'
  proof -
    note edge = take_transition_Inr [OF that(1)]
    have "card (after pb j) < left"
      using after_decreases [OF _ edge] Suc.prems(1,3) by (auto simp: graph_checks_iff)
    then show ?thesis using Suc.IH Suc.prems(1) edge_inside [OF _ edge] that(2) by blast
  qed
  show ?case
    using Suc.prems(4) step
    by (auto simp: n id Let_def res_bind_def outcome_of_def take_transition_def dest!: attempt_loop_error
        split: if_splits option.splits sum.splits prod.splits list.splits)
qed simp


section \<open>A run that its operators allow to complete\<close>

lemma attempt_loop_result:
  assumes "\<forall>a. \<not> pe_wait_aborted env step a"
  shows "\<exists>r. attempt_loop env operator n step st a lastError events = Inr r \<and>
    (case fst r of
       Some (outcome, st') \<Rightarrow> (\<exists>b. attempt_node env operator n step st b = Inr (outcome, st'))
     | None \<Rightarrow> \<not> (\<exists>b x. a \<le> b \<and> b \<le> max_attempts n \<and> attempt_node env operator n step st b = Inr x))"
using assms
proof (induction env operator n step st a lastError events rule: attempt_loop.induct)
  case (1 env operator n step st attempt lastError events)
  note calm = "1.prems"
  show ?case
  proof (cases "max_attempts n < attempt")
    case True
    then show ?thesis by (auto simp: attempt_loop.simps [of env operator n step st attempt])
  next
    case False
    show ?thesis
    proof (cases "attempt_node env operator n step st attempt")
      case (Inr x)
      with False show ?thesis
        by (cases x) (auto simp: attempt_loop.simps [of env operator n step st attempt] Let_def)
    next
      case (Inl e)
      have later: "(\<exists>b x. attempt \<le> b \<and> b \<le> max_attempts n \<and> attempt_node env operator n step st b = Inr x)
          \<longleftrightarrow> (\<exists>b x. attempt + 1 \<le> b \<and> b \<le> max_attempts n \<and> attempt_node env operator n step st b = Inr x)"
        using Inl by (metis Inl_Inr_False add1_zle_eq order_less_le)
      have "wait_between env (backoff n) step attempt = Inr ()"
        using calm by (simp add: wait_between_def)
      then have "attempt_loop env operator n step st attempt lastError events =
          attempt_loop env operator n step st (attempt + 1) (Some e)
            ((events @ [Started (nd_id n) attempt]) @ [AttemptFailed (nd_id n) attempt e])"
        using False Inl by (subst attempt_loop.simps) (simp add: Let_def)
      then show ?thesis
        using "1.IH" [OF False refl Inl refl] calm unfolding later by simp
    qed
  qed
qed

text \<open>
  A playbook that its operators can run: each node has its operator, what an operator returns has
  a transition, and an operator returns within its attempts or its node follows the failure edge.
\<close>

definition dependable :: "'st playbook_env \<Rightarrow> playbook \<Rightarrow> bool" where
  "dependable env pb \<longleftrightarrow> (\<forall>n\<in>set (pb_nodes pb). nd_type n \<noteq> EndNode \<longrightarrow>
     (\<exists>operator. pe_operators env (nd_type n) = Some operator
       \<and> (\<forall>step st a outcome st'. attempt_node env operator n step st a = Inr (outcome, st') \<longrightarrow>
            (\<exists>t\<in>set (pb_transitions pb). tr_from t = nd_id n \<and> tr_outcome t = outcome))
       \<and> (nd_failurePolicy n = Some FollowFailureEdge
          \<or> (\<forall>step st. \<exists>a x. 1 \<le> a \<and> a \<le> max_attempts n \<and> attempt_node env operator n step st a = Inr x))))"

lemma step_taken:
  assumes checks: "graph_checks pb" and dep: "dependable env pb" and calm: "\<And>step. \<forall>a. \<not> pe_wait_aborted env step a"
    and n: "n \<in> set (pb_nodes pb)" "nd_type n \<noteq> EndNode"
  shows "\<exists>operator r outcome st' j. pe_operators env (nd_type n) = Some operator
    \<and> attempt_loop env operator n step st 1 None events = Inr r \<and> outcome_of n r st = Inr (outcome, st')
    \<and> take_transition pb (nd_id n) outcome = Inr j"
proof -
  obtain operator where op: "pe_operators env (nd_type n) = Some operator"
      and answers: "\<And>step st a outcome st'. attempt_node env operator n step st a = Inr (outcome, st') \<Longrightarrow>
        \<exists>t\<in>set (pb_transitions pb). tr_from t = nd_id n \<and> tr_outcome t = outcome"
      and works: "nd_failurePolicy n = Some FollowFailureEdge
        \<or> (\<forall>step st. \<exists>a x. 1 \<le> a \<and> a \<le> max_attempts n \<and> attempt_node env operator n step st a = Inr x)"
    using dep n unfolding dependable_def by blast
  obtain r where r: "attempt_loop env operator n step st 1 None events = Inr r"
      and res: "case fst r of
         Some (outcome, st') \<Rightarrow> (\<exists>b. attempt_node env operator n step st b = Inr (outcome, st'))
       | None \<Rightarrow> \<not> (\<exists>b x. 1 \<le> b \<and> b \<le> max_attempts n \<and> attempt_node env operator n step st b = Inr x)"
    using attempt_loop_result [OF calm] by blast
  have goes: "\<exists>j. take_transition pb (nd_id n) outcome = Inr j"
    if "t \<in> set (pb_transitions pb)" "tr_from t = nd_id n" "tr_outcome t = outcome" for t outcome
    using take_transition_exists [OF _ that(1) refl] checks that by (auto simp: graph_checks_iff)
  show ?thesis
  proof (cases "fst r")
    case (Some x)
    then obtain outcome st' where x: "fst r = Some (outcome, st')" by (cases x) auto
    with res obtain b where "attempt_node env operator n step st b = Inr (outcome, st')" by auto
    from answers [OF this] obtain t
      where "t \<in> set (pb_transitions pb)" "tr_from t = nd_id n" "tr_outcome t = outcome"
      by auto
    moreover have "outcome_of n r st = Inr (outcome, st')"
      using x by (cases r) (simp add: outcome_of_def)
    ultimately show ?thesis using goes op r by blast
  next
    case None
    with res have "\<not> (\<exists>b x. 1 \<le> b \<and> b \<le> max_attempts n \<and> attempt_node env operator n step st b = Inr x)"
      by simp
    with works have follow: "nd_failurePolicy n = Some FollowFailureEdge" by blast
    then obtain t where "t \<in> set (pb_transitions pb)" "tr_from t = nd_id n" "tr_outcome t = ''FAILURE''"
      using checks n(1) by (auto simp: graph_checks_iff list_all_iff list_ex_iff failure_edge_def)
    moreover have "outcome_of n r st = Inr (''FAILURE'', st)"
      using None follow by (cases r) (simp add: outcome_of_def)
    ultimately show ?thesis using goes op r by blast
  qed
qed

lemma run_steps_completes:
  assumes "graph_checks pb" and "dependable env pb"
    and "\<And>step. \<forall>a. \<not> pe_wait_aborted env step a" and "\<And>step. \<not> pe_run_aborted env step"
    and "current \<in> set (node_ids pb)" and "card (after pb current) < left"
  shows "\<exists>st' i events'. run_steps env pb left current st events = Inr (st', i, events') \<and> i \<in> set (end_nodes pb)"
  using assms(5,6)
proof (induction left arbitrary: current st events)
  case (Suc left)
  obtain n where n: "node_at pb current = Some n" using node_at_exists Suc.prems(1) by blast
  note at = node_at_Some [OF n]
  show ?case
  proof (cases "nd_type n = EndNode")
    case True
    with at n assms(4) show ?thesis by (auto simp: Let_def end_nodes_def)
  next
    case False
    obtain operator r outcome st' j where op: "pe_operators env (nd_type n) = Some operator"
        and r: "attempt_loop env operator n (length (pb_nodes pb) - Suc left) st 1 None events = Inr r"
          "outcome_of n r st = Inr (outcome, st')"
        and j: "take_transition pb (nd_id n) outcome = Inr j"
      using step_taken [OF assms(1-3) _ False] at by blast
    have edge: "(current, j) \<in> set (edges_of pb)" using take_transition_Inr [OF j] at by simp
    have "card (after pb j) < left"
      using after_decreases [OF _ edge] assms(1) Suc.prems(2) by (auto simp: graph_checks_iff)
    then have "\<exists>st'' i events'. run_steps env pb left j st' (snd (snd r)) = Inr (st'', i, events')
        \<and> i \<in> set (end_nodes pb)"
      using Suc.IH edge_inside [OF assms(1) edge] by blast
    then show ?thesis using n False op r j assms(4) by (simp add: Let_def)
  qed
qed simp

section \<open>The guarantees\<close>

text \<open>C15.
  The schema of a playbook decides exactly whether its graph can be run: its checks and its
  depth-first search accept a graph if and only if the identifiers of the nodes are unique, the
  entrypoint and the ends of every transition are nodes, an outcome of a node names one
  transition, a node that follows its failure edge has one, there is an END node and no
  transition leaves one, no path returns to its start, and every node is reachable from the
  entrypoint.
\<close>

theorem playbook_check_exact:
  "graph_checks pb \<longleftrightarrow>
     distinct (node_ids pb) \<and> pb_entrypoint pb \<in> set (node_ids pb)
     \<and> list_all (\<lambda>t. tr_from t \<in> set (node_ids pb) \<and> tr_to t \<in> set (node_ids pb)) (pb_transitions pb)
     \<and> distinct (map (\<lambda>t. (tr_from t, tr_outcome t)) (pb_transitions pb))
     \<and> list_all (failure_edge pb) (pb_nodes pb)
     \<and> end_nodes pb \<noteq> [] \<and> list_all (\<lambda>t. tr_from t \<notin> set (end_nodes pb)) (pb_transitions pb)
     \<and> acyclic (set (edges_of pb))
     \<and> set (node_ids pb) \<subseteq> (set (edges_of pb))\<^sup>* `` {pb_entrypoint pb}"
  by (rule graph_checks_iff)

text \<open>C16.
  A run of a playbook ends by itself. Whatever the operators return and whenever the signals
  fire, the bound of one step per node never cuts a run short, and no step arrives at a node that
  is missing: of an accepted playbook the run ends at an END node or with the error of a
  node, a transition or a signal, and a playbook the schema refuses is not run.
\<close>

theorem playbook_run_ends:
  "run_playbook env input st \<noteq> Inl BoundExceeded \<and> run_playbook env input st \<noteq> Inl (NodeMissing i)"
proof (cases "expertAgentWorkflowExecutionSpecSchema input")
  case (Inr pb)
  note checks = accepted_graph [OF Inr]
  have entry: "pb_entrypoint pb \<in> set (node_ids pb)"
    using checks by (simp add: graph_checks_iff)
  note bound = run_steps_bound [OF checks entry after_bound [OF checks entry], of env st "[]"]
  show ?thesis
  proof (cases "compileNodeValidators env pb = Inr ()")
    case True
    then have "run_playbook env input st =
        run_steps env pb (length (pb_nodes pb)) (pb_entrypoint pb) st []"
      by (simp add: run_playbook_def Inr)
    then show ?thesis
      by (cases "run_steps env pb (length (pb_nodes pb)) (pb_entrypoint pb) st []")
        (use bound in simp_all)
  next
    case False
    then obtain j where "compileNodeValidators env pb = Inl (SchemaNotCompiled j)"
      using compileNodeValidators_cases by blast
    then show ?thesis by (simp add: run_playbook_def Inr)
  qed
qed (simp add: run_playbook_def)


section \<open>A playbook\<close>

definition sample_node :: "string \<Rightarrow> node_type \<Rightarrow> playbook_node" where
  "sample_node i t = \<lparr>nd_id = i, nd_type = t, nd_configuration = JObj [], nd_inputSchema = None,
     nd_outputSchema = None, nd_timeoutMs = None, nd_retry = None, nd_failurePolicy = None\<rparr>"

text \<open>A lookup that is tried twice, and is passed over when it fails.\<close>

definition sample_playbook :: playbook where
  "sample_playbook = \<lparr>pb_framework = ''relay'', pb_version = ''1'', pb_entrypoint = ''lookup'',
     pb_configuration = JObj [],
     pb_nodes = [(sample_node ''lookup'' Tool)\<lparr>nd_retry := Some \<lparr>ry_maxAttempts = 2, ry_backoffMs = 50\<rparr>,
         nd_failurePolicy := Some FollowFailureEdge\<rparr>,
       sample_node ''answer'' Response, sample_node ''done'' EndNode],
     pb_transitions = [\<lparr>tr_from = ''lookup'', tr_outcome = ''FOUND'', tr_to = ''answer''\<rparr>,
       \<lparr>tr_from = ''lookup'', tr_outcome = ''FAILURE'', tr_to = ''done''\<rparr>,
       \<lparr>tr_from = ''answer'', tr_outcome = ''SENT'', tr_to = ''done''\<rparr>],
     pb_timeoutMs = 30000\<rparr>"

definition sample_cycle :: playbook where
  "sample_cycle = sample_playbook\<lparr>pb_transitions := \<lparr>tr_from = ''answer'', tr_outcome = ''AGAIN'', tr_to = ''lookup''\<rparr>
     # pb_transitions sample_playbook\<rparr>"

definition sample_env :: "int playbook_env" where
  "sample_env = \<lparr>pe_operators = (\<lambda>t. case t of
       Tool \<Rightarrow> Some (\<lambda>n st a. Inl ''The tool is down.'')
     | Response \<Rightarrow> Some (\<lambda>n st a. Inr (''SENT'', st + 1)) | _ \<Rightarrow> None),
     pe_compiles = (\<lambda>_. True), pe_valid = (\<lambda>_ _. True), pe_run_aborted = (\<lambda>_. False),
     pe_node_aborted = (\<lambda>_ _. False), pe_wait_aborted = (\<lambda>_ _. False)\<rparr>"

lemma sample_accepted: "expertAgentWorkflowExecutionSpecSchema sample_playbook = Inr sample_playbook"
  by code_simp

lemma sample_dependable: "dependable sample_env sample_playbook"
proof -
  have "js_trim ''SENT'' \<noteq> []" by code_simp
  then show ?thesis
    by (auto simp: dependable_def sample_playbook_def sample_env_def sample_node_def attempt_node_def
        assertSchema_def max_attempts_def intro!: exI [of _ 1])
qed

lemma playbook_check_exact_witness:
  "graph_checks sample_playbook \<and> acyclic (set (edges_of sample_playbook)) \<and> \<not> graph_checks sample_cycle"
proof -
  have "graph_checks sample_playbook" by code_simp
  moreover have "\<not> graph_checks sample_cycle" by code_simp
  ultimately show ?thesis
    using playbook_check_exact [of sample_playbook] by blast
qed


end
