(* ===== verification/Answer_Documents.thy ===== *)
theory Answer_Documents
  imports Playbooks "HOL-Library.Sublist"
begin

text \<open>
  Answers as documents: the schemas of \<open>contracts/src/answer-documents.ts\<close> and
  \<open>applyAnswerPatch\<close> of \<open>apps/expert-agent-runtime/src/answer-document.ts\<close>, which applies a patch
  to a document. A patch sets values of the state and adds, replaces and removes blocks; the
  runtime makes it recompute exactly the blocks whose dependencies it changes.
\<close>

section \<open>Data\<close>

type_synonym json_record = "(string \<times> js) list"

datatype evidence_kind = KnowledgeEvidence | ToolEvidence | UserEvidence

record answer_evidence =
  ae_id :: string
  ae_kind :: evidence_kind
  ae_sourceId :: string
  ae_sourceRevision :: "string option"
  ae_title :: string
  ae_excerpt :: "string option"
  ae_uri :: "string option"
  ae_authoritative :: bool
  ae_metadata :: json_record

datatype provenance_kind = AuthoritativeKnowledge | ToolOutput | UserInput | MemoryContext | Derived

record answer_provenance =
  av_kind :: provenance_kind
  av_sourceId :: string
  av_sourceRevision :: "string option"
  av_evidenceId :: "string option"
  av_authoritative :: bool
  av_metadata :: json_record

datatype block_type = Summary | Field | Policy | ListBlock | Callout | Handover | CustomBlock

record answer_block =
  ab_id :: string
  ab_type :: block_type
  ab_value :: js
  ab_revision :: int
  ab_contentHash :: string
  ab_provenance :: "answer_provenance list"
  ab_dependsOn :: "string list"
  ab_metadata :: json_record

datatype answer_status = Answered | Abstained | EscalatedAnswer | Clarify

record answer_document =
  ad_id :: string
  ad_revision :: int
  ad_status :: answer_status
  ad_state :: "(string \<times> js) list"
  ad_stateProvenance :: "(string \<times> answer_provenance list) list"
  ad_blocks :: "answer_block list"
  ad_metadata :: json_record

datatype patch_operation =
    SetState string js "string option" "answer_provenance list"
  | ReplaceBlock answer_block int
  | AddBlock answer_block "string option"
  | RemoveBlock string int

record answer_patch =
  pt_documentId :: string
  pt_baseRevision :: int
  pt_operations :: "patch_operation list"
  pt_metadata :: json_record

section \<open>Schemas\<close>

definition path_part :: "string \<Rightarrow> bool" where
  "path_part p \<longleftrightarrow> p \<noteq> [] \<and> lower_letter (hd p)
     \<and> list_all (\<lambda>c. lower_letter c \<or> is_digit c \<or> c \<in> set ''ABCDEFGHIJKLMNOPQRSTUVWXYZ'') (tl p)"

definition semanticPathSchema :: "string \<Rightarrow> string res" where
  "semanticPathSchema s = res_bind (z_trimmed 240 s) (\<lambda>t.
     res_bind (ensure (list_all path_part (split_on CHR ''.'' t)) SchemaError) (\<lambda>_. Inr t))"

definition sha256DigestSchema :: "string \<Rightarrow> string res" where
  "sha256DigestSchema s = (if take 7 s = ''sha256:'' \<and> length s = 71
      \<and> list_all (\<lambda>c. c \<in> set ''0123456789abcdef'') (drop 7 s)
    then Inr s else Inl SchemaError)"

declare size_entry [termination_simp] size_element [termination_simp]

fun answerJsonValueSchema :: "js \<Rightarrow> bool" where
  "answerJsonValueSchema (JArr vs) \<longleftrightarrow> list_all answerJsonValueSchema vs"
| "answerJsonValueSchema (JObj es) \<longleftrightarrow> list_all (\<lambda>p. answerJsonValueSchema (snd p)) es"
| "answerJsonValueSchema JNonFinite \<longleftrightarrow> False"
| "answerJsonValueSchema JUndefined \<longleftrightarrow> False"
| "answerJsonValueSchema (JOther t) \<longleftrightarrow> False"
| "answerJsonValueSchema v \<longleftrightarrow> True"

definition json_values :: "json_record \<Rightarrow> json_record res" where
  "json_values es = (if list_all (\<lambda>p. answerJsonValueSchema (snd p)) es then Inr es else Inl SchemaError)"

definition json_value :: "js \<Rightarrow> js res" where
  "json_value v = (if answerJsonValueSchema v then Inr v else Inl SchemaError)"

text \<open>A property of an object is set where it is, or last; \<open>z.record\<close> sets the parsed keys in order.\<close>

fun put_entry :: "string \<Rightarrow> 'a \<Rightarrow> (string \<times> 'a) list \<Rightarrow> (string \<times> 'a) list" where
  "put_entry k v [] = [(k, v)]"
| "put_entry k v ((k', v') # es) = (if k = k' then (k, v) # es else (k', v') # put_entry k v es)"

definition z_record :: "(string \<Rightarrow> string res) \<Rightarrow> ('a \<Rightarrow> 'a res) \<Rightarrow> (string \<times> 'a) list \<Rightarrow> (string \<times> 'a) list res" where
  "z_record key val es = fold_res (\<lambda>(k, v) acc. res_bind (key k) (\<lambda>k'. res_bind (val v) (\<lambda>v'.
     Inr (put_entry k' v' acc)))) es []"

definition nonnegative :: "int \<Rightarrow> int res" where
  "nonnegative n = (if 0 \<le> n then Inr n else Inl SchemaError)"

definition answerEvidenceSchema :: "answer_evidence \<Rightarrow> answer_evidence res" where
  "answerEvidenceSchema e =
     res_bind (z_trimmed 240 (ae_id e)) (\<lambda>i.
     res_bind (z_trimmed 500 (ae_sourceId e)) (\<lambda>s.
     res_bind (z_nullable (z_trimmed 500) (ae_sourceRevision e)) (\<lambda>r.
     res_bind (z_trimmed 1000 (ae_title e)) (\<lambda>t.
     res_bind (z_nullable (z_trimmed 8000) (ae_excerpt e)) (\<lambda>x.
     res_bind (z_nullable (z_trimmed 4000) (ae_uri e)) (\<lambda>u.
     res_bind (json_values (ae_metadata e)) (\<lambda>_.
     res_bind (ensure (ae_authoritative e \<longleftrightarrow> ae_kind e \<in> {KnowledgeEvidence, ToolEvidence}) SchemaError) (\<lambda>_.
     Inr (e\<lparr>ae_id := i, ae_sourceId := s, ae_sourceRevision := r, ae_title := t, ae_excerpt := x, ae_uri := u\<rparr>)))))))))"

definition answerProvenanceSchema :: "answer_provenance \<Rightarrow> answer_provenance res" where
  "answerProvenanceSchema p =
     res_bind (z_trimmed 500 (av_sourceId p)) (\<lambda>s.
     res_bind (z_nullable (z_trimmed 500) (av_sourceRevision p)) (\<lambda>r.
     res_bind (z_nullable (z_trimmed 240) (av_evidenceId p)) (\<lambda>e.
     res_bind (json_values (av_metadata p)) (\<lambda>_.
     res_bind (ensure (av_authoritative p \<longleftrightarrow> av_kind p \<in> {AuthoritativeKnowledge, ToolOutput}) SchemaError) (\<lambda>_.
     Inr (p\<lparr>av_sourceId := s, av_sourceRevision := r, av_evidenceId := e\<rparr>))))))"

definition answerBlockSchema :: "answer_block \<Rightarrow> answer_block res" where
  "answerBlockSchema b =
     res_bind (semanticPathSchema (ab_id b)) (\<lambda>i.
     res_bind (json_value (ab_value b)) (\<lambda>_.
     res_bind (nonnegative (ab_revision b)) (\<lambda>_.
     res_bind (sha256DigestSchema (ab_contentHash b)) (\<lambda>_.
     res_bind (z_array answerProvenanceSchema 0 200 (ab_provenance b)) (\<lambda>ps.
     res_bind (z_array semanticPathSchema 0 200 (ab_dependsOn b)) (\<lambda>ds.
     res_bind (json_values (ab_metadata b)) (\<lambda>_.
     Inr (b\<lparr>ab_id := i, ab_provenance := ps, ab_dependsOn := ds\<rparr>))))))))"

definition answerDocumentSchema :: "answer_document \<Rightarrow> answer_document res" where
  "answerDocumentSchema d =
     res_bind (z_trimmed 500 (ad_id d)) (\<lambda>i.
     res_bind (nonnegative (ad_revision d)) (\<lambda>_.
     res_bind (z_record semanticPathSchema json_value (ad_state d)) (\<lambda>st.
     res_bind (z_record semanticPathSchema (z_array answerProvenanceSchema 1 20) (ad_stateProvenance d)) (\<lambda>sp.
     res_bind (z_array answerBlockSchema 1 1000 (ad_blocks d)) (\<lambda>bs.
     res_bind (json_values (ad_metadata d)) (\<lambda>_.
     res_bind (ensure (distinct (map ab_id bs)) SchemaError) (\<lambda>_.
     Inr (d\<lparr>ad_id := i, ad_state := st, ad_stateProvenance := sp, ad_blocks := bs\<rparr>))))))))"

fun answerPatchOperationSchema :: "patch_operation \<Rightarrow> patch_operation res" where
  "answerPatchOperationSchema (SetState path v expected ps) =
     res_bind (semanticPathSchema path) (\<lambda>path'.
     res_bind (json_value v) (\<lambda>_.
     res_bind (z_nullable sha256DigestSchema expected) (\<lambda>_.
     res_bind (z_array answerProvenanceSchema 1 20 ps) (\<lambda>ps'. Inr (SetState path' v expected ps')))))"
| "answerPatchOperationSchema (ReplaceBlock b n) =
     res_bind (answerBlockSchema b) (\<lambda>b'. res_bind (nonnegative n) (\<lambda>_. Inr (ReplaceBlock b' n)))"
| "answerPatchOperationSchema (AddBlock b anchor) =
     res_bind (answerBlockSchema b) (\<lambda>b'.
     res_bind (z_nullable semanticPathSchema anchor) (\<lambda>anchor'. Inr (AddBlock b' anchor')))"
| "answerPatchOperationSchema (RemoveBlock i n) =
     res_bind (semanticPathSchema i) (\<lambda>i'. res_bind (nonnegative n) (\<lambda>_. Inr (RemoveBlock i' n)))"

fun set_path :: "patch_operation \<Rightarrow> string list" where
  "set_path (SetState path v expected ps) = [path]"
| "set_path _ = []"

fun block_named :: "patch_operation \<Rightarrow> string list" where
  "block_named (SetState path v expected ps) = []"
| "block_named (ReplaceBlock b n) = [ab_id b]"
| "block_named (AddBlock b anchor) = [ab_id b]"
| "block_named (RemoveBlock i n) = [i]"

definition changed_paths :: "patch_operation list \<Rightarrow> string list" where
  "changed_paths ops = concat (map set_path ops)"

definition changed_blocks :: "patch_operation list \<Rightarrow> string list" where
  "changed_blocks ops = concat (map block_named ops)"

definition answerPatchSchema :: "answer_patch \<Rightarrow> answer_patch res" where
  "answerPatchSchema p =
     res_bind (z_trimmed 500 (pt_documentId p)) (\<lambda>i.
     res_bind (nonnegative (pt_baseRevision p)) (\<lambda>_.
     res_bind (z_array answerPatchOperationSchema 1 2000 (pt_operations p)) (\<lambda>ops.
     res_bind (json_values (pt_metadata p)) (\<lambda>_.
     res_bind (ensure (distinct (changed_paths ops) \<and> distinct (changed_blocks ops)) SchemaError) (\<lambda>_.
     Inr (p\<lparr>pt_documentId := i, pt_operations := ops\<rparr>))))))"

section \<open>Hashes\<close>

text \<open>
  \<open>canonicalValue\<close> and \<open>digest\<close> of \<open>answer-document.ts\<close> differ from those of
  \<open>expert-agents/expert-agent-domain.ts\<close> in the text of an error only, which no parsed value reaches.
\<close>

definition answer_digest :: "(string \<Rightarrow> string \<Rightarrow> bool) \<Rightarrow> (string \<Rightarrow> string) \<Rightarrow> js \<Rightarrow> string res" where
  "answer_digest collate digest v = sha256 collate digest v"

definition answerStateValueHash ::
    "(string \<Rightarrow> string \<Rightarrow> bool) \<Rightarrow> (string \<Rightarrow> string) \<Rightarrow> js option \<Rightarrow> string res" where
  "answerStateValueHash collate digest v = answer_digest collate digest (JObj (case v of
     None \<Rightarrow> [(''present'', JBool False)]
   | Some x \<Rightarrow> [(''present'', JBool True), (''value'', x)]))"

fun block_type_text :: "block_type \<Rightarrow> string" where
  "block_type_text Summary = ''SUMMARY''"
| "block_type_text Field = ''FIELD''"
| "block_type_text Policy = ''POLICY''"
| "block_type_text ListBlock = ''LIST''"
| "block_type_text Callout = ''CALLOUT''"
| "block_type_text Handover = ''HANDOVER''"
| "block_type_text CustomBlock = ''CUSTOM''"

definition answerBlockContentHash ::
    "(string \<Rightarrow> string \<Rightarrow> bool) \<Rightarrow> (string \<Rightarrow> string) \<Rightarrow> answer_block \<Rightarrow> string res" where
  "answerBlockContentHash collate digest b = answer_digest collate digest (JObj
     [(''type'', JStr (block_type_text (ab_type b))), (''value'', ab_value b), (''metadata'', JObj (ab_metadata b))])"

definition createAnswerBlock ::
    "(string \<Rightarrow> string \<Rightarrow> bool) \<Rightarrow> (string \<Rightarrow> string) \<Rightarrow> answer_block \<Rightarrow> answer_block res" where
  "createAnswerBlock collate digest b =
     res_bind (answerBlockContentHash collate digest b) (\<lambda>h. answerBlockSchema (b\<lparr>ab_contentHash := h\<rparr>))"

definition assertBlockHash ::
    "(string \<Rightarrow> string \<Rightarrow> bool) \<Rightarrow> (string \<Rightarrow> string) \<Rightarrow> answer_block \<Rightarrow> unit res" where
  "assertBlockHash collate digest b =
     res_bind (answerBlockContentHash collate digest b) (\<lambda>actual.
       ensure (ab_contentHash b = actual)
         (PlainError (''AnswerBlock '' @ ab_id b @ '' content hash does not match its typed value.'')))"

section \<open>Applying a patch\<close>

definition pathAffectsDependency :: "string \<Rightarrow> string \<Rightarrow> bool" where
  "pathAffectsDependency path dependency \<longleftrightarrow> path = dependency
     \<or> prefix (dependency @ ''.'') path \<or> prefix (path @ ''.'') dependency"

definition affected_blocks :: "string list \<Rightarrow> answer_block list \<Rightarrow> string list" where
  "affected_blocks paths bs = map ab_id (filter (\<lambda>b. list_ex (\<lambda>dependency.
     list_ex (\<lambda>path. pathAffectsDependency path dependency) paths) (ab_dependsOn b)) bs)"

text \<open>
  \<open>state[path]\<close> also reads what an object inherits: the members of \<open>Object.prototype\<close> with a
  semantic name are functions without properties of their own, which the hash takes as \<open>{}\<close>.
\<close>

definition inherited_members :: "string list" where
  "inherited_members = [''constructor'', ''hasOwnProperty'', ''isPrototypeOf'', ''propertyIsEnumerable'',
     ''toLocaleString'', ''toString'', ''valueOf'']"

definition state_value :: "(string \<times> js) list \<Rightarrow> string \<Rightarrow> js option" where
  "state_value state path = (case map_of state path of
     Some v \<Rightarrow> Some v
   | None \<Rightarrow> if path \<in> set inherited_members then Some (JObj []) else None)"

record patch_state =
  ps_state :: "(string \<times> js) list"
  ps_provenance :: "(string \<times> answer_provenance list) list"
  ps_blocks :: "string \<rightharpoonup> answer_block"
  ps_order :: "string list"

definition requireBlock :: "(string \<rightharpoonup> answer_block) \<Rightarrow> string \<Rightarrow> answer_block res" where
  "requireBlock blocks i =
     of_option (PlainError (''AnswerBlock '' @ i @ '' does not exist in the base revision.'')) (blocks i)"

fun insert_after :: "string \<Rightarrow> string \<Rightarrow> string list \<Rightarrow> string list" where
  "insert_after anchor i [] = []"
| "insert_after anchor i (x # xs) = (if x = anchor then x # i # xs else x # insert_after anchor i xs)"

definition insert_at :: "string option \<Rightarrow> string \<Rightarrow> string list \<Rightarrow> string list res" where
  "insert_at anchor i order = (case anchor of
     None \<Rightarrow> Inr (i # order)
   | Some a \<Rightarrow> if a \<in> set order then Inr (insert_after a i order)
       else Inl (PlainError (''AnswerBlock '' @ a @ '' cannot be used as an insertion anchor.'')))"

definition revision_changed :: "string \<Rightarrow> failure" where
  "revision_changed i = PlainError (''AnswerBlock '' @ i @ '' revision changed after this patch was created.'')"

fun apply_operation ::
    "(string \<Rightarrow> string \<Rightarrow> bool) \<Rightarrow> (string \<Rightarrow> string) \<Rightarrow> string list \<Rightarrow> string list \<Rightarrow> patch_operation
     \<Rightarrow> patch_state \<Rightarrow> patch_state res" where
  "apply_operation collate digest paths affected (SetState path v expected ps) s =
     res_bind (case expected of
         None \<Rightarrow> Inr ()
       | Some h \<Rightarrow> res_bind (answerStateValueHash collate digest (state_value (ps_state s) path)) (\<lambda>h'.
           ensure (h = h') (PlainError (''State path '' @ path @ '' changed after this patch was created.''))))
       (\<lambda>_. Inr (s\<lparr>ps_state := put_entry path v (ps_state s),
          ps_provenance := put_entry path ps (ps_provenance s)\<rparr>))"
| "apply_operation collate digest paths affected (ReplaceBlock b expected) s =
     res_bind (requireBlock (ps_blocks s) (ab_id b)) (\<lambda>current.
     res_bind (ensure (ab_revision current = expected) (revision_changed (ab_id current))) (\<lambda>_.
     res_bind (ensure (ab_revision b = ab_revision current + 1)
       (PlainError (''Replacement AnswerBlock '' @ ab_id current @ '' must increment its revision exactly once.''))) (\<lambda>_.
     res_bind (ensure (paths = [] \<or> ab_id current \<in> set affected)
       (PlainError (''AnswerPatch cannot rewrite unrelated block '' @ ab_id current @ ''.''))) (\<lambda>_.
     res_bind (assertBlockHash collate digest b) (\<lambda>_.
       Inr (s\<lparr>ps_blocks := (ps_blocks s)(ab_id current \<mapsto> b)\<rparr>))))))"
| "apply_operation collate digest paths affected (AddBlock b anchor) s =
     res_bind (ensure (ps_blocks s (ab_id b) = None)
       (PlainError (''AnswerBlock '' @ ab_id b @ '' already exists.''))) (\<lambda>_.
     res_bind (ensure (ab_revision b = 0)
       (PlainError (''New AnswerBlock '' @ ab_id b @ '' must start at revision 0.''))) (\<lambda>_.
     res_bind (assertBlockHash collate digest b) (\<lambda>_.
     res_bind (insert_at anchor (ab_id b) (ps_order s)) (\<lambda>order.
       Inr (s\<lparr>ps_blocks := (ps_blocks s)(ab_id b \<mapsto> b), ps_order := order\<rparr>)))))"
| "apply_operation collate digest paths affected (RemoveBlock i expected) s =
     res_bind (requireBlock (ps_blocks s) i) (\<lambda>current.
     res_bind (ensure (ab_revision current = expected) (revision_changed (ab_id current))) (\<lambda>_.
     res_bind (ensure (paths = [] \<or> ab_id current \<in> set affected)
       (PlainError (''AnswerPatch cannot remove unrelated block '' @ ab_id current @ ''.''))) (\<lambda>_.
       Inr (s\<lparr>ps_blocks := (ps_blocks s)(ab_id current := None),
         ps_order := filter (\<lambda>j. j \<noteq> ab_id current) (ps_order s)\<rparr>))))"

definition block_map :: "answer_block list \<Rightarrow> string \<rightharpoonup> answer_block" where
  "block_map bs = map_of (rev (map (\<lambda>b. (ab_id b, b)) bs))"

definition check_patch ::
    "(string \<Rightarrow> string \<Rightarrow> bool) \<Rightarrow> (string \<Rightarrow> string) \<Rightarrow> answer_document \<Rightarrow> answer_patch \<Rightarrow> unit res" where
  "check_patch collate digest d p =
     res_bind (ensure (pt_documentId p = ad_id d)
       (PlainError ''AnswerPatch targets a different AnswerDocument.'')) (\<lambda>_.
     res_bind (ensure (pt_baseRevision p = ad_revision d) (PlainError (''AnswerPatch base revision '' @
       show_int (pt_baseRevision p) @ '' does not match document revision '' @ show_int (ad_revision d) @ ''.''))) (\<lambda>_.
     res_bind (fold_res (\<lambda>b _. assertBlockHash collate digest b) (ad_blocks d) ()) (\<lambda>_.
     (let missing = filter (\<lambda>i. i \<notin> set (changed_blocks (pt_operations p)))
            (affected_blocks (changed_paths (pt_operations p)) (ad_blocks d)) in
      ensure (missing = []) (PlainError (''AnswerPatch must recompute every affected block: '' @
        join_with '', '' missing @ ''.''))))))"

definition patched_metadata :: "json_record \<Rightarrow> json_record \<Rightarrow> json_record" where
  "patched_metadata old new = fold (\<lambda>(k, v). put_entry k v) new old"

definition applyAnswerPatch ::
    "(string \<Rightarrow> string \<Rightarrow> bool) \<Rightarrow> (string \<Rightarrow> string) \<Rightarrow> answer_document \<Rightarrow> answer_patch \<Rightarrow> answer_document res" where
  "applyAnswerPatch collate digest documentInput patchInput =
     res_bind (answerDocumentSchema documentInput) (\<lambda>d.
     res_bind (answerPatchSchema patchInput) (\<lambda>p.
     res_bind (check_patch collate digest d p) (\<lambda>_.
     (let ops = pt_operations p; paths = changed_paths ops in
     res_bind (fold_res (apply_operation collate digest paths (affected_blocks paths (ad_blocks d))) ops
       \<lparr>ps_state = ad_state d, ps_provenance = ad_stateProvenance d, ps_blocks = block_map (ad_blocks d),
        ps_order = map ab_id (ad_blocks d)\<rparr>) (\<lambda>s.
     res_bind (ensure (ps_order s \<noteq> [])
       (PlainError ''AnswerDocument must retain at least one block.'')) (\<lambda>_.
     res_bind (map_res (\<lambda>i. of_option SchemaError (ps_blocks s i)) (ps_order s)) (\<lambda>bs.
       answerDocumentSchema (d\<lparr>ad_revision := ad_revision d + 1, ad_state := ps_state s,
         ad_stateProvenance := ps_provenance s, ad_blocks := bs,
         ad_metadata := patched_metadata (ad_metadata d) (pt_metadata p)\<rparr>)))))))) "

section \<open>What a schema lets through it lets through unchanged\<close>

lemma z_nullable_fixed:
  "z_nullable f x = Inr y \<Longrightarrow> (\<And>a b. f a = Inr b \<Longrightarrow> f b = Inr b) \<Longrightarrow> z_nullable f y = Inr y"
  by (auto simp: z_nullable_def res_simps split: option.splits)

lemma z_trimmed_fixed: "z_trimmed n s = Inr t \<Longrightarrow> z_trimmed n t = Inr t"
  by auto

lemma semanticPathSchema_fixed: "semanticPathSchema s = Inr t \<Longrightarrow> semanticPathSchema t = Inr t"
  by (auto simp: semanticPathSchema_def res_simps)

lemma answerProvenanceSchema_fixed:
  assumes "answerProvenanceSchema p = Inr q"
  shows "answerProvenanceSchema q = Inr q"
proof -
  obtain s r e u where fields: "z_trimmed 500 (av_sourceId p) = Inr s"
      "z_nullable (z_trimmed 500) (av_sourceRevision p) = Inr r"
      "z_nullable (z_trimmed 240) (av_evidenceId p) = Inr e"
    and rest: "json_values (av_metadata p) = Inr u"
      "av_authoritative p \<longleftrightarrow> av_kind p \<in> {AuthoritativeKnowledge, ToolOutput}"
      "q = p\<lparr>av_sourceId := s, av_sourceRevision := r, av_evidenceId := e\<rparr>"
    using assms unfolding answerProvenanceSchema_def res_bind_eq_Inr ensure_eq_Inr by blast
  show ?thesis
    using z_trimmed_fixed [OF fields(1)] z_nullable_fixed [OF fields(2) z_trimmed_fixed]
      z_nullable_fixed [OF fields(3) z_trimmed_fixed] rest
    by (simp add: answerProvenanceSchema_def del: z_trimmed_Inr)
qed

lemma answerBlockSchema_fixed:
  assumes "answerBlockSchema b = Inr c"
  shows "answerBlockSchema c = Inr c"
proof -
  obtain i u v w ps ds x where fields: "semanticPathSchema (ab_id b) = Inr i"
      "z_array answerProvenanceSchema 0 200 (ab_provenance b) = Inr ps"
      "z_array semanticPathSchema 0 200 (ab_dependsOn b) = Inr ds"
    and rest: "json_value (ab_value b) = Inr u" "nonnegative (ab_revision b) = Inr v"
      "sha256DigestSchema (ab_contentHash b) = Inr w" "json_values (ab_metadata b) = Inr x"
      "c = b\<lparr>ab_id := i, ab_provenance := ps, ab_dependsOn := ds\<rparr>"
    using assms unfolding answerBlockSchema_def res_bind_eq_Inr by blast
  show ?thesis
    using semanticPathSchema_fixed [OF fields(1)] z_array_fixed [OF fields(2) answerProvenanceSchema_fixed]
      z_array_fixed [OF fields(3) semanticPathSchema_fixed] rest
    by (simp add: answerBlockSchema_def)
qed

lemma json_value_same: "json_value v = Inr w \<Longrightarrow> w = v"
  by (simp add: json_value_def split: if_splits)

lemma answerPatchOperationSchema_fixed:
  "answerPatchOperationSchema x = Inr y \<Longrightarrow> answerPatchOperationSchema y = Inr y"
proof (cases x)
  case (SetState path v expected ps)
  assume "answerPatchOperationSchema x = Inr y"
  with SetState obtain path' u w ps' where "semanticPathSchema path = Inr path'" "json_value v = Inr u"
      "z_nullable sha256DigestSchema expected = Inr w" "z_array answerProvenanceSchema 1 20 ps = Inr ps'"
      "y = SetState path' v expected ps'"
    by (auto simp: res_simps)
  then show ?thesis
    using semanticPathSchema_fixed [of path path'] z_array_fixed [OF _ answerProvenanceSchema_fixed, of 1 20 ps ps']
    by simp
next
  case (ReplaceBlock b n)
  then show "answerPatchOperationSchema x = Inr y \<Longrightarrow> ?thesis"
    using answerBlockSchema_fixed by (auto simp: res_simps)
next
  case (AddBlock b anchor)
  then show "answerPatchOperationSchema x = Inr y \<Longrightarrow> ?thesis"
    using answerBlockSchema_fixed z_nullable_fixed [OF _ semanticPathSchema_fixed] by (auto simp: res_simps)
next
  case (RemoveBlock i n)
  then show "answerPatchOperationSchema x = Inr y \<Longrightarrow> ?thesis"
    using semanticPathSchema_fixed by (auto simp: res_simps)
qed

lemma z_array_members: "z_array f lo hi xs = Inr ys \<Longrightarrow> y \<in> set ys \<Longrightarrow> \<exists>x. f x = Inr y"
  using map_res_all [of f xs ys y] by (auto simp: z_array_def split: if_splits)

section \<open>Objects with entries\<close>

lemma map_of_put_entry [simp]: "map_of (put_entry k v es) = (map_of es)(k \<mapsto> v)"
  by (induction k v es rule: put_entry.induct) auto

lemma keys_put_entry [simp]: "fst ` set (put_entry k v es) = insert k (fst ` set es)"
  by (induction k v es rule: put_entry.induct) auto

lemma distinct_put_entry: "distinct (map fst es) \<Longrightarrow> distinct (map fst (put_entry k v es))"
proof (induction k v es rule: put_entry.induct)
  case (2 k v k' v' es)
  then show ?case using keys_put_entry [of k v es] by (auto simp del: keys_put_entry)
qed simp

lemma set_put_entry: "x \<in> set (put_entry k v es) \<Longrightarrow> x = (k, v) \<or> x \<in> set es"
  by (induction k v es rule: put_entry.induct) (auto split: if_splits)

lemma put_entry_new: "k \<notin> fst ` set es \<Longrightarrow> put_entry k v es = es @ [(k, v)]"
  by (induction k v es rule: put_entry.induct) auto

text \<open>Entries that their schemas leave alone.\<close>

definition parsed :: "(string \<Rightarrow> string res) \<Rightarrow> ('a \<Rightarrow> 'a res) \<Rightarrow> (string \<times> 'a) list \<Rightarrow> bool" where
  "parsed key val es \<longleftrightarrow> distinct (map fst es) \<and> (\<forall>(k, v)\<in>set es. key k = Inr k \<and> val v = Inr v)"

lemma parsed_put_entry:
  "parsed key val es \<Longrightarrow> key k = Inr k \<Longrightarrow> val v = Inr v \<Longrightarrow> parsed key val (put_entry k v es)"
  unfolding parsed_def by (auto simp: distinct_put_entry dest!: set_put_entry)

lemma z_record_parsed:
  assumes "z_record key val es = Inr fs"
    and "\<And>x y. key x = Inr y \<Longrightarrow> key y = Inr y" and "\<And>x y. val x = Inr y \<Longrightarrow> val y = Inr y"
  shows "parsed key val fs"
  using assms(1) unfolding z_record_def
proof (rule fold_res_inv)
  show "parsed key val []" by (simp add: parsed_def)
next
  fix x s s'
  assume "parsed key val s" and "(case x of (k, v) \<Rightarrow> \<lambda>acc. res_bind (key k) (\<lambda>k'. res_bind (val v) (\<lambda>v'.
     Inr (put_entry k' v' acc)))) s = Inr s'"
  then show "parsed key val s'"
    by (auto simp: res_simps split: prod.splits intro!: parsed_put_entry dest: assms(2,3))
qed

lemma fold_put_parsed:
  assumes "\<forall>(k, v)\<in>set es. key k = Inr k \<and> val v = Inr v" and "distinct (map fst (acc @ es))"
  shows "fold_res (\<lambda>(k, v) acc. res_bind (key k) (\<lambda>k'. res_bind (val v) (\<lambda>v'.
     Inr (put_entry k' v' acc)))) es acc = Inr (acc @ es)"
  using assms
proof (induction es arbitrary: acc)
  case (Cons e es)
  obtain k v where e: "e = (k, v)" by fastforce
  with Cons.prems(2) have "put_entry k v acc = acc @ [(k, v)]"
    by (intro put_entry_new) auto
  with Cons e show ?case by simp
qed simp

lemma z_record_same: "parsed key val es \<Longrightarrow> z_record key val es = Inr es"
  unfolding z_record_def parsed_def by (simp add: fold_put_parsed)

section \<open>What an operation leaves alone\<close>

lemma set_insert_after [simp]: "a \<in> set xs \<Longrightarrow> set (insert_after a i xs) = insert i (set xs)"
  by (induction xs) auto

lemma filter_insert_after: "\<not> P i \<Longrightarrow> a \<in> set xs \<Longrightarrow> filter P (insert_after a i xs) = filter P xs"
  by (induction xs) auto

lemma insert_at_Inr:
  "insert_at anchor i order = Inr order' \<Longrightarrow> set order' = insert i (set order) \<and> (\<not> P i \<longrightarrow> filter P order' = filter P order)"
  by (auto simp: insert_at_def filter_insert_after split: option.splits if_splits)

lemma block_map_Some:
  "distinct (map ab_id bs) \<Longrightarrow> block_map bs i = Some b \<longleftrightarrow> b \<in> set bs \<and> ab_id b = i"
  unfolding block_map_def
  by (subst map_of_eq_Some_iff) (auto simp: rev_map [symmetric] comp_def)

lemma operation_other:
  assumes "apply_operation collate digest paths affected op s = Inr t" and "i \<notin> set (block_named op)"
    and "\<And>j b. ps_blocks s j = Some b \<Longrightarrow> ab_id b = j"
  shows "ps_blocks t i = ps_blocks s i"
  using assms by (cases op) (auto simp: res_simps requireBlock_def of_option_def split: option.splits)

section \<open>What applying a patch keeps\<close>

text \<open>
  The state of the loop over the operations of a parsed patch: blocks are found under their own
  identifier, pass the schema and have their hash, and the order lists exactly them.
\<close>

definition sound_patch_state :: "(string \<Rightarrow> string \<Rightarrow> bool) \<Rightarrow> (string \<Rightarrow> string) \<Rightarrow> patch_state \<Rightarrow> bool" where
  "sound_patch_state collate digest s \<longleftrightarrow>
     (\<forall>i b. ps_blocks s i = Some b \<longrightarrow>
        ab_id b = i \<and> answerBlockSchema b = Inr b \<and> assertBlockHash collate digest b = Inr ())
   \<and> set (ps_order s) = dom (ps_blocks s)
   \<and> parsed semanticPathSchema json_value (ps_state s)"

lemma operation_sound:
  assumes "apply_operation collate digest paths affected op s = Inr t" and "sound_patch_state collate digest s"
    and "answerPatchOperationSchema op = Inr op"
  shows "sound_patch_state collate digest t"
proof (cases op)
  case (SetState path v expected ps)
  then have "semanticPathSchema path = Inr path" "json_value v = Inr v"
    using assms(3) json_value_same [of v] by (auto simp: res_simps)
  then show ?thesis
    using assms(1,2) SetState by (auto simp: sound_patch_state_def res_simps parsed_put_entry)
next
  case (ReplaceBlock b n)
  then have fixed: "answerBlockSchema b = Inr b" using assms(3) by (auto simp: res_simps)
  obtain current where current: "ps_blocks s (ab_id b) = Some current"
      and hash: "assertBlockHash collate digest b = Inr ()"
      and t: "t = s\<lparr>ps_blocks := (ps_blocks s)(ab_id current \<mapsto> b)\<rparr>"
    using assms(1) ReplaceBlock by (auto simp: res_simps requireBlock_def of_option_def split: option.splits)
  have "ab_id current = ab_id b"
    using assms(2) current by (simp add: sound_patch_state_def)
  then show ?thesis
    using assms(2) current fixed hash unfolding t sound_patch_state_def by (simp add: insert_absorb domI)
next
  case (AddBlock b anchor)
  then have "answerBlockSchema b = Inr b" using assms(3) by (auto simp: res_simps)
  moreover obtain order where "insert_at anchor (ab_id b) (ps_order s) = Inr order"
      "assertBlockHash collate digest b = Inr ()"
      "t = s\<lparr>ps_blocks := (ps_blocks s)(ab_id b \<mapsto> b), ps_order := order\<rparr>"
    using assms(1) AddBlock by (auto simp: res_simps)
  ultimately show ?thesis
    using assms(2) insert_at_Inr [of anchor "ab_id b" "ps_order s" order] by (auto simp: sound_patch_state_def)
next
  case (RemoveBlock i n)
  then obtain current where "ps_blocks s i = Some current"
      and t: "t = s\<lparr>ps_blocks := (ps_blocks s)(ab_id current := None),
        ps_order := filter (\<lambda>j. j \<noteq> ab_id current) (ps_order s)\<rparr>"
    using assms(1) by (auto simp: res_simps requireBlock_def of_option_def split: option.splits)
  with assms(2) show ?thesis
    unfolding t sound_patch_state_def by (auto split: if_splits)
qed

lemma operation_order:
  assumes "apply_operation collate digest paths affected op s = Inr t" and "sound_patch_state collate digest s"
    and "set (block_named op) \<subseteq> C"
  shows "filter (\<lambda>i. i \<notin> C) (ps_order t) = filter (\<lambda>i. i \<notin> C) (ps_order s)"
proof (cases op)
  case (AddBlock b anchor)
  then obtain order where "insert_at anchor (ab_id b) (ps_order s) = Inr order"
      "t = s\<lparr>ps_blocks := (ps_blocks s)(ab_id b \<mapsto> b), ps_order := order\<rparr>"
    using assms(1) by (auto simp: res_simps)
  then show ?thesis
    using insert_at_Inr [of anchor "ab_id b" "ps_order s" order "\<lambda>i. i \<notin> C"] assms(3) AddBlock by simp
next
  case (RemoveBlock i n)
  then have "t = s\<lparr>ps_blocks := (ps_blocks s)(i := None), ps_order := filter (\<lambda>j. j \<noteq> i) (ps_order s)\<rparr>"
    using assms(1,2) by (auto simp: sound_patch_state_def res_simps requireBlock_def of_option_def split: option.splits)
  then show ?thesis using assms(3) RemoveBlock by (auto intro: filter_cong)
qed (use assms in \<open>auto simp: res_simps\<close>)

lemma operations_keep:
  assumes "fold_res (apply_operation collate digest paths affected) ops s = Inr t"
    and "sound_patch_state collate digest s"
    and "\<And>op. op \<in> set ops \<Longrightarrow> answerPatchOperationSchema op = Inr op"
    and "\<And>op. op \<in> set ops \<Longrightarrow> set (block_named op) \<subseteq> C"
  shows "sound_patch_state collate digest t
    \<and> filter (\<lambda>i. i \<notin> C) (ps_order t) = filter (\<lambda>i. i \<notin> C) (ps_order s)
    \<and> (\<forall>i. i \<notin> C \<longrightarrow> ps_blocks t i = ps_blocks s i)"
  using assms(1)
proof (rule fold_res_inv)
  fix op u v
  assume "op \<in> set ops"
    and u: "sound_patch_state collate digest u \<and> filter (\<lambda>i. i \<notin> C) (ps_order u) = filter (\<lambda>i. i \<notin> C) (ps_order s)
      \<and> (\<forall>i. i \<notin> C \<longrightarrow> ps_blocks u i = ps_blocks s i)"
    and step: "apply_operation collate digest paths affected op u = Inr v"
  note op = assms(3,4) [OF \<open>op \<in> set ops\<close>]
  have "ps_blocks v i = ps_blocks u i" if "i \<notin> C" for i
    using operation_other [OF step, of i] u op(2) that by (auto simp: sound_patch_state_def)
  then show "sound_patch_state collate digest v \<and> filter (\<lambda>i. i \<notin> C) (ps_order v) = filter (\<lambda>i. i \<notin> C) (ps_order s)
      \<and> (\<forall>i. i \<notin> C \<longrightarrow> ps_blocks v i = ps_blocks s i)"
    using operation_sound [OF step _ op(1)] operation_order [OF step _ op(2)] u by simp
qed (use assms(2) in simp)

fun set_value :: "patch_operation \<Rightarrow> (string \<times> js) list" where
  "set_value (SetState path v expected ps) = [(path, v)]"
| "set_value _ = []"

definition set_values :: "patch_operation list \<Rightarrow> (string \<times> js) list" where
  "set_values ops = concat (map set_value ops)"

lemma keys_set_values: "map fst (set_values ops) = changed_paths ops"
proof -
  have "map fst (set_value op) = set_path op" for op by (cases op) auto
  then show ?thesis by (induction ops) (auto simp: set_values_def changed_paths_def)
qed

lemma operations_state:
  assumes "fold_res (apply_operation collate digest paths affected) ops s = Inr t"
    and "distinct (changed_paths ops)"
  shows "map_of (ps_state t) = map_of (ps_state s) ++ map_of (set_values ops)"
  using assms
proof (induction ops arbitrary: s)
  case (Cons op ops)
  then obtain u where step: "apply_operation collate digest paths affected op s = Inr u"
    and rest: "fold_res (apply_operation collate digest paths affected) ops u = Inr t"
    by (auto simp: res_simps)
  have ih: "map_of (ps_state t) = map_of (ps_state u) ++ map_of (set_values ops)"
    using Cons.IH [OF rest] Cons.prems(2) by (simp add: changed_paths_def)
  show ?case
  proof (cases op)
    case (SetState path v expected ps)
    then have u: "map_of (ps_state u) = (map_of (ps_state s))(path \<mapsto> v)"
      using step by (auto simp: res_simps)
    have "path \<notin> set (changed_paths ops)"
      using Cons.prems(2) SetState by (simp add: changed_paths_def)
    then have "map_of (set_values ops) path = None"
      by (simp add: map_of_eq_None_iff keys_set_values [symmetric])
    then show ?thesis
      unfolding ih u using SetState by (auto simp: set_values_def map_add_def fun_eq_iff split: option.splits)
  qed (use step ih in \<open>auto simp: res_simps set_values_def\<close>)
qed (simp add: set_values_def)

text \<open>A named block is untouched until the operation that names it.\<close>

lemma operation_reached:
  assumes "fold_res (apply_operation collate digest paths affected) ops s = Inr t"
    and "sound_patch_state collate digest s" and "\<And>op. op \<in> set ops \<Longrightarrow> answerPatchOperationSchema op = Inr op"
    and "distinct (changed_blocks ops)" and "i \<in> set (changed_blocks ops)"
  shows "\<exists>op u v. op \<in> set ops \<and> i \<in> set (block_named op) \<and> ps_blocks u i = ps_blocks s i
    \<and> sound_patch_state collate digest u \<and> apply_operation collate digest paths affected op u = Inr v"
  using assms
proof (induction ops arbitrary: s)
  case (Cons op ops)
  then obtain u where step: "apply_operation collate digest paths affected op s = Inr u"
    and rest: "fold_res (apply_operation collate digest paths affected) ops u = Inr t"
    by (auto simp: res_simps)
  show ?case
  proof (cases "i \<in> set (block_named op)")
    case True
    with step Cons.prems(2) show ?thesis by (metis list.set_intros(1))
  next
    case False
    have u: "sound_patch_state collate digest u"
      using operation_sound [OF step Cons.prems(2)] Cons.prems(3) by simp
    have same: "ps_blocks u i = ps_blocks s i"
      using operation_other [OF step False] Cons.prems(2) by (auto simp: sound_patch_state_def)
    have "i \<in> set (changed_blocks ops)" "distinct (changed_blocks ops)"
      using Cons.prems(4,5) False by (auto simp: changed_blocks_def)
    then show ?thesis
      using Cons.IH [OF rest u] Cons.prems(3) unfolding same by (meson list.set_intros(2))
  qed
qed (simp add: changed_blocks_def)

lemma touched_is_affected:
  assumes "apply_operation collate digest paths affected op u = Inr v" and "sound_patch_state collate digest u"
    and "i \<in> set (block_named op)" and "ps_blocks u i = Some b" and "paths \<noteq> []"
  shows "i \<in> set affected"
  using assms
  by (cases op) (auto simp: res_simps requireBlock_def of_option_def sound_patch_state_def split: option.splits)

section \<open>Documents before and after\<close>

lemma document_parsed:
  assumes "answerDocumentSchema x = Inr d"
  shows "z_trimmed 500 (ad_id d) = Inr (ad_id d) \<and> parsed semanticPathSchema json_value (ad_state d)
    \<and> (\<forall>b\<in>set (ad_blocks d). answerBlockSchema b = Inr b) \<and> distinct (map ab_id (ad_blocks d))"
proof -
  obtain i u st sp bs w where fields: "z_trimmed 500 (ad_id x) = Inr i"
      "z_record semanticPathSchema json_value (ad_state x) = Inr st"
      "z_array answerBlockSchema 1 1000 (ad_blocks x) = Inr bs" "distinct (map ab_id bs)"
    and d: "d = x\<lparr>ad_id := i, ad_state := st, ad_stateProvenance := sp, ad_blocks := bs\<rparr>"
    using assms unfolding answerDocumentSchema_def res_bind_eq_Inr ensure_eq_Inr by blast
  have "parsed semanticPathSchema json_value st"
    using fields(2)
    by (rule z_record_parsed) (use semanticPathSchema_fixed json_value_same in blast)+
  then show ?thesis
    using fields(1,4) z_array_members [OF fields(3)] answerBlockSchema_fixed d by auto
qed

lemma document_unchanged:
  assumes "answerDocumentSchema x = Inr d"
    and "z_trimmed 500 (ad_id x) = Inr (ad_id x)" and "parsed semanticPathSchema json_value (ad_state x)"
    and "\<And>b. b \<in> set (ad_blocks x) \<Longrightarrow> answerBlockSchema b = Inr b"
  shows "ad_id d = ad_id x \<and> ad_revision d = ad_revision x \<and> ad_state d = ad_state x \<and> ad_blocks d = ad_blocks x
    \<and> distinct (map ab_id (ad_blocks d))"
proof -
  obtain i u st sp bs w where fields: "z_trimmed 500 (ad_id x) = Inr i"
      "z_record semanticPathSchema json_value (ad_state x) = Inr st"
      "z_array answerBlockSchema 1 1000 (ad_blocks x) = Inr bs" "distinct (map ab_id bs)"
    and d: "d = x\<lparr>ad_id := i, ad_state := st, ad_stateProvenance := sp, ad_blocks := bs\<rparr>"
    using assms(1) unfolding answerDocumentSchema_def res_bind_eq_Inr ensure_eq_Inr by blast
  have "bs = ad_blocks x"
    using fields(3) by (rule z_array_same) (use assms(4) in simp)
  then show ?thesis
    using fields d assms(2) z_record_same [OF assms(3)] by simp
qed

lemma patch_parsed:
  assumes "answerPatchSchema x = Inr p"
  shows "(\<forall>op\<in>set (pt_operations p). answerPatchOperationSchema op = Inr op)
    \<and> distinct (changed_paths (pt_operations p)) \<and> distinct (changed_blocks (pt_operations p))"
proof -
  obtain ops i where ops: "z_array answerPatchOperationSchema 1 2000 (pt_operations x) = Inr ops"
      "distinct (changed_paths ops) \<and> distinct (changed_blocks ops)"
      "p = x\<lparr>pt_documentId := i, pt_operations := ops\<rparr>"
    using assms unfolding answerPatchSchema_def res_bind_eq_Inr ensure_eq_Inr by blast
  then show ?thesis
    using z_array_members [OF ops(1)] answerPatchOperationSchema_fixed by auto
qed

definition start_state :: "answer_document \<Rightarrow> patch_state" where
  "start_state d = \<lparr>ps_state = ad_state d, ps_provenance = ad_stateProvenance d, ps_blocks = block_map (ad_blocks d),
     ps_order = map ab_id (ad_blocks d)\<rparr>"

lemma start_sound:
  assumes "answerDocumentSchema x = Inr d" and "check_patch collate digest d p = Inr ()"
  shows "sound_patch_state collate digest (start_state d)"
proof -
  note d = document_parsed [OF assms(1)]
  have "\<forall>b\<in>set (ad_blocks d). assertBlockHash collate digest b = Inr ()"
    using assms(2) by (auto simp: check_patch_def res_simps fold_res_each)
  moreover have "dom (block_map (ad_blocks d)) = set (map ab_id (ad_blocks d))"
    using d block_map_Some [of "ad_blocks d"] by (auto simp: dom_def)
  ultimately show ?thesis
    using d block_map_Some [of "ad_blocks d"] by (auto simp: sound_patch_state_def start_state_def)
qed

text \<open>All there is to know of a document that comes out of a patch.\<close>

lemma applyAnswerPatch_result:
  assumes "answerDocumentSchema doc = Inr d" and "answerPatchSchema patch = Inr p"
    and "applyAnswerPatch collate digest doc patch = Inr d'"
  obtains s where "check_patch collate digest d p = Inr ()"
    and "fold_res (apply_operation collate digest (changed_paths (pt_operations p))
      (affected_blocks (changed_paths (pt_operations p)) (ad_blocks d))) (pt_operations p) (start_state d) = Inr s"
    and "sound_patch_state collate digest s"
    and "map_res (\<lambda>i. of_option SchemaError (ps_blocks s i)) (ps_order s) = Inr (ad_blocks d')"
    and "ad_id d' = ad_id d" and "ad_revision d' = ad_revision d + 1" and "ad_state d' = ps_state s"
    and "distinct (map ab_id (ad_blocks d'))"
proof -
  obtain s bs where checks: "check_patch collate digest d p = Inr ()"
    and run: "fold_res (apply_operation collate digest (changed_paths (pt_operations p))
      (affected_blocks (changed_paths (pt_operations p)) (ad_blocks d))) (pt_operations p) (start_state d) = Inr s"
    and bs: "map_res (\<lambda>i. of_option SchemaError (ps_blocks s i)) (ps_order s) = Inr bs"
    and parse: "answerDocumentSchema (d\<lparr>ad_revision := ad_revision d + 1, ad_state := ps_state s,
         ad_stateProvenance := ps_provenance s, ad_blocks := bs,
         ad_metadata := patched_metadata (ad_metadata d) (pt_metadata p)\<rparr>) = Inr d'"
    using assms by (auto simp: applyAnswerPatch_def res_simps Let_def start_state_def)
  have sound: "sound_patch_state collate digest s"
    using operations_keep [OF run start_sound [OF assms(1) checks], of UNIV] patch_parsed [OF assms(2)] by auto
  have fixed: "answerBlockSchema b = Inr b" if "b \<in> set bs" for b
    using map_res_all [OF bs that] sound by (auto simp: of_option_def sound_patch_state_def split: option.splits)
  show thesis
    by (rule that [OF checks run sound])
      (use document_unchanged [OF parse] document_parsed [OF assms(1)] sound fixed bs in
        \<open>auto simp: sound_patch_state_def\<close>)
qed

lemma blocks_of_order:
  assumes "map_res (\<lambda>i. of_option SchemaError (ps_blocks s i)) order = Inr bs"
    and "sound_patch_state collate digest s"
  shows "map ab_id bs = order \<and> (\<forall>b\<in>set bs. ps_blocks s (ab_id b) = Some b)"
  using assms
proof (induction order arbitrary: bs)
  case (Cons i order)
  then obtain b rest where "ps_blocks s i = Some b" "map_res (\<lambda>i. of_option SchemaError (ps_blocks s i)) order = Inr rest"
      "bs = b # rest"
    by (auto simp: res_simps of_option_def split: option.splits)
  with Cons show ?case by (auto simp: sound_patch_state_def)
qed simp

lemma filter_by_id:
  assumes "filter P (map ab_id xs) = filter P (map ab_id ys)"
    and "\<And>x. x \<in> set xs \<Longrightarrow> P (ab_id x) \<Longrightarrow> f (ab_id x) = x" and "\<And>y. y \<in> set ys \<Longrightarrow> P (ab_id y) \<Longrightarrow> f (ab_id y) = y"
  shows "filter (\<lambda>b. P (ab_id b)) xs = filter (\<lambda>b. P (ab_id b)) ys"
proof -
  have "map f (filter P (map ab_id zs)) = filter (\<lambda>b. P (ab_id b)) zs"
    if "\<And>z. z \<in> set zs \<Longrightarrow> P (ab_id z) \<Longrightarrow> f (ab_id z) = z" for zs
    using that by (induction zs) auto
  then show ?thesis using assms by metis
qed

text \<open>C19.
  A patch changes what it names and nothing else. When it is applied, the document keeps its
  identity, its revision is one higher, the blocks the patch does not name are those of the old
  document, unchanged and in their old order, and its state is the old state with the values the
  patch sets.
\<close>

theorem patch_leaves_rest:
  assumes "answerDocumentSchema doc = Inr d" and "answerPatchSchema patch = Inr p"
    and "applyAnswerPatch collate digest doc patch = Inr d'"
  shows "ad_id d' = ad_id d \<and> ad_revision d' = ad_revision d + 1
    \<and> filter (\<lambda>b. ab_id b \<notin> set (changed_blocks (pt_operations p))) (ad_blocks d')
      = filter (\<lambda>b. ab_id b \<notin> set (changed_blocks (pt_operations p))) (ad_blocks d)
    \<and> map_of (ad_state d') = map_of (ad_state d) ++ map_of (set_values (pt_operations p))"
proof -
  obtain s where checks: "check_patch collate digest d p = Inr ()"
    and run: "fold_res (apply_operation collate digest (changed_paths (pt_operations p))
      (affected_blocks (changed_paths (pt_operations p)) (ad_blocks d))) (pt_operations p) (start_state d) = Inr s"
    and sound: "sound_patch_state collate digest s"
    and bs: "map_res (\<lambda>i. of_option SchemaError (ps_blocks s i)) (ps_order s) = Inr (ad_blocks d')"
    and rest: "ad_id d' = ad_id d" "ad_revision d' = ad_revision d + 1" "ad_state d' = ps_state s"
    using applyAnswerPatch_result [OF assms] by metis
  define C where "C = set (changed_blocks (pt_operations p))"
  have named: "set (block_named op) \<subseteq> C" if "op \<in> set (pt_operations p)" for op
    using that by (auto simp: C_def changed_blocks_def)
  have kept: "filter (\<lambda>i. i \<notin> C) (ps_order s) = filter (\<lambda>i. i \<notin> C) (map ab_id (ad_blocks d))"
      "\<And>i. i \<notin> C \<Longrightarrow> ps_blocks s i = block_map (ad_blocks d) i"
    using operations_keep [OF run start_sound [OF assms(1) checks] _ named] patch_parsed [OF assms(2)]
    by (auto simp: start_state_def)
  have old: "block_map (ad_blocks d) (ab_id b) = Some b" if "b \<in> set (ad_blocks d)" for b
    using block_map_Some [of "ad_blocks d"] document_parsed [OF assms(1)] that by simp
  have "filter (\<lambda>b. ab_id b \<notin> C) (ad_blocks d') = filter (\<lambda>b. ab_id b \<notin> C) (ad_blocks d)"
    by (rule filter_by_id [where f = "\<lambda>i. the (block_map (ad_blocks d) i)"])
      (use blocks_of_order [OF bs sound] kept old in fastforce)+
  moreover have "map_of (ad_state d') = map_of (ad_state d) ++ map_of (set_values (pt_operations p))"
    using operations_state [OF run] patch_parsed [OF assms(2)] rest(3) by (simp add: start_state_def)
  ultimately show ?thesis using rest by (simp add: C_def)
qed

text \<open>C20.
  A patch of the state rewrites exactly what depends on it. When a patch that sets a value is
  applied, the blocks of the old document it replaces or removes are precisely the blocks with a
  dependency at, above or below a path it sets; afterwards every block has the hash of its
  content and no two share an identifier.
\<close>

theorem patch_recomputes_exactly:
  assumes "answerDocumentSchema doc = Inr d" and "answerPatchSchema patch = Inr p"
    and "applyAnswerPatch collate digest doc patch = Inr d'" and "changed_paths (pt_operations p) \<noteq> []"
  shows "set (affected_blocks (changed_paths (pt_operations p)) (ad_blocks d))
      = set (changed_blocks (pt_operations p)) \<inter> ab_id ` set (ad_blocks d)
    \<and> list_all (\<lambda>b. assertBlockHash collate digest b = Inr ()) (ad_blocks d')
    \<and> distinct (map ab_id (ad_blocks d'))"
proof -
  let ?affected = "affected_blocks (changed_paths (pt_operations p)) (ad_blocks d)"
  obtain s where checks: "check_patch collate digest d p = Inr ()"
    and run: "fold_res (apply_operation collate digest (changed_paths (pt_operations p)) ?affected)
      (pt_operations p) (start_state d) = Inr s"
    and sound: "sound_patch_state collate digest s"
    and bs: "map_res (\<lambda>i. of_option SchemaError (ps_blocks s i)) (ps_order s) = Inr (ad_blocks d')"
    and ids: "distinct (map ab_id (ad_blocks d'))"
    using applyAnswerPatch_result [OF assms(1-3)] by metis
  note ops = patch_parsed [OF assms(2)]
  have touched: "i \<in> set ?affected" if i: "i \<in> set (changed_blocks (pt_operations p))" and mem: "b \<in> set (ad_blocks d)" "ab_id b = i" for i b
  proof -
    have b: "ps_blocks (start_state d) i = Some b"
      using block_map_Some [of "ad_blocks d"] document_parsed [OF assms(1)] mem by (simp add: start_state_def)
    obtain op u v where "i \<in> set (block_named op)" "ps_blocks u i = ps_blocks (start_state d) i"
        "sound_patch_state collate digest u"
        "apply_operation collate digest (changed_paths (pt_operations p)) ?affected op u = Inr v"
      using operation_reached [OF run start_sound [OF assms(1) checks] _ _ i] ops by blast
    then show ?thesis using touched_is_affected assms(4) b by metis
  qed
  have recomputed: "set ?affected \<subseteq> set (changed_blocks (pt_operations p))"
    using checks by (auto simp: check_patch_def res_simps Let_def filter_empty_conv)
  have inside: "set ?affected \<subseteq> ab_id ` set (ad_blocks d)"
    by (auto simp: affected_blocks_def)
  have "set ?affected = set (changed_blocks (pt_operations p)) \<inter> ab_id ` set (ad_blocks d)"
    using recomputed inside touched by blast
  moreover have "list_all (\<lambda>b. assertBlockHash collate digest b = Inr ()) (ad_blocks d')"
    using blocks_of_order [OF bs sound] sound by (auto simp: list_all_iff sound_patch_state_def)
  ultimately show ?thesis using ids by simp
qed

section \<open>An answer that is corrected\<close>

definition sample_digest :: "string \<Rightarrow> string" where
  "sample_digest s = replicate (length s mod 64) CHR ''a'' @ replicate (64 - length s mod 64) CHR ''b''"

definition sample_provenance :: answer_provenance where
  "sample_provenance = \<lparr>av_kind = UserInput, av_sourceId = ''chat'', av_sourceRevision = None, av_evidenceId = None,
     av_authoritative = False, av_metadata = []\<rparr>"

definition sample_block :: "string \<Rightarrow> string \<Rightarrow> int \<Rightarrow> string list \<Rightarrow> answer_block" where
  "sample_block i text n deps = (let b = \<lparr>ab_id = i, ab_type = Field, ab_value = JStr text, ab_revision = n,
       ab_contentHash = [], ab_provenance = [], ab_dependsOn = deps, ab_metadata = []\<rparr> in
     b\<lparr>ab_contentHash := case answerBlockContentHash text_le sample_digest b of Inr h \<Rightarrow> h | Inl _ \<Rightarrow> []\<rparr>)"

definition sample_document :: answer_document where
  "sample_document = \<lparr>ad_id = ''case-7'', ad_revision = 3, ad_status = Answered,
     ad_state = [(''employment.departureDate'', JStr ''2026-01-31'')], ad_stateProvenance = [],
     ad_blocks = [sample_block ''summary'' ''Leaves in January'' 0 [''employment''],
       sample_block ''policy'' ''Notice period'' 2 []],
     ad_metadata = []\<rparr>"

definition sample_patch :: answer_patch where
  "sample_patch = \<lparr>pt_documentId = ''case-7'', pt_baseRevision = 3,
     pt_operations = [SetState ''employment.departureDate'' (JStr ''2026-02-28'') None [sample_provenance],
       ReplaceBlock (sample_block ''summary'' ''Leaves in February'' 1 [''employment'']) 0],
     pt_metadata = []\<rparr>"

definition sample_result :: answer_document where
  "sample_result = projr (applyAnswerPatch text_le sample_digest sample_document sample_patch)"

lemma sample_document_parsed: "answerDocumentSchema sample_document = Inr sample_document"
  by code_simp

lemma sample_patch_parsed: "answerPatchSchema sample_patch = Inr sample_patch"
  by code_simp

lemma sample_patch_applies:
  "applyAnswerPatch text_le sample_digest sample_document sample_patch = Inr sample_result"
proof -
  have "\<not> isl (applyAnswerPatch text_le sample_digest sample_document sample_patch)" by code_simp
  then show ?thesis by (simp add: sample_result_def)
qed

lemma patch_leaves_rest_witness:
  "ad_revision sample_result = 4
    \<and> filter (\<lambda>b. ab_id b \<noteq> ''summary'') (ad_blocks sample_result) = [sample_block ''policy'' ''Notice period'' 2 []]
    \<and> map_of (ad_state sample_result) ''employment.departureDate'' = Some (JStr ''2026-02-28'')"
proof -
  note applied = patch_leaves_rest [OF sample_document_parsed sample_patch_parsed sample_patch_applies]
  have "changed_blocks (pt_operations sample_patch) = [''summary'']"
      "set_values (pt_operations sample_patch) = [(''employment.departureDate'', JStr ''2026-02-28'')]"
    by code_simp+
  moreover have "filter (\<lambda>b. ab_id b \<noteq> ''summary'') (ad_blocks sample_document)
      = [sample_block ''policy'' ''Notice period'' 2 []]"
    by code_simp
  moreover have "ad_revision sample_document = 3" by code_simp
  ultimately show ?thesis using applied by simp
qed

lemma patch_recomputes_exactly_witness:
  "affected_blocks (changed_paths (pt_operations sample_patch)) (ad_blocks sample_document) = [''summary'']
    \<and> list_all (\<lambda>b. assertBlockHash text_le sample_digest b = Inr ()) (ad_blocks sample_result)"
proof -
  have "changed_paths (pt_operations sample_patch) \<noteq> []" by code_simp
  note applied = patch_recomputes_exactly [OF sample_document_parsed sample_patch_parsed sample_patch_applies this]
  have "affected_blocks (changed_paths (pt_operations sample_patch)) (ad_blocks sample_document) = [''summary'']"
    by code_simp
  with applied show ?thesis by simp
qed

text \<open>
  What an object inherits is not told from what it holds: a patch that expects the path
  \<open>constructor\<close> to be absent is refused although the document has no such path.
\<close>

lemma inherited_member_counts_as_present:
  "state_value [] ''constructor'' = Some (JObj [])
    \<and> apply_operation text_le sample_digest [''constructor''] []
        (SetState ''constructor'' JNull (Some (projr (answerStateValueHash text_le sample_digest None))) [])
        (start_state (sample_document\<lparr>ad_state := []\<rparr>))
      = Inl (PlainError ''State path constructor changed after this patch was created.'')"
proof -
  have "state_value [] ''constructor'' = Some (JObj [])" by code_simp
  moreover have "answerStateValueHash text_le sample_digest (Some (JObj []))
      \<noteq> answerStateValueHash text_le sample_digest None" by code_simp
  moreover have "\<not> isl (answerStateValueHash text_le sample_digest None)"
      "\<not> isl (answerStateValueHash text_le sample_digest (Some (JObj [])))" by code_simp+
  ultimately show ?thesis
    by (auto simp: start_state_def isl_def res_bind_def ensure_def split: sum.splits)
qed

end
