(* ===== verification/Expert_Contracts.thy ===== *)
theory Expert_Contracts
  imports Complex_Main Answer_Documents
begin

text \<open>
  The definition of an expert agent: the schemas of \<open>contracts/src/expert-agents.ts\<close> for its
  product, policy, acceptance, safety, execution and resources, the snapshot of a Version over
  which digests are taken, and the evidence of a test. An object type is a record, the values of
  fields with a default are those after it is filled in, a number that need not be an integer is
  given by its text.
\<close>

section \<open>Numbers and dates\<close>

text \<open>The value of a decimal text with an optional fraction and exponent.\<close>

definition digits_value :: "string \<Rightarrow> rat" where
  "digits_value s = of_nat (read_nat s)"

definition split_at_char :: "char \<Rightarrow> string \<Rightarrow> string \<times> string" where
  "split_at_char c s = (takeWhile (\<lambda>x. x \<noteq> c) s, drop 1 (dropWhile (\<lambda>x. x \<noteq> c) s))"

definition unsigned_value :: "string \<Rightarrow> rat" where
  "unsigned_value s = (let (mantissa, e) = split_at_char CHR ''e'' s; (whole, fraction) = split_at_char CHR ''.'' mantissa;
       m = digits_value whole + digits_value fraction / 10 ^ length fraction in
     case e of [] \<Rightarrow> m
     | c # ds \<Rightarrow> if c = CHR ''-'' then m / 10 ^ read_nat ds
         else m * 10 ^ read_nat (if c = CHR ''+'' then ds else e))"

definition number_value :: "string \<Rightarrow> rat" where
  "number_value s = (case s of c # cs \<Rightarrow> if c = CHR ''-'' then - unsigned_value cs else unsigned_value s | [] \<Rightarrow> 0)"

definition z_rate :: "string \<Rightarrow> string res" where
  "z_rate s = (if 0 \<le> number_value s \<and> number_value s \<le> 1 then Inr s else Inl SchemaError)"

text \<open>\<open>z.string().datetime({ offset: true })\<close>.\<close>

definition digit_at :: "string \<Rightarrow> nat \<Rightarrow> bool" where
  "digit_at s i \<longleftrightarrow> i < length s \<and> is_digit (s ! i)"

definition char_at :: "char \<Rightarrow> string \<Rightarrow> nat \<Rightarrow> bool" where
  "char_at c s i \<longleftrightarrow> i < length s \<and> s ! i = c"

definition leap_year :: "nat \<Rightarrow> bool" where
  "leap_year y \<longleftrightarrow> y mod 4 = 0 \<and> (y mod 100 \<noteq> 0 \<or> y mod 400 = 0)"

definition month_days :: "nat \<Rightarrow> nat \<Rightarrow> nat" where
  "month_days y m = (if m \<in> {4, 6, 9, 11} then 30 else if m = 2 then (if leap_year y then 29 else 28)
     else if 1 \<le> m \<and> m \<le> 12 then 31 else 0)"

definition iso_date :: "string \<Rightarrow> bool" where
  "iso_date s \<longleftrightarrow> length s = 10 \<and> list_all (digit_at s) [0, 1, 2, 3, 5, 6, 8, 9] \<and> char_at CHR ''-'' s 4 \<and> char_at CHR ''-'' s 7
     \<and> (let d = read_nat (drop 8 s) in 1 \<le> d \<and> d \<le> month_days (read_nat (take 4 s)) (read_nat (take 2 (drop 5 s))))"

definition clock_time :: "string \<Rightarrow> bool" where
  "clock_time s \<longleftrightarrow> length s = 5 \<and> list_all (digit_at s) [0, 1, 3, 4] \<and> char_at CHR '':'' s 2
     \<and> read_nat (take 2 s) < 24 \<and> read_nat (drop 3 s) < 60"

definition iso_zone :: "string \<Rightarrow> bool" where
  "iso_zone s \<longleftrightarrow> s = ''Z'' \<or> (s \<noteq> [] \<and> hd s \<in> set ''+-'' \<and> clock_time (tl s))"

text \<open>The time after hours and minutes: optional seconds, with an optional fraction, and the zone.\<close>

definition iso_rest :: "string \<Rightarrow> bool" where
  "iso_rest s \<longleftrightarrow> iso_zone s
     \<or> (char_at CHR '':'' s 0 \<and> digit_at s 1 \<and> digit_at s 2 \<and> read_nat (take 2 (drop 1 s)) < 60
        \<and> (iso_zone (drop 3 s)
           \<or> (char_at CHR ''.'' s 3 \<and> digit_at s 4 \<and> iso_zone (dropWhile is_digit (drop 4 s)))))"

definition isoDateTimeSchema :: "string \<Rightarrow> string res" where
  "isoDateTimeSchema s = (if iso_date (take 10 s) \<and> char_at CHR ''T'' s 10 \<and> clock_time (take 5 (drop 11 s)) \<and> iso_rest (drop 16 s)
     then Inr s else Inl SchemaError)"

section \<open>Data\<close>

datatype grounding_policy = OptionalGrounding | RequiredGrounding | ToolGrounded
datatype output_mode = Freeform | Structured | Patchable
datatype action_policy = OpenActions | Allowlist | ApprovalRequired
datatype product_preset = Flexible | Controlled

record product_spec =
  pr_name :: string
  pr_purpose :: string
  pr_targetUsers :: "string list"
  pr_capabilities :: "string list"
  pr_outOfScope :: "string list"
  pr_delegationGuidance :: "string list option"
  pr_inputContract :: json_record
  pr_outputContract :: json_record

record policy_profile =
  pp_preset :: product_preset
  pp_groundingPolicy :: grounding_policy
  pp_outputMode :: output_mode
  pp_actionPolicy :: action_policy

datatype evaluation_assertion =
    StatusIs answer_status
  | ExecutionPath "string list" "string list"
  | Citations bool "string list option"
  | OutputSchema json_record
  | BlockStability "string list" "string list"
  | ToolInvocation string int
  | Delegation string bool
  | Claims "string list" "string list"
  | SemanticQuality string string
  | SourceCoverage "string list"

datatype case_kind = HappyPath | EdgeCase | FailurePath

record acceptance_case =
  ac_id :: string
  ac_title :: string
  ac_kind :: case_kind
  ac_given :: string
  ac_when :: string
  ac_then :: "string list"
  ac_required :: bool
  ac_request :: "json_record option"
  ac_assertions :: "evaluation_assertion list option"

record evaluation_suite =
  es_id :: string
  es_name :: string
  es_description :: string
  es_required :: bool
  es_caseIds :: "string list"

record acceptance_spec =
  as_cases :: "acceptance_case list"
  as_minimumRequiredPassRate :: string
  as_suites :: "evaluation_suite list option"

datatype guardrail_category = Grounding | AccessControl | DataHandling | ToolUse | ContentGuard | Operational
datatype violation_behavior = RejectViolation | UnknownViolation | EscalateViolation | RequireConfirmation

record guardrail =
  gr_id :: string
  gr_category :: guardrail_category
  gr_rule :: string
  gr_violationBehavior :: violation_behavior
  gr_required :: bool

datatype no_evidence_behavior = UnknownWithoutEvidence | EscalateWithoutEvidence | RejectWithoutEvidence

record safety_spec =
  sf_guardrails :: "guardrail list"
  sf_prohibitedBehaviors :: "string list"
  sf_noEvidenceBehavior :: no_evidence_behavior
  sf_allowGeneralModelFallback :: bool

datatype resource_kind = McpServer | KnowledgeVectorDatabase | ModelRouting | Skill | DataSource | MemoryResource
datatype resource_access = ReadAccess | InvokeAccess | ReadWriteAccess

record resource_binding =
  rb_kind :: resource_kind
  rb_resourceId :: string
  rb_revision :: string
  rb_access :: resource_access
  rb_required :: bool

datatype delegation_policy = Automatic | SuggestOnly
datatype delegation_execution = Synchronous | Asynchronous
datatype delegation_approval = ApprovalNotRequired | DelegationApproval

record delegation =
  dg_expertAgentId :: string
  dg_when :: string
  dg_delegationPolicy :: delegation_policy
  dg_executionPolicy :: delegation_execution
  dg_approvalPolicy :: delegation_approval
  dg_enabled :: bool

record agentic_spec =
  ag_framework :: string
  ag_version :: string
  ag_modelRoutingId :: string
  ag_instruction :: string
  ag_configuration :: js
  ag_maxSteps :: int
  ag_timeoutMs :: int

datatype execution_spec = Agentic agentic_spec | Workflow playbook

datatype execution_mode = AgenticMode | WorkflowMode

primrec mode_of :: "execution_spec \<Rightarrow> execution_mode" where
  "mode_of (Agentic a) = AgenticMode"
| "mode_of (Workflow w) = WorkflowMode"

record expert_definition =
  ed_product :: product_spec
  ed_policy :: policy_profile
  ed_delegations :: "delegation list"
  ed_acceptance :: acceptance_spec
  ed_safety :: safety_spec
  ed_execution :: execution_spec
  ed_resources :: "resource_binding list"

record version_snapshot =
  vs_agentId :: string
  vs_definition :: expert_definition

section \<open>Schemas\<close>

definition any_letter :: "char \<Rightarrow> bool" where
  "any_letter c \<longleftrightarrow> lower_letter c \<or> c \<in> set ''ABCDEFGHIJKLMNOPQRSTUVWXYZ''"

definition evaluationReferenceSchema :: "string \<Rightarrow> string res" where
  "evaluationReferenceSchema s = res_bind (z_trimmed 500 s) (\<lambda>t.
     res_bind (ensure (any_letter (hd t) \<and> list_all (\<lambda>c. any_letter c \<or> is_digit c \<or> c \<in> set ''._:-'') (tl t)) SchemaError)
       (\<lambda>_. Inr t))"

definition expertAgentProductSpecSchema :: "product_spec \<Rightarrow> product_spec res" where
  "expertAgentProductSpecSchema p =
     res_bind (z_trimmed 120 (pr_name p)) (\<lambda>n.
     res_bind (z_trimmed 4000 (pr_purpose p)) (\<lambda>u.
     res_bind (z_array (z_trimmed 240) 1 20 (pr_targetUsers p)) (\<lambda>t.
     res_bind (z_array (z_trimmed 500) 1 100 (pr_capabilities p)) (\<lambda>c.
     res_bind (z_array (z_trimmed 500) 0 100 (pr_outOfScope p)) (\<lambda>s.
     res_bind (z_nullable (z_array (z_trimmed 500) 0 100) (pr_delegationGuidance p)) (\<lambda>g.
     Inr (p\<lparr>pr_name := n, pr_purpose := u, pr_targetUsers := t, pr_capabilities := c, pr_outOfScope := s,
       pr_delegationGuidance := g\<rparr>)))))))"

fun expertAgentEvaluationAssertionSchema :: "evaluation_assertion \<Rightarrow> evaluation_assertion res" where
  "expertAgentEvaluationAssertionSchema (StatusIs s) = Inr (StatusIs s)"
| "expertAgentEvaluationAssertionSchema (ExecutionPath xs ys) =
     res_bind (z_array evaluationReferenceSchema 0 200 xs) (\<lambda>xs'.
     res_bind (z_array evaluationReferenceSchema 0 200 ys) (\<lambda>ys'. Inr (ExecutionPath xs' ys')))"
| "expertAgentEvaluationAssertionSchema (Citations b xs) =
     res_bind (z_nullable (z_array (z_trimmed 500) 0 500) xs) (\<lambda>xs'. Inr (Citations b xs'))"
| "expertAgentEvaluationAssertionSchema (OutputSchema s) = Inr (OutputSchema s)"
| "expertAgentEvaluationAssertionSchema (BlockStability xs ys) =
     res_bind (z_array evaluationReferenceSchema 0 500 xs) (\<lambda>xs'.
     res_bind (z_array evaluationReferenceSchema 0 500 ys) (\<lambda>ys'. Inr (BlockStability xs' ys')))"
| "expertAgentEvaluationAssertionSchema (ToolInvocation t n) =
     res_bind (z_trimmed 240 t) (\<lambda>t'. res_bind (int_between 0 1000 n) (\<lambda>_. Inr (ToolInvocation t' n)))"
| "expertAgentEvaluationAssertionSchema (Delegation e b) = res_bind (z_uuid e) (\<lambda>_. Inr (Delegation e b))"
| "expertAgentEvaluationAssertionSchema (Claims xs ys) =
     res_bind (z_array (z_trimmed 2000) 0 200 xs) (\<lambda>xs'.
     res_bind (z_array (z_trimmed 2000) 0 200 ys) (\<lambda>ys'. Inr (Claims xs' ys')))"
| "expertAgentEvaluationAssertionSchema (SemanticQuality r n) =
     res_bind (z_trimmed 8000 r) (\<lambda>r'. res_bind (z_rate n) (\<lambda>_. Inr (SemanticQuality r' n)))"
| "expertAgentEvaluationAssertionSchema (SourceCoverage xs) =
     res_bind (z_array (z_trimmed 500) 1 500 xs) (\<lambda>xs'. Inr (SourceCoverage xs'))"

definition expertAgentAcceptanceCaseSchema :: "acceptance_case \<Rightarrow> acceptance_case res" where
  "expertAgentAcceptanceCaseSchema c =
     res_bind (identifierSchema (ac_id c)) (\<lambda>i.
     res_bind (z_trimmed 240 (ac_title c)) (\<lambda>t.
     res_bind (z_trimmed 4000 (ac_given c)) (\<lambda>g.
     res_bind (z_trimmed 4000 (ac_when c)) (\<lambda>w.
     res_bind (z_array (z_trimmed 2000) 1 50 (ac_then c)) (\<lambda>h.
     res_bind (z_nullable (z_array expertAgentEvaluationAssertionSchema 1 200) (ac_assertions c)) (\<lambda>as.
     Inr (c\<lparr>ac_id := i, ac_title := t, ac_given := g, ac_when := w, ac_then := h, ac_assertions := as\<rparr>)))))))"

definition expertAgentEvaluationSuiteSchema :: "evaluation_suite \<Rightarrow> evaluation_suite res" where
  "expertAgentEvaluationSuiteSchema s =
     res_bind (identifierSchema (es_id s)) (\<lambda>i.
     res_bind (z_trimmed 240 (es_name s)) (\<lambda>n.
     res_bind (z_trimmed 2000 (es_description s)) (\<lambda>d.
     res_bind (z_array identifierSchema 1 500 (es_caseIds s)) (\<lambda>cs.
     res_bind (ensure (distinct cs) SchemaError) (\<lambda>_.
     Inr (s\<lparr>es_id := i, es_name := n, es_description := d, es_caseIds := cs\<rparr>))))))"

definition suites_known :: "acceptance_case list \<Rightarrow> evaluation_suite list option \<Rightarrow> bool" where
  "suites_known cs suites \<longleftrightarrow> (case suites of None \<Rightarrow> True
     | Some ss \<Rightarrow> distinct (map es_id ss)
         \<and> list_all (\<lambda>s. list_all (\<lambda>i. i \<in> set (map ac_id cs)) (es_caseIds s)) ss)"

definition expertAgentAcceptanceSpecSchema :: "acceptance_spec \<Rightarrow> acceptance_spec res" where
  "expertAgentAcceptanceSpecSchema a =
     res_bind (z_array expertAgentAcceptanceCaseSchema 1 500 (as_cases a)) (\<lambda>cs.
     res_bind (z_rate (as_minimumRequiredPassRate a)) (\<lambda>_.
     res_bind (z_nullable (z_array expertAgentEvaluationSuiteSchema 1 100) (as_suites a)) (\<lambda>ss.
     res_bind (ensure (distinct (map ac_id cs) \<and> suites_known cs ss) SchemaError) (\<lambda>_.
     Inr (a\<lparr>as_cases := cs, as_suites := ss\<rparr>)))))"

definition expertAgentGuardrailSchema :: "guardrail \<Rightarrow> guardrail res" where
  "expertAgentGuardrailSchema g =
     res_bind (identifierSchema (gr_id g)) (\<lambda>i.
     res_bind (z_trimmed 4000 (gr_rule g)) (\<lambda>r. Inr (g\<lparr>gr_id := i, gr_rule := r\<rparr>)))"

definition expertAgentSafetySpecSchema :: "safety_spec \<Rightarrow> safety_spec res" where
  "expertAgentSafetySpecSchema s =
     res_bind (z_array expertAgentGuardrailSchema 1 200 (sf_guardrails s)) (\<lambda>gs.
     res_bind (z_array (z_trimmed 1000) 1 200 (sf_prohibitedBehaviors s)) (\<lambda>ps.
     res_bind (ensure (distinct (map gr_id gs)) SchemaError) (\<lambda>_.
     Inr (s\<lparr>sf_guardrails := gs, sf_prohibitedBehaviors := ps\<rparr>))))"

definition expertAgentResourceBindingSchema :: "resource_binding \<Rightarrow> resource_binding res" where
  "expertAgentResourceBindingSchema b =
     res_bind (z_trimmed 240 (rb_resourceId b)) (\<lambda>i.
     res_bind (z_trimmed 240 (rb_revision b)) (\<lambda>r. Inr (b\<lparr>rb_resourceId := i, rb_revision := r\<rparr>)))"

definition expertAgentDelegationSchema :: "delegation \<Rightarrow> delegation res" where
  "expertAgentDelegationSchema d =
     res_bind (z_uuid (dg_expertAgentId d)) (\<lambda>_.
     res_bind (z_trimmed 2000 (dg_when d)) (\<lambda>w. Inr (d\<lparr>dg_when := w\<rparr>)))"

definition expertAgentDelegationsSchema :: "delegation list \<Rightarrow> delegation list res" where
  "expertAgentDelegationsSchema ds =
     res_bind (z_array expertAgentDelegationSchema 0 100 ds) (\<lambda>ds'.
     res_bind (ensure (distinct (map dg_expertAgentId ds')) SchemaError) (\<lambda>_. Inr ds'))"

definition expertAgentAgenticExecutionSpecSchema :: "agentic_spec \<Rightarrow> agentic_spec res" where
  "expertAgentAgenticExecutionSpecSchema a =
     res_bind (z_trimmed 120 (ag_framework a)) (\<lambda>f.
     res_bind (z_trimmed 120 (ag_version a)) (\<lambda>v.
     res_bind (z_trimmed 240 (ag_modelRoutingId a)) (\<lambda>m.
     res_bind (z_trimmed 32000 (ag_instruction a)) (\<lambda>i.
     res_bind (int_between 1 100 (ag_maxSteps a)) (\<lambda>_.
     res_bind (int_between 1000 900000 (ag_timeoutMs a)) (\<lambda>_.
     Inr (a\<lparr>ag_framework := f, ag_version := v, ag_modelRoutingId := m, ag_instruction := i\<rparr>)))))))"

fun expertAgentExecutionSpecSchema :: "execution_spec \<Rightarrow> execution_spec res" where
  "expertAgentExecutionSpecSchema (Agentic a) =
     res_bind (expertAgentAgenticExecutionSpecSchema a) (\<lambda>a'. Inr (Agentic a'))"
| "expertAgentExecutionSpecSchema (Workflow w) =
     res_bind (expertAgentWorkflowExecutionSpecSchema w) (\<lambda>w'. Inr (Workflow w'))"

definition expertAgentDefinitionSchema :: "expert_definition \<Rightarrow> expert_definition res" where
  "expertAgentDefinitionSchema d =
     res_bind (expertAgentProductSpecSchema (ed_product d)) (\<lambda>p.
     res_bind (expertAgentDelegationsSchema (ed_delegations d)) (\<lambda>ds.
     res_bind (expertAgentAcceptanceSpecSchema (ed_acceptance d)) (\<lambda>a.
     res_bind (expertAgentSafetySpecSchema (ed_safety d)) (\<lambda>s.
     res_bind (expertAgentExecutionSpecSchema (ed_execution d)) (\<lambda>e.
     res_bind (z_array expertAgentResourceBindingSchema 0 200 (ed_resources d)) (\<lambda>rs.
     Inr (d\<lparr>ed_product := p, ed_delegations := ds, ed_acceptance := a, ed_safety := s, ed_execution := e,
       ed_resources := rs\<rparr>)))))))"

definition expertAgentDefinitionInputSchema :: "expert_definition \<times> int \<Rightarrow> (expert_definition \<times> int) res" where
  "expertAgentDefinitionInputSchema i =
     res_bind (expertAgentDefinitionSchema (fst i)) (\<lambda>d. res_bind (nonnegative (snd i)) (\<lambda>n. Inr (d, n)))"

text \<open>The text \<open>kind:resourceId\<close> of a resource determines both, since no kind has a colon.\<close>

definition expertAgentVersionSnapshotSchema :: "version_snapshot \<Rightarrow> version_snapshot res" where
  "expertAgentVersionSnapshotSchema v =
     res_bind (z_trimmed 240 (vs_agentId v)) (\<lambda>i.
     res_bind (expertAgentDefinitionSchema (vs_definition v)) (\<lambda>d.
     res_bind (ensure (distinct (map (\<lambda>b. (rb_kind b, rb_resourceId b)) (ed_resources d))) SchemaError) (\<lambda>_.
     Inr \<lparr>vs_agentId = i, vs_definition = d\<rparr>)))"

section \<open>The values under a digest\<close>

definition jint :: "int \<Rightarrow> js" where
  "jint n = JNum (show_int n)"

text \<open>An optional field that is absent is not a key of the object.\<close>

definition optional_key :: "string \<Rightarrow> ('a \<Rightarrow> js) \<Rightarrow> 'a option \<Rightarrow> (string \<times> js) list" where
  "optional_key k f x = (case x of None \<Rightarrow> [] | Some v \<Rightarrow> [(k, f v)])"

definition product_json :: "product_spec \<Rightarrow> js" where
  "product_json p = JObj ([(''name'', JStr (pr_name p)), (''purpose'', JStr (pr_purpose p)),
     (''targetUsers'', jstrs (pr_targetUsers p)), (''capabilities'', jstrs (pr_capabilities p)),
     (''outOfScope'', jstrs (pr_outOfScope p))]
     @ optional_key ''delegationGuidance'' jstrs (pr_delegationGuidance p)
     @ [(''inputContract'', JObj (pr_inputContract p)), (''outputContract'', JObj (pr_outputContract p))])"

fun preset_text :: "product_preset \<Rightarrow> string" where
  "preset_text Flexible = ''FLEXIBLE''"
| "preset_text Controlled = ''CONTROLLED''"

fun grounding_text :: "grounding_policy \<Rightarrow> string" where
  "grounding_text OptionalGrounding = ''OPTIONAL''"
| "grounding_text RequiredGrounding = ''REQUIRED''"
| "grounding_text ToolGrounded = ''TOOL_GROUNDED''"

fun output_text :: "output_mode \<Rightarrow> string" where
  "output_text Freeform = ''FREEFORM''"
| "output_text Structured = ''STRUCTURED''"
| "output_text Patchable = ''PATCHABLE''"

fun action_policy_text :: "action_policy \<Rightarrow> string" where
  "action_policy_text OpenActions = ''OPEN''"
| "action_policy_text Allowlist = ''ALLOWLIST''"
| "action_policy_text ApprovalRequired = ''APPROVAL''"

definition policy_json :: "policy_profile \<Rightarrow> js" where
  "policy_json p = JObj [(''preset'', JStr (preset_text (pp_preset p))),
     (''groundingPolicy'', JStr (grounding_text (pp_groundingPolicy p))),
     (''outputMode'', JStr (output_text (pp_outputMode p))),
     (''actionPolicy'', JStr (action_policy_text (pp_actionPolicy p)))]"

fun answer_status_text :: "answer_status \<Rightarrow> string" where
  "answer_status_text Answered = ''ANSWER''"
| "answer_status_text Abstained = ''ABSTAIN''"
| "answer_status_text EscalatedAnswer = ''ESCALATE''"
| "answer_status_text Clarify = ''CLARIFY''"

fun assertion_type :: "evaluation_assertion \<Rightarrow> string" where
  "assertion_type (StatusIs s) = ''STATUS''"
| "assertion_type (ExecutionPath xs ys) = ''EXECUTION_PATH''"
| "assertion_type (Citations b xs) = ''CITATIONS''"
| "assertion_type (OutputSchema s) = ''OUTPUT_SCHEMA''"
| "assertion_type (BlockStability xs ys) = ''BLOCK_STABILITY''"
| "assertion_type (ToolInvocation t n) = ''TOOL_INVOCATION''"
| "assertion_type (Delegation e b) = ''DELEGATION''"
| "assertion_type (Claims xs ys) = ''CLAIMS''"
| "assertion_type (SemanticQuality r n) = ''SEMANTIC_QUALITY''"
| "assertion_type (SourceCoverage xs) = ''SOURCE_COVERAGE''"

fun assertion_fields :: "evaluation_assertion \<Rightarrow> (string \<times> js) list" where
  "assertion_fields (StatusIs s) = [(''expected'', JStr (answer_status_text s))]"
| "assertion_fields (ExecutionPath xs ys) = [(''requiredNodeIds'', jstrs xs), (''forbiddenNodeIds'', jstrs ys)]"
| "assertion_fields (Citations b xs) = (''required'', JBool b) # optional_key ''allowedSourceIds'' jstrs xs"
| "assertion_fields (OutputSchema s) = [(''schema'', JObj s)]"
| "assertion_fields (BlockStability xs ys) = [(''changedBlockIds'', jstrs xs), (''unchangedBlockIds'', jstrs ys)]"
| "assertion_fields (ToolInvocation t n) = [(''toolName'', JStr t), (''minimumCalls'', jint n)]"
| "assertion_fields (Delegation e b) = [(''expertAgentId'', JStr e), (''required'', JBool b)]"
| "assertion_fields (Claims xs ys) = [(''requiredClaims'', jstrs xs), (''forbiddenClaims'', jstrs ys)]"
| "assertion_fields (SemanticQuality r n) = [(''rubric'', JStr r), (''minimumScore'', JNum n)]"
| "assertion_fields (SourceCoverage xs) = [(''requiredSourceIds'', jstrs xs)]"

definition assertion_json :: "evaluation_assertion \<Rightarrow> js" where
  "assertion_json a = JObj ((''type'', JStr (assertion_type a)) # assertion_fields a)"

fun case_kind_text :: "case_kind \<Rightarrow> string" where
  "case_kind_text HappyPath = ''HAPPY_PATH''"
| "case_kind_text EdgeCase = ''EDGE_CASE''"
| "case_kind_text FailurePath = ''FAILURE_PATH''"

definition case_json :: "acceptance_case \<Rightarrow> js" where
  "case_json c = JObj ([(''id'', JStr (ac_id c)), (''title'', JStr (ac_title c)),
     (''kind'', JStr (case_kind_text (ac_kind c))), (''given'', JStr (ac_given c)), (''when'', JStr (ac_when c)),
     (''then'', jstrs (ac_then c)), (''required'', JBool (ac_required c))]
     @ optional_key ''request'' JObj (ac_request c)
     @ optional_key ''assertions'' (\<lambda>as. JArr (map assertion_json as)) (ac_assertions c))"

definition suite_json :: "evaluation_suite \<Rightarrow> js" where
  "suite_json s = JObj [(''id'', JStr (es_id s)), (''name'', JStr (es_name s)),
     (''description'', JStr (es_description s)), (''required'', JBool (es_required s)), (''caseIds'', jstrs (es_caseIds s))]"

definition acceptance_json :: "acceptance_spec \<Rightarrow> js" where
  "acceptance_json a = JObj ([(''cases'', JArr (map case_json (as_cases a))),
     (''minimumRequiredPassRate'', JNum (as_minimumRequiredPassRate a))]
     @ optional_key ''suites'' (\<lambda>ss. JArr (map suite_json ss)) (as_suites a))"

fun category_text :: "guardrail_category \<Rightarrow> string" where
  "category_text Grounding = ''GROUNDING''"
| "category_text AccessControl = ''ACCESS_CONTROL''"
| "category_text DataHandling = ''DATA_HANDLING''"
| "category_text ToolUse = ''TOOL_USE''"
| "category_text ContentGuard = ''CONTENT''"
| "category_text Operational = ''OPERATIONAL''"

fun violation_text :: "violation_behavior \<Rightarrow> string" where
  "violation_text RejectViolation = ''REJECT''"
| "violation_text UnknownViolation = ''UNKNOWN''"
| "violation_text EscalateViolation = ''ESCALATE''"
| "violation_text RequireConfirmation = ''REQUIRE_CONFIRMATION''"

definition guardrail_json :: "guardrail \<Rightarrow> js" where
  "guardrail_json g = JObj [(''id'', JStr (gr_id g)), (''category'', JStr (category_text (gr_category g))),
     (''rule'', JStr (gr_rule g)), (''violationBehavior'', JStr (violation_text (gr_violationBehavior g))),
     (''required'', JBool (gr_required g))]"

fun no_evidence_text :: "no_evidence_behavior \<Rightarrow> string" where
  "no_evidence_text UnknownWithoutEvidence = ''UNKNOWN''"
| "no_evidence_text EscalateWithoutEvidence = ''ESCALATE''"
| "no_evidence_text RejectWithoutEvidence = ''REJECT''"

definition safety_json :: "safety_spec \<Rightarrow> js" where
  "safety_json s = JObj [(''guardrails'', JArr (map guardrail_json (sf_guardrails s))),
     (''prohibitedBehaviors'', jstrs (sf_prohibitedBehaviors s)),
     (''noEvidenceBehavior'', JStr (no_evidence_text (sf_noEvidenceBehavior s))),
     (''allowGeneralModelFallback'', JBool (sf_allowGeneralModelFallback s))]"

fun resource_kind_text :: "resource_kind \<Rightarrow> string" where
  "resource_kind_text McpServer = ''MCP_SERVER''"
| "resource_kind_text KnowledgeVectorDatabase = ''KNOWLEDGE_VECTOR_DATABASE''"
| "resource_kind_text ModelRouting = ''MODEL_ROUTING''"
| "resource_kind_text Skill = ''SKILL''"
| "resource_kind_text DataSource = ''DATA_SOURCE''"
| "resource_kind_text MemoryResource = ''MEMORY''"

fun access_text :: "resource_access \<Rightarrow> string" where
  "access_text ReadAccess = ''READ''"
| "access_text InvokeAccess = ''INVOKE''"
| "access_text ReadWriteAccess = ''READ_WRITE''"

definition binding_json :: "resource_binding \<Rightarrow> js" where
  "binding_json b = JObj [(''kind'', JStr (resource_kind_text (rb_kind b))), (''resourceId'', JStr (rb_resourceId b)),
     (''revision'', JStr (rb_revision b)), (''access'', JStr (access_text (rb_access b))), (''required'', JBool (rb_required b))]"

definition delegation_json :: "delegation \<Rightarrow> js" where
  "delegation_json d = JObj [(''expertAgentId'', JStr (dg_expertAgentId d)), (''when'', JStr (dg_when d)),
     (''delegationPolicy'', JStr (case dg_delegationPolicy d of Automatic \<Rightarrow> ''AUTOMATIC'' | SuggestOnly \<Rightarrow> ''SUGGEST_ONLY'')),
     (''executionPolicy'', JStr (case dg_executionPolicy d of Synchronous \<Rightarrow> ''SYNCHRONOUS'' | Asynchronous \<Rightarrow> ''ASYNCHRONOUS'')),
     (''approvalPolicy'', JStr (case dg_approvalPolicy d of ApprovalNotRequired \<Rightarrow> ''NOT_REQUIRED'' | DelegationApproval \<Rightarrow> ''REQUIRED'')),
     (''enabled'', JBool (dg_enabled d))]"

fun node_type_text :: "node_type \<Rightarrow> string" where
  "node_type_text Reason = ''REASON''"
| "node_type_text Knowledge = ''KNOWLEDGE''"
| "node_type_text Tool = ''TOOL''"
| "node_type_text Transform = ''TRANSFORM''"
| "node_type_text Verify = ''VERIFY''"
| "node_type_text Delegate = ''DELEGATE''"
| "node_type_text Approval = ''APPROVAL''"
| "node_type_text Response = ''RESPONSE''"
| "node_type_text NormalizeInput = ''NORMALIZE_INPUT''"
| "node_type_text ClassifyIntent = ''CLASSIFY_INTENT''"
| "node_type_text RetrieveEvidence = ''RETRIEVE_EVIDENCE''"
| "node_type_text Decide = ''DECISION''"
| "node_type_text RenderTemplate = ''RENDER_TEMPLATE''"
| "node_type_text Escalate = ''ESCALATE''"
| "node_type_text EndNode = ''END''"

definition node_json :: "playbook_node \<Rightarrow> js" where
  "node_json n = JObj ([(''id'', JStr (nd_id n)), (''type'', JStr (node_type_text (nd_type n))),
     (''configuration'', nd_configuration n)]
     @ optional_key ''inputSchema'' (\<lambda>x. x) (nd_inputSchema n) @ optional_key ''outputSchema'' (\<lambda>x. x) (nd_outputSchema n)
     @ optional_key ''timeoutMs'' jint (nd_timeoutMs n)
     @ optional_key ''retry'' (\<lambda>r. JObj [(''maxAttempts'', jint (ry_maxAttempts r)), (''backoffMs'', jint (ry_backoffMs r))]) (nd_retry n)
     @ optional_key ''failurePolicy'' (\<lambda>p. JStr (case p of FailRun \<Rightarrow> ''FAIL_RUN'' | FollowFailureEdge \<Rightarrow> ''FOLLOW_FAILURE_EDGE''))
         (nd_failurePolicy n))"

definition transition_json :: "transition \<Rightarrow> js" where
  "transition_json t = JObj [(''from'', JStr (tr_from t)), (''outcome'', JStr (tr_outcome t)), (''to'', JStr (tr_to t))]"

definition engine_json :: "string \<Rightarrow> string \<Rightarrow> js" where
  "engine_json framework version = JObj [(''framework'', JStr framework), (''version'', JStr version)]"

fun execution_json :: "execution_spec \<Rightarrow> js" where
  "execution_json (Agentic a) = JObj [(''mode'', JStr ''AGENTIC''), (''engine'', engine_json (ag_framework a) (ag_version a)),
     (''modelRoutingId'', JStr (ag_modelRoutingId a)), (''instruction'', JStr (ag_instruction a)),
     (''configuration'', ag_configuration a), (''maxSteps'', jint (ag_maxSteps a)), (''timeoutMs'', jint (ag_timeoutMs a))]"
| "execution_json (Workflow w) = JObj [(''mode'', JStr ''WORKFLOW''), (''engine'', engine_json (pb_framework w) (pb_version w)),
     (''entrypoint'', JStr (pb_entrypoint w)), (''configuration'', pb_configuration w),
     (''nodes'', JArr (map node_json (pb_nodes w))), (''transitions'', JArr (map transition_json (pb_transitions w))),
     (''timeoutMs'', jint (pb_timeoutMs w))]"

definition snapshot_json :: "version_snapshot \<Rightarrow> js" where
  "snapshot_json v = (let d = vs_definition v in JObj [(''schemaVersion'', JStr ''agent-version/v1''),
     (''agentId'', JStr (vs_agentId v)), (''product'', product_json (ed_product d)), (''policy'', policy_json (ed_policy d)),
     (''delegations'', JArr (map delegation_json (ed_delegations d))), (''acceptance'', acceptance_json (ed_acceptance d)),
     (''safety'', safety_json (ed_safety d)), (''execution'', execution_json (ed_execution d)),
     (''resources'', JArr (map binding_json (ed_resources d)))])"

end
