(* ===== verification/Expert_Agents.thy ===== *)
theory Expert_Agents
  imports Expert_Contracts Http_Responses
begin

text \<open>
  The lifecycle of an expert agent: the evidence of a test and the manifest of a Version
  (\<open>contracts/src/expert-agents.ts\<close>), the checks before a publication
  (\<open>expert-agents/expert-agent-domain.ts\<close>) and the operations of
  \<open>expert-agents/expert-agent-lifecycle-service.ts\<close>, which create, change, test, publish and
  delete an agent. What an operation reads before its transaction is a definition of its own.
  The collation, the digest and the text of a date (\<open>iso_text\<close>) are arguments. An error with a
  status and a code is a \<open>ProblemError\<close>, whose response is the same.
\<close>

section \<open>Evidence of a test\<close>

datatype test_mode = QuickTest | ReleaseTest
datatype test_status = QueuedTest | RunningTest | PassedTest | FailedTest | CancelledTest

record assertion_receipt =
  at_type :: string
  at_passed :: bool
  at_message :: string

record case_receipt =
  cr_caseId :: string
  cr_title :: string
  cr_required :: bool
  cr_passed :: bool
  cr_traceId :: string
  cr_assertions :: "assertion_receipt list"

record suite_receipt =
  sr_suiteId :: string
  sr_required :: bool
  sr_passed :: bool
  sr_requiredPassRate :: string
  sr_cases :: "case_receipt list"

record test_assertion =
  ta_id :: string
  ta_passed :: bool
  ta_message :: string

record test_artifact =
  tf_kind :: string
  tf_uri :: string
  tf_digest :: "string option"

record test_evidence =
  tv_agentDigest :: string
  tv_mode :: test_mode
  tv_status :: test_status
  tv_summary :: string
  tv_assertions :: "test_assertion list"
  tv_artifacts :: "test_artifact list"
  tv_evaluationSuites :: "suite_receipt list option"
  tv_startedAt :: string
  tv_finishedAt :: "string option"

definition receipt_types :: "string list" where
  "receipt_types = [''EXECUTION'', ''STATUS'', ''EXECUTION_PATH'', ''CITATIONS'', ''OUTPUT_SCHEMA'', ''BLOCK_STABILITY'',
     ''TOOL_INVOCATION'', ''DELEGATION'', ''CLAIMS'', ''SEMANTIC_QUALITY'', ''SOURCE_COVERAGE'']"

definition expertAgentEvaluationAssertionReceiptSchema :: "assertion_receipt \<Rightarrow> assertion_receipt res" where
  "expertAgentEvaluationAssertionReceiptSchema a =
     res_bind (ensure (at_type a \<in> set receipt_types) SchemaError) (\<lambda>_.
     res_bind (z_trimmed 4000 (at_message a)) (\<lambda>m. Inr (a\<lparr>at_message := m\<rparr>)))"

definition expertAgentEvaluationCaseReceiptSchema :: "case_receipt \<Rightarrow> case_receipt res" where
  "expertAgentEvaluationCaseReceiptSchema c =
     res_bind (identifierSchema (cr_caseId c)) (\<lambda>i.
     res_bind (z_trimmed 240 (cr_title c)) (\<lambda>t.
     res_bind (z_trimmed 128 (cr_traceId c)) (\<lambda>r.
     res_bind (z_array expertAgentEvaluationAssertionReceiptSchema 0 200 (cr_assertions c)) (\<lambda>as.
     Inr (c\<lparr>cr_caseId := i, cr_title := t, cr_traceId := r, cr_assertions := as\<rparr>)))))"

definition expertAgentEvaluationSuiteReceiptSchema :: "suite_receipt \<Rightarrow> suite_receipt res" where
  "expertAgentEvaluationSuiteReceiptSchema s =
     res_bind (identifierSchema (sr_suiteId s)) (\<lambda>i.
     res_bind (z_rate (sr_requiredPassRate s)) (\<lambda>_.
     res_bind (z_array expertAgentEvaluationCaseReceiptSchema 0 500 (sr_cases s)) (\<lambda>cs.
     Inr (s\<lparr>sr_suiteId := i, sr_cases := cs\<rparr>))))"

definition test_assertion_schema :: "test_assertion \<Rightarrow> test_assertion res" where
  "test_assertion_schema a =
     res_bind (z_trimmed 240 (ta_id a)) (\<lambda>i.
     res_bind (z_trimmed 4000 (ta_message a)) (\<lambda>m. Inr (a\<lparr>ta_id := i, ta_message := m\<rparr>)))"

definition test_artifact_schema :: "test_artifact \<Rightarrow> test_artifact res" where
  "test_artifact_schema a =
     res_bind (z_trimmed 120 (tf_kind a)) (\<lambda>k.
     res_bind (z_trimmed 4000 (tf_uri a)) (\<lambda>u.
     res_bind (z_nullable sha256DigestSchema (tf_digest a)) (\<lambda>_. Inr (a\<lparr>tf_kind := k, tf_uri := u\<rparr>))))"

definition expertAgentTestEvidenceSchema :: "test_evidence \<Rightarrow> test_evidence res" where
  "expertAgentTestEvidenceSchema e =
     res_bind (sha256DigestSchema (tv_agentDigest e)) (\<lambda>_.
     res_bind (z_trimmed 8000 (tv_summary e)) (\<lambda>m.
     res_bind (z_array test_assertion_schema 0 2000 (tv_assertions e)) (\<lambda>as.
     res_bind (z_array test_artifact_schema 0 500 (tv_artifacts e)) (\<lambda>fs.
     res_bind (z_nullable (z_array expertAgentEvaluationSuiteReceiptSchema 0 100) (tv_evaluationSuites e)) (\<lambda>ss.
     res_bind (isoDateTimeSchema (tv_startedAt e)) (\<lambda>_.
     res_bind (z_nullable isoDateTimeSchema (tv_finishedAt e)) (\<lambda>_.
     Inr (e\<lparr>tv_summary := m, tv_assertions := as, tv_artifacts := fs, tv_evaluationSuites := ss\<rparr>))))))))"

fun test_mode_text :: "test_mode \<Rightarrow> string" where
  "test_mode_text QuickTest = ''QUICK''"
| "test_mode_text ReleaseTest = ''RELEASE''"

fun test_status_text :: "test_status \<Rightarrow> string" where
  "test_status_text QueuedTest = ''QUEUED''"
| "test_status_text RunningTest = ''RUNNING''"
| "test_status_text PassedTest = ''PASSED''"
| "test_status_text FailedTest = ''FAILED''"
| "test_status_text CancelledTest = ''CANCELLED''"

definition case_receipt_json :: "case_receipt \<Rightarrow> js" where
  "case_receipt_json c = JObj [(''caseId'', JStr (cr_caseId c)), (''title'', JStr (cr_title c)),
     (''required'', JBool (cr_required c)), (''passed'', JBool (cr_passed c)), (''traceId'', JStr (cr_traceId c)),
     (''assertions'', JArr (map (\<lambda>a. JObj [(''type'', JStr (at_type a)), (''passed'', JBool (at_passed a)),
       (''message'', JStr (at_message a))]) (cr_assertions c)))]"

definition suite_receipt_json :: "suite_receipt \<Rightarrow> js" where
  "suite_receipt_json s = JObj [(''suiteId'', JStr (sr_suiteId s)), (''required'', JBool (sr_required s)),
     (''passed'', JBool (sr_passed s)), (''requiredPassRate'', JNum (sr_requiredPassRate s)),
     (''cases'', JArr (map case_receipt_json (sr_cases s)))]"

definition evidence_json :: "test_evidence \<Rightarrow> js" where
  "evidence_json e = JObj ([(''agentDigest'', JStr (tv_agentDigest e)), (''mode'', JStr (test_mode_text (tv_mode e))),
     (''status'', JStr (test_status_text (tv_status e))), (''summary'', JStr (tv_summary e)),
     (''assertions'', JArr (map (\<lambda>a. JObj [(''id'', JStr (ta_id a)), (''passed'', JBool (ta_passed a)),
       (''message'', JStr (ta_message a))]) (tv_assertions e))),
     (''artifacts'', JArr (map (\<lambda>a. JObj [(''kind'', JStr (tf_kind a)), (''uri'', JStr (tf_uri a)),
       (''digest'', jopt (tf_digest a))]) (tv_artifacts e)))]
     @ optional_key ''evaluationSuites'' (\<lambda>ss. JArr (map suite_receipt_json ss)) (tv_evaluationSuites e)
     @ [(''startedAt'', JStr (tv_startedAt e)), (''finishedAt'', jopt (tv_finishedAt e))])"

section \<open>The checks before a publication\<close>

definition buildExpertAgentVersionSnapshot :: "string \<Rightarrow> expert_definition \<Rightarrow> version_snapshot res" where
  "buildExpertAgentVersionSnapshot agent d =
     res_bind (expertAgentDefinitionSchema d) (\<lambda>d'.
       expertAgentVersionSnapshotSchema \<lparr>vs_agentId = agent, vs_definition = d'\<rparr>)"

definition expertAgentContentDigest ::
    "(string \<Rightarrow> string \<Rightarrow> bool) \<Rightarrow> (string \<Rightarrow> string) \<Rightarrow> version_snapshot \<Rightarrow> string res" where
  "expertAgentContentDigest collate digest v =
     res_bind (expertAgentVersionSnapshotSchema v) (\<lambda>v'. sha256 collate digest (snapshot_json v'))"

record test_run =
  tn_projectId :: string
  tn_id :: string
  tn_agentId :: string
  tn_agentRevision :: int
  tn_contentDigest :: string
  tn_mode :: test_mode
  tn_attempt :: nat
  tn_status :: test_status
  tn_evidence :: test_evidence
  tn_failureReason :: "string option"
  tn_createdBy :: string
  tn_createdAt :: int

datatype readiness_reason = ReadyToPublish | NotTested | TestsFailed | TestsOutdated

record publish_readiness =
  rn_ready :: bool
  rn_reason :: readiness_reason
  rn_testRunId :: "string option"

definition assessExpertAgentPublishReadiness :: "string \<Rightarrow> test_run option \<Rightarrow> publish_readiness" where
  "assessExpertAgentPublishReadiness contentDigest latest =
     (case latest of
        None \<Rightarrow> \<lparr>rn_ready = False, rn_reason = NotTested, rn_testRunId = None\<rparr>
      | Some t \<Rightarrow>
          if tn_contentDigest t \<noteq> contentDigest
          then \<lparr>rn_ready = False, rn_reason = TestsOutdated, rn_testRunId = Some (tn_id t)\<rparr>
          else case expertAgentTestEvidenceSchema (tn_evidence t) of
            Inl _ \<Rightarrow> \<lparr>rn_ready = False, rn_reason = TestsFailed, rn_testRunId = Some (tn_id t)\<rparr>
          | Inr e \<Rightarrow>
              if tn_status t \<noteq> PassedTest \<or> tv_mode e \<noteq> ReleaseTest \<or> tv_status e \<noteq> PassedTest
                \<or> tv_agentDigest e \<noteq> contentDigest
              then \<lparr>rn_ready = False, rn_reason = TestsFailed, rn_testRunId = Some (tn_id t)\<rparr>
              else \<lparr>rn_ready = True, rn_reason = ReadyToPublish, rn_testRunId = Some (tn_id t)\<rparr>)"

definition terminalTestEvidence :: "test_evidence \<Rightarrow> test_evidence res" where
  "terminalTestEvidence e = res_bind (expertAgentTestEvidenceSchema e) (\<lambda>p.
     res_bind (ensure (tv_finishedAt p \<noteq> None \<and> tv_status p \<in> {PassedTest, FailedTest, CancelledTest})
       (TypeError ''A recorded Agent test must have a terminal status and finish time.'')) (\<lambda>_. Inr p))"

section \<open>Versions and their manifests\<close>

datatype artifact_kind = ManifestArtifact | PlaybookArtifact | PromptArtifact | SchemaArtifact | RuntimeConfig | OciImage
  | ResourceLock | TestReport | Sbom | Provenance

fun artifact_kind_text :: "artifact_kind \<Rightarrow> string" where
  "artifact_kind_text ManifestArtifact = ''MANIFEST''"
| "artifact_kind_text PlaybookArtifact = ''PLAYBOOK''"
| "artifact_kind_text PromptArtifact = ''PROMPT''"
| "artifact_kind_text SchemaArtifact = ''SCHEMA''"
| "artifact_kind_text RuntimeConfig = ''RUNTIME_CONFIG''"
| "artifact_kind_text OciImage = ''OCI_IMAGE''"
| "artifact_kind_text ResourceLock = ''RESOURCE_LOCK''"
| "artifact_kind_text TestReport = ''TEST_REPORT''"
| "artifact_kind_text Sbom = ''SBOM''"
| "artifact_kind_text Provenance = ''PROVENANCE''"

record artifact_ref =
  rf_kind :: artifact_kind
  rf_mediaType :: string
  rf_digest :: string
  rf_uri :: string
  rf_sizeBytes :: "int option"
  rf_metadata :: json_record

record version_manifest =
  mf_agentId :: string
  mf_versionId :: string
  mf_versionNumber :: int
  mf_contentDigest :: string
  mf_executionMode :: execution_mode
  mf_artifacts :: "artifact_ref list"
  mf_requirements :: "resource_binding list"
  mf_testRunId :: string
  mf_testedDigest :: string
  mf_passedAt :: string
  mf_createdAt :: string

definition non_empty :: "string \<Rightarrow> string res" where
  "non_empty s = (if s = [] then Inl SchemaError else Inr s)"

definition positive_int :: "int \<Rightarrow> int res" where
  "positive_int n = (if 0 < n then Inr n else Inl SchemaError)"

definition expertAgentArtifactRefSchema :: "artifact_ref \<Rightarrow> artifact_ref res" where
  "expertAgentArtifactRefSchema a =
     res_bind (z_trimmed 240 (rf_mediaType a)) (\<lambda>m.
     res_bind (sha256DigestSchema (rf_digest a)) (\<lambda>_.
     res_bind (z_trimmed 4000 (rf_uri a)) (\<lambda>u.
     res_bind (z_nullable nonnegative (rf_sizeBytes a)) (\<lambda>_. Inr (a\<lparr>rf_mediaType := m, rf_uri := u\<rparr>)))))"

definition expertAgentVersionManifestSchema :: "version_manifest \<Rightarrow> version_manifest res" where
  "expertAgentVersionManifestSchema m =
     res_bind (non_empty (mf_agentId m)) (\<lambda>_.
     res_bind (non_empty (mf_versionId m)) (\<lambda>_.
     res_bind (positive_int (mf_versionNumber m)) (\<lambda>_.
     res_bind (sha256DigestSchema (mf_contentDigest m)) (\<lambda>_.
     res_bind (z_array expertAgentArtifactRefSchema 1 1000 (mf_artifacts m)) (\<lambda>as.
     res_bind (z_array expertAgentResourceBindingSchema 0 200 (mf_requirements m)) (\<lambda>rs.
     res_bind (non_empty (mf_testRunId m)) (\<lambda>_.
     res_bind (sha256DigestSchema (mf_testedDigest m)) (\<lambda>_.
     res_bind (isoDateTimeSchema (mf_passedAt m)) (\<lambda>_.
     res_bind (isoDateTimeSchema (mf_createdAt m)) (\<lambda>_.
     Inr (m\<lparr>mf_artifacts := as, mf_requirements := rs\<rparr>)))))))))))"

definition mode_text :: "execution_mode \<Rightarrow> string" where
  "mode_text m = (case m of AgenticMode \<Rightarrow> ''AGENTIC'' | WorkflowMode \<Rightarrow> ''WORKFLOW'')"

definition artifact_json :: "artifact_ref \<Rightarrow> js" where
  "artifact_json a = JObj [(''kind'', JStr (artifact_kind_text (rf_kind a))), (''mediaType'', JStr (rf_mediaType a)),
     (''digest'', JStr (rf_digest a)), (''uri'', JStr (rf_uri a)),
     (''sizeBytes'', case rf_sizeBytes a of None \<Rightarrow> JNull | Some n \<Rightarrow> jint n), (''metadata'', JObj (rf_metadata a))]"

definition manifest_json :: "version_manifest \<Rightarrow> js" where
  "manifest_json m = JObj [(''schemaVersion'', JStr ''agent-version-manifest/v1''), (''agentId'', JStr (mf_agentId m)),
     (''versionId'', JStr (mf_versionId m)), (''versionNumber'', jint (mf_versionNumber m)),
     (''contentDigest'', JStr (mf_contentDigest m)), (''executionMode'', JStr (mode_text (mf_executionMode m))),
     (''artifacts'', JArr (map artifact_json (mf_artifacts m))),
     (''requirements'', JArr (map binding_json (mf_requirements m))),
     (''evidence'', JObj [(''testRunId'', JStr (mf_testRunId m)), (''testedDigest'', JStr (mf_testedDigest m)),
       (''passedAt'', JStr (mf_passedAt m))]),
     (''createdAt'', JStr (mf_createdAt m))]"

definition lower_text :: "string \<Rightarrow> string" where
  "lower_text = map lower_char"

text \<open>The size is that of \<open>JSON.stringify\<close> of the payload, whose values are all JSON values.\<close>

definition artifact ::
    "(string \<Rightarrow> string \<Rightarrow> bool) \<Rightarrow> (string \<Rightarrow> string) \<Rightarrow> string \<Rightarrow> int \<Rightarrow> artifact_kind \<Rightarrow> string \<Rightarrow> js \<Rightarrow> artifact_ref res" where
  "artifact collate digest agent n kind mediaType payload =
     res_bind (sha256 collate digest payload) (\<lambda>h.
       Inr \<lparr>rf_kind = kind, rf_mediaType = mediaType, rf_digest = h,
         rf_uri = ''agent-version://'' @ agent @ ''/v'' @ show_int n @ ''/'' @ lower_text (artifact_kind_text kind),
         rf_sizeBytes = Some (int (length (stringify payload))), rf_metadata = []\<rparr>)"

section \<open>Tables\<close>

record expert_row =
  xa_projectId :: string
  xa_id :: string
  xa_slug :: string
  xa_name :: string
  xa_description :: string
  xa_executionMode :: execution_mode
  xa_revision :: int
  xa_contentDigest :: string
  xa_definition :: expert_definition
  xa_latestReleasedVersionId :: "string option"
  xa_createdBy :: string
  xa_updatedBy :: string
  xa_deletedAt :: "int option"

datatype expert_relation = OwnerRelation | MaintainerRelation

record expert_member =
  xm_projectId :: string
  xm_agentId :: string
  xm_userId :: string
  xm_relation :: expert_relation

record version_row =
  vr_projectId :: string
  vr_id :: string
  vr_agentId :: string
  vr_versionNumber :: int
  vr_sourceRevision :: int
  vr_contentDigest :: string
  vr_snapshot :: version_snapshot
  vr_manifest :: version_manifest
  vr_manifestDigest :: string
  vr_artifactSetDigest :: string
  vr_releaseNotes :: "string option"
  vr_gardenStatus :: string
  vr_publishedBy :: string
  vr_publishedAt :: int
  vr_artifacts :: "artifact_ref list"

record expert_instance =
  ir_projectId :: string
  ir_id :: string
  ir_developedAgentId :: "string option"
  ir_deletedAt :: "int option"

record expert_db =
  xd_agents :: "expert_row list"
  xd_members :: "expert_member list"
  xd_tests :: "test_run list"
  xd_versions :: "version_row list"
  xd_instances :: "expert_instance list"

definition expert_key :: "expert_row \<Rightarrow> string \<times> string" where
  "expert_key a = (xa_projectId a, xa_id a)"

definition find_expert :: "string \<Rightarrow> string \<Rightarrow> expert_db \<Rightarrow> expert_row option" where
  "find_expert pid i db = find_unique expert_key (pid, i) (xd_agents db)"

definition active_expert :: "string \<Rightarrow> string \<Rightarrow> expert_db \<Rightarrow> expert_row option" where
  "active_expert pid i db = (case find_expert pid i db of
     Some a \<Rightarrow> if xa_deletedAt a = None then Some a else None | None \<Rightarrow> None)"

section \<open>Creating and changing an agent\<close>

definition not_found :: failure where
  "not_found = ProblemError 404 ''expert_agent_not_found'' ''The Agent was not found in the current Project.''"

definition version_conflict :: "string \<Rightarrow> failure" where
  "version_conflict m = ProblemError 409 ''expert_agent_version_conflict'' m"

definition agent_changed :: failure where
  "agent_changed = version_conflict ''The Agent changed before this operation completed.''"

definition requireAccessibleAgent :: "string \<Rightarrow> string \<Rightarrow> expert_db \<Rightarrow> expert_row res" where
  "requireAccessibleAgent pid i db = of_option not_found (active_expert pid i db)"

definition requireDelegationTargets :: "string \<Rightarrow> string option \<Rightarrow> delegation list \<Rightarrow> expert_db \<Rightarrow> unit res" where
  "requireDelegationTargets pid agent ds db =
     (let targets = map dg_expertAgentId ds in
      res_bind (ensure (\<not> list_ex (\<lambda>t. agent = Some t) targets)
        (version_conflict ''An Agent cannot delegate to itself.'')) (\<lambda>_.
      if targets = [] then Inr ()
      else ensure (length (filter (\<lambda>a. xa_projectId a = pid \<and> xa_id a \<in> set targets \<and> xa_deletedAt a = None) (xd_agents db))
          = length (remdups targets))
        (version_conflict ''Every delegated Agent must be active in the current Project.'')))"

definition definition_digest ::
    "(string \<Rightarrow> string \<Rightarrow> bool) \<Rightarrow> (string \<Rightarrow> string) \<Rightarrow> string \<Rightarrow> expert_definition \<Rightarrow> string res" where
  "definition_digest collate digest agent d =
     res_bind (buildExpertAgentVersionSnapshot agent d) (expertAgentContentDigest collate digest)"

text \<open>What \<open>createAgent\<close> reads and checks before its transaction, and the transaction.\<close>

definition create_check ::
    "(string \<Rightarrow> string \<Rightarrow> bool) \<Rightarrow> (string \<Rightarrow> string) \<Rightarrow> string \<Rightarrow> string \<Rightarrow> execution_mode \<Rightarrow> expert_definition \<times> int
     \<Rightarrow> expert_db \<Rightarrow> (expert_definition \<times> string) res" where
  "create_check collate digest pid agent mode input db =
     res_bind (expertAgentDefinitionInputSchema input) (\<lambda>(d, expectedRevision).
     res_bind (ensure (expectedRevision = 0) (version_conflict ''A new Agent must begin at revision 0.'')) (\<lambda>_.
     res_bind (ensure (mode_of (ed_execution d) = mode)
       (version_conflict ''The Agent execution mode must match its execution definition.'')) (\<lambda>_.
     res_bind (requireDelegationTargets pid None (ed_delegations d) db) (\<lambda>_.
     res_bind (definition_digest collate digest agent d) (\<lambda>h. Inr (d, h))))))"

definition create_write ::
    "string \<Rightarrow> string \<Rightarrow> string \<Rightarrow> string \<Rightarrow> execution_mode \<Rightarrow> expert_definition \<times> string \<Rightarrow> expert_db \<Rightarrow> expert_db res" where
  "create_write pid agent actor slug mode checked db =
     (let d = fst checked;
          row = \<lparr>xa_projectId = pid, xa_id = agent, xa_slug = slug, xa_name = pr_name (ed_product d),
            xa_description = pr_purpose (ed_product d), xa_executionMode = mode, xa_revision = 0,
            xa_contentDigest = snd checked, xa_definition = d, xa_latestReleasedVersionId = None,
            xa_createdBy = actor, xa_updatedBy = actor, xa_deletedAt = None\<rparr> in
      res_bind (ensure (find_unique (\<lambda>a. (xa_projectId a, xa_slug a)) (pid, slug) (xd_agents db) = None) UniqueViolation) (\<lambda>_.
      res_bind (of_option UniqueViolation (insert_row expert_key row (xd_agents db))) (\<lambda>as.
      res_bind (of_option UniqueViolation (insert_row (\<lambda>m. (xm_projectId m, xm_agentId m, xm_userId m))
        \<lparr>xm_projectId = pid, xm_agentId = agent, xm_userId = actor, xm_relation = OwnerRelation\<rparr> (xd_members db))) (\<lambda>ms.
      Inr (db\<lparr>xd_agents := as, xd_members := ms\<rparr>)))))"

definition createAgent ::
    "(string \<Rightarrow> string \<Rightarrow> bool) \<Rightarrow> (string \<Rightarrow> string) \<Rightarrow> string \<Rightarrow> string \<Rightarrow> string \<Rightarrow> string \<Rightarrow> execution_mode
     \<Rightarrow> expert_definition \<times> int \<Rightarrow> expert_db \<Rightarrow> expert_db res" where
  "createAgent collate digest pid agent actor slug mode input db =
     res_bind (create_check collate digest pid agent mode input db) (\<lambda>checked.
       create_write pid agent actor slug mode checked db)"

definition update_check ::
    "(string \<Rightarrow> string \<Rightarrow> bool) \<Rightarrow> (string \<Rightarrow> string) \<Rightarrow> string \<Rightarrow> string \<Rightarrow> expert_definition \<times> int \<Rightarrow> expert_db
     \<Rightarrow> (expert_definition \<times> string \<times> int) res" where
  "update_check collate digest pid agent input db =
     res_bind (expertAgentDefinitionInputSchema input) (\<lambda>(d, expectedRevision).
     res_bind (requireAccessibleAgent pid agent db) (\<lambda>current.
     res_bind (ensure (mode_of (ed_execution d) = xa_executionMode current)
       (version_conflict ''Changing execution mode requires a new Agent.'')) (\<lambda>_.
     res_bind (requireDelegationTargets pid (Some agent) (ed_delegations d) db) (\<lambda>_.
     res_bind (definition_digest collate digest agent d) (\<lambda>h. Inr (d, h, expectedRevision))))))"

text \<open>The compare-and-set update: no row at the expected revision is a conflict.\<close>

definition update_write ::
    "string \<Rightarrow> string \<Rightarrow> string \<Rightarrow> expert_definition \<times> string \<times> int \<Rightarrow> expert_db \<Rightarrow> expert_db res" where
  "update_write pid agent actor checked db =
     (let d = fst checked; h = fst (snd checked); expectedRevision = snd (snd checked);
          p = (\<lambda>a. xa_projectId a = pid \<and> xa_id a = agent \<and> xa_revision a = expectedRevision \<and> xa_deletedAt a = None) in
      res_bind (ensure (count_rows p (xd_agents db) = 1) agent_changed) (\<lambda>_.
      Inr (db\<lparr>xd_agents := update_rows p (\<lambda>a. a\<lparr>xa_name := pr_name (ed_product d),
        xa_description := pr_purpose (ed_product d), xa_revision := xa_revision a + 1, xa_contentDigest := h,
        xa_definition := d, xa_updatedBy := actor\<rparr>) (xd_agents db)\<rparr>)))"

definition updateAgent ::
    "(string \<Rightarrow> string \<Rightarrow> bool) \<Rightarrow> (string \<Rightarrow> string) \<Rightarrow> string \<Rightarrow> string \<Rightarrow> string \<Rightarrow> expert_definition \<times> int
     \<Rightarrow> expert_db \<Rightarrow> expert_db res" where
  "updateAgent collate digest pid agent actor input db =
     res_bind (update_check collate digest pid agent input db) (\<lambda>checked. update_write pid agent actor checked db)"

section \<open>Deleting an agent\<close>

definition delete_blocked :: "nat \<Rightarrow> string list \<Rightarrow> failure" where
  "delete_blocked instances dependents =
     (let reasons = (if 0 < instances then [show_nat instances @ '' runtime Instance'' @ (if instances = 1 then [] else ''s'')
            @ '' still reference this Agent.''] else [])
          @ (if dependents \<noteq> [] then [''It is still used by '' @ join_with '', '' dependents @ ''.''] else []) in
      ProblemError 409 ''expert_agent_delete_blocked'' (''The Agent cannot be deleted yet. '' @ join_with '' '' reasons))"

text \<open>The rows of the members, tests and Versions go with the row of the agent.\<close>

definition delete_tx :: "string \<Rightarrow> string \<Rightarrow> expert_db \<Rightarrow> expert_db res" where
  "delete_tx pid agent db =
     res_bind (of_option not_found (active_expert pid agent db)) (\<lambda>_.
     (let instances = count_rows (\<lambda>i. ir_projectId i = pid \<and> ir_developedAgentId i = Some agent \<and> ir_deletedAt i = None)
            (xd_instances db);
          dependents = map xa_name (filter (\<lambda>a. xa_projectId a = pid \<and> xa_id a \<noteq> agent \<and> xa_deletedAt a = None
            \<and> list_ex (\<lambda>t. dg_expertAgentId t = agent) (ed_delegations (xa_definition a))) (xd_agents db)) in
      res_bind (ensure (instances = 0 \<and> dependents = []) (delete_blocked instances dependents)) (\<lambda>_.
      Inr (db\<lparr>xd_instances := delete_rows (\<lambda>i. ir_projectId i = pid \<and> ir_developedAgentId i = Some agent) (xd_instances db),
        xd_agents := delete_rows (\<lambda>a. xa_projectId a = pid \<and> xa_id a = agent) (xd_agents db),
        xd_members := delete_rows (\<lambda>m. xm_projectId m = pid \<and> xm_agentId m = agent) (xd_members db),
        xd_tests := delete_rows (\<lambda>t. tn_projectId t = pid \<and> tn_agentId t = agent) (xd_tests db),
        xd_versions := delete_rows (\<lambda>v. vr_projectId v = pid \<and> vr_agentId v = agent) (xd_versions db)\<rparr>))))"

definition deleteExpertAgent :: "string \<Rightarrow> string \<Rightarrow> expert_db \<Rightarrow> expert_db res" where
  "deleteExpertAgent pid agent db = res_bind (requireAccessibleAgent pid agent db) (\<lambda>_. delete_tx pid agent db)"

section \<open>Recording a test\<close>

definition test_key :: "test_run \<Rightarrow> string \<times> string \<times> int \<times> test_mode \<times> nat" where
  "test_key t = (tn_projectId t, tn_agentId t, tn_agentRevision t, tn_mode t, tn_attempt t)"

definition max_attempt :: "test_run list \<Rightarrow> nat" where
  "max_attempt ts = foldr (\<lambda>t n. max (tn_attempt t) n) ts 0"

text \<open>The row refers to the agent: without it the foreign key fails.\<close>

definition record_tx ::
    "string \<Rightarrow> int \<Rightarrow> string \<Rightarrow> string \<Rightarrow> string \<Rightarrow> int \<Rightarrow> test_evidence \<Rightarrow> expert_db \<Rightarrow> (test_run \<times> expert_db) res" where
  "record_tx tid now pid agent actor revision e db =
     (let latest = max_attempt (filter (\<lambda>t. tn_projectId t = pid \<and> tn_agentId t = agent \<and> tn_agentRevision t = revision
            \<and> tn_mode t = tv_mode e) (xd_tests db));
          row = \<lparr>tn_projectId = pid, tn_id = tid, tn_agentId = agent, tn_agentRevision = revision,
            tn_contentDigest = tv_agentDigest e, tn_mode = tv_mode e, tn_attempt = latest + 1, tn_status = tv_status e,
            tn_evidence = e, tn_failureReason = (if tv_status e = FailedTest then Some (tv_summary e) else None),
            tn_createdBy = actor, tn_createdAt = now\<rparr> in
      res_bind (ensure (find_expert pid agent db \<noteq> None) (PlainError ''Foreign key constraint violated'')) (\<lambda>_.
      res_bind (ensure (find_unique test_key (test_key row) (xd_tests db) = None) UniqueViolation) (\<lambda>_.
      res_bind (of_option UniqueViolation (insert_row (\<lambda>t. (tn_projectId t, tn_id t)) row (xd_tests db))) (\<lambda>ts.
      Inr (row, db\<lparr>xd_tests := ts\<rparr>)))))"

definition recordTestRun ::
    "string \<Rightarrow> int \<Rightarrow> string \<Rightarrow> string \<Rightarrow> string \<Rightarrow> int \<Rightarrow> test_evidence \<Rightarrow> expert_db \<Rightarrow> (test_run \<times> expert_db) res" where
  "recordTestRun tid now pid agent actor revision e db =
     res_bind (requireAccessibleAgent pid agent db) (\<lambda>_.
     res_bind (terminalTestEvidence e) (\<lambda>e'. record_tx tid now pid agent actor revision e' db))"

section \<open>Publishing a Version\<close>

text \<open>The latest release test of an agent: by creation, then by attempt.\<close>

definition newer_test :: "test_run \<Rightarrow> test_run \<Rightarrow> bool" where
  "newer_test s t \<longleftrightarrow> tn_createdAt t < tn_createdAt s \<or> (tn_createdAt s = tn_createdAt t \<and> tn_attempt t \<le> tn_attempt s)"

definition latest_release_test :: "string \<Rightarrow> string \<Rightarrow> expert_db \<Rightarrow> test_run option" where
  "latest_release_test pid agent db =
     (case sort_by newer_test (filter (\<lambda>t. tn_projectId t = pid \<and> tn_agentId t = agent \<and> tn_mode t = ReleaseTest) (xd_tests db)) of
        [] \<Rightarrow> None | t # _ \<Rightarrow> Some t)"

definition publish_gate :: "publish_readiness \<Rightarrow> failure" where
  "publish_gate r = ProblemError 409 ''expert_agent_publish_gate_failed''
     (case rn_reason r of
        TestsOutdated \<Rightarrow> ''The Agent changed after its latest Publish Test. Run the tests again.''
      | TestsFailed \<Rightarrow> ''The current Agent did not pass its latest Publish Test.''
      | _ \<Rightarrow> ''Run a Publish Test for the current Agent before publishing it.'')"

definition provenance_json :: "(int \<Rightarrow> string) \<Rightarrow> expert_row \<Rightarrow> string \<Rightarrow> int \<Rightarrow> js" where
  "provenance_json iso_text a actor now = JObj [(''agentId'', JStr (xa_id a)), (''revision'', jint (xa_revision a)),
     (''contentDigest'', JStr (xa_contentDigest a)), (''publishedBy'', JStr actor), (''publishedAt'', JStr (iso_text now))]"

definition version_artifacts ::
    "(string \<Rightarrow> string \<Rightarrow> bool) \<Rightarrow> (string \<Rightarrow> string) \<Rightarrow> (int \<Rightarrow> string) \<Rightarrow> expert_row \<Rightarrow> expert_definition \<Rightarrow> int
     \<Rightarrow> test_evidence \<Rightarrow> string \<Rightarrow> int \<Rightarrow> artifact_ref list res" where
  "version_artifacts collate digest iso_text a d n e actor now =
     res_bind (artifact collate digest (xa_id a) n
       (case mode_of (ed_execution d) of WorkflowMode \<Rightarrow> PlaybookArtifact | AgenticMode \<Rightarrow> PromptArtifact)
       (case mode_of (ed_execution d) of WorkflowMode \<Rightarrow> ''application/vnd.tasklattice.playbook+json''
        | AgenticMode \<Rightarrow> ''application/vnd.tasklattice.prompt+json'') (execution_json (ed_execution d))) (\<lambda>x.
     res_bind (artifact collate digest (xa_id a) n ResourceLock ''application/vnd.tasklattice.resource-lock+json''
       (JArr (map binding_json (ed_resources d)))) (\<lambda>r.
     res_bind (artifact collate digest (xa_id a) n TestReport ''application/vnd.tasklattice.test-report+json''
       (evidence_json e)) (\<lambda>t.
     res_bind (artifact collate digest (xa_id a) n Provenance ''application/vnd.tasklattice.provenance+json''
       (provenance_json iso_text a actor now)) (\<lambda>p. Inr [x, r, t, p]))))"

definition artifact_set_json :: "artifact_ref list \<Rightarrow> js" where
  "artifact_set_json refs = JArr (map (\<lambda>r. JObj [(''kind'', JStr (artifact_kind_text (rf_kind r))),
     (''digest'', JStr (rf_digest r)), (''uri'', JStr (rf_uri r))]) refs)"

definition version_manifest_of ::
    "(int \<Rightarrow> string) \<Rightarrow> string \<Rightarrow> int \<Rightarrow> expert_row \<Rightarrow> artifact_ref list \<Rightarrow> expert_definition \<Rightarrow> test_run \<Rightarrow> int
     \<Rightarrow> version_manifest res" where
  "version_manifest_of iso_text vid n a refs d t now =
     res_bind (expertAgentTestEvidenceSchema (tn_evidence t)) (\<lambda>e.
     res_bind (of_option SchemaError (tv_finishedAt e)) (\<lambda>passedAt.
       expertAgentVersionManifestSchema \<lparr>mf_agentId = xa_id a, mf_versionId = vid, mf_versionNumber = n,
         mf_contentDigest = xa_contentDigest a, mf_executionMode = xa_executionMode a, mf_artifacts = refs,
         mf_requirements = ed_resources d, mf_testRunId = tn_id t, mf_testedDigest = tv_agentDigest e,
         mf_passedAt = passedAt, mf_createdAt = iso_text now\<rparr>))"

definition release_notes :: "string option \<Rightarrow> string option" where
  "release_notes notes = (case notes of None \<Rightarrow> None | Some s \<Rightarrow> if js_trim s = [] then None else Some (js_trim s))"

definition build_version ::
    "(string \<Rightarrow> string \<Rightarrow> bool) \<Rightarrow> (string \<Rightarrow> string) \<Rightarrow> (int \<Rightarrow> string) \<Rightarrow> string \<Rightarrow> int \<Rightarrow> int \<Rightarrow> string \<Rightarrow> string option
     \<Rightarrow> expert_row \<Rightarrow> test_run \<Rightarrow> version_row res" where
  "build_version collate digest iso_text vid now n actor notes a t =
     res_bind (expertAgentDefinitionSchema (xa_definition a)) (\<lambda>d.
     res_bind (buildExpertAgentVersionSnapshot (xa_id a) d) (\<lambda>snapshot.
     res_bind (expertAgentContentDigest collate digest snapshot) (\<lambda>h.
     res_bind (ensure (h = xa_contentDigest a)
       (version_conflict ''The stored Agent digest does not match its normalized definition.'')) (\<lambda>_.
     res_bind (version_artifacts collate digest iso_text a d n (tn_evidence t) actor now) (\<lambda>refs.
     res_bind (sha256 collate digest (artifact_set_json refs)) (\<lambda>setDigest.
     res_bind (version_manifest_of iso_text vid n a refs d t now) (\<lambda>manifest.
     res_bind (sha256 collate digest (manifest_json manifest)) (\<lambda>manifestDigest.
     Inr \<lparr>vr_projectId = xa_projectId a, vr_id = vid, vr_agentId = xa_id a, vr_versionNumber = n,
       vr_sourceRevision = xa_revision a, vr_contentDigest = xa_contentDigest a, vr_snapshot = snapshot,
       vr_manifest = manifest, vr_manifestDigest = manifestDigest, vr_artifactSetDigest = setDigest,
       vr_releaseNotes = release_notes notes, vr_gardenStatus = ''PUBLISHED'', vr_publishedBy = actor,
       vr_publishedAt = now, vr_artifacts = refs\<rparr>))))))))"

definition agent_versions :: "string \<Rightarrow> string \<Rightarrow> expert_db \<Rightarrow> version_row list" where
  "agent_versions pid agent db = filter (\<lambda>v. vr_projectId v = pid \<and> vr_agentId v = agent) (xd_versions db)"

definition insert_version :: "version_row \<Rightarrow> version_row list \<Rightarrow> version_row list res" where
  "insert_version v vs =
     res_bind (ensure (find_unique (\<lambda>x. (vr_projectId x, vr_agentId x, vr_versionNumber x))
       (vr_projectId v, vr_agentId v, vr_versionNumber v) vs = None) UniqueViolation) (\<lambda>_.
     res_bind (ensure (find_unique (\<lambda>x. (vr_projectId x, vr_agentId x, vr_contentDigest x))
       (vr_projectId v, vr_agentId v, vr_contentDigest v) vs = None) UniqueViolation) (\<lambda>_.
     of_option UniqueViolation (insert_row (\<lambda>x. (vr_projectId x, vr_id x)) v vs)))"

definition publish_tx ::
    "(string \<Rightarrow> string \<Rightarrow> bool) \<Rightarrow> (string \<Rightarrow> string) \<Rightarrow> (int \<Rightarrow> string) \<Rightarrow> string \<Rightarrow> int \<Rightarrow> string \<Rightarrow> string \<Rightarrow> string
     \<Rightarrow> int \<Rightarrow> string option \<Rightarrow> expert_db \<Rightarrow> (version_row \<times> expert_db) res" where
  "publish_tx collate digest iso_text vid now pid agent actor expectedRevision notes db =
     res_bind (of_option agent_changed (case active_expert pid agent db of
         Some a \<Rightarrow> if xa_revision a = expectedRevision then Some a else None | None \<Rightarrow> None)) (\<lambda>a.
     case find (\<lambda>v. vr_contentDigest v = xa_contentDigest a) (agent_versions pid agent db) of
       Some v \<Rightarrow> Inr (v, db)
     | None \<Rightarrow>
         (let latest = latest_release_test pid agent db;
              readiness = assessExpertAgentPublishReadiness (xa_contentDigest a) latest;
              n = int (length (agent_versions pid agent db)) + 1 in
          res_bind (ensure (rn_ready readiness) (publish_gate readiness)) (\<lambda>_.
          res_bind (of_option (publish_gate readiness) latest) (\<lambda>t.
          res_bind (build_version collate digest iso_text vid now n actor notes a t) (\<lambda>v.
          res_bind (insert_version v (xd_versions db)) (\<lambda>vs.
          Inr (v, db\<lparr>xd_versions := vs, xd_agents := update_rows (\<lambda>x. expert_key x = (pid, agent))
            (\<lambda>x. x\<lparr>xa_latestReleasedVersionId := Some vid\<rparr>) (xd_agents db)\<rparr>)))))))"

definition publishAgent ::
    "(string \<Rightarrow> string \<Rightarrow> bool) \<Rightarrow> (string \<Rightarrow> string) \<Rightarrow> (int \<Rightarrow> string) \<Rightarrow> string \<Rightarrow> int \<Rightarrow> string \<Rightarrow> string \<Rightarrow> string
     \<Rightarrow> int \<Rightarrow> string option \<Rightarrow> expert_db \<Rightarrow> (version_row \<times> expert_db) res" where
  "publishAgent collate digest iso_text vid now pid agent actor expectedRevision notes db =
     res_bind (requireAccessibleAgent pid agent db) (\<lambda>_.
       publish_tx collate digest iso_text vid now pid agent actor expectedRevision notes db)"

section \<open>The state a developer sees\<close>

datatype lifecycle_state = PublishedState | ReadyState | TestsFailedState | NeedsTesting

definition lifecycleState :: "string \<Rightarrow> string option \<Rightarrow> test_run option \<Rightarrow> lifecycle_state" where
  "lifecycleState contentDigest latestVersionDigest latest =
     (if latestVersionDigest = Some contentDigest then PublishedState
      else let r = assessExpertAgentPublishReadiness contentDigest latest in
        if rn_ready r then ReadyState
        else if rn_reason r = TestsFailed then TestsFailedState else NeedsTesting)"

definition agent_lifecycle :: "string \<Rightarrow> expert_row \<Rightarrow> expert_db \<Rightarrow> lifecycle_state" where
  "agent_lifecycle pid a db = lifecycleState (xa_contentDigest a)
     (case xa_latestReleasedVersionId a of None \<Rightarrow> None
      | Some vid \<Rightarrow> map_option vr_contentDigest (find_unique (\<lambda>v. (vr_projectId v, vr_id v)) (pid, vid) (xd_versions db)))
     (latest_release_test pid (xa_id a) db)"

end
