(* ===== verification/Expert_System.thy ===== *)
theory Expert_System
  imports Expert_Agents Transition_Systems
begin

text \<open>
  The expert agents of all Projects as a state machine. A step is one transaction, or the reads
  and checks an operation makes before its transaction, whose results wait until it writes them,
  so that operations interleave between the two. Two invariants: every Version has the test it
  names and the digest of its snapshot, and the Versions of an agent are numbered without a gap.
\<close>

section \<open>The state machine\<close>

record expert_system =
  xs_db :: expert_db
  xs_creations :: "(string \<times> string \<times> execution_mode \<times> expert_definition \<times> string) list"
  xs_updates :: "(string \<times> string \<times> expert_definition \<times> string \<times> int) list"

definition no_experts :: "expert_system \<Rightarrow> bool" where
  "no_experts s \<longleftrightarrow> s = \<lparr>xs_db = \<lparr>xd_agents = [], xd_members = [], xd_tests = [], xd_versions = [], xd_instances = []\<rparr>,
     xs_creations = [], xs_updates = []\<rparr>"

inductive expert_step ::
    "(string \<Rightarrow> string \<Rightarrow> bool) \<Rightarrow> (string \<Rightarrow> string) \<Rightarrow> (int \<Rightarrow> string) \<Rightarrow> expert_system \<Rightarrow> expert_system \<Rightarrow> bool"
  for collate digest iso_text where
  creation_checked: "create_check collate digest pid agent mode input (xs_db s) = Inr (d, h)
    \<Longrightarrow> expert_step collate digest iso_text s (s\<lparr>xs_creations := (pid, agent, mode, d, h) # xs_creations s\<rparr>)"
| creation_written: "(pid, agent, mode, d, h) \<in> set (xs_creations s)
    \<Longrightarrow> create_write pid agent actor slug mode (d, h) (xs_db s) = Inr db
    \<Longrightarrow> expert_step collate digest iso_text s
      (s\<lparr>xs_db := db, xs_creations := remove1 (pid, agent, mode, d, h) (xs_creations s)\<rparr>)"
| update_checked: "update_check collate digest pid agent input (xs_db s) = Inr (d, h, n)
    \<Longrightarrow> expert_step collate digest iso_text s (s\<lparr>xs_updates := (pid, agent, d, h, n) # xs_updates s\<rparr>)"
| update_written: "(pid, agent, d, h, n) \<in> set (xs_updates s)
    \<Longrightarrow> update_write pid agent actor (d, h, n) (xs_db s) = Inr db
    \<Longrightarrow> expert_step collate digest iso_text s
      (s\<lparr>xs_db := db, xs_updates := remove1 (pid, agent, d, h, n) (xs_updates s)\<rparr>)"
| deleted: "delete_tx pid agent (xs_db s) = Inr db \<Longrightarrow> expert_step collate digest iso_text s (s\<lparr>xs_db := db\<rparr>)"
| test_recorded: "terminalTestEvidence e0 = Inr e
    \<Longrightarrow> record_tx tid now pid agent actor revision e (xs_db s) = Inr (t, db)
    \<Longrightarrow> expert_step collate digest iso_text s (s\<lparr>xs_db := db\<rparr>)"
| published: "publish_tx collate digest iso_text vid now pid agent actor expectedRevision notes (xs_db s) = Inr (v, db)
    \<Longrightarrow> expert_step collate digest iso_text s (s\<lparr>xs_db := db\<rparr>)"
| instances_change: "expert_step collate digest iso_text s (s\<lparr>xs_db := (xs_db s)\<lparr>xd_instances := is\<rparr>\<rparr>)"

interpretation experts: transition_system no_experts "expert_step collate digest iso_text" for collate digest iso_text .

section \<open>What each transaction changes\<close>

lemma create_write_Inr:
  assumes "create_write pid agent actor slug mode checked db = Inr db'"
  obtains a ms where "db' = db\<lparr>xd_agents := xd_agents db @ [a], xd_members := ms\<rparr>"
    and "expert_key a = (pid, agent)" and "find_expert pid agent db = None" and "xa_latestReleasedVersionId a = None"
proof -
  from assms show thesis
    by (auto simp: create_write_def Let_def res_simps of_option_def expert_key_def find_expert_def
        split: option.splits intro: that)
qed

lemma update_write_Inr:
  assumes "update_write pid agent actor checked db = Inr db'"
  obtains p f where "db' = db\<lparr>xd_agents := update_rows p f (xd_agents db)\<rparr>"
    and "\<And>a. expert_key (f a) = expert_key a"
    and "\<And>a. xa_latestReleasedVersionId (f a) = xa_latestReleasedVersionId a"
  using assms by (auto simp: update_write_def Let_def res_simps expert_key_def intro: that)

lemma delete_tx_Inr:
  assumes "delete_tx pid agent db = Inr db'"
  shows "xd_agents db' = delete_rows (\<lambda>a. expert_key a = (pid, agent)) (xd_agents db)
    \<and> xd_tests db' = delete_rows (\<lambda>t. tn_projectId t = pid \<and> tn_agentId t = agent) (xd_tests db)
    \<and> xd_versions db' = delete_rows (\<lambda>v. vr_projectId v = pid \<and> vr_agentId v = agent) (xd_versions db)"
  using assms by (auto simp: delete_tx_def Let_def res_simps expert_key_def)

lemma record_tx_Inr:
  assumes "record_tx tid now pid agent actor revision e db = Inr (t, db')"
  shows "db' = db\<lparr>xd_tests := xd_tests db @ [t]\<rparr> \<and> find_expert pid agent db \<noteq> None
    \<and> tn_projectId t = pid \<and> tn_agentId t = agent"
  using assms by (auto simp: record_tx_def Let_def res_simps of_option_def split: option.splits)

lemma newest_in:
  assumes "latest_release_test pid agent db = Some t"
  shows "t \<in> set (xd_tests db) \<and> tn_projectId t = pid \<and> tn_agentId t = agent \<and> tn_mode t = ReleaseTest"
proof -
  let ?ts = "filter (\<lambda>t. tn_projectId t = pid \<and> tn_agentId t = agent \<and> tn_mode t = ReleaseTest) (xd_tests db)"
  obtain rest where "sort_by newer_test ?ts = t # rest"
    using assms by (auto simp: latest_release_test_def split: list.splits)
  then have "t \<in> set ?ts" by (metis list.set_intros(1) set_sort_by)
  then show ?thesis by simp
qed

lemma evidence_kept:
  "expertAgentTestEvidenceSchema e = Inr f \<Longrightarrow>
     tv_agentDigest f = tv_agentDigest e \<and> tv_mode f = tv_mode e \<and> tv_status f = tv_status e"
  by (auto simp: expertAgentTestEvidenceSchema_def res_simps)

lemma readiness_ready:
  "rn_ready (assessExpertAgentPublishReadiness h (Some t)) \<Longrightarrow>
     tn_contentDigest t = h \<and> tn_status t = PassedTest \<and> tv_status (tn_evidence t) = PassedTest
       \<and> tv_agentDigest (tn_evidence t) = h"
  using evidence_kept
  by (fastforce simp: assessExpertAgentPublishReadiness_def split: if_splits sum.splits)

definition tested_version ::
    "(string \<Rightarrow> string \<Rightarrow> bool) \<Rightarrow> (string \<Rightarrow> string) \<Rightarrow> test_run list \<Rightarrow> version_row \<Rightarrow> bool" where
  "tested_version collate digest ts v \<longleftrightarrow>
     expertAgentContentDigest collate digest (vr_snapshot v) = Inr (vr_contentDigest v)
   \<and> list_ex (\<lambda>t. tn_projectId t = vr_projectId v \<and> tn_agentId t = vr_agentId v \<and> tn_id t = mf_testRunId (vr_manifest v)
       \<and> tn_mode t = ReleaseTest \<and> tn_status t = PassedTest \<and> tn_contentDigest t = vr_contentDigest v
       \<and> tv_status (tn_evidence t) = PassedTest \<and> tv_agentDigest (tn_evidence t) = vr_contentDigest v) ts"

lemma manifest_kept:
  "expertAgentVersionManifestSchema m = Inr k \<Longrightarrow> mf_testRunId k = mf_testRunId m"
  by (auto simp: expertAgentVersionManifestSchema_def res_simps)

lemma publish_tx_Inr:
  assumes "publish_tx collate digest iso_text vid now pid agent actor expectedRevision notes db = Inr (v, db')"
  shows "db' = db \<or>
    (db' = db\<lparr>xd_versions := xd_versions db @ [v], xd_agents := update_rows (\<lambda>x. expert_key x = (pid, agent))
        (\<lambda>x. x\<lparr>xa_latestReleasedVersionId := Some vid\<rparr>) (xd_agents db)\<rparr>
     \<and> vr_projectId v = pid \<and> vr_agentId v = agent \<and> vr_id v = vid \<and> find_expert pid agent db \<noteq> None
     \<and> vr_versionNumber v = int (length (agent_versions pid agent db)) + 1
     \<and> vr_contentDigest v \<notin> vr_contentDigest ` set (agent_versions pid agent db)
     \<and> tested_version collate digest (xd_tests db) v)"
proof -
  obtain a where a: "active_expert pid agent db = Some a"
    and run: "(case find (\<lambda>v. vr_contentDigest v = xa_contentDigest a) (agent_versions pid agent db) of
       Some v \<Rightarrow> Inr (v, db)
     | None \<Rightarrow>
         (let latest = latest_release_test pid agent db;
              readiness = assessExpertAgentPublishReadiness (xa_contentDigest a) latest;
              n = int (length (agent_versions pid agent db)) + 1 in
          res_bind (ensure (rn_ready readiness) (publish_gate readiness)) (\<lambda>_.
          res_bind (of_option (publish_gate readiness) latest) (\<lambda>t.
          res_bind (build_version collate digest iso_text vid now n actor notes a t) (\<lambda>v.
          res_bind (insert_version v (xd_versions db)) (\<lambda>vs.
          Inr (v, db\<lparr>xd_versions := vs, xd_agents := update_rows (\<lambda>x. expert_key x = (pid, agent))
            (\<lambda>x. x\<lparr>xa_latestReleasedVersionId := Some vid\<rparr>) (xd_agents db)\<rparr>)))))))
      = (Inr (v, db') :: (version_row \<times> expert_db) res)"
    using assms unfolding publish_tx_def res_bind_eq_Inr of_option_def
    by (auto split: option.splits if_splits)
  show ?thesis
  proof (cases "find (\<lambda>v. vr_contentDigest v = xa_contentDigest a) (agent_versions pid agent db)")
    case None
    then obtain t vs where t: "latest_release_test pid agent db = Some t"
        and ready: "rn_ready (assessExpertAgentPublishReadiness (xa_contentDigest a) (Some t))"
        and built: "build_version collate digest iso_text vid now (int (length (agent_versions pid agent db)) + 1) actor notes a t = Inr v"
        and vs: "insert_version v (xd_versions db) = Inr vs"
        and db': "db' = db\<lparr>xd_versions := vs, xd_agents := update_rows (\<lambda>x. expert_key x = (pid, agent))
            (\<lambda>x. x\<lparr>xa_latestReleasedVersionId := Some vid\<rparr>) (xd_agents db)\<rparr>"
      using run by (auto simp: Let_def res_simps of_option_def split: option.splits)
    have key: "find_expert pid agent db = Some a" "expert_key a = (pid, agent)"
      using a find_unique_key [of expert_key "(pid, agent)" "xd_agents db" a]
      by (auto simp: active_expert_def find_expert_def split: option.splits if_splits)
    have v: "vr_projectId v = pid" "vr_agentId v = agent" "vr_id v = vid"
        "vr_versionNumber v = int (length (agent_versions pid agent db)) + 1" "vr_contentDigest v = xa_contentDigest a"
        "expertAgentContentDigest collate digest (vr_snapshot v) = Inr (vr_contentDigest v)"
        "mf_testRunId (vr_manifest v) = tn_id t"
      using built key(2)
      by (auto simp: build_version_def version_manifest_of_def res_simps expert_key_def of_option_def
          dest!: manifest_kept split: option.splits)
    have "tested_version collate digest (xd_tests db) v"
      using newest_in [OF t] readiness_ready [OF ready] v by (auto simp: tested_version_def list_ex_iff)
    moreover have "vs = xd_versions db @ [v]"
      using vs by (auto simp: insert_version_def res_simps of_option_def split: option.splits)
    moreover have "vr_contentDigest v \<notin> vr_contentDigest ` set (agent_versions pid agent db)"
      using None v(5) by (auto simp: find_None_iff)
    ultimately show ?thesis using v key db' by simp
  qed (use run in auto)
qed

section \<open>Invariants\<close>

text \<open>Every Version and every test belongs to an agent.\<close>

definition versions_sound :: "(string \<Rightarrow> string \<Rightarrow> bool) \<Rightarrow> (string \<Rightarrow> string) \<Rightarrow> expert_db \<Rightarrow> bool" where
  "versions_sound collate digest db \<longleftrightarrow>
     (\<forall>v\<in>set (xd_versions db). (vr_projectId v, vr_agentId v) \<in> expert_key ` set (xd_agents db)
        \<and> tested_version collate digest (xd_tests db) v)"

definition last_version :: "version_row list \<Rightarrow> string option" where
  "last_version vs = (if vs = [] then None else Some (vr_id (last vs)))"

definition versions_numbered :: "expert_db \<Rightarrow> bool" where
  "versions_numbered db \<longleftrightarrow>
     (\<forall>pid agent. let vs = agent_versions pid agent db in
        map vr_versionNumber vs = [1..int (length vs)] \<and> distinct (map vr_contentDigest vs))
   \<and> distinct (map expert_key (xd_agents db))
   \<and> (\<forall>a\<in>set (xd_agents db).
        xa_latestReleasedVersionId a = last_version (agent_versions (xa_projectId a) (xa_id a) db))"

lemma find_expert_None: "find_expert pid agent db = None \<longleftrightarrow> (pid, agent) \<notin> expert_key ` set (xd_agents db)"
  by (simp add: find_expert_def find_unique_None_iff)

lemma agent_versions_append:
  "agent_versions pid agent (db\<lparr>xd_versions := xd_versions db @ [v], xd_agents := as\<rparr>) =
     agent_versions pid agent db @ (if vr_projectId v = pid \<and> vr_agentId v = agent then [v] else [])"
  by (simp add: agent_versions_def)

lemma agent_versions_delete:
  "agent_versions pid agent (db\<lparr>xd_versions := delete_rows (\<lambda>v. vr_projectId v = pid' \<and> vr_agentId v = agent') (xd_versions db)\<rparr>) =
     (if pid = pid' \<and> agent = agent' then [] else agent_versions pid agent db)"
  by (auto simp: agent_versions_def delete_rows_def filter_empty_conv intro!: filter_cong)

lemma upto_append: "[1..int n + 1] = [1..int n] @ [int n + 1]"
  by (simp add: upto_rec2)

lemma tested_more: "tested_version collate digest ts v \<Longrightarrow> set ts \<subseteq> set us \<Longrightarrow> tested_version collate digest us v"
  by (auto simp: tested_version_def list_ex_iff)

lemma keys_update:
  "(\<And>a. expert_key (f a) = expert_key a) \<Longrightarrow> expert_key ` set (update_rows p f as) = expert_key ` set as"
  using map_key_update [of p expert_key f as] by (metis list.set_map)

lemma sound_agents:
  assumes "versions_sound collate digest db" and "xd_versions db' = xd_versions db"
    and "expert_key ` set (xd_agents db) \<subseteq> expert_key ` set (xd_agents db')" and "set (xd_tests db) \<subseteq> set (xd_tests db')"
  shows "versions_sound collate digest db'"
  using assms tested_more by (fastforce simp: versions_sound_def)

lemma sound_delete:
  assumes sound: "versions_sound collate digest db" and del: "delete_tx pid agent db = Inr db'"
  shows "versions_sound collate digest db'"
  unfolding versions_sound_def
proof (intro ballI conjI)
  fix v assume "v \<in> set (xd_versions db')"
  then have v: "v \<in> set (xd_versions db)" and other: "\<not> (vr_projectId v = pid \<and> vr_agentId v = agent)"
    using delete_tx_Inr [OF del] by (auto simp: delete_rows_def)
  with sound have "(vr_projectId v, vr_agentId v) \<in> expert_key ` set (xd_agents db)"
      "tested_version collate digest (xd_tests db) v"
    by (auto simp: versions_sound_def)
  then show "(vr_projectId v, vr_agentId v) \<in> expert_key ` set (xd_agents db')"
      "tested_version collate digest (xd_tests db') v"
    using delete_tx_Inr [OF del] other
    by (auto simp: delete_rows_def tested_version_def list_ex_iff image_iff)
qed

lemma sound_publish:
  assumes sound: "versions_sound collate digest db"
    and pub: "publish_tx collate digest iso_text vid now pid agent actor expectedRevision notes db = Inr (v, db')"
  shows "versions_sound collate digest db'"
  using publish_tx_Inr [OF pub]
proof
  assume new: "db' = db\<lparr>xd_versions := xd_versions db @ [v], xd_agents := update_rows (\<lambda>x. expert_key x = (pid, agent))
        (\<lambda>x. x\<lparr>xa_latestReleasedVersionId := Some vid\<rparr>) (xd_agents db)\<rparr>
     \<and> vr_projectId v = pid \<and> vr_agentId v = agent \<and> vr_id v = vid \<and> find_expert pid agent db \<noteq> None
     \<and> vr_versionNumber v = int (length (agent_versions pid agent db)) + 1
     \<and> vr_contentDigest v \<notin> vr_contentDigest ` set (agent_versions pid agent db)
     \<and> tested_version collate digest (xd_tests db) v"
  have "expert_key ` set (xd_agents db') = expert_key ` set (xd_agents db)"
    using new keys_update [of "\<lambda>x. x\<lparr>xa_latestReleasedVersionId := Some vid\<rparr>"] by (simp add: expert_key_def)
  with new sound show ?thesis
    by (auto simp: versions_sound_def find_expert_None)
qed (use sound in simp)

lemma experts_sound:
  assumes "experts.reachable collate digest iso_text s"
  shows "versions_sound collate digest (xs_db s)"
  using assms
proof (rule experts.invariantI)
  fix s t assume "versions_sound collate digest (xs_db s)" and "expert_step collate digest iso_text s t"
  from this(2,1) show "versions_sound collate digest (xs_db t)"
  proof (induction rule: expert_step.induct)
    case (creation_written pid agent mode d h s actor slug db)
    then show ?case by (elim create_write_Inr) (auto intro: sound_agents)
  next
    case (update_written pid agent d h n s actor db)
    then show ?case
      by (elim update_write_Inr) (rule sound_agents [of collate digest "xs_db s"], auto simp: keys_update)
  next
    case (test_recorded e0 e tid now pid agent actor revision s t db)
    then show ?case using record_tx_Inr by (fastforce intro: sound_agents)
  next
    case (instances_change s "is")
    then show ?case by (auto intro: sound_agents)
  qed (auto intro: sound_delete sound_publish)
qed (simp add: no_experts_def versions_sound_def)

lemma numbered_agents:
  assumes "versions_numbered db" and "xd_versions db' = xd_versions db"
    and "map expert_key (xd_agents db') = map expert_key (xd_agents db)"
    and "map xa_latestReleasedVersionId (xd_agents db') = map xa_latestReleasedVersionId (xd_agents db)"
  shows "versions_numbered db'"
proof -
  have same: "agent_versions pid agent db' = agent_versions pid agent db" for pid agent
    using assms(2) by (simp add: agent_versions_def)
  have "xa_latestReleasedVersionId a = last_version (agent_versions (xa_projectId a) (xa_id a) db)"
    if a: "a \<in> set (xd_agents db')" for a
  proof -
    obtain i where i: "i < length (xd_agents db')" "xd_agents db' ! i = a"
      using a by (auto simp: in_set_conv_nth)
    let ?b = "xd_agents db ! i"
    have len: "i < length (xd_agents db)"
      using i(1) assms(3) by (metis length_map)
    then have b: "?b \<in> set (xd_agents db)" by simp
    have "expert_key a = expert_key ?b" "xa_latestReleasedVersionId a = xa_latestReleasedVersionId ?b"
      using i len assms(3,4) by (metis nth_map)+
    with assms(1) b show ?thesis
      by (auto simp: versions_numbered_def expert_key_def)
  qed
  then show ?thesis
    using assms(1,3) by (auto simp: versions_numbered_def same)
qed

lemma numbered_delete:
  assumes num: "versions_numbered db" and del: "delete_tx pid agent db = Inr db'"
  shows "versions_numbered db'"
proof -
  have vs: "agent_versions p i db' = (if p = pid \<and> i = agent then [] else agent_versions p i db)" for p i
    using delete_tx_Inr [OF del] by (auto simp: agent_versions_def delete_rows_def filter_empty_conv intro!: filter_cong)
  have "xd_agents db' = filter (\<lambda>a. expert_key a \<noteq> (pid, agent)) (xd_agents db)"
    using delete_tx_Inr [OF del] by (simp add: delete_rows_def)
  with num show ?thesis
    by (auto simp: versions_numbered_def vs distinct_map_filter expert_key_def Let_def)
qed

lemma numbered_create:
  assumes num: "versions_numbered db" and sound: "versions_sound collate digest db"
    and new: "create_write pid agent actor slug mode checked db = Inr db'"
  shows "versions_numbered db'"
proof -
  obtain a ms where db': "db' = db\<lparr>xd_agents := xd_agents db @ [a], xd_members := ms\<rparr>"
      and a: "expert_key a = (pid, agent)" "find_expert pid agent db = None" "xa_latestReleasedVersionId a = None"
    using new by (rule create_write_Inr)
  have vs: "agent_versions p i db' = agent_versions p i db" for p i
    by (simp add: db' agent_versions_def)
  have "agent_versions pid agent db = []"
    using sound a(2) by (auto simp: versions_sound_def agent_versions_def filter_empty_conv find_expert_None)
  with num a show ?thesis
    unfolding versions_numbered_def vs by (auto simp: db' expert_key_def find_expert_None last_version_def)
qed

lemma numbered_publish:
  assumes num: "versions_numbered db"
    and pub: "publish_tx collate digest iso_text vid now pid agent actor expectedRevision notes db = Inr (v, db')"
  shows "versions_numbered db'"
  using publish_tx_Inr [OF pub]
proof
  let ?f = "\<lambda>x. x\<lparr>xa_latestReleasedVersionId := Some vid\<rparr>"
  assume new: "db' = db\<lparr>xd_versions := xd_versions db @ [v], xd_agents := update_rows (\<lambda>x. expert_key x = (pid, agent))
        ?f (xd_agents db)\<rparr>
     \<and> vr_projectId v = pid \<and> vr_agentId v = agent \<and> vr_id v = vid \<and> find_expert pid agent db \<noteq> None
     \<and> vr_versionNumber v = int (length (agent_versions pid agent db)) + 1
     \<and> vr_contentDigest v \<notin> vr_contentDigest ` set (agent_versions pid agent db)
     \<and> tested_version collate digest (xd_tests db) v"
  then have vs: "agent_versions p i db' = agent_versions p i db @ (if pid = p \<and> agent = i then [v] else [])" for p i
    by (simp add: agent_versions_append)
  have lists: "map vr_versionNumber (agent_versions p i db') = [1..int (length (agent_versions p i db'))]
      \<and> distinct (map vr_contentDigest (agent_versions p i db'))" for p i
  proof -
    have old: "map vr_versionNumber (agent_versions p i db) = [1..int (length (agent_versions p i db))]"
        "distinct (map vr_contentDigest (agent_versions p i db))"
      using num by (simp_all add: versions_numbered_def Let_def)
    show ?thesis
    proof (cases "pid = p \<and> agent = i")
      case True
      then have here: "agent_versions p i db' = agent_versions p i db @ [v]" by (simp add: vs)
      have v: "vr_versionNumber v = int (length (agent_versions p i db)) + 1"
          "vr_contentDigest v \<notin> set (map vr_contentDigest (agent_versions p i db))"
        using new True by simp_all
      have "map vr_versionNumber (agent_versions p i db') = [1..int (length (agent_versions p i db)) + 1]"
        unfolding upto_append here map_append using old(1) v(1) by simp
      moreover have "distinct (map vr_contentDigest (agent_versions p i db'))"
        unfolding here using old(2) v(2) by simp
      ultimately show ?thesis by (simp add: here add.commute)
    next
      case False
      then have "agent_versions p i db' = agent_versions p i db" by (auto simp: vs)
      with old show ?thesis by simp
    qed
  qed
  have "map expert_key (xd_agents db') = map expert_key (xd_agents db)"
    using new map_key_update [of "\<lambda>x. expert_key x = (pid, agent)" expert_key ?f] by (simp add: expert_key_def)
  then have keys: "distinct (map expert_key (xd_agents db'))"
    using num by (simp add: versions_numbered_def)
  have "xa_latestReleasedVersionId a = last_version (agent_versions (xa_projectId a) (xa_id a) db')"
    if "a \<in> set (xd_agents db')" for a
  proof -
    from that new obtain b where b: "b \<in> set (xd_agents db)"
        "a = (if expert_key b = (pid, agent) then ?f b else b)"
      by (auto simp: set_update_rows)
    show ?thesis
    proof (cases "expert_key b = (pid, agent)")
      case True
      then have "agent_versions (xa_projectId a) (xa_id a) db' = agent_versions pid agent db @ [v]"
          "xa_latestReleasedVersionId a = Some vid"
        using b(2) by (simp_all add: vs expert_key_def)
      then show ?thesis using new by (simp add: last_version_def)
    next
      case False
      then have "agent_versions (xa_projectId a) (xa_id a) db' = agent_versions (xa_projectId b) (xa_id b) db" "a = b"
        using b(2) by (auto simp: vs expert_key_def)
      then show ?thesis using num b(1) by (simp add: versions_numbered_def)
    qed
  qed
  then show ?thesis using lists keys by (simp add: versions_numbered_def Let_def)
qed (use num in simp)

lemma experts_numbered:
  assumes "experts.reachable collate digest iso_text s"
  shows "versions_numbered (xs_db s)"
  using assms
proof (rule experts.invariantI)
  fix s t assume reach: "experts.reachable collate digest iso_text s" and "versions_numbered (xs_db s)"
    and "expert_step collate digest iso_text s t"
  from this(3,2,1) show "versions_numbered (xs_db t)"
  proof (induction rule: expert_step.induct)
    case (creation_written pid agent mode d h s actor slug db)
    then show ?case using experts_sound numbered_create by (metis expert_system.select_convs(1) expert_system.surjective expert_system.update_convs(1,2))
  next
    case (update_written pid agent d h n s actor db)
    then obtain p f where "db = (xs_db s)\<lparr>xd_agents := update_rows p f (xd_agents (xs_db s))\<rparr>"
        "\<And>a. expert_key (f a) = expert_key a" "\<And>a. xa_latestReleasedVersionId (f a) = xa_latestReleasedVersionId a"
      using update_write_Inr by metis
    with update_written show ?case
      by (auto intro!: numbered_agents [of "xs_db s"] map_key_update)
  next
    case (test_recorded e0 e tid now pid agent actor revision s t db)
    then show ?case
      using record_tx_Inr [OF test_recorded.hyps(2)] by (auto intro!: numbered_agents [of "xs_db s"])
  next
    case (instances_change s "is")
    then show ?case by (auto intro!: numbered_agents [of "xs_db s"])
  qed (auto intro: numbered_delete numbered_publish)
qed (simp add: no_experts_def versions_numbered_def agent_versions_def)

end
