(* ===== verification/Expert_Guarantees.thy ===== *)
theory Expert_Guarantees
  imports Expert_System
begin

text \<open>
  The guarantees of the lifecycle of expert agents: a Version was tested as it is published and
  Versions are numbered without a gap; and two defects, with the histories that lead to them.
\<close>

section \<open>Agents for the witnesses\<close>

definition sample_definition :: "string \<Rightarrow> delegation list \<Rightarrow> expert_definition" where
  "sample_definition instruction ds = \<lparr>
     ed_product = \<lparr>pr_name = ''N'', pr_purpose = ''P'', pr_targetUsers = [''U''], pr_capabilities = [''C''], pr_outOfScope = [],
       pr_delegationGuidance = None, pr_inputContract = [], pr_outputContract = []\<rparr>,
     ed_policy = \<lparr>pp_preset = Flexible, pp_groundingPolicy = RequiredGrounding, pp_outputMode = Structured,
       pp_actionPolicy = Allowlist\<rparr>,
     ed_delegations = ds,
     ed_acceptance = \<lparr>as_cases = [\<lparr>ac_id = ''c'', ac_title = ''T'', ac_kind = HappyPath, ac_given = ''G'', ac_when = ''W'',
       ac_then = [''H''], ac_required = True, ac_request = None, ac_assertions = None\<rparr>],
       as_minimumRequiredPassRate = ''1'', as_suites = None\<rparr>,
     ed_safety = \<lparr>sf_guardrails = [\<lparr>gr_id = ''g'', gr_category = Grounding, gr_rule = ''R'',
       gr_violationBehavior = RejectViolation, gr_required = True\<rparr>], sf_prohibitedBehaviors = [''B''],
       sf_noEvidenceBehavior = UnknownWithoutEvidence, sf_allowGeneralModelFallback = False\<rparr>,
     ed_execution = Agentic \<lparr>ag_framework = ''f'', ag_version = ''1'', ag_modelRoutingId = ''m'', ag_instruction = instruction,
       ag_configuration = JObj [], ag_maxSteps = 12, ag_timeoutMs = 120000\<rparr>,
     ed_resources = []\<rparr>"

definition expert_a :: string where
  "expert_a = ''00000000-0000-4000-8000-00000000000a''"

definition expert_b :: string where
  "expert_b = ''00000000-0000-4000-8000-00000000000b''"

definition sample_delegation :: delegation where
  "sample_delegation = \<lparr>dg_expertAgentId = expert_a, dg_when = ''W'', dg_delegationPolicy = Automatic,
     dg_executionPolicy = Synchronous, dg_approvalPolicy = ApprovalNotRequired, dg_enabled = True\<rparr>"

definition no_rows :: expert_db where
  "no_rows = \<lparr>xd_agents = [], xd_members = [], xd_tests = [], xd_versions = [], xd_instances = []\<rparr>"

definition sample_iso :: "int \<Rightarrow> string" where
  "sample_iso n = ''2026-01-01T00:00:00Z''"

definition definition_1 :: expert_definition where
  "definition_1 = sample_definition ''I'' []"

definition definition_2 :: expert_definition where
  "definition_2 = sample_definition ''II'' []"

definition definition_3 :: expert_definition where
  "definition_3 = sample_definition ''I'' [sample_delegation]"

definition hash_1 :: string where
  "hash_1 = projr (definition_digest text_le sample_digest expert_a definition_1)"

definition hash_2 :: string where
  "hash_2 = projr (definition_digest text_le sample_digest expert_a definition_2)"

definition hash_3 :: string where
  "hash_3 = projr (definition_digest text_le sample_digest expert_b definition_3)"

lemma hashes:
  "definition_digest text_le sample_digest expert_a definition_1 = Inr hash_1"
  "definition_digest text_le sample_digest expert_a definition_2 = Inr hash_2"
  "definition_digest text_le sample_digest expert_b definition_3 = Inr hash_3"
proof -
  have "\<not> isl (definition_digest text_le sample_digest expert_a definition_1)"
    "\<not> isl (definition_digest text_le sample_digest expert_a definition_2)"
    "\<not> isl (definition_digest text_le sample_digest expert_b definition_3)"
    by code_simp+
  then show "definition_digest text_le sample_digest expert_a definition_1 = Inr hash_1"
    "definition_digest text_le sample_digest expert_a definition_2 = Inr hash_2"
    "definition_digest text_le sample_digest expert_b definition_3 = Inr hash_3"
    by (simp_all add: hash_1_def hash_2_def hash_3_def)
qed

lemma definitions_parsed:
  "expertAgentDefinitionInputSchema (definition_1, 0) = Inr (definition_1, 0)"
  "expertAgentDefinitionInputSchema (definition_1, 1) = Inr (definition_1, 1)"
  "expertAgentDefinitionInputSchema (definition_2, 0) = Inr (definition_2, 0)"
  "expertAgentDefinitionInputSchema (definition_3, 0) = Inr (definition_3, 0)"
  by code_simp+

definition sample_row :: "string \<Rightarrow> string \<Rightarrow> expert_definition \<Rightarrow> string \<Rightarrow> int \<Rightarrow> string option \<Rightarrow> expert_row" where
  "sample_row i slug d h n latest = \<lparr>xa_projectId = ''p'', xa_id = i, xa_slug = slug, xa_name = pr_name (ed_product d),
     xa_description = pr_purpose (ed_product d), xa_executionMode = AgenticMode, xa_revision = n, xa_contentDigest = h,
     xa_definition = d, xa_latestReleasedVersionId = latest, xa_createdBy = ''u'', xa_updatedBy = ''u'', xa_deletedAt = None\<rparr>"

definition sample_owner :: "string \<Rightarrow> expert_member" where
  "sample_owner i = \<lparr>xm_projectId = ''p'', xm_agentId = i, xm_userId = ''u'', xm_relation = OwnerRelation\<rparr>"

definition sample_system :: "expert_row list \<Rightarrow> test_run list \<Rightarrow> version_row list \<Rightarrow> expert_system" where
  "sample_system as ts vs = \<lparr>xs_db = \<lparr>xd_agents = as, xd_members = map (\<lambda>a. sample_owner (xa_id a)) as, xd_tests = ts,
     xd_versions = vs, xd_instances = []\<rparr>, xs_creations = [], xs_updates = []\<rparr>"

abbreviation sample_reachable :: "expert_system \<Rightarrow> bool" where
  "sample_reachable \<equiv> experts.reachable text_le sample_digest sample_iso"

lemma sample_start: "sample_reachable (sample_system [] [] [])"
  by (rule experts.reachable_init) (simp add: no_experts_def sample_system_def)

lemma definition_facts [simp]:
  "mode_of (ed_execution definition_1) = AgenticMode" "mode_of (ed_execution definition_2) = AgenticMode"
  "mode_of (ed_execution definition_3) = AgenticMode"
  "ed_delegations definition_1 = []" "ed_delegations definition_2 = []" "ed_delegations definition_3 = [sample_delegation]"
  by (simp_all add: definition_1_def definition_2_def definition_3_def sample_definition_def)

lemma create_a_step:
  "sample_reachable (sample_system [sample_row expert_a ''a'' definition_1 hash_1 0 None] [] [])"
proof -
  let ?s = "sample_system [] [] []"
  let ?c = "(''p'', expert_a, AgenticMode, definition_1, hash_1)"
  have "create_check text_le sample_digest ''p'' expert_a AgenticMode (definition_1, 0) (xs_db ?s) = Inr (definition_1, hash_1)"
    by (simp add: create_check_def definitions_parsed hashes requireDelegationTargets_def)
  from experts.reachable_step [OF sample_start expert_step.creation_checked [OF this]]
  have "sample_reachable (?s\<lparr>xs_creations := [?c]\<rparr>)" by (simp add: sample_system_def)
  moreover have "create_write ''p'' expert_a ''u'' ''a'' AgenticMode (definition_1, hash_1) (xs_db ?s)
      = Inr (xs_db (sample_system [sample_row expert_a ''a'' definition_1 hash_1 0 None] [] []))"
    by (simp add: create_write_def sample_system_def sample_row_def sample_owner_def insert_row_def of_option_def)
  ultimately have "sample_reachable (?s\<lparr>xs_creations := [?c],
      xs_db := xs_db (sample_system [sample_row expert_a ''a'' definition_1 hash_1 0 None] [] []),
      xs_creations := remove1 ?c [?c]\<rparr>)"
    using experts.reachable_step [OF _ expert_step.creation_written, of _ _ _ "?s\<lparr>xs_creations := [?c]\<rparr>"
        "''p''" expert_a AgenticMode definition_1 hash_1 "''u''" "''a''"] by simp
  then show ?thesis by (simp add: sample_system_def)
qed

section \<open>A delegation to an agent that is gone\<close>

text \<open>C39.
  The check that every delegated agent is active does not protect the delegation: it is made
  before the transaction that stores the agent, and the deletion of the target, which looks for
  agents that use it, sees none yet. A state is reachable in which an agent delegates to an agent
  that does not exist.
\<close>

theorem delegation_outlives_target:
  "\<exists>s b. sample_reachable s \<and> b \<in> set (xd_agents (xs_db s)) \<and> xa_deletedAt b = None
     \<and> list_ex (\<lambda>d. dg_enabled d \<and> find_expert (xa_projectId b) (dg_expertAgentId d) (xs_db s) = None)
         (ed_delegations (xa_definition b))"
proof -
  let ?a = "sample_row expert_a ''a'' definition_1 hash_1 0 None"
  let ?s = "sample_system [?a] [] []" and ?e = "sample_system [] [] []"
  let ?c = "(''p'', expert_b, AgenticMode, definition_3, hash_3)"
  let ?t = "sample_system [sample_row expert_b ''b'' definition_3 hash_3 0 None] [] []"
  have "create_check text_le sample_digest ''p'' expert_b AgenticMode (definition_3, 0) (xs_db ?s) = Inr (definition_3, hash_3)"
    by (simp add: create_check_def definitions_parsed hashes requireDelegationTargets_def sample_system_def
        sample_row_def sample_delegation_def)
  from experts.reachable_step [OF create_a_step expert_step.creation_checked [OF this]]
  have one: "sample_reachable (?s\<lparr>xs_creations := [?c]\<rparr>)" by (simp add: sample_system_def)
  have "delete_tx ''p'' expert_a (xs_db (?s\<lparr>xs_creations := [?c]\<rparr>)) = Inr (xs_db ?e)"
    by (simp add: delete_tx_def sample_system_def sample_row_def sample_owner_def active_expert_def find_expert_def
        find_unique_Cons expert_key_def of_option_def count_rows_def delete_rows_def Let_def)
  from experts.reachable_step [OF one expert_step.deleted [OF this]]
  have two: "sample_reachable (?e\<lparr>xs_creations := [?c]\<rparr>)" by (simp add: sample_system_def)
  have "create_write ''p'' expert_b ''u'' ''b'' AgenticMode (definition_3, hash_3) (xs_db (?e\<lparr>xs_creations := [?c]\<rparr>)) = Inr (xs_db ?t)"
    by (simp add: create_write_def sample_system_def sample_row_def sample_owner_def insert_row_def of_option_def)
  from experts.reachable_step [OF two expert_step.creation_written [OF _ this]]
  have "sample_reachable ?t" by (simp add: sample_system_def)
  then show ?thesis
    by (intro exI [of _ ?t] exI [of _ "sample_row expert_b ''b'' definition_3 hash_3 0 None"])
      (simp add: sample_system_def sample_row_def sample_delegation_def find_expert_def find_unique_Cons expert_key_def
        expert_a_def expert_b_def)
qed

section \<open>A Version and its test\<close>

definition sample_evidence :: "string \<Rightarrow> test_evidence" where
  "sample_evidence h = \<lparr>tv_agentDigest = h, tv_mode = ReleaseTest, tv_status = PassedTest, tv_summary = ''ok'',
     tv_assertions = [], tv_artifacts = [], tv_evaluationSuites = None, tv_startedAt = sample_iso 0,
     tv_finishedAt = Some (sample_iso 0)\<rparr>"

definition sample_test :: "string \<Rightarrow> string \<Rightarrow> int \<Rightarrow> int \<Rightarrow> test_run" where
  "sample_test i h n now = \<lparr>tn_projectId = ''p'', tn_id = i, tn_agentId = expert_a, tn_agentRevision = n, tn_contentDigest = h,
     tn_mode = ReleaseTest, tn_attempt = 1, tn_status = PassedTest, tn_evidence = sample_evidence h, tn_failureReason = None,
     tn_createdBy = ''u'', tn_createdAt = now\<rparr>"

definition version_1 :: version_row where
  "version_1 = projr (build_version text_le sample_digest sample_iso ''v1'' 1 1 ''u'' None
     (sample_row expert_a ''a'' definition_1 hash_1 0 None) (sample_test ''t1'' hash_1 0 1))"

definition version_2 :: version_row where
  "version_2 = projr (build_version text_le sample_digest sample_iso ''v2'' 2 2 ''u'' None
     (sample_row expert_a ''a'' definition_2 hash_2 1 (Some ''v1'')) (sample_test ''t2'' hash_2 1 2))"

lemma versions_built:
  "build_version text_le sample_digest sample_iso ''v1'' 1 1 ''u'' None
     (sample_row expert_a ''a'' definition_1 hash_1 0 None) (sample_test ''t1'' hash_1 0 1) = Inr version_1"
  "build_version text_le sample_digest sample_iso ''v2'' 2 2 ''u'' None
     (sample_row expert_a ''a'' definition_2 hash_2 1 (Some ''v1'')) (sample_test ''t2'' hash_2 1 2) = Inr version_2"
proof -
  have "\<not> isl (build_version text_le sample_digest sample_iso ''v1'' 1 1 ''u'' None
     (sample_row expert_a ''a'' definition_1 hash_1 0 None) (sample_test ''t1'' hash_1 0 1))"
    by code_simp
  then show "build_version text_le sample_digest sample_iso ''v1'' 1 1 ''u'' None
     (sample_row expert_a ''a'' definition_1 hash_1 0 None) (sample_test ''t1'' hash_1 0 1) = Inr version_1"
    by (simp add: version_1_def)
  have "\<not> isl (build_version text_le sample_digest sample_iso ''v2'' 2 2 ''u'' None
     (sample_row expert_a ''a'' definition_2 hash_2 1 (Some ''v1'')) (sample_test ''t2'' hash_2 1 2))"
    by code_simp
  then show "build_version text_le sample_digest sample_iso ''v2'' 2 2 ''u'' None
     (sample_row expert_a ''a'' definition_2 hash_2 1 (Some ''v1'')) (sample_test ''t2'' hash_2 1 2) = Inr version_2"
    by (simp add: version_2_def)
qed

lemma evidence_passes:
  "terminalTestEvidence (sample_evidence hash_1) = Inr (sample_evidence hash_1)"
  "terminalTestEvidence (sample_evidence hash_2) = Inr (sample_evidence hash_2)"
  by code_simp+

lemma hashes_differ: "hash_1 \<noteq> hash_2"
  by code_simp

lemma build_version_fields:
  assumes "build_version collate digest iso_text vid now n actor notes a t = Inr v"
  shows "vr_projectId v = xa_projectId a" "vr_id v = vid" "vr_agentId v = xa_id a" "vr_versionNumber v = n"
    "vr_contentDigest v = xa_contentDigest a"
  using assms by (auto simp: build_version_def res_simps)

lemmas version_fields [simp] = build_version_fields [OF versions_built(1)] build_version_fields [OF versions_built(2)]

lemma sample_row_fields [simp]:
  "xa_projectId (sample_row i slug d h n latest) = ''p''" "xa_id (sample_row i slug d h n latest) = i"
  "xa_executionMode (sample_row i slug d h n latest) = AgenticMode" "xa_revision (sample_row i slug d h n latest) = n"
  "xa_contentDigest (sample_row i slug d h n latest) = h" "xa_definition (sample_row i slug d h n latest) = d"
  "xa_latestReleasedVersionId (sample_row i slug d h n latest) = latest" "xa_deletedAt (sample_row i slug d h n latest) = None"
  "sample_row i slug d h n latest\<lparr>xa_latestReleasedVersionId := l\<rparr> = sample_row i slug d h n l"
  "expert_key (sample_row i slug d h n latest) = (''p'', i)"
  by (simp_all add: sample_row_def expert_key_def)

lemma sample_system_fields [simp]:
  "xd_agents (xs_db (sample_system as ts vs)) = as" "xd_tests (xs_db (sample_system as ts vs)) = ts"
  "xd_versions (xs_db (sample_system as ts vs)) = vs" "xs_updates (sample_system as ts vs) = []"
  by (simp_all add: sample_system_def)

text \<open>One update, one test and one publication of the agent, in any of the states below.\<close>

lemma history_update:
  assumes "sample_reachable (sample_system [sample_row expert_a ''a'' d h n l] ts vs)"
    and "expertAgentDefinitionInputSchema (d', n) = Inr (d', n)" and "mode_of (ed_execution d') = AgenticMode"
    and "ed_delegations d' = []" and "definition_digest text_le sample_digest expert_a d' = Inr h'"
    and "pr_name (ed_product d') = ''N''" and "pr_purpose (ed_product d') = ''P''"
  shows "sample_reachable (sample_system [sample_row expert_a ''a'' d' h' (n + 1) l] ts vs)"
proof -
  let ?s = "sample_system [sample_row expert_a ''a'' d h n l] ts vs"
  let ?c = "(''p'', expert_a, d', h', n)"
  have "update_check text_le sample_digest ''p'' expert_a (d', n) (xs_db ?s) = Inr (d', h', n)"
    using assms(2-5) by (simp add: update_check_def requireDelegationTargets_def requireAccessibleAgent_def
        active_expert_def find_expert_def find_unique_Cons of_option_def)
  from experts.reachable_step [OF assms(1) expert_step.update_checked [OF this]]
  have one: "sample_reachable (?s\<lparr>xs_updates := [?c]\<rparr>)" by simp
  have "update_write ''p'' expert_a ''u'' (d', h', n) (xs_db (?s\<lparr>xs_updates := [?c]\<rparr>))
      = Inr (xs_db (sample_system [sample_row expert_a ''a'' d' h' (n + 1) l] ts vs))"
    using assms(6,7) by (simp add: update_write_def sample_system_def sample_row_def sample_owner_def count_rows_def
        update_rows_def Let_def)
  from experts.reachable_step [OF one expert_step.update_written [OF _ this]]
  show ?thesis by (simp add: sample_system_def)
qed

lemma history_test:
  assumes "sample_reachable (sample_system [sample_row expert_a ''a'' d h n l] ts vs)"
    and "terminalTestEvidence (sample_evidence h) = Inr (sample_evidence h)"
    and "list_all (\<lambda>t. tn_id t \<noteq> i \<and> tn_agentRevision t \<noteq> n) ts"
  shows "sample_reachable (sample_system [sample_row expert_a ''a'' d h n l] (ts @ [sample_test i h n now]) vs)"
proof -
  let ?s = "sample_system [sample_row expert_a ''a'' d h n l] ts vs"
  have "filter (\<lambda>t. tn_projectId t = ''p'' \<and> tn_agentId t = expert_a \<and> tn_agentRevision t = n \<and> tn_mode t = ReleaseTest) ts = []"
    using assms(3) by (auto simp: filter_empty_conv list_all_iff)
  moreover have "find_unique test_key (''p'', expert_a, n, ReleaseTest, Suc 0) ts = None"
      "find_unique (\<lambda>t. (tn_projectId t, tn_id t)) (''p'', i) ts = None"
    using assms(3) by (auto simp: find_unique_None_iff list_all_iff test_key_def image_iff)
  ultimately have "record_tx i now ''p'' expert_a ''u'' n (sample_evidence h) (xs_db ?s)
      = Inr (sample_test i h n now, xs_db (sample_system [sample_row expert_a ''a'' d h n l] (ts @ [sample_test i h n now]) vs))"
    by (simp add: record_tx_def find_expert_def find_unique_Cons insert_row_def of_option_def Let_def sample_test_def
        sample_evidence_def max_attempt_def test_key_def sample_system_def)
  from experts.reachable_step [OF assms(1) expert_step.test_recorded [OF assms(2) this]]
  show ?thesis by (simp add: sample_system_def)
qed

lemma sample_ready:
  assumes "terminalTestEvidence (sample_evidence h) = Inr (sample_evidence h)"
  shows "assessExpertAgentPublishReadiness h (Some (sample_test i h m now))
      = \<lparr>rn_ready = True, rn_reason = ReadyToPublish, rn_testRunId = Some i\<rparr>"
proof -
  have "expertAgentTestEvidenceSchema (sample_evidence h) = Inr (sample_evidence h)"
    using assms by (auto simp: terminalTestEvidence_def res_simps)
  then show ?thesis
    by (simp add: assessExpertAgentPublishReadiness_def sample_test_def sample_evidence_def)
qed

lemma history_publish:
  assumes "sample_reachable (sample_system [sample_row expert_a ''a'' d h n l] ts vs)"
    and "latest_release_test ''p'' expert_a (xs_db (sample_system [sample_row expert_a ''a'' d h n l] ts vs)) = Some (sample_test i h m now)"
    and "terminalTestEvidence (sample_evidence h) = Inr (sample_evidence h)"
    and "list_all (\<lambda>v. vr_projectId v = ''p'' \<and> vr_agentId v = expert_a \<and> vr_contentDigest v \<noteq> h \<and> vr_id v \<noteq> vid
      \<and> vr_versionNumber v \<noteq> int (length vs) + 1) vs"
    and "build_version text_le sample_digest sample_iso vid t (int (length vs) + 1) ''u'' None (sample_row expert_a ''a'' d h n l)
      (sample_test i h m now) = Inr v"
  shows "sample_reachable (sample_system [sample_row expert_a ''a'' d h n (Some vid)] ts (vs @ [v]))"
proof -
  let ?s = "sample_system [sample_row expert_a ''a'' d h n l] ts vs"
  note ready = sample_ready [OF assms(3), of i m now]
  have all: "agent_versions ''p'' expert_a (xs_db ?s) = vs"
    using assms(4) by (simp add: agent_versions_def list_all_iff filter_id_conv)
  have none: "find (\<lambda>v. vr_contentDigest v = h) vs = None"
    using assms(4) by (auto simp: find_None_iff list_all_iff)
  have "insert_version v vs = Inr (vs @ [v])"
    using assms(4) build_version_fields [OF assms(5)]
    by (auto simp: insert_version_def of_option_def insert_row_def find_unique_None_iff list_all_iff res_bind_eq_Inr)
  then have "publish_tx text_le sample_digest sample_iso vid t ''p'' expert_a ''u'' n None (xs_db ?s)
      = Inr (v, xs_db (sample_system [sample_row expert_a ''a'' d h n (Some vid)] ts (vs @ [v])))"
    using assms(2,5) ready all none
    by (simp add: publish_tx_def active_expert_def find_expert_def find_unique_Cons of_option_def Let_def update_rows_def
        sample_system_def)
  from experts.reachable_step [OF assms(1) expert_step.published [OF this]]
  show ?thesis by (simp add: sample_system_def)
qed

section \<open>The history of an agent that returns to an earlier content\<close>

lemma step_1: "sample_reachable (sample_system [sample_row expert_a ''a'' definition_1 hash_1 0 None] [sample_test ''t1'' hash_1 0 1] [])"
  using history_test [OF create_a_step evidence_passes(1), of "''t1''" 1] by simp

lemma step_2: "sample_reachable (sample_system [sample_row expert_a ''a'' definition_1 hash_1 0 (Some ''v1'')]
    [sample_test ''t1'' hash_1 0 1] [version_1])"
proof -
  have "latest_release_test ''p'' expert_a (xs_db (sample_system [sample_row expert_a ''a'' definition_1 hash_1 0 None]
      [sample_test ''t1'' hash_1 0 1] [])) = Some (sample_test ''t1'' hash_1 0 1)"
    by (simp add: latest_release_test_def sample_test_def)
  from history_publish [OF step_1 this evidence_passes(1), of "''v1''" 1 version_1] show ?thesis
    by (simp add: versions_built)
qed

lemma step_3: "sample_reachable (sample_system [sample_row expert_a ''a'' definition_2 hash_2 1 (Some ''v1'')]
    [sample_test ''t1'' hash_1 0 1, sample_test ''t2'' hash_2 1 2] [version_1])"
proof -
  have "sample_reachable (sample_system [sample_row expert_a ''a'' definition_2 hash_2 1 (Some ''v1'')]
      [sample_test ''t1'' hash_1 0 1] [version_1])"
    using history_update [OF step_2 definitions_parsed(3) _ _ hashes(2)]
    by (simp add: definition_2_def sample_definition_def)
  from history_test [OF this evidence_passes(2), of "''t2''" 2] show ?thesis
    by (simp add: sample_test_def)
qed

lemma step_4: "sample_reachable (sample_system [sample_row expert_a ''a'' definition_2 hash_2 1 (Some ''v2'')]
    [sample_test ''t1'' hash_1 0 1, sample_test ''t2'' hash_2 1 2] [version_1, version_2])"
proof -
  have "latest_release_test ''p'' expert_a (xs_db (sample_system [sample_row expert_a ''a'' definition_2 hash_2 1 (Some ''v1'')]
      [sample_test ''t1'' hash_1 0 1, sample_test ''t2'' hash_2 1 2] [version_1])) = Some (sample_test ''t2'' hash_2 1 2)"
    by (simp add: latest_release_test_def sample_test_def newer_test_def)
  from history_publish [OF step_3 this evidence_passes(2), of "''v2''" 2 version_2] show ?thesis
    using hashes_differ by (simp add: versions_built)
qed

abbreviation reverted_system :: expert_system where
  "reverted_system \<equiv> sample_system [sample_row expert_a ''a'' definition_1 hash_1 2 (Some ''v2'')]
    [sample_test ''t1'' hash_1 0 1, sample_test ''t2'' hash_2 1 2, sample_test ''t3'' hash_1 2 3] [version_1, version_2]"

lemma step_5: "sample_reachable reverted_system"
proof -
  have "sample_reachable (sample_system [sample_row expert_a ''a'' definition_1 hash_1 2 (Some ''v2'')]
      [sample_test ''t1'' hash_1 0 1, sample_test ''t2'' hash_2 1 2] [version_1, version_2])"
    using history_update [OF step_4 definitions_parsed(2) _ _ hashes(1)]
    by (simp add: definition_1_def sample_definition_def)
  from history_test [OF this evidence_passes(1), of "''t3''" 3] show ?thesis
    by (simp add: sample_test_def)
qed

section \<open>The guarantees\<close>

text \<open>C13.
  What is published was tested. In every reachable state the content digest of a Version is the
  digest of its snapshot, and the test run its manifest names is stored: a release test of that
  agent that passed, whose evidence is for the same digest. No interleaving of updates, tests
  and publications publishes anything else.
\<close>

theorem published_version_was_tested:
  assumes "experts.reachable collate digest iso_text s" and "v \<in> set (xd_versions (xs_db s))"
  shows "expertAgentContentDigest collate digest (vr_snapshot v) = Inr (vr_contentDigest v)
    \<and> list_ex (\<lambda>t. tn_projectId t = vr_projectId v \<and> tn_agentId t = vr_agentId v \<and> tn_id t = mf_testRunId (vr_manifest v)
        \<and> tn_mode t = ReleaseTest \<and> tn_status t = PassedTest \<and> tn_contentDigest t = vr_contentDigest v
        \<and> tv_status (tn_evidence t) = PassedTest \<and> tv_agentDigest (tn_evidence t) = vr_contentDigest v)
      (xd_tests (xs_db s))"
  using experts_sound [OF assms(1)] assms(2) by (simp add: versions_sound_def tested_version_def)

lemma published_version_was_tested_witness:
  "sample_reachable reverted_system
    \<and> expertAgentContentDigest text_le sample_digest (vr_snapshot version_2) = Inr hash_2"
  using step_5 published_version_was_tested [OF step_5, of version_2] by simp

text \<open>C14.
  The Versions of an agent are numbered from one without a gap, no two have the same content,
  and the agent's latest Version is the last one published; an agent that does not exist has none.
\<close>

theorem versions_are_numbered:
  assumes "experts.reachable collate digest iso_text s"
  shows "map vr_versionNumber (agent_versions pid agent (xs_db s)) = [1..int (length (agent_versions pid agent (xs_db s)))]
    \<and> distinct (map vr_contentDigest (agent_versions pid agent (xs_db s)))
    \<and> (case find_expert pid agent (xs_db s) of
         None \<Rightarrow> agent_versions pid agent (xs_db s) = []
       | Some a \<Rightarrow> xa_latestReleasedVersionId a = last_version (agent_versions pid agent (xs_db s)))"
proof (cases "find_expert pid agent (xs_db s)")
  case None
  then have "agent_versions pid agent (xs_db s) = []"
    using experts_sound [OF assms] by (auto simp: versions_sound_def agent_versions_def filter_empty_conv find_expert_None)
  with None show ?thesis by simp
next
  case (Some a)
  then have "a \<in> set (xd_agents (xs_db s))" "expert_key a = (pid, agent)"
    unfolding find_expert_def by (blast dest: find_unique_in find_unique_key)+
  then show ?thesis
    using Some experts_numbered [OF assms] by (auto simp: versions_numbered_def Let_def expert_key_def)
qed

lemma versions_are_numbered_witness:
  "sample_reachable reverted_system \<and> map vr_versionNumber (agent_versions ''p'' expert_a (xs_db reverted_system)) = [1..2]
    \<and> distinct (map vr_contentDigest (agent_versions ''p'' expert_a (xs_db reverted_system)))"
  using step_5 versions_are_numbered [OF step_5, of "''p''" expert_a] by (simp add: agent_versions_def)


end
