(* ===== verification/Agent_Runtime.thy ===== *)
theory Agent_Runtime
  imports Expert_Guarantees
begin

text \<open>
  The runtime of a Version: \<open>BoundExpertAgentResources\<close> of
  \<open>apps/expert-agent-runtime/src/runtime-types.ts\<close>, \<open>enforceGrounding\<close> and \<open>ExpertAgentRuntime\<close> of
  \<open>expert-agent-runtime.ts\<close>, the digest of \<open>snapshot-integrity.ts\<close> and the evaluation of acceptance
  cases of \<open>evaluation-runner.ts\<close>. An engine is the calls it makes with what it does on each
  answer, so that it reaches resources only through the runtime; the client of the resources, the
  schema library and the case folding of the locale are arguments. Log records and the times in
  events are left out.
\<close>

section \<open>Requests and results\<close>

datatype execution_outcome = CompletedOutcome | NeedMoreInformation | UnknownOutcome | EscalatedOutcome | RejectedOutcome
  | FailedOutcome

record citation =
  ci_sourceId :: string
  ci_title :: string
  ci_uri :: "string option"
  ci_excerpt :: "string option"
  ci_revision :: "string option"

datatype trace_status = TraceStarted | TraceCompleted | TraceFailed | TraceSkipped

record runtime_trace =
  rt_step :: string
  rt_status :: trace_status
  rt_summary :: string
  rt_attributes :: json_record

datatype answer_artifact = DocumentArtifact answer_document | PatchArtifact answer_patch

record execution_result =
  rs_outcome :: execution_outcome
  rs_text :: string
  rs_data :: json_record
  rs_citations :: "citation list"
  rs_trace :: "runtime_trace list"
  rs_answer :: "answer_artifact option"

record execution_request =
  rq_messageId :: string
  rq_contextId :: string
  rq_text :: string
  rq_metadata :: json_record

record runtime_envelope =
  ev_versionId :: string
  ev_versionNumber :: int
  ev_contentDigest :: string
  ev_snapshot :: version_snapshot
  ev_manifest :: version_manifest

definition expertAgentRuntimeEnvelopeSchema :: "runtime_envelope \<Rightarrow> runtime_envelope res" where
  "expertAgentRuntimeEnvelopeSchema e =
     res_bind (non_empty (ev_versionId e)) (\<lambda>_.
     res_bind (positive_int (ev_versionNumber e)) (\<lambda>_.
     res_bind (sha256DigestSchema (ev_contentDigest e)) (\<lambda>_.
     res_bind (expertAgentVersionSnapshotSchema (ev_snapshot e)) (\<lambda>s.
     res_bind (expertAgentVersionManifestSchema (ev_manifest e)) (\<lambda>m.
     Inr (e\<lparr>ev_snapshot := s, ev_manifest := m\<rparr>))))))"

text \<open>The canonical form of \<open>snapshot-integrity.ts\<close> is that of the lifecycle, but for the texts of its errors.\<close>

definition runtimeVersionDigest ::
    "(string \<Rightarrow> string \<Rightarrow> bool) \<Rightarrow> (string \<Rightarrow> string) \<Rightarrow> version_snapshot \<Rightarrow> string res" where
  "runtimeVersionDigest collate digest v =
     res_bind (expertAgentVersionSnapshotSchema v) (\<lambda>v'. sha256 collate digest (snapshot_json v'))"

section \<open>Resources\<close>

datatype resource_call =
    McpToolCall string string json_record
  | KnowledgeSearch string string int
  | ModelCompletion string string string json_record string

definition requireBinding ::
    "version_snapshot \<Rightarrow> resource_kind \<Rightarrow> string \<Rightarrow> resource_access list \<Rightarrow> unit res" where
  "requireBinding v kind i allowed =
     (case find (\<lambda>b. rb_kind b = kind \<and> rb_resourceId b = i) (ed_resources (vs_definition v)) of
        Some b \<Rightarrow> if rb_access b \<in> set allowed then Inr ()
          else Inl (PlainError (''Version is not permitted to use '' @ resource_kind_text kind @ '':'' @ i @ ''.''))
      | None \<Rightarrow> Inl (PlainError (''Version is not permitted to use '' @ resource_kind_text kind @ '':'' @ i @ ''.'')))"

fun admit_call :: "version_snapshot \<Rightarrow> resource_call \<Rightarrow> unit res" where
  "admit_call v (McpToolCall serverId tool arguments) = requireBinding v McpServer serverId [ReadAccess, InvokeAccess]"
| "admit_call v (KnowledgeSearch dbId query limit) = requireBinding v KnowledgeVectorDatabase dbId [ReadAccess]"
| "admit_call v (ModelCompletion routing system user schema temperature) = requireBinding v ModelRouting routing [InvokeAccess]"

text \<open>An engine at work: it returns, throws, or calls a resource and goes on with the answer.\<close>

datatype engine_run =
    Return execution_result
  | Throw failure
  | Call resource_call "failure + js \<Rightarrow> engine_run"

text \<open>The client answers from the calls made so far; a refused call does not reach it.\<close>

primrec run_engine ::
    "(resource_call list \<Rightarrow> resource_call \<Rightarrow> failure + js) \<Rightarrow> version_snapshot \<Rightarrow> engine_run \<Rightarrow> resource_call list
     \<Rightarrow> execution_result res \<times> resource_call list" where
  "run_engine client v (Return r) calls = (Inr r, calls)"
| "run_engine client v (Throw e) calls = (Inl e, calls)"
| "run_engine client v (Call c continue) calls =
     (case admit_call v c of
        Inl e \<Rightarrow> run_engine client v (continue (Inl e)) calls
      | Inr _ \<Rightarrow> run_engine client v (continue (client calls c)) (calls @ [c]))"

section \<open>Grounding\<close>

definition requiresGrounding :: "runtime_envelope \<Rightarrow> bool" where
  "requiresGrounding e \<longleftrightarrow>
     pp_groundingPolicy (ed_policy (vs_definition (ev_snapshot e))) \<in> {RequiredGrounding, ToolGrounded}"

definition verified_grounding :: "json_record \<Rightarrow> bool" where
  "verified_grounding d \<longleftrightarrow> (case map_of d ''grounding'' of
     Some (JObj es) \<Rightarrow> map_of es ''verified'' = Some (JBool True) | _ \<Rightarrow> False)"

definition enforceGrounding :: "runtime_envelope \<Rightarrow> execution_result \<Rightarrow> execution_result" where
  "enforceGrounding e r =
     (if rs_outcome r \<noteq> CompletedOutcome \<or> \<not> requiresGrounding e \<or> rs_citations r \<noteq> [] \<or> verified_grounding (rs_data r)
      then r
      else \<lparr>rs_outcome = UnknownOutcome,
        rs_text = ''Relay withheld the answer because the required authoritative evidence could not be verified.'',
        rs_data = put_entry ''grounding'' (JObj [(''released'', JBool False), (''reason'', JStr ''REQUIRED_EVIDENCE_MISSING'')])
          (rs_data r),
        rs_citations = [],
        rs_trace = rs_trace r @ [\<lparr>rt_step = ''relay.grounding-gate'', rt_status = TraceFailed,
          rt_summary = ''Required evidence was missing; unsupported output was not released.'',
          rt_attributes = [(''policy'', JStr (grounding_text (pp_groundingPolicy (ed_policy (vs_definition (ev_snapshot e))))))]\<rparr>],
        rs_answer = None\<rparr>)"

section \<open>The runtime\<close>

record engine =
  en_mode :: execution_mode
  en_supports :: "version_snapshot \<Rightarrow> bool"
  en_execute :: "runtime_envelope \<Rightarrow> execution_request \<Rightarrow> engine_run"

record runtime =
  ru_envelope :: runtime_envelope
  ru_engine :: engine

definition select_engine :: "runtime_envelope \<Rightarrow> engine list \<Rightarrow> runtime res" where
  "select_engine e engines =
     (let mode = mode_of (ed_execution (vs_definition (ev_snapshot e)));
          matching = filter (\<lambda>x. en_mode x = mode \<and> en_supports x (ev_snapshot e)) engines in
      case matching of
        [x] \<Rightarrow> Inr \<lparr>ru_envelope = e, ru_engine = x\<rparr>
      | _ \<Rightarrow> Inl (PlainError (''Expected one execution engine for '' @ mode_text mode @ ''; found ''
          @ show_nat (length matching) @ ''.'')))"

definition start_runtime ::
    "(string \<Rightarrow> string \<Rightarrow> bool) \<Rightarrow> (string \<Rightarrow> string) \<Rightarrow> runtime_envelope \<Rightarrow> engine list \<Rightarrow> runtime res" where
  "start_runtime collate digest input engines =
     res_bind (expertAgentRuntimeEnvelopeSchema input) (\<lambda>e.
     res_bind (runtimeVersionDigest collate digest (ev_snapshot e)) (\<lambda>h.
     res_bind (ensure (h = ev_contentDigest e)
       (PlainError ''Expert Agent runtime refused a Version with an invalid digest.'')) (\<lambda>_.
     select_engine e engines)))"

datatype telemetry_event =
    RunStarted string string
  | RunFinished string string bool "string option" "(execution_outcome \<times> runtime_trace list \<times> citation list) option"

text \<open>
  The result, the calls that reached the client and the telemetry, whose failures are ignored: a
  run that starts reports one end.
\<close>

definition execute_run ::
    "(resource_call list \<Rightarrow> resource_call \<Rightarrow> failure + js) \<Rightarrow> runtime \<Rightarrow> execution_request
     \<Rightarrow> execution_result res \<times> resource_call list \<times> telemetry_event list" where
  "execute_run client ru request =
     (case run_engine client (ev_snapshot (ru_envelope ru)) (en_execute (ru_engine ru) (ru_envelope ru) request) [] of
        (Inr engineResult, calls) \<Rightarrow>
          (let r = enforceGrounding (ru_envelope ru) engineResult in
           (Inr r, calls, [RunStarted (rq_messageId request) (rq_contextId request),
             RunFinished (rq_messageId request) (rq_contextId request) (rs_outcome r \<noteq> FailedOutcome)
               (if rs_outcome r = FailedOutcome then Some ''ENGINE_FAILED'' else None)
               (Some (rs_outcome r, rs_trace r, rs_citations r))]))
      | (Inl e, calls) \<Rightarrow>
          (Inl e, calls, [RunStarted (rq_messageId request) (rq_contextId request),
             RunFinished (rq_messageId request) (rq_contextId request) False (Some ''ENGINE_EXCEPTION'') None]))"

section \<open>Evaluation of acceptance cases\<close>

record evaluation_observation =
  ob_status :: answer_status
  ob_output :: js
  ob_visitedNodeIds :: "string list"
  ob_citationSourceIds :: "string list"
  ob_changedBlockIds :: "string list"
  ob_unchangedBlockIds :: "string list"
  ob_toolCalls :: "string list"
  ob_delegatedExpertAgentIds :: "string list"
  ob_claims :: "string list"
  ob_sourceIds :: "string list"
  ob_semanticScore :: "string option"
  ob_traceId :: string
  ob_executionError :: "string option"

definition includesAll :: "string list \<Rightarrow> string list \<Rightarrow> bool" where
  "includesAll actual expected \<longleftrightarrow> list_all (\<lambda>x. x \<in> set actual) expected"

definition or_none :: "string list \<Rightarrow> string" where
  "or_none xs = (if xs = [] then ''none'' else join_with '', '' xs)"

text \<open>
  \<open>valid\<close> compiles a schema and validates a value: a schema that does not compile throws,
  otherwise the errors are those of the library as text. \<open>fold_case\<close> is \<open>toLocaleLowerCase\<close>.
\<close>

fun assertion_passes ::
    "(json_record \<Rightarrow> js \<Rightarrow> (bool \<times> string) res) \<Rightarrow> (string \<Rightarrow> string) \<Rightarrow> evaluation_assertion \<Rightarrow> evaluation_observation
     \<Rightarrow> (bool \<times> string) res" where
  "assertion_passes valid fold_case (StatusIs expected) ob = Inr (
     if ob_status ob = expected then (True, ''Status is '' @ answer_status_text expected @ ''.'')
     else (False, ''Expected '' @ answer_status_text expected @ ''; received '' @ answer_status_text (ob_status ob) @ ''.''))"
| "assertion_passes valid fold_case (ExecutionPath required forbidden) ob = Inr (
     let missing = filter (\<lambda>i. i \<notin> set (ob_visitedNodeIds ob)) required;
         present = filter (\<lambda>i. i \<in> set (ob_visitedNodeIds ob)) forbidden in
     if missing = [] \<and> present = [] then (True, ''Execution path matches the structural contract.'')
     else (False, ''Missing nodes: '' @ or_none missing @ ''; forbidden nodes: '' @ or_none present @ ''.''))"
| "assertion_passes valid fold_case (Citations required allowed) ob = Inr (
     let present = (ob_citationSourceIds ob \<noteq> []);
         inside = (case allowed of None \<Rightarrow> True | Some xs \<Rightarrow> list_all (\<lambda>i. i \<in> set xs) (ob_citationSourceIds ob)) in
     if present = required \<and> inside then (True, ''Citation policy passed.'')
     else (False, if \<not> inside then ''A citation references a source outside the allowlist.''
       else if required then ''A required citation is missing.'' else ''A forbidden citation was emitted.''))"
| "assertion_passes valid fold_case (OutputSchema schema) ob =
     res_bind (valid schema (ob_output ob)) (\<lambda>(passed, errors). Inr (passed,
       if passed then ''Output matches the required schema.'' else ''Output schema failed: '' @ errors @ ''.''))"
| "assertion_passes valid fold_case (BlockStability changed unchanged) ob = Inr (
     if includesAll (ob_changedBlockIds ob) changed \<and> includesAll (ob_unchangedBlockIds ob) unchanged
        \<and> list_all (\<lambda>i. i \<notin> set (ob_changedBlockIds ob)) unchanged
     then (True, ''Changed and stable AnswerBlocks match the patch contract.'')
     else (False, ''Observed AnswerBlock changes do not match the expected dependency set.''))"
| "assertion_passes valid fold_case (ToolInvocation tool minimum) ob = Inr (
     let count = length (filter (\<lambda>t. t = tool) (ob_toolCalls ob)) in
     if minimum \<le> int count then (True, tool @ '' was called '' @ show_nat count @ '' time(s).'')
     else (False, tool @ '' was called '' @ show_nat count @ '' time(s); expected at least '' @ show_int minimum @ ''.''))"
| "assertion_passes valid fold_case (Delegation expert required) ob = Inr (
     if (expert \<in> set (ob_delegatedExpertAgentIds ob)) = required then (True, ''Delegation behavior matches the contract.'')
     else (False, if required then ''Required Expert delegation did not occur.'' else ''A forbidden Expert delegation occurred.''))"
| "assertion_passes valid fold_case (Claims required forbidden) ob = Inr (
     let normal = (\<lambda>c. fold_case (js_trim c)); normalized = map normal (ob_claims ob);
         missing = filter (\<lambda>c. normal c \<notin> set normalized) required;
         present = filter (\<lambda>c. normal c \<in> set normalized) forbidden in
     if missing = [] \<and> present = [] then (True, ''Required and forbidden factual claims passed.'')
     else (False, ''Missing claims: '' @ or_none missing @ ''; forbidden claims: '' @ or_none present @ ''.''))"
| "assertion_passes valid fold_case (SemanticQuality rubric minimum) ob = Inr (
     case ob_semanticScore ob of
       None \<Rightarrow> (False, ''Semantic evaluator is unavailable; Relay did not invent a score.'')
     | Some score \<Rightarrow>
         if number_value minimum \<le> number_value score then (True, ''Semantic score '' @ score @ '' passed.'')
         else (False, ''Semantic score '' @ score @ '' is below '' @ minimum @ ''.''))"
| "assertion_passes valid fold_case (SourceCoverage required) ob = Inr (
     let missing = filter (\<lambda>i. i \<notin> set (ob_sourceIds ob)) required in
     if missing = [] then (True, ''Required source coverage passed.'')
     else (False, ''Required sources are missing: '' @ join_with '', '' missing @ ''.''))"

definition assertionResult ::
    "(json_record \<Rightarrow> js \<Rightarrow> (bool \<times> string) res) \<Rightarrow> (string \<Rightarrow> string) \<Rightarrow> evaluation_observation \<Rightarrow> evaluation_assertion
     \<Rightarrow> assertion_receipt res" where
  "assertionResult valid fold_case ob a =
     res_bind (assertion_passes valid fold_case a ob) (\<lambda>(passed, message).
       Inr \<lparr>at_type = assertion_type a, at_passed = passed, at_message = message\<rparr>)"

definition evaluateExpertAgentCase ::
    "(json_record \<Rightarrow> js \<Rightarrow> (bool \<times> string) res) \<Rightarrow> (string \<Rightarrow> string) \<Rightarrow> acceptance_case \<Rightarrow> evaluation_observation
     \<Rightarrow> case_receipt res" where
  "evaluateExpertAgentCase valid fold_case c ob =
     res_bind (case ac_assertions c of
         Some as \<Rightarrow> map_res (assertionResult valid fold_case ob) as
       | None \<Rightarrow> Inr [\<lparr>at_type = ''SEMANTIC_QUALITY'', at_passed = False,
           at_message = ''This legacy case has no executable structured assertions.''\<rparr>]) (\<lambda>rs.
     (let all = (if given (ob_executionError ob) then [\<lparr>at_type = ''EXECUTION'', at_passed = False,
           at_message = ''Version execution failed: '' @ the (ob_executionError ob)\<rparr>] else []) @ rs in
      Inr \<lparr>cr_caseId = ac_id c, cr_title = ac_title c, cr_required = ac_required c, cr_passed = list_all at_passed all,
        cr_traceId = ob_traceId ob, cr_assertions = all\<rparr>))"

record suite_result =
  su_suiteId :: string
  su_required :: bool
  su_passed :: bool
  su_requiredPassRate :: rat
  su_cases :: "case_receipt list"

text \<open>The cases run in the order of the suite; \<open>execute\<close> may throw.\<close>

definition runExpertAgentEvaluationSuite ::
    "(json_record \<Rightarrow> js \<Rightarrow> (bool \<times> string) res) \<Rightarrow> (string \<Rightarrow> string) \<Rightarrow> evaluation_suite \<Rightarrow> acceptance_case list \<Rightarrow> rat option
     \<Rightarrow> (acceptance_case \<Rightarrow> evaluation_observation res) \<Rightarrow> suite_result res" where
  "runExpertAgentEvaluationSuite valid fold_case suite cases minimum execute =
     res_bind (map_res (\<lambda>i.
         res_bind (of_option (PlainError (''Evaluation Suite references missing case '' @ i @ ''.''))
           (map_of (rev (map (\<lambda>c. (ac_id c, c)) cases)) i)) (\<lambda>c.
         res_bind (execute c) (evaluateExpertAgentCase valid fold_case c))) (es_caseIds suite)) (\<lambda>results.
     (let required = filter cr_required results;
          rate = (if required = [] then 1
            else of_nat (length (filter cr_passed required)) / of_nat (length required)) in
      Inr \<lparr>su_suiteId = es_id suite, su_required = es_required suite,
        su_passed = ((case minimum of None \<Rightarrow> 1 | Some m \<Rightarrow> m) \<le> rate), su_requiredPassRate = rate, su_cases = results\<rparr>))"

lemma filter_all_length: "length (filter P xs) = length xs \<longleftrightarrow> list_all P xs"
  by (induction xs) (auto simp: list_all_iff, metis Suc_n_not_le_n length_filter_le)

text \<open>With the default rate of one, a suite passes exactly if every required case passes.\<close>

lemma suite_passes_iff:
  assumes "runExpertAgentEvaluationSuite valid fold_case suite cases None execute = Inr r"
  shows "su_passed r \<longleftrightarrow> list_all cr_passed (filter cr_required (su_cases r))"
proof -
  obtain results where results: "su_cases r = results"
    and passed: "su_passed r \<longleftrightarrow> (1::rat) \<le> (if filter cr_required results = [] then 1
        else of_nat (length (filter cr_passed (filter cr_required results))) / of_nat (length (filter cr_required results)))"
    using assms by (auto simp: runExpertAgentEvaluationSuite_def res_simps Let_def)
  define R where "R = filter cr_required results"
  have "length (filter cr_passed R) \<le> length R" by (rule length_filter_le)
  then have "(1::rat) \<le> of_nat (length (filter cr_passed R)) / of_nat (length R)
      \<longleftrightarrow> length (filter cr_passed R) = length R" if "R \<noteq> []"
    using that by (subst pos_le_divide_eq) (auto intro: order_antisym)
  then have "((1::rat) \<le> (if R = [] then 1 else of_nat (length (filter cr_passed R)) / of_nat (length R)))
      \<longleftrightarrow> list_all cr_passed R"
    by (cases "R = []") (simp_all add: filter_all_length)
  then show ?thesis unfolding results passed R_def .
qed

section \<open>What a run respects\<close>

definition call_binding :: "resource_call \<Rightarrow> resource_kind \<times> string \<times> resource_access list" where
  "call_binding c = (case c of
     McpToolCall serverId tool arguments \<Rightarrow> (McpServer, serverId, [ReadAccess, InvokeAccess])
   | KnowledgeSearch dbId query limit \<Rightarrow> (KnowledgeVectorDatabase, dbId, [ReadAccess])
   | ModelCompletion routing system user schema temperature \<Rightarrow> (ModelRouting, routing, [InvokeAccess]))"

lemma admit_call_binding:
  "admit_call v c = Inr () \<Longrightarrow> list_ex (\<lambda>b. rb_kind b = fst (call_binding c) \<and> rb_resourceId b = fst (snd (call_binding c))
     \<and> rb_access b \<in> set (snd (snd (call_binding c)))) (ed_resources (vs_definition v))"
  by (cases c) (auto simp: requireBinding_def call_binding_def list_ex_iff find_Some_iff split: option.splits if_splits)

lemma run_engine_calls:
  "run_engine client v r calls = (x, calls') \<Longrightarrow> list_all (\<lambda>c. admit_call v c = Inr ()) calls
     \<Longrightarrow> list_all (\<lambda>c. admit_call v c = Inr ()) calls'"
proof (induction r arbitrary: calls)
  case (Call c continue)
  note ih = Call.IH [OF rangeI]
  show ?case
  proof (cases "admit_call v c")
    case (Inl e)
    with Call.prems ih show ?thesis by simp
  next
    case (Inr u)
    with Call.prems have "run_engine client v (continue (client calls c)) (calls @ [c]) = (x, calls')" by simp
    from ih [OF this] Call.prems(2) Inr show ?thesis by simp
  qed
qed auto

lemma grounded:
  "rs_outcome (enforceGrounding e r) = CompletedOutcome \<Longrightarrow>
     \<not> requiresGrounding e \<or> rs_citations (enforceGrounding e r) \<noteq> [] \<or> verified_grounding (rs_data (enforceGrounding e r))"
  by (auto simp: enforceGrounding_def split: if_splits)

text \<open>C18.
  A run keeps to its Version. The runtime starts only for a snapshot with the digest it was
  published under; whatever the engine does, every call that reaches the client is to a resource
  the Version binds with a sufficient access; and a result is released as completed under a
  policy that requires grounding only with citations or verified evidence.
\<close>

theorem run_keeps_to_version:
  assumes "start_runtime collate digest input engines = Inr ru"
    and "execute_run client ru request = (Inr r, calls, events)"
  shows "expertAgentContentDigest collate digest (ev_snapshot (ru_envelope ru)) = Inr (ev_contentDigest (ru_envelope ru))
    \<and> list_all (\<lambda>c. list_ex (\<lambda>b. rb_kind b = fst (call_binding c) \<and> rb_resourceId b = fst (snd (call_binding c))
        \<and> rb_access b \<in> set (snd (snd (call_binding c)))) (ed_resources (vs_definition (ev_snapshot (ru_envelope ru))))) calls
    \<and> (rs_outcome r \<noteq> CompletedOutcome \<or> \<not> requiresGrounding (ru_envelope ru) \<or> rs_citations r \<noteq> []
        \<or> verified_grounding (rs_data r))"
proof -
  obtain e where e: "runtimeVersionDigest collate digest (ev_snapshot e) = Inr (ev_contentDigest e)"
    and engine: "select_engine e engines = Inr ru"
    using assms(1) by (auto simp: start_runtime_def res_simps)
  from engine have "ru_envelope ru = e" by (auto simp: select_engine_def Let_def split: list.split_asm)
  with e have digest: "expertAgentContentDigest collate digest (ev_snapshot (ru_envelope ru)) = Inr (ev_contentDigest (ru_envelope ru))"
    by (simp add: runtimeVersionDigest_def expertAgentContentDigest_def)
  obtain x where run: "run_engine client (ev_snapshot (ru_envelope ru)) (en_execute (ru_engine ru) (ru_envelope ru) request) []
      = (Inr x, calls)" and r: "r = enforceGrounding (ru_envelope ru) x"
    using assms(2) by (auto simp: execute_run_def Let_def split: prod.splits sum.splits)
  have "list_all (\<lambda>c. admit_call (ev_snapshot (ru_envelope ru)) c = Inr ()) calls"
    using run_engine_calls [OF run] by simp
  then show ?thesis
    using digest grounded [of "ru_envelope ru" x] r admit_call_binding by (auto simp: list_all_iff)
qed

section \<open>A run that is withheld\<close>

text \<open>An engine that asks a model its Version does not bind, and answers from its own knowledge.\<close>

definition sample_engine :: engine where
  "sample_engine = \<lparr>en_mode = AgenticMode, en_supports = (\<lambda>_. True), en_execute = (\<lambda>e q.
     Call (ModelCompletion ''m'' ''system'' (rq_text q) [] ''0'') (\<lambda>answer. Return \<lparr>rs_outcome = CompletedOutcome, rs_text = ''Yes'',
       rs_data = [], rs_citations = [], rs_trace = [], rs_answer = None\<rparr>))\<rparr>"

definition sample_manifest :: version_manifest where
  "sample_manifest = (let h = ''sha256:'' @ replicate 64 CHR ''a'' in \<lparr>mf_agentId = ''a'', mf_versionId = ''v1'', mf_versionNumber = 1,
     mf_contentDigest = h, mf_executionMode = AgenticMode, mf_artifacts = [\<lparr>rf_kind = PromptArtifact, rf_mediaType = ''text'',
       rf_digest = h, rf_uri = ''u'', rf_sizeBytes = None, rf_metadata = []\<rparr>], mf_requirements = [], mf_testRunId = ''t1'',
     mf_testedDigest = h, mf_passedAt = sample_iso 0, mf_createdAt = sample_iso 0\<rparr>)"

definition sample_snapshot :: version_snapshot where
  "sample_snapshot = \<lparr>vs_agentId = expert_a, vs_definition = definition_1\<rparr>"

definition sample_envelope :: runtime_envelope where
  "sample_envelope = \<lparr>ev_versionId = ''v1'', ev_versionNumber = 1, ev_contentDigest = hash_1,
     ev_snapshot = sample_snapshot, ev_manifest = sample_manifest\<rparr>"

definition sample_request :: execution_request where
  "sample_request = \<lparr>rq_messageId = ''m1'', rq_contextId = ''c1'', rq_text = ''Q'', rq_metadata = []\<rparr>"

lemma sample_envelope_parsed: "expertAgentRuntimeEnvelopeSchema sample_envelope = Inr sample_envelope"
proof -
  have "sha256DigestSchema hash_1 = Inr hash_1" by code_simp
  moreover have "expertAgentVersionManifestSchema sample_manifest = Inr sample_manifest" by code_simp
  moreover have "expertAgentVersionSnapshotSchema sample_snapshot = Inr sample_snapshot" by code_simp
  ultimately show ?thesis
    by (simp add: expertAgentRuntimeEnvelopeSchema_def sample_envelope_def non_empty_def positive_int_def)
qed

lemma sample_snapshot_digest: "expertAgentContentDigest text_le sample_digest sample_snapshot = Inr hash_1"
proof -
  have "buildExpertAgentVersionSnapshot expert_a definition_1 = Inr sample_snapshot" by code_simp
  with hashes(1) show ?thesis by (simp add: definition_digest_def)
qed

lemma sample_envelope_facts:
  "mode_of (ed_execution (vs_definition (ev_snapshot sample_envelope))) = AgenticMode"
  "requiresGrounding sample_envelope" "ed_resources (vs_definition (ev_snapshot sample_envelope)) = []"
  by (simp_all add: sample_envelope_def sample_snapshot_def requiresGrounding_def definition_1_def sample_definition_def)

lemma run_keeps_to_version_witness:
  "\<exists>ru r calls events. start_runtime text_le sample_digest sample_envelope [sample_engine] = Inr ru
     \<and> execute_run (\<lambda>calls c. Inr JNull) ru sample_request = (Inr r, calls, events)
     \<and> calls = [] \<and> rs_outcome r = UnknownOutcome"
proof -
  let ?ru = "\<lparr>ru_envelope = sample_envelope, ru_engine = sample_engine\<rparr>"
  have "runtimeVersionDigest text_le sample_digest (ev_snapshot sample_envelope) = Inr (ev_contentDigest sample_envelope)"
    using sample_snapshot_digest by (simp add: runtimeVersionDigest_def expertAgentContentDigest_def sample_envelope_def)
  then have start: "start_runtime text_le sample_digest sample_envelope [sample_engine] = Inr ?ru"
    by (simp add: start_runtime_def sample_envelope_parsed select_engine_def sample_envelope_facts, simp add: sample_engine_def)
  obtain r calls events where run: "execute_run (\<lambda>calls c. Inr JNull) ?ru sample_request = (Inr r, calls, events)"
      and r: "rs_outcome r = UnknownOutcome"
    by (simp add: execute_run_def sample_engine_def requireBinding_def sample_envelope_facts enforceGrounding_def
        verified_grounding_def Let_def)
  have "calls = []"
    using run_keeps_to_version [OF start run] by (cases calls) (simp_all add: sample_envelope_facts)
  with start run r show ?thesis by blast
qed

end
