(* ===== verification/Spec2Isabelle.thy ===== *)
theory Spec2Isabelle
  imports Work_Guarantees Admission_Middleware Quota_Invariant Runtime_Fences Member_Guarantees
    Agent_Runtime
begin

text \<open>
  A verification development for the control plane of TaskLattice Relay, the server under
  \<open>src/apps/control/server\<close>, the contracts under \<open>src/packages/contracts/src\<close>, and the core of
  the runtime of its Expert Agents under \<open>src/apps/expert-agent-runtime/src\<close>.

  \<^bold>\<open>The program.\<close> Control is a server over one database. It decides who may do what in a
  Project (roles, capabilities, groups of an identity provider), keeps the shares of a
  Department that its Projects may use, runs Works (plans of tasks that Agents execute under a
  person's approval), keeps the definitions, tests and published Versions of Expert Agents, and
  makes workers create and remove what a Project needs in a cluster. The runtime of an Expert
  Agent is a process that runs one published Version.
  Requests and workers run concurrently and meet only in the database, where they use
  transactions, locked rows and compare-and-set updates.

  \<^bold>\<open>Theories, in the order they build on each other.\<close>

  \<^item> \<open>Prelude\<close>: results, loops over results, JavaScript strings, tables as lists of rows.
    \<open>Transition_Systems\<close>: the locales \<open>transition_system\<close> (reachable states, invariants, stable
    predicates) and \<open>simulation\<close>. \<open>Urls\<close>, \<open>Canonical_Json\<close>: what the code uses of the language
    on paths, and the canonical text behind every digest.
  \<^item> Works. \<open>Work_Contracts\<close> (\<open>contracts/src/works.ts\<close>), \<open>Work_Domain\<close> (\<open>works/work-domain.ts\<close>),
    \<open>Work_Store\<close> and \<open>Work_Service\<close> (\<open>works/work-service.ts\<close>), \<open>Work_Worker\<close>
    (\<open>works/work-worker.ts\<close>), \<open>Work_Texts\<close> (their messages). \<open>Work_System\<close> puts the
    transactions of requests and processes into one state machine in which they interleave at
    will and processes die; \<open>Work_Lifecycle\<close> is the abstract specification of one Work;
    \<open>Work_Refinement\<close> interprets \<open>simulation\<close> on the two, and \<open>Work_Guarantees\<close> reads the
    guarantees off it. \<open>Work_Scenario\<close> holds histories for the witnesses.
  \<^item> Authorization. \<open>Capabilities\<close> (\<open>contracts/src/authorization.ts\<close>), \<open>Role_Catalog\<close>
    (\<open>authorization/role-catalog.ts\<close>, \<open>builtin-roles.ts\<close>), \<open>Project_Access\<close>
    (\<open>projects/project-access.ts\<close>, \<open>departments/department-access.ts\<close>), \<open>Agent_Platforms\<close>,
    \<open>Route_Policy\<close> (the table of \<open>authorization/route-capabilities.ts\<close>), \<open>Http_Responses\<close>,
    \<open>Admission\<close> (\<open>authorization/admission-control.ts\<close>) and \<open>Admission_Middleware\<close>: from a
    request to the capabilities it needs and the decision over them.
  \<^item> Members. \<open>Member_Tables\<close>, \<open>External_Roles\<close> (\<open>auth/external-role-bindings.ts\<close>) and
    \<open>Project_Members\<close> (members and invitations of \<open>projects/project-service.ts\<close>,
    \<open>projects/personal-project.ts\<close>); \<open>Access_Invariant\<close> and \<open>Member_Guarantees\<close> are their
    state machine.
  \<^item> Quotas. \<open>Budget_Window\<close>, \<open>Department_Quotas\<close>, \<open>Quota_Sync\<close>
    (\<open>quotas/project-quota-service.ts\<close>, \<open>departments/department-settings-service.ts\<close>,
    \<open>departments/department-service.ts\<close>); \<open>Quota_Invariant\<close> with the locale \<open>bounding\<close>, which
    states once what keeps a sum of shares below a limit and is interpreted for budgets and for
    counted resources.
  \<^item> Runtime. \<open>Runtime_Targets\<close> (\<open>projects/project-runtime-target-service.ts\<close>),
    \<open>Resource_Operations\<close> (\<open>projects/resource-operation-service.ts\<close> and its worker),
    \<open>Project_Deletion\<close> (\<open>projects/project-deletion-service.ts\<close>); \<open>Runtime_Lifecycle\<close> is their
    state machine and \<open>Runtime_Fences\<close> its guarantees.
  \<^item> Expert Agents. \<open>Playbooks\<close> (\<open>playbook-runtime.ts\<close>, \<open>playbook-contract.ts\<close> of the runtime
    with the schema of a playbook), \<open>Answer_Documents\<close> (\<open>contracts/src/answer-documents.ts\<close>,
    \<open>answer-document.ts\<close>), \<open>Expert_Contracts\<close> (\<open>contracts/src/expert-agents.ts\<close>: schemas and
    the JSON that is hashed), \<open>Expert_Agents\<close> (\<open>expert-agents/expert-agent-domain.ts\<close>,
    \<open>expert-agent-lifecycle-service.ts\<close>); \<open>Expert_System\<close> interprets \<open>transition_system\<close> on
    the interleavings of its transactions, \<open>Expert_Guarantees\<close> reads the guarantees off it;
    \<open>Agent_Runtime\<close> (\<open>expert-agent-runtime.ts\<close>, \<open>runtime-types.ts\<close>,
    \<open>snapshot-integrity.ts\<close>, \<open>evaluation-runner.ts\<close>) runs a Version and evaluates its tests.

  \<^bold>\<open>How the code is modelled.\<close> A function of the source is a definition of the same name where
  HOL allows it; its error paths are \<open>Inl\<close> values with the source's message, status and code. A
  row of a table is a record with the columns the code reads or writes, a nested read
  (\<open>include\<close>) a record in a record. A transaction is a function from the tables to new tables
  or an error, which leaves the old ones; an operation of several transactions returns its
  outcome with the tables the committed ones leave. A state machine interleaves whole
  transactions: what a lock or a serializable row update of the database excludes is not a step.
  Reads outside a transaction are steps of their own where the code relies on them, which is how
  two creations of Projects can overtake each other.

  \<^bold>\<open>Arguments of the model\<close> are what is not under \<open>src\<close>: the digest and the collation, the
  clock and fresh identifiers, the calls to the cluster, the model, the model gateway, the mail
  server and the job queue with their outcomes, the session of the authentication library and
  the decoded payload of a token, the operators and signals of a playbook with the compiler of
  its value schemas, the engines and resource clients of an Agent, and the text of a date. No law is assumed of them except where a statement names it.

  \<^bold>\<open>Numbers.\<close> Money is counted in whole millionths of a dollar, as the database stores it; the
  rounding of JavaScript numbers is not modelled. Dates are integers of milliseconds. Strings
  are UTF-8 byte lists with the UTF-16 length of the source. All recursions are total: the
  search through a task graph carries the set of open nodes, the roll of a budget window has a
  measure, a run of a playbook has the bound of the code's own loop, one step for each node, and
  the retries of a node count down; no definition takes fuel of its own.

  \<^bold>\<open>What the properties show.\<close> Works: a plan that is applied is a finite acyclic graph that
  leaves final and running tasks alone; running tasks and open executions correspond; the model
  is asked at most once for an execution and its calls are accounted; results are published only
  under fence, lease and approval; outcomes are permanent; the log has no gaps. Authorization:
  every admitted request is covered by grants of an active role, capabilities stay within their
  scope, the route table asks for a capability with a side effect wherever a route writes.
  Members: access that no person gave is backed by a grant, a sign-in follows the groups of the
  token, a Project keeps a counted administrator. Quotas: the shares of a Department stay within
  its hard limits. Runtime: no creation runs for a deleted agent, a deleted Project stays down,
  a purge is complete. Expert Agents: a playbook is accepted
  exactly if it can be run, its runs end within the bound and complete where operators return; a
  patch of an answer changes what it names and recomputes what depends on it; Versions are
  tested and numbered, and a run keeps to its Version. The statements of kind error describe defects: a stopped execution
  revives its task, a role without an assignment acts, a revoked role can be resumed, the last
  administrator with access can leave, two creations exceed a limit, deleted agents count, a
  delegation outlives its target, an agent that returns to an earlier content cannot be
  published. Lemmas of the same weight stand beside the claims in each theory.

  \<^bold>\<open>Not modelled.\<close> The web interface and the OpenShell runner (rendering, processes and
  sandboxes: I/O); the Kubernetes, gateway and mail clients, the job queue and the
  authentication library (calls to outside systems, which appear as arguments); the persistence
  services of memories, providers, model routings, tools and traces, which store and forward
  records of those systems; the engines, servers and the LangGraph adapter of the Agent runtime,
  the prompts of drafts, tries and validations and the views of the developer; headers, logging
  and the timers of the workers; the generated database client and the migrations, whose unique
  keys and cascades are stated where used.
\<close>

end
